(* ===== verification/Prelude.thy ===== *)
theory Prelude
  imports Main "HOL-Library.AList"
begin

text \<open>
  Shared vocabulary of the development: the JavaScript containers the sources use
  (an insertion-ordered \<open>Map\<close> as an association list, a \<open>Set\<close> as a distinct list),
  \<open>Array.prototype.sort\<close> as a stable sort by a three-way comparator, \<open>slice(-n)\<close>, and the
  interfaces that several components share: a key/value store, a comparator and a
  state machine with an invariant.
\<close>

named_theorems js_simps

section \<open>Insertion-ordered maps\<close>

lemma option_eqI_iff: "(\<And>x. a = Some x \<longleftrightarrow> b = Some x) \<Longrightarrow> a = b"
  by (cases a; cases b) auto

text \<open>
  \<open>Map.get\<close> is \<open>map_of\<close>, \<open>Map.set\<close> is \<open>AList.update\<close> (an existing key keeps its place, a new
  key goes to the end) and \<open>Map.delete\<close> is \<open>AList.delete\<close>.
\<close>

type_synonym ('k, 'v) jsmap = "('k \<times> 'v) list"

abbreviation jm_get :: "('k, 'v) jsmap \<Rightarrow> 'k \<Rightarrow> 'v option" where
  "jm_get m k \<equiv> map_of m k"

abbreviation jm_set :: "'k \<Rightarrow> 'v \<Rightarrow> ('k, 'v) jsmap \<Rightarrow> ('k, 'v) jsmap" where
  "jm_set k v m \<equiv> AList.update k v m"

abbreviation jm_delete :: "'k \<Rightarrow> ('k, 'v) jsmap \<Rightarrow> ('k, 'v) jsmap" where
  "jm_delete k m \<equiv> AList.delete k m"

abbreviation jm_keys :: "('k, 'v) jsmap \<Rightarrow> 'k list" where
  "jm_keys m \<equiv> map fst m"

abbreviation jm_values :: "('k, 'v) jsmap \<Rightarrow> 'v list" where
  "jm_values m \<equiv> map snd m"

text \<open>The laws a client of a key/value store relies on.\<close>

locale key_store =
  fixes get :: "'s \<Rightarrow> 'k \<Rightarrow> 'v option"
    and put :: "'k \<Rightarrow> 'v \<Rightarrow> 's \<Rightarrow> 's"
    and remove :: "'k \<Rightarrow> 's \<Rightarrow> 's"
  assumes get_put: "get (put k v s) k' = (if k' = k then Some v else get s k')"
    and get_remove: "get (remove k s) k' = (if k' = k then None else get s k')"
begin

lemma get_put_same: "get (put k v s) k = Some v"
  by (simp add: get_put)

lemma get_put_other: "k' \<noteq> k \<Longrightarrow> get (put k v s) k' = get s k'"
  by (simp add: get_put)

lemma get_put_put: "get (put k v (put k w s)) k' = get (put k v s) k'"
  by (simp add: get_put)

lemma get_fold_put:
  "get (fold (\<lambda>x. put (f x) x) xs s) k' =
     (case find (\<lambda>x. f x = k') (rev xs) of None \<Rightarrow> get s k' | Some x \<Rightarrow> Some x)"
proof (induction xs rule: rev_induct)
  case Nil
  then show ?case by simp
next
  case (snoc x xs)
  then show ?case by (auto simp: get_put)
qed

lemma get_fold_remove:
  "get (fold remove ks s) k' = (if k' \<in> set ks then None else get s k')"
  by (induction ks arbitrary: s) (auto simp: get_remove)

end

interpretation jm: key_store map_of AList.update AList.delete
  by unfold_locales (simp_all add: update_conv' delete_conv')

lemma jm_keys_update_distinct: "distinct (jm_keys m) \<Longrightarrow> distinct (jm_keys (jm_set k v m))"
  by (rule distinct_update)

lemma jm_keys_delete_distinct: "distinct (jm_keys m) \<Longrightarrow> distinct (jm_keys (jm_delete k m))"
  by (rule distinct_delete)

lemma jm_keys_update_set: "set (jm_keys (jm_set k v m)) = insert k (set (jm_keys m))"
  by (induction m) auto

lemma jm_values_update_subset: "set (jm_set k v m) \<subseteq> insert (k, v) (set m)"
  by (induction m) auto

lemma jm_delete_subset: "set (jm_delete k m) \<subseteq> set m"
  by (auto simp: AList.delete_eq)

lemma distinct_keys_filter: "distinct (jm_keys m) \<Longrightarrow> distinct (jm_keys (filter P m))"
  by (simp add: distinct_map inj_on_def)

lemma jm_delete_absent: "k \<notin> set (jm_keys m) \<Longrightarrow> jm_delete k m = m"
  by (induction m) (auto simp: AList.delete_eq)

lemma jm_set_values_filter:
  "distinct (jm_keys m) \<Longrightarrow>
   set (jm_set k v m) = insert (k, v) {p \<in> set m. fst p \<noteq> k}"
  by (induction m) (force simp: image_iff)+

lemma jm_in_set_iff: "distinct (jm_keys m) \<Longrightarrow> (k, v) \<in> set m \<longleftrightarrow> map_of m k = Some v"
  by (auto simp: map_of_eq_Some_iff)

section \<open>Insertion-ordered sets and array slices\<close>

definition set_add :: "'a \<Rightarrow> 'a list \<Rightarrow> 'a list" where
  "set_add x xs = (if x \<in> set xs then xs else xs @ [x])"

definition js_uniq :: "'a list \<Rightarrow> 'a list" where
  \<comment> \<open>\<open>Array.from(new Set(xs))\<close>: first occurrences, in order.\<close>
  "js_uniq xs = foldl (\<lambda>s x. set_add x s) [] xs"

lemma set_set_add [simp]: "set (set_add x xs) = insert x (set xs)"
  by (auto simp: set_add_def)

lemma distinct_set_add [simp]: "distinct (set_add x xs) = distinct xs"
  by (auto simp: set_add_def)

lemma foldl_set_add_set: "set (foldl (\<lambda>s x. set_add x s) acc xs) = set acc \<union> set xs"
  by (induction xs arbitrary: acc) auto

lemma foldl_set_add_distinct:
  "distinct acc \<Longrightarrow> distinct (foldl (\<lambda>s x. set_add x s) acc xs)"
  by (induction xs arbitrary: acc) auto

lemma foldl_set_add_disjoint:
  "distinct xs \<Longrightarrow> set acc \<inter> set xs = {} \<Longrightarrow> foldl (\<lambda>s x. set_add x s) acc xs = acc @ xs"
proof (induction xs arbitrary: acc)
  case (Cons x xs)
  then have "set_add x acc = acc @ [x]" by (auto simp: set_add_def)
  with Cons show ?case by auto
qed simp

lemma set_js_uniq [simp]: "set (js_uniq xs) = set xs"
  by (simp add: js_uniq_def foldl_set_add_set)

lemma distinct_js_uniq [simp]: "distinct (js_uniq xs)"
  by (simp add: js_uniq_def foldl_set_add_distinct)

lemma js_uniq_id: "distinct xs \<Longrightarrow> js_uniq xs = xs"
  by (simp add: js_uniq_def foldl_set_add_disjoint)

lemma js_uniq_idem [simp]: "js_uniq (js_uniq xs) = js_uniq xs"
  by (simp add: js_uniq_id)

definition last_n :: "nat \<Rightarrow> 'a list \<Rightarrow> 'a list" where
  \<comment> \<open>\<open>xs.slice(-n)\<close> for positive \<open>n\<close>.\<close>
  "last_n n xs = drop (length xs - n) xs"

lemma length_last_n: "length (last_n n xs) = min n (length xs)"
  by (simp add: last_n_def)

lemma length_last_n_le [simp]: "length (last_n n xs) \<le> n"
  by (simp add: length_last_n)

lemma set_last_n: "set (last_n n xs) \<subseteq> set xs"
  by (simp add: last_n_def set_drop_subset)

lemma last_n_id: "length xs \<le> n \<Longrightarrow> last_n n xs = xs"
  by (simp add: last_n_def)

section \<open>Sorting by a comparator\<close>

text \<open>
  \<open>Array.prototype.sort\<close> is stable; a stable sort by a consistent comparator has exactly one
  result, so any stable algorithm models it.
\<close>

fun insort_cmp :: "('a \<Rightarrow> 'a \<Rightarrow> int) \<Rightarrow> 'a \<Rightarrow> 'a list \<Rightarrow> 'a list" where
  "insort_cmp cmp x [] = [x]"
| "insort_cmp cmp x (y # ys) =
     (if cmp x y \<le> 0 then x # y # ys else y # insort_cmp cmp x ys)"

fun js_sort :: "('a \<Rightarrow> 'a \<Rightarrow> int) \<Rightarrow> 'a list \<Rightarrow> 'a list" where
  "js_sort cmp [] = []"
| "js_sort cmp (x # xs) = insort_cmp cmp x (js_sort cmp xs)"

text \<open>\<open>x ?? d\<close>.\<close>

definition or_else :: "'a option \<Rightarrow> 'a \<Rightarrow> 'a" where
  "or_else x d = (case x of None \<Rightarrow> d | Some y \<Rightarrow> y)"

text \<open>\<open>a || b\<close> on the numbers that comparators return.\<close>

definition js_or :: "int \<Rightarrow> int \<Rightarrow> int" where
  "js_or a b = (if a \<noteq> 0 then a else b)"

lemma set_insort_cmp [simp]: "set (insort_cmp cmp x xs) = insert x (set xs)"
  by (induction xs) auto

lemma set_js_sort [simp]: "set (js_sort cmp xs) = set xs"
  by (induction xs) auto

lemma length_insort_cmp [simp]: "length (insort_cmp cmp x xs) = Suc (length xs)"
  by (induction xs) auto

lemma length_js_sort [simp]: "length (js_sort cmp xs) = length xs"
  by (induction xs) auto

lemma distinct_insort_cmp [simp]:
  "distinct (insort_cmp cmp x xs) \<longleftrightarrow> x \<notin> set xs \<and> distinct xs"
  by (induction xs) auto

lemma distinct_js_sort [simp]: "distinct (js_sort cmp xs) = distinct xs"
  by (induction xs) auto

lemma sum_list_insort_cmp:
  fixes f :: "'a \<Rightarrow> int"
  shows "sum_list (map f (insort_cmp cmp x xs)) = f x + sum_list (map f xs)"
  by (induction xs) auto

lemma sum_list_js_sort:
  fixes f :: "'a \<Rightarrow> int"
  shows "sum_list (map f (js_sort cmp xs)) = sum_list (map f xs)"
  by (induction xs) (auto simp: sum_list_insort_cmp)

lemma length_filter_insort_cmp:
  "length (filter P (insort_cmp cmp x xs)) = length (filter P (x # xs))"
  by (induction xs) auto

lemma length_filter_js_sort: "length (filter P (js_sort cmp xs)) = length (filter P xs)"
  by (induction xs) (auto simp: length_filter_insort_cmp)

locale comparator =
  fixes cmp :: "'a \<Rightarrow> 'a \<Rightarrow> int"
  assumes cmp_swap: "cmp x y \<le> 0 \<longleftrightarrow> 0 \<le> cmp y x"
    and cmp_trans: "cmp x y \<le> 0 \<Longrightarrow> cmp y z \<le> 0 \<Longrightarrow> cmp x z \<le> 0"
begin

lemma cmp_refl: "cmp x x \<le> 0"
  using cmp_swap [of x x] by linarith

lemma cmp_total: "\<not> cmp x y \<le> 0 \<Longrightarrow> cmp y x \<le> 0"
  using cmp_swap [of x y] cmp_swap [of y x] by linarith

lemma sorted_insort_cmp:
  "sorted_wrt (\<lambda>x y. cmp x y \<le> 0) xs \<Longrightarrow>
   sorted_wrt (\<lambda>x y. cmp x y \<le> 0) (insort_cmp cmp x xs)"
  by (induction xs) (auto intro: cmp_trans dest: cmp_total)

lemma sorted_js_sort: "sorted_wrt (\<lambda>x y. cmp x y \<le> 0) (js_sort cmp xs)"
  by (induction xs) (auto intro: sorted_insort_cmp)

lemma hd_js_sort_least: "x \<in> set xs \<Longrightarrow> cmp (hd (js_sort cmp xs)) x \<le> 0"
proof -
  assume x: "x \<in> set xs"
  then have ne: "js_sort cmp xs \<noteq> []"
    by (metis empty_iff list.set(1) set_js_sort)
  obtain y ys where eq: "js_sort cmp xs = y # ys"
    using ne by (cases "js_sort cmp xs") auto
  have "x \<in> set (y # ys)" using x by (metis eq set_js_sort)
  moreover have "\<forall>z \<in> set ys. cmp y z \<le> 0"
    using sorted_js_sort [of xs] by (simp add: eq)
  ultimately show ?thesis by (auto simp: eq cmp_refl)
qed

end

lemma filter_insort_cmp:
  assumes "comparator cmp"
  shows "sorted_wrt (\<lambda>x y. cmp x y \<le> 0) ys \<Longrightarrow>
    filter P (insort_cmp cmp x ys) = (if P x then insort_cmp cmp x (filter P ys) else filter P ys)"
proof (induction ys)
  case (Cons y ys)
  have head: "insort_cmp cmp x zs = x # zs" if "\<forall>z \<in> set zs. cmp x z \<le> 0" for zs
    using that by (cases zs) simp_all
  show ?case
  proof (cases "cmp x y \<le> 0")
    case True
    then have "\<forall>z \<in> set (filter P (y # ys)). cmp x z \<le> 0"
      using Cons.prems comparator.cmp_trans [OF assms] by auto
    then show ?thesis using True head by simp
  next
    case False
    then show ?thesis using Cons by auto
  qed
qed simp

lemma filter_js_sort:
  assumes "comparator cmp"
  shows "filter P (js_sort cmp xs) = js_sort cmp (filter P xs)"
  by (induction xs) (simp_all add: filter_insort_cmp [OF assms comparator.sorted_js_sort [OF assms]])

lemma comparator_diff: "comparator (\<lambda>x y. f x - (f y :: int))"
  by unfold_locales auto

lemma comparator_converse: "comparator c \<Longrightarrow> comparator (\<lambda>x y. c y x)"
  unfolding comparator_def by blast

lemma comparator_pullback: "comparator c \<Longrightarrow> comparator (\<lambda>x y. c (f x) (f y))"
  unfolding comparator_def by blast

lemma comparator_or:
  assumes "comparator c" and "comparator d"
  shows "comparator (\<lambda>x y. js_or (c x y) (d x y))"
proof -
  note cl = comparator.cmp_swap [OF assms(1)] comparator.cmp_trans [OF assms(1)]
  note dl = comparator.cmp_swap [OF assms(2)] comparator.cmp_trans [OF assms(2)]
  have zero: "c x y = 0 \<longleftrightarrow> c y x = 0" for x y
    using cl(1) [of x y] cl(1) [of y x] by linarith
  show ?thesis
  proof
    fix x y
    show "js_or (c x y) (d x y) \<le> 0 \<longleftrightarrow> 0 \<le> js_or (c y x) (d y x)"
      using zero [of x y] cl(1) [of x y] dl(1) [of x y] by (auto simp: js_or_def)
  next
    fix x y z
    assume xy: "js_or (c x y) (d x y) \<le> 0" and yz: "js_or (c y z) (d y z) \<le> 0"
    then have cxy: "c x y \<le> 0" and cyz: "c y z \<le> 0" by (auto simp: js_or_def split: if_splits)
    then have cxz: "c x z \<le> 0" by (rule cl(2))
    show "js_or (c x z) (d x z) \<le> 0"
    proof (cases "c x z = 0")
      case True
      have "c y x \<le> 0" using cl(2) [OF cyz, of x] cl(1) [of x z] cl(1) [of z x] True zero [of x z] by auto
      then have "c x y = 0" using cl(1) [of y x] cxy by linarith
      moreover have "c z y \<le> 0" using cl(2) [of z x y] cxy zero [of x z] True by auto
      then have "c y z = 0" using cl(1) [of z y] cyz by linarith
      ultimately have "d x y \<le> 0" and "d y z \<le> 0" using xy yz by (auto simp: js_or_def)
      then have "d x z \<le> 0" by (rule dl(2))
      with True show ?thesis by (simp add: js_or_def)
    next
      case False
      with cxz show ?thesis by (simp add: js_or_def)
    qed
  qed
qed

section \<open>State machines with an invariant\<close>

text \<open>
  The contract of a component whose every operation keeps an invariant: an operation is an
  event, a run is a list of events. Each component discharges the law once, operation by
  operation, and reads the statement about whole runs off the interpretation.
\<close>

locale machine =
  fixes step :: "'s \<Rightarrow> 'e \<Rightarrow> 's"
    and inv :: "'s \<Rightarrow> bool"
  assumes inv_step: "inv s \<Longrightarrow> inv (step s e)"
begin

lemma inv_run: "inv s \<Longrightarrow> inv (foldl step s es)"
  by (induction es arbitrary: s) (auto intro: inv_step)

lemma inv_run_prefix: "inv s \<Longrightarrow> inv (foldl step s (take n es))"
  by (rule inv_run)

end

text \<open>A machine with a relation that every step respects (a counter that never decreases,
  a status that never leaves a set): it relates the two ends of every run.\<close>

locale progress_machine = machine step inv
  for step :: "'s \<Rightarrow> 'e \<Rightarrow> 's" and inv :: "'s \<Rightarrow> bool" +
  fixes rel :: "'s \<Rightarrow> 's \<Rightarrow> bool"
  assumes rel_refl: "rel s s"
    and rel_trans: "rel s t \<Longrightarrow> rel t u \<Longrightarrow> rel s u"
    and rel_step: "inv s \<Longrightarrow> rel s (step s e)"
begin

lemma rel_run: "inv s \<Longrightarrow> rel s (foldl step s es)"
proof (induction es arbitrary: s)
  case Nil
  show ?case by (simp add: rel_refl)
next
  case (Cons e es)
  have "rel s (step s e)" using Cons.prems by (rule rel_step)
  moreover have "rel (step s e) (foldl step (step s e) es)"
    using Cons.prems by (intro Cons.IH inv_step)
  ultimately have "rel s (foldl step (step s e) es)" by (rule rel_trans)
  then show ?case by simp
qed

end

section \<open>Text\<close>

text \<open>\<open>toLowerCase\<close> on Latin-1 text, and \<open>includes\<close>.\<close>

definition lower_char :: "char \<Rightarrow> char" where
  "lower_char c = (let n = (of_char c :: nat) in
     if 65 \<le> n \<and> n \<le> 90 \<or> 192 \<le> n \<and> n \<le> 222 \<and> n \<noteq> 215 then char_of (n + 32) else c)"

fun starts_with :: "string \<Rightarrow> string \<Rightarrow> bool" where
  "starts_with s [] = True"
| "starts_with [] (p # ps) = False"
| "starts_with (c # s) (p # ps) = (c = p \<and> starts_with s ps)"

fun str_includes :: "string \<Rightarrow> string \<Rightarrow> bool" where
  "str_includes [] p = (p = [])"
| "str_includes (c # s) p = (starts_with (c # s) p \<or> str_includes s p)"

fun join_with :: "string \<Rightarrow> string list \<Rightarrow> string" where
  "join_with sep [] = []"
| "join_with sep [x] = x"
| "join_with sep (x # y # xs) = x @ sep @ join_with sep (y # xs)"

end
