(* ===== verification/Hash.thy ===== *)
theory Hash
  imports Prelude "HOL-Library.Word"
begin

text \<open>
  \<open>src/utils/hash.ts\<close>: UTF-8 encoding and decoding of JavaScript strings, and the SHA-256
  implementation every identifier of the program is built from. A JavaScript string is a list of
  16-bit code units, a \<open>Uint8Array\<close> a list of bytes, and the 32-bit arithmetic of the code
  (\<open>>>> 0\<close>, \<open>|\<close>, \<open>^\<close>, \<open>~\<close>, shifts) is arithmetic on 32-bit words.
\<close>

unbundle bit_operations_syntax

type_synonym code_unit = "16 word"
type_synonym byte = "8 word"
type_synonym u32 = "32 word"

text \<open>Latin-1 text as code units: how the identifiers of the other theories reach the hash.\<close>

definition units :: "string \<Rightarrow> code_unit list" where
  "units s = map (\<lambda>c. of_nat (of_char c)) s"

section \<open>UTF-8\<close>

definition is_high :: "code_unit \<Rightarrow> bool" where
  "is_high u \<longleftrightarrow> 0xd800 \<le> u \<and> u \<le> 0xdbff"

definition is_low :: "code_unit \<Rightarrow> bool" where
  "is_low u \<longleftrightarrow> 0xdc00 \<le> u \<and> u \<le> 0xdfff"

text \<open>\<open>0x10000 + ((codePoint - 0xd800) << 10) + (next - 0xdc00)\<close>.\<close>

definition pair_point :: "code_unit \<Rightarrow> code_unit \<Rightarrow> u32" where
  "pair_point hi lo = 0x10000 + push_bit 10 (ucast hi - 0xd800) + (ucast lo - 0xdc00)"

text \<open>The four branches that push bytes; \<open>new Uint8Array\<close> keeps the low eight bits.\<close>

definition encode_point :: "u32 \<Rightarrow> byte list" where
  "encode_point p = map ucast
     (if p < 0x80 then [p]
      else if p < 0x800 then [0xc0 OR drop_bit 6 p, 0x80 OR (p AND 0x3f)]
      else if p < 0x10000 then
        [0xe0 OR drop_bit 12 p, 0x80 OR (drop_bit 6 p AND 0x3f), 0x80 OR (p AND 0x3f)]
      else
        [0xf0 OR drop_bit 18 p, 0x80 OR (drop_bit 12 p AND 0x3f),
         0x80 OR (drop_bit 6 p AND 0x3f), 0x80 OR (p AND 0x3f)])"

fun encodeUtf8 :: "code_unit list \<Rightarrow> byte list" where
  "encodeUtf8 [] = []"
| "encodeUtf8 [u] = encode_point (ucast u)"
| "encodeUtf8 (u # v # us) =
     (if is_high u \<and> is_low v then encode_point (pair_point u v) @ encodeUtf8 us
      else encode_point (ucast u) @ encodeUtf8 (v # us))"

text \<open>
  Reading past the end of the array is \<open>undefined\<close>, and \<open>undefined & 0x3f\<close> is \<open>0\<close>;
  \<open>String.fromCharCode\<close> keeps the low sixteen bits.
\<close>

definition low6 :: "byte list \<Rightarrow> nat \<Rightarrow> u32" where
  "low6 bs i = (if i < length bs then ucast (bs ! i) AND 0x3f else 0)"

function decodeUtf8 :: "byte list \<Rightarrow> code_unit list" where
  "decodeUtf8 [] = []"
| "decodeUtf8 (b # bs) =
     (let first = ucast b :: u32 in
      if first < 0x80 then ucast first # decodeUtf8 bs
      else if first < 0xe0 then
        ucast (push_bit 6 (first AND 0x1f) OR low6 bs 0) # decodeUtf8 (drop 1 bs)
      else if first < 0xf0 then
        ucast ((push_bit 12 (first AND 0x0f) OR push_bit 6 (low6 bs 0)) OR low6 bs 1)
          # decodeUtf8 (drop 2 bs)
      else
        (let codePoint = ((push_bit 18 (first AND 0x07) OR push_bit 12 (low6 bs 0))
               OR push_bit 6 (low6 bs 1)) OR low6 bs 2;
             adjusted = codePoint - 0x10000
         in ucast (0xd800 + signed_drop_bit 10 adjusted)
              # ucast (0xdc00 + (adjusted AND 0x3ff)) # decodeUtf8 (drop 3 bs)))"
  by pat_completeness auto
termination
  by (relation "measure length") auto

subsection \<open>The bytes as numbers\<close>

lemma or_push_nat: "b < 2 ^ k \<Longrightarrow> push_bit k a OR b = 2 ^ k * a + (b :: nat)"
proof -
  assume b: "b < 2 ^ k"
  then have "take_bit k b = b" by (simp add: take_bit_nat_eq_self)
  then have "\<not> bit b n" if "k \<le> n" for n
    using that by (metis bit_take_bit_iff not_less)
  then have "push_bit k a AND b = 0"
    by (intro bit_eqI) (auto simp: bit_simps)
  then have "push_bit k a + b = push_bit k a OR b" by (rule disjunctive_add_eq_or)
  then show ?thesis by (simp add: push_bit_eq_mult mult.commute)
qed

lemma unat_or_push:
  assumes "unat (s :: u32) < 2 ^ k" and "2 ^ k * unat x < 2 ^ 32"
  shows "unat (push_bit k x OR s) = 2 ^ k * unat x + unat s"
proof -
  have "unat (push_bit k x) = push_bit k (unat x)"
    using assms(2) by (simp only: unsigned_push_bit_eq)
      (simp add: take_bit_nat_eq_self push_bit_eq_mult mult.commute)
  then show ?thesis by (simp add: unsigned_or_eq or_push_nat assms(1))
qed

lemma unat_and_masks [simp]:
  "unat ((w :: u32) AND 0x3f) = unat w mod 64"
  "unat ((w :: u32) AND 0x1f) = unat w mod 32"
  "unat ((w :: u32) AND 0x0f) = unat w mod 16"
  "unat ((w :: u32) AND 0x07) = unat w mod 8"
  "unat ((w :: u32) AND 0x3ff) = unat w mod 1024"
proof -
  have m: "unat (w AND mask n) = unat w mod 2 ^ n" for n
  proof -
    have "w AND mask n = take_bit n w" by (simp add: take_bit_eq_mask)
    moreover have "unat (take_bit n w) = take_bit n (unat w)" by (rule unsigned_take_bit_eq)
    ultimately show ?thesis by (simp add: take_bit_eq_mod [of n "unat w"])
  qed
  show "unat (w AND 0x3f) = unat w mod 64" using m [of 6] by (simp add: mask_eq_exp_minus_1)
  show "unat (w AND 0x1f) = unat w mod 32" using m [of 5] by (simp add: mask_eq_exp_minus_1)
  show "unat (w AND 0x0f) = unat w mod 16" using m [of 4] by (simp add: mask_eq_exp_minus_1)
  show "unat (w AND 0x07) = unat w mod 8" using m [of 3] by (simp add: mask_eq_exp_minus_1)
  show "unat (w AND 0x3ff) = unat w mod 1024" using m [of 10] by (simp add: mask_eq_exp_minus_1)
qed

lemma unat_prefix_or:
  "unat (s :: u32) < 32 \<Longrightarrow> unat (0xc0 OR s) = 192 + unat s"
  "unat (s :: u32) < 16 \<Longrightarrow> unat (0xe0 OR s) = 224 + unat s"
  "unat (s :: u32) < 8 \<Longrightarrow> unat (0xf0 OR s) = 240 + unat s"
  "unat (s :: u32) < 64 \<Longrightarrow> unat (0x80 OR s) = 128 + unat s"
  using unat_or_push [of s 5 "6"] unat_or_push [of s 4 "14"] unat_or_push [of s 3 "30"]
    unat_or_push [of s 6 "2"]
  by simp_all

lemma unat_drop_bits: "unat (drop_bit n (w :: u32)) = unat w div 2 ^ n"
  using unat_drop_bit_eq [of n w] by (simp add: drop_bit_eq_div [of n "unat w"])

lemma unat_byte_of: "unat (w :: u32) < 256 \<Longrightarrow> unat (ucast w :: byte) = unat w"
  by (simp add: unsigned_ucast_eq take_bit_nat_eq_self)

lemma unat_of_byte: "unat (ucast (b :: byte) :: u32) = unat b"
  by (simp add: unsigned_ucast_eq take_bit_nat_eq_self unsigned_less less_trans [OF unsigned_less])

lemma unat_of_unit: "unat (ucast (u :: code_unit) :: u32) = unat u"
  by (simp add: unsigned_ucast_eq take_bit_nat_eq_self unsigned_less less_trans [OF unsigned_less])

lemma unat_unit_of: "unat (w :: u32) < 65536 \<Longrightarrow> unat (ucast w :: code_unit) = unat w"
  by (simp add: unsigned_ucast_eq take_bit_nat_eq_self)

lemma unat_code_unit_less: "unat (u :: code_unit) < 65536"
  using unsigned_less [of u] by simp

lemma unat_byte_less: "unat (b :: byte) < 256"
  using unsigned_less [of b] by simp

lemmas to_nat = word_less_nat_alt word_le_nat_alt unat_of_byte unat_of_unit unat_byte_of
  unat_drop_bits unat_prefix_or

text \<open>The bytes of a code point, as numbers.\<close>

definition utf8_nats :: "nat \<Rightarrow> nat list" where
  "utf8_nats n =
     (if n < 128 then [n]
      else if n < 2048 then [192 + n div 64, 128 + n mod 64]
      else if n < 65536 then [224 + n div 4096, 128 + n div 64 mod 64, 128 + n mod 64]
      else [240 + n div 262144, 128 + n div 4096 mod 64, 128 + n div 64 mod 64, 128 + n mod 64])"

lemma unat_encode_point:
  assumes "unat p < 0x110000"
  shows "map unat (encode_point p) = utf8_nats (unat p)"
proof -
  have "unat p div 64 < 32" if "unat p < 2048" using that by (simp add: less_mult_imp_div_less)
  moreover have "unat p div 4096 < 16" if "unat p < 65536"
    using that by (simp add: less_mult_imp_div_less)
  moreover have "unat p div 262144 < 8" using assms by (simp add: less_mult_imp_div_less)
  ultimately show ?thesis
    by (auto simp: encode_point_def utf8_nats_def to_nat)
qed

subsection \<open>Round trip\<close>

lemma unat_low6 [simp]:
  "unat (low6 bs i) = (if i < length bs then unat (bs ! i) mod 64 else 0)"
  by (simp add: low6_def unat_of_byte)

lemma unat_low6_less: "unat (low6 bs i) < 64"
  by simp

lemma push_bit_or_u32:
  "push_bit (k + n) x OR push_bit n y = push_bit n (push_bit k x OR (y :: u32))"
  by (rule bit_word_eqI) (auto simp: bit_simps add.commute)

lemma unat_join_2:
  assumes "unat a < 64" and "unat x < 32"
  shows "unat (push_bit 6 x OR (a :: u32)) = 64 * unat x + unat a"
  using unat_or_push [of a 6 x] assms by simp

lemma unat_join_3:
  assumes "unat a < 64" and "unat b < 64" and "unat x < 16"
  shows "unat ((push_bit 12 x OR push_bit 6 b) OR (a :: u32)) =
     4096 * unat x + 64 * unat b + unat a"
proof -
  have e: "push_bit 12 x OR push_bit 6 b = push_bit 6 (push_bit 6 x OR b)"
    using push_bit_or_u32 [of 6 6 x b] by simp
  have u: "unat (push_bit 6 x OR b) = 64 * unat x + unat b"
    using unat_or_push [of b 6 x] assms by simp
  show ?thesis unfolding e using unat_or_push [of a 6 "push_bit 6 x OR b"] u assms by simp
qed

lemma unat_join_4:
  assumes "unat a < 64" and "unat b < 64" and "unat c < 64" and "unat x < 8"
  shows "unat (((push_bit 18 x OR push_bit 12 c) OR push_bit 6 b) OR (a :: u32)) =
     262144 * unat x + 4096 * unat c + 64 * unat b + unat a"
proof -
  have e1: "push_bit 18 x OR push_bit 12 c = push_bit 6 (push_bit 6 (push_bit 6 x OR c))"
    using push_bit_or_u32 [of 6 12 x c] by simp
  have e2: "(push_bit 18 x OR push_bit 12 c) OR push_bit 6 b =
      push_bit 6 (push_bit 6 (push_bit 6 x OR c) OR b)"
    unfolding e1 by (rule bit_word_eqI) (auto simp: bit_simps)
  have u1: "unat (push_bit 6 x OR c) = 64 * unat x + unat c"
    using unat_or_push [of c 6 x] assms by simp
  have u2: "unat (push_bit 6 (push_bit 6 x OR c) OR b) = 4096 * unat x + 64 * unat c + unat b"
    using unat_or_push [of b 6 "push_bit 6 x OR c"] u1 assms by simp
  show ?thesis unfolding e2
    using unat_or_push [of a 6 "push_bit 6 (push_bit 6 x OR c) OR b"] u2 assms by simp
qed

lemma unat_signed_drop_10:
  assumes "unat (w :: u32) < 2 ^ 31"
  shows "unat (signed_drop_bit 10 w) = unat w div 1024"
proof -
  have "bit (unat w) 31 \<longleftrightarrow> bit w 31" by (simp add: bit_unsigned_iff)
  then have "\<not> bit w 31" using assms by (simp add: bit_iff_odd [of "unat w"])
  then have "signed_drop_bit 10 w = drop_bit 10 w"
    by (intro bit_word_eqI) (auto simp: bit_simps dest: bit_imp_le_length)
  then show ?thesis by (simp add: unat_drop_bits)
qed

lemma map_unat_cases:
  "map unat bs = [] \<longleftrightarrow> bs = []"
  "map unat bs = n # ns \<longleftrightarrow> (\<exists>b cs. bs = b # cs \<and> unat b = n \<and> map unat cs = ns)"
  by (cases bs; auto)+

lemma strip_prefix:
  "(q :: nat) < 32 \<Longrightarrow> (192 + q) mod 32 = q"
  "(q :: nat) < 16 \<Longrightarrow> (224 + q) mod 16 = q"
  "(q :: nat) < 8 \<Longrightarrow> (240 + q) mod 8 = q"
  "(128 + q mod 64) mod 64 = q mod (64 :: nat)"
proof -
  have m: "(k * m + r) mod m = r" if "r < m" for k m r :: nat
    using that by simp
  show "q < 32 \<Longrightarrow> (192 + q) mod 32 = q" using m [of q 32 6] by simp
  show "q < 16 \<Longrightarrow> (224 + q) mod 16 = q" using m [of q 16 14] by simp
  show "q < 8 \<Longrightarrow> (240 + q) mod 8 = q" using m [of q 8 30] by simp
  show "(128 + q mod 64) mod 64 = q mod 64" using m [of "q mod 64" 64 2] by simp
qed

lemma split_3: "4096 * (n div 4096) + 64 * (n div 64 mod 64) + n mod 64 = (n :: nat)"
proof -
  have "n div 4096 = n div 64 div 64" by (simp flip: div_mult2_eq)
  then have "64 * (n div 4096) + n div 64 mod 64 = n div 64" by simp
  then show ?thesis using mult_div_mod_eq [of 64 n] by linarith
qed

lemma split_4:
  "262144 * (n div 262144) + 4096 * (n div 4096 mod 64) + 64 * (n div 64 mod 64) + n mod 64
     = (n :: nat)"
proof -
  have "n div 262144 = n div 4096 div 64" by (simp flip: div_mult2_eq)
  then have "64 * (n div 262144) + n div 4096 mod 64 = n div 4096" by simp
  then show ?thesis using split_3 [of n] by linarith
qed

lemma decode_encode_unit:
  "decodeUtf8 (encode_point (ucast (u :: code_unit)) @ bs) = u # decodeUtf8 bs"
proof -
  let ?n = "unat u"
  have n: "?n < 65536" by (rule unat_code_unit_less)
  have e: "map unat (encode_point (ucast u)) = utf8_nats ?n"
    using unat_encode_point [of "ucast u"] n by (simp add: unat_of_unit)
  have eqI: "ucast w = u" if "unat w = ?n" for w :: u32
    using that n by (intro word_unat_eq_iff [THEN iffD2]) (simp add: unat_unit_of)
  consider (1) "?n < 128" | (2) "128 \<le> ?n" "?n < 2048" | (3) "2048 \<le> ?n" by linarith
  then show ?thesis
  proof cases
    case 1
    then obtain b where b: "encode_point (ucast u) = [b]" "unat b = ?n"
      using e by (auto simp: utf8_nats_def map_unat_cases)
    then show ?thesis using 1 by (simp add: to_nat eqI)
  next
    case 2
    then obtain b c where b: "encode_point (ucast u) = [b, c]"
        "unat b = 192 + ?n div 64" "unat c = 128 + ?n mod 64"
      using e by (auto simp: utf8_nats_def map_unat_cases)
    have "?n div 64 < 32" using 2 by (simp add: less_mult_imp_div_less)
    then have "unat (push_bit 6 (ucast b AND 0x1f :: u32) OR low6 (c # bs) 0) = ?n"
      using b by (subst unat_join_2) (simp_all add: unat_of_byte strip_prefix)
    with \<open>?n div 64 < 32\<close> b show ?thesis by (simp add: to_nat eqI)
  next
    case 3
    then obtain b c d where b: "encode_point (ucast u) = [b, c, d]"
        "unat b = 224 + ?n div 4096" "unat c = 128 + ?n div 64 mod 64" "unat d = 128 + ?n mod 64"
      using e n by (auto simp: utf8_nats_def map_unat_cases)
    have lt: "?n div 4096 < 16" using n by (simp add: less_mult_imp_div_less)
    then have "unat ((push_bit 12 (ucast b AND 0x0f :: u32) OR push_bit 6 (low6 (c # d # bs) 0))
        OR low6 (c # d # bs) 1) = ?n"
      using b by (subst unat_join_3) (simp_all add: unat_of_byte strip_prefix split_3)
    with lt b show ?thesis by (simp add: to_nat eqI)
  qed
qed

lemma unat_pair_point:
  assumes "is_high hi" and "is_low lo"
  shows "unat (pair_point hi lo) = 65536 + 1024 * (unat hi - 55296) + (unat lo - 56320)"
    and "unat (pair_point hi lo) < 0x110000"
proof -
  have hi: "55296 \<le> unat hi" "unat hi \<le> 56319"
    using assms(1) by (simp_all add: is_high_def word_le_nat_alt)
  have lo: "56320 \<le> unat lo" "unat lo \<le> 57343"
    using assms(2) by (simp_all add: is_low_def word_le_nat_alt)
  have h: "unat (ucast hi - 0xd800 :: u32) = unat hi - 55296"
    using hi by (subst unat_sub) (simp_all add: word_le_nat_alt unat_of_unit)
  have l: "unat (ucast lo - 0xdc00 :: u32) = unat lo - 56320"
    using lo by (subst unat_sub) (simp_all add: word_le_nat_alt unat_of_unit)
  have p: "unat (push_bit 10 (ucast hi - 0xd800 :: u32)) = 1024 * (unat hi - 55296)"
    using unat_or_push [of 0 10 "ucast hi - 0xd800 :: u32"] h hi by simp
  have a: "unat (0x10000 + push_bit 10 (ucast hi - 0xd800 :: u32)) = 65536 + 1024 * (unat hi - 55296)"
    using p hi by (subst unat_add_lem [THEN iffD1]) simp_all
  show e: "unat (pair_point hi lo) = 65536 + 1024 * (unat hi - 55296) + (unat lo - 56320)"
    unfolding pair_point_def using a l hi lo by (subst unat_add_lem [THEN iffD1]) simp_all
  show "unat (pair_point hi lo) < 0x110000" using e hi lo by simp
qed

lemma decode_encode_pair:
  assumes "is_high hi" and "is_low lo"
  shows "decodeUtf8 (encode_point (pair_point hi lo) @ bs) = hi # lo # decodeUtf8 bs"
proof -
  let ?n = "unat (pair_point hi lo)"
  note pn = unat_pair_point [OF assms]
  have hi: "55296 \<le> unat hi" "unat hi \<le> 56319"
    using assms(1) by (simp_all add: is_high_def word_le_nat_alt)
  have lo: "56320 \<le> unat lo" "unat lo \<le> 57343"
    using assms(2) by (simp_all add: is_low_def word_le_nat_alt)
  have e: "map unat (encode_point (pair_point hi lo)) = utf8_nats ?n"
    by (rule unat_encode_point) (rule pn(2))
  have ge: "65536 \<le> ?n" using pn(1) by simp
  obtain b c d f where b: "encode_point (pair_point hi lo) = [b, c, d, f]"
      "unat b = 240 + ?n div 262144" "unat c = 128 + ?n div 4096 mod 64"
      "unat d = 128 + ?n div 64 mod 64" "unat f = 128 + ?n mod 64"
    using e ge by (auto simp: utf8_nats_def map_unat_cases)
  have lt: "?n div 262144 < 8" using pn(2) by (simp add: less_mult_imp_div_less)
  define cp where "cp = ((push_bit 18 (ucast b AND 0x07 :: u32) OR push_bit 12 (low6 (c # d # f # bs) 0))
      OR push_bit 6 (low6 (c # d # f # bs) 1)) OR low6 (c # d # f # bs) 2"
  have cp: "unat cp = ?n"
    unfolding cp_def using b lt
    by (subst unat_join_4) (simp_all add: unat_of_byte strip_prefix split_4)
  define adj where "adj = cp - 0x10000"
  have adj: "unat adj = 1024 * (unat hi - 55296) + (unat lo - 56320)"
    unfolding adj_def using cp ge pn(1) by (subst unat_sub) (simp_all add: word_le_nat_alt)
  have lo2: "unat lo - 56320 < 1024" using lo by linarith
  have q: "unat adj div 1024 = unat hi - 55296" and r: "unat adj mod 1024 = unat lo - 56320"
    unfolding adj using lo2 by (simp_all only: div_mult_self4 mod_mult_self4) simp_all
  have "unat (0xd800 + signed_drop_bit 10 adj) = unat hi"
    using hi lo adj q by (subst unat_add_lem [THEN iffD1]) (simp_all add: unat_signed_drop_10)
  then have hi': "ucast (0xd800 + signed_drop_bit 10 adj) = hi"
    using unat_code_unit_less [of hi]
    by (intro word_unat_eq_iff [THEN iffD2]) (simp add: unat_unit_of)
  have "unat (0xdc00 + (adj AND 0x3ff)) = unat lo"
    using lo r by (subst unat_add_lem [THEN iffD1]) simp_all
  then have lo': "ucast (0xdc00 + (adj AND 0x3ff)) = lo"
    using unat_code_unit_less [of lo]
    by (intro word_unat_eq_iff [THEN iffD2]) (simp add: unat_unit_of)
  have br: "\<not> (ucast b :: u32) < 0x80" "\<not> (ucast b :: u32) < 0xe0" "\<not> (ucast b :: u32) < 0xf0"
    using b(2) by (simp_all add: to_nat)
  show ?thesis
    using br hi' lo' unfolding b(1) adj_def cp_def by (simp add: Let_def numeral_2_eq_2 numeral_3_eq_3)
qed

lemma decode_encode_append: "decodeUtf8 (encodeUtf8 s @ []) = s"
proof (induction s rule: encodeUtf8.induct)
  case 1
  then show ?case by simp
next
  case (2 u)
  then show ?case using decode_encode_unit [of u "[]"] by simp
next
  case (3 u v us)
  then show ?case by (auto simp: decode_encode_unit decode_encode_pair)
qed

text \<open>Decoding the UTF-8 bytes of any JavaScript string gives the string back: surrogate
  pairs are joined and split again, and lone surrogates survive as three-byte sequences, so the
  encoder never identifies two strings.\<close>

theorem utf8_roundtrip: "decodeUtf8 (encodeUtf8 s) = s"
  using decode_encode_append by simp

lemma encodeUtf8_inj: "encodeUtf8 s = encodeUtf8 t \<Longrightarrow> s = t"
  using decode_encode_append by (metis append_Nil2)

section \<open>SHA-256\<close>

definition rightRotate :: "u32 \<Rightarrow> nat \<Rightarrow> u32" where
  "rightRotate v bits = drop_bit bits v OR push_bit (32 - bits) v"

text \<open>The eight rows of the table.\<close>

definition sha_constants :: "u32 list" where
  "sha_constants = concat [
     [0x428a2f98, 0x71374491, 0xb5c0fbcf, 0xe9b5dba5, 0x3956c25b, 0x59f111f1, 0x923f82a4, 0xab1c5ed5],
     [0xd807aa98, 0x12835b01, 0x243185be, 0x550c7dc3, 0x72be5d74, 0x80deb1fe, 0x9bdc06a7, 0xc19bf174],
     [0xe49b69c1, 0xefbe4786, 0x0fc19dc6, 0x240ca1cc, 0x2de92c6f, 0x4a7484aa, 0x5cb0a9dc, 0x76f988da],
     [0x983e5152, 0xa831c66d, 0xb00327c8, 0xbf597fc7, 0xc6e00bf3, 0xd5a79147, 0x06ca6351, 0x14292967],
     [0x27b70a85, 0x2e1b2138, 0x4d2c6dfc, 0x53380d13, 0x650a7354, 0x766a0abb, 0x81c2c92e, 0x92722c85],
     [0xa2bfe8a1, 0xa81a664b, 0xc24b8b70, 0xc76c51a3, 0xd192e819, 0xd6990624, 0xf40e3585, 0x106aa070],
     [0x19a4c116, 0x1e376c08, 0x2748774c, 0x34b0bcb5, 0x391c0cb3, 0x4ed8aa4a, 0x5b9cca4f, 0x682e6ff3],
     [0x748f82ee, 0x78a5636f, 0x84c87814, 0x8cc70208, 0x90befffa, 0xa4506ceb, 0xbef9a3f7, 0xc67178f2]]"

type_synonym regs = "u32 \<times> u32 \<times> u32 \<times> u32 \<times> u32 \<times> u32 \<times> u32 \<times> u32"

definition sha_init :: regs where
  "sha_init = (0x6a09e667, 0xbb67ae85, 0x3c6ef372, 0xa54ff53a,
     0x510e527f, 0x9b05688c, 0x1f83d9ab, 0x5be0cd19)"

definition be32 :: "u32 \<Rightarrow> byte list" where
  "be32 w = [ucast (drop_bit 24 w), ucast (drop_bit 16 w), ucast (drop_bit 8 w), ucast w]"

definition getUint32 :: "byte list \<Rightarrow> nat \<Rightarrow> u32" where
  "getUint32 bs i =
     push_bit 24 (ucast (bs ! i)) OR push_bit 16 (ucast (bs ! (i + 1)))
     OR push_bit 8 (ucast (bs ! (i + 2))) OR ucast (bs ! (i + 3))"

definition paddedLength :: "nat \<Rightarrow> nat" where
  "paddedLength n = ((n + 9 + 63) div 64) * 64"

text \<open>The zero-filled buffer, the message, the \<open>0x80\<close> marker, and the bit length written by
  \<open>setUint32\<close> (which keeps 32 bits of it) over the last four bytes.\<close>

definition sha_pad :: "byte list \<Rightarrow> byte list" where
  "sha_pad msg =
     (let n = length msg; p = paddedLength n
      in take (p - 4) (msg @ 0x80 # replicate (p - n - 1) 0) @ be32 (of_nat (n * 8)))"

definition sha_schedule :: "byte list \<Rightarrow> u32 list" where
  "sha_schedule block =
     foldl (\<lambda>w i.
       let s0 = rightRotate (w ! (i - 15)) 7 XOR rightRotate (w ! (i - 15)) 18
                  XOR drop_bit 3 (w ! (i - 15));
           s1 = rightRotate (w ! (i - 2)) 17 XOR rightRotate (w ! (i - 2)) 19
                  XOR drop_bit 10 (w ! (i - 2))
       in w @ [w ! (i - 16) + s0 + w ! (i - 7) + s1])
       (map (\<lambda>i. getUint32 block (i * 4)) [0..<16]) [16..<64]"

fun sha_round :: "regs \<Rightarrow> u32 \<times> u32 \<Rightarrow> regs" where
  "sha_round (a, b, c, d, e, f, g, h) (k, w) =
     (let s1 = rightRotate e 6 XOR rightRotate e 11 XOR rightRotate e 25;
          ch = (e AND f) XOR (NOT e AND g);
          temp1 = h + s1 + ch + k + w;
          s0 = rightRotate a 2 XOR rightRotate a 13 XOR rightRotate a 22;
          maj = (a AND b) XOR (a AND c) XOR (b AND c);
          temp2 = s0 + maj
      in (temp1 + temp2, a, b, c, d + temp1, e, f, g))"

fun regs_add :: "regs \<Rightarrow> regs \<Rightarrow> regs" where
  "regs_add (a, b, c, d, e, f, g, h) (a', b', c', d', e', f', g', h') =
     (a + a', b + b', c + c', d + d', e + e', f + f', g + g', h + h')"

definition sha_block :: "regs \<Rightarrow> byte list \<Rightarrow> regs" where
  "sha_block st block =
     regs_add st (foldl sha_round st (zip sha_constants (sha_schedule block)))"

function sha_blocks :: "regs \<Rightarrow> byte list \<Rightarrow> regs" where
  "sha_blocks st bs =
     (if bs = [] then st else sha_blocks (sha_block st (take 64 bs)) (drop 64 bs))"
  by pat_completeness auto
termination
  by (relation "measure (\<lambda>(st, bs). length bs)") auto

declare sha_blocks.simps [simp del]

fun regs_bytes :: "regs \<Rightarrow> byte list" where
  "regs_bytes (a, b, c, d, e, f, g, h) = concat (map be32 [a, b, c, d, e, f, g, h])"

definition sha256 :: "byte list \<Rightarrow> byte list" where
  "sha256 message = regs_bytes (sha_blocks sha_init (sha_pad message))"

definition hex_digits :: string where
  "hex_digits = ''0123456789abcdef''"

definition hex_byte :: "byte \<Rightarrow> string" where
  \<comment> \<open>\<open>byte.toString(16).padStart(2, '0')\<close>\<close>
  "hex_byte b = [hex_digits ! (unat b div 16), hex_digits ! (unat b mod 16)]"

definition sha256Hex_bytes :: "byte list \<Rightarrow> string" where
  "sha256Hex_bytes bs = concat (map hex_byte (sha256 bs))"

definition sha256Hex :: "string \<Rightarrow> string" where
  "sha256Hex content = sha256Hex_bytes (encodeUtf8 (units content))"

subsection \<open>Correctness\<close>

text \<open>For the shift amounts the code uses, the two-shift \<open>rightRotate\<close> is the rotation of a
  32-bit word.\<close>

lemma rightRotate_rotr:
  assumes "0 < n" and "n < 32"
  shows "rightRotate w n = word_rotr n w"
proof (rule bit_word_eqI)
  fix m
  assume "m < LENGTH(32)"
  then have m: "m < 32" by simp
  have md: "(m + n) mod 32 = (if m + n < 32 then m + n else m + n - 32)"
    using m assms by (simp add: mod_if)
  have hi: "bit w (n + m) \<Longrightarrow> n + m < 32"
    by (drule bit_imp_le_length) simp
  show "bit (rightRotate w n) m \<longleftrightarrow> bit (word_rotr n w) m"
    using m assms hi
    by (cases "m + n < 32") (auto simp: rightRotate_def bit_simps bit_word_rotr_iff md add.commute)
qed

lemma paddedLength_bounds: "n + 9 \<le> paddedLength n" "paddedLength n < n + 73"
  unfolding paddedLength_def by linarith+

lemma paddedLength_dvd: "64 dvd paddedLength n"
  by (simp add: paddedLength_def)

lemma length_be32 [simp]: "length (be32 w) = 4"
  by (simp add: be32_def)

lemma length_sha_pad: "length (sha_pad m) = paddedLength (length m)"
  using paddedLength_bounds [of "length m"] by (simp add: sha_pad_def Let_def)

text \<open>The padding of the standard (FIPS 180-4, 5.1.1): a one bit, zeros, and the bit length in
  sixty-four bits.\<close>

definition be64 :: "nat \<Rightarrow> byte list" where
  "be64 n = be32 (of_nat (n div 2 ^ 32)) @ be32 (of_nat n)"

definition fips_pad :: "byte list \<Rightarrow> byte list" where
  "fips_pad m =
     m @ 0x80 # replicate (paddedLength (length m) - length m - 9) 0 @ be64 (length m * 8)"

lemma be32_0: "be32 0 = replicate 4 0"
  by (simp add: be32_def numeral_eq_Suc)

text \<open>The buffer the code hashes is the standard's padding of the message for every message
  below 512 MiB, the size at which the bit length stops fitting the 32 bits that are written.\<close>

theorem sha_pad_fips:
  assumes "length m < 2 ^ 29"
  shows "sha_pad m = fips_pad m"
proof -
  let ?n = "length m"
  let ?z = "paddedLength ?n - ?n - 9"
  have b: "?n + 9 \<le> paddedLength ?n" by (rule paddedLength_bounds)
  have e: "paddedLength ?n - ?n - 1 = ?z + 8" using b by linarith
  have "take (paddedLength ?n - 4) (m @ 0x80 # replicate (?z + 8) 0) = m @ 0x80 # replicate (?z + 4) 0"
    using b by (simp add: take_Cons' min_def)
  moreover have "?n * 8 div 2 ^ 32 = 0" using assms by simp
  ultimately show ?thesis
    unfolding sha_pad_def fips_pad_def be64_def Let_def e
    by (simp add: be32_0 replicate_add)
qed

theorem sha_pad_fips_witness:
  "length [0x61, 0x62, 0x63 :: byte] < 2 ^ 29 \<and> sha_pad [0x61, 0x62, 0x63] = fips_pad [0x61, 0x62, 0x63]"
  using sha_pad_fips [of "[0x61, 0x62, 0x63]"] by simp

lemma getUint32_be32: "getUint32 (be32 w) 0 = w"
proof (rule bit_word_eqI)
  fix n
  assume "n < LENGTH(32)"
  then have n: "n < 32" by simp
  consider "24 \<le> n" | "16 \<le> n" "n < 24" | "8 \<le> n" "n < 16" | "n < 8" by linarith
  then show "bit (getUint32 (be32 w) 0) n \<longleftrightarrow> bit w n"
    using n by cases (auto simp: getUint32_def be32_def bit_simps)
qed

text \<open>Different messages of less than 512 MiB are hashed from different buffers: the padding
  is injective, so it never causes a collision by itself.\<close>

lemma sha_pad_inj:
  assumes "length m < 2 ^ 29" and "length m' < 2 ^ 29" and "sha_pad m = sha_pad m'"
  shows "m = m'"
proof -
  have tail: "drop (length (sha_pad x) - 4) (sha_pad x) = be32 (of_nat (length x * 8))" for x
    using paddedLength_bounds [of "length x"]
    by (simp add: sha_pad_def Let_def)
  have "be32 (of_nat (length m * 8)) = be32 (of_nat (length m' * 8))"
    using tail [of m] tail [of m'] assms(3) by simp
  then have "(of_nat (length m * 8) :: u32) = of_nat (length m' * 8)"
    by (metis getUint32_be32)
  then have "length m * 8 = length m' * 8"
    unfolding word_of_nat_eq_iff using assms by (simp add: take_bit_nat_eq_self)
  then have len: "length m = length m'" by simp
  have "take (length x) (sha_pad x) = x" for x
    using paddedLength_bounds [of "length x"] by (simp add: sha_pad_def Let_def)
  then show ?thesis using len assms(3) by metis
qed

lemma length_regs_bytes [simp]: "length (regs_bytes r) = 32"
  by (cases r) auto

lemma hex_digits_nth: "n < 16 \<Longrightarrow> hex_digits ! n \<in> set hex_digits"
  by (rule nth_mem) (simp add: hex_digits_def)

lemma set_hex_byte: "set (hex_byte b) \<subseteq> set hex_digits"
  using unat_byte_less [of b] by (auto simp: hex_byte_def intro!: hex_digits_nth)

lemma length_concat_hex: "length (concat (map hex_byte bs)) = 2 * length bs"
  by (induction bs) (simp_all add: hex_byte_def)

lemma length_sha256Hex [simp]: "length (sha256Hex s) = 64"
  by (simp add: sha256Hex_def sha256Hex_bytes_def sha256_def length_concat_hex)

lemma set_sha256Hex: "set (sha256Hex s) \<subseteq> set hex_digits"
  using set_hex_byte by (fastforce simp: sha256Hex_def sha256Hex_bytes_def sha256_def)

text \<open>Every digest is sixty-four lowercase hexadecimal digits, whatever the content: the shape
  the validators of the program test identifiers and revision hashes for.\<close>

lemma sha256Hex_shape:
  "length (sha256Hex s) = 64 \<and> set (sha256Hex s) \<subseteq> set hex_digits"
  by (simp add: set_sha256Hex)

end
