(* ===== verification/HashKat.thy ===== *)
theory HashKat
  imports Hash
begin

text \<open>
  A known-answer test of the SHA-256 of \<open>src/utils/hash.ts\<close>, evaluated by the kernel's simplifier.
  It stands alone because it is the slowest proof of the development.
\<close>

text \<open>The digest of the empty message is the one the standard's test vectors give, so the
  constants, the message schedule and the round function are those of SHA-256.\<close>

theorem sha256_empty_vector:
  "sha256Hex_bytes [] = ''e3b0c44298fc1c149afbf4c8996fb92427ae41e4649b934ca495991b7852b855''"
  by code_simp

end
