(* ===== verification/Outbox.thy ===== *)
theory Outbox
  imports Hash
begin

text \<open>
  \<open>src/services/social/SocialReplicationQueueRepository.ts\<close>: the durable outbox of signed social
  payloads, the inbox that deduplicates incoming deliveries, and the chat receipts. The SQL table is
  an insertion-ordered map from row id to record (the web adapter stores exactly that); the JSON
  text of a row stands for the record it parses to. Times are integers in milliseconds, given as
  arguments where the code has a \<open>now\<close> parameter, and every operation is one database transaction.
\<close>

section \<open>Data\<close>

text \<open>
  A wire payload, as far as the queue reads it: the object it carries, its gossip expiry, its JSON
  text (\<open>pl_json\<close>) and its JSON text with the gossip metadata removed (\<open>pl_body\<close>); the queue only
  hashes the two texts.
\<close>

datatype social_object =
    SPost string | SProfile string | SComment string | SReaction string
  | SChatEnvelope string | SChatLegacy string
  | SChatReceipt string string | SFollow string

record wire_payload =
  pl_object :: social_object
  pl_gossipExpiresAt :: "int option"
  pl_body :: string
  pl_json :: string

datatype queue_status =
    Ob_queued | Ob_sending | Ob_relayed | Ob_delivered | Ob_read | Ob_failed | Ob_expired
  | Ob_dead_letter

datatype route_outcome = Route_relayed | Route_failed

record route_attempt =
  ra_peerId :: string
  ra_attemptedAt :: int
  ra_outcome :: route_outcome
  ra_errorCode :: "string option"

datatype checkpoint_type = Cp_relay | Cp_delivery | Cp_read

record receipt_checkpoint =
  cp_type :: checkpoint_type
  cp_peerId :: string
  cp_receivedAt :: int
  cp_receiptId :: "string option"

record failed_peer =
  fp_peerId :: string
  fp_errorCode :: string
  fp_failedAt :: int

record queue_item =
  qi_id :: string
  qi_payload :: wire_payload
  qi_status :: queue_status
  qi_createdAt :: int
  qi_updatedAt :: int
  qi_attempts :: int
  qi_nextAttemptAt :: int
  qi_relayPeerIds :: "string list"
  qi_routeHistory :: "route_attempt list"
  qi_lastReceipt :: "receipt_checkpoint option"
  qi_failedPeers :: "failed_peer list"
  qi_leaseId :: "string option"
  qi_leaseExpiresAt :: "int option"
  qi_expiresAt :: int
  qi_terminalAt :: "int option"
  qi_terminalReason :: "string option"

datatype inbox_status = Ib_processing | Ib_applied | Ib_rejected

record inbox_item =
  ii_id :: string
  ii_deliveryId :: string
  ii_networkMessageId :: string
  ii_entity :: string
  ii_objectId :: string
  ii_sourcePeerId :: string
  ii_payloadHash :: string
  ii_status :: inbox_status
  ii_receivedAt :: int
  ii_updatedAt :: int
  ii_expiresAt :: int
  ii_errorCode :: "string option"

text \<open>A delivery or read receipt; the time is \<open>deliveredAt\<close> or \<open>readAt\<close>.\<close>

datatype chat_receipt =
    Delivery_receipt string string string int
  | Read_receipt string string string int

record receipt_record =
  rr_id :: string
  rr_messageId :: string
  rr_receipt :: chat_receipt
  rr_createdAt :: int
  rr_updatedAt :: int
  rr_expiresAt :: int

datatype delivery_record =
    Outbox_rec queue_item | Inbox_rec inbox_item | Receipt_rec receipt_record

type_synonym delivery_table = "(string, delivery_record) jsmap"

fun record_id :: "delivery_record \<Rightarrow> string" where
  "record_id (Outbox_rec i) = qi_id i"
| "record_id (Inbox_rec i) = ii_id i"
| "record_id (Receipt_rec r) = rr_id r"

section \<open>Constants and helpers\<close>

definition SOCIAL_OUTBOX_DELIVERY_TTL_MS :: int where
  "SOCIAL_OUTBOX_DELIVERY_TTL_MS = 7 * 24 * 60 * 60 * 1000"

definition DEFAULT_TERMINAL_RETENTION_MS :: int where
  "DEFAULT_TERMINAL_RETENTION_MS = 7 * 24 * 60 * 60 * 1000"

definition DEFAULT_INBOX_RETENTION_MS :: int where
  "DEFAULT_INBOX_RETENTION_MS = 30 * 24 * 60 * 60 * 1000"

definition DEFAULT_MAX_OUTBOX_ATTEMPTS :: int where
  "DEFAULT_MAX_OUTBOX_ATTEMPTS = 12"

definition MAX_ROUTE_HISTORY_ENTRIES :: nat where
  "MAX_ROUTE_HISTORY_ENTRIES = 32"

fun receipt_messageId :: "chat_receipt \<Rightarrow> string" where
  "receipt_messageId (Delivery_receipt m s r t) = m"
| "receipt_messageId (Read_receipt m s r t) = m"

fun receipt_recipientId :: "chat_receipt \<Rightarrow> string" where
  "receipt_recipientId (Delivery_receipt m s r t) = r"
| "receipt_recipientId (Read_receipt m s r t) = r"

fun getReceiptTimestamp :: "chat_receipt \<Rightarrow> int" where
  "getReceiptTimestamp (Delivery_receipt m s r t) = t"
| "getReceiptTimestamp (Read_receipt m s r t) = t"

fun isDeliveryReceipt :: "chat_receipt \<Rightarrow> bool" where
  "isDeliveryReceipt (Delivery_receipt m s r t) = True"
| "isDeliveryReceipt (Read_receipt m s r t) = False"

fun getPayloadObjectId :: "wire_payload \<Rightarrow> string" where
  "getPayloadObjectId p = (case pl_object p of
      SPost i \<Rightarrow> i | SProfile i \<Rightarrow> i | SComment i \<Rightarrow> i | SReaction i \<Rightarrow> i
    | SChatEnvelope m \<Rightarrow> m | SChatLegacy i \<Rightarrow> i
    | SChatReceipt m r \<Rightarrow> ''receipt_'' @ m @ ''_'' @ r
    | SFollow i \<Rightarrow> i)"

fun payload_entity :: "wire_payload \<Rightarrow> string" where
  "payload_entity p = (case pl_object p of
      SPost i \<Rightarrow> ''post'' | SProfile i \<Rightarrow> ''profile'' | SComment i \<Rightarrow> ''comment''
    | SReaction i \<Rightarrow> ''reaction'' | SChatEnvelope m \<Rightarrow> ''chat'' | SChatLegacy i \<Rightarrow> ''chat''
    | SChatReceipt m r \<Rightarrow> ''chat-receipt'' | SFollow i \<Rightarrow> ''follow'')"

fun getChatMessageId :: "wire_payload \<Rightarrow> string option" where
  "getChatMessageId p = (case pl_object p of
      SChatEnvelope m \<Rightarrow> Some m | SChatLegacy i \<Rightarrow> Some i | _ \<Rightarrow> None)"

definition createQueueItemId :: "wire_payload \<Rightarrow> string" where
  "createQueueItemId p =
     ''social_replication_'' @ getPayloadObjectId p @ ''_'' @ sha256Hex (pl_body p)"

definition createInboxId :: "string \<Rightarrow> string" where
  "createInboxId deliveryId = ''social_inbox_'' @ sha256Hex deliveryId"

definition createReceiptId :: "chat_receipt \<Rightarrow> string" where
  "createReceiptId r = ''social_receipt_''
     @ (if isDeliveryReceipt r then ''chat.delivery.receipt'' else ''chat.read.receipt'')
     @ ''_'' @ receipt_messageId r @ ''_'' @ receipt_recipientId r"

fun isTerminalOutboxStatus :: "queue_status \<Rightarrow> bool" where
  "isTerminalOutboxStatus s \<longleftrightarrow>
     s = Ob_delivered \<or> s = Ob_read \<or> s = Ob_expired \<or> s = Ob_dead_letter"

definition getPayloadExpiresAt :: "wire_payload \<Rightarrow> int \<Rightarrow> int" where
  "getPayloadExpiresAt p now = (case pl_gossipExpiresAt p of
      Some e \<Rightarrow> if e \<noteq> 0 \<and> e > now then e else now + SOCIAL_OUTBOX_DELIVERY_TTL_MS
    | None \<Rightarrow> now + SOCIAL_OUTBOX_DELIVERY_TTL_MS)"

definition appendRouteAttempts ::
  "route_attempt list \<Rightarrow> route_attempt list \<Rightarrow> route_attempt list" where
  "appendRouteAttempts current next = last_n MAX_ROUTE_HISTORY_ENTRIES (current @ next)"

definition mergeFailedPeers ::
  "failed_peer list \<Rightarrow> (string \<times> string \<times> int option) list \<Rightarrow> int \<Rightarrow> failed_peer list" where
  "mergeFailedPeers current next now =
     (let m = foldl (\<lambda>m f. jm_set (fp_peerId f) f m) [] current;
          m' = foldl (\<lambda>m (p, e, t).
                 jm_set p \<lparr>fp_peerId = p, fp_errorCode = e,
                           fp_failedAt = (case t of None \<Rightarrow> now | Some x \<Rightarrow> x)\<rparr> m) m next
      in jm_values m')"

definition as_next :: "failed_peer \<Rightarrow> string \<times> string \<times> int option" where
  "as_next f = (fp_peerId f, fp_errorCode f, Some (fp_failedAt f))"

definition normalizeOutboxItem :: "queue_item \<Rightarrow> queue_item" where
  "normalizeOutboxItem i = i\<lparr>
     qi_relayPeerIds := js_uniq (qi_relayPeerIds i),
     qi_routeHistory := last_n MAX_ROUTE_HISTORY_ENTRIES (qi_routeHistory i),
     qi_failedPeers := mergeFailedPeers [] (map as_next (qi_failedPeers i)) (qi_updatedAt i)\<rparr>"

definition clear_lease :: "queue_item \<Rightarrow> queue_item" where
  "clear_lease i = i\<lparr>qi_leaseId := None, qi_leaseExpiresAt := None\<rparr>"

definition applyDeliveryLimits :: "queue_item \<Rightarrow> int \<Rightarrow> queue_item" where
  "applyDeliveryLimits i now =
     (if isTerminalOutboxStatus (qi_status i) then i
      else if qi_expiresAt i \<le> now then
        clear_lease (i\<lparr>qi_status := Ob_expired, qi_nextAttemptAt := now, qi_updatedAt := now,
          qi_terminalAt := Some now, qi_terminalReason := Some ''DELIVERY_EXPIRED''\<rparr>)
      else if qi_attempts i \<ge> DEFAULT_MAX_OUTBOX_ATTEMPTS \<and> qi_status i \<noteq> Ob_sending then
        clear_lease (i\<lparr>qi_status := Ob_dead_letter, qi_nextAttemptAt := now, qi_updatedAt := now,
          qi_terminalAt := Some now,
          qi_terminalReason := Some ''MAX_DELIVERY_ATTEMPTS_EXCEEDED''\<rparr>)
      else i)"

section \<open>Table access\<close>

definition writeRecord :: "delivery_record \<Rightarrow> delivery_table \<Rightarrow> delivery_table" where
  "writeRecord r db = jm_set (record_id r) r db"

definition getOutbox :: "string \<Rightarrow> delivery_table \<Rightarrow> queue_item option" where
  "getOutbox i db = (case jm_get db i of
      Some (Outbox_rec q) \<Rightarrow> Some (normalizeOutboxItem q) | _ \<Rightarrow> None)"

definition getInbox :: "string \<Rightarrow> delivery_table \<Rightarrow> inbox_item option" where
  "getInbox i db = (case jm_get db i of Some (Inbox_rec q) \<Rightarrow> Some q | _ \<Rightarrow> None)"

definition getReceipt :: "string \<Rightarrow> delivery_table \<Rightarrow> receipt_record option" where
  "getReceipt i db = (case jm_get db i of Some (Receipt_rec q) \<Rightarrow> Some q | _ \<Rightarrow> None)"

fun outbox_of :: "delivery_record \<Rightarrow> queue_item list" where
  "outbox_of (Outbox_rec q) = [normalizeOutboxItem q]"
| "outbox_of _ = []"

definition listOutbox :: "delivery_table \<Rightarrow> queue_item list" where
  "listOutbox db = concat (map outbox_of (jm_values db))"

definition patchOutbox ::
  "string \<Rightarrow> (queue_item \<Rightarrow> queue_item option) \<Rightarrow> delivery_table
     \<Rightarrow> queue_item option \<times> delivery_table" where
  "patchOutbox i patch db = (case getOutbox i db of
      None \<Rightarrow> (None, db)
    | Some existing \<Rightarrow> (case patch existing of
        None \<Rightarrow> (None, db)
      | Some p \<Rightarrow> (let n = normalizeOutboxItem p in (Some n, writeRecord (Outbox_rec n) db))))"

definition patchInbox ::
  "string \<Rightarrow> (inbox_item \<Rightarrow> inbox_item) \<Rightarrow> delivery_table \<Rightarrow> bool \<times> delivery_table" where
  "patchInbox i patch db = (case getInbox i db of
      None \<Rightarrow> (False, db)
    | Some existing \<Rightarrow> (True, writeRecord (Inbox_rec (patch existing)) db))"

section \<open>Operations\<close>

definition upsertPayload ::
  "wire_payload \<Rightarrow> int \<Rightarrow> delivery_table \<Rightarrow> queue_item \<times> delivery_table" where
  "upsertPayload payload now db =
     (let i = createQueueItemId payload;
          next = normalizeOutboxItem (case getOutbox i db of
            Some existing \<Rightarrow> clear_lease (existing\<lparr>qi_payload := payload,
              qi_status := (if isTerminalOutboxStatus (qi_status existing) then qi_status existing
                            else if qi_status existing = Ob_relayed then Ob_relayed
                            else Ob_queued),
              qi_updatedAt := now\<rparr>)
          | None \<Rightarrow> \<lparr>qi_id = i, qi_payload = payload, qi_status = Ob_queued, qi_createdAt = now,
              qi_updatedAt = now, qi_attempts = 0, qi_nextAttemptAt = now, qi_relayPeerIds = [],
              qi_routeHistory = [], qi_lastReceipt = None, qi_failedPeers = [],
              qi_leaseId = None, qi_leaseExpiresAt = None,
              qi_expiresAt = getPayloadExpiresAt payload now, qi_terminalAt = None,
              qi_terminalReason = None\<rparr>)
      in (next, writeRecord (Outbox_rec next) db))"

definition markSending ::
  "string \<Rightarrow> int \<Rightarrow> string \<Rightarrow> int \<Rightarrow> delivery_table \<Rightarrow> queue_item option \<times> delivery_table" where
  "markSending i now leaseId leaseMs = patchOutbox i (\<lambda>item.
     let limited = applyDeliveryLimits item now in
     if qi_status limited = Ob_expired \<or> qi_status limited = Ob_dead_letter then Some limited
     else if isTerminalOutboxStatus (qi_status item)
        \<or> qi_status item = Ob_sending \<and>
          (case qi_leaseExpiresAt item of None \<Rightarrow> 0 | Some t \<Rightarrow> t) > now then None
     else Some (limited\<lparr>qi_status := Ob_sending, qi_attempts := qi_attempts limited + 1,
       qi_updatedAt := now, qi_leaseId := Some leaseId,
       qi_leaseExpiresAt := Some (now + max 1 leaseMs)\<rparr>))"

definition markPeerAcked ::
  "string \<Rightarrow> string \<Rightarrow> int \<Rightarrow> delivery_table \<Rightarrow> queue_item option \<times> delivery_table" where
  "markPeerAcked i peerId now = patchOutbox i (\<lambda>item.
     if isTerminalOutboxStatus (qi_status item) then Some item
     else Some (clear_lease (item\<lparr>qi_status := Ob_relayed,
       qi_relayPeerIds := js_uniq (qi_relayPeerIds item @ [peerId]),
       qi_routeHistory := appendRouteAttempts (qi_routeHistory item)
         [\<lparr>ra_peerId = peerId, ra_attemptedAt = now, ra_outcome = Route_relayed, ra_errorCode = None\<rparr>],
       qi_lastReceipt := Some \<lparr>cp_type = Cp_relay, cp_peerId = peerId, cp_receivedAt = now,
         cp_receiptId = None\<rparr>,
       qi_failedPeers := filter (\<lambda>f. fp_peerId f \<noteq> peerId) (qi_failedPeers item),
       qi_updatedAt := now\<rparr>)))"

definition markFailed ::
  "string \<Rightarrow> (string \<times> string) list \<Rightarrow> int \<Rightarrow> int \<Rightarrow> delivery_table
     \<Rightarrow> queue_item option \<times> delivery_table" where
  "markFailed i failedPeers retryDelayMs now = patchOutbox i (\<lambda>item.
     Some (applyDeliveryLimits (clear_lease (item\<lparr>qi_status := Ob_failed,
       qi_failedPeers := mergeFailedPeers (qi_failedPeers item)
         (map (\<lambda>(p, e). (p, e, None)) failedPeers) now,
       qi_routeHistory := appendRouteAttempts (qi_routeHistory item)
         (map (\<lambda>(p, e). \<lparr>ra_peerId = p, ra_attemptedAt = now, ra_outcome = Route_failed,
           ra_errorCode = Some e\<rparr>) failedPeers),
       qi_nextAttemptAt := now + max 0 retryDelayMs,
       qi_updatedAt := now\<rparr>)) now))"

definition markPending ::
  "string \<Rightarrow> int \<Rightarrow> int \<Rightarrow> delivery_table \<Rightarrow> queue_item option \<times> delivery_table" where
  "markPending i retryDelayMs now = patchOutbox i (\<lambda>item.
     if isTerminalOutboxStatus (qi_status item) then Some item
     else Some (applyDeliveryLimits (clear_lease (item\<lparr>
       qi_status := (if qi_status item = Ob_relayed then Ob_relayed else Ob_queued),
       qi_nextAttemptAt := now + max 0 retryDelayMs,
       qi_updatedAt := now\<rparr>)) now))"

definition markDelivered ::
  "string \<Rightarrow> int \<Rightarrow> delivery_table \<Rightarrow> queue_item option \<times> delivery_table" where
  "markDelivered i now = patchOutbox i (\<lambda>item.
     if qi_status item = Ob_expired \<or> qi_status item = Ob_dead_letter then Some item
     else Some (clear_lease (item\<lparr>
       qi_status := (if qi_status item = Ob_read then Ob_read else Ob_delivered),
       qi_nextAttemptAt := now, qi_updatedAt := now,
       qi_terminalAt := (case qi_terminalAt item of None \<Rightarrow> Some now | t \<Rightarrow> t),
       qi_terminalReason := None\<rparr>)))"

definition markDeadLetter ::
  "string \<Rightarrow> string \<Rightarrow> int \<Rightarrow> delivery_table \<Rightarrow> queue_item option \<times> delivery_table" where
  "markDeadLetter i errorCode now = patchOutbox i (\<lambda>item.
     Some (clear_lease (item\<lparr>qi_status := Ob_dead_letter, qi_nextAttemptAt := now,
       qi_updatedAt := now,
       qi_terminalAt := (case qi_terminalAt item of None \<Rightarrow> Some now | t \<Rightarrow> t),
       qi_terminalReason := Some errorCode\<rparr>)))"

text \<open>Loops over a snapshot of the outbox rows that rewrite some of them, counting the writes.\<close>

definition rewrite_items ::
  "(queue_item \<Rightarrow> queue_item option) \<Rightarrow> delivery_table \<Rightarrow> nat \<times> delivery_table" where
  "rewrite_items f db = foldl (\<lambda>(n, d) item. case f item of
      None \<Rightarrow> (n, d) | Some item' \<Rightarrow> (Suc n, writeRecord (Outbox_rec item') d)) (0, db) (listOutbox db)"

definition recoverInterrupted :: "int \<Rightarrow> bool \<Rightarrow> delivery_table \<Rightarrow> nat \<times> delivery_table" where
  "recoverInterrupted now includeLiveLeases = rewrite_items (\<lambda>item.
     if qi_status item \<noteq> Ob_sending
        \<or> \<not> includeLiveLeases \<and> (case qi_leaseExpiresAt item of None \<Rightarrow> 0 | Some t \<Rightarrow> t) > now
     then None
     else Some (clear_lease (item\<lparr>
       qi_status := (if qi_relayPeerIds item \<noteq> [] then Ob_relayed else Ob_queued),
       qi_nextAttemptAt := now, qi_updatedAt := now\<rparr>)))"

definition reconcileDeliveryLimits :: "int \<Rightarrow> delivery_table \<Rightarrow> nat \<times> delivery_table" where
  "reconcileDeliveryLimits now = rewrite_items (\<lambda>item.
     let limited = applyDeliveryLimits item now in if limited = item then None else Some limited)"

definition markChatDelivered :: "string \<Rightarrow> int \<Rightarrow> delivery_table \<Rightarrow> nat \<times> delivery_table" where
  "markChatDelivered messageId deliveredAt = rewrite_items (\<lambda>item.
     if getChatMessageId (qi_payload item) \<noteq> Some messageId
        \<or> qi_status item = Ob_delivered \<or> qi_status item = Ob_read then None
     else Some (clear_lease (item\<lparr>qi_status := Ob_delivered, qi_nextAttemptAt := deliveredAt,
       qi_updatedAt := deliveredAt,
       qi_terminalAt := (case qi_terminalAt item of None \<Rightarrow> Some deliveredAt | t \<Rightarrow> t)\<rparr>)))"

definition receipt_update :: "chat_receipt \<Rightarrow> string \<Rightarrow> queue_item \<Rightarrow> queue_item option" where
  "receipt_update receipt receiptId item =
     (let timestamp = getReceiptTimestamp receipt; delivery = isDeliveryReceipt receipt in
      if getChatMessageId (qi_payload item) \<noteq> Some (receipt_messageId receipt) then None
      else if delivery \<and> (qi_status item = Ob_delivered \<or> qi_status item = Ob_read) then None
      else if qi_status item = Ob_expired \<or> qi_status item = Ob_dead_letter then None
      else if \<not> delivery \<and> qi_status item = Ob_read then None
      else Some (clear_lease (item\<lparr>
        qi_status := (if delivery then Ob_delivered else Ob_read),
        qi_nextAttemptAt := timestamp, qi_updatedAt := timestamp,
        qi_terminalAt := (case qi_terminalAt item of None \<Rightarrow> Some timestamp | t \<Rightarrow> t),
        qi_terminalReason := None,
        qi_lastReceipt := Some \<lparr>cp_type = (if delivery then Cp_delivery else Cp_read),
          cp_peerId = receipt_recipientId receipt, cp_receivedAt = timestamp,
          cp_receiptId = Some receiptId\<rparr>\<rparr>)))"

definition applyReceiptToOutbox ::
  "chat_receipt \<Rightarrow> string \<Rightarrow> delivery_table \<Rightarrow> nat \<times> delivery_table" where
  "applyReceiptToOutbox receipt receiptId = rewrite_items (receipt_update receipt receiptId)"

definition recordChatReceipt :: "chat_receipt \<Rightarrow> delivery_table \<Rightarrow> bool \<times> delivery_table" where
  "recordChatReceipt receipt db =
     (let i = createReceiptId receipt; timestamp = getReceiptTimestamp receipt;
          existing = getReceipt i db;
          db' = (case existing of
             None \<Rightarrow> writeRecord (Receipt_rec \<lparr>rr_id = i, rr_messageId = receipt_messageId receipt,
               rr_receipt = receipt, rr_createdAt = timestamp, rr_updatedAt = timestamp,
               rr_expiresAt = timestamp + DEFAULT_INBOX_RETENTION_MS\<rparr>) db
           | Some _ \<Rightarrow> db)
      in (existing = None, snd (applyReceiptToOutbox receipt i db')))"

definition claimIncoming ::
  "string \<Rightarrow> string \<Rightarrow> wire_payload \<Rightarrow> string \<Rightarrow> int \<Rightarrow> int \<Rightarrow> delivery_table
     \<Rightarrow> (bool \<times> inbox_item) \<times> delivery_table" where
  "claimIncoming deliveryId networkMessageId payload sourcePeerId now processingLeaseMs db =
     (let i = createInboxId deliveryId; existing = getInbox i db;
          item = \<lparr>ii_id = i, ii_deliveryId = deliveryId, ii_networkMessageId = networkMessageId,
            ii_entity = payload_entity payload, ii_objectId = getPayloadObjectId payload, ii_sourcePeerId = sourcePeerId,
            ii_payloadHash = sha256Hex (pl_json payload), ii_status = Ib_processing,
            ii_receivedAt = (case existing of None \<Rightarrow> now | Some e \<Rightarrow> ii_receivedAt e),
            ii_updatedAt = now, ii_expiresAt = now + DEFAULT_INBOX_RETENTION_MS,
            ii_errorCode = None\<rparr>
      in case existing of
           Some e \<Rightarrow>
             if ii_status e = Ib_applied \<or> ii_status e = Ib_rejected
                \<or> now - ii_updatedAt e < processingLeaseMs
             then ((False, e), db)
             else ((True, item), writeRecord (Inbox_rec item) db)
         | None \<Rightarrow> ((True, item), writeRecord (Inbox_rec item) db))"

definition markIncomingApplied :: "string \<Rightarrow> int \<Rightarrow> delivery_table \<Rightarrow> bool \<times> delivery_table" where
  "markIncomingApplied deliveryId now = patchInbox (createInboxId deliveryId)
     (\<lambda>item. item\<lparr>ii_status := Ib_applied, ii_updatedAt := now, ii_errorCode := None\<rparr>)"

definition markIncomingRejected ::
  "string \<Rightarrow> string \<Rightarrow> int \<Rightarrow> delivery_table \<Rightarrow> bool \<times> delivery_table" where
  "markIncomingRejected deliveryId errorCode now = patchInbox (createInboxId deliveryId)
     (\<lambda>item. item\<lparr>ii_status := Ib_rejected, ii_updatedAt := now, ii_errorCode := Some errorCode\<rparr>)"

definition is_waiting :: "queue_item \<Rightarrow> bool" where
  "is_waiting item \<longleftrightarrow>
     qi_status item = Ob_queued \<or> qi_status item = Ob_relayed \<or> qi_status item = Ob_failed"

definition compare_pending :: "queue_item \<Rightarrow> queue_item \<Rightarrow> int" where
  "compare_pending left right =
     js_or (qi_nextAttemptAt left - qi_nextAttemptAt right) (qi_createdAt left - qi_createdAt right)"

definition listPending :: "int \<Rightarrow> delivery_table \<Rightarrow> queue_item list \<times> delivery_table" where
  "listPending now db =
     (let db' = snd (reconcileDeliveryLimits now db)
      in (js_sort compare_pending
            (filter (\<lambda>item. is_waiting item \<and> qi_nextAttemptAt item \<le> now) (listOutbox db')), db'))"

definition getNextAttemptAt :: "int \<Rightarrow> delivery_table \<Rightarrow> int option \<times> delivery_table" where
  "getNextAttemptAt now db =
     (let db' = snd (reconcileDeliveryLimits now db);
          pending = filter is_waiting (listOutbox db')
      in (if pending = [] then None
          else Some (foldl min (max now (qi_nextAttemptAt (hd pending)))
                 (map (\<lambda>i. max now (qi_nextAttemptAt i)) (tl pending))), db'))"

record queue_summary =
  qs_pending :: nat
  qs_sending :: nat
  qs_acked :: nat
  qs_failed :: nat
  qs_queued :: nat
  qs_relayed :: nat
  qs_delivered :: nat
  qs_read :: nat
  qs_expired :: nat
  qs_deadLetter :: nat

definition count_status :: "queue_status \<Rightarrow> queue_item list \<Rightarrow> nat" where
  "count_status s items = length (filter (\<lambda>i. qi_status i = s) items)"

definition getStatus :: "delivery_table \<Rightarrow> queue_summary" where
  "getStatus db = (let items = listOutbox db in
     \<lparr>qs_pending = count_status Ob_queued items + count_status Ob_relayed items,
      qs_sending = count_status Ob_sending items,
      qs_acked = count_status Ob_delivered items + count_status Ob_read items,
      qs_failed = count_status Ob_failed items + count_status Ob_expired items
                    + count_status Ob_dead_letter items,
      qs_queued = count_status Ob_queued items, qs_relayed = count_status Ob_relayed items,
      qs_delivered = count_status Ob_delivered items, qs_read = count_status Ob_read items,
      qs_expired = count_status Ob_expired items,
      qs_deadLetter = count_status Ob_dead_letter items\<rparr>)"

text \<open>Reads normalise outbox rows, so the predicate sees the parsed record.\<close>

fun parsed :: "delivery_record \<Rightarrow> delivery_record" where
  "parsed (Outbox_rec q) = Outbox_rec (normalizeOutboxItem q)"
| "parsed r = r"

definition deleteMatching ::
  "(delivery_record \<Rightarrow> bool) \<Rightarrow> delivery_table \<Rightarrow> nat \<times> delivery_table" where
  "deleteMatching P db =
     (let hit = filter P (map parsed (jm_values db))
      in (length hit, fold jm_delete (map record_id hit) db))"

definition clearAcked :: "int \<Rightarrow> int \<Rightarrow> delivery_table \<Rightarrow> nat \<times> delivery_table" where
  "clearAcked maxAgeMs now = deleteMatching (\<lambda>r. case r of
      Outbox_rec i \<Rightarrow> (qi_status i = Ob_delivered \<or> qi_status i = Ob_read)
        \<and> now - (case qi_terminalAt i of None \<Rightarrow> qi_updatedAt i | Some t \<Rightarrow> t) > maxAgeMs
    | _ \<Rightarrow> False)"

fun garbage :: "int \<Rightarrow> delivery_record \<Rightarrow> bool" where
  "garbage now (Outbox_rec i) \<longleftrightarrow> isTerminalOutboxStatus (qi_status i)
     \<and> now - (case qi_terminalAt i of None \<Rightarrow> qi_updatedAt i | Some t \<Rightarrow> t)
         > DEFAULT_TERMINAL_RETENTION_MS"
| "garbage now (Inbox_rec i) \<longleftrightarrow> ii_expiresAt i \<le> now"
| "garbage now (Receipt_rec r) \<longleftrightarrow> rr_expiresAt r \<le> now"

definition garbageCollect :: "int \<Rightarrow> delivery_table \<Rightarrow> nat \<times> delivery_table" where
  "garbageCollect now db = deleteMatching (garbage now) (snd (reconcileDeliveryLimits now db))"

definition listChatReceipts :: "delivery_table \<Rightarrow> chat_receipt list" where
  "listChatReceipts db = js_sort (\<lambda>l r. getReceiptTimestamp l - getReceiptTimestamp r)
     (concat (map (\<lambda>r. case r of Receipt_rec x \<Rightarrow> [rr_receipt x] | _ \<Rightarrow> []) (jm_values db)))"

definition findReceipt ::
  "string \<Rightarrow> (chat_receipt \<Rightarrow> bool) \<Rightarrow> delivery_table \<Rightarrow> chat_receipt option" where
  "findReceipt messageId guard db = map_option (\<lambda>r. case r of Receipt_rec x \<Rightarrow> rr_receipt x)
     (find (\<lambda>r. case r of Receipt_rec x \<Rightarrow> rr_messageId x = messageId \<and> guard (rr_receipt x)
        | _ \<Rightarrow> False) (jm_values db))"

text \<open>\<open>clear\<close> deletes the three kinds of rows one after the other.\<close>

definition clear_kind :: "(delivery_record \<Rightarrow> bool) \<Rightarrow> delivery_table \<Rightarrow> delivery_table" where
  "clear_kind P db = filter (\<lambda>(k, r). \<not> P r) db"

fun is_outbox :: "delivery_record \<Rightarrow> bool" where
  "is_outbox (Outbox_rec i) = True" | "is_outbox _ = False"

fun is_inbox :: "delivery_record \<Rightarrow> bool" where
  "is_inbox (Inbox_rec i) = True" | "is_inbox _ = False"

fun is_receipt :: "delivery_record \<Rightarrow> bool" where
  "is_receipt (Receipt_rec i) = True" | "is_receipt _ = False"

definition clear :: "delivery_table \<Rightarrow> delivery_table" where
  "clear db = clear_kind is_receipt (clear_kind is_inbox (clear_kind is_outbox db))"

section \<open>Migration of the legacy storage\<close>

text \<open>
  The legacy queue and the legacy receipts are JSON objects; a value that fails the shape checks of
  \<open>readLegacyQueue\<close> or \<open>isChatDeliveryReceipt\<close> is \<open>None\<close> here.
\<close>

datatype legacy_status = Lg_pending | Lg_sending | Lg_acked | Lg_failed

record legacy_item =
  li_id :: string
  li_payload :: wire_payload
  li_status :: legacy_status
  li_createdAt :: int
  li_updatedAt :: int
  li_attempts :: int
  li_nextAttemptAt :: int
  li_ackedPeerIds :: "string list"
  li_failedPeers :: "failed_peer list"

record legacy_storage =
  ls_queue :: "(string \<times> legacy_item option) list"
  ls_receipts :: "(string \<times> chat_receipt option) list"
  ls_migrated :: bool

fun migrateLegacyQueueStatus :: "legacy_status \<Rightarrow> queue_status" where
  "migrateLegacyQueueStatus Lg_pending = Ob_queued"
| "migrateLegacyQueueStatus Lg_sending = Ob_queued"
| "migrateLegacyQueueStatus Lg_acked = Ob_delivered"
| "migrateLegacyQueueStatus Lg_failed = Ob_failed"

definition readLegacyQueue :: "(string \<times> legacy_item option) list \<Rightarrow> legacy_item list" where
  "readLegacyQueue entries = concat (map (\<lambda>(k, v). case v of
      Some item \<Rightarrow> if li_id item = k then [item] else [] | None \<Rightarrow> []) entries)"

definition readLegacyReceipts :: "(string \<times> chat_receipt option) list \<Rightarrow> chat_receipt list" where
  "readLegacyReceipts entries = concat (map (\<lambda>(k, v). case v of
      Some r \<Rightarrow> if isDeliveryReceipt r \<and> receipt_messageId r = k then [r] else []
    | None \<Rightarrow> []) entries)"

definition migrate_item :: "int \<Rightarrow> legacy_item \<Rightarrow> queue_item" where
  "migrate_item now item = normalizeOutboxItem
     \<lparr>qi_id = li_id item, qi_payload = li_payload item,
      qi_status = migrateLegacyQueueStatus (li_status item), qi_createdAt = li_createdAt item,
      qi_updatedAt = li_updatedAt item, qi_attempts = li_attempts item,
      qi_nextAttemptAt = (if li_status item = Lg_sending then min (li_nextAttemptAt item) now
                          else li_nextAttemptAt item),
      qi_relayPeerIds = li_ackedPeerIds item, qi_routeHistory = [], qi_lastReceipt = None,
      qi_failedPeers = li_failedPeers item, qi_leaseId = None, qi_leaseExpiresAt = None,
      qi_expiresAt = li_updatedAt item + SOCIAL_OUTBOX_DELIVERY_TTL_MS,
      qi_terminalAt = (if li_status item = Lg_acked then Some (li_updatedAt item) else None),
      qi_terminalReason = None\<rparr>"

definition migrate_receipt :: "chat_receipt \<Rightarrow> receipt_record" where
  "migrate_receipt r = (let timestamp = getReceiptTimestamp r in
     \<lparr>rr_id = createReceiptId r, rr_messageId = receipt_messageId r, rr_receipt = r,
      rr_createdAt = timestamp, rr_updatedAt = timestamp,
      rr_expiresAt = timestamp + DEFAULT_INBOX_RETENTION_MS\<rparr>)"

record migration_result =
  mr_migratedOutbox :: nat
  mr_migratedReceipts :: nat
  mr_invalidRecords :: int

definition migrateLegacyStorage ::
  "int \<Rightarrow> legacy_storage \<Rightarrow> delivery_table
     \<Rightarrow> migration_result \<times> legacy_storage \<times> delivery_table" where
  "migrateLegacyStorage now st db =
     (if ls_migrated st
      then (\<lparr>mr_migratedOutbox = 0, mr_migratedReceipts = 0, mr_invalidRecords = 0\<rparr>, st, db)
      else (let queueItems = readLegacyQueue (ls_queue st);
                receipts = readLegacyReceipts (ls_receipts st);
                invalid = int (length (ls_queue st)) - int (length queueItems)
                          + int (length (ls_receipts st)) - int (length receipts);
                db1 = fold (\<lambda>item. writeRecord (Outbox_rec (migrate_item now item))) queueItems db;
                db2 = fold (\<lambda>r. writeRecord (Receipt_rec (migrate_receipt r))) receipts db1;
                st' = (if invalid = 0
                       then st\<lparr>ls_queue := [], ls_receipts := [], ls_migrated := True\<rparr> else st)
            in (\<lparr>mr_migratedOutbox = length queueItems, mr_migratedReceipts = length receipts,
                 mr_invalidRecords = invalid\<rparr>, st', db2)))"

end
