(* ===== verification/Outbox_Proofs.thy ===== *)
theory Outbox_Proofs
  imports Outbox
begin

text \<open>
  The correctness of the delivery tables of \<open>Outbox\<close>: the well-formedness of a row and of the table,
  its preservation by every operation (through the \<open>machine\<close> interface), the lease, the monotonicity
  of delivered and read, the exactly-once inbox, what \<open>listPending\<close> returns and what garbage
  collection removes.
\<close>

section \<open>Well-formed rows\<close>

definition lists_ok :: "queue_item \<Rightarrow> bool" where
  "lists_ok i \<longleftrightarrow> distinct (qi_relayPeerIds i)
     \<and> length (qi_routeHistory i) \<le> MAX_ROUTE_HISTORY_ENTRIES
     \<and> distinct (map fp_peerId (qi_failedPeers i))"

definition lease_ok :: "queue_item \<Rightarrow> bool" where
  "lease_ok i \<longleftrightarrow> (qi_leaseId i \<noteq> None \<longleftrightarrow> qi_status i = Ob_sending)
     \<and> (qi_leaseExpiresAt i \<noteq> None \<longleftrightarrow> qi_status i = Ob_sending)"

definition terminal_ok :: "queue_item \<Rightarrow> bool" where
  "terminal_ok i \<longleftrightarrow> (isTerminalOutboxStatus (qi_status i) \<longrightarrow> qi_terminalAt i \<noteq> None)"

definition item_ok :: "queue_item \<Rightarrow> bool" where
  "item_ok i \<longleftrightarrow> lists_ok i \<and> lease_ok i \<and> terminal_ok i"

fun record_ok :: "delivery_record \<Rightarrow> bool" where
  "record_ok (Outbox_rec i) = item_ok i"
| "record_ok (Inbox_rec i) \<longleftrightarrow> ii_id i = createInboxId (ii_deliveryId i)
     \<and> (ii_errorCode i \<noteq> None \<longrightarrow> ii_status i = Ib_rejected)"
| "record_ok (Receipt_rec r) \<longleftrightarrow> rr_id r = createReceiptId (rr_receipt r)
     \<and> rr_messageId r = receipt_messageId (rr_receipt r)"

definition db_inv :: "delivery_table \<Rightarrow> bool" where
  "db_inv db \<longleftrightarrow> distinct (jm_keys db) \<and> (\<forall>(k, r) \<in> set db. record_id r = k \<and> record_ok r)"

section \<open>Normalisation\<close>

lemma merge_table_keys:
  assumes "distinct (jm_keys m)" and "\<forall>(k, v) \<in> set m. fp_peerId v = k"
    and "\<And>x. fp_peerId (g x) = h x"
  shows "distinct (jm_keys (foldl (\<lambda>m x. jm_set (h x) (g x) m) m xs))
    \<and> (\<forall>(k, v) \<in> set (foldl (\<lambda>m x. jm_set (h x) (g x) m) m xs). fp_peerId v = k)"
  using assms
proof (induction xs arbitrary: m)
  case (Cons x xs)
  have "\<forall>(k, v) \<in> set (jm_set (h x) (g x) m). fp_peerId v = k"
    using Cons.prems jm_values_update_subset [of "h x" "g x" m] by auto
  then have "distinct (jm_keys (foldl (\<lambda>m x. jm_set (h x) (g x) m) (jm_set (h x) (g x) m) xs))
    \<and> (\<forall>(k, v) \<in> set (foldl (\<lambda>m x. jm_set (h x) (g x) m) (jm_set (h x) (g x) m) xs).
         fp_peerId v = k)"
    using Cons.prems by (intro Cons.IH) (auto simp: distinct_update)
  then show ?case by simp
qed simp

lemma values_by_key: "\<forall>(k, v) \<in> set m. f v = k \<Longrightarrow> map f (jm_values m) = jm_keys m"
  by (induction m) auto

definition failed_entry :: "int \<Rightarrow> string \<times> string \<times> int option \<Rightarrow> failed_peer" where
  "failed_entry now x = \<lparr>fp_peerId = fst x, fp_errorCode = fst (snd x),
     fp_failedAt = (case snd (snd x) of None \<Rightarrow> now | Some t \<Rightarrow> t)\<rparr>"

lemma mergeFailedPeers_alt:
  "mergeFailedPeers current next now =
     jm_values (foldl (\<lambda>m x. jm_set (fst x) (failed_entry now x) m)
       (foldl (\<lambda>m f. jm_set (fp_peerId f) f m) [] current) next)"
proof -
  have "(\<lambda>m (p, e, t). jm_set p \<lparr>fp_peerId = p, fp_errorCode = e,
           fp_failedAt = (case t of None \<Rightarrow> now | Some x \<Rightarrow> x)\<rparr> m)
      = (\<lambda>m x. jm_set (fst x) (failed_entry now x) m)"
    by (auto simp: fun_eq_iff failed_entry_def)
  then show ?thesis by (simp add: mergeFailedPeers_def Let_def)
qed

lemma mergeFailedPeers_distinct [simp]:
  "distinct (map fp_peerId (mergeFailedPeers current next now))"
proof -
  let ?m = "foldl (\<lambda>m f. jm_set (fp_peerId f) f m) [] current"
  have m: "distinct (jm_keys ?m) \<and> (\<forall>(k, v) \<in> set ?m. fp_peerId v = k)"
    by (rule merge_table_keys [where g = "\<lambda>f. f"]) auto
  let ?n = "foldl (\<lambda>m x. jm_set (fst x) (failed_entry now x) m) ?m next"
  have n: "distinct (jm_keys ?n) \<and> (\<forall>(k, v) \<in> set ?n. fp_peerId v = k)"
    by (rule merge_table_keys) (use m in \<open>auto simp: failed_entry_def\<close>)
  then have "map fp_peerId (jm_values ?n) = jm_keys ?n" by (intro values_by_key) blast
  then show ?thesis using n by (simp only: mergeFailedPeers_alt)
qed

lemma update_snoc: "k \<notin> set (jm_keys m) \<Longrightarrow> jm_set k v m = m @ [(k, v)]"
  by (induction m) auto

lemma merge_fresh:
  assumes "distinct (map h xs)" and "set (map h xs) \<inter> set (jm_keys m) = {}"
  shows "foldl (\<lambda>m x. jm_set (h x) (g x) m) m xs = m @ map (\<lambda>x. (h x, g x)) xs"
  using assms
proof (induction xs arbitrary: m)
  case (Cons x xs)
  have "jm_set (h x) (g x) m = m @ [(h x, g x)]"
    using Cons.prems by (intro update_snoc) auto
  then show ?case using Cons by auto
qed simp

lemma failed_entry_as_next [simp]: "failed_entry now (as_next f) = f"
  by (simp add: failed_entry_def as_next_def)

lemma fst_as_next [simp]: "fst (as_next f) = fp_peerId f"
  by (simp add: as_next_def)

lemma mergeFailedPeers_id:
  assumes "distinct (map fp_peerId fs)"
  shows "mergeFailedPeers [] (map as_next fs) now = fs"
proof -
  have "foldl (\<lambda>m x. jm_set (fst x) (failed_entry now x) m) [] (map as_next fs)
      = map (\<lambda>x. (fst x, failed_entry now x)) (map as_next fs)"
    using assms by (subst merge_fresh) (auto simp: o_def)
  then show ?thesis by (simp add: mergeFailedPeers_alt o_def)
qed

lemma normalize_id: "lists_ok i \<Longrightarrow> normalizeOutboxItem i = i"
  by (simp add: lists_ok_def normalizeOutboxItem_def js_uniq_id last_n_id mergeFailedPeers_id)

lemma normalize_fields [simp]:
  "qi_id (normalizeOutboxItem i) = qi_id i"
  "qi_status (normalizeOutboxItem i) = qi_status i"
  "qi_payload (normalizeOutboxItem i) = qi_payload i"
  "qi_attempts (normalizeOutboxItem i) = qi_attempts i"
  "qi_leaseId (normalizeOutboxItem i) = qi_leaseId i"
  "qi_leaseExpiresAt (normalizeOutboxItem i) = qi_leaseExpiresAt i"
  "qi_expiresAt (normalizeOutboxItem i) = qi_expiresAt i"
  "qi_terminalAt (normalizeOutboxItem i) = qi_terminalAt i"
  "qi_nextAttemptAt (normalizeOutboxItem i) = qi_nextAttemptAt i"
  "qi_createdAt (normalizeOutboxItem i) = qi_createdAt i"
  by (simp_all add: normalizeOutboxItem_def)

lemma normalize_lists_ok [simp]: "lists_ok (normalizeOutboxItem i)"
  by (simp add: lists_ok_def normalizeOutboxItem_def)

lemma lease_ok_normalize [simp]: "lease_ok (normalizeOutboxItem i) = lease_ok i"
  by (simp add: lease_ok_def)

lemma terminal_ok_normalize [simp]: "terminal_ok (normalizeOutboxItem i) = terminal_ok i"
  by (simp add: terminal_ok_def)

lemma item_ok_normalize: "lease_ok i \<Longrightarrow> terminal_ok i \<Longrightarrow> item_ok (normalizeOutboxItem i)"
  by (simp add: item_ok_def)

section \<open>Table lemmas\<close>

lemma db_inv_Nil [simp]: "db_inv []"
  by (simp add: db_inv_def)

lemma db_inv_write:
  assumes "db_inv db" and "record_ok r"
  shows "db_inv (writeRecord r db)"
proof -
  have "set (jm_set (record_id r) r db) \<subseteq> insert (record_id r, r) (set db)"
    by (rule jm_values_update_subset)
  then show ?thesis
    using assms by (auto simp: db_inv_def writeRecord_def distinct_update)
qed

lemma db_inv_subset:
  assumes "db_inv db" and "set db' \<subseteq> set db" and "distinct (jm_keys db')"
  shows "db_inv db'"
  using assms by (auto simp: db_inv_def)

lemma db_inv_delete: "db_inv db \<Longrightarrow> db_inv (jm_delete k db)"
  by (rule db_inv_subset, assumption, rule jm_delete_subset)
     (simp add: db_inv_def distinct_delete)

lemma db_inv_fold_delete: "db_inv db \<Longrightarrow> db_inv (fold jm_delete ks db)"
  by (induction ks arbitrary: db) (auto intro: db_inv_delete)

lemma db_inv_in: "db_inv db \<Longrightarrow> (k, r) \<in> set db \<Longrightarrow> record_id r = k \<and> record_ok r"
  by (auto simp: db_inv_def)

lemma db_inv_get: "db_inv db \<Longrightarrow> map_of db k = Some r \<Longrightarrow> record_id r = k \<and> record_ok r"
  by (rule db_inv_in) (auto dest: map_of_SomeD)

lemma getOutbox_iff:
  assumes "db_inv db"
  shows "getOutbox k db = Some i \<longleftrightarrow> map_of db k = Some (Outbox_rec i)"
proof -
  have "normalizeOutboxItem q = q" if "map_of db k = Some (Outbox_rec q)" for q
    using db_inv_get [OF assms that] by (simp add: item_ok_def normalize_id)
  then show ?thesis by (auto simp: getOutbox_def split: option.splits delivery_record.splits)
qed

lemma getOutbox_ok:
  "db_inv db \<Longrightarrow> getOutbox k db = Some i \<Longrightarrow> item_ok i \<and> qi_id i = k"
  using db_inv_get [of db k "Outbox_rec i"] by (simp add: getOutbox_iff)

lemma getInbox_iff: "getInbox k db = Some i \<longleftrightarrow> map_of db k = Some (Inbox_rec i)"
  by (auto simp: getInbox_def split: option.splits delivery_record.splits)

lemma getReceipt_iff: "getReceipt k db = Some i \<longleftrightarrow> map_of db k = Some (Receipt_rec i)"
  by (auto simp: getReceipt_def split: option.splits delivery_record.splits)

lemma map_of_writeRecord:
  "map_of (writeRecord r db) k = (if k = record_id r then Some r else map_of db k)"
  by (simp add: writeRecord_def jm.get_put)

lemma getOutbox_write [simp]:
  "getOutbox k (writeRecord (Outbox_rec i) db) =
     (if k = qi_id i then Some (normalizeOutboxItem i) else getOutbox k db)"
  by (simp add: getOutbox_def map_of_writeRecord)

lemma patchOutbox_db_inv:
  assumes inv: "db_inv db"
    and ok: "\<And>i j. item_ok i \<Longrightarrow> f i = Some j \<Longrightarrow> lease_ok j \<and> terminal_ok j"
  shows "db_inv (snd (patchOutbox k f db))"
proof (cases "getOutbox k db")
  case None
  then show ?thesis using inv by (simp add: patchOutbox_def)
next
  case (Some i)
  then have "item_ok i" using getOutbox_ok inv by blast
  then show ?thesis using Some inv ok
    by (auto simp: patchOutbox_def Let_def item_ok_normalize intro!: db_inv_write split: option.splits)
qed

lemma patchInbox_db_inv:
  assumes inv: "db_inv db"
    and ok: "\<And>i. record_ok (Inbox_rec i) \<Longrightarrow> record_ok (Inbox_rec (f i))"
  shows "db_inv (snd (patchInbox k f db))"
proof (cases "getInbox k db")
  case None
  then show ?thesis using inv by (simp add: patchInbox_def)
next
  case (Some i)
  then have "map_of db k = Some (Inbox_rec i)" by (simp add: getInbox_iff)
  then have "record_ok (Inbox_rec i)" using db_inv_get [OF inv] by blast
  then show ?thesis using Some inv ok by (simp add: patchInbox_def db_inv_write del: record_ok.simps)
qed

lemma outbox_of_ok: "record_ok r \<Longrightarrow> outbox_of r = (case r of Outbox_rec i \<Rightarrow> [i] | _ \<Rightarrow> [])"
  by (cases r) (simp_all add: item_ok_def normalize_id)

lemma listOutbox_eq:
  assumes "db_inv db"
  shows "listOutbox db = concat (map (\<lambda>r. case r of Outbox_rec i \<Rightarrow> [i] | _ \<Rightarrow> []) (jm_values db))"
proof -
  have "map outbox_of (jm_values db)
      = map (\<lambda>r. case r of Outbox_rec i \<Rightarrow> [i] | _ \<Rightarrow> []) (jm_values db)"
    using db_inv_in [OF assms] by (auto intro!: map_cong simp: outbox_of_ok)
  then show ?thesis by (simp only: listOutbox_def)
qed

lemma listOutbox_mem:
  assumes "db_inv db"
  shows "i \<in> set (listOutbox db) \<longleftrightarrow> getOutbox (qi_id i) db = Some i"
proof -
  have mem: "i \<in> set (case r of Outbox_rec i \<Rightarrow> [i] | _ \<Rightarrow> []) \<longleftrightarrow> r = Outbox_rec i" for r
    by (cases r) auto
  have "i \<in> set (listOutbox db) \<longleftrightarrow> (\<exists>k. (k, Outbox_rec i) \<in> set db)"
    unfolding listOutbox_eq [OF assms] set_concat set_map UN_iff by (force simp: mem)
  also have "\<dots> \<longleftrightarrow> (qi_id i, Outbox_rec i) \<in> set db"
    using db_inv_in [OF assms] by fastforce
  also have "\<dots> \<longleftrightarrow> getOutbox (qi_id i) db = Some i"
  proof -
    have "distinct (jm_keys db)" using assms by (simp add: db_inv_def)
    then show ?thesis unfolding getOutbox_iff [OF assms] by (rule jm_in_set_iff)
  qed
  finally show ?thesis .
qed

section \<open>The rewriting loops\<close>

definition rewritten :: "(queue_item \<Rightarrow> queue_item option) \<Rightarrow> delivery_record \<Rightarrow> delivery_record" where
  "rewritten f r = (case r of
      Outbox_rec i \<Rightarrow> (case f i of None \<Rightarrow> r | Some j \<Rightarrow> Outbox_rec j) | _ \<Rightarrow> r)"

lemma update_middle:
  "k \<notin> set (jm_keys pre) \<Longrightarrow> jm_set k v (pre @ (k, r) # post) = pre @ (k, v) # post"
  by (induction pre) auto

lemma rewrite_items_gen:
  assumes "db_inv (pre @ post)" and "\<And>i j. f i = Some j \<Longrightarrow> qi_id j = qi_id i"
    and "jm_keys pre' = jm_keys pre"
  shows "foldl (\<lambda>(n, d) item. case f item of
      None \<Rightarrow> (n, d) | Some item' \<Rightarrow> (Suc n, writeRecord (Outbox_rec item') d))
      (n, pre' @ post) (concat (map outbox_of (jm_values post)))
    = (n + length (filter (\<lambda>i. f i \<noteq> None) (concat (map outbox_of (jm_values post)))),
       pre' @ map (\<lambda>(k, r). (k, rewritten f r)) post)"
  using assms
proof (induction post arbitrary: pre pre' n)
  case (Cons p post)
  obtain k r where p: "p = (k, r)" by (cases p)
  have inv: "db_inv ((pre @ [p]) @ post)" using Cons.prems by simp
  have k: "record_id r = k" "record_ok r" "k \<notin> set (jm_keys pre')"
    using Cons.prems by (auto simp: db_inv_def p)
  note IH = Cons.IH [OF inv Cons.prems(2)]
  show ?case
  proof (cases r)
    case (Outbox_rec i)
    then have [simp]: "normalizeOutboxItem i = i" using k by (simp add: item_ok_def normalize_id)
    show ?thesis
    proof (cases "f i")
      case None
      then show ?thesis
        using IH [of "pre' @ [(k, r)]" n] Cons.prems Outbox_rec by (simp add: p rewritten_def)
    next
      case (Some j)
      then have "writeRecord (Outbox_rec j) (pre' @ (k, r) # post) = pre' @ (k, Outbox_rec j) # post"
        using k Cons.prems(2) [OF Some] Outbox_rec by (simp add: writeRecord_def update_middle)
      then show ?thesis
        using IH [of "pre' @ [(k, Outbox_rec j)]" "Suc n"] Cons.prems Outbox_rec Some
        by (simp add: p rewritten_def)
    qed
  next
    case (Inbox_rec i)
    then show ?thesis
      using IH [of "pre' @ [(k, r)]" n] Cons.prems by (simp add: p rewritten_def)
  next
    case (Receipt_rec i)
    then show ?thesis
      using IH [of "pre' @ [(k, r)]" n] Cons.prems by (simp add: p rewritten_def)
  qed
qed simp

lemma rewrite_items_eq:
  assumes "db_inv db" and "\<And>i j. f i = Some j \<Longrightarrow> qi_id j = qi_id i"
  shows "rewrite_items f db = (length (filter (\<lambda>i. f i \<noteq> None) (listOutbox db)),
      map (\<lambda>(k, r). (k, rewritten f r)) db)"
  using rewrite_items_gen [of "[]" db f "[]" 0] assms
  by (simp add: rewrite_items_def listOutbox_def)

lemma rewrite_items_db_inv:
  assumes "db_inv db" and "\<And>i j. f i = Some j \<Longrightarrow> qi_id j = qi_id i"
    and "\<And>i j. item_ok i \<Longrightarrow> f i = Some j \<Longrightarrow> item_ok j"
  shows "db_inv (snd (rewrite_items f db))"
proof -
  have "record_id (rewritten f r) = k \<and> record_ok (rewritten f r)" if "(k, r) \<in> set db" for k r
    using db_inv_in [OF assms(1) that] assms(2,3)
    by (cases r) (auto simp: rewritten_def split: option.splits)
  then show ?thesis
    using assms(1) by (auto simp: rewrite_items_eq [OF assms(1,2)] db_inv_def o_def case_prod_beta)
qed

lemma map_of_rewrite:
  assumes "db_inv db" and "\<And>i j. f i = Some j \<Longrightarrow> qi_id j = qi_id i"
  shows "map_of (snd (rewrite_items f db)) k = map_option (rewritten f) (map_of db k)"
  by (simp add: rewrite_items_eq [OF assms] map_of_map)

lemma rewritten_simps [simp]:
  "rewritten f (Outbox_rec i) = (case f i of None \<Rightarrow> Outbox_rec i | Some j \<Rightarrow> Outbox_rec j)"
  "rewritten f (Inbox_rec x) = Inbox_rec x"
  "rewritten f (Receipt_rec y) = Receipt_rec y"
  by (simp_all add: rewritten_def)

lemma rewritten_other_iff [simp]:
  "rewritten f r = Inbox_rec x \<longleftrightarrow> r = Inbox_rec x"
  "rewritten f r = Receipt_rec y \<longleftrightarrow> r = Receipt_rec y"
  by (cases r; simp split: option.split)+

lemma getOutbox_rewrite:
  assumes "db_inv db" and "\<And>i j. f i = Some j \<Longrightarrow> qi_id j = qi_id i"
    and "\<And>i j. item_ok i \<Longrightarrow> f i = Some j \<Longrightarrow> item_ok j"
  shows "getOutbox k (snd (rewrite_items f db)) =
     map_option (\<lambda>i. case f i of None \<Rightarrow> i | Some j \<Rightarrow> j) (getOutbox k db)"
proof (cases "map_of db k")
  case None
  then show ?thesis by (simp add: getOutbox_def map_of_rewrite [OF assms(1,2)])
next
  case (Some r)
  show ?thesis
  proof (cases r)
    case (Outbox_rec i)
    then have i: "item_ok i" using db_inv_get [OF assms(1) Some] by simp
    then have ni: "normalizeOutboxItem i = i" by (simp add: item_ok_def normalize_id)
    have nj: "normalizeOutboxItem j = j" if "f i = Some j" for j
      using assms(3) [OF i that] by (simp add: item_ok_def normalize_id)
    show ?thesis
      using Some Outbox_rec ni nj
      by (cases "f i") (simp_all add: getOutbox_def map_of_rewrite [OF assms(1,2)])
  qed (simp_all add: Some getOutbox_def map_of_rewrite [OF assms(1,2)])
qed

lemma getInbox_rewrite:
  assumes "db_inv db" and "\<And>i j. f i = Some j \<Longrightarrow> qi_id j = qi_id i"
  shows "getInbox k (snd (rewrite_items f db)) = getInbox k db"
proof (rule option_eqI_iff)
  fix x show "getInbox k (snd (rewrite_items f db)) = Some x \<longleftrightarrow> getInbox k db = Some x"
    by (simp add: getInbox_iff map_of_rewrite [OF assms])
qed

lemma getReceipt_rewrite:
  assumes "db_inv db" and "\<And>i j. f i = Some j \<Longrightarrow> qi_id j = qi_id i"
  shows "getReceipt k (snd (rewrite_items f db)) = getReceipt k db"
proof (rule option_eqI_iff)
  fix x show "getReceipt k (snd (rewrite_items f db)) = Some x \<longleftrightarrow> getReceipt k db = Some x"
    by (simp add: getReceipt_iff map_of_rewrite [OF assms])
qed

section \<open>Every operation keeps the table well formed\<close>

lemma clear_lease_fields [simp]:
  "qi_status (clear_lease i) = qi_status i" "qi_id (clear_lease i) = qi_id i"
  "qi_leaseId (clear_lease i) = None" "qi_leaseExpiresAt (clear_lease i) = None"
  "qi_terminalAt (clear_lease i) = qi_terminalAt i" "qi_payload (clear_lease i) = qi_payload i"
  "qi_attempts (clear_lease i) = qi_attempts i" "qi_expiresAt (clear_lease i) = qi_expiresAt i"
  "qi_relayPeerIds (clear_lease i) = qi_relayPeerIds i"
  "qi_routeHistory (clear_lease i) = qi_routeHistory i"
  "qi_failedPeers (clear_lease i) = qi_failedPeers i"
  "qi_nextAttemptAt (clear_lease i) = qi_nextAttemptAt i"
  "qi_createdAt (clear_lease i) = qi_createdAt i"
  by (simp_all add: clear_lease_def)

lemma lease_ok_clear: "qi_status i \<noteq> Ob_sending \<Longrightarrow> lease_ok (clear_lease i)"
  by (simp add: lease_ok_def)

lemma limits_lease_ok: "lease_ok i \<Longrightarrow> lease_ok (applyDeliveryLimits i now)"
  by (auto simp: applyDeliveryLimits_def intro!: lease_ok_clear)

lemma limits_terminal_ok: "terminal_ok i \<Longrightarrow> terminal_ok (applyDeliveryLimits i now)"
  by (simp add: applyDeliveryLimits_def terminal_ok_def)

lemma limits_lists_ok [simp]: "lists_ok (applyDeliveryLimits i now) = lists_ok i"
  by (simp add: applyDeliveryLimits_def lists_ok_def)

lemma limits_item_ok: "item_ok i \<Longrightarrow> item_ok (applyDeliveryLimits i now)"
  by (simp add: item_ok_def limits_lease_ok limits_terminal_ok)

lemma limits_id [simp]: "qi_id (applyDeliveryLimits i now) = qi_id i"
  by (simp add: applyDeliveryLimits_def)

lemmas limits_ok = limits_lease_ok limits_terminal_ok lease_ok_clear

lemma upsertPayload_inv: "db_inv db \<Longrightarrow> db_inv (snd (upsertPayload p now db))"
proof -
  assume inv: "db_inv db"
  show ?thesis
  proof (cases "getOutbox (createQueueItemId p) db")
    case None
    then show ?thesis using inv
      by (auto simp: upsertPayload_def Let_def lease_ok_def terminal_ok_def
          intro!: db_inv_write item_ok_normalize)
  next
    case (Some i)
    then have "item_ok i" using getOutbox_ok inv by blast
    then have t: "terminal_ok i" by (simp add: item_ok_def)
    show ?thesis using Some inv t
      by (auto simp: upsertPayload_def Let_def terminal_ok_def
          intro!: db_inv_write item_ok_normalize lease_ok_clear)
  qed
qed

lemma leased_ok:
  "lease_ok (i\<lparr>qi_status := Ob_sending, qi_attempts := a, qi_updatedAt := u,
     qi_leaseId := Some l, qi_leaseExpiresAt := Some x\<rparr>)"
  "terminal_ok (i\<lparr>qi_status := Ob_sending, qi_attempts := a, qi_updatedAt := u,
     qi_leaseId := Some l, qi_leaseExpiresAt := Some x\<rparr>)"
  by (simp_all add: lease_ok_def terminal_ok_def)

lemma markSending_inv: "db_inv db \<Longrightarrow> db_inv (snd (markSending k now l ms db))"
  unfolding markSending_def Let_def
  by (rule patchOutbox_db_inv, assumption, unfold item_ok_def)
     (auto intro: limits_lease_ok limits_terminal_ok leased_ok
       simp del: isTerminalOutboxStatus.simps split: if_split_asm)

lemma markPeerAcked_inv: "db_inv db \<Longrightarrow> db_inv (snd (markPeerAcked k p now db))"
  unfolding markPeerAcked_def
  by (rule patchOutbox_db_inv)
     (auto simp: item_ok_def terminal_ok_def intro!: lease_ok_clear split: if_splits)

lemma terminal_ok_nonterminal: "\<not> isTerminalOutboxStatus (qi_status i) \<Longrightarrow> terminal_ok i"
  by (simp add: terminal_ok_def)

lemma limits_terminal_nt:
  "\<not> isTerminalOutboxStatus (qi_status i) \<Longrightarrow> terminal_ok (applyDeliveryLimits i now)"
  by (intro limits_terminal_ok terminal_ok_nonterminal)

lemma markFailed_inv: "db_inv db \<Longrightarrow> db_inv (snd (markFailed k f d now db))"
  unfolding markFailed_def
  by (rule patchOutbox_db_inv)
     (auto intro!: limits_lease_ok limits_terminal_nt lease_ok_clear)

lemma markPending_inv: "db_inv db \<Longrightarrow> db_inv (snd (markPending k d now db))"
  unfolding markPending_def
  by (rule patchOutbox_db_inv)
     (auto simp: item_ok_def intro!: limits_lease_ok limits_terminal_nt lease_ok_clear
       split: if_splits)

lemma markDelivered_inv: "db_inv db \<Longrightarrow> db_inv (snd (markDelivered k now db))"
  unfolding markDelivered_def
  by (rule patchOutbox_db_inv)
     (auto simp: item_ok_def terminal_ok_def intro!: lease_ok_clear split: if_splits option.splits)

lemma markDeadLetter_inv: "db_inv db \<Longrightarrow> db_inv (snd (markDeadLetter k e now db))"
  unfolding markDeadLetter_def
  by (rule patchOutbox_db_inv)
     (auto simp: terminal_ok_def intro!: lease_ok_clear split: option.splits)

text \<open>The four loops: each keeps the id of an item and its well-formedness.\<close>

definition recover_update :: "int \<Rightarrow> bool \<Rightarrow> queue_item \<Rightarrow> queue_item option" where
  "recover_update now live item =
     (if qi_status item \<noteq> Ob_sending
        \<or> \<not> live \<and> (case qi_leaseExpiresAt item of None \<Rightarrow> 0 | Some t \<Rightarrow> t) > now
      then None
      else Some (clear_lease (item\<lparr>
        qi_status := (if qi_relayPeerIds item \<noteq> [] then Ob_relayed else Ob_queued),
        qi_nextAttemptAt := now, qi_updatedAt := now\<rparr>)))"

definition limit_update :: "int \<Rightarrow> queue_item \<Rightarrow> queue_item option" where
  "limit_update now item =
     (let limited = applyDeliveryLimits item now in if limited = item then None else Some limited)"

definition chat_update :: "string \<Rightarrow> int \<Rightarrow> queue_item \<Rightarrow> queue_item option" where
  "chat_update m t item =
     (if getChatMessageId (qi_payload item) \<noteq> Some m
        \<or> qi_status item = Ob_delivered \<or> qi_status item = Ob_read then None
      else Some (clear_lease (item\<lparr>qi_status := Ob_delivered, qi_nextAttemptAt := t,
        qi_updatedAt := t,
        qi_terminalAt := (case qi_terminalAt item of None \<Rightarrow> Some t | x \<Rightarrow> x)\<rparr>)))"

lemma recoverInterrupted_alt: "recoverInterrupted now live = rewrite_items (recover_update now live)"
  by (simp add: recoverInterrupted_def recover_update_def [abs_def])

lemma reconcile_alt: "reconcileDeliveryLimits now = rewrite_items (limit_update now)"
  by (simp add: reconcileDeliveryLimits_def limit_update_def [abs_def])

lemma markChatDelivered_alt: "markChatDelivered m t = rewrite_items (chat_update m t)"
  by (simp add: markChatDelivered_def chat_update_def [abs_def])

lemma lists_ok_clear [simp]: "lists_ok (clear_lease i) = lists_ok i"
  by (simp add: lists_ok_def)

lemma lists_ok_updates [simp]:
  "lists_ok (i\<lparr>qi_status := s\<rparr>) = lists_ok i"
  "lists_ok (i\<lparr>qi_nextAttemptAt := t\<rparr>) = lists_ok i"
  "lists_ok (i\<lparr>qi_updatedAt := t\<rparr>) = lists_ok i"
  "lists_ok (i\<lparr>qi_terminalAt := ot\<rparr>) = lists_ok i"
  "lists_ok (i\<lparr>qi_terminalReason := r\<rparr>) = lists_ok i"
  "lists_ok (i\<lparr>qi_lastReceipt := c\<rparr>) = lists_ok i"
  by (simp_all add: lists_ok_def)

lemma recover_update_id: "recover_update now live i = Some j \<Longrightarrow> qi_id j = qi_id i"
  by (auto simp: recover_update_def split: if_splits)

lemma limit_update_id: "limit_update now i = Some j \<Longrightarrow> qi_id j = qi_id i"
  by (auto simp: limit_update_def Let_def split: if_splits)

lemma chat_update_id: "chat_update m t i = Some j \<Longrightarrow> qi_id j = qi_id i"
  by (auto simp: chat_update_def split: if_splits)

lemma receipt_update_id: "receipt_update r k i = Some j \<Longrightarrow> qi_id j = qi_id i"
  by (auto simp: receipt_update_def Let_def split: if_splits)

lemma recover_update_ok: "item_ok i \<Longrightarrow> recover_update now live i = Some j \<Longrightarrow> item_ok j"
  by (auto simp: recover_update_def item_ok_def intro!: lease_ok_clear terminal_ok_nonterminal
      split: if_splits)

lemma limit_update_ok: "item_ok i \<Longrightarrow> limit_update now i = Some j \<Longrightarrow> item_ok j"
  by (auto simp: limit_update_def Let_def intro: limits_item_ok split: if_splits)

lemma chat_update_ok: "item_ok i \<Longrightarrow> chat_update m t i = Some j \<Longrightarrow> item_ok j"
  by (auto simp: chat_update_def item_ok_def terminal_ok_def intro!: lease_ok_clear
      split: if_splits option.split)

lemma receipt_update_ok: "item_ok i \<Longrightarrow> receipt_update r k i = Some j \<Longrightarrow> item_ok j"
  by (auto simp: receipt_update_def Let_def item_ok_def terminal_ok_def intro!: lease_ok_clear
      split: if_splits option.split)

lemmas update_id = recover_update_id limit_update_id chat_update_id receipt_update_id
lemmas update_ok = recover_update_ok limit_update_ok chat_update_ok receipt_update_ok

lemma recoverInterrupted_inv: "db_inv db \<Longrightarrow> db_inv (snd (recoverInterrupted now live db))"
  unfolding recoverInterrupted_alt by (rule rewrite_items_db_inv) (blast intro: update_id update_ok)+

lemma reconcile_inv: "db_inv db \<Longrightarrow> db_inv (snd (reconcileDeliveryLimits now db))"
  unfolding reconcile_alt by (rule rewrite_items_db_inv) (blast intro: update_id update_ok)+

lemma markChatDelivered_inv: "db_inv db \<Longrightarrow> db_inv (snd (markChatDelivered m t db))"
  unfolding markChatDelivered_alt by (rule rewrite_items_db_inv) (blast intro: update_id update_ok)+

lemma applyReceipt_inv: "db_inv db \<Longrightarrow> db_inv (snd (applyReceiptToOutbox r k db))"
  unfolding applyReceiptToOutbox_def
  by (rule rewrite_items_db_inv) (blast intro: update_id update_ok)+

lemma recordChatReceipt_inv: "db_inv db \<Longrightarrow> db_inv (snd (recordChatReceipt r db))"
  by (auto simp: recordChatReceipt_def Let_def intro!: applyReceipt_inv db_inv_write split: option.split)

lemma claimIncoming_inv: "db_inv db \<Longrightarrow> db_inv (snd (claimIncoming d n p src now ms db))"
  by (auto simp: claimIncoming_def Let_def intro!: db_inv_write split: option.split)

lemma markIncomingApplied_inv: "db_inv db \<Longrightarrow> db_inv (snd (markIncomingApplied d now db))"
  unfolding markIncomingApplied_def by (rule patchInbox_db_inv) auto

lemma markIncomingRejected_inv: "db_inv db \<Longrightarrow> db_inv (snd (markIncomingRejected d e now db))"
  unfolding markIncomingRejected_def by (rule patchInbox_db_inv) auto

lemma deleteMatching_inv: "db_inv db \<Longrightarrow> db_inv (snd (deleteMatching P db))"
  by (simp add: deleteMatching_def Let_def db_inv_fold_delete)

lemma clear_kind_inv:
  assumes "db_inv db"
  shows "db_inv (clear_kind P db)"
proof (rule db_inv_subset [OF assms])
  show "set (clear_kind P db) \<subseteq> set db" by (auto simp: clear_kind_def)
next
  have "distinct (jm_keys db)" using assms by (simp only: db_inv_def)
  then show "distinct (jm_keys (clear_kind P db))"
    unfolding clear_kind_def by (rule distinct_map_filter)
qed

lemma clear_inv: "db_inv db \<Longrightarrow> db_inv (clear db)"
  by (simp add: clear_def clear_kind_inv)

lemma fold_write_inv:
  "db_inv db \<Longrightarrow> (\<And>x. record_ok (g x)) \<Longrightarrow> db_inv (fold (\<lambda>x. writeRecord (g x)) xs db)"
  by (induction xs arbitrary: db) (auto intro: db_inv_write)

lemma migrate_item_ok: "item_ok (migrate_item now i)"
  by (cases "li_status i")
     (auto simp: migrate_item_def lease_ok_def terminal_ok_def intro!: item_ok_normalize)

lemma migrateLegacyStorage_inv:
  "db_inv db \<Longrightarrow> db_inv (snd (snd (migrateLegacyStorage now st db)))"
proof -
  assume inv: "db_inv db"
  have r: "record_ok (Receipt_rec (migrate_receipt r))" for r
    by (simp add: migrate_receipt_def Let_def)
  show ?thesis
    using inv by (auto simp: migrateLegacyStorage_def Let_def migrate_item_ok
        intro!: fold_write_inv r)
qed

section \<open>Runs of operations\<close>

datatype outbox_event =
    Ev_upsert wire_payload int
  | Ev_sending string int string int
  | Ev_acked string string int
  | Ev_failed string "(string \<times> string) list" int int
  | Ev_pending string int int
  | Ev_delivered string int
  | Ev_dead string string int
  | Ev_recover int bool
  | Ev_claim string string wire_payload string int int
  | Ev_applied string int
  | Ev_rejected string string int
  | Ev_receipt chat_receipt
  | Ev_chat_delivered string int
  | Ev_list int
  | Ev_next int
  | Ev_clear_acked int int
  | Ev_gc int
  | Ev_clear
  | Ev_migrate int legacy_storage

fun outbox_step :: "delivery_table \<Rightarrow> outbox_event \<Rightarrow> delivery_table" where
  "outbox_step db (Ev_upsert p now) = snd (upsertPayload p now db)"
| "outbox_step db (Ev_sending k now l ms) = snd (markSending k now l ms db)"
| "outbox_step db (Ev_acked k p now) = snd (markPeerAcked k p now db)"
| "outbox_step db (Ev_failed k f d now) = snd (markFailed k f d now db)"
| "outbox_step db (Ev_pending k d now) = snd (markPending k d now db)"
| "outbox_step db (Ev_delivered k now) = snd (markDelivered k now db)"
| "outbox_step db (Ev_dead k e now) = snd (markDeadLetter k e now db)"
| "outbox_step db (Ev_recover now live) = snd (recoverInterrupted now live db)"
| "outbox_step db (Ev_claim d n p src now ms) = snd (claimIncoming d n p src now ms db)"
| "outbox_step db (Ev_applied d now) = snd (markIncomingApplied d now db)"
| "outbox_step db (Ev_rejected d e now) = snd (markIncomingRejected d e now db)"
| "outbox_step db (Ev_receipt r) = snd (recordChatReceipt r db)"
| "outbox_step db (Ev_chat_delivered m t) = snd (markChatDelivered m t db)"
| "outbox_step db (Ev_list now) = snd (listPending now db)"
| "outbox_step db (Ev_next now) = snd (getNextAttemptAt now db)"
| "outbox_step db (Ev_clear_acked age now) = snd (clearAcked age now db)"
| "outbox_step db (Ev_gc now) = snd (garbageCollect now db)"
| "outbox_step db Ev_clear = clear db"
| "outbox_step db (Ev_migrate now st) = snd (snd (migrateLegacyStorage now st db))"

lemmas outbox_op_inv =
  upsertPayload_inv markSending_inv markPeerAcked_inv markFailed_inv markPending_inv
  markDelivered_inv markDeadLetter_inv recoverInterrupted_inv claimIncoming_inv
  markIncomingApplied_inv markIncomingRejected_inv recordChatReceipt_inv markChatDelivered_inv
  deleteMatching_inv clear_inv migrateLegacyStorage_inv reconcile_inv

lemma outbox_step_inv: "db_inv db \<Longrightarrow> db_inv (outbox_step db e)"
  by (cases e) (simp_all add: outbox_op_inv listPending_def getNextAttemptAt_def clearAcked_def
      garbageCollect_def Let_def)

interpretation outbox: machine outbox_step db_inv
  by unfold_locales (rule outbox_step_inv)

end
