(* ===== verification/Outbox_Claims.thy ===== *)
theory Outbox_Claims
  imports Outbox_Proofs
begin

text \<open>
  What the delivery tables promise to the replication service: the properties of the outbox, the
  inbox and the receipts, each over whole runs of operations where it is about time.
\<close>

section \<open>Row ids of the three kinds never collide\<close>

lemma queue_id_not_inbox [simp]: "createQueueItemId p \<noteq> createInboxId d"
  "createInboxId d \<noteq> createQueueItemId p"
  by (simp_all add: createQueueItemId_def createInboxId_def)

lemma queue_id_not_receipt [simp]: "createQueueItemId p \<noteq> createReceiptId r"
  "createReceiptId r \<noteq> createQueueItemId p"
  by (simp_all add: createQueueItemId_def createReceiptId_def)

lemma inbox_id_not_receipt [simp]: "createInboxId d \<noteq> createReceiptId r"
  "createReceiptId r \<noteq> createInboxId d"
  by (simp_all add: createInboxId_def createReceiptId_def)

section \<open>Reads after writes\<close>

lemma getOutbox_write_other:
  "record_id r \<noteq> k \<Longrightarrow> getOutbox k (writeRecord r db) = getOutbox k db"
  by (simp add: getOutbox_def map_of_writeRecord)

lemma getInbox_write_other:
  "record_id r \<noteq> k \<Longrightarrow> getInbox k (writeRecord r db) = getInbox k db"
  by (simp add: getInbox_def map_of_writeRecord)

lemma getInbox_write [simp]: "getInbox (ii_id i) (writeRecord (Inbox_rec i) db) = Some i"
  by (simp add: getInbox_def map_of_writeRecord)

lemma getReceipt_write [simp]: "getReceipt (rr_id i) (writeRecord (Receipt_rec i) db) = Some i"
  by (simp add: getReceipt_def map_of_writeRecord)

lemma getOutbox_patch:
  assumes inv: "db_inv db" and id: "\<And>i j. f i = Some j \<Longrightarrow> qi_id j = qi_id i"
  shows "getOutbox k' (snd (patchOutbox k f db)) =
    (if k' = k then map_option (\<lambda>i. case f i of None \<Rightarrow> i | Some j \<Rightarrow> normalizeOutboxItem j)
       (getOutbox k db) else getOutbox k' db)"
proof (cases "getOutbox k db")
  case None
  then show ?thesis by (simp add: patchOutbox_def)
next
  case (Some i)
  then have "qi_id i = k" using getOutbox_ok inv by blast
  then show ?thesis using Some id
    by (auto simp: patchOutbox_def Let_def normalize_id split: option.split)
qed

lemma getInbox_patchOutbox:
  assumes inv: "db_inv db" and id: "\<And>i j. f i = Some j \<Longrightarrow> qi_id j = qi_id i"
    and "getInbox k' db = Some x"
  shows "getInbox k' (snd (patchOutbox k f db)) = Some x"
proof (cases "getOutbox k db")
  case None
  then show ?thesis using assms by (simp add: patchOutbox_def)
next
  case (Some i)
  then have "qi_id i = k" "k \<noteq> k'"
    using getOutbox_ok inv assms(3) by (auto simp: getOutbox_iff getInbox_iff)
  then show ?thesis using Some id assms(3)
    by (auto simp: patchOutbox_def Let_def getInbox_write_other split: option.split)
qed

lemma getOutbox_patchInbox:
  assumes inv: "db_inv db" and id: "\<And>i. ii_id (f i) = ii_id i" and "getOutbox k' db = Some x"
  shows "getOutbox k' (snd (patchInbox k f db)) = Some x"
proof (cases "getInbox k db")
  case None
  then show ?thesis using assms by (simp add: patchInbox_def)
next
  case (Some i)
  then have "map_of db k = Some (Inbox_rec i)" by (simp add: getInbox_iff)
  then have "ii_id i = k" "k \<noteq> k'"
    using db_inv_get [OF inv, of k] assms(3) by (auto simp: getOutbox_iff [OF inv])
  then show ?thesis using Some id assms(3) by (simp add: patchInbox_def getOutbox_write_other)
qed

lemma getInbox_patchInbox:
  assumes inv: "db_inv db" and id: "\<And>i. ii_id (f i) = ii_id i"
  shows "getInbox k' (snd (patchInbox k f db)) =
    (if k' = k then map_option f (getInbox k db) else getInbox k' db)"
proof (cases "getInbox k db")
  case None
  then show ?thesis by (simp add: patchInbox_def)
next
  case (Some i)
  then have "map_of db k = Some (Inbox_rec i)" by (simp add: getInbox_iff)
  then have "ii_id (f i) = k" using db_inv_get [OF inv, of k] id by fastforce
  then show ?thesis using Some
    by (auto simp: patchInbox_def getInbox_write_other)
qed

section \<open>Well-formedness over runs\<close>

text \<open>C1: whatever operations run on an empty delivery table, in whatever order and with whatever
  arguments, every row keeps its key, a row is leased exactly while it is being sent, no peer is
  listed twice, the route history stays within 32 entries, and a terminal row has its end time.\<close>

theorem outbox_run_well_formed: "db_inv (foldl outbox_step [] es)"
  by (rule outbox.inv_run) (rule db_inv_Nil)

section \<open>The sending lease\<close>

lemma markSending_result:
  assumes inv: "db_inv db" and i: "getOutbox k db = Some i"
    and live: "now < qi_expiresAt i"
  shows "markSending k now l ms db =
    (if isTerminalOutboxStatus (qi_status i)
        \<and> qi_status i \<noteq> Ob_expired \<and> qi_status i \<noteq> Ob_dead_letter
      \<or> qi_status i = Ob_sending \<and> now < the (qi_leaseExpiresAt i) then (None, db)
     else let j = (if isTerminalOutboxStatus (qi_status i) then i
       else if qi_attempts i \<ge> 12 \<and> qi_status i \<noteq> Ob_sending then applyDeliveryLimits i now
       else i\<lparr>qi_status := Ob_sending, qi_attempts := qi_attempts i + 1, qi_updatedAt := now,
         qi_leaseId := Some l, qi_leaseExpiresAt := Some (now + max 1 ms)\<rparr>)
       in (Some j, writeRecord (Outbox_rec j) db))"
proof -
  have ok: "item_ok i" using getOutbox_ok inv i by blast
  then have n: "normalizeOutboxItem i = i" "normalizeOutboxItem (applyDeliveryLimits i now)
      = applyDeliveryLimits i now"
    using limits_item_ok [OF ok] by (simp_all add: item_ok_def normalize_id)
  have "lists_ok (i\<lparr>qi_status := Ob_sending, qi_attempts := qi_attempts i + 1, qi_updatedAt := now,
         qi_leaseId := Some l, qi_leaseExpiresAt := Some (now + max 1 ms)\<rparr>)"
    using ok by (simp add: item_ok_def lists_ok_def)
  then have n2: "normalizeOutboxItem (i\<lparr>qi_status := Ob_sending, qi_attempts := qi_attempts i + 1,
        qi_updatedAt := now, qi_leaseId := Some l, qi_leaseExpiresAt := Some (now + max 1 ms)\<rparr>)
      = i\<lparr>qi_status := Ob_sending, qi_attempts := qi_attempts i + 1, qi_updatedAt := now,
         qi_leaseId := Some l, qi_leaseExpiresAt := Some (now + max 1 ms)\<rparr>"
    by (rule normalize_id)
  have ls: "qi_status i = Ob_sending \<Longrightarrow> \<exists>t. qi_leaseExpiresAt i = Some t"
    using ok by (auto simp: item_ok_def lease_ok_def)
  have lim: "qi_status (applyDeliveryLimits i now) = qi_status i
      \<and> applyDeliveryLimits i now = i
      \<or> qi_status (applyDeliveryLimits i now) = Ob_dead_letter \<and> qi_attempts i \<ge> 12
      \<and> qi_status i \<noteq> Ob_sending \<and> \<not> isTerminalOutboxStatus (qi_status i)"
    using live by (simp add: applyDeliveryLimits_def DEFAULT_MAX_OUTBOX_ATTEMPTS_def)
  have lim': "applyDeliveryLimits i now = i" if "isTerminalOutboxStatus (qi_status i)
      \<or> \<not> (qi_attempts i \<ge> 12 \<and> qi_status i \<noteq> Ob_sending)"
    using that live by (auto simp: applyDeliveryLimits_def DEFAULT_MAX_OUTBOX_ATTEMPTS_def)
  have lim'': "qi_status (applyDeliveryLimits i now) = Ob_dead_letter"
    if "\<not> isTerminalOutboxStatus (qi_status i)" "qi_attempts i \<ge> 12 \<and> qi_status i \<noteq> Ob_sending"
    using that live by (simp add: applyDeliveryLimits_def DEFAULT_MAX_OUTBOX_ATTEMPTS_def)
  show ?thesis
  proof (cases "isTerminalOutboxStatus (qi_status i)")
    case True
    then show ?thesis
      using i lim' n by (auto simp: markSending_def patchOutbox_def Let_def)
  next
    case nt: False
    show ?thesis
    proof (cases "qi_attempts i \<ge> 12 \<and> qi_status i \<noteq> Ob_sending")
      case True
      then show ?thesis
        using i nt lim'' n by (simp add: markSending_def patchOutbox_def Let_def)
    next
      case False
      then show ?thesis
        using i nt lim' n2 ls
        by (cases "qi_status i = Ob_sending") (auto simp: markSending_def patchOutbox_def Let_def)
    qed
  qed
qed

lemma markSending_live:
  assumes inv: "db_inv db" and j: "markSending k t l ms db = (Some j, db1)" "qi_status j = Ob_sending"
  obtains i where "getOutbox k db = Some i" and "t < qi_expiresAt i"
    and "\<not> isTerminalOutboxStatus (qi_status i)"
proof -
  obtain i where i: "getOutbox k db = Some i"
    using j by (cases "getOutbox k db") (auto simp: markSending_def patchOutbox_def)
  have "t < qi_expiresAt i \<and> \<not> isTerminalOutboxStatus (qi_status i)"
  proof (rule ccontr)
    assume "\<not> ?thesis"
    then have "isTerminalOutboxStatus (qi_status i)
        \<or> qi_status (applyDeliveryLimits i t) = Ob_expired"
      by (auto simp: applyDeliveryLimits_def)
    then show False using j i
      by (auto simp: markSending_def patchOutbox_def Let_def applyDeliveryLimits_def split: if_splits)
  qed
  then show ?thesis using i that by blast
qed

lemma markSending_stored:
  assumes inv: "db_inv db" and j: "markSending k t l ms db = (Some j, db1)" "qi_status j = Ob_sending"
  shows "getOutbox k db1 = Some j" and "qi_leaseExpiresAt j = Some (t + max 1 ms)"
    and "qi_leaseId j = Some l" and "t < qi_expiresAt j"
proof -
  obtain i where i: "getOutbox k db = Some i" "t < qi_expiresAt i"
      "\<not> isTerminalOutboxStatus (qi_status i)"
    using markSending_live [OF inv j] .
  have ok: "item_ok i" "qi_id i = k" using getOutbox_ok inv i by blast+
  let ?n = "i\<lparr>qi_status := Ob_sending, qi_attempts := qi_attempts i + 1, qi_updatedAt := t,
         qi_leaseId := Some l, qi_leaseExpiresAt := Some (t + max 1 ms)\<rparr>"
  have r: "j = ?n \<and> db1 = writeRecord (Outbox_rec j) db"
    using j i markSending_result [OF inv i(1,2), of l ms]
    by (auto simp: Let_def applyDeliveryLimits_def DEFAULT_MAX_OUTBOX_ATTEMPTS_def split: if_splits)
  moreover have "normalizeOutboxItem ?n = ?n"
    using ok by (intro normalize_id) (simp add: item_ok_def lists_ok_def)
  ultimately show "getOutbox k db1 = Some j" using ok by simp
  show "qi_leaseExpiresAt j = Some (t + max 1 ms)" "qi_leaseId j = Some l" "t < qi_expiresAt j"
    using r i by simp_all
qed

text \<open>while a sender holds the lease of a row, every other \<open>markSending\<close> of it returns null and
  writes nothing; once the lease has run out the next \<open>markSending\<close> takes it over and counts one
  more attempt.\<close>

theorem lease_exclusive:
  assumes inv: "db_inv db" and j: "markSending k t l ms db = (Some j, db1)" "qi_status j = Ob_sending"
    and live: "t' < qi_expiresAt j"
  shows "markSending k t' l' ms' db1 =
    (if t' < t + max 1 ms then (None, db1)
     else let j' = j\<lparr>qi_attempts := qi_attempts j + 1, qi_updatedAt := t', qi_leaseId := Some l',
         qi_leaseExpiresAt := Some (t' + max 1 ms')\<rparr>
       in (Some j', writeRecord (Outbox_rec j') db1))"
proof -
  have inv1: "db_inv db1" using markSending_inv [OF inv, of k t l ms] j by simp
  have e: "j\<lparr>qi_status := Ob_sending, qi_attempts := a, qi_updatedAt := t', qi_leaseId := Some l',
         qi_leaseExpiresAt := x\<rparr>
      = j\<lparr>qi_attempts := a, qi_updatedAt := t', qi_leaseId := Some l', qi_leaseExpiresAt := x\<rparr>"
    for a x using j(2) by (cases j) simp
  show ?thesis
    by (simp add: Let_def markSending_result [OF inv1 markSending_stored(1) [OF inv j] live]
        j(2) markSending_stored(2) [OF inv j] e)
qed

definition sample_payload :: wire_payload where
  "sample_payload = \<lparr>pl_object = SChatEnvelope ''m1'', pl_gossipExpiresAt = None,
     pl_body = ''b'', pl_json = ''b''\<rparr>"

definition sample_item :: queue_item where
  "sample_item = \<lparr>qi_id = ''q1'', qi_payload = sample_payload, qi_status = Ob_queued,
     qi_createdAt = 0, qi_updatedAt = 0, qi_attempts = 0, qi_nextAttemptAt = 0,
     qi_relayPeerIds = [], qi_routeHistory = [], qi_lastReceipt = None, qi_failedPeers = [],
     qi_leaseId = None, qi_leaseExpiresAt = None, qi_expiresAt = 1000, qi_terminalAt = None,
     qi_terminalReason = None\<rparr>"

definition sample_leased :: queue_item where
  "sample_leased = sample_item\<lparr>qi_status := Ob_sending, qi_attempts := 1, qi_updatedAt := 10,
     qi_leaseId := Some ''L'', qi_leaseExpiresAt := Some 60\<rparr>"

lemmas sample_defs = sample_payload_def sample_item_def sample_leased_def

lemma sample_inv:
  "item_ok i \<Longrightarrow> db_inv [(qi_id i, Outbox_rec i)]"
  by (simp add: db_inv_def)

lemma sample_item_ok: "item_ok sample_item" "item_ok sample_leased"
  by (simp_all add: sample_defs item_ok_def lists_ok_def lease_ok_def terminal_ok_def)

lemma sample_markSending:
  "markSending ''q1'' 10 ''L'' 50 [(''q1'', Outbox_rec sample_item)]
     = (Some sample_leased, [(''q1'', Outbox_rec sample_leased)])"
  by code_simp

theorem lease_exclusive_witness:
  "markSending ''q1'' 20 ''M'' 50 [(''q1'', Outbox_rec sample_leased)]
     = (None, [(''q1'', Outbox_rec sample_leased)])"
  using lease_exclusive [OF sample_inv [OF sample_item_ok(1)], of "''q1''" 10 "''L''" 50 sample_leased
      "[(''q1'', Outbox_rec sample_leased)]" 20 "''M''" 50] sample_markSending
  by (simp add: sample_defs)

section \<open>The attempt limit\<close>

text \<open>a row that is not being sent is handed to a sender at most twelve times: the send that
  \<open>markSending\<close> grants is the next one and never beyond the limit or the expiry, and a row at the
  limit becomes a dead letter instead.\<close>

theorem markSending_limits:
  assumes inv: "db_inv db" and i: "getOutbox k db = Some i"
    and s: "qi_status i \<noteq> Ob_sending" "\<not> isTerminalOutboxStatus (qi_status i)"
  shows "\<exists>j. markSending k t l ms db = (Some j, writeRecord (Outbox_rec j) db)
    \<and> (if qi_expiresAt i \<le> t then qi_status j = Ob_expired
       else if qi_attempts i \<ge> 12 then qi_status j = Ob_dead_letter \<and> qi_attempts j = qi_attempts i
       else qi_status j = Ob_sending \<and> qi_attempts j = qi_attempts i + 1 \<and> qi_attempts j \<le> 12)"
proof (cases "qi_expiresAt i \<le> t")
  case True
  have "item_ok (applyDeliveryLimits i t)" using getOutbox_ok inv i limits_item_ok by blast
  then have "normalizeOutboxItem (applyDeliveryLimits i t) = applyDeliveryLimits i t"
    by (simp add: item_ok_def normalize_id)
  moreover have "qi_status (applyDeliveryLimits i t) = Ob_expired"
    using True s by (simp add: applyDeliveryLimits_def)
  ultimately show ?thesis
    using i True by (simp add: markSending_def patchOutbox_def Let_def)
next
  case False
  then have "t < qi_expiresAt i" by simp
  from markSending_result [OF inv i this, of l ms] False s show ?thesis
    by (auto simp: Let_def applyDeliveryLimits_def DEFAULT_MAX_OUTBOX_ATTEMPTS_def)
qed

theorem markSending_limits_witness:
  "\<exists>j. markSending ''q1'' 10 ''L'' 50 [(''q1'', Outbox_rec sample_item)]
      = (Some j, writeRecord (Outbox_rec j) [(''q1'', Outbox_rec sample_item)])
    \<and> qi_status j = Ob_sending \<and> qi_attempts j \<le> 12"
proof -
  have "getOutbox ''q1'' [(''q1'', Outbox_rec sample_item)] = Some sample_item" by code_simp
  then show ?thesis
    using markSending_limits [OF sample_inv [OF sample_item_ok(1)], of "''q1''" sample_item 10 "''L''" 50]
    by (force simp: sample_defs)
qed

section \<open>Delivered and read are kept\<close>

definition settled :: "queue_status \<Rightarrow> bool" where
  "settled s \<longleftrightarrow> s = Ob_delivered \<or> s = Ob_read"

definition advances :: "queue_status \<Rightarrow> queue_status \<Rightarrow> bool" where
  "advances s t \<longleftrightarrow> (settled s \<longrightarrow> settled t) \<and> (s = Ob_read \<longrightarrow> t = Ob_read)"

definition delivery_kept :: "delivery_table \<Rightarrow> delivery_table \<Rightarrow> bool" where
  "delivery_kept db db' \<longleftrightarrow> (\<forall>p i. getOutbox (createQueueItemId p) db = Some i \<and> settled (qi_status i)
     \<longrightarrow> (\<exists>j. getOutbox (createQueueItemId p) db' = Some j \<and> advances (qi_status i) (qi_status j)))"

text \<open>The operations a settled row survives: all but \<open>markFailed\<close> and \<open>markDeadLetter\<close>, which do not
  look at the status, the deletions, and the migration, which overwrites rows.\<close>

fun keeps_delivery :: "outbox_event \<Rightarrow> bool" where
  "keeps_delivery (Ev_failed k f d now) = False"
| "keeps_delivery (Ev_dead k e now) = False"
| "keeps_delivery (Ev_clear_acked a now) = False"
| "keeps_delivery (Ev_gc now) = False"
| "keeps_delivery Ev_clear = False"
| "keeps_delivery (Ev_migrate now st) = False"
| "keeps_delivery e = True"

lemma advances_refl [simp]: "advances s s"
  by (simp add: advances_def)

lemma advances_trans: "advances s t \<Longrightarrow> advances t u \<Longrightarrow> advances s u"
  by (auto simp: advances_def)

lemma delivery_kept_refl [simp]: "delivery_kept db db"
  by (auto simp: delivery_kept_def)

lemma delivery_kept_trans: "delivery_kept a b \<Longrightarrow> delivery_kept b c \<Longrightarrow> delivery_kept a c"
  unfolding delivery_kept_def by (meson advances_def advances_trans)

lemma kept_patchOutbox:
  assumes "db_inv db" and "\<And>i j. f i = Some j \<Longrightarrow> qi_id j = qi_id i"
    and "\<And>i j. f i = Some j \<Longrightarrow> advances (qi_status i) (qi_status j)"
  shows "delivery_kept db (snd (patchOutbox k f db))"
  using assms(3)
  by (auto simp: delivery_kept_def getOutbox_patch [of db f, OF assms(1,2)] split: option.split)

lemma kept_rewrite:
  assumes "db_inv db" and "\<And>i j. f i = Some j \<Longrightarrow> qi_id j = qi_id i"
    and "\<And>i j. item_ok i \<Longrightarrow> f i = Some j \<Longrightarrow> item_ok j"
    and "\<And>i j. f i = Some j \<Longrightarrow> advances (qi_status i) (qi_status j)"
  shows "delivery_kept db (snd (rewrite_items f db))"
  using assms(4)
  by (auto simp: delivery_kept_def getOutbox_rewrite [of db f, OF assms(1-3)] split: option.split)

lemma kept_write:
  "(\<And>p. createQueueItemId p \<noteq> record_id r) \<Longrightarrow> delivery_kept db (writeRecord r db)"
  unfolding delivery_kept_def by (metis advances_refl getOutbox_write_other)

lemma kept_patchInbox:
  assumes "db_inv db" and "\<And>i. ii_id (f i) = ii_id i"
  shows "delivery_kept db (snd (patchInbox k f db))"
  unfolding delivery_kept_def using getOutbox_patchInbox [OF assms] by (metis advances_refl)

lemma limits_advances: "advances (qi_status i) (qi_status (applyDeliveryLimits i now))"
  by (auto simp: advances_def settled_def applyDeliveryLimits_def)

lemma kept_upsert:
  assumes inv: "db_inv db"
  shows "delivery_kept db (snd (upsertPayload p now db))"
proof (cases "getOutbox (createQueueItemId p) db")
  case None
  then show ?thesis by (auto simp: upsertPayload_def Let_def delivery_kept_def)
next
  case (Some i)
  moreover have "qi_id i = createQueueItemId p" using getOutbox_ok inv Some by blast
  ultimately show ?thesis
    by (auto simp: upsertPayload_def Let_def delivery_kept_def advances_def settled_def)
qed

lemma kept_reconcile: "db_inv db \<Longrightarrow> delivery_kept db (snd (reconcileDeliveryLimits now db))"
  unfolding reconcile_alt
  by (rule kept_rewrite) (auto simp: limit_update_def Let_def limits_advances intro: limits_item_ok split: if_splits)

lemma kept_recover: "db_inv db \<Longrightarrow> delivery_kept db (snd (recoverInterrupted now live db))"
  unfolding recoverInterrupted_alt
  by (rule kept_rewrite)
     (blast intro: update_id update_ok,
      auto simp: recover_update_ok recover_update_def advances_def settled_def split: if_splits)

lemma kept_chat: "db_inv db \<Longrightarrow> delivery_kept db (snd (markChatDelivered m t db))"
  unfolding markChatDelivered_alt
  by (rule kept_rewrite)
     (auto simp: chat_update_ok chat_update_id, auto simp: chat_update_def advances_def settled_def split: if_splits)

lemma kept_applyReceipt: "db_inv db \<Longrightarrow> delivery_kept db (snd (applyReceiptToOutbox r k db))"
  unfolding applyReceiptToOutbox_def
  by (rule kept_rewrite)
     (auto simp: receipt_update_ok receipt_update_id,
      auto simp: receipt_update_def Let_def advances_def settled_def split: if_splits)

lemma kept_receipt:
  assumes inv: "db_inv db"
  shows "delivery_kept db (snd (recordChatReceipt r db))"
proof (cases "getReceipt (createReceiptId r) db")
  case None
  let ?r = "Receipt_rec \<lparr>rr_id = createReceiptId r, rr_messageId = receipt_messageId r,
    rr_receipt = r, rr_createdAt = getReceiptTimestamp r, rr_updatedAt = getReceiptTimestamp r,
    rr_expiresAt = getReceiptTimestamp r + DEFAULT_INBOX_RETENTION_MS\<rparr>"
  have "delivery_kept db (writeRecord ?r db)" by (rule kept_write) simp
  moreover have "db_inv (writeRecord ?r db)" using inv by (intro db_inv_write) simp_all
  ultimately show ?thesis
    using None kept_applyReceipt delivery_kept_trans
    by (simp add: recordChatReceipt_def Let_def)
next
  case (Some x)
  then show ?thesis using kept_applyReceipt [OF inv] by (simp add: recordChatReceipt_def Let_def)
qed

lemma kept_claim: "delivery_kept db (snd (claimIncoming d n p src now ms db))"
  by (auto simp: claimIncoming_def Let_def intro!: kept_write split: option.split)

lemma keeps_delivery_step:
  assumes inv: "db_inv db" and e: "keeps_delivery e"
  shows "delivery_kept db (outbox_step db e)"
proof (cases e)
  case (Ev_sending k now l ms)
  have "advances (qi_status i) (qi_status j)" if
    "(let limited = applyDeliveryLimits i now in
       if qi_status limited = Ob_expired \<or> qi_status limited = Ob_dead_letter then Some limited
       else if isTerminalOutboxStatus (qi_status i) \<or> qi_status i = Ob_sending \<and>
          (case qi_leaseExpiresAt i of None \<Rightarrow> 0 | Some t \<Rightarrow> t) > now then None
       else Some (limited\<lparr>qi_status := Ob_sending, qi_attempts := qi_attempts limited + 1,
         qi_updatedAt := now, qi_leaseId := Some l, qi_leaseExpiresAt := Some (now + max 1 ms)\<rparr>))
      = Some j" for i j
    using that limits_advances [of i now]
    by (auto simp: Let_def advances_def settled_def split: if_split_asm)
  then show ?thesis
    unfolding Ev_sending outbox_step.simps markSending_def
    by (intro kept_patchOutbox [OF inv]) (auto simp: Let_def split: if_split_asm)
next
  case (Ev_acked k p now)
  then show ?thesis
    by (auto simp: markPeerAcked_def advances_def settled_def intro!: kept_patchOutbox inv split: if_splits)
next
  case (Ev_pending k d now)
  have "advances s (qi_status (applyDeliveryLimits j now))" if "\<not> isTerminalOutboxStatus s" for s j
    using that by (auto simp: advances_def settled_def)
  then show ?thesis using Ev_pending
    by (auto simp: markPending_def intro!: kept_patchOutbox inv split: if_splits)
next
  case (Ev_delivered k now)
  then show ?thesis
    by (auto simp: markDelivered_def advances_def settled_def intro!: kept_patchOutbox inv split: if_splits)
qed (use e in \<open>auto simp: inv kept_upsert kept_recover kept_receipt kept_chat kept_claim kept_reconcile
       listPending_def getNextAttemptAt_def Let_def markIncomingApplied_def markIncomingRejected_def
       intro!: kept_patchInbox\<close>)

definition delivery_step :: "delivery_table \<Rightarrow> outbox_event \<Rightarrow> delivery_table" where
  "delivery_step db e = (if keeps_delivery e then outbox_step db e else db)"

interpretation delivery: progress_machine delivery_step db_inv delivery_kept
  by unfold_locales
     (auto simp: delivery_step_def outbox_step_inv keeps_delivery_step intro: delivery_kept_trans)

lemma delivery_steps: "\<forall>e \<in> set es. keeps_delivery e \<Longrightarrow> foldl outbox_step db es = foldl delivery_step db es"
  by (induction es arbitrary: db) (simp_all add: delivery_step_def)

text \<open>C2: once a row the queue created is delivered or read, no later operation other than
  \<open>markFailed\<close>, \<open>markDeadLetter\<close>, a deletion or the legacy migration brings it back into the queue:
  it stays settled, and a read row stays read, through every run.\<close>

theorem delivered_never_regresses:
  assumes "db_inv db" and "getOutbox (createQueueItemId p) db = Some i" and "settled (qi_status i)"
    and "\<forall>e \<in> set es. keeps_delivery e"
  shows "\<exists>j. getOutbox (createQueueItemId p) (foldl outbox_step db es) = Some j
    \<and> settled (qi_status j) \<and> (qi_status i = Ob_read \<longrightarrow> qi_status j = Ob_read)"
  using delivery.rel_run [OF assms(1), of es] assms(2,3)
  unfolding delivery_steps [OF assms(4)] delivery_kept_def advances_def by blast

definition sample_delivered :: queue_item where
  "sample_delivered = sample_item\<lparr>qi_id := createQueueItemId sample_payload,
     qi_status := Ob_delivered, qi_terminalAt := Some 5\<rparr>"

lemma sample_delivered_ok: "item_ok sample_delivered"
  by (simp add: sample_delivered_def sample_item_def item_ok_def lists_ok_def lease_ok_def
      terminal_ok_def)

lemma sample_delivered_get:
  "getOutbox (createQueueItemId sample_payload) [(qi_id sample_delivered, Outbox_rec sample_delivered)]
     = Some sample_delivered"
  using sample_delivered_ok
  by (simp add: getOutbox_def sample_delivered_def item_ok_def normalize_id)

theorem delivered_never_regresses_witness:
  "\<exists>j. getOutbox (createQueueItemId sample_payload) (foldl outbox_step
      [(qi_id sample_delivered, Outbox_rec sample_delivered)]
      [Ev_upsert sample_payload 9, Ev_pending (qi_id sample_delivered) 4 10]) = Some j
    \<and> settled (qi_status j)"
  using delivered_never_regresses [OF sample_inv [OF sample_delivered_ok] sample_delivered_get,
      of "[Ev_upsert sample_payload 9, Ev_pending (qi_id sample_delivered) 4 10]"]
  by (simp add: settled_def sample_delivered_def)

text \<open>\<open>markFailed\<close> has no guard on the status: a row that a receipt has already settled goes
  back to failed, and into the retry queue, when the sender's own failure report comes in after it
  (as long as the row has neither expired nor used its attempts).\<close>

theorem markFailed_reopens_settled:
  assumes inv: "db_inv db" and i: "getOutbox k db = Some i" and "settled (qi_status i)"
    and live: "now < qi_expiresAt i" "qi_attempts i < 12" and later: "now + max 0 d \<le> now'"
      "now' < qi_expiresAt i"
  shows "\<exists>j. getOutbox k (snd (markFailed k fs d now db)) = Some j \<and> qi_status j = Ob_failed
    \<and> j \<in> set (fst (listPending now' (snd (markFailed k fs d now db))))"
proof -
  define j where "j = normalizeOutboxItem (clear_lease (i\<lparr>qi_status := Ob_failed,
       qi_failedPeers := mergeFailedPeers (qi_failedPeers i)
         (map (\<lambda>(p, e). (p, e, None)) fs) now,
       qi_routeHistory := appendRouteAttempts (qi_routeHistory i)
         (map (\<lambda>(p, e). \<lparr>ra_peerId = p, ra_attemptedAt = now, ra_outcome = Route_failed,
           ra_errorCode = Some e\<rparr>) fs),
       qi_nextAttemptAt := now + max 0 d,
       qi_updatedAt := now\<rparr>))"
  let ?db = "snd (markFailed k fs d now db)"
  have j: "getOutbox k ?db = Some j"
    unfolding markFailed_def
    by (subst getOutbox_patch [OF inv])
       (use live in \<open>auto simp: i j_def applyDeliveryLimits_def DEFAULT_MAX_OUTBOX_ATTEMPTS_def\<close>)
  have f: "qi_status j = Ob_failed" "qi_attempts j = qi_attempts i" "qi_expiresAt j = qi_expiresAt i"
      "qi_nextAttemptAt j = now + max 0 d"
    by (simp_all add: j_def)
  have inv1: "db_inv ?db" using inv by (rule markFailed_inv)
  have same: "limit_update now' j = None"
    using f later live
    by (simp add: limit_update_def applyDeliveryLimits_def DEFAULT_MAX_OUTBOX_ATTEMPTS_def)
  have "getOutbox k (snd (reconcileDeliveryLimits now' ?db)) = Some j"
    unfolding reconcile_alt
    by (simp add: getOutbox_rewrite [OF inv1 limit_update_id limit_update_ok] j same)
  moreover have "qi_id j = k" using getOutbox_ok inv1 j by blast
  ultimately have "j \<in> set (listOutbox (snd (reconcileDeliveryLimits now' ?db)))"
    using reconcile_inv [OF inv1] by (simp add: listOutbox_mem)
  then have "j \<in> set (fst (listPending now' ?db))"
    using f later by (simp add: listPending_def Let_def is_waiting_def)
  with j f show ?thesis by blast
qed

theorem markFailed_reopens_settled_witness:
  "\<exists>j. getOutbox (qi_id sample_delivered) (snd (markFailed (qi_id sample_delivered)
        [(''peer'', ''TIMEOUT'')] 5 10 [(qi_id sample_delivered, Outbox_rec sample_delivered)]))
      = Some j \<and> qi_status j = Ob_failed"
proof -
  have "getOutbox (qi_id sample_delivered) [(qi_id sample_delivered, Outbox_rec sample_delivered)]
     = Some sample_delivered"
    using sample_delivered_get by (simp add: sample_delivered_def)
  from markFailed_reopens_settled [OF sample_inv [OF sample_delivered_ok] this, of 10 5 20
      "[(''peer'', ''TIMEOUT'')]"]
  show ?thesis by (force simp: settled_def sample_delivered_def sample_item_def)
qed

section \<open>Receipts\<close>

lemma rewritten_none: "(\<And>i. f i = None) \<Longrightarrow> rewritten f r = r"
  by (cases r) simp_all

lemma receipt_update_twice:
  "receipt_update r k i = Some j \<Longrightarrow> receipt_update r k j = None"
  by (auto simp: receipt_update_def Let_def split: if_splits)

lemma receipt_update_stable:
  "rewritten (receipt_update r k) (rewritten (receipt_update r k) x) = rewritten (receipt_update r k) x"
  by (cases x) (auto split: option.split dest: receipt_update_twice)

lemma applyReceipt_idem:
  assumes "db_inv db"
  shows "snd (applyReceiptToOutbox r k (snd (applyReceiptToOutbox r k db)))
       = snd (applyReceiptToOutbox r k db)"
proof -
  have "db_inv (snd (rewrite_items (receipt_update r k) db))"
    using applyReceipt_inv [OF assms] by (simp add: applyReceiptToOutbox_def)
  from rewrite_items_eq [OF this receipt_update_id] rewrite_items_eq [OF assms receipt_update_id]
  show ?thesis
    by (simp add: applyReceiptToOutbox_def o_def case_prod_beta receipt_update_stable)
qed

lemma recordChatReceipt_known:
  "getReceipt (createReceiptId r) db = Some x
     \<Longrightarrow> recordChatReceipt r db = (False, snd (applyReceiptToOutbox r (createReceiptId r) db))"
  by (simp add: recordChatReceipt_def Let_def)

text \<open>recording a receipt a second time reports that it was known and changes nothing, neither the
  receipt nor any outbox row.\<close>

theorem receipt_idempotent:
  assumes inv: "db_inv db"
  shows "recordChatReceipt r (snd (recordChatReceipt r db)) = (False, snd (recordChatReceipt r db))"
proof -
  define db' where "db' = (case getReceipt (createReceiptId r) db of
       None \<Rightarrow> writeRecord (Receipt_rec \<lparr>rr_id = createReceiptId r, rr_messageId = receipt_messageId r,
         rr_receipt = r, rr_createdAt = getReceiptTimestamp r, rr_updatedAt = getReceiptTimestamp r,
         rr_expiresAt = getReceiptTimestamp r + DEFAULT_INBOX_RETENTION_MS\<rparr>) db
     | Some _ \<Rightarrow> db)"
  have inv': "db_inv db'" using inv by (auto simp: db'_def intro!: db_inv_write split: option.split)
  have "\<exists>x. getReceipt (createReceiptId r) db' = Some x"
    by (auto simp: db'_def getReceipt_def map_of_writeRecord split: option.split)
  then obtain x where
    "getReceipt (createReceiptId r) (snd (applyReceiptToOutbox r (createReceiptId r) db')) = Some x"
    using getReceipt_rewrite [OF inv' receipt_update_id] by (auto simp: applyReceiptToOutbox_def)
  moreover have "snd (recordChatReceipt r db) = snd (applyReceiptToOutbox r (createReceiptId r) db')"
    by (simp add: recordChatReceipt_def Let_def db'_def)
  ultimately show ?thesis
    using applyReceipt_idem [OF inv']
    by (simp add: recordChatReceipt_known)
qed

theorem receipt_idempotent_witness:
  "recordChatReceipt (Read_receipt ''m1'' ''a'' ''b'' 7)
      (snd (recordChatReceipt (Read_receipt ''m1'' ''a'' ''b'' 7) [(''q1'', Outbox_rec sample_leased)]))
    = (False, snd (recordChatReceipt (Read_receipt ''m1'' ''a'' ''b'' 7)
        [(''q1'', Outbox_rec sample_leased)]))"
  using receipt_idempotent [OF sample_inv [OF sample_item_ok(2)]] by (simp add: sample_defs)

section \<open>The inbox\<close>

definition inbox_settled :: "int \<Rightarrow> string \<Rightarrow> delivery_table \<Rightarrow> bool" where
  "inbox_settled T d db \<longleftrightarrow> (\<exists>i. getInbox (createInboxId d) db = Some i
     \<and> (ii_status i = Ib_applied \<or> ii_status i = Ib_rejected) \<and> T < ii_expiresAt i)"

text \<open>Every operation up to time \<open>T\<close>, save emptying the table and the legacy migration.\<close>

fun keeps_inbox :: "int \<Rightarrow> outbox_event \<Rightarrow> bool" where
  "keeps_inbox T (Ev_gc now) \<longleftrightarrow> now \<le> T"
| "keeps_inbox T Ev_clear = False"
| "keeps_inbox T (Ev_migrate now st) = False"
| "keeps_inbox T e = True"

definition inbox_kept :: "int \<Rightarrow> delivery_table \<Rightarrow> delivery_table \<Rightarrow> bool" where
  "inbox_kept T db db' \<longleftrightarrow> (\<forall>d. inbox_settled T d db \<longrightarrow> inbox_settled T d db')"

lemma inbox_kept_patchOutbox:
  assumes "db_inv db" and "\<And>i j. f i = Some j \<Longrightarrow> qi_id j = qi_id i"
  shows "inbox_kept T db (snd (patchOutbox k f db))"
  unfolding inbox_kept_def inbox_settled_def using getInbox_patchOutbox [of db f, OF assms] by blast

lemma inbox_kept_rewrite:
  assumes "db_inv db" and "\<And>i j. f i = Some j \<Longrightarrow> qi_id j = qi_id i"
  shows "inbox_kept T db (snd (rewrite_items f db))"
  by (simp add: inbox_kept_def inbox_settled_def getInbox_rewrite [of db f, OF assms])

lemma inbox_kept_write:
  "(\<And>d. createInboxId d \<noteq> record_id r) \<Longrightarrow> inbox_kept T db (writeRecord r db)"
  unfolding inbox_kept_def inbox_settled_def by (metis getInbox_write_other)

lemma inbox_kept_same:
  "(\<And>d. getInbox (createInboxId d) db' = getInbox (createInboxId d) db) \<Longrightarrow> inbox_kept T db db'"
  by (simp add: inbox_kept_def inbox_settled_def)

lemma inbox_kept_trans: "inbox_kept T a b \<Longrightarrow> inbox_kept T b c \<Longrightarrow> inbox_kept T a c"
  by (simp add: inbox_kept_def)

lemma inbox_kept_refl [simp]: "inbox_kept T db db"
  by (simp add: inbox_kept_def)

lemma inbox_kept_settle:
  assumes "db_inv db" and "\<And>i. ii_id (f i) = ii_id i" and "\<And>i. ii_expiresAt (f i) = ii_expiresAt i"
    and "\<And>i. ii_status (f i) = Ib_applied \<or> ii_status (f i) = Ib_rejected"
  shows "inbox_kept T db (snd (patchInbox k f db))"
  unfolding inbox_kept_def inbox_settled_def
  using assms(3,4) by (auto simp: getInbox_patchInbox [of db f, OF assms(1,2)])

lemma inbox_kept_claim: "inbox_kept T db (snd (claimIncoming d n p src now ms db))"
proof (cases "\<exists>i. getInbox (createInboxId d) db = Some i
    \<and> (ii_status i = Ib_applied \<or> ii_status i = Ib_rejected)")
  case True
  then show ?thesis by (auto simp: claimIncoming_def Let_def)
next
  case False
  then have "inbox_kept T db (writeRecord (Inbox_rec x) db)" if "ii_id x = createInboxId d" for x
    using that unfolding inbox_kept_def inbox_settled_def
    by (metis getInbox_write_other record_id.simps(2))
  then show ?thesis by (auto simp: claimIncoming_def Let_def split: option.split)
qed

lemma inbox_kept_receipt:
  assumes inv: "db_inv db"
  shows "inbox_kept T db (snd (recordChatReceipt r db))"
proof -
  have apply_kept: "inbox_kept T db' (snd (applyReceiptToOutbox r k db'))" if "db_inv db'" for db' k
    unfolding applyReceiptToOutbox_def by (rule inbox_kept_rewrite [OF that receipt_update_id])
  show ?thesis
  proof (cases "getReceipt (createReceiptId r) db")
    case (Some x)
    then show ?thesis using apply_kept [OF inv] by (simp add: recordChatReceipt_known)
  next
    case None
    let ?r = "Receipt_rec \<lparr>rr_id = createReceiptId r, rr_messageId = receipt_messageId r,
      rr_receipt = r, rr_createdAt = getReceiptTimestamp r, rr_updatedAt = getReceiptTimestamp r,
      rr_expiresAt = getReceiptTimestamp r + DEFAULT_INBOX_RETENTION_MS\<rparr>"
    have "inbox_kept T db (writeRecord ?r db)" by (rule inbox_kept_write) simp
    moreover have "db_inv (writeRecord ?r db)" using inv by (intro db_inv_write) simp_all
    ultimately show ?thesis
      using None apply_kept inbox_kept_trans by (simp add: recordChatReceipt_def Let_def)
  qed
qed

lemma map_of_deleteMatching:
  assumes "db_inv db"
  shows "map_of (snd (deleteMatching P db)) k =
    (case map_of db k of None \<Rightarrow> None | Some r \<Rightarrow> if P r then None else Some r)"
proof -
  have "parsed r = r" if "r \<in> set (jm_values db)" for r
  proof -
    have "record_ok r" using that db_inv_in [OF assms] by fastforce
    then show ?thesis by (cases r) (auto simp: item_ok_def normalize_id)
  qed
  then have m: "map parsed (jm_values db) = jm_values db" by (intro map_idI) blast
  have hit: "k \<in> set (map record_id (filter P (jm_values db)))
      \<longleftrightarrow> (\<exists>r. map_of db k = Some r \<and> P r)"
  proof
    assume "k \<in> set (map record_id (filter P (jm_values db)))"
    then obtain k' r where r: "(k', r) \<in> set db" "P r" "record_id r = k" by auto
    moreover have "k' = k" using db_inv_in [OF assms r(1)] r(3) by simp
    moreover have "distinct (jm_keys db)" using assms by (simp only: db_inv_def)
    ultimately have "map_of db k = Some r" using jm_in_set_iff by metis
    with r show "\<exists>r. map_of db k = Some r \<and> P r" by blast
  next
    assume "\<exists>r. map_of db k = Some r \<and> P r"
    then obtain r where r: "map_of db k = Some r" "P r" by blast
    then have "record_id r = k" "r \<in> set (jm_values db)"
      using db_inv_get [OF assms] by (auto dest: map_of_SomeD intro: rev_image_eqI)
    with r show "k \<in> set (map record_id (filter P (jm_values db)))" by (auto simp: image_iff)
  qed
  have "snd (deleteMatching P db) = fold jm_delete (map record_id (filter P (jm_values db))) db"
    by (simp only: deleteMatching_def Let_def m snd_conv)
  then show ?thesis
    using hit by (simp only: jm.get_fold_remove) (auto split: option.split)
qed

lemma inbox_kept_delete:
  assumes "db_inv db" and "\<And>i. T < ii_expiresAt i \<Longrightarrow> \<not> P (Inbox_rec i)"
  shows "inbox_kept T db (snd (deleteMatching P db))"
  unfolding inbox_kept_def inbox_settled_def getInbox_iff map_of_deleteMatching [OF assms(1)]
  using assms(2) by auto

lemma keeps_inbox_step:
  assumes inv: "db_inv db" and e: "keeps_inbox T e"
  shows "inbox_kept T db (outbox_step db e)"
proof (cases e)
  case (Ev_upsert p now)
  have "qi_id (fst (upsertPayload p now db)) = createQueueItemId p"
    using getOutbox_ok [OF inv] by (auto simp: upsertPayload_def Let_def split: option.split)
  then have "inbox_kept T db (writeRecord (Outbox_rec (fst (upsertPayload p now db))) db)"
    by (intro inbox_kept_write) simp
  moreover have "outbox_step db e = writeRecord (Outbox_rec (fst (upsertPayload p now db))) db"
    by (simp add: Ev_upsert upsertPayload_def Let_def)
  ultimately show ?thesis by simp
next
  case (Ev_recover now live)
  then show ?thesis
    by (simp add: recoverInterrupted_alt inbox_kept_rewrite [OF inv recover_update_id])
next
  case (Ev_chat_delivered m t)
  then show ?thesis
    by (simp add: markChatDelivered_alt inbox_kept_rewrite [OF inv chat_update_id])
next
  case (Ev_gc now)
  have "inbox_kept T db (snd (reconcileDeliveryLimits now db))"
    by (simp add: reconcile_alt inbox_kept_rewrite [OF inv limit_update_id])
  moreover have "inbox_kept T (snd (reconcileDeliveryLimits now db)) (outbox_step db e)"
    using e unfolding Ev_gc outbox_step.simps garbageCollect_def
    by (intro inbox_kept_delete reconcile_inv inv) auto
  ultimately show ?thesis by (rule inbox_kept_trans)
qed (use e in \<open>auto simp: inv inbox_kept_receipt inbox_kept_claim reconcile_alt
       inbox_kept_rewrite [OF inv limit_update_id] listPending_def getNextAttemptAt_def Let_def
       markIncomingApplied_def markIncomingRejected_def clearAcked_def markSending_def
       markPeerAcked_def markFailed_def markPending_def markDelivered_def markDeadLetter_def
       intro!: inbox_kept_settle inbox_kept_patchOutbox inbox_kept_delete split: if_splits\<close>)

definition inbox_step :: "int \<Rightarrow> delivery_table \<Rightarrow> outbox_event \<Rightarrow> delivery_table" where
  "inbox_step T db e = (if keeps_inbox T e then outbox_step db e else db)"

interpretation inbox: progress_machine "inbox_step T" db_inv "inbox_kept T" for T
  by unfold_locales
     (auto simp: inbox_step_def outbox_step_inv keeps_inbox_step intro: inbox_kept_trans)

lemma inbox_steps: "\<forall>e \<in> set es. keeps_inbox T e \<Longrightarrow> foldl outbox_step db es = foldl (inbox_step T) db es"
  by (induction es arbitrary: db) (simp_all add: inbox_step_def)

text \<open>a delivery whose processing has ended (applied or rejected) is never accepted again: until
  its row's retention time, through every run of operations that does not empty the table, a claim of
  the same delivery id is refused and changes nothing.\<close>

theorem applied_delivery_refused:
  assumes inv: "db_inv db" and i: "getInbox (createInboxId d) db = Some i"
    and "ii_status i = Ib_applied \<or> ii_status i = Ib_rejected"
    and "T < ii_expiresAt i" and es: "\<forall>e \<in> set es. keeps_inbox T e"
  shows "\<exists>j. claimIncoming d n p src now ms (foldl outbox_step db es)
    = ((False, j), foldl outbox_step db es)"
proof -
  have "inbox_settled T d db" using assms by (auto simp: inbox_settled_def)
  then have "inbox_settled T d (foldl outbox_step db es)"
    using inbox.rel_run [OF inv, of T es] unfolding inbox_steps [OF es] inbox_kept_def by blast
  then show ?thesis by (auto simp: inbox_settled_def claimIncoming_def Let_def)
qed

text \<open>a claim that was accepted blocks every other claim of the same delivery for the length of
  the processing lease, and once the lease is over without a result the delivery can be claimed
  again, keeping the time it was first received.\<close>

theorem claim_exclusive:
  assumes "claimIncoming d n p src now ms db = ((True, i), db1)"
  shows "claimIncoming d n' p' src' now' ms' db1 =
    (if now' - now < ms' then ((False, i), db1)
     else let j = i\<lparr>ii_networkMessageId := n', ii_entity := payload_entity p',
         ii_objectId := getPayloadObjectId p', ii_sourcePeerId := src',
         ii_payloadHash := sha256Hex (pl_json p'), ii_updatedAt := now',
         ii_expiresAt := now' + DEFAULT_INBOX_RETENTION_MS\<rparr>
       in ((True, j), writeRecord (Inbox_rec j) db1))"
proof -
  have i: "db1 = writeRecord (Inbox_rec i) db \<and> ii_id i = createInboxId d \<and> ii_deliveryId i = d
      \<and> ii_status i = Ib_processing \<and> ii_updatedAt i = now \<and> ii_errorCode i = None"
    using assms by (auto simp: claimIncoming_def Let_def split: option.splits if_splits)
  then have "getInbox (createInboxId d) db1 = Some i" by (metis getInbox_write)
  then show ?thesis using i by (cases i) (auto simp: claimIncoming_def Let_def)
qed

definition sample_inbox :: inbox_item where
  "sample_inbox = \<lparr>ii_id = createInboxId ''d'', ii_deliveryId = ''d'', ii_networkMessageId = ''n'',
     ii_entity = ''chat'', ii_objectId = ''m1'', ii_sourcePeerId = ''p'', ii_payloadHash = ''h'',
     ii_status = Ib_applied, ii_receivedAt = 1, ii_updatedAt = 2, ii_expiresAt = 1000,
     ii_errorCode = None\<rparr>"

theorem applied_delivery_refused_witness:
  "\<exists>j. fst (claimIncoming ''d'' ''n2'' sample_payload ''p2'' 900 5
      (foldl outbox_step [(createInboxId ''d'', Inbox_rec sample_inbox)]
        [Ev_gc 500, Ev_upsert sample_payload 600])) = (False, j)"
proof -
  have inv: "db_inv [(createInboxId ''d'', Inbox_rec sample_inbox)]"
    by (simp add: db_inv_def sample_inbox_def)
  have get: "getInbox (createInboxId ''d'') [(createInboxId ''d'', Inbox_rec sample_inbox)]
      = Some sample_inbox" by (simp add: getInbox_def)
  show ?thesis
    using applied_delivery_refused [OF inv get, of 800 "[Ev_gc 500, Ev_upsert sample_payload 600]"
        "''n2''" sample_payload "''p2''" 900 5]
    by (auto simp: sample_inbox_def)
qed

theorem claim_exclusive_witness:
  "claimIncoming ''d'' ''n2'' sample_payload ''p2'' 40 30
      (snd (claimIncoming ''d'' ''n'' sample_payload ''p'' 20 30 []))
    = ((False, snd (fst (claimIncoming ''d'' ''n'' sample_payload ''p'' 20 30 []))),
       snd (claimIncoming ''d'' ''n'' sample_payload ''p'' 20 30 []))"
proof -
  have "fst (fst (claimIncoming ''d'' ''n'' sample_payload ''p'' 20 30 []))"
    by (simp add: claimIncoming_def Let_def getInbox_def)
  then have "claimIncoming ''d'' ''n'' sample_payload ''p'' 20 30 []
      = ((True, snd (fst (claimIncoming ''d'' ''n'' sample_payload ''p'' 20 30 []))),
         snd (claimIncoming ''d'' ''n'' sample_payload ''p'' 20 30 []))"
    by (metis prod.collapse)
  from claim_exclusive [OF this, of "''n2''" sample_payload "''p2''" 40 30] show ?thesis by simp
qed

section \<open>What is due\<close>

interpretation pending: comparator compare_pending
  unfolding compare_pending_def [abs_def] by (intro comparator_or comparator_diff)

interpretation receipt_order: comparator "\<lambda>l r. getReceiptTimestamp l - getReceiptTimestamp r"
  by (rule comparator_diff)

lemma outbox_ids: "db_inv db \<Longrightarrow> distinct (map qi_id (listOutbox db))"
proof -
  have gen: "\<forall>(k, r) \<in> set m. record_id r = k \<Longrightarrow> distinct (jm_keys m) \<Longrightarrow>
      distinct (map qi_id (listOutbox m)) \<and> set (map qi_id (listOutbox m)) \<subseteq> set (jm_keys m)" for m
  proof (induction m)
    case (Cons p m)
    have "listOutbox (p # m) = outbox_of (snd p) @ listOutbox m" by (simp add: listOutbox_def)
    with Cons show ?case by (cases p; cases "snd p") auto
  qed (simp add: listOutbox_def)
  assume "db_inv db"
  then show ?thesis using gen [of db] by (auto simp: db_inv_def)
qed

lemma limited_waiting:
  "is_waiting (applyDeliveryLimits i now) \<longleftrightarrow>
     is_waiting i \<and> now < qi_expiresAt i \<and> qi_attempts i < DEFAULT_MAX_OUTBOX_ATTEMPTS"
  by (auto simp: is_waiting_def applyDeliveryLimits_def)

lemma limited_waiting_id: "is_waiting (applyDeliveryLimits i now) \<Longrightarrow> applyDeliveryLimits i now = i"
  by (auto simp: is_waiting_def applyDeliveryLimits_def split: if_splits)

lemma getOutbox_reconcile:
  assumes "db_inv db"
  shows "getOutbox k (snd (reconcileDeliveryLimits now db)) =
    map_option (\<lambda>i. applyDeliveryLimits i now) (getOutbox k db)"
proof -
  have "(case limit_update now i of None \<Rightarrow> i | Some j \<Rightarrow> j) = applyDeliveryLimits i now" for i
    by (simp add: limit_update_def Let_def)
  then show ?thesis
    unfolding reconcile_alt by (simp add: getOutbox_rewrite [OF assms limit_update_id limit_update_ok])
qed

text \<open>\<open>listPending\<close> returns exactly the rows that wait (queued, relayed or failed), are due, have
  not expired and have attempts left, each once and unchanged, in the order of their next attempt and
  then of their creation.\<close>

theorem listPending_due:
  assumes inv: "db_inv db"
  shows "sorted_wrt (\<lambda>x y. compare_pending x y \<le> 0) (fst (listPending now db))
    \<and> distinct (map qi_id (fst (listPending now db)))
    \<and> (i \<in> set (fst (listPending now db)) \<longleftrightarrow> getOutbox (qi_id i) db = Some i \<and> is_waiting i
         \<and> qi_nextAttemptAt i \<le> now \<and> now < qi_expiresAt i \<and> qi_attempts i < 12)"
proof -
  let ?db = "snd (reconcileDeliveryLimits now db)"
  have inv': "db_inv ?db" using inv by (rule reconcile_inv)
  have "is_waiting i \<and> getOutbox (qi_id i) ?db = Some i \<longleftrightarrow> is_waiting i
      \<and> getOutbox (qi_id i) db = Some i \<and> now < qi_expiresAt i \<and> qi_attempts i < 12"
    using limited_waiting [of _ now] limited_waiting_id [of _ now]
    by (auto simp: getOutbox_reconcile [OF inv] DEFAULT_MAX_OUTBOX_ATTEMPTS_def)
  then have mem: "i \<in> set (fst (listPending now db)) \<longleftrightarrow> getOutbox (qi_id i) db = Some i \<and> is_waiting i
         \<and> qi_nextAttemptAt i \<le> now \<and> now < qi_expiresAt i \<and> qi_attempts i < 12"
    by (auto simp: listPending_def Let_def listOutbox_mem [OF inv'])
  have ids: "distinct (map qi_id (listOutbox ?db))" using inv' by (rule outbox_ids)
  then have "distinct (map qi_id (filter (\<lambda>i. is_waiting i \<and> qi_nextAttemptAt i \<le> now) (listOutbox ?db)))"
    by (rule distinct_map_filter)
  then have "distinct (map qi_id (fst (listPending now db)))"
    by (simp add: listPending_def Let_def distinct_map)
  moreover have "sorted_wrt (\<lambda>x y. compare_pending x y \<le> 0) (fst (listPending now db))"
    unfolding listPending_def Let_def fst_conv by (rule pending.sorted_js_sort)
  ultimately show ?thesis using mem by blast
qed

theorem listPending_due_witness:
  "sample_item \<in> set (fst (listPending 10 [(''q1'', Outbox_rec sample_item)]))"
proof -
  have "getOutbox (qi_id sample_item) [(''q1'', Outbox_rec sample_item)] = Some sample_item" by code_simp
  then show ?thesis
    using listPending_due [OF sample_inv [OF sample_item_ok(1)], of 10 sample_item]
    by (simp add: sample_defs is_waiting_def)
qed

section \<open>Garbage collection\<close>

fun limited_record :: "int \<Rightarrow> delivery_record \<Rightarrow> delivery_record" where
  "limited_record now (Outbox_rec i) = Outbox_rec (applyDeliveryLimits i now)"
| "limited_record now r = r"

lemma rewritten_limit: "rewritten (limit_update now) r = limited_record now r"
  by (cases r) (simp_all add: limit_update_def Let_def)

lemma garbage_limited: "garbage now (limited_record now r) = garbage now r"
  by (cases r) (auto simp: applyDeliveryLimits_def DEFAULT_TERMINAL_RETENTION_MS_def)

lemma limited_idem: "limited_record now (limited_record now r) = limited_record now r"
  by (cases r) (auto simp: applyDeliveryLimits_def)

lemma deleteMatching_none:
  assumes "db_inv db" and "\<And>k r. map_of db k = Some r \<Longrightarrow> \<not> P r"
  shows "fst (deleteMatching P db) = 0"
proof -
  have "\<not> P (parsed r)" if "(k, r) \<in> set db" for k r
  proof -
    have "record_ok r" using db_inv_in [OF assms(1) that] by simp
    then have "parsed r = r" by (cases r) (auto simp: item_ok_def normalize_id)
    moreover have "distinct (jm_keys db)" using assms(1) by (simp only: db_inv_def)
    ultimately show ?thesis using assms(2) that jm_in_set_iff by metis
  qed
  then show ?thesis by (auto simp: deleteMatching_def Let_def filter_empty_conv)
qed

lemma map_of_garbageCollect:
  assumes inv: "db_inv db"
  shows "map_of (snd (garbageCollect now db)) k =
    (case map_of db k of None \<Rightarrow> None
     | Some r \<Rightarrow> if garbage now r then None else Some (limited_record now r))"
proof -
  have "map_of (snd (reconcileDeliveryLimits now db)) k = map_option (limited_record now) (map_of db k)"
    by (simp add: reconcile_alt map_of_rewrite [OF inv limit_update_id] rewritten_limit
        cong: map_option_cong)
  then show ?thesis
    by (simp add: garbageCollect_def map_of_deleteMatching [OF reconcile_inv [OF inv]]
        garbage_limited split: option.split)
qed

text \<open>garbage collection removes exactly the rows past their retention (a terminal outbox row a week
  after its end, an inbox row or a receipt at its expiry) and keeps every other row, with the delivery
  limits applied; running it again at the same time finds nothing.\<close>

theorem garbageCollect_exact:
  assumes inv: "db_inv db"
  shows "map_of (snd (garbageCollect now db)) k =
      (case map_of db k of None \<Rightarrow> None
       | Some r \<Rightarrow> if garbage now r then None else Some (limited_record now r))
    \<and> fst (garbageCollect now (snd (garbageCollect now db))) = 0"
proof
  let ?db = "snd (garbageCollect now db)"
  have inv': "db_inv ?db"
    using inv by (simp add: garbageCollect_def deleteMatching_inv reconcile_inv)
  have "\<not> garbage now r" if "map_of (snd (reconcileDeliveryLimits now ?db)) j = Some r" for j r
  proof -
    have "map_of (snd (reconcileDeliveryLimits now ?db)) j = map_option (limited_record now) (map_of ?db j)"
      by (simp add: reconcile_alt map_of_rewrite [OF inv' limit_update_id] rewritten_limit
          cong: map_option_cong)
    then show ?thesis
      using that by (auto simp: map_of_garbageCollect [OF inv] garbage_limited limited_idem
          split: option.splits if_splits)
  qed
  then have "fst (deleteMatching (garbage now) (snd (reconcileDeliveryLimits now ?db))) = 0"
    by (rule deleteMatching_none [OF reconcile_inv [OF inv']])
  then show "fst (garbageCollect now ?db) = 0" by (simp add: garbageCollect_def)
qed (rule map_of_garbageCollect [OF inv])

theorem garbageCollect_exact_witness:
  "map_of (snd (garbageCollect 2000 [(''q1'', Outbox_rec sample_item)])) ''q1''
     = Some (Outbox_rec (applyDeliveryLimits sample_item 2000))"
  using garbageCollect_exact [OF sample_inv [OF sample_item_ok(1)], of 2000 "''q1''"]
  by (simp add: sample_defs)

section \<open>The summary\<close>

text \<open>the four figures of the queue summary (pending, sending, acked, failed) count every outbox row
  exactly once, whatever the table holds.\<close>

theorem getStatus_partition:
  "qs_pending (getStatus db) + qs_sending (getStatus db) + qs_acked (getStatus db)
     + qs_failed (getStatus db) = length (listOutbox db)"
proof -
  have "count_status Ob_queued xs + count_status Ob_relayed xs + count_status Ob_sending xs
      + (count_status Ob_delivered xs + count_status Ob_read xs)
      + (count_status Ob_failed xs + count_status Ob_expired xs + count_status Ob_dead_letter xs)
      = length xs" for xs
  proof (induction xs)
    case (Cons x xs)
    then show ?case by (cases "qi_status x") (simp_all add: count_status_def)
  qed (simp add: count_status_def)
  then show ?thesis by (simp add: getStatus_def Let_def)
qed

end
