(* ===== verification/Canonical.thy ===== *)
theory Canonical
  imports Hash "HOL-Library.Multiset"
begin

text \<open>
  Canonical JSON (\<open>canonicalize\<close> and \<open>toCanonicalValue\<close> of \<open>src/economy/Wallet/TransactionModel.ts\<close>),
  which every signed or hashed object of the program goes through: transactions, votes, media
  announcements, invites and sessions. The text is \<open>JSON.stringify\<close> of the value with the keys of
  every object sorted. Strings are the Latin-1 strings of \<open>Hash\<close>, numbers are integers within the
  safe range (where JavaScript prints them in plain decimals), and an object is the list of its
  fields, whose names are distinct and are neither array indices nor \<open>__proto__\<close>.
\<close>

section \<open>Values\<close>

datatype nonfinite = Nan | Pos_infinity | Neg_infinity

datatype number = Fin int | Non nonfinite

datatype jsval =
    Jv_undefined
  | Jv_null
  | Jv_bool bool
  | Jv_num int
  | Jv_nonfinite nonfinite
  | Jv_str string
  | Jv_arr "jsval list"
  | Jv_obj "(string \<times> jsval) list"
  | Jv_other

definition opt_str :: "string option \<Rightarrow> jsval" where
  "opt_str s = (case s of None \<Rightarrow> Jv_undefined | Some x \<Rightarrow> Jv_str x)"

datatype json =
    J_null
  | J_bool bool
  | J_num int
  | J_str string
  | J_arr "json list"
  | J_obj "(string \<times> json) list"

datatype canonical_error = Non_finite_number | Unsupported_value_type

section \<open>The code-unit order of strings\<close>

text \<open>The order of \<open>sort()\<close> without a comparator, and of \<open><\<close> and \<open>></\<close> on strings.\<close>

fun code_cmp :: "string \<Rightarrow> string \<Rightarrow> int" where
  "code_cmp [] [] = 0"
| "code_cmp [] (b # ys) = - 1"
| "code_cmp (a # xs) [] = 1"
| "code_cmp (a # xs) (b # ys) =
     (if (of_char a :: nat) < of_char b then - 1
      else if (of_char b :: nat) < of_char a then 1 else code_cmp xs ys)"

lemma code_cmp_zero [simp]: "code_cmp x y = 0 \<longleftrightarrow> x = y"
  by (induction x y rule: code_cmp.induct) auto

lemma code_cmp_self [simp]: "code_cmp x x = 0"
  by simp

lemma code_cmp_sum: "code_cmp x y + code_cmp y x = 0"
  by (induction x y rule: code_cmp.induct) auto

lemma code_cmp_neg: "code_cmp x y = - code_cmp y x"
  using code_cmp_sum [of x y] by linarith

lemma code_cmp_Cons_le:
  "code_cmp (a # xs) (b # ys) \<le> 0 \<longleftrightarrow> (of_char a :: nat) < of_char b
     \<or> (of_char a :: nat) = of_char b \<and> code_cmp xs ys \<le> 0"
  by (auto simp: not_less_iff_gr_or_eq)

lemma code_cmp_trans: "code_cmp x y \<le> 0 \<Longrightarrow> code_cmp y z \<le> 0 \<Longrightarrow> code_cmp x z \<le> 0"
proof (induction x y arbitrary: z rule: code_cmp.induct)
  case (1 z)
  then show ?case by simp
next
  case (2 b ys z)
  then show ?case by (cases z) simp_all
next
  case (3 a xs z)
  then show ?case by simp
next
  case (4 a xs b ys z)
  show ?case
  proof (cases z)
    case Nil
    then show ?thesis using 4 by simp
  next
    case (Cons c zs)
    have ab: "(of_char a :: nat) < of_char b \<or> (of_char a :: nat) = of_char b \<and> code_cmp xs ys \<le> 0"
      using "4.prems"(1) by (simp only: code_cmp_Cons_le)
    have bc: "(of_char b :: nat) < of_char c \<or> (of_char b :: nat) = of_char c \<and> code_cmp ys zs \<le> 0"
      using "4.prems"(2) unfolding Cons by (simp only: code_cmp_Cons_le)
    have "(of_char a :: nat) < of_char c \<or> (of_char a :: nat) = of_char c \<and> code_cmp xs zs \<le> 0"
    proof (cases "(of_char a :: nat) < of_char b \<or> (of_char b :: nat) < of_char c")
      case True
      then show ?thesis using ab bc by linarith
    next
      case False
      then have eq: "(of_char a :: nat) = of_char b" "(of_char b :: nat) = of_char c"
        and le: "code_cmp xs ys \<le> 0" "code_cmp ys zs \<le> 0" using ab bc by linarith+
      from eq have "\<not> (of_char a :: nat) < of_char b" "\<not> (of_char b :: nat) < of_char a" by linarith+
      then have "code_cmp xs zs \<le> 0" using "4.IH" le by blast
      with eq show ?thesis by simp
    qed
    then show ?thesis unfolding Cons by (simp only: code_cmp_Cons_le)
  qed
qed

interpretation code_order: comparator code_cmp
proof
  fix x y show "code_cmp x y \<le> 0 \<longleftrightarrow> 0 \<le> code_cmp y x"
    using code_cmp_neg [of x y] by linarith
qed (rule code_cmp_trans)

definition key_cmp :: "string \<times> 'a \<Rightarrow> string \<times> 'a \<Rightarrow> int" where
  "key_cmp p q = code_cmp (fst p) (fst q)"

interpretation key_order: comparator key_cmp
  unfolding key_cmp_def
  by unfold_locales (rule code_order.cmp_swap, erule code_order.cmp_trans)

lemma sorted_unique:
  assumes "mset xs = mset ys" and "sorted_wrt R xs" and "sorted_wrt R ys"
    and "\<And>x y. x \<in> set xs \<Longrightarrow> y \<in> set xs \<Longrightarrow> R x y \<Longrightarrow> R y x \<Longrightarrow> x = y"
  shows "xs = ys"
  using assms
proof (induction xs arbitrary: ys)
  case (Cons x xs)
  then obtain y ys' where ys: "ys = y # ys'" by (cases ys) auto
  have s: "set (x # xs) = set ys" using Cons.prems(1) by (metis set_mset_mset)
  have "x = y"
  proof (rule ccontr)
    assume "x \<noteq> y"
    then have "x \<in> set ys'" "y \<in> set xs" using s ys by auto
    then have "R x y" "R y x" using Cons.prems(2,3) ys by auto
    then show False using Cons.prems(4) [of x y] \<open>y \<in> set xs\<close> \<open>x \<noteq> y\<close> by simp
  qed
  moreover have "xs = ys'" using Cons \<open>x = y\<close> ys by (intro Cons.IH) auto
  ultimately show ?case using ys by simp
qed simp

lemma mset_insort_cmp: "mset (insort_cmp c x xs) = add_mset x (mset xs)"
  by (induction xs) auto

lemma mset_js_sort [simp]: "mset (js_sort c xs) = mset xs"
  by (induction xs) (auto simp: mset_insort_cmp)

lemma sort_fields_unique:
  assumes "mset xs = mset ys" and "distinct (map fst xs)"
  shows "js_sort key_cmp xs = js_sort key_cmp ys"
proof (rule sorted_unique [where R = "\<lambda>p q. key_cmp p q \<le> 0"])
  show "mset (js_sort key_cmp xs) = mset (js_sort key_cmp ys)" using assms by simp
  show "sorted_wrt (\<lambda>p q. key_cmp p q \<le> 0) (js_sort key_cmp xs)"
    "sorted_wrt (\<lambda>p q. key_cmp p q \<le> 0) (js_sort key_cmp ys)"
    by (rule key_order.sorted_js_sort)+
  fix p q
  assume pq: "p \<in> set (js_sort key_cmp xs)" "q \<in> set (js_sort key_cmp xs)"
    "key_cmp p q \<le> 0" "key_cmp q p \<le> 0"
  then have "code_cmp (fst p) (fst q) = 0"
    using code_cmp_neg [of "fst p" "fst q"] by (simp add: key_cmp_def)
  then have "fst p = fst q" by simp
  moreover have "inj_on fst (set xs)" using assms(2) by (simp add: distinct_map)
  ultimately show "p = q" using pq by (simp add: inj_on_def)
qed

section \<open>Canonical values and their text\<close>

fun collect_ok :: "('k \<times> (canonical_error + json)) list \<Rightarrow> canonical_error + ('k \<times> json) list" where
  "collect_ok [] = Inr []"
| "collect_ok ((k, Inl e) # xs) = Inl e"
| "collect_ok ((k, Inr v) # xs) =
     (case collect_ok xs of Inl e \<Rightarrow> Inl e | Inr vs \<Rightarrow> Inr ((k, v) # vs))"

fun toCanonicalValue :: "jsval \<Rightarrow> canonical_error + json"
  and canonical_elems :: "jsval list \<Rightarrow> (unit \<times> (canonical_error + json)) list"
  and canonical_fields :: "(string \<times> jsval) list \<Rightarrow> (string \<times> (canonical_error + json)) list" where
  "toCanonicalValue Jv_undefined = Inr J_null"
| "toCanonicalValue Jv_null = Inr J_null"
| "toCanonicalValue (Jv_bool b) = Inr (J_bool b)"
| "toCanonicalValue (Jv_num n) = Inr (J_num n)"
| "toCanonicalValue (Jv_nonfinite x) = Inl Non_finite_number"
| "toCanonicalValue (Jv_str s) = Inr (J_str s)"
| "toCanonicalValue (Jv_arr xs) = (case collect_ok (canonical_elems xs) of
     Inl e \<Rightarrow> Inl e | Inr vs \<Rightarrow> Inr (J_arr (map snd vs)))"
| "toCanonicalValue (Jv_obj kvs) = (case collect_ok (js_sort key_cmp (canonical_fields kvs)) of
     Inl e \<Rightarrow> Inl e | Inr vs \<Rightarrow> Inr (J_obj vs))"
| "toCanonicalValue Jv_other = Inl Unsupported_value_type"
| "canonical_elems [] = []"
| "canonical_elems (x # xs) = ((), toCanonicalValue x) # canonical_elems xs"
| "canonical_fields [] = []"
| "canonical_fields ((k, v) # kvs) = (k, toCanonicalValue v) # canonical_fields kvs"

definition digit :: "nat \<Rightarrow> char" where
  "digit n = char_of (48 + n)"

fun show_nat :: "nat \<Rightarrow> string" where
  "show_nat n = (if n < 10 then [digit n] else show_nat (n div 10) @ [digit (n mod 10)])"

declare show_nat.simps [simp del]

definition show_int :: "int \<Rightarrow> string" where
  "show_int i = (if i < 0 then ''-'' @ show_nat (nat (- i)) else show_nat (nat i))"

text \<open>The escapes of \<open>JSON.stringify\<close>.\<close>

definition esc_char :: "char \<Rightarrow> string" where
  "esc_char c = (let n = (of_char c :: nat) in
     if n = 34 then [CHR 0x5C, CHR 0x22]
     else if n = 92 then [CHR 0x5C, CHR 0x5C]
     else if n = 8 then [CHR 0x5C, CHR ''b'']
     else if n = 9 then [CHR 0x5C, CHR ''t'']
     else if n = 10 then [CHR 0x5C, CHR ''n'']
     else if n = 12 then [CHR 0x5C, CHR ''f'']
     else if n = 13 then [CHR 0x5C, CHR ''r'']
     else if n < 32 then [CHR 0x5C, CHR ''u'', CHR ''0'', CHR ''0'',
       hex_digits ! (n div 16), hex_digits ! (n mod 16)]
     else [c])"

definition quote :: "string \<Rightarrow> string" where
  "quote s = [CHR 0x22] @ concat (map esc_char s) @ [CHR 0x22]"

fun stringify :: "json \<Rightarrow> string"
  and stringify_elems :: "json list \<Rightarrow> string"
  and stringify_fields :: "(string \<times> json) list \<Rightarrow> string" where
  "stringify J_null = ''null''"
| "stringify (J_bool b) = (if b then ''true'' else ''false'')"
| "stringify (J_num n) = show_int n"
| "stringify (J_str s) = quote s"
| "stringify (J_arr xs) = ''['' @ stringify_elems xs @ '']''"
| "stringify (J_obj kvs) = ''{'' @ stringify_fields kvs @ ''}''"
| "stringify_elems [] = ''''"
| "stringify_elems (x # xs) = stringify x @ (if xs = [] then '''' else '','' @ stringify_elems xs)"
| "stringify_fields [] = ''''"
| "stringify_fields ((k, v) # kvs) =
     quote k @ '':'' @ stringify v @ (if kvs = [] then '''' else '','' @ stringify_fields kvs)"

definition canonicalize :: "jsval \<Rightarrow> canonical_error + string" where
  "canonicalize v = (case toCanonicalValue v of Inl e \<Rightarrow> Inl e | Inr j \<Rightarrow> Inr (stringify j))"

text \<open>The canonical text of an object of strings and integers, which never throws.\<close>

definition canonical_text :: "jsval \<Rightarrow> string" where
  "canonical_text v = (case canonicalize v of Inl e \<Rightarrow> [] | Inr s \<Rightarrow> s)"

section \<open>The order of fields does not matter\<close>

lemma canonical_fields_map: "canonical_fields kvs = map (\<lambda>(k, v). (k, toCanonicalValue v)) kvs"
  by (induction kvs) auto

text \<open>Two objects with the same fields have the same canonical text, whatever order their fields
  were written in.\<close>

theorem canonicalize_field_order:
  assumes "mset kvs = mset kvs'" and "distinct (map fst kvs)"
  shows "canonicalize (Jv_obj kvs) = canonicalize (Jv_obj kvs')"
proof -
  have "js_sort key_cmp (canonical_fields kvs) = js_sort key_cmp (canonical_fields kvs')"
    using assms
    by (intro sort_fields_unique) (simp_all add: canonical_fields_map case_prod_beta o_def)
  then show ?thesis by (simp add: canonicalize_def)
qed

theorem canonicalize_field_order_witness:
  "canonicalize (Jv_obj [(''b'', Jv_num 1), (''a'', Jv_undefined)])
     = canonicalize (Jv_obj [(''a'', Jv_undefined), (''b'', Jv_num 1)])"
  by (rule canonicalize_field_order) simp_all

section \<open>The text determines the value\<close>

lemma unat_digit: "n < 10 \<Longrightarrow> of_char (digit n) = (48 + n :: nat)"
  by (simp add: digit_def)

definition is_digit :: "char \<Rightarrow> bool" where
  "is_digit c \<longleftrightarrow> 48 \<le> (of_char c :: nat) \<and> (of_char c :: nat) < 58"

lemma is_digit_digit: "n < 10 \<Longrightarrow> is_digit (digit n)"
  by (simp add: is_digit_def unat_digit)

lemma show_nat_digits: "\<forall>c \<in> set (show_nat n). is_digit c"
proof (induction n rule: show_nat.induct)
  case (1 n)
  then show ?case by (subst show_nat.simps) (auto simp: is_digit_digit)
qed

lemma show_nat_nonempty: "show_nat n \<noteq> []"
  by (subst show_nat.simps) simp

definition read_nat :: "string \<Rightarrow> nat" where
  "read_nat s = foldl (\<lambda>a c. 10 * a + (of_char c - 48)) 0 s"

lemma read_show_nat: "read_nat (show_nat n) = n"
proof (induction n rule: show_nat.induct)
  case (1 n)
  then show ?case by (subst show_nat.simps) (auto simp: read_nat_def unat_digit)
qed

definition no_digit :: "string \<Rightarrow> bool" where
  "no_digit r \<longleftrightarrow> (case r of [] \<Rightarrow> True | c # _ \<Rightarrow> \<not> is_digit c)"

lemma show_nat_prefix:
  assumes "show_nat a @ r = show_nat b @ s" and "no_digit r" and "no_digit s"
  shows "a = b \<and> r = s"
proof -
  have tw: "takeWhile is_digit (show_nat n @ t) = show_nat n" if "no_digit t" for n t
    using that show_nat_digits [of n] by (cases t) (auto simp: no_digit_def)
  have "show_nat a = show_nat b" using tw [OF assms(2)] tw [OF assms(3)] assms(1) by metis
  then show ?thesis using assms(1) read_show_nat by (metis same_append_eq)
qed

lemma show_nat_hd: "\<exists>c cs. show_nat n = c # cs \<and> is_digit c"
  using show_nat_nonempty [of n] show_nat_digits [of n] by (cases "show_nat n") auto

lemma show_int_prefix:
  assumes "show_int a @ r = show_int b @ s" and "no_digit r" and "no_digit s"
  shows "a = b \<and> r = s"
proof -
  obtain c cs where a: "show_nat (nat a) = c # cs" "is_digit c" using show_nat_hd by blast
  obtain d ds where b: "show_nat (nat b) = d # ds" "is_digit d" using show_nat_hd by blast
  have m: "\<not> is_digit (CHR ''-'')" by (simp add: is_digit_def)
  show ?thesis
  proof (cases "a < 0"; cases "b < 0")
    assume "a < 0" "b < 0"
    then show ?thesis using assms show_nat_prefix [of "nat (- a)" r "nat (- b)" s]
      by (auto simp: show_int_def)
  next
    assume "\<not> a < 0" "\<not> b < 0"
    then show ?thesis using assms show_nat_prefix [of "nat a" r "nat b" s]
      by (auto simp: show_int_def)
  qed (use assms a b m in \<open>auto simp: show_int_def\<close>)
qed

lemma hex_digits_inj: "i < 16 \<Longrightarrow> j < 16 \<Longrightarrow> hex_digits ! i = hex_digits ! j \<Longrightarrow> i = j"
proof -
  have "distinct hex_digits" by (simp add: hex_digits_def)
  moreover have "length hex_digits = 16" by (simp add: hex_digits_def)
  ultimately show "i < 16 \<Longrightarrow> j < 16 \<Longrightarrow> hex_digits ! i = hex_digits ! j \<Longrightarrow> i = j"
    by (simp add: nth_eq_iff_index_eq)
qed

text \<open>Reading one escaped character back.\<close>

definition hex_value :: "char \<Rightarrow> nat" where
  "hex_value c = length (takeWhile (\<lambda>d. d \<noteq> c) hex_digits)"

lemma hex_value_nth: "i < 16 \<Longrightarrow> hex_value (hex_digits ! i) = i"
proof -
  have "\<forall>i \<in> set [0..<16]. hex_value (hex_digits ! i) = i"
    by (simp add: hex_value_def hex_digits_def upt_rec)
  then show "i < 16 \<Longrightarrow> hex_value (hex_digits ! i) = i" by simp
qed

fun unesc :: "string \<Rightarrow> char \<times> string" where
  "unesc (b # rest) = (if b = CHR 0x5C then (case rest of
       e # r \<Rightarrow> (if e = CHR ''b'' then (char_of (8 :: nat), r)
         else if e = CHR ''t'' then (char_of (9 :: nat), r)
         else if e = CHR ''n'' then (char_of (10 :: nat), r)
         else if e = CHR ''f'' then (char_of (12 :: nat), r)
         else if e = CHR ''r'' then (char_of (13 :: nat), r)
         else if e = CHR ''u'' then
           (char_of (16 * hex_value (r ! 2) + hex_value (r ! 3)), drop 4 r)
         else (e, r)))
     else (b, rest))"

lemma char_of_specials: "char_of (34 :: nat) = CHR 0x22" "char_of (92 :: nat) = CHR 0x5C"
  by (simp_all add: char_of_eq_iff)

lemma unesc_esc: "unesc (esc_char c @ x) = (c, x)"
proof -
  define n where "n = (of_char c :: nat)"
  have c: "c = char_of n" by (simp add: n_def)
  consider "n = 34" | "n = 92" | "n = 8" | "n = 9" | "n = 10" | "n = 12" | "n = 13"
    | "n < 32" "n \<notin> {8, 9, 10, 12, 13}" | "32 \<le> n" "n \<noteq> 34" "n \<noteq> 92" by fastforce
  then show ?thesis
  proof cases
    case 8
    then have "esc_char c = [CHR 0x5C, CHR ''u'', CHR ''0'', CHR ''0'',
       hex_digits ! (n div 16), hex_digits ! (n mod 16)]"
      by (simp add: esc_char_def Let_def n_def [symmetric])
    then show ?thesis using 8 by (simp add: hex_value_nth c)
  next
    case 9
    then have "esc_char c = [c]" by (simp add: esc_char_def Let_def n_def [symmetric])
    moreover have "c \<noteq> CHR 0x5C" using 9 by (auto simp: n_def)
    ultimately show ?thesis by simp
  qed (simp_all add: esc_char_def Let_def n_def [symmetric], simp_all add: c char_of_specials)
qed

lemma esc_char_prefix: "esc_char c @ x = esc_char d @ y \<Longrightarrow> c = d \<and> x = y"
  by (metis unesc_esc prod.inject)

lemma esc_char_hd: "\<exists>e es. esc_char c = e # es \<and> e \<noteq> CHR 0x22"
  by (auto simp: esc_char_def Let_def)

lemma quote_body_prefix:
  "concat (map esc_char s) @ CHR 0x22 # r = concat (map esc_char t) @ CHR 0x22 # r'
     \<Longrightarrow> s = t \<and> r = r'"
proof (induction s arbitrary: t)
  case Nil
  then show ?case
  proof (cases t)
    case (Cons d t')
    then show ?thesis using Nil esc_char_hd [of d] by auto
  qed simp
next
  case (Cons c s)
  show ?case
  proof (cases t)
    case Nil
    then show ?thesis using Cons.prems esc_char_hd [of c] by auto
  next
    case (Cons d t')
    then show ?thesis
      using Cons.prems Cons.IH [of t'] esc_char_prefix [of c _ d] by fastforce
  qed
qed

lemma quote_prefix: "quote s @ r = quote t @ r' \<Longrightarrow> s = t \<and> r = r'"
  using quote_body_prefix [of s r t r'] by (simp add: quote_def)

lemma stringify_hd: "\<exists>c cs. stringify v = c # cs \<and> c \<noteq> CHR 0x5D \<and> c \<noteq> CHR 0x2C"
proof (cases v)
  case (J_num n)
  have "is_digit c \<Longrightarrow> c \<noteq> CHR 0x5D \<and> c \<noteq> CHR 0x2C" for c by (auto simp: is_digit_def)
  then show ?thesis using J_num show_nat_hd [of "nat n"] by (auto simp: show_int_def)
qed (auto simp: quote_def)

lemma no_digit_delims [simp]:
  "no_digit (CHR 0x5D # r)" "no_digit (CHR 0x2C # r)" "no_digit (CHR 0x7D # r)"
  by (simp_all add: no_digit_def is_digit_def)

lemma show_int_hd: "\<exists>c cs. show_int n = c # cs \<and> (is_digit c \<or> c = CHR 0x2D)"
  using show_nat_hd [of "nat n"] by (auto simp: show_int_def)

definition kind_of :: "char \<Rightarrow> nat" where
  \<comment> \<open>The kind of value a text starts: by its first character.\<close>
  "kind_of c = (if c = CHR ''n'' then 0 else if c = CHR ''t'' then 1 else if c = CHR ''f'' then 2
     else if c = CHR 0x22 then 4 else if c = CHR 0x5B then 5 else if c = CHR 0x7B then 6 else 3)"

fun kind :: "json \<Rightarrow> nat" where
  "kind J_null = 0" | "kind (J_bool b) = (if b then 1 else 2)" | "kind (J_num n) = 3"
| "kind (J_str s) = 4" | "kind (J_arr xs) = 5" | "kind (J_obj kvs) = 6"

lemma kind_stringify: "kind_of (hd (stringify v @ r)) = kind v"
proof (cases v)
  case (J_num n)
  have "kind_of c = 3" if "is_digit c \<or> c = CHR 0x2D" for c
    using that by (auto simp: kind_of_def is_digit_def)
  moreover obtain c cs where "show_int n = c # cs" "is_digit c \<or> c = CHR 0x2D"
    using show_int_hd by blast
  ultimately show ?thesis using J_num by simp
qed (auto simp: quote_def kind_of_def)

lemma same_kind: "stringify v @ r = stringify w @ r' \<Longrightarrow> kind v = kind w"
  by (metis kind_stringify)

lemma stringify_prefix:
  "stringify v @ r = stringify w @ r' \<Longrightarrow> no_digit r \<Longrightarrow> no_digit r' \<Longrightarrow> v = w \<and> r = r'"
  "stringify_elems xs @ CHR 0x5D # r = stringify_elems ys @ CHR 0x5D # r' \<Longrightarrow> xs = ys \<and> r = r'"
  "stringify_fields kvs @ CHR 0x7D # r = stringify_fields lws @ CHR 0x7D # r' \<Longrightarrow> kvs = lws \<and> r = r'"
proof (induction v and xs and kvs arbitrary: w r r' and ys r r' and lws r r'
    rule: stringify_stringify_elems_stringify_fields.induct)
  case 1
  then show ?case using same_kind [of J_null r w r'] by (cases w) (auto split: if_splits)
next
  case (2 b)
  then show ?case using same_kind [of "J_bool b" r w r'] by (cases w) (auto split: if_splits)
next
  case (3 n)
  then show ?case
    using same_kind [of "J_num n" r w r'] show_int_prefix [of n r _ r']
    by (cases w) (auto split: if_splits)
next
  case (4 s)
  then show ?case
    using same_kind [of "J_str s" r w r'] quote_prefix [of s r _ r']
    by (cases w) (auto split: if_splits)
next
  case (5 xs)
  have "kind w = 5" using same_kind [OF "5.prems"(1)] by simp
  then obtain ys where w: "w = J_arr ys" by (cases w) (auto split: if_splits)
  have "stringify_elems xs @ CHR 0x5D # r = stringify_elems ys @ CHR 0x5D # r'"
    using "5.prems"(1) by (simp add: w)
  then have "xs = ys \<and> r = r'" by (rule "5.IH")
  then show ?case by (simp add: w)
next
  case (6 kvs)
  have "kind w = 6" using same_kind [OF "6.prems"(1)] by simp
  then obtain lws where w: "w = J_obj lws" by (cases w) (auto split: if_splits)
  have "stringify_fields kvs @ CHR 0x7D # r = stringify_fields lws @ CHR 0x7D # r'"
    using "6.prems"(1) by (simp add: w)
  then have "kvs = lws \<and> r = r'" by (rule "6.IH")
  then show ?case by (simp add: w)
next
  case 7
  then show ?case
  proof (cases ys)
    case (Cons y ys')
    then show ?thesis using 7 stringify_hd [of y] by auto
  qed simp
next
  case (8 x xs)
  show ?case
  proof (cases ys)
    case Nil
    then show ?thesis using "8.prems" stringify_hd [of x] by auto
  next
    case (Cons y ys')
    define t where "t = (if xs = [] then [] else CHR 0x2C # stringify_elems xs) @ CHR 0x5D # r"
    define t' where "t' = (if ys' = [] then [] else CHR 0x2C # stringify_elems ys') @ CHR 0x5D # r'"
    have "stringify x @ t = stringify y @ t'"
      using "8.prems" Cons by (simp add: t_def t'_def split: if_splits)
    moreover have "no_digit t" "no_digit t'" by (simp_all add: t_def t'_def)
    ultimately have xy: "x = y" "t = t'" using "8.IH"(1) by blast+
    have "xs = ys' \<and> r = r'"
    proof (cases "xs = [] \<or> ys' = []")
      case True
      then show ?thesis using xy(2) by (auto simp: t_def t'_def split: if_splits)
    next
      case False
      then show ?thesis using xy(2) "8.IH"(2) [of r ys' r'] by (simp add: t_def t'_def)
    qed
    then show ?thesis using xy(1) Cons by simp
  qed
next
  case 9
  then show ?case
    by (cases lws) (auto simp: quote_def)
next
  case (10 k v kvs)
  show ?case
  proof (cases lws)
    case Nil
    then show ?thesis using "10.prems" by (auto simp: quote_def)
  next
    case (Cons q lws')
    obtain k' v' where q: "q = (k', v')" by (cases q)
    define t where "t = (if kvs = [] then [] else CHR 0x2C # stringify_fields kvs) @ CHR 0x7D # r"
    define t' where "t' = (if lws' = [] then [] else CHR 0x2C # stringify_fields lws') @ CHR 0x7D # r'"
    have "quote k @ CHR 0x3A # stringify v @ t = quote k' @ CHR 0x3A # stringify v' @ t'"
      using "10.prems" Cons by (simp add: t_def t'_def q split: if_splits)
    then have k: "k = k'" and "stringify v @ t = stringify v' @ t'"
      using quote_prefix by blast+
    moreover have "no_digit t" "no_digit t'" by (simp_all add: t_def t'_def)
    ultimately have xy: "v = v'" "t = t'" using "10.IH"(1) by blast+
    have "kvs = lws' \<and> r = r'"
    proof (cases "kvs = [] \<or> lws' = []")
      case True
      then show ?thesis using xy(2) by (auto simp: t_def t'_def split: if_splits)
    next
      case False
      then show ?thesis using xy(2) "10.IH"(2) [of r lws' r'] by (simp add: t_def t'_def)
    qed
    then show ?thesis using xy(1) k Cons q by simp
  qed
qed

lemma stringify_inj: "stringify v = stringify w \<Longrightarrow> v = w"
  using stringify_prefix(1) [of v "[]" w "[]"] by (simp add: no_digit_def)

lemma canonicalize_eq: "canonicalize v = Inr s \<longleftrightarrow> (\<exists>j. toCanonicalValue v = Inr j \<and> s = stringify j)"
  by (auto simp: canonicalize_def split: sum.split)

lemma canonicalize_same: "canonicalize v = canonicalize w \<Longrightarrow> toCanonicalValue v = toCanonicalValue w"
  by (auto simp: canonicalize_def dest: stringify_inj split: sum.splits)

lemma canonical_text_inj:
  assumes "toCanonicalValue v = Inr j" and "toCanonicalValue w = Inr j'" and "canonical_text v = canonical_text w"
  shows "toCanonicalValue v = toCanonicalValue w"
proof -
  have "canonicalize v = Inr (stringify j)" "canonicalize w = Inr (stringify j')"
    using assms(1,2) by (auto simp: canonicalize_eq)
  then show ?thesis using assms(3) canonicalize_same [of v w] by (simp add: canonical_text_def)
qed


end
