(* ===== verification/Transaction.thy ===== *)
theory Transaction
  imports Canonical "HOL-Library.Sublist"
begin

text \<open>
  Canonical wallet transactions: creation, identity and the signed text
  (\<open>src/economy/Wallet/TransactionModel.ts\<close>), the life cycle (\<open>TransactionStateMachine.ts\<close>), the
  replay protector (\<open>TransactionReplayProtector.ts\<close>) and the signers (\<open>TransactionSigner.ts\<close>).
  The variants of the union type \<open>CanonicalTransaction\<close> are one record whose optional fields are
  the ones the variants add; amounts are integers (the non-finite numbers the code rejects have no
  counterpart), and the clock is an argument.
\<close>

section \<open>Data\<close>

datatype tx_status = Tx_created | Tx_signed | Tx_pending | Tx_confirmed | Tx_failed | Tx_expired

record tx_payload =
  pay_amount :: int
  pay_fee :: int
  pay_metadata :: jsval
  pay_description :: "string option"

record tx_history_entry =
  th_status :: tx_status
  th_at :: int
  th_reason :: "string option"

record tx_failure =
  fl_code :: string
  fl_reason :: string
  fl_failedAt :: int

record canonical_tx =
  tx_id :: string
  tx_type :: string
  tx_senderId :: string
  tx_recipientId :: string
  tx_createdAt :: int
  tx_expiresAt :: int
  tx_nonce :: string
  tx_sequence :: int
  tx_payload :: tx_payload
  tx_payloadHash :: string
  tx_history :: "tx_history_entry list"
  tx_status :: tx_status
  tx_signature :: "string option"
  tx_signedAt :: "int option"
  tx_publicKey :: "string option"
  tx_submittedAt :: "int option"
  tx_confirmedAt :: "int option"
  tx_confirmationReference :: "string option"
  tx_failure :: "tx_failure option"
  tx_expiredAt :: "int option"

record create_input =
  ci_type :: string
  ci_senderId :: string
  ci_recipientId :: string
  ci_amount :: int
  ci_fee :: "int option"
  ci_metadata :: jsval
  ci_description :: "string option"
  ci_createdAt :: int
  ci_expiresAt :: int
  ci_nonce :: string
  ci_sequence :: int

datatype tx_error =
    Tx_validation string
  | Tx_canonical canonical_error
  | Tx_invalid_state string
  | Tx_error string

section \<open>Creation and identity\<close>

definition payload_value :: "tx_payload \<Rightarrow> jsval" where
  "payload_value p = Jv_obj
     [(''amount'', Jv_num (pay_amount p)), (''fee'', Jv_num (pay_fee p)),
      (''description'', opt_str (pay_description p)), (''metadata'', pay_metadata p)]"

definition computeTransactionPayloadHash :: "tx_payload \<Rightarrow> tx_error + string" where
  "computeTransactionPayloadHash p = (case canonicalize (payload_value p) of
     Inl e \<Rightarrow> Inl (Tx_canonical e) | Inr s \<Rightarrow> Inr (sha256Hex s))"

definition id_value :: "create_input \<Rightarrow> string \<Rightarrow> jsval" where
  "id_value i payloadHash = Jv_obj
     [(''version'', Jv_num 1), (''type'', Jv_str (ci_type i)),
      (''senderId'', Jv_str (ci_senderId i)), (''recipientId'', Jv_str (ci_recipientId i)),
      (''createdAt'', Jv_num (ci_createdAt i)), (''expiresAt'', Jv_num (ci_expiresAt i)),
      (''nonce'', Jv_str (ci_nonce i)), (''sequence'', Jv_num (ci_sequence i)),
      (''payloadHash'', Jv_str payloadHash)]"

definition computeTransactionId :: "create_input \<Rightarrow> string \<Rightarrow> tx_error + string" where
  "computeTransactionId i payloadHash = (case canonicalize (id_value i payloadHash) of
     Inl e \<Rightarrow> Inl (Tx_canonical e) | Inr s \<Rightarrow> Inr (''tx_'' @ take 48 (sha256Hex s)))"

definition signable_value :: "canonical_tx \<Rightarrow> jsval" where
  "signable_value t = Jv_obj
     [(''id'', Jv_str (tx_id t)), (''version'', Jv_num 1), (''type'', Jv_str (tx_type t)),
      (''senderId'', Jv_str (tx_senderId t)), (''recipientId'', Jv_str (tx_recipientId t)),
      (''createdAt'', Jv_num (tx_createdAt t)), (''expiresAt'', Jv_num (tx_expiresAt t)),
      (''nonce'', Jv_str (tx_nonce t)), (''sequence'', Jv_num (tx_sequence t)),
      (''payloadHash'', Jv_str (tx_payloadHash t))]"

definition getSignableTransactionBytes :: "canonical_tx \<Rightarrow> tx_error + string" where
  "getSignableTransactionBytes t = (case canonicalize (signable_value t) of
     Inl e \<Rightarrow> Inl (Tx_canonical e) | Inr s \<Rightarrow> Inr s)"

definition validateCreateTransactionInput :: "create_input \<Rightarrow> tx_error option" where
  "validateCreateTransactionInput i =
     (let fee = (case ci_fee i of None \<Rightarrow> 0 | Some f \<Rightarrow> f) in
      if ci_amount i \<le> 0
      then Some (Tx_validation ''Transaction amount must be a positive finite number'')
      else if fee < 0
      then Some (Tx_validation ''Transaction fee must be a non-negative finite number'')
      else if ci_senderId i = [] \<or> ci_recipientId i = []
      then Some (Tx_validation ''Transaction sender and recipient are required'')
      else if ci_senderId i = ci_recipientId i
      then Some (Tx_validation ''Transaction sender and recipient must differ'')
      else if ci_expiresAt i \<le> ci_createdAt i
      then Some (Tx_validation ''Transaction expiration must be after creation'')
      else None)"

definition createCanonicalTransaction :: "create_input \<Rightarrow> tx_error + canonical_tx" where
  "createCanonicalTransaction i = (case validateCreateTransactionInput i of
     Some e \<Rightarrow> Inl e
   | None \<Rightarrow> (let payload = \<lparr>pay_amount = ci_amount i,
                pay_fee = (case ci_fee i of None \<Rightarrow> 0 | Some f \<Rightarrow> f),
                pay_metadata = ci_metadata i, pay_description = ci_description i\<rparr>
       in case computeTransactionPayloadHash payload of
            Inl e \<Rightarrow> Inl e
          | Inr payloadHash \<Rightarrow> (case computeTransactionId i payloadHash of
              Inl e \<Rightarrow> Inl e
            | Inr i' \<Rightarrow> Inr \<lparr>tx_id = i', tx_type = ci_type i, tx_senderId = ci_senderId i,
                tx_recipientId = ci_recipientId i, tx_createdAt = ci_createdAt i,
                tx_expiresAt = ci_expiresAt i, tx_nonce = ci_nonce i,
                tx_sequence = ci_sequence i, tx_payload = payload, tx_payloadHash = payloadHash,
                tx_history = [\<lparr>th_status = Tx_created, th_at = ci_createdAt i, th_reason = None\<rparr>],
                tx_status = Tx_created, tx_signature = None, tx_signedAt = None,
                tx_publicKey = None, tx_submittedAt = None, tx_confirmedAt = None,
                tx_confirmationReference = None, tx_failure = None, tx_expiredAt = None\<rparr>)))"

section \<open>The life cycle\<close>

datatype not_applied = Already_applied | Invalid_transition | Tx_conflict | Is_expired

datatype transition = Applied canonical_tx tx_status | Not_applied not_applied canonical_tx

fun tr_transaction :: "transition \<Rightarrow> canonical_tx" where
  "tr_transaction (Applied t s) = t"
| "tr_transaction (Not_applied r t) = t"

text \<open>The characters \<open>String.prototype.trim\<close> removes, within Latin-1.\<close>

definition js_blank :: "string \<Rightarrow> bool" where
  "js_blank s \<longleftrightarrow> (\<forall>c \<in> set s. of_char c \<in> {9, 10, 11, 12, 13, 32, 160 :: nat})"

definition appendHistory ::
  "canonical_tx \<Rightarrow> tx_status \<Rightarrow> int \<Rightarrow> string option \<Rightarrow> tx_history_entry list" where
  "appendHistory t s at' reason =
     tx_history t @ [\<lparr>th_status = s, th_at = at', th_reason = reason\<rparr>]"

definition isExpired :: "canonical_tx \<Rightarrow> int \<Rightarrow> bool" where
  "isExpired t now \<longleftrightarrow> tx_expiresAt t \<le> now"

definition tx_expire :: "canonical_tx \<Rightarrow> int \<Rightarrow> transition" where
  "tx_expire t now =
     (if tx_status t = Tx_expired then Not_applied Already_applied t
      else if tx_status t = Tx_confirmed \<or> tx_status t = Tx_failed
      then Not_applied Invalid_transition t
      else if \<not> isExpired t now then Not_applied Invalid_transition t
      else Applied (t\<lparr>tx_status := Tx_expired, tx_expiredAt := Some now,
             tx_history := appendHistory t Tx_expired now None\<rparr>) (tx_status t))"

definition tx_sign ::
  "canonical_tx \<Rightarrow> string \<Rightarrow> string option \<Rightarrow> int \<Rightarrow> tx_error + transition" where
  "tx_sign t signature publicKey now =
     (if tx_status t = Tx_signed then Inr (Not_applied Already_applied t)
      else if tx_status t \<noteq> Tx_created then Inr (Not_applied Invalid_transition t)
      else if isExpired t now then Inr (tx_expire t now)
      else if js_blank signature
      then Inl (Tx_invalid_state ''Transaction signature is required'')
      else Inr (Applied (t\<lparr>tx_status := Tx_signed, tx_signature := Some signature,
             tx_publicKey := publicKey, tx_signedAt := Some now,
             tx_history := appendHistory t Tx_signed now None\<rparr>) (tx_status t)))"

definition tx_markPending :: "canonical_tx \<Rightarrow> int \<Rightarrow> transition" where
  "tx_markPending t now =
     (if tx_status t = Tx_pending then Not_applied Already_applied t
      else if tx_status t \<noteq> Tx_signed then Not_applied Invalid_transition t
      else if isExpired t now then tx_expire t now
      else Applied (t\<lparr>tx_status := Tx_pending, tx_submittedAt := Some now,
             tx_history := appendHistory t Tx_pending now None\<rparr>) (tx_status t))"

definition tx_confirm :: "canonical_tx \<Rightarrow> string option \<Rightarrow> int \<Rightarrow> transition" where
  "tx_confirm t confirmationReference now =
     (if tx_status t = Tx_confirmed then
        (if tx_confirmationReference t = confirmationReference
         then Not_applied Already_applied t else Not_applied Tx_conflict t)
      else if tx_status t = Tx_expired then Not_applied Is_expired t
      else if tx_status t \<noteq> Tx_pending then Not_applied Invalid_transition t
      else if isExpired t now then tx_expire t now
      else Applied (t\<lparr>tx_status := Tx_confirmed, tx_confirmedAt := Some now,
             tx_confirmationReference := confirmationReference,
             tx_history := appendHistory t Tx_confirmed now None\<rparr>) (tx_status t))"

definition tx_fail :: "canonical_tx \<Rightarrow> string \<Rightarrow> string \<Rightarrow> int \<Rightarrow> transition" where
  "tx_fail t code reason now =
     (if tx_status t = Tx_failed then
        (case tx_failure t of
           Some f \<Rightarrow> if fl_code f = code \<and> fl_reason f = reason
                     then Not_applied Already_applied t else Not_applied Tx_conflict t
         | None \<Rightarrow> Not_applied Tx_conflict t)
      else if tx_status t = Tx_confirmed \<or> tx_status t = Tx_expired
      then Not_applied Invalid_transition t
      else Applied (t\<lparr>tx_status := Tx_failed,
             tx_failure := Some \<lparr>fl_code = code, fl_reason = reason, fl_failedAt = now\<rparr>,
             tx_history := appendHistory t Tx_failed now (Some reason)\<rparr>) (tx_status t))"

section \<open>The signers\<close>

definition createSignature :: "canonical_tx \<Rightarrow> string \<Rightarrow> tx_error + string" where
  "createSignature t signerSecret = (case getSignableTransactionBytes t of
     Inl e \<Rightarrow> Inl e | Inr s \<Rightarrow> Inr (sha256Hex (signerSecret @ '':'' @ s)))"

definition signed_result :: "string \<Rightarrow> tx_error + transition \<Rightarrow> tx_error + canonical_tx" where
  "signed_result message result = (case result of
     Inl e \<Rightarrow> Inl e
   | Inr (Not_applied r t) \<Rightarrow> Inl (Tx_error message)
   | Inr (Applied t s) \<Rightarrow> if tx_status t \<noteq> Tx_signed then Inl (Tx_error message) else Inr t)"

definition local_sign ::
  "canonical_tx \<Rightarrow> string \<Rightarrow> string option \<Rightarrow> int \<Rightarrow> tx_error + canonical_tx" where
  "local_sign t signerSecret publicKey now = (case createSignature t signerSecret of
     Inl e \<Rightarrow> Inl e
   | Inr sig \<Rightarrow> signed_result ''Transaction could not be signed'' (tx_sign t sig publicKey now))"

definition local_verify :: "canonical_tx \<Rightarrow> string \<Rightarrow> bool" where
  "local_verify t signerSecret = (case tx_signature t of
     None \<Rightarrow> False
   | Some sig \<Rightarrow> \<not> js_blank sig \<and> createSignature t signerSecret = Inr sig)"

text \<open>
  The crypto service signs and verifies texts; it is a parameter: \<open>sign\<close> may reject (\<open>None\<close>), and
  \<open>getPublicIdentity\<close> may have no identity.
\<close>

record crypto_service =
  cs_sign :: "string \<Rightarrow> string option"
  cs_verify :: "string \<Rightarrow> string \<Rightarrow> string \<Rightarrow> bool"
  cs_public :: "string option"

definition crypto_sign :: "crypto_service \<Rightarrow> canonical_tx \<Rightarrow> int \<Rightarrow> tx_error + canonical_tx" where
  "crypto_sign cs t now = (case getSignableTransactionBytes t of
     Inl e \<Rightarrow> Inl e
   | Inr s \<Rightarrow> (case cs_sign cs s of
       None \<Rightarrow> Inl (Tx_error ''crypto'')
     | Some sig \<Rightarrow> signed_result ''Transaction could not be signed cryptographically''
         (tx_sign t sig (cs_public cs) now)))"

definition senderMatchesPublicKey :: "string \<Rightarrow> string \<Rightarrow> bool" where
  "senderMatchesPublicKey senderId publicKey \<longleftrightarrow>
     senderId = publicKey \<or> senderId = ''0x'' @ take 40 (sha256Hex publicKey)"

definition crypto_verify :: "crypto_service \<Rightarrow> canonical_tx \<Rightarrow> bool" where
  "crypto_verify cs t = (case (tx_signature t, tx_publicKey t) of
     (Some sig, Some pk) \<Rightarrow> pk \<noteq> [] \<and> senderMatchesPublicKey (tx_senderId t) pk
       \<and> (case getSignableTransactionBytes t of Inl e \<Rightarrow> False | Inr s \<Rightarrow> cs_verify cs s sig pk)
   | _ \<Rightarrow> False)"

section \<open>The replay protector\<close>

datatype replay_rejection = Duplicate_id | Nonce_reused | Sequence_regression

record replay_state =
  rp_processedIds :: "string list"
  rp_nonceBySender :: "(string, string list) jsmap"
  rp_sequenceBySender :: "(string, int) jsmap"

definition replay_empty :: replay_state where
  "replay_empty = \<lparr>rp_processedIds = [], rp_nonceBySender = [], rp_sequenceBySender = []\<rparr>"

definition replay_check :: "replay_state \<Rightarrow> canonical_tx \<Rightarrow> replay_rejection option" where
  "replay_check s t =
     (if tx_id t \<in> set (rp_processedIds s) then Some Duplicate_id
      else if (case jm_get (rp_nonceBySender s) (tx_senderId t) of
                 None \<Rightarrow> False | Some ns \<Rightarrow> tx_nonce t \<in> set ns) then Some Nonce_reused
      else if (case jm_get (rp_sequenceBySender s) (tx_senderId t) of
                 None \<Rightarrow> False | Some l \<Rightarrow> tx_sequence t < l) then Some Sequence_regression
      else None)"

definition replay_record ::
  "replay_state \<Rightarrow> canonical_tx \<Rightarrow> replay_rejection option \<times> replay_state" where
  "replay_record s t = (case replay_check s t of
     Some r \<Rightarrow> (Some r, s)
   | None \<Rightarrow> (None, \<lparr>
       rp_processedIds = set_add (tx_id t) (rp_processedIds s),
       rp_nonceBySender = jm_set (tx_senderId t)
         (set_add (tx_nonce t) (case jm_get (rp_nonceBySender s) (tx_senderId t) of
            None \<Rightarrow> [] | Some ns \<Rightarrow> ns)) (rp_nonceBySender s),
       rp_sequenceBySender = jm_set (tx_senderId t)
         (max (tx_sequence t) (case jm_get (rp_sequenceBySender s) (tx_senderId t) of
            None \<Rightarrow> tx_sequence t | Some l \<Rightarrow> l)) (rp_sequenceBySender s)\<rparr>))"

text \<open>\<open>localeCompare\<close> orders the snapshot's rows; it is a parameter.\<close>

definition exportSnapshot :: "(string \<Rightarrow> string \<Rightarrow> int) \<Rightarrow> replay_state \<Rightarrow> replay_state" where
  "exportSnapshot localeCompare s = \<lparr>
     rp_processedIds = js_sort code_cmp (rp_processedIds s),
     rp_nonceBySender = js_sort (\<lambda>l r. localeCompare (fst l) (fst r))
       (map (\<lambda>(sender, ns). (sender, js_sort code_cmp ns)) (rp_nonceBySender s)),
     rp_sequenceBySender = js_sort (\<lambda>l r. localeCompare (fst l) (fst r)) (rp_sequenceBySender s)\<rparr>"

definition importSnapshot :: "replay_state \<Rightarrow> replay_state" where
  "importSnapshot snap = \<lparr>
     rp_processedIds = js_uniq (rp_processedIds snap),
     rp_nonceBySender = fold (\<lambda>(sender, ns). jm_set sender (js_uniq ns)) (rp_nonceBySender snap) [],
     rp_sequenceBySender = fold (\<lambda>(sender, l). jm_set sender l) (rp_sequenceBySender snap) []\<rparr>"

definition replay_clear :: "replay_state \<Rightarrow> replay_state" where
  "replay_clear s = replay_empty"

end
