(* ===== verification/Wallet.thy ===== *)
theory Wallet
  imports Transaction
begin

text \<open>
  The wallet service (\<open>src/economy/Wallet/WalletService.ts\<close>): the balance and its history of
  canonical transactions. An operation is one call; the state it leaves when it throws is part of
  its result, because the code changes the wallet before it builds the transaction. The environment
  of a call holds the clock before and after the signature, the crypto service (if any) and whether
  the repository's write succeeds. The notifications to listeners are left out: nothing reads them
  back.
\<close>

section \<open>State\<close>

datatype legacy_tx_status = Lt_pending | Lt_confirmed | Lt_failed

record tx_metadata =
  tm_canonicalStatus :: tx_status
  tm_payloadHash :: string
  tm_nonce :: string
  tm_sequence :: int
  tm_history :: "tx_history_entry list"
  tm_failure :: "tx_failure option"
  tm_confirmedAt :: "int option"

text \<open>A transaction as listed; \<open>lt_failureReason\<close> is the key of that name in its metadata.\<close>

record legacy_tx =
  lt_id :: string
  lt_type :: string
  lt_from :: string
  lt_to :: string
  lt_amount :: int
  lt_fee :: int
  lt_timestamp :: int
  lt_status :: legacy_tx_status
  lt_description :: "string option"
  lt_signature :: "string option"
  lt_metadata :: "tx_metadata option"
  lt_failureReason :: "string option"

record wallet =
  wa_address :: string
  wa_peerId :: string
  wa_balance :: int
  wa_nonce :: int
  wa_createdAt :: int
  wa_updatedAt :: int

record wallet_state =
  ws_wallet :: "wallet option"
  ws_transactions :: "legacy_tx list"
  ws_canonical :: "(string, canonical_tx) jsmap"
  ws_replay :: replay_state

record wallet_env =
  we_now :: int
  we_later :: int
  we_crypto :: "crypto_service option"
  we_persists :: bool

definition empty_wallet_state :: wallet_state where
  "empty_wallet_state = \<lparr>ws_wallet = None, ws_transactions = [], ws_canonical = [],
     ws_replay = replay_empty\<rparr>"

section \<open>Restoring\<close>

definition wallet_initialize ::
  "replay_state option \<Rightarrow> canonical_tx list \<Rightarrow> wallet_state \<Rightarrow> wallet_state" where
  "wallet_initialize snapshot transactions st = st\<lparr>
     ws_replay := (case snapshot of None \<Rightarrow> ws_replay st | Some s \<Rightarrow> importSnapshot s),
     ws_canonical := fold (\<lambda>t. jm_set (tx_id t) t) transactions []\<rparr>"

definition generateAddress :: "string \<Rightarrow> string" where
  "generateAddress peerId = ''0x'' @ take 40 (sha256Hex peerId)"

fun toLegacyStatus :: "tx_status \<Rightarrow> legacy_tx_status" where
  "toLegacyStatus Tx_created = Lt_pending"
| "toLegacyStatus Tx_signed = Lt_pending"
| "toLegacyStatus Tx_pending = Lt_pending"
| "toLegacyStatus Tx_confirmed = Lt_confirmed"
| "toLegacyStatus Tx_failed = Lt_failed"
| "toLegacyStatus Tx_expired = Lt_failed"

definition legacyMetadata :: "canonical_tx \<Rightarrow> tx_metadata" where
  "legacyMetadata t = \<lparr>tm_canonicalStatus = tx_status t, tm_payloadHash = tx_payloadHash t,
     tm_nonce = tx_nonce t, tm_sequence = tx_sequence t, tm_history = tx_history t,
     tm_failure = (if tx_status t = Tx_failed then tx_failure t else None),
     tm_confirmedAt = (if tx_status t = Tx_confirmed then tx_confirmedAt t else None)\<rparr>"

definition restore_one :: "canonical_tx \<Rightarrow> legacy_tx" where
  "restore_one t = \<lparr>lt_id = tx_id t, lt_type = tx_type t, lt_from = tx_senderId t,
     lt_to = tx_recipientId t, lt_amount = pay_amount (tx_payload t), lt_fee = pay_fee (tx_payload t),
     lt_timestamp = tx_createdAt t, lt_status = toLegacyStatus (tx_status t),
     lt_description = pay_description (tx_payload t), lt_signature = tx_signature t,
     lt_metadata = Some (legacyMetadata t), lt_failureReason = None\<rparr>"

definition restoreLegacyTransactions :: "string \<Rightarrow> wallet_state \<Rightarrow> legacy_tx list" where
  "restoreLegacyTransactions address st = map restore_one
     (js_sort (\<lambda>l r. tx_createdAt l - tx_createdAt r)
        (filter (\<lambda>t. tx_senderId t = address \<or> tx_recipientId t = address)
           (jm_values (ws_canonical st))))"

definition balance_step :: "string \<Rightarrow> int \<Rightarrow> canonical_tx \<Rightarrow> int" where
  "balance_step address balance t =
     (if tx_status t \<noteq> Tx_confirmed then balance
      else (let b = (if tx_recipientId t = address then balance + pay_amount (tx_payload t)
                     else balance)
            in if tx_senderId t = address
               then b - (pay_amount (tx_payload t) + pay_fee (tx_payload t)) else b))"

definition calculateRestoredBalance :: "string \<Rightarrow> wallet_state \<Rightarrow> int" where
  "calculateRestoredBalance address st =
     max 0 (foldl (balance_step address) 0 (jm_values (ws_canonical st)))"

definition calculateRestoredNonce :: "wallet_state \<Rightarrow> int" where
  "calculateRestoredNonce st = foldl (\<lambda>m t. max m (tx_sequence t)) 0 (jm_values (ws_canonical st))"

definition createWallet :: "string \<Rightarrow> int \<Rightarrow> wallet_state \<Rightarrow> wallet \<times> wallet_state" where
  "createWallet peerId now st =
     (let address = generateAddress peerId;
          restored = restoreLegacyTransactions address st;
          stamps = map lt_timestamp restored;
          createdAt = (if restored \<noteq> [] then foldl min (hd stamps) (tl stamps) else now);
          updatedAt = (if restored \<noteq> [] then foldl max (hd stamps) (tl stamps) else createdAt);
          w = \<lparr>wa_address = address, wa_peerId = peerId,
               wa_balance = calculateRestoredBalance address st,
               wa_nonce = calculateRestoredNonce st, wa_createdAt = createdAt,
               wa_updatedAt = updatedAt\<rparr>
      in (w, st\<lparr>ws_wallet := Some w, ws_transactions := restored\<rparr>))"

definition getBalance :: "wallet_state \<Rightarrow> int" where
  "getBalance st = (case ws_wallet st of None \<Rightarrow> 0 | Some w \<Rightarrow> wa_balance w)"

section \<open>Operations\<close>

definition generateNonce :: "string \<Rightarrow> int \<Rightarrow> string" where
  "generateNonce senderId sequence = take 32 (sha256Hex (senderId @ '':'' @ show_int sequence))"

text \<open>The input the service builds, and the signer it chooses.\<close>

definition confirmed_input ::
  "wallet_env \<Rightarrow> wallet \<Rightarrow> string \<Rightarrow> string \<Rightarrow> int \<Rightarrow> int \<Rightarrow> string \<Rightarrow> string option \<Rightarrow> create_input" where
  "confirmed_input env w from to amount fee type description =
     \<lparr>ci_type = type, ci_senderId = from, ci_recipientId = to, ci_amount = amount,
      ci_fee = Some fee, ci_metadata = Jv_undefined, ci_description = description,
      ci_createdAt = we_now env, ci_expiresAt = we_now env + 60 * 60 * 1000,
      ci_nonce = generateNonce from (wa_nonce w), ci_sequence = wa_nonce w\<rparr>"

definition wallet_sign :: "wallet_env \<Rightarrow> wallet \<Rightarrow> string \<Rightarrow> canonical_tx \<Rightarrow> tx_error + canonical_tx" where
  "wallet_sign env w from canonical = (case we_crypto env of
     Some cs \<Rightarrow> if from = wa_address w then crypto_sign cs canonical (we_later env)
       else local_sign canonical (wa_address w) (Some (wa_address w)) (we_later env)
   | None \<Rightarrow> local_sign canonical (wa_address w) (Some (wa_address w)) (we_later env))"

definition createConfirmedCanonicalTransaction ::
  "wallet_env \<Rightarrow> string \<Rightarrow> string \<Rightarrow> int \<Rightarrow> int \<Rightarrow> string \<Rightarrow> string option \<Rightarrow> wallet_state
     \<Rightarrow> (tx_error + canonical_tx) \<times> wallet_state" where
  "createConfirmedCanonicalTransaction env from to amount fee type description st =
     (case ws_wallet st of
        None \<Rightarrow> (Inl (Tx_error ''Wallet not initialized''), st)
      | Some w \<Rightarrow>
        (case createCanonicalTransaction (confirmed_input env w from to amount fee type description) of
           Inl e \<Rightarrow> (Inl e, st)
         | Inr canonical \<Rightarrow>
           (case wallet_sign env w from canonical of
              Inl e \<Rightarrow> (Inl e, st)
            | Inr signed_tx \<Rightarrow>
              (case tx_markPending signed_tx (we_later env) of
                 Not_applied r t \<Rightarrow> (Inl (Tx_error ''Failed to mark transaction pending''), st)
               | Applied pending s \<Rightarrow>
                 if tx_status pending \<noteq> Tx_pending
                 then (Inl (Tx_error ''Failed to mark transaction pending''), st)
                 else (case tx_confirm pending (Some (''local:'' @ tx_id canonical)) (we_later env) of
                    Not_applied r t \<Rightarrow> (Inl (Tx_error ''Failed to confirm transaction''), st)
                  | Applied confirmed s' \<Rightarrow>
                    (case replay_record (ws_replay st) confirmed of
                       (Some r, rp) \<Rightarrow> (Inl (Tx_error ''Transaction replay detected''), st)
                     | (None, rp) \<Rightarrow>
                       (let st' = st\<lparr>ws_replay := rp,
                              ws_canonical := jm_set (tx_id confirmed) confirmed (ws_canonical st)\<rparr>
                        in if we_persists env then (Inr confirmed, st')
                           else (Inl (Tx_error ''Transaction persistence failed''), st'))))))))"

definition legacy_of ::
  "canonical_tx \<Rightarrow> string \<Rightarrow> string \<Rightarrow> string \<Rightarrow> int \<Rightarrow> int \<Rightarrow> string option \<Rightarrow> legacy_tx" where
  "legacy_of t type from to amount fee description = \<lparr>lt_id = tx_id t, lt_type = type,
     lt_from = from, lt_to = to, lt_amount = amount, lt_fee = fee, lt_timestamp = tx_createdAt t,
     lt_status = Lt_confirmed, lt_description = description,
     lt_signature = (if tx_status t = Tx_confirmed then tx_signature t else None),
     lt_metadata = Some (legacyMetadata t), lt_failureReason = None\<rparr>"

text \<open>The common tail of the three operations: the wallet with its new balance is written first.\<close>

definition record_movement ::
  "wallet_env \<Rightarrow> wallet \<Rightarrow> int \<Rightarrow> string \<Rightarrow> string \<Rightarrow> int \<Rightarrow> int \<Rightarrow> string \<Rightarrow> string option
     \<Rightarrow> wallet_state \<Rightarrow> (tx_error + bool) \<times> wallet_state" where
  "record_movement env w balance from to amount fee type description st =
     (let st1 = st\<lparr>ws_wallet := Some (w\<lparr>wa_balance := balance, wa_nonce := wa_nonce w + 1,
            wa_updatedAt := we_now env\<rparr>)\<rparr>
      in case createConfirmedCanonicalTransaction env from to amount fee type description st1 of
           (Inl e, st2) \<Rightarrow> (Inl e, st2)
         | (Inr t, st2) \<Rightarrow> (Inr True, st2\<lparr>ws_transactions :=
             ws_transactions st2 @ [legacy_of t type from to amount fee description]\<rparr>))"

definition addBalance ::
  "wallet_env \<Rightarrow> int \<Rightarrow> string \<Rightarrow> string option \<Rightarrow> wallet_state \<Rightarrow> (tx_error + bool) \<times> wallet_state" where
  "addBalance env amount type description st = (case ws_wallet st of
     None \<Rightarrow> (Inr False, st)
   | Some w \<Rightarrow>
     if amount \<le> 0 then (Inr False, st)
     else record_movement env w (wa_balance w + amount) ''SYSTEM'' (wa_address w) amount 0 type
            description st)"

definition subtractBalance ::
  "wallet_env \<Rightarrow> int \<Rightarrow> string \<Rightarrow> string option \<Rightarrow> wallet_state \<Rightarrow> (tx_error + bool) \<times> wallet_state" where
  "subtractBalance env amount type description st = (case ws_wallet st of
     None \<Rightarrow> (Inr False, st)
   | Some w \<Rightarrow>
     if amount \<le> 0 then (Inr False, st)
     else if wa_balance w < amount then (Inr False, st)
     else record_movement env w (wa_balance w - amount) (wa_address w) ''SYSTEM'' amount 0 type
            description st)"

definition transfer ::
  "wallet_env \<Rightarrow> string \<Rightarrow> int \<Rightarrow> int \<Rightarrow> wallet_state \<Rightarrow> (tx_error + bool) \<times> wallet_state" where
  "transfer env toAddress amount fee st = (case ws_wallet st of
     None \<Rightarrow> (Inr False, st)
   | Some w \<Rightarrow>
     if amount \<le> 0 then (Inr False, st)
     else (let totalAmount = amount + fee in
       if wa_balance w < totalAmount then (Inr False, st)
       else record_movement env w (wa_balance w - totalAmount) (wa_address w) toAddress amount fee
              ''TRANSFER'' None st))"

definition update_tx :: "string \<Rightarrow> (legacy_tx \<Rightarrow> legacy_tx) \<Rightarrow> legacy_tx list \<Rightarrow> legacy_tx list" where
  \<comment> \<open>\<open>getTransaction\<close> returns the first object with the id; the caller mutates it in place.\<close>
  "update_tx i f ts = (let pre = takeWhile (\<lambda>t. lt_id t \<noteq> i) ts in
     case drop (length pre) ts of [] \<Rightarrow> ts | t # post \<Rightarrow> pre @ f t # post)"

definition getTransaction :: "string \<Rightarrow> wallet_state \<Rightarrow> legacy_tx option" where
  "getTransaction i st = find (\<lambda>t. lt_id t = i) (ws_transactions st)"

definition confirmTransaction :: "int \<Rightarrow> string \<Rightarrow> wallet_state \<Rightarrow> bool \<times> wallet_state" where
  "confirmTransaction now i st = (case getTransaction i st of
     None \<Rightarrow> (False, st)
   | Some t \<Rightarrow>
     if lt_status t = Lt_confirmed then (False, st)
     else (case jm_get (ws_canonical st) i of
       None \<Rightarrow> (True, st\<lparr>ws_transactions :=
          update_tx i (\<lambda>t. t\<lparr>lt_status := Lt_confirmed\<rparr>) (ws_transactions st)\<rparr>)
     | Some canonical \<Rightarrow>
       (let accept = (\<lambda>c. (True, st\<lparr>ws_canonical := jm_set i c (ws_canonical st),
              ws_transactions := update_tx i
                (\<lambda>t. t\<lparr>lt_metadata := Some (legacyMetadata c), lt_failureReason := None,
                       lt_status := Lt_confirmed\<rparr>)
                (ws_transactions st)\<rparr>))
        in case tx_confirm canonical None now of
             Applied c s \<Rightarrow> accept c
           | Not_applied r c \<Rightarrow> if r = Already_applied then accept c else (False, st))))"

definition failTransaction :: "int \<Rightarrow> string \<Rightarrow> string option \<Rightarrow> wallet_state \<Rightarrow> bool \<times> wallet_state" where
  "failTransaction now i reason st = (case getTransaction i st of
     None \<Rightarrow> (False, st)
   | Some t \<Rightarrow>
     if lt_status t = Lt_confirmed \<or> lt_status t = Lt_failed then (False, st)
     else (let why = (case reason of None \<Rightarrow> ''Transaction failed'' | Some r \<Rightarrow> r) in
       case jm_get (ws_canonical st) i of
       None \<Rightarrow> (True, st\<lparr>ws_transactions := update_tx i
          (\<lambda>t. t\<lparr>lt_status := Lt_failed, lt_failureReason := Some why\<rparr>)
          (ws_transactions st)\<rparr>)
     | Some canonical \<Rightarrow>
       (let accept = (\<lambda>c. (True, st\<lparr>ws_canonical := jm_set i c (ws_canonical st),
              ws_transactions := update_tx i
                (\<lambda>t. t\<lparr>lt_status := Lt_failed, lt_metadata := Some (legacyMetadata c),
                       lt_failureReason := Some why\<rparr>)
                (ws_transactions st)\<rparr>))
        in case tx_fail canonical ''TRANSACTION_FAILED'' why now of
             Applied c s \<Rightarrow> accept c
           | Not_applied r c \<Rightarrow> if r = Already_applied then accept c else (False, st))))"

definition clearWallet :: "wallet_state \<Rightarrow> wallet_state" where
  "clearWallet st = st\<lparr>ws_wallet := None, ws_transactions := []\<rparr>"

text \<open>\<open>getTransactions(limit)\<close>: a limit of zero is no limit.\<close>

definition getTransactions :: "nat option \<Rightarrow> wallet_state \<Rightarrow> legacy_tx list" where
  "getTransactions limit st = (case limit of
     None \<Rightarrow> ws_transactions st
   | Some n \<Rightarrow> if n = 0 then ws_transactions st else last_n n (ws_transactions st))"

definition getTransactionsByType :: "string \<Rightarrow> wallet_state \<Rightarrow> legacy_tx list" where
  "getTransactionsByType type st = filter (\<lambda>t. lt_type t = type) (ws_transactions st)"

text \<open>\<open>importFromJSON\<close> on parsed data: an import of transactions empties the canonical map.\<close>

definition importFromJSON ::
  "wallet option \<Rightarrow> legacy_tx list option \<Rightarrow> wallet_state \<Rightarrow> wallet_state" where
  "importFromJSON w ts st =
     (let st1 = (case w of None \<Rightarrow> st | Some x \<Rightarrow> st\<lparr>ws_wallet := Some x\<rparr>)
      in case ts of None \<Rightarrow> st1 | Some xs \<Rightarrow> st1\<lparr>ws_transactions := xs, ws_canonical := []\<rparr>)"

record wallet_statistics =
  st_balance :: int
  st_transactionCount :: nat
  st_totalReceived :: int
  st_totalSent :: int
  st_totalFees :: int
  st_totalAmount :: int

text \<open>The average amount is \<open>st_totalAmount\<close> over the count, or 0 when there is none.\<close>

definition getStatistics :: "wallet_state \<Rightarrow> wallet_statistics" where
  "getStatistics st = (case ws_wallet st of
     None \<Rightarrow> \<lparr>st_balance = 0, st_transactionCount = 0, st_totalReceived = 0, st_totalSent = 0,
              st_totalFees = 0, st_totalAmount = 0\<rparr>
   | Some w \<Rightarrow> (let ts = ws_transactions st in
       \<lparr>st_balance = wa_balance w, st_transactionCount = length ts,
        st_totalReceived = sum_list (map lt_amount (filter (\<lambda>t. lt_to t = wa_address w) ts)),
        st_totalSent = sum_list (map lt_amount (filter (\<lambda>t. lt_from t = wa_address w) ts)),
        st_totalFees = sum_list (map lt_fee ts),
        st_totalAmount = sum_list (map lt_amount ts)\<rparr>))"

end
