(* ===== verification/Transaction_Claims.thy ===== *)
theory Transaction_Claims
  imports Transaction
begin

text \<open>
  What a canonical transaction promises: its signed text fixes its fields, its history only grows
  along the edges of the life cycle and never leaves a terminal status, a signature verifies exactly
  on the text that was signed, and the replay protector accepts no id and no nonce twice.
\<close>

section \<open>The signed text\<close>

lemma signable_canonical:
  "toCanonicalValue (signable_value t) = Inr (J_obj
     [(''createdAt'', J_num (tx_createdAt t)), (''expiresAt'', J_num (tx_expiresAt t)),
      (''id'', J_str (tx_id t)), (''nonce'', J_str (tx_nonce t)),
      (''payloadHash'', J_str (tx_payloadHash t)), (''recipientId'', J_str (tx_recipientId t)),
      (''senderId'', J_str (tx_senderId t)), (''sequence'', J_num (tx_sequence t)),
      (''type'', J_str (tx_type t)), (''version'', J_num 1)])"
  by (simp add: signable_value_def key_cmp_def)

lemma signable_ok: "\<exists>s. getSignableTransactionBytes t = Inr s"
  by (simp add: getSignableTransactionBytes_def canonicalize_def signable_canonical)

lemma signable_same:
  assumes "getSignableTransactionBytes t = getSignableTransactionBytes u"
  shows "toCanonicalValue (signable_value t) = toCanonicalValue (signable_value u)"
proof -
  have "canonicalize (signable_value t) = canonicalize (signable_value u)"
    using assms by (auto simp: getSignableTransactionBytes_def split: sum.splits)
  then show ?thesis by (rule canonicalize_same)
qed

text \<open>the signed text of a transaction fixes its id, type, parties, times, nonce, sequence and
  payload hash: two transactions with the same signed text agree on all of them.\<close>

theorem signable_text_fixes_fields:
  "getSignableTransactionBytes t = getSignableTransactionBytes u \<longleftrightarrow>
     tx_id t = tx_id u \<and> tx_type t = tx_type u \<and> tx_senderId t = tx_senderId u
     \<and> tx_recipientId t = tx_recipientId u \<and> tx_createdAt t = tx_createdAt u
     \<and> tx_expiresAt t = tx_expiresAt u \<and> tx_nonce t = tx_nonce u
     \<and> tx_sequence t = tx_sequence u \<and> tx_payloadHash t = tx_payloadHash u"
  (is "?l \<longleftrightarrow> ?r")
proof
  assume ?l
  then show ?r using signable_same [of t u] by (simp add: signable_canonical)
next
  assume ?r
  then have "signable_value t = signable_value u" by (simp add: signable_value_def)
  then show ?l by (simp only: getSignableTransactionBytes_def)
qed

section \<open>The life cycle\<close>

datatype tx_event =
    Do_sign string "string option" int
  | Do_pending int
  | Do_confirm "string option" int
  | Do_fail string string int
  | Do_expire int

text \<open>A transition that throws leaves the transaction as it was.\<close>

fun tx_step :: "canonical_tx \<Rightarrow> tx_event \<Rightarrow> canonical_tx" where
  "tx_step t (Do_sign sig pk now) =
     (case tx_sign t sig pk now of Inl e \<Rightarrow> t | Inr r \<Rightarrow> tr_transaction r)"
| "tx_step t (Do_pending now) = tr_transaction (tx_markPending t now)"
| "tx_step t (Do_confirm ref now) = tr_transaction (tx_confirm t ref now)"
| "tx_step t (Do_fail code reason now) = tr_transaction (tx_fail t code reason now)"
| "tx_step t (Do_expire now) = tr_transaction (tx_expire t now)"

inductive edge :: "tx_status \<Rightarrow> tx_status \<Rightarrow> bool" where
  "edge Tx_created Tx_signed"
| "edge Tx_signed Tx_pending"
| "edge Tx_pending Tx_confirmed"
| "s \<in> {Tx_created, Tx_signed, Tx_pending} \<Longrightarrow> edge s Tx_failed"
| "s \<in> {Tx_created, Tx_signed, Tx_pending} \<Longrightarrow> edge s Tx_expired"

inductive_simps edge_simps [simp]:
  "edge s Tx_created" "edge s Tx_signed" "edge s Tx_pending" "edge s Tx_confirmed"
  "edge s Tx_failed" "edge s Tx_expired"

fun edge_path :: "tx_status list \<Rightarrow> bool" where
  "edge_path (s # t # ss) \<longleftrightarrow> edge s t \<and> edge_path (t # ss)"
| "edge_path ss = True"

lemma edge_path_snoc: "edge_path (ss @ [s]) \<Longrightarrow> edge s t \<Longrightarrow> edge_path (ss @ [s, t])"
  by (induction ss rule: edge_path.induct) auto

definition statuses :: "canonical_tx \<Rightarrow> tx_status list" where
  "statuses t = map th_status (tx_history t)"

definition is_terminal :: "canonical_tx \<Rightarrow> bool" where
  "is_terminal t \<longleftrightarrow> tx_status t \<in> {Tx_confirmed, Tx_failed, Tx_expired}"

definition tx_wf :: "canonical_tx \<Rightarrow> bool" where
  "tx_wf t \<longleftrightarrow> (\<exists>ss. statuses t = ss @ [tx_status t]) \<and> edge_path (statuses t)
     \<and> hd (statuses t) = Tx_created
     \<and> (tx_status t \<in> {Tx_signed, Tx_pending, Tx_confirmed} \<longrightarrow>
          (\<exists>sig. tx_signature t = Some sig \<and> \<not> js_blank sig))
     \<and> (tx_status t = Tx_confirmed \<longrightarrow> (\<exists>c. tx_confirmedAt t = Some c \<and> c < tx_expiresAt t))"

definition same_terms :: "canonical_tx \<Rightarrow> canonical_tx \<Rightarrow> bool" where
  "same_terms t u \<longleftrightarrow> tx_id u = tx_id t \<and> tx_type u = tx_type t
     \<and> tx_createdAt u = tx_createdAt t \<and> tx_senderId u = tx_senderId t
     \<and> tx_recipientId u = tx_recipientId t \<and> tx_payload u = tx_payload t
     \<and> tx_nonce u = tx_nonce t \<and> tx_sequence u = tx_sequence t
     \<and> tx_expiresAt u = tx_expiresAt t \<and> tx_payloadHash u = tx_payloadHash t"

definition tx_progress :: "canonical_tx \<Rightarrow> canonical_tx \<Rightarrow> bool" where
  "tx_progress t u \<longleftrightarrow> same_terms t u \<and> prefix (tx_history t) (tx_history u)
     \<and> (tx_status t \<noteq> Tx_created \<longrightarrow> tx_status u \<noteq> Tx_created
          \<and> tx_signature u = tx_signature t \<and> tx_publicKey u = tx_publicKey t)
     \<and> (is_terminal t \<longrightarrow> u = t)"

lemma tx_wf_extend:
  assumes "tx_wf t" and "edge (tx_status t) s" and "tx_status u = s"
    and "tx_history u = appendHistory t s now r"
    and "s \<in> {Tx_signed, Tx_pending, Tx_confirmed} \<Longrightarrow>
          \<exists>sig. tx_signature u = Some sig \<and> \<not> js_blank sig"
    and "s = Tx_confirmed \<Longrightarrow> \<exists>c. tx_confirmedAt u = Some c \<and> c < tx_expiresAt u"
  shows "tx_wf u"
proof -
  obtain ss where ss: "statuses t = ss @ [tx_status t]" using assms(1) by (auto simp: tx_wf_def)
  have su: "statuses u = statuses t @ [s]"
    using assms(4) by (simp add: statuses_def appendHistory_def)
  then have "edge_path (statuses u)"
    using assms(1,2) ss edge_path_snoc by (simp add: tx_wf_def)
  moreover have "hd (statuses u) = Tx_created"
    using assms(1) ss by (simp add: tx_wf_def su hd_append split: if_splits)
  ultimately show ?thesis using assms(3,5,6) su by (simp add: tx_wf_def)
qed

lemma wf_signature:
  "tx_wf t \<Longrightarrow> tx_status t \<in> {Tx_signed, Tx_pending, Tx_confirmed}
     \<Longrightarrow> \<exists>sig. tx_signature t = Some sig \<and> \<not> js_blank sig"
  by (auto simp: tx_wf_def)

lemma expire_wf:
  assumes "tx_wf t"
  shows "tx_wf (tr_transaction (tx_expire t now))"
proof (cases "is_terminal t \<or> \<not> isExpired t now")
  case True
  then show ?thesis using assms by (auto simp: tx_expire_def is_terminal_def)
next
  case False
  then have e: "edge (tx_status t) Tx_expired" by (cases "tx_status t") (auto simp: is_terminal_def)
  have "tr_transaction (tx_expire t now) = t\<lparr>tx_status := Tx_expired, tx_expiredAt := Some now,
      tx_history := appendHistory t Tx_expired now None\<rparr>"
    using False by (simp add: tx_expire_def is_terminal_def)
  then show ?thesis by (auto intro: tx_wf_extend [OF assms e])
qed

lemma sign_wf:
  assumes "tx_wf t" and "tx_sign t sig pk now = Inr r"
  shows "tx_wf (tr_transaction r)"
proof (cases "tx_status t = Tx_created \<and> \<not> isExpired t now \<and> \<not> js_blank sig")
  case True
  then have "tr_transaction r = t\<lparr>tx_status := Tx_signed, tx_signature := Some sig,
      tx_publicKey := pk, tx_signedAt := Some now,
      tx_history := appendHistory t Tx_signed now None\<rparr>"
    using assms(2) by (auto simp: tx_sign_def)
  then show ?thesis using True assms(1) by (auto intro: tx_wf_extend [where s = Tx_signed])
next
  case False
  then have "tr_transaction r = t \<or> tr_transaction r = tr_transaction (tx_expire t now)"
    using assms(2) by (auto simp: tx_sign_def split: if_splits)
  then show ?thesis using assms(1) expire_wf by metis
qed

lemma pending_wf:
  assumes "tx_wf t"
  shows "tx_wf (tr_transaction (tx_markPending t now))"
proof (cases "tx_status t = Tx_signed \<and> \<not> isExpired t now")
  case True
  then show ?thesis
    using assms wf_signature [OF assms]
    by (auto simp: tx_markPending_def intro: tx_wf_extend [where s = Tx_pending])
next
  case False
  then show ?thesis using assms expire_wf [OF assms] by (auto simp: tx_markPending_def)
qed

lemma confirm_wf:
  assumes "tx_wf t"
  shows "tx_wf (tr_transaction (tx_confirm t ref now))"
proof (cases "tx_status t = Tx_pending \<and> \<not> isExpired t now")
  case True
  then show ?thesis
    using assms wf_signature [OF assms]
    by (auto simp: tx_confirm_def isExpired_def intro: tx_wf_extend [where s = Tx_confirmed])
next
  case False
  then show ?thesis using assms expire_wf [OF assms] by (auto simp: tx_confirm_def)
qed

lemma fail_wf:
  assumes "tx_wf t"
  shows "tx_wf (tr_transaction (tx_fail t code reason now))"
proof (cases "is_terminal t")
  case True
  then show ?thesis
    using assms by (auto simp: tx_fail_def is_terminal_def split: option.split)
next
  case False
  then have e: "edge (tx_status t) Tx_failed" by (cases "tx_status t") (auto simp: is_terminal_def)
  have "tr_transaction (tx_fail t code reason now) = t\<lparr>tx_status := Tx_failed,
      tx_failure := Some \<lparr>fl_code = code, fl_reason = reason, fl_failedAt = now\<rparr>,
      tx_history := appendHistory t Tx_failed now (Some reason)\<rparr>"
    using False by (simp add: tx_fail_def is_terminal_def)
  then show ?thesis by (auto intro: tx_wf_extend [OF assms e])
qed

lemma tx_step_wf: "tx_wf t \<Longrightarrow> tx_wf (tx_step t e)"
  by (cases e) (auto simp: expire_wf pending_wf confirm_wf fail_wf intro: sign_wf split: sum.split)

lemma tx_progress_refl [simp]: "tx_progress t t"
  by (simp add: tx_progress_def same_terms_def)

lemma tx_progress_trans: "tx_progress t u \<Longrightarrow> tx_progress u v \<Longrightarrow> tx_progress t v"
  by (auto simp: tx_progress_def same_terms_def intro: prefix_order.trans)

lemma expire_progress: "tx_progress t (tr_transaction (tx_expire t now))"
  by (auto simp: tx_expire_def tx_progress_def same_terms_def is_terminal_def appendHistory_def)

lemma tx_step_progress: "tx_progress t (tx_step t e)"
proof (cases e)
  case (Do_sign sig pk now)
  then show ?thesis using expire_progress [of t now]
    by (auto simp: tx_sign_def tx_progress_def same_terms_def is_terminal_def appendHistory_def)
next
  case (Do_pending now)
  then show ?thesis using expire_progress [of t now]
    by (auto simp: tx_markPending_def tx_progress_def same_terms_def is_terminal_def appendHistory_def)
next
  case (Do_confirm ref now)
  then show ?thesis using expire_progress [of t now]
    by (auto simp: tx_confirm_def tx_progress_def same_terms_def is_terminal_def appendHistory_def)
next
  case (Do_fail code reason now)
  then show ?thesis
    by (auto simp: tx_fail_def tx_progress_def same_terms_def is_terminal_def appendHistory_def
        split: option.split)
next
  case (Do_expire now)
  then show ?thesis by (simp add: expire_progress)
qed

interpretation life: progress_machine tx_step tx_wf tx_progress
  by unfold_locales (auto simp: tx_step_wf tx_step_progress intro: tx_progress_trans)

lemma created_wf: "createCanonicalTransaction i = Inr t \<Longrightarrow> tx_wf t"
  by (auto simp: createCanonicalTransaction_def Let_def tx_wf_def statuses_def split: option.splits sum.splits)

text \<open>C14: through every sequence of sign, submit, confirm, fail and expire calls, at any times, a
  transaction keeps its id, parties, payload, nonce, sequence and expiry; its history only grows, from
  created along the edges of the life cycle, and ends in its status; it is confirmed only with a
  signature and before it expires; and once confirmed, failed or expired it never changes again.\<close>

theorem transaction_life_cycle:
  assumes "createCanonicalTransaction i = Inr t"
  shows "tx_wf (foldl tx_step t es) \<and> tx_progress t (foldl tx_step t es)
    \<and> (is_terminal (foldl tx_step t es)
         \<longrightarrow> foldl tx_step t (es @ es') = foldl tx_step t es)"
proof -
  have wf: "tx_wf (foldl tx_step t es)" by (rule life.inv_run) (rule created_wf [OF assms])
  moreover have "tx_progress t (foldl tx_step t es)" by (rule life.rel_run) (rule created_wf [OF assms])
  moreover have "tx_progress (foldl tx_step t es) (foldl tx_step (foldl tx_step t es) es')"
    using wf by (rule life.rel_run)
  ultimately show ?thesis by (auto simp: tx_progress_def)
qed

definition sample_input :: create_input where
  "sample_input = \<lparr>ci_type = ''TRANSFER'', ci_senderId = ''0xa'', ci_recipientId = ''0xb'',
     ci_amount = 5, ci_fee = Some 1, ci_metadata = Jv_undefined, ci_description = None,
     ci_createdAt = 10, ci_expiresAt = 100, ci_nonce = ''n'', ci_sequence = 1\<rparr>"

lemma payload_canonical:
  "toCanonicalValue (payload_value p) = (case toCanonicalValue (pay_metadata p) of
     Inl e \<Rightarrow> Inl e
   | Inr m \<Rightarrow> Inr (J_obj [(''amount'', J_num (pay_amount p)),
       (''description'', (case pay_description p of None \<Rightarrow> J_null | Some d \<Rightarrow> J_str d)),
       (''fee'', J_num (pay_fee p)), (''metadata'', m)]))"
  by (simp add: payload_value_def key_cmp_def opt_str_def split: option.split sum.split)

lemma id_ok: "\<exists>x. computeTransactionId i h = Inr x"
proof -
  have "\<exists>j. toCanonicalValue (id_value i h) = Inr j"
    by (simp add: id_value_def key_cmp_def)
  then show ?thesis by (auto simp: computeTransactionId_def canonicalize_def)
qed

text \<open>Creation fails only on the input checks or on metadata that has no canonical form.\<close>

lemma create_ok:
  assumes "validateCreateTransactionInput i = None" and "toCanonicalValue (ci_metadata i) = Inr m"
  shows "\<exists>t. createCanonicalTransaction i = Inr t"
proof -
  define p where "p = \<lparr>pay_amount = ci_amount i,
    pay_fee = (case ci_fee i of None \<Rightarrow> 0 | Some f \<Rightarrow> f), pay_metadata = ci_metadata i,
    pay_description = ci_description i\<rparr>"
  have "pay_metadata p = ci_metadata i" by (simp add: p_def)
  then obtain h where "computeTransactionPayloadHash p = Inr h"
    using assms(2) by (simp add: computeTransactionPayloadHash_def canonicalize_def payload_canonical)
  moreover obtain x where "computeTransactionId i h = Inr x" using id_ok by blast
  ultimately show ?thesis
    using assms(1) by (simp add: createCanonicalTransaction_def Let_def p_def)
qed

theorem transaction_life_cycle_witness:
  "\<exists>t. createCanonicalTransaction sample_input = Inr t
     \<and> tx_wf (foldl tx_step t [Do_sign ''s'' None 20, Do_pending 30, Do_confirm None 40, Do_expire 200])"
proof -
  have "validateCreateTransactionInput sample_input = None"
    by (simp add: validateCreateTransactionInput_def sample_input_def)
  moreover have "toCanonicalValue (ci_metadata sample_input) = Inr J_null"
    by (simp add: sample_input_def)
  ultimately obtain t where "createCanonicalTransaction sample_input = Inr t"
    using create_ok by blast
  then show ?thesis
    using transaction_life_cycle [of sample_input t
        "[Do_sign ''s'' None 20, Do_pending 30, Do_confirm None 40, Do_expire 200]"] by blast
qed

section \<open>Signatures\<close>

lemma sha256Hex_not_blank: "\<not> js_blank (sha256Hex s)"
proof -
  have "sha256Hex s \<noteq> []" by (metis length_sha256Hex list.size(3) zero_neq_numeral)
  then obtain c cs where "sha256Hex s = c # cs" by (cases "sha256Hex s") auto
  moreover from this have "c \<in> set hex_digits" using set_sha256Hex [of s] by auto
  then have "of_char c \<notin> {9, 10, 11, 12, 13, 32, 160 :: nat}"
    by (auto simp: hex_digits_def)
  ultimately show ?thesis by (simp add: js_blank_def)
qed

lemma local_sign_result:
  assumes "local_sign t secret pk now = Inr u"
  obtains sig where "createSignature t secret = Inr sig" and "tx_signature u = Some sig"
    and "tx_status u = Tx_signed" and "same_terms t u"
  using assms
  by (auto simp: local_sign_def signed_result_def tx_sign_def tx_expire_def same_terms_def
      split: sum.splits transition.splits if_splits)

lemma same_terms_signature: "same_terms t u \<Longrightarrow> createSignature u secret = createSignature t secret"
proof -
  assume "same_terms t u"
  then have "signable_value u = signable_value t" by (simp add: same_terms_def signable_value_def)
  then show ?thesis by (simp add: createSignature_def getSignableTransactionBytes_def)
qed

lemma same_terms_trans: "same_terms t u \<Longrightarrow> same_terms u v \<Longrightarrow> same_terms t v"
  by (simp add: same_terms_def)

lemma steps_progress: "tx_progress t (foldl tx_step t es)"
  by (induction es arbitrary: t) (auto intro: tx_progress_trans tx_step_progress)

text \<open>a transaction the local signer signed verifies under the same secret, at once and after every
  later transition, because its signature and its signed fields never change.\<close>

theorem signed_transaction_verifies:
  assumes "local_sign t secret pk now = Inr u"
  shows "local_verify (foldl tx_step u es) secret"
proof -
  obtain sig where sig: "createSignature t secret = Inr sig" "tx_signature u = Some sig"
      "tx_status u = Tx_signed" "same_terms t u" using local_sign_result [OF assms] .
  have p: "tx_progress u (foldl tx_step u es)" by (rule steps_progress)
  then have "tx_signature (foldl tx_step u es) = Some sig"
    using sig(2,3) by (auto simp: tx_progress_def)
  moreover have "same_terms t (foldl tx_step u es)"
    using p sig(4) same_terms_trans by (auto simp: tx_progress_def)
  then have "createSignature (foldl tx_step u es) secret = Inr sig"
    using sig(1) by (simp add: same_terms_signature)
  moreover have "\<not> js_blank sig"
    using sig(1) sha256Hex_not_blank by (auto simp: createSignature_def split: sum.splits)
  ultimately show ?thesis by (simp add: local_verify_def)
qed

definition sample_tx :: canonical_tx where
  "sample_tx = \<lparr>tx_id = ''tx_1'', tx_type = ''TRANSFER'', tx_senderId = ''0xa'',
     tx_recipientId = ''0xb'', tx_createdAt = 10, tx_expiresAt = 100, tx_nonce = ''n'',
     tx_sequence = 1, tx_payload = \<lparr>pay_amount = 5, pay_fee = 0, pay_metadata = Jv_undefined,
     pay_description = None\<rparr>, tx_payloadHash = ''h'',
     tx_history = [\<lparr>th_status = Tx_created, th_at = 10, th_reason = None\<rparr>],
     tx_status = Tx_created, tx_signature = None, tx_signedAt = None,
     tx_publicKey = None, tx_submittedAt = None, tx_confirmedAt = None,
     tx_confirmationReference = None, tx_failure = None, tx_expiredAt = None\<rparr>"

theorem signed_transaction_verifies_witness:
  "\<exists>u. local_sign sample_tx ''k'' None 20 = Inr u
     \<and> local_verify (foldl tx_step u [Do_pending 30, Do_confirm (Some ''r'') 40]) ''k''"
proof -
  obtain s where s: "createSignature sample_tx ''k'' = Inr (sha256Hex s)"
    using signable_ok [of sample_tx] by (auto simp: createSignature_def)
  then obtain u where "local_sign sample_tx ''k'' None 20 = Inr u"
    using sha256Hex_not_blank [of s]
    by (simp add: local_sign_def signed_result_def tx_sign_def isExpired_def sample_tx_def)
  then show ?thesis using signed_transaction_verifies by blast
qed

section \<open>The replay protector\<close>

text \<open>A run of the protector over a list of transactions: the ones it accepts, and its state.\<close>

fun replay_run :: "replay_state \<Rightarrow> canonical_tx list \<Rightarrow> canonical_tx list \<times> replay_state" where
  "replay_run s [] = ([], s)"
| "replay_run s (t # ts) = (case replay_record s t of
     (None, s') \<Rightarrow> (let (acc, s'') = replay_run s' ts in (t # acc, s''))
   | (Some r, s') \<Rightarrow> replay_run s' ts)"

lemma replay_run_accepted:
  "fst (replay_run s ts) = acc \<Longrightarrow>
     (\<forall>t \<in> set acc. tx_id t \<notin> set (rp_processedIds s)
        \<and> (\<forall>ns. jm_get (rp_nonceBySender s) (tx_senderId t) = Some ns \<longrightarrow> tx_nonce t \<notin> set ns)
        \<and> (\<forall>l. jm_get (rp_sequenceBySender s) (tx_senderId t) = Some l \<longrightarrow> l \<le> tx_sequence t))
     \<and> distinct (map tx_id acc) \<and> distinct (map (\<lambda>t. (tx_senderId t, tx_nonce t)) acc)
     \<and> (\<forall>p. sorted (map tx_sequence (filter (\<lambda>t. tx_senderId t = p) acc)))"
proof (induction ts arbitrary: s acc)
  case Nil
  then show ?case by auto
next
  case (Cons t ts)
  show ?case
  proof (cases "replay_check s t")
    case (Some r)
    then have "fst (replay_run s ts) = acc" using Cons.prems by (simp add: replay_record_def)
    then show ?thesis by (rule Cons.IH)
  next
    case None
    define s' where "s' = snd (replay_record s t)"
    define acc' where "acc' = fst (replay_run s' ts)"
    have acc: "acc = t # acc'"
      using Cons.prems None by (simp add: replay_record_def s'_def acc'_def case_prod_beta Let_def)
    note IH = Cons.IH [of s' acc', OF acc'_def [symmetric]]
    have s'_get: "set (rp_processedIds s') = insert (tx_id t) (set (rp_processedIds s))"
      "jm_get (rp_nonceBySender s') p = (if p = tx_senderId t then Some (set_add (tx_nonce t)
         (case jm_get (rp_nonceBySender s) (tx_senderId t) of None \<Rightarrow> [] | Some ns \<Rightarrow> ns))
         else jm_get (rp_nonceBySender s) p)"
      "jm_get (rp_sequenceBySender s') p = (if p = tx_senderId t then Some (max (tx_sequence t)
         (case jm_get (rp_sequenceBySender s) (tx_senderId t) of None \<Rightarrow> tx_sequence t | Some l \<Rightarrow> l))
         else jm_get (rp_sequenceBySender s) p)" for p
      using None by (simp_all add: s'_def replay_record_def jm.get_put)
    have new: "tx_id t \<notin> set (rp_processedIds s)"
      "\<And>ns. jm_get (rp_nonceBySender s) (tx_senderId t) = Some ns \<Longrightarrow> tx_nonce t \<notin> set ns"
      "\<And>l. jm_get (rp_sequenceBySender s) (tx_senderId t) = Some l \<Longrightarrow> l \<le> tx_sequence t"
      using None by (auto simp: replay_check_def not_less split: if_splits)
    have later: "tx_id u \<noteq> tx_id t \<and> tx_id u \<notin> set (rp_processedIds s)
        \<and> (tx_senderId u = tx_senderId t \<longrightarrow> tx_nonce u \<noteq> tx_nonce t \<and> tx_sequence t \<le> tx_sequence u)
        \<and> (\<forall>ns. jm_get (rp_nonceBySender s) (tx_senderId u) = Some ns \<longrightarrow> tx_nonce u \<notin> set ns)
        \<and> (\<forall>l. jm_get (rp_sequenceBySender s) (tx_senderId u) = Some l \<longrightarrow> l \<le> tx_sequence u)"
      if "u \<in> set acc'" for u
      using IH that by (auto simp: s'_get split: if_splits option.splits)
    have "tx_id t \<notin> tx_id ` set acc'" using later by fastforce
    then have "distinct (map tx_id acc)" using IH by (simp add: acc)
    moreover have "(tx_senderId t, tx_nonce t) \<notin> (\<lambda>t. (tx_senderId t, tx_nonce t)) ` set acc'"
      using later by fastforce
    then have "distinct (map (\<lambda>t. (tx_senderId t, tx_nonce t)) acc)" using IH by (simp add: acc)
    moreover have "sorted (map tx_sequence (filter (\<lambda>t. tx_senderId t = p) acc))" for p
      using IH later by (auto simp: acc)
    ultimately show ?thesis using new later by (auto simp: acc)
  qed
qed

text \<open>whatever transactions are put to the protector, in whatever order and however often, those it
  accepts have pairwise different ids, no sender uses a nonce twice, and the sequence numbers of each
  sender never go down.\<close>

theorem replay_no_duplicates:
  "distinct (map tx_id (fst (replay_run replay_empty ts)))
   \<and> distinct (map (\<lambda>t. (tx_senderId t, tx_nonce t)) (fst (replay_run replay_empty ts)))
   \<and> (\<forall>p. sorted (map tx_sequence (filter (\<lambda>t. tx_senderId t = p) (fst (replay_run replay_empty ts)))))"
  using replay_run_accepted [of replay_empty ts] by simp

definition replay_wf :: "replay_state \<Rightarrow> bool" where
  "replay_wf s \<longleftrightarrow> distinct (jm_keys (rp_nonceBySender s)) \<and> distinct (jm_keys (rp_sequenceBySender s))"

lemma replay_record_wf: "replay_wf s \<Longrightarrow> replay_wf (snd (replay_record s t))"
  by (auto simp: replay_wf_def replay_record_def distinct_update split: option.split)

interpretation replay: machine "\<lambda>s t. snd (replay_record s t)" replay_wf
  by unfold_locales (rule replay_record_wf)

lemma map_of_fold_set:
  assumes "distinct (map fst xs)"
  shows "map_of (fold (\<lambda>(k, v). jm_set k (f v)) xs m) k =
    (case map_of xs k of None \<Rightarrow> map_of m k | Some v \<Rightarrow> Some (f v))"
  using assms
proof (induction xs arbitrary: m)
  case (Cons p xs)
  then show ?case
    by (cases p) (auto simp: jm.get_put split: option.split dest: map_of_SomeD intro: rev_image_eqI)
qed simp

lemma map_of_js_sort:
  assumes "distinct (map fst xs)"
  shows "map_of (js_sort c xs) k = map_of xs k"
proof -
  have "distinct (map fst (js_sort c xs))" using assms by (simp add: distinct_map)
  then have "map_of (js_sort c xs) k = Some v \<longleftrightarrow> map_of xs k = Some v" for v
    using assms by (simp add: map_of_eq_Some_iff)
  then show ?thesis by (rule option_eqI_iff)
qed

lemma distinct_fst_js_sort: "distinct (map fst (js_sort c xs)) = distinct (map fst xs)"
  by (simp add: distinct_map)

text \<open>the protector survives a restart: a protector that imports the snapshot exported after any
  run of recorded transactions accepts and rejects exactly the transactions the original does,
  whatever order \<open>localeCompare\<close> gives the rows.\<close>

theorem replay_snapshot_roundtrip:
  "replay_check (importSnapshot (exportSnapshot lc (foldl (\<lambda>s t. snd (replay_record s t)) replay_empty ts))) u
     = replay_check (foldl (\<lambda>s t. snd (replay_record s t)) replay_empty ts) u"
proof -
  define s where "s = foldl (\<lambda>s t. snd (replay_record s t)) replay_empty ts"
  have "replay_wf s" unfolding s_def by (rule replay.inv_run) (simp add: replay_wf_def replay_empty_def)
  then have d: "distinct (map fst (rp_nonceBySender s))" "distinct (map fst (rp_sequenceBySender s))"
    by (simp_all add: replay_wf_def)
  define ns where "ns = map (\<lambda>(sender, ns). (sender, js_sort code_cmp ns)) (rp_nonceBySender s)"
  have dn: "distinct (map fst ns)" using d(1) by (simp add: ns_def case_prod_beta o_def)
  have n: "map_of ns p = map_option (js_sort code_cmp) (map_of (rp_nonceBySender s) p)" for p
    by (simp add: ns_def map_of_map)
  have "map_of (rp_nonceBySender (importSnapshot (exportSnapshot lc s))) p
      = map_option (\<lambda>x. js_uniq (js_sort code_cmp x)) (map_of (rp_nonceBySender s) p)" for p
    using dn
    by (simp add: importSnapshot_def exportSnapshot_def ns_def [symmetric] map_of_fold_set
        distinct_fst_js_sort map_of_js_sort n split: option.split)
  moreover have "map_of (rp_sequenceBySender (importSnapshot (exportSnapshot lc s))) p
      = map_of (rp_sequenceBySender s) p" for p
    using d(2) map_of_fold_set [of "js_sort (\<lambda>l r. lc (fst l) (fst r)) (rp_sequenceBySender s)" "\<lambda>x. x" "[]" p]
    by (simp add: importSnapshot_def exportSnapshot_def distinct_fst_js_sort map_of_js_sort
        split: option.splits)
  moreover have "set (rp_processedIds (importSnapshot (exportSnapshot lc s))) = set (rp_processedIds s)"
    by (simp add: importSnapshot_def exportSnapshot_def)
  ultimately have "replay_check (importSnapshot (exportSnapshot lc s)) u = replay_check s u"
    unfolding replay_check_def by (simp split: option.split)
  then show ?thesis by (simp add: s_def)
qed

end
