(* ===== verification/Wallet_Claims.thy ===== *)
theory Wallet_Claims
  imports Wallet Transaction_Claims
begin

text \<open>
  What the wallet promises: as long as no operation throws, the balance is the sum of the confirmed
  transactions, never negative, and a restart restores it; what an operation that throws leaves
  behind; the life of the transaction list.
\<close>

section \<open>One confirmed transaction\<close>

lemma create_fields:
  assumes "createCanonicalTransaction i = Inr t"
  shows "tx_senderId t = ci_senderId i" and "tx_recipientId t = ci_recipientId i"
    and "pay_amount (tx_payload t) = ci_amount i"
    and "pay_fee (tx_payload t) = (case ci_fee i of None \<Rightarrow> 0 | Some f \<Rightarrow> f)"
    and "tx_sequence t = ci_sequence i" and "validateCreateTransactionInput i = None"
  using assms
  by (auto simp: createCanonicalTransaction_def Let_def split: option.splits sum.splits)

lemma validate_None:
  "validateCreateTransactionInput i = None \<Longrightarrow> 0 < ci_amount i
     \<and> 0 \<le> (case ci_fee i of None \<Rightarrow> 0 | Some f \<Rightarrow> f) \<and> ci_senderId i \<noteq> [] \<and> ci_recipientId i \<noteq> []
     \<and> ci_senderId i \<noteq> ci_recipientId i"
  by (auto simp: validateCreateTransactionInput_def Let_def split: if_splits)

lemma signed_terms: "signed_result m (tx_sign t sig pk now) = Inr u \<Longrightarrow> same_terms t u"
  by (auto simp: signed_result_def tx_sign_def tx_expire_def same_terms_def
      split: sum.splits transition.splits if_splits)

lemma local_sign_terms: "local_sign t s pk now = Inr u \<Longrightarrow> same_terms t u"
  by (auto simp: local_sign_def intro: signed_terms split: sum.splits)

lemma crypto_sign_terms: "crypto_sign cs t now = Inr u \<Longrightarrow> same_terms t u"
  by (auto simp: crypto_sign_def intro: signed_terms split: sum.splits option.splits)

lemma pending_terms:
  "tx_markPending t now = Applied p s \<Longrightarrow> tx_status p = Tx_pending
     \<Longrightarrow> same_terms t p \<and> now < tx_expiresAt t"
  by (auto simp: tx_markPending_def tx_expire_def same_terms_def isExpired_def split: if_splits)

lemma confirm_terms:
  "tx_confirm p ref now = Applied c s \<Longrightarrow> now < tx_expiresAt p
     \<Longrightarrow> same_terms p c \<and> tx_status c = Tx_confirmed"
  by (auto simp: tx_confirm_def same_terms_def isExpired_def split: if_splits)

lemma createConfirmed_Inr:
  assumes ok: "createConfirmedCanonicalTransaction env from to amount fee type d st = (Inr t, st')"
    and w: "ws_wallet st = Some w"
  shows "tx_senderId t = from \<and> tx_recipientId t = to \<and> pay_amount (tx_payload t) = amount
      \<and> pay_fee (tx_payload t) = fee \<and> tx_sequence t = wa_nonce w \<and> tx_status t = Tx_confirmed
      \<and> 0 < amount \<and> 0 \<le> fee \<and> from \<noteq> to"
    and "replay_record (ws_replay st) t = (None, ws_replay st')"
    and "st' = st\<lparr>ws_replay := ws_replay st', ws_canonical := jm_set (tx_id t) t (ws_canonical st)\<rparr>"
proof -
  note d' = createConfirmedCanonicalTransaction_def
  obtain c where c: "createCanonicalTransaction (confirmed_input env w from to amount fee type d) = Inr c"
    using ok w by (auto simp: d' split: sum.splits)
  obtain s where s: "wallet_sign env w from c = Inr s"
    using ok w c by (auto simp: d' split: sum.splits)
  obtain p x where p: "tx_markPending s (we_later env) = Applied p x"
    using ok w c s by (auto simp: d' split: transition.splits)
  have pp: "tx_status p = Tx_pending" using ok w c s p by (auto simp: d' split: if_splits)
  obtain u y where u: "tx_confirm p (Some (''local:'' @ tx_id c)) (we_later env) = Applied u y"
    using ok w c s p pp by (auto simp: d' split: transition.splits)
  obtain o' q where o': "replay_record (ws_replay st) u = (o', q)" by fastforce
  have "o' = None" using ok w c s p pp u o' by (cases o') (simp_all add: d')
  then have r: "u = t" "replay_record (ws_replay st) t = (None, q)"
    "st' = st\<lparr>ws_replay := q, ws_canonical := jm_set (tx_id t) t (ws_canonical st)\<rparr>"
    using ok w c s p pp u o' by (auto simp: d' Let_def split: if_splits)
  have "same_terms c s"
    using s local_sign_terms crypto_sign_terms
    by (auto simp: wallet_sign_def split: option.splits if_splits)
  moreover have sp: "same_terms s p" "we_later env < tx_expiresAt s"
    using pending_terms [OF p pp] by simp_all
  moreover have "we_later env < tx_expiresAt p" using sp by (simp add: same_terms_def)
  then have pt: "same_terms p t" "tx_status t = Tx_confirmed"
    using confirm_terms [OF u] r(1) by simp_all
  ultimately have "same_terms c t" using same_terms_trans by blast
  then show "tx_senderId t = from \<and> tx_recipientId t = to \<and> pay_amount (tx_payload t) = amount
      \<and> pay_fee (tx_payload t) = fee \<and> tx_sequence t = wa_nonce w \<and> tx_status t = Tx_confirmed
      \<and> 0 < amount \<and> 0 \<le> fee \<and> from \<noteq> to"
    using create_fields [OF c] validate_None [OF create_fields(6) [OF c]] pt(2)
    by (simp add: same_terms_def confirmed_input_def)
  show "replay_record (ws_replay st) t = (None, ws_replay st')"
    and "st' = st\<lparr>ws_replay := ws_replay st', ws_canonical := jm_set (tx_id t) t (ws_canonical st)\<rparr>"
    using r by simp_all
qed

section \<open>The invariant of a wallet that never threw\<close>

definition raw_balance :: "string \<Rightarrow> (string, canonical_tx) jsmap \<Rightarrow> int" where
  "raw_balance a m = foldl (balance_step a) 0 (jm_values m)"

definition wallet_inv :: "wallet_state \<Rightarrow> bool" where
  "wallet_inv st \<longleftrightarrow>
     distinct (jm_keys (ws_canonical st))
     \<and> (\<forall>(k, t) \<in> set (ws_canonical st). k = tx_id t \<and> tx_status t = Tx_confirmed
          \<and> k \<in> set (rp_processedIds (ws_replay st)))
     \<and> (\<forall>t \<in> set (ws_transactions st). lt_status t = Lt_confirmed)
     \<and> (case ws_wallet st of None \<Rightarrow> True | Some w \<Rightarrow>
          wa_address w = generateAddress (wa_peerId w)
          \<and> wa_balance w = raw_balance (wa_address w) (ws_canonical st) \<and> 0 \<le> wa_balance w
          \<and> wa_nonce w = calculateRestoredNonce st)"

lemma address_not_system: "generateAddress p \<noteq> ''SYSTEM''"
  by (simp add: generateAddress_def)

lemma balance_step_shift: "balance_step a b t = b + balance_step a 0 t"
  by (simp add: balance_step_def Let_def)

lemma values_update_new:
  "k \<notin> set (jm_keys m) \<Longrightarrow> jm_values (jm_set k v m) = jm_values m @ [v]"
  by (induction m) auto

lemma replay_record_ids:
  "replay_record s t = (None, s') \<Longrightarrow>
     tx_id t \<notin> set (rp_processedIds s) \<and> set (rp_processedIds s') = insert (tx_id t) (set (rp_processedIds s))"
  by (auto simp: replay_record_def replay_check_def split: option.splits if_splits)

lemma record_movement_inv:
  assumes inv: "wallet_inv st" and w: "ws_wallet st = Some w"
    and ok: "record_movement env w balance from to amount fee type d st = (Inr b, st')"
    and bal: "\<And>t. tx_status t = Tx_confirmed \<Longrightarrow> tx_senderId t = from \<Longrightarrow> tx_recipientId t = to
        \<Longrightarrow> pay_amount (tx_payload t) = amount \<Longrightarrow> pay_fee (tx_payload t) = fee \<Longrightarrow> from \<noteq> to
        \<Longrightarrow> balance = wa_balance w + balance_step (wa_address w) 0 t"
    and nonneg: "0 \<le> balance"
  shows "wallet_inv st'"
proof -
  define w1 where "w1 = w\<lparr>wa_balance := balance, wa_nonce := wa_nonce w + 1,
            wa_updatedAt := we_now env\<rparr>"
  define st1 where "st1 = st\<lparr>ws_wallet := Some w1\<rparr>"
  obtain t st2 where c: "createConfirmedCanonicalTransaction env from to amount fee type d st1 = (Inr t, st2)"
    and st': "st' = st2\<lparr>ws_transactions :=
             ws_transactions st2 @ [legacy_of t type from to amount fee d]\<rparr>"
    using ok unfolding record_movement_def Let_def w1_def [symmetric] st1_def [symmetric]
    by (auto split: prod.splits sum.splits)
  have w1: "ws_wallet st1 = Some w1" by (simp add: st1_def)
  note t = createConfirmed_Inr [OF c w1]
  have new: "tx_id t \<notin> set (rp_processedIds (ws_replay st))"
    "set (rp_processedIds (ws_replay st2)) = insert (tx_id t) (set (rp_processedIds (ws_replay st)))"
    using replay_record_ids [OF t(2)] by (simp_all add: st1_def)
  have fresh: "tx_id t \<notin> set (jm_keys (ws_canonical st))"
    using inv new(1) by (auto simp: wallet_inv_def)
  have can: "ws_canonical st' = jm_set (tx_id t) t (ws_canonical st)"
    and wal: "ws_wallet st' = Some w1" and rep: "ws_replay st' = ws_replay st2"
    and trs: "ws_transactions st' = ws_transactions st @ [legacy_of t type from to amount fee d]"
    using t(3) st' by (simp_all add: st1_def) (metis wallet_state.select_convs wallet_state.surjective
        wallet_state.update_convs)+
  have vals: "jm_values (ws_canonical st') = jm_values (ws_canonical st) @ [t]"
    unfolding can using fresh by (rule values_update_new)
  have "raw_balance (wa_address w) (ws_canonical st')
      = raw_balance (wa_address w) (ws_canonical st) + balance_step (wa_address w) 0 t"
    by (simp add: raw_balance_def vals balance_step_shift [of _ "foldl _ _ _"])
  moreover have "balance = wa_balance w + balance_step (wa_address w) 0 t" using t(1) bal by blast
  ultimately have "balance = raw_balance (wa_address w) (ws_canonical st')"
    using inv w by (simp add: wallet_inv_def)
  moreover have "calculateRestoredNonce st' = wa_nonce w + 1"
    using inv w t(1) by (simp add: calculateRestoredNonce_def vals wallet_inv_def w1_def)
  moreover have "distinct (jm_keys (ws_canonical st'))"
    using inv by (simp add: can wallet_inv_def distinct_update)
  moreover have "\<forall>(k, u) \<in> set (ws_canonical st'). k = tx_id u \<and> tx_status u = Tx_confirmed
      \<and> k \<in> set (rp_processedIds (ws_replay st'))"
    using inv t(1) new(2) jm_values_update_subset [of "tx_id t" t "ws_canonical st"]
    by (fastforce simp: can wallet_inv_def rep)
  moreover have "\<forall>t \<in> set (ws_transactions st'). lt_status t = Lt_confirmed"
    using inv by (auto simp: trs wallet_inv_def legacy_of_def)
  moreover have "wa_address w = generateAddress (wa_peerId w)" using inv w by (simp add: wallet_inv_def)
  ultimately show ?thesis using nonneg by (simp add: wallet_inv_def wal w1_def)
qed

datatype wallet_event =
    Wd_add wallet_env int string "string option"
  | Wd_subtract wallet_env int string "string option"
  | Wd_transfer wallet_env string int int
  | Wd_confirm int string
  | Wd_fail int string "string option"

fun wallet_op :: "wallet_event \<Rightarrow> wallet_state \<Rightarrow> (tx_error + bool) \<times> wallet_state" where
  "wallet_op (Wd_add env a ty d) st = addBalance env a ty d st"
| "wallet_op (Wd_subtract env a ty d) st = subtractBalance env a ty d st"
| "wallet_op (Wd_transfer env to a fee) st = transfer env to a fee st"
| "wallet_op (Wd_confirm now i) st = (let (b, st') = confirmTransaction now i st in (Inr b, st'))"
| "wallet_op (Wd_fail now i r) st = (let (b, st') = failTransaction now i r st in (Inr b, st'))"

text \<open>A run ends (\<open>None\<close>) at the first operation that throws.\<close>

fun wallet_step :: "wallet_state option \<Rightarrow> wallet_event \<Rightarrow> wallet_state option" where
  "wallet_step None e = None"
| "wallet_step (Some st) e = (case wallet_op e st of (Inl x, st') \<Rightarrow> None | (Inr b, st') \<Rightarrow> Some st')"

lemma transfer_delta:
  assumes "tx_status t = Tx_confirmed" and "tx_senderId t \<noteq> tx_recipientId t"
  shows "balance_step (tx_senderId t) 0 t = - (pay_amount (tx_payload t) + pay_fee (tx_payload t))"
    and "balance_step (tx_recipientId t) 0 t = pay_amount (tx_payload t)"
  using assms by (simp_all add: balance_step_def Let_def)

lemma wallet_op_inv:
  assumes inv: "wallet_inv st" and ok: "wallet_op e st = (Inr b, st')"
  shows "wallet_inv st'"
proof (cases e)
  case (Wd_add env a ty d)
  show ?thesis
  proof (cases "st' = st")
    case False
    then obtain w where w: "ws_wallet st = Some w" "0 < a" and r:
        "record_movement env w (wa_balance w + a) ''SYSTEM'' (wa_address w) a 0 ty d st = (Inr b, st')"
      using ok Wd_add by (auto simp: addBalance_def split: option.splits if_splits)
    show ?thesis
    proof (rule record_movement_inv [OF inv w(1) r])
      show "0 \<le> wa_balance w + a" using inv w by (auto simp: wallet_inv_def)
    qed (use transfer_delta in force)
  qed (simp add: inv)
next
  case (Wd_subtract env a ty d)
  show ?thesis
  proof (cases "st' = st")
    case False
    then obtain w where w: "ws_wallet st = Some w" "a \<le> wa_balance w" and r:
        "record_movement env w (wa_balance w - a) (wa_address w) ''SYSTEM'' a 0 ty d st = (Inr b, st')"
      using ok Wd_subtract by (auto simp: subtractBalance_def split: option.splits if_splits)
    show ?thesis
    proof (rule record_movement_inv [OF inv w(1) r])
      show "0 \<le> wa_balance w - a" using w by simp
    qed (use transfer_delta in force)
  qed (simp add: inv)
next
  case (Wd_transfer env to a fee)
  show ?thesis
  proof (cases "st' = st")
    case False
    then obtain w where w: "ws_wallet st = Some w" "a + fee \<le> wa_balance w" and r:
        "record_movement env w (wa_balance w - (a + fee)) (wa_address w) to a fee ''TRANSFER'' None st
           = (Inr b, st')"
      using ok Wd_transfer by (auto simp: transfer_def Let_def split: option.splits if_splits)
    show ?thesis
    proof (rule record_movement_inv [OF inv w(1) r])
      show "0 \<le> wa_balance w - (a + fee)" using w by simp
    qed (use transfer_delta in force)
  qed (simp add: inv)
next
  case (Wd_confirm now i)
  have "lt_status t = Lt_confirmed" if "getTransaction i st = Some t" for t
    using inv that by (auto simp: wallet_inv_def getTransaction_def find_Some_iff)
  then show ?thesis
    using ok inv Wd_confirm by (auto simp: confirmTransaction_def split: option.splits)
next
  case (Wd_fail now i r)
  have "lt_status t = Lt_confirmed" if "getTransaction i st = Some t" for t
    using inv that by (auto simp: wallet_inv_def getTransaction_def find_Some_iff)
  then show ?thesis
    using ok inv Wd_fail by (auto simp: failTransaction_def split: option.splits)
qed

definition run_inv :: "wallet_state option \<Rightarrow> bool" where
  "run_inv s \<longleftrightarrow> (case s of None \<Rightarrow> True | Some st \<Rightarrow> wallet_inv st)"

interpretation wallet: machine wallet_step run_inv
proof
  fix s e
  assume "run_inv s"
  then show "run_inv (wallet_step s e)"
    by (cases s) (auto simp: run_inv_def intro: wallet_op_inv split: prod.split sum.split)
qed

lemma wallet_start_inv: "wallet_inv (snd (createWallet peer now empty_wallet_state))"
  by (simp add: createWallet_def Let_def wallet_inv_def empty_wallet_state_def
      restoreLegacyTransactions_def calculateRestoredBalance_def raw_balance_def
      calculateRestoredNonce_def)

text \<open>C13: after any run of deposits, withdrawals, transfers, confirmations and failures of a new wallet
  in which no call threw, the balance is exactly the sum the confirmed transactions give (received
  amounts, less sent amounts and fees), it is not negative, and a wallet created again from the same
  transactions, as after a restart, has the same balance and the same nonce.\<close>

theorem wallet_balance_conserved:
  assumes run: "foldl wallet_step (Some (snd (createWallet peer now empty_wallet_state))) es = Some st"
    and w: "ws_wallet st = Some w"
  shows "wa_balance w = foldl (balance_step (wa_address w)) 0 (jm_values (ws_canonical st))
    \<and> 0 \<le> wa_balance w
    \<and> wa_balance (fst (createWallet (wa_peerId w) now' st)) = wa_balance w
    \<and> wa_nonce (fst (createWallet (wa_peerId w) now' st)) = wa_nonce w"
proof -
  have "run_inv (foldl wallet_step (Some (snd (createWallet peer now empty_wallet_state))) es)"
    by (rule wallet.inv_run) (simp add: run_inv_def wallet_start_inv)
  then have "wallet_inv st" by (simp add: run run_inv_def)
  then show ?thesis
    using w by (auto simp: wallet_inv_def raw_balance_def createWallet_def Let_def
        calculateRestoredBalance_def max_absorb2)
qed

section \<open>A deposit that cannot fail\<close>

lemma create_confirmed_input:
  assumes "0 < amount" and "0 \<le> fee" and "from \<noteq> []" and "to \<noteq> []" and "from \<noteq> to"
  shows "\<exists>c. createCanonicalTransaction (confirmed_input env w from to amount fee type d) = Inr c
    \<and> tx_status c = Tx_created \<and> tx_expiresAt c = we_now env + 3600000"
proof -
  let ?i = "confirmed_input env w from to amount fee type d"
  have "validateCreateTransactionInput ?i = None"
    using assms by (simp add: validateCreateTransactionInput_def confirmed_input_def)
  moreover have "toCanonicalValue (ci_metadata ?i) = Inr J_null" by (simp add: confirmed_input_def)
  ultimately obtain c where c: "createCanonicalTransaction ?i = Inr c" using create_ok by blast
  moreover have "tx_status c = Tx_created \<and> tx_expiresAt c = ci_expiresAt ?i"
    using c by (auto simp: createCanonicalTransaction_def Let_def split: option.splits sum.splits)
  ultimately show ?thesis by (simp add: confirmed_input_def)
qed

lemma local_sign_ok:
  assumes "tx_status c = Tx_created" and "now < tx_expiresAt c"
  shows "\<exists>u. local_sign c secret pk now = Inr u \<and> tx_status u = Tx_signed
    \<and> tx_expiresAt u = tx_expiresAt c \<and> tx_id u = tx_id c"
proof -
  obtain s where "createSignature c secret = Inr (sha256Hex s)"
    using signable_ok [of c] by (auto simp: createSignature_def)
  then show ?thesis
    using assms sha256Hex_not_blank [of s]
    by (simp add: local_sign_def signed_result_def tx_sign_def isExpired_def)
qed

lemma addBalance_ok:
  assumes w: "ws_wallet st = Some w" and a: "0 < amount" and addr: "wa_address w = generateAddress p"
    and env: "we_crypto env = None" "we_later env < we_now env + 3600000" "we_persists env"
    and replay: "\<And>t. replay_check (ws_replay st) t = None"
  shows "\<exists>st'. addBalance env amount type d st = (Inr True, st')
    \<and> ws_wallet st' = Some (w\<lparr>wa_balance := wa_balance w + amount, wa_nonce := wa_nonce w + 1,
          wa_updatedAt := we_now env\<rparr>)"
proof -
  define w1 where "w1 = w\<lparr>wa_balance := wa_balance w + amount, wa_nonce := wa_nonce w + 1,
          wa_updatedAt := we_now env\<rparr>"
  have "generateAddress p \<noteq> []" by (simp add: generateAddress_def)
  then obtain c where c: "createCanonicalTransaction (confirmed_input env w1 ''SYSTEM'' (wa_address w)
      amount 0 type d) = Inr c" "tx_status c = Tx_created" "tx_expiresAt c = we_now env + 3600000"
    using create_confirmed_input [of amount 0 "''SYSTEM''" "wa_address w" env w1 type d] a addr
      address_not_system [of p] by auto
  obtain u where u: "wallet_sign env w1 ''SYSTEM'' c = Inr u" "tx_status u = Tx_signed"
      "tx_expiresAt u = tx_expiresAt c"
    using local_sign_ok [of c "we_later env" "wa_address w1" "Some (wa_address w1)"] c env
    by (auto simp: wallet_sign_def)
  show ?thesis
    using w a c u env replay
    by (simp add: addBalance_def record_movement_def w1_def [symmetric] Let_def
        createConfirmedCanonicalTransaction_def tx_markPending_def tx_confirm_def isExpired_def
        replay_record_def)
qed

definition sample_env :: wallet_env where
  "sample_env = \<lparr>we_now = 1000, we_later = 1001, we_crypto = None, we_persists = True\<rparr>"

theorem wallet_balance_conserved_witness:
  "\<exists>st w. foldl wallet_step (Some (snd (createWallet ''p'' 0 empty_wallet_state)))
        [Wd_add sample_env 7 ''REWARD'' None] = Some st
    \<and> ws_wallet st = Some w \<and> wa_balance w = 7
    \<and> wa_balance w = foldl (balance_step (wa_address w)) 0 (jm_values (ws_canonical st))"
proof -
  let ?st = "snd (createWallet ''p'' 0 empty_wallet_state)"
  let ?w = "fst (createWallet ''p'' 0 empty_wallet_state)"
  have w: "ws_wallet ?st = Some ?w" "wa_address ?w = generateAddress ''p''" "wa_balance ?w = 0"
    by (simp_all add: createWallet_def Let_def empty_wallet_state_def calculateRestoredBalance_def)
  have "replay_check (ws_replay ?st) t = None" for t
    by (simp add: createWallet_def Let_def empty_wallet_state_def replay_empty_def replay_check_def)
  then obtain st' where st': "addBalance sample_env 7 ''REWARD'' None ?st = (Inr True, st')"
      "ws_wallet st' = Some (?w\<lparr>wa_balance := wa_balance ?w + 7, wa_nonce := wa_nonce ?w + 1,
          wa_updatedAt := we_now sample_env\<rparr>)"
    using addBalance_ok [OF w(1) _ w(2), of 7 sample_env "''REWARD''" None]
    by (auto simp: sample_env_def)
  have run: "foldl wallet_step (Some ?st) [Wd_add sample_env 7 ''REWARD'' None] = Some st'"
    using st'(1) by simp
  show ?thesis
    using wallet_balance_conserved [OF run st'(2)] run st'(2) w(3) by (intro exI conjI) auto
qed

section \<open>What a rejected transfer leaves behind\<close>

text \<open>\<open>transfer\<close> changes the balance before the transaction is validated, and nothing puts it back:
  a transfer to the wallet's own address, to no address or with a negative fee throws and records no
  transaction, yet the balance has changed by the amount and the fee. The caller's own address loses
  the money, and a negative fee larger than the amount creates it.\<close>

theorem rejected_transfer_changes_balance:
  assumes w: "ws_wallet st = Some w" and a: "0 < amount" "amount + fee \<le> wa_balance w"
    and bad: "to = wa_address w \<or> to = [] \<or> fee < 0"
  shows "\<exists>e st'. transfer env to amount fee st = (Inl e, st')
    \<and> ws_wallet st' = Some (w\<lparr>wa_balance := wa_balance w - (amount + fee),
         wa_nonce := wa_nonce w + 1, wa_updatedAt := we_now env\<rparr>)
    \<and> ws_transactions st' = ws_transactions st \<and> ws_canonical st' = ws_canonical st"
proof -
  define w1 where "w1 = w\<lparr>wa_balance := wa_balance w - (amount + fee), wa_nonce := wa_nonce w + 1,
         wa_updatedAt := we_now env\<rparr>"
  have "validateCreateTransactionInput (confirmed_input env w1 (wa_address w) to amount fee ''TRANSFER'' None)
      \<noteq> None"
    using bad a by (auto simp: validateCreateTransactionInput_def confirmed_input_def Let_def)
  then obtain e where "createCanonicalTransaction
      (confirmed_input env w1 (wa_address w) to amount fee ''TRANSFER'' None) = Inl e"
    by (auto simp: createCanonicalTransaction_def)
  then show ?thesis
    using w a
    by (simp add: transfer_def record_movement_def w1_def [symmetric] Let_def
        createConfirmedCanonicalTransaction_def)
qed

definition sample_wallet :: wallet where
  "sample_wallet = \<lparr>wa_address = ''0xa'', wa_peerId = ''p'', wa_balance = 50, wa_nonce = 0,
     wa_createdAt = 0, wa_updatedAt = 0\<rparr>"

theorem rejected_transfer_changes_balance_witness:
  "\<exists>e st'. transfer sample_env ''0xa'' 20 0 (empty_wallet_state\<lparr>ws_wallet := Some sample_wallet\<rparr>)
      = (Inl e, st') \<and> getBalance st' = 30"
  using rejected_transfer_changes_balance
    [of "empty_wallet_state\<lparr>ws_wallet := Some sample_wallet\<rparr>" sample_wallet 20 0 "''0xa''" sample_env]
  by (auto simp: sample_wallet_def getBalance_def)

end
