(* ===== verification/Scheduler.thy ===== *)
theory Scheduler
  imports Prelude "HOL-Library.Sublist" Complex_Main
begin

text \<open>
  The media transfer scheduler (\<open>src/services/media/MediaTransferScheduler.ts\<close>): one bounded queue
  per peer, one frame in flight per queue. The code between two \<open>await\<close>s runs without interruption,
  so every such section is one transition: a call from outside (\<open>enqueue\<close>, \<open>cancelPeer\<close>,
  \<open>cancelMedia\<close>, \<open>start\<close>, \<open>stop\<close>), the flow control finding the channel congested or writable again,
  and the end of the wait or of the send of the active task, with which \<open>processPeerQueue\<close> goes on to
  the next task. The promise of a task is the entry of its sequence number in \<open>sc_settled\<close>. The
  \<open>peerId\<close> of a task stands for its connection.
\<close>

section \<open>Data\<close>

datatype failure_kind =
    Timeout | Unavailable | Corrupt | Cancelled | Storage_full | Backpressure | Frame_too_large

record scheduler_policy =
  po_maxFrameBytes :: int
  po_maxQueuedFramesPerPeer :: int
  po_maxQueuedBytesPerPeer :: int
  po_maxQueuedObjectsPerPeer :: int
  po_maxQueuedChunksPerPeer :: int
  po_writableTimeoutMs :: int
  po_lowWaterMarkRatio :: rat

record transfer_task =
  tt_peerId :: string
  tt_bytes :: int
  tt_mediaObjectId :: "string option"
  tt_chunkId :: "string option"
  tt_priority :: "int option"
  tt_sequence :: nat

text \<open>\<open>cancelWait\<close> is registered while the active task waits for a writable channel; calling it makes
  the wait end with the given failure.\<close>

datatype wait_state = No_wait | Waiting | Wait_failed failure_kind

record peer_queue =
  pq_tasks :: "transfer_task list"
  pq_queuedBytes :: int
  pq_processing :: bool
  pq_blocked :: bool
  pq_cancelled :: bool
  pq_activeTask :: "transfer_task option"
  pq_wait :: wait_state

datatype outcome = Resolved | Rejected failure_kind

record scheduler =
  sc_queues :: "(string, peer_queue) jsmap"
  sc_sequence :: nat
  sc_running :: bool
  sc_sentFrames :: int
  sc_sentBytes :: int
  sc_rejectedFrames :: int
  sc_cancelledFrames :: int
  sc_writableWaits :: int
  sc_settled :: "(nat \<times> outcome) list"

definition scheduler_init :: scheduler where
  "scheduler_init = \<lparr>sc_queues = [], sc_sequence = 0, sc_running = True, sc_sentFrames = 0,
     sc_sentBytes = 0, sc_rejectedFrames = 0, sc_cancelledFrames = 0, sc_writableWaits = 0,
     sc_settled = []\<rparr>"

definition defaultMediaTransferSchedulerPolicy :: scheduler_policy where
  "defaultMediaTransferSchedulerPolicy = \<lparr>po_maxFrameBytes = 256 * 1024,
     po_maxQueuedFramesPerPeer = 64, po_maxQueuedBytesPerPeer = 8 * 1024 * 1024,
     po_maxQueuedObjectsPerPeer = 4, po_maxQueuedChunksPerPeer = 8, po_writableTimeoutMs = 10000,
     po_lowWaterMarkRatio = 1 / 2\<rparr>"

definition validatePolicy :: "scheduler_policy \<Rightarrow> bool" where
  "validatePolicy p \<longleftrightarrow>
     (\<forall>v \<in> set [po_maxFrameBytes p, po_maxQueuedFramesPerPeer p, po_maxQueuedBytesPerPeer p,
        po_maxQueuedObjectsPerPeer p, po_maxQueuedChunksPerPeer p, po_writableTimeoutMs p]. 0 < v)
     \<and> 0 < po_lowWaterMarkRatio p \<and> po_lowWaterMarkRatio p < 1"

section \<open>Queue operations\<close>

definition createPeerQueue :: peer_queue where
  "createPeerQueue = \<lparr>pq_tasks = [], pq_queuedBytes = 0, pq_processing = False, pq_blocked = False,
     pq_cancelled = False, pq_activeTask = None, pq_wait = No_wait\<rparr>"

fun defined_ids :: "string option list \<Rightarrow> string list" where
  "defined_ids [] = []"
| "defined_ids (None # xs) = defined_ids xs"
| "defined_ids (Some s # xs) = (if s = [] then defined_ids xs else s # defined_ids xs)"

definition peerTasks :: "peer_queue \<Rightarrow> transfer_task list" where
  "peerTasks q = (case pq_activeTask q of None \<Rightarrow> pq_tasks q | Some t \<Rightarrow> t # pq_tasks q)"

definition active_bytes :: "peer_queue \<Rightarrow> int" where
  "active_bytes q = (case pq_activeTask q of None \<Rightarrow> 0 | Some t \<Rightarrow> tt_bytes t)"

definition object_ids :: "transfer_task list \<Rightarrow> string list" where
  "object_ids ts = js_uniq (defined_ids (map tt_mediaObjectId ts))"

definition chunk_ids :: "transfer_task list \<Rightarrow> string list" where
  "chunk_ids ts = js_uniq (defined_ids (map tt_chunkId ts))"

definition add_id :: "string option \<Rightarrow> string list \<Rightarrow> string list" where
  "add_id i ids = (case i of None \<Rightarrow> ids | Some s \<Rightarrow> if s = [] then ids else set_add s ids)"

definition capacityExceeded :: "scheduler_policy \<Rightarrow> peer_queue \<Rightarrow> transfer_task \<Rightarrow> bool" where
  "capacityExceeded po q t \<longleftrightarrow>
     int (length (peerTasks q)) \<ge> po_maxQueuedFramesPerPeer po
     \<or> pq_queuedBytes q + active_bytes q + tt_bytes t > po_maxQueuedBytesPerPeer po
     \<or> int (length (add_id (tt_mediaObjectId t) (object_ids (peerTasks q))))
         > po_maxQueuedObjectsPerPeer po
     \<or> int (length (add_id (tt_chunkId t) (chunk_ids (peerTasks q)))) > po_maxQueuedChunksPerPeer po"

definition priority_of :: "transfer_task \<Rightarrow> int" where
  "priority_of t = (case tt_priority t of None \<Rightarrow> 0 | Some p \<Rightarrow> p)"

definition compare_tasks :: "transfer_task \<Rightarrow> transfer_task \<Rightarrow> int" where
  "compare_tasks l r = js_or (priority_of r - priority_of l) (int (tt_sequence l) - int (tt_sequence r))"

definition takeNextTask :: "peer_queue \<Rightarrow> (transfer_task \<times> peer_queue) option" where
  "takeNextTask q = (case js_sort compare_tasks (pq_tasks q) of
     [] \<Rightarrow> None
   | t # ts \<Rightarrow> Some (t, q\<lparr>pq_tasks := ts, pq_queuedBytes := pq_queuedBytes q - tt_bytes t\<rparr>))"

definition settle :: "transfer_task list \<Rightarrow> outcome \<Rightarrow> scheduler \<Rightarrow> scheduler" where
  "settle ts r s = s\<lparr>sc_settled := sc_settled s @ map (\<lambda>t. (tt_sequence t, r)) ts\<rparr>"

text \<open>\<open>rejectQueuedTasks\<close>: the emptied queue, and the scheduler with the promises rejected.\<close>

definition rejectQueuedTasks ::
  "failure_kind \<Rightarrow> peer_queue \<Rightarrow> scheduler \<Rightarrow> peer_queue \<times> scheduler" where
  "rejectQueuedTasks k q s =
     (q\<lparr>pq_tasks := [], pq_queuedBytes := 0\<rparr>,
      settle (pq_tasks q) (Rejected k)
        (s\<lparr>sc_cancelledFrames := sc_cancelledFrames s + int (length (pq_tasks q))\<rparr>))"

definition put_queue :: "string \<Rightarrow> peer_queue \<Rightarrow> scheduler \<Rightarrow> scheduler" where
  "put_queue p q s = s\<lparr>sc_queues := jm_set p q (sc_queues s)\<rparr>"

definition drop_queue :: "string \<Rightarrow> scheduler \<Rightarrow> scheduler" where
  "drop_queue p s = s\<lparr>sc_queues := jm_delete p (sc_queues s)\<rparr>"

section \<open>The processing loop\<close>

text \<open>
  The loop from its test to the next \<open>await\<close>: the next task becomes active, or the queue is left.
  When the loop ends on a stopped scheduler with tasks left, the queue stays in the map, idle.
\<close>

definition continue_queue :: "string \<Rightarrow> peer_queue \<Rightarrow> scheduler \<Rightarrow> scheduler" where
  "continue_queue p q s =
     (case (if sc_running s then takeNextTask q else None) of
        Some (t, q') \<Rightarrow> put_queue p (q'\<lparr>pq_processing := True, pq_activeTask := Some t\<rparr>) s
      | None \<Rightarrow>
        (if pq_tasks q = [] then drop_queue p s
         else put_queue p (q\<lparr>pq_processing := False, pq_blocked := False, pq_activeTask := None,
                             pq_wait := No_wait\<rparr>) s))"

definition processPeerQueue :: "string \<Rightarrow> peer_queue \<Rightarrow> scheduler \<Rightarrow> scheduler" where
  "processPeerQueue p q s = (if pq_processing q then put_queue p q s else continue_queue p q s)"

definition enqueue ::
  "scheduler_policy \<Rightarrow> transfer_task \<Rightarrow> scheduler \<Rightarrow> failure_kind option \<times> scheduler" where
  "enqueue po t s =
     (if \<not> sc_running s then (Some Cancelled, s)
      else if tt_bytes t \<le> 0 then (Some Frame_too_large, s)
      else if tt_bytes t > po_maxFrameBytes po
      then (Some Frame_too_large, s\<lparr>sc_rejectedFrames := sc_rejectedFrames s + 1\<rparr>)
      else (let p = tt_peerId t;
                q = (case jm_get (sc_queues s) p of None \<Rightarrow> createPeerQueue | Some q \<Rightarrow> q)
            in if capacityExceeded po q t
               then (Some Backpressure, s\<lparr>sc_rejectedFrames := sc_rejectedFrames s + 1\<rparr>)
               else (None, processPeerQueue p
                 (q\<lparr>pq_tasks := pq_tasks q @ [t\<lparr>tt_sequence := sc_sequence s\<rparr>],
                    pq_queuedBytes := pq_queuedBytes q + tt_bytes t\<rparr>)
                 (s\<lparr>sc_sequence := sc_sequence s + 1\<rparr>))))"

text \<open>\<open>flowControl.getBufferedAmount() > highWaterMark\<close> for the active task.\<close>

definition highWaterMark :: "scheduler_policy \<Rightarrow> int \<Rightarrow> int" where
  "highWaterMark po mark = min mark (po_maxQueuedBytesPerPeer po)"

definition lowWaterMark :: "scheduler_policy \<Rightarrow> int \<Rightarrow> int" where
  "lowWaterMark po mark = max 0 \<lfloor>of_int (highWaterMark po mark) * po_lowWaterMarkRatio po\<rfloor>"

definition channel_congested :: "string \<Rightarrow> scheduler \<Rightarrow> scheduler" where
  "channel_congested p s = (case jm_get (sc_queues s) p of
     None \<Rightarrow> s
   | Some q \<Rightarrow> if pq_activeTask q = None \<or> pq_wait q = Waiting then s
       else put_queue p (q\<lparr>pq_blocked := True, pq_wait := Waiting\<rparr>)
              (s\<lparr>sc_writableWaits := sc_writableWaits s + 1\<rparr>))"

definition channel_writable :: "string \<Rightarrow> scheduler \<Rightarrow> scheduler" where
  "channel_writable p s = (case jm_get (sc_queues s) p of
     None \<Rightarrow> s
   | Some q \<Rightarrow> if pq_wait q \<noteq> Waiting then s
       else put_queue p (q\<lparr>pq_blocked := False, pq_wait := No_wait\<rparr>) s)"

text \<open>
  The end of the active task: \<open>result\<close> is the failure of the wait or of the send, if any. A wait that
  was cancelled ends with the cancellation, and a wait that is still on cannot end with success.
\<close>

definition task_result :: "scheduler \<Rightarrow> peer_queue \<Rightarrow> failure_kind option \<Rightarrow> failure_kind option" where
  "task_result s q result = (case pq_wait q of
     Wait_failed k \<Rightarrow> Some k
   | _ \<Rightarrow> (case result of
       Some k \<Rightarrow> Some k
     | None \<Rightarrow> if \<not> sc_running s \<or> pq_cancelled q then Some Cancelled else None))"

definition task_done :: "string \<Rightarrow> failure_kind option \<Rightarrow> scheduler \<Rightarrow> scheduler" where
  "task_done p result s = (case jm_get (sc_queues s) p of
     None \<Rightarrow> s
   | Some q \<Rightarrow> (case pq_activeTask q of
       None \<Rightarrow> s
     | Some t \<Rightarrow>
       if pq_wait q = Waiting \<and> result = None then s
       else (case task_result s q result of
         None \<Rightarrow> continue_queue p (q\<lparr>pq_activeTask := None\<rparr>)
           (settle [t] Resolved (s\<lparr>sc_sentFrames := sc_sentFrames s + 1,
              sc_sentBytes := sc_sentBytes s + tt_bytes t\<rparr>))
       | Some k \<Rightarrow>
           (let s1 = settle [t] (Rejected k)
              (if k = Cancelled then s\<lparr>sc_cancelledFrames := sc_cancelledFrames s + 1\<rparr>
               else s\<lparr>sc_rejectedFrames := sc_rejectedFrames s + 1\<rparr>);
                q1 = q\<lparr>pq_activeTask := None, pq_wait := No_wait\<rparr>
            in if k = Unavailable
               then (let (q2, s2) = rejectQueuedTasks k q1 s1 in continue_queue p q2 s2)
               else continue_queue p q1 s1))))"

section \<open>Cancelling and stopping\<close>

definition cancel_wait :: "failure_kind \<Rightarrow> peer_queue \<Rightarrow> peer_queue" where
  "cancel_wait k q = (if pq_wait q = Waiting then q\<lparr>pq_wait := Wait_failed k\<rparr> else q)"

definition cancelPeer :: "string \<Rightarrow> scheduler \<Rightarrow> scheduler" where
  "cancelPeer p s = (case jm_get (sc_queues s) p of
     None \<Rightarrow> s
   | Some q \<Rightarrow>
     (let (q1, s1) = rejectQueuedTasks Cancelled (cancel_wait Cancelled (q\<lparr>pq_cancelled := True\<rparr>)) s
      in if \<not> pq_processing q1 then drop_queue p s1 else put_queue p q1 s1))"

definition cancel_media_queue ::
  "string \<Rightarrow> string \<Rightarrow> peer_queue \<Rightarrow> scheduler \<Rightarrow> scheduler" where
  "cancel_media_queue media p q s =
     (let q1 = (case pq_activeTask q of
            Some t \<Rightarrow> if tt_mediaObjectId t = Some media then cancel_wait Cancelled q else q
          | None \<Rightarrow> q);
          hit = filter (\<lambda>t. tt_mediaObjectId t = Some media) (pq_tasks q);
          q2 = q1\<lparr>pq_tasks := filter (\<lambda>t. tt_mediaObjectId t \<noteq> Some media) (pq_tasks q),
                  pq_queuedBytes := pq_queuedBytes q - sum_list (map tt_bytes hit)\<rparr>;
          s1 = settle hit (Rejected Cancelled)
                 (s\<lparr>sc_cancelledFrames := sc_cancelledFrames s + int (length hit)\<rparr>)
      in if \<not> pq_processing q2 \<and> pq_tasks q2 = [] then drop_queue p s1 else put_queue p q2 s1)"

definition cancelMedia :: "string \<Rightarrow> scheduler \<Rightarrow> scheduler" where
  "cancelMedia media s = fold (\<lambda>(p, q). cancel_media_queue media p q) (sc_queues s) s"

definition sched_start :: "scheduler \<Rightarrow> scheduler" where
  "sched_start s = s\<lparr>sc_running := True\<rparr>"

definition sched_stop :: "scheduler \<Rightarrow> scheduler" where
  "sched_stop s =
     (if \<not> sc_running s \<and> sc_queues s = [] then s
      else fold cancelPeer (jm_keys (sc_queues s)) (s\<lparr>sc_running := False\<rparr>))"

record scheduler_snapshot =
  sn_running :: bool
  sn_activePeers :: nat
  sn_blockedPeers :: nat
  sn_queuedFrames :: nat
  sn_queuedBytes :: int
  sn_inFlightBytes :: int

definition getSnapshot :: "scheduler \<Rightarrow> scheduler_snapshot" where
  "getSnapshot s = (let qs = jm_values (sc_queues s) in
     \<lparr>sn_running = sc_running s,
      sn_activePeers = length (filter pq_processing qs),
      sn_blockedPeers = length (filter pq_blocked qs),
      sn_queuedFrames = sum_list (map (\<lambda>q. length (pq_tasks q)) qs),
      sn_queuedBytes = sum_list (map pq_queuedBytes qs),
      sn_inFlightBytes = sum_list (map active_bytes qs)\<rparr>)"

section \<open>Payload sizing\<close>

text \<open>\<open>frameBytes candidate totalParts\<close> stands for the size of the frame the caller builds.\<close>

function payload_search :: "(int \<Rightarrow> int \<Rightarrow> int) \<Rightarrow> int \<Rightarrow> int \<Rightarrow> int \<Rightarrow> int \<Rightarrow> int \<Rightarrow> int" where
  "payload_search frameBytes maxFrame totalRaw low high best =
     (if low > high then best
      else (let candidate = low + (high - low) div 2;
                totalParts = - ((- totalRaw) div candidate)
            in if frameBytes candidate totalParts \<le> maxFrame
               then payload_search frameBytes maxFrame totalRaw (candidate + 1) high candidate
               else payload_search frameBytes maxFrame totalRaw low (candidate - 1) best))"
  by pat_completeness auto
termination
  by (relation "measure (\<lambda>(f, m, t, low, high, b). nat (high - low + 1))") auto

definition calculateMaxRawPayloadBytes :: "(int \<Rightarrow> int \<Rightarrow> int) \<Rightarrow> int \<Rightarrow> int \<Rightarrow> int" where
  "calculateMaxRawPayloadBytes frameBytes maxFrame total0 =
     (let totalRaw = max 0 total0
      in if totalRaw = 0 \<or> maxFrame \<le> 0 then 0 else payload_search frameBytes maxFrame totalRaw 1 totalRaw 0)"

section \<open>Classifying errors\<close>

datatype js_error = Media_error failure_kind | Js_error string string | Js_non_error

definition isStorageCapacityError :: "js_error \<Rightarrow> bool" where
  "isStorageCapacityError e = (case e of
     Js_error name message \<Rightarrow> name = ''QuotaExceededError''
       \<or> str_includes (map lower_char message) ''quota'' \<or> str_includes (map lower_char message) ''storage full''
   | _ \<Rightarrow> False)"

fun toMediaTransferError :: "js_error \<Rightarrow> failure_kind" where
  "toMediaTransferError (Media_error k) = k"
| "toMediaTransferError e =
     (let normalized = map lower_char (case e of Js_error n m \<Rightarrow> m | _ \<Rightarrow> ''Unknown media transfer failure'')
      in if isStorageCapacityError e then Storage_full
         else if str_includes normalized ''backpressure'' \<or> str_includes normalized ''congestion''
         then Backpressure
         else if str_includes normalized ''timeout'' then Timeout
         else if str_includes normalized ''cancel'' then Cancelled
         else Unavailable)"

definition createTransferError_retryable :: "failure_kind \<Rightarrow> bool" where
  "createTransferError_retryable k \<longleftrightarrow> k \<noteq> Corrupt \<and> k \<noteq> Frame_too_large"

end
