(* ===== verification/Scheduler_Claims.thy ===== *)
theory Scheduler_Claims
  imports Scheduler "HOL-Library.Multiset"
begin

text \<open>
  What the transfer scheduler promises: every queue stays within its limits and its byte count is
  exact, every accepted task is pending in one queue or settled once, the next frame is the oldest of
  the highest priority, and the payload search returns the largest payload that fits.
\<close>

section \<open>Limits\<close>

definition id_count :: "string option list \<Rightarrow> int" where
  "id_count xs = int (card {s. s \<noteq> [] \<and> Some s \<in> set xs})"

definition fits :: "scheduler_policy \<Rightarrow> transfer_task list \<Rightarrow> bool" where
  "fits po ts \<longleftrightarrow> int (length ts) \<le> po_maxQueuedFramesPerPeer po
     \<and> sum_list (map tt_bytes ts) \<le> po_maxQueuedBytesPerPeer po
     \<and> id_count (map tt_mediaObjectId ts) \<le> po_maxQueuedObjectsPerPeer po
     \<and> id_count (map tt_chunkId ts) \<le> po_maxQueuedChunksPerPeer po
     \<and> (\<forall>t \<in> set ts. 0 < tt_bytes t \<and> tt_bytes t \<le> po_maxFrameBytes po)"

lemma set_defined_ids: "set (defined_ids xs) = {s. s \<noteq> [] \<and> Some s \<in> set xs}"
  by (induction xs rule: defined_ids.induct) auto

lemma id_count_mono: "set xs \<subseteq> set ys \<Longrightarrow> id_count xs \<le> id_count ys"
proof -
  assume s: "set xs \<subseteq> set ys"
  have "finite {s. s \<noteq> [] \<and> Some s \<in> set ys}"
    using set_defined_ids [of ys] by (metis List.finite_set)
  then show ?thesis using s by (auto simp: id_count_def intro!: card_mono)
qed

lemma length_add_id:
  "int (length (add_id i (js_uniq (defined_ids xs)))) = id_count (i # xs)"
proof -
  have d: "distinct (add_id i (js_uniq (defined_ids xs)))"
    by (simp add: add_id_def split: option.split)
  have "set (add_id i (js_uniq (defined_ids xs))) = {s. s \<noteq> [] \<and> Some s \<in> set (i # xs)}"
    by (auto simp: add_id_def set_defined_ids split: option.split)
  then show ?thesis using distinct_card [OF d] by (simp add: id_count_def)
qed

lemma sum_bytes_mset: "sum_list (map f xs) = sum_mset (image_mset f (mset xs))"
  by (metis mset_map sum_mset_sum_list)

lemma fits_sub:
  assumes "fits po ys" and "mset xs \<subseteq># mset ys"
  shows "fits po xs"
proof -
  obtain N where "mset ys = mset xs + N" using assms(2) by (metis subset_mset.le_iff_add)
  then obtain zs where zs: "mset ys = mset (xs @ zs)" by (metis ex_mset mset_append)
  have s: "set xs \<subseteq> set ys" and n: "set zs \<subseteq> set ys"
    using zs by (metis Un_upper1 set_append set_mset_mset, metis Un_upper2 set_append set_mset_mset)
  have "0 \<le> sum_list (map tt_bytes zs)"
    using assms(1) n by (intro sum_list_nonneg) (force simp: fits_def)
  moreover have "sum_list (map tt_bytes ys) = sum_list (map tt_bytes (xs @ zs))"
    unfolding sum_bytes_mset zs ..
  ultimately have "sum_list (map tt_bytes xs) \<le> sum_list (map tt_bytes ys)" by simp
  moreover have "length xs \<le> length ys" using assms(2) by (metis size_mset size_mset_mono)
  moreover have "id_count (map tt_mediaObjectId xs) \<le> id_count (map tt_mediaObjectId ys)"
    "id_count (map tt_chunkId xs) \<le> id_count (map tt_chunkId ys)"
    using s by (simp_all add: id_count_mono image_mono)
  ultimately show ?thesis using assms(1) s by (auto simp: fits_def)
qed

lemma fits_perm: "mset xs = mset ys \<Longrightarrow> fits po ys \<Longrightarrow> fits po xs"
  by (rule fits_sub) (auto intro: subset_mset.order_refl)

lemma fits_new:
  assumes "\<not> capacityExceeded po q t" and "fits po (peerTasks q)"
    and "pq_queuedBytes q = sum_list (map tt_bytes (pq_tasks q))"
    and "0 < tt_bytes t" and "tt_bytes t \<le> po_maxFrameBytes po"
  shows "fits po (t\<lparr>tt_sequence := n\<rparr> # peerTasks q)"
  using assms
  by (auto simp: fits_def capacityExceeded_def object_ids_def chunk_ids_def length_add_id
      peerTasks_def active_bytes_def split: option.splits)

section \<open>The invariant\<close>

definition queue_ok :: "scheduler_policy \<Rightarrow> string \<Rightarrow> peer_queue \<Rightarrow> bool" where
  "queue_ok po p q \<longleftrightarrow> pq_queuedBytes q = sum_list (map tt_bytes (pq_tasks q))
     \<and> fits po (peerTasks q) \<and> (\<forall>t \<in> set (peerTasks q). tt_peerId t = p)"

definition live_queue :: "peer_queue \<Rightarrow> bool" where
  "live_queue q \<longleftrightarrow> pq_processing q \<and> pq_activeTask q \<noteq> None"

definition queues_ok :: "scheduler_policy \<Rightarrow> scheduler \<Rightarrow> bool" where
  "queues_ok po s \<longleftrightarrow> distinct (jm_keys (sc_queues s))
     \<and> (\<forall>(p, q) \<in> set (sc_queues s). queue_ok po p q \<and> live_queue q
          \<and> (\<not> sc_running s \<longrightarrow> pq_tasks q = []))"

definition seqs :: "peer_queue \<Rightarrow> nat multiset" where
  "seqs q = mset (map tt_sequence (peerTasks q))"

definition pending_seqs :: "(string, peer_queue) jsmap \<Rightarrow> nat multiset" where
  "pending_seqs m = sum_list (map seqs (jm_values m))"

definition accounted :: "scheduler \<Rightarrow> bool" where
  "accounted s \<longleftrightarrow>
     pending_seqs (sc_queues s) + mset (map fst (sc_settled s)) = mset [0 ..< sc_sequence s]
     \<and> sc_sentFrames s = int (length (filter (\<lambda>(n, r). r = Resolved) (sc_settled s)))"

definition sched_inv :: "scheduler_policy \<Rightarrow> scheduler \<Rightarrow> bool" where
  "sched_inv po s \<longleftrightarrow> queues_ok po s \<and> accounted s"

lemma pending_delete:
  assumes "distinct (jm_keys m)"
  shows "pending_seqs m = pending_seqs (jm_delete p m)
    + (case map_of m p of None \<Rightarrow> {#} | Some q \<Rightarrow> seqs q)"
  using assms
proof (induction m)
  case (Cons x m)
  obtain k q where x: "x = (k, q)" by (cases x)
  show ?case
  proof (cases "k = p")
    case True
    then have "p \<notin> set (jm_keys m)" using Cons.prems x by simp
    then have "jm_delete p m = m" "map_of m p = None"
      by (auto simp: jm_delete_absent map_of_eq_None_iff)
    then show ?thesis using True by (simp add: x pending_seqs_def AList.delete_eq)
  next
    case False
    then show ?thesis using Cons by (simp add: x pending_seqs_def AList.delete_eq)
  qed
qed (simp add: pending_seqs_def)

lemma delete_set: "jm_delete p (jm_set p q m) = jm_delete p m"
  by (induction m) (auto simp: AList.delete_eq)

lemma delete_delete: "jm_delete p (jm_delete p m) = jm_delete p m"
  by (simp add: AList.delete_eq)

lemma pending_put:
  "distinct (jm_keys m) \<Longrightarrow> pending_seqs (jm_set p q m) = pending_seqs (jm_delete p m) + seqs q"
  using pending_delete [of "jm_set p q m" p]
  by (simp add: distinct_update delete_set jm.get_put)

text \<open>What an operation on the queue of one peer does to the rest of the scheduler.\<close>

definition others_kept :: "string \<Rightarrow> scheduler \<Rightarrow> scheduler \<Rightarrow> bool" where
  "others_kept p s s' \<longleftrightarrow> (\<forall>k. k \<noteq> p \<longrightarrow> map_of (sc_queues s') k = map_of (sc_queues s) k)
     \<and> jm_delete p (sc_queues s') = jm_delete p (sc_queues s)
     \<and> (distinct (jm_keys (sc_queues s)) \<longrightarrow> distinct (jm_keys (sc_queues s')))"

lemma queues_ok_iff:
  "queues_ok po s \<longleftrightarrow> distinct (jm_keys (sc_queues s))
     \<and> (\<forall>p q. map_of (sc_queues s) p = Some q \<longrightarrow> queue_ok po p q \<and> live_queue q
          \<and> (\<not> sc_running s \<longrightarrow> pq_tasks q = []))"
  by (auto simp: queues_ok_def map_of_eq_Some_iff dest: map_of_SomeD)

lemma compare_tasks_comparator: "comparator compare_tasks"
  unfolding compare_tasks_def [abs_def]
  by (rule comparator_or [OF comparator_converse [OF comparator_diff] comparator_diff])

interpretation task_order: comparator compare_tasks
  by (rule compare_tasks_comparator)

lemma mset_insort: "mset (insort_cmp c x xs) = add_mset x (mset xs)"
  by (induction xs) auto

lemma mset_sort_tasks: "mset (js_sort c xs) = mset xs"
  by (induction xs) (auto simp: mset_insort)

lemma takeNextTask_spec:
  assumes "takeNextTask q = Some (t, q')"
  shows "mset (t # pq_tasks q') = mset (pq_tasks q)"
    and "pq_queuedBytes q' = pq_queuedBytes q - tt_bytes t"
    and "\<forall>u \<in> set (pq_tasks q). compare_tasks t u \<le> 0"
    and "q' = q\<lparr>pq_tasks := pq_tasks q', pq_queuedBytes := pq_queuedBytes q'\<rparr>"
proof -
  obtain ts where ts: "js_sort compare_tasks (pq_tasks q) = t # ts"
    and q': "q' = q\<lparr>pq_tasks := ts, pq_queuedBytes := pq_queuedBytes q - tt_bytes t\<rparr>"
    using assms by (auto simp: takeNextTask_def split: list.splits)
  show "mset (t # pq_tasks q') = mset (pq_tasks q)"
    using ts q' mset_sort_tasks [of compare_tasks "pq_tasks q"] by simp
  show "pq_queuedBytes q' = pq_queuedBytes q - tt_bytes t"
    and "q' = q\<lparr>pq_tasks := pq_tasks q', pq_queuedBytes := pq_queuedBytes q'\<rparr>"
    using q' by simp_all
  show "\<forall>u \<in> set (pq_tasks q). compare_tasks t u \<le> 0"
    using task_order.hd_js_sort_least [of _ "pq_tasks q"] ts by simp
qed

lemma takeNextTask_None: "takeNextTask q = None \<longleftrightarrow> pq_tasks q = []"
proof -
  have "js_sort compare_tasks (pq_tasks q) = [] \<longleftrightarrow> pq_tasks q = []"
    by (metis length_0_conv length_js_sort)
  then show ?thesis by (auto simp: takeNextTask_def split: list.splits)
qed

text \<open>The step that \<open>processPeerQueue\<close> takes on a queue without an active task.\<close>

lemma continue_queue_ok:
  assumes d: "distinct (jm_keys (sc_queues s))"
    and ok: "queue_ok po p q" "pq_activeTask q = None" "\<not> sc_running s \<longrightarrow> pq_tasks q = []"
  defines "s' \<equiv> continue_queue p q s"
  shows "others_kept p s s'"
    and "map_of (sc_queues s') p = Some q' \<Longrightarrow> queue_ok po p q' \<and> live_queue q'
      \<and> (\<not> sc_running s' \<longrightarrow> pq_tasks q' = [])"
    and "pending_seqs (sc_queues s') = pending_seqs (jm_delete p (sc_queues s)) + seqs q"
    and "sc_settled s' = sc_settled s \<and> sc_sequence s' = sc_sequence s
      \<and> sc_running s' = sc_running s \<and> sc_sentFrames s' = sc_sentFrames s"
proof -
  show "sc_settled s' = sc_settled s \<and> sc_sequence s' = sc_sequence s
      \<and> sc_running s' = sc_running s \<and> sc_sentFrames s' = sc_sentFrames s"
    by (simp add: s'_def continue_queue_def put_queue_def drop_queue_def split: option.split)
  show "others_kept p s s'"
    using d by (auto simp: s'_def continue_queue_def put_queue_def drop_queue_def others_kept_def
        jm.get_put jm.get_remove delete_set delete_delete distinct_update distinct_delete
        split: option.split)
  have "(\<forall>q'. map_of (sc_queues s') p = Some q' \<longrightarrow> queue_ok po p q' \<and> live_queue q'
      \<and> (\<not> sc_running s' \<longrightarrow> pq_tasks q' = []))
    \<and> pending_seqs (sc_queues s') = pending_seqs (jm_delete p (sc_queues s)) + seqs q"
  proof (cases "pq_tasks q = []")
    case True
    then have "s' = drop_queue p s"
      using takeNextTask_None [of q] by (simp add: s'_def continue_queue_def)
    then show ?thesis
      using True ok(2) by (simp add: drop_queue_def jm.get_remove seqs_def peerTasks_def)
  next
    case False
    then obtain t q1 where t: "takeNextTask q = Some (t, q1)" and r: "sc_running s"
      using takeNextTask_None [of q] ok(3) by (cases "takeNextTask q") auto
    note sp = takeNextTask_spec [OF t]
    let ?q = "q1\<lparr>pq_processing := True, pq_activeTask := Some t\<rparr>"
    have s': "s' = put_queue p ?q s" by (simp add: s'_def continue_queue_def t r)
    have pt: "peerTasks ?q = t # pq_tasks q1" "peerTasks q = pq_tasks q"
      using ok(2) by (simp_all add: peerTasks_def)
    have "set (t # pq_tasks q1) = set (pq_tasks q)" using sp(1) by (metis set_mset_mset)
    moreover have "sum_list (map tt_bytes (t # pq_tasks q1)) = sum_list (map tt_bytes (pq_tasks q))"
      unfolding sum_bytes_mset sp(1) ..
    moreover have "fits po (t # pq_tasks q1)"
      using ok(1) sp(1) pt(2) by (auto simp: queue_ok_def intro: fits_perm)
    ultimately have "queue_ok po p ?q"
      using ok(1) sp(2) pt by (auto simp: queue_ok_def)
    moreover have "seqs ?q = seqs q"
      unfolding seqs_def pt mset_map using sp(1) by simp
    ultimately show ?thesis
      using d r by (simp add: s' put_queue_def jm.get_put live_queue_def pending_put)
  qed
  then show "map_of (sc_queues s') p = Some q' \<Longrightarrow> queue_ok po p q' \<and> live_queue q'
      \<and> (\<not> sc_running s' \<longrightarrow> pq_tasks q' = [])"
    and "pending_seqs (sc_queues s') = pending_seqs (jm_delete p (sc_queues s)) + seqs q"
    by blast+
qed

lemma one_queue_ok:
  assumes ok: "queues_ok po s" and kept: "others_kept p s s'" and run: "sc_running s' = sc_running s"
    and q: "\<And>q. map_of (sc_queues s') p = Some q \<Longrightarrow> queue_ok po p q \<and> live_queue q
      \<and> (\<not> sc_running s' \<longrightarrow> pq_tasks q = [])"
  shows "queues_ok po s'"
  unfolding queues_ok_iff
proof (intro conjI allI impI)
  show "distinct (jm_keys (sc_queues s'))" using ok kept by (simp add: queues_ok_iff others_kept_def)
  fix k q'
  assume "map_of (sc_queues s') k = Some q'"
  then have "queue_ok po k q' \<and> live_queue q' \<and> (\<not> sc_running s' \<longrightarrow> pq_tasks q' = [])"
    using q ok kept run by (cases "k = p") (auto simp: queues_ok_iff others_kept_def)
  then show "queue_ok po k q'" and "live_queue q'" and "\<not> sc_running s' \<Longrightarrow> pq_tasks q' = []"
    by blast+
qed

lemma others_kept_put: "others_kept p s (put_queue p q s)"
  by (simp add: others_kept_def put_queue_def jm.get_put delete_set distinct_update)

lemma others_kept_drop: "others_kept p s (drop_queue p s)"
  by (simp add: others_kept_def drop_queue_def jm.get_remove delete_delete distinct_delete)

lemma others_kept_same: "sc_queues s' = sc_queues s \<Longrightarrow> others_kept p s s'"
  by (simp add: others_kept_def)

lemma others_kept_trans: "others_kept p s t \<Longrightarrow> others_kept p t u \<Longrightarrow> others_kept p s u"
  by (simp add: others_kept_def)

lemma settle_fields [simp]:
  "sc_queues (settle ts r s) = sc_queues s" "sc_running (settle ts r s) = sc_running s"
  "sc_sequence (settle ts r s) = sc_sequence s" "sc_sentFrames (settle ts r s) = sc_sentFrames s"
  "sc_settled (settle ts r s) = sc_settled s @ map (\<lambda>t. (tt_sequence t, r)) ts"
  by (simp_all add: settle_def)

lemma settled_seqs: "mset (map fst (map (\<lambda>t. (tt_sequence t, r)) ts)) = mset (map tt_sequence ts)"
  by (simp add: o_def)

lemma queue_ok_sub:
  assumes "queue_ok po p q" and "mset (peerTasks q') \<subseteq># mset (peerTasks q)"
    and "pq_queuedBytes q' = sum_list (map tt_bytes (pq_tasks q'))"
  shows "queue_ok po p q'"
proof -
  have "set (peerTasks q') \<subseteq> set (peerTasks q)" using assms(2) by (metis set_mset_mono set_mset_mset)
  then show ?thesis using assms fits_sub by (auto simp: queue_ok_def)
qed

section \<open>Every operation keeps the invariant\<close>

lemma fits_Nil: "validatePolicy po \<Longrightarrow> fits po []"
  by (simp add: fits_def validatePolicy_def id_count_def)

lemma enqueue_inv:
  assumes inv: "sched_inv po s" and po: "validatePolicy po"
  shows "sched_inv po (snd (enqueue po t s))"
proof (cases "fst (enqueue po t s)")
  case (Some k)
  then show ?thesis
    using inv by (auto simp: enqueue_def Let_def sched_inv_def queues_ok_def accounted_def split: if_splits)
next
  case None
  define p where "p = tt_peerId t"
  define q where "q = (case jm_get (sc_queues s) p of None \<Rightarrow> createPeerQueue | Some q \<Rightarrow> q)"
  define t' where "t' = t\<lparr>tt_sequence := sc_sequence s\<rparr>"
  define q1 where "q1 = q\<lparr>pq_tasks := pq_tasks q @ [t'], pq_queuedBytes := pq_queuedBytes q + tt_bytes t\<rparr>"
  define s1 where "s1 = s\<lparr>sc_sequence := sc_sequence s + 1\<rparr>"
  have run: "sc_running s" and b: "0 < tt_bytes t" "tt_bytes t \<le> po_maxFrameBytes po"
    and cap: "\<not> capacityExceeded po q t" and res: "snd (enqueue po t s) = processPeerQueue p q1 s1"
    using None by (auto simp: enqueue_def Let_def p_def q_def q1_def s1_def t'_def split: if_splits)
  have ok: "queues_ok po s" and acc: "accounted s" using inv by (simp_all add: sched_inv_def)
  have d: "distinct (jm_keys (sc_queues s))" using ok by (simp add: queues_ok_def)
  have qok: "queue_ok po p q"
  proof (cases "map_of (sc_queues s) p")
    case None
    then show ?thesis
      using fits_Nil [OF po] by (simp add: q_def queue_ok_def createPeerQueue_def peerTasks_def)
  next
    case (Some q')
    then show ?thesis using ok by (simp add: q_def queues_ok_iff)
  qed
  have live: "pq_processing q \<Longrightarrow> live_queue q" "\<not> pq_processing q \<Longrightarrow> pq_activeTask q = None"
    using ok by (auto simp: q_def queues_ok_iff live_queue_def createPeerQueue_def split: option.splits)
  have pt: "peerTasks q1 = peerTasks q @ [t']"
    by (simp add: peerTasks_def q1_def split: option.split)
  have "fits po (t' # peerTasks q)"
    unfolding t'_def by (rule fits_new [OF cap]) (use qok b in \<open>auto simp: queue_ok_def\<close>)
  then have "fits po (peerTasks q1)" unfolding pt by (rule fits_perm [rotated]) simp
  then have q1ok: "queue_ok po p q1"
  proof -
    have "pq_queuedBytes q1 = sum_list (map tt_bytes (pq_tasks q1))"
      using qok by (simp add: queue_ok_def q1_def t'_def)
    moreover have "\<forall>t \<in> set (peerTasks q1). tt_peerId t = p"
      using qok by (simp add: queue_ok_def pt t'_def p_def)
    ultimately show ?thesis using \<open>fits po (peerTasks q1)\<close> by (simp add: queue_ok_def)
  qed
  have seqs1: "seqs q1 = seqs q + {#sc_sequence s#}" by (simp add: seqs_def pt t'_def)
  have pend: "pending_seqs (sc_queues s) = pending_seqs (jm_delete p (sc_queues s)) + seqs q"
    using pending_delete [OF d, of p]
    by (simp add: q_def seqs_def createPeerQueue_def peerTasks_def split: option.splits)
  define s' where "s' = processPeerQueue p q1 s1"
  have d1: "distinct (jm_keys (sc_queues s1))" using d by (simp add: s1_def)
  have run1: "sc_running s1" using run by (simp add: s1_def)
  have "others_kept p s1 s' \<and> (\<forall>q'. map_of (sc_queues s') p = Some q' \<longrightarrow> queue_ok po p q' \<and> live_queue q'
      \<and> (\<not> sc_running s' \<longrightarrow> pq_tasks q' = []))
    \<and> pending_seqs (sc_queues s') = pending_seqs (jm_delete p (sc_queues s1)) + seqs q1
    \<and> sc_settled s' = sc_settled s1 \<and> sc_sequence s' = sc_sequence s1
    \<and> sc_running s' = sc_running s1 \<and> sc_sentFrames s' = sc_sentFrames s1"
  proof (cases "pq_processing q")
    case True
    then have "s' = put_queue p q1 s1" by (simp add: s'_def processPeerQueue_def q1_def)
    moreover have "live_queue q1" using live(1) [OF True] by (simp add: live_queue_def q1_def)
    ultimately show ?thesis
      using q1ok d1 run1 others_kept_put [of p s1 q1]
      by (simp add: put_queue_def jm.get_put pending_put)
  next
    case False
    then have s': "s' = continue_queue p q1 s1" by (simp add: s'_def processPeerQueue_def q1_def)
    have a: "pq_activeTask q1 = None" using live(2) [OF False] by (simp add: q1_def)
    have r: "\<not> sc_running s1 \<longrightarrow> pq_tasks q1 = []" using run1 by simp
    show ?thesis unfolding s' using continue_queue_ok [OF d1 q1ok a r] by blast
  qed
  then have k: "others_kept p s1 s'" "sc_running s' = sc_running s1"
      "\<And>q'. map_of (sc_queues s') p = Some q' \<Longrightarrow> queue_ok po p q' \<and> live_queue q'
        \<and> (\<not> sc_running s' \<longrightarrow> pq_tasks q' = [])"
      "pending_seqs (sc_queues s') = pending_seqs (jm_delete p (sc_queues s1)) + seqs q1"
      "sc_settled s' = sc_settled s1" "sc_sequence s' = sc_sequence s1" "sc_sentFrames s' = sc_sentFrames s1"
    by blast+
  have "queues_ok po s1" using ok by (simp add: queues_ok_def s1_def)
  then have "queues_ok po s'" using k(1-3) by (rule one_queue_ok)
  moreover have "accounted s'"
    using acc k(4-7) pend seqs1 by (simp add: accounted_def s1_def)
  ultimately show ?thesis by (simp add: sched_inv_def res s'_def)
qed

lemma sub_tasks: "pq_activeTask q' = None \<Longrightarrow> pq_tasks q' = pq_tasks q \<Longrightarrow>
    mset (peerTasks q') \<subseteq># mset (peerTasks q)"
  by (auto simp: peerTasks_def intro: subset_mset.order_refl split: option.split)

lemma task_done_inv:
  assumes inv: "sched_inv po s"
  shows "sched_inv po (task_done p result s)"
proof (cases "\<exists>q t. map_of (sc_queues s) p = Some q \<and> pq_activeTask q = Some t
    \<and> \<not> (pq_wait q = Waiting \<and> result = None)")
  case False
  then have "task_done p result s = s"
    by (auto simp: task_done_def split: option.split)
  then show ?thesis using inv by simp
next
  case True
  then obtain q t where q: "map_of (sc_queues s) p = Some q" and t: "pq_activeTask q = Some t"
    and nw: "\<not> (pq_wait q = Waiting \<and> result = None)" by blast
  have ok: "queues_ok po s" and acc: "accounted s" using inv by (simp_all add: sched_inv_def)
  have d: "distinct (jm_keys (sc_queues s))" using ok by (simp add: queues_ok_def)
  have qok: "queue_ok po p q" and stopped: "\<not> sc_running s \<longrightarrow> pq_tasks q = []"
    using ok q by (simp_all add: queues_ok_iff)
  have seqs: "seqs q = {#tt_sequence t#} + mset (map tt_sequence (pq_tasks q))"
    by (simp add: seqs_def peerTasks_def t)
  have pend: "pending_seqs (sc_queues s) = pending_seqs (jm_delete p (sc_queues s)) + seqs q"
    using pending_delete [OF d, of p] q by simp
  obtain q1 s1 ts r where done_eq: "task_done p result s = continue_queue p q1 s1"
    and q1: "pq_activeTask q1 = None" "pq_queuedBytes q1 = sum_list (map tt_bytes (pq_tasks q1))"
      "mset (peerTasks q1) \<subseteq># mset (peerTasks q)" "seqs q1 + mset ts = seqs q"
      "pq_tasks q1 = [] \<or> pq_tasks q1 = pq_tasks q"
    and s1: "sc_queues s1 = sc_queues s" "sc_running s1 = sc_running s" "sc_sequence s1 = sc_sequence s"
      "mset (map fst (sc_settled s1)) = mset (map fst (sc_settled s)) + mset ts"
      "sc_sentFrames s1 - int (length (filter (\<lambda>(n, r). r = Resolved) (sc_settled s1)))
         = sc_sentFrames s - int (length (filter (\<lambda>(n, r). r = Resolved) (sc_settled s)))"
  proof (cases "task_result s q result")
    case None
    let ?q = "q\<lparr>pq_activeTask := None\<rparr>"
    let ?s = "settle [t] Resolved (s\<lparr>sc_sentFrames := sc_sentFrames s + 1,
              sc_sentBytes := sc_sentBytes s + tt_bytes t\<rparr>)"
    show ?thesis
    proof (rule that [of ?q ?s "[tt_sequence t]"])
      show "task_done p result s = continue_queue p ?q ?s"
        using None nw by (auto simp: task_done_def q t)
    qed (use qok seqs sub_tasks [of ?q q] in \<open>auto simp: queue_ok_def seqs_def peerTasks_def\<close>)
  next
    case (Some k)
    let ?q = "q\<lparr>pq_activeTask := None, pq_wait := No_wait\<rparr>"
    let ?s = "settle [t] (Rejected k)
              (if k = Cancelled then s\<lparr>sc_cancelledFrames := sc_cancelledFrames s + 1\<rparr>
               else s\<lparr>sc_rejectedFrames := sc_rejectedFrames s + 1\<rparr>)"
    show ?thesis
    proof (cases "k = Unavailable")
      case False
      show ?thesis
      proof (rule that [of ?q ?s "[tt_sequence t]"])
        show "task_done p result s = continue_queue p ?q ?s"
          using Some nw False by (auto simp: task_done_def q t Let_def)
      qed (use qok seqs sub_tasks [of ?q q] in \<open>auto simp: queue_ok_def seqs_def peerTasks_def\<close>)
    next
      case True
      define rq where "rq = rejectQueuedTasks k ?q ?s"
      show ?thesis
      proof (rule that [of "fst rq" "snd rq" "tt_sequence t # map tt_sequence (pq_tasks q)"])
        show "task_done p result s = continue_queue p (fst rq) (snd rq)"
          using Some nw True by (auto simp: task_done_def q t Let_def rq_def case_prod_beta)
      qed (use seqs True in \<open>auto simp: rq_def rejectQueuedTasks_def seqs_def peerTasks_def o_def\<close>)
    qed
  qed
  have q1ok: "queue_ok po p q1" using qok q1(3,2) by (rule queue_ok_sub)
  have d1: "distinct (jm_keys (sc_queues s1))" using d s1(1) by simp
  have r1: "\<not> sc_running s1 \<longrightarrow> pq_tasks q1 = []" using q1(5) stopped s1(2) by auto
  define s' where "s' = continue_queue p q1 s1"
  note c = continue_queue_ok [OF d1 q1ok q1(1) r1, folded s'_def]
  have "queues_ok po s1" using ok s1(1,2) by (simp add: queues_ok_def)
  then have "queues_ok po s'" using c(1) c(4) c(2) by (intro one_queue_ok [of po s1 p s']) auto
  moreover have "pending_seqs (sc_queues s') + mset (map fst (sc_settled s')) = mset [0 ..< sc_sequence s']"
  proof -
    have "pending_seqs (sc_queues s') + mset (map fst (sc_settled s'))
        = pending_seqs (jm_delete p (sc_queues s)) + (seqs q1 + mset ts) + mset (map fst (sc_settled s))"
      using c(3) c(4) s1(1) s1(4) by simp
    also have "\<dots> = pending_seqs (sc_queues s) + mset (map fst (sc_settled s))"
      by (simp only: q1(4) pend)
    finally show ?thesis using acc c(4) s1(3) by (simp add: accounted_def)
  qed
  ultimately show ?thesis
    using acc c(4) s1(5) by (simp add: sched_inv_def accounted_def done_eq s'_def)
qed

text \<open>Cancelling replaces a queue by one with fewer tasks and the same active task.\<close>

definition weak_inv :: "scheduler_policy \<Rightarrow> scheduler \<Rightarrow> bool" where
  "weak_inv po s \<longleftrightarrow> distinct (jm_keys (sc_queues s))
     \<and> (\<forall>p q. map_of (sc_queues s) p = Some q \<longrightarrow> queue_ok po p q \<and> live_queue q) \<and> accounted s"

definition stopped_empty :: "scheduler \<Rightarrow> bool" where
  "stopped_empty s \<longleftrightarrow>
     (\<not> sc_running s \<longrightarrow> (\<forall>p q. map_of (sc_queues s) p = Some q \<longrightarrow> pq_tasks q = []))"

lemma sched_inv_weak: "sched_inv po s \<longleftrightarrow> weak_inv po s \<and> stopped_empty s"
  by (auto simp: sched_inv_def weak_inv_def stopped_empty_def queues_ok_iff)

lemma replace_weak:
  assumes inv: "weak_inv po s" and q: "map_of (sc_queues s) p = Some q"
    and q1: "pq_activeTask q1 = pq_activeTask q" "pq_processing q1 = pq_processing q"
      "mset (pq_tasks q1) + mset gone = mset (pq_tasks q)"
      "pq_queuedBytes q1 = sum_list (map tt_bytes (pq_tasks q1))"
    and s1: "sc_queues s1 = sc_queues s" "sc_sequence s1 = sc_sequence s"
      "sc_settled s1 = sc_settled s @ map (\<lambda>t. (tt_sequence t, Rejected k)) gone"
      "sc_sentFrames s1 = sc_sentFrames s"
  shows "weak_inv po (put_queue p q1 s1)"
proof -
  have d: "distinct (jm_keys (sc_queues s))" and qok: "queue_ok po p q" and live: "live_queue q"
    and acc: "accounted s"
    using inv q by (simp_all add: weak_inv_def)
  have seqs: "seqs q1 + mset (map tt_sequence gone) = seqs q"
    using q1(1) arg_cong [OF q1(3), of "image_mset tt_sequence"]
    by (simp add: seqs_def peerTasks_def split: option.split)
  have "mset (pq_tasks q1) \<subseteq># mset (pq_tasks q)" by (metis q1(3) mset_subset_eq_add_left)
  then have "mset (peerTasks q1) \<subseteq># mset (peerTasks q)"
    using q1(1) by (auto simp: peerTasks_def split: option.split)
  then have q1ok: "queue_ok po p q1" using qok q1(4) queue_ok_sub by blast
  have "pending_seqs (sc_queues s) = pending_seqs (jm_delete p (sc_queues s)) + seqs q"
    using pending_delete [OF d, of p] q by simp
  then have "accounted (put_queue p q1 s1)"
    using acc d s1
    by (simp add: accounted_def put_queue_def pending_put settled_seqs seqs [symmetric] ac_simps
        del: map_map mset_map)
  moreover have "live_queue q1" using live q1(1,2) by (simp add: live_queue_def)
  ultimately show ?thesis
    using inv q1ok s1(1) by (simp add: weak_inv_def put_queue_def jm.get_put distinct_update)
qed

lemma congested_inv: "sched_inv po s \<Longrightarrow> sched_inv po (channel_congested p s)"
proof (cases "channel_congested p s = s")
  case False
  assume inv: "sched_inv po s"
  obtain q where q: "map_of (sc_queues s) p = Some q"
    and e: "channel_congested p s = put_queue p (q\<lparr>pq_blocked := True, pq_wait := Waiting\<rparr>)
              (s\<lparr>sc_writableWaits := sc_writableWaits s + 1\<rparr>)"
    using False by (auto simp: channel_congested_def split: option.splits if_splits)
  have "weak_inv po (channel_congested p s)"
    unfolding e by (rule replace_weak [OF _ q, where gone = "[]"])
      (use inv q in \<open>auto simp: sched_inv_weak weak_inv_def queue_ok_def\<close>)
  moreover have "stopped_empty (channel_congested p s)"
    using inv q by (auto simp: e sched_inv_weak stopped_empty_def put_queue_def jm.get_put)
  ultimately show ?thesis by (simp add: sched_inv_weak)
qed simp

lemma writable_inv: "sched_inv po s \<Longrightarrow> sched_inv po (channel_writable p s)"
proof (cases "channel_writable p s = s")
  case False
  assume inv: "sched_inv po s"
  obtain q where q: "map_of (sc_queues s) p = Some q"
    and e: "channel_writable p s = put_queue p (q\<lparr>pq_blocked := False, pq_wait := No_wait\<rparr>) s"
    using False by (auto simp: channel_writable_def split: option.splits if_splits)
  have "weak_inv po (channel_writable p s)"
    unfolding e by (rule replace_weak [OF _ q, where gone = "[]"])
      (use inv q in \<open>auto simp: sched_inv_weak weak_inv_def queue_ok_def\<close>)
  moreover have "stopped_empty (channel_writable p s)"
    using inv q by (auto simp: e sched_inv_weak stopped_empty_def put_queue_def jm.get_put)
  ultimately show ?thesis by (simp add: sched_inv_weak)
qed simp

lemma cancel_wait_fields [simp]:
  "pq_activeTask (cancel_wait k q) = pq_activeTask q" "pq_processing (cancel_wait k q) = pq_processing q"
  "pq_tasks (cancel_wait k q) = pq_tasks q" "pq_queuedBytes (cancel_wait k q) = pq_queuedBytes q"
  by (simp_all add: cancel_wait_def)

lemma cancelPeer_weak:
  assumes inv: "weak_inv po s"
  shows "weak_inv po (cancelPeer p s) \<and> others_kept p s (cancelPeer p s)
    \<and> sc_running (cancelPeer p s) = sc_running s
    \<and> (\<forall>q. map_of (sc_queues (cancelPeer p s)) p = Some q \<longrightarrow> pq_tasks q = [])"
proof (cases "map_of (sc_queues s) p")
  case None
  then show ?thesis using inv by (simp add: cancelPeer_def others_kept_same)
next
  case (Some q)
  define q1 where "q1 = (cancel_wait Cancelled (q\<lparr>pq_cancelled := True\<rparr>))\<lparr>pq_tasks := [], pq_queuedBytes := 0\<rparr>"
  define s1 where "s1 = settle (pq_tasks q) (Rejected Cancelled)
        (s\<lparr>sc_cancelledFrames := sc_cancelledFrames s + int (length (pq_tasks q))\<rparr>)"
  have "pq_processing q" using inv Some by (simp add: weak_inv_def live_queue_def)
  then have e: "cancelPeer p s = put_queue p q1 s1"
    by (simp add: cancelPeer_def Some rejectQueuedTasks_def q1_def s1_def)
  have "weak_inv po (cancelPeer p s)"
    unfolding e by (rule replace_weak [OF inv Some, where gone = "pq_tasks q" and k = Cancelled])
      (simp_all add: q1_def s1_def)
  moreover have "others_kept p s s1" by (simp add: others_kept_same s1_def)
  then have "others_kept p s (cancelPeer p s)"
    unfolding e using others_kept_put others_kept_trans by blast
  ultimately show ?thesis by (simp add: e put_queue_def jm.get_put q1_def s1_def)
qed

lemma cancelPeer_inv: "sched_inv po s \<Longrightarrow> sched_inv po (cancelPeer p s)"
proof -
  assume "sched_inv po s"
  then have w: "weak_inv po s" and e: "stopped_empty s" by (simp_all add: sched_inv_weak)
  have "stopped_empty (cancelPeer p s)"
    unfolding stopped_empty_def
  proof (intro impI allI)
    fix k q
    assume "\<not> sc_running (cancelPeer p s)" "map_of (sc_queues (cancelPeer p s)) k = Some q"
    then show "pq_tasks q = []"
      using cancelPeer_weak [OF w, of p] e
      by (cases "k = p") (auto simp: stopped_empty_def others_kept_def)
  qed
  then show ?thesis using cancelPeer_weak [OF w, of p] by (simp add: sched_inv_weak)
qed

lemma cancelPeers_weak:
  assumes "weak_inv po s"
  shows "weak_inv po (fold cancelPeer ps s) \<and> sc_running (fold cancelPeer ps s) = sc_running s
    \<and> (\<forall>k q. map_of (sc_queues (fold cancelPeer ps s)) k = Some q \<longrightarrow>
          (if k \<in> set ps then pq_tasks q = [] else map_of (sc_queues s) k = Some q))"
  using assms
proof (induction ps arbitrary: s)
  case (Cons p ps)
  note w = cancelPeer_weak [OF Cons.prems, of p]
  note IH = Cons.IH [of "cancelPeer p s"]
  show ?case
  proof (intro conjI allI impI)
    fix k q
    assume "map_of (sc_queues (fold cancelPeer (p # ps) s)) k = Some q"
    then have "if k \<in> set ps then pq_tasks q = [] else map_of (sc_queues (cancelPeer p s)) k = Some q"
      using IH w by simp
    then show "if k \<in> set (p # ps) then pq_tasks q = [] else map_of (sc_queues s) k = Some q"
      using w by (auto simp: others_kept_def split: if_splits)
  qed (use IH w in simp_all)
qed simp

lemma stop_inv: "sched_inv po s \<Longrightarrow> sched_inv po (sched_stop s)"
proof (cases "\<not> sc_running s \<and> sc_queues s = []")
  case False
  assume inv: "sched_inv po s"
  let ?s = "s\<lparr>sc_running := False\<rparr>"
  have "weak_inv po ?s" using inv by (simp add: sched_inv_weak weak_inv_def accounted_def)
  note c = cancelPeers_weak [OF this, of "jm_keys (sc_queues s)"]
  have e: "sched_stop s = fold cancelPeer (jm_keys (sc_queues s)) ?s"
    using False by (auto simp: sched_stop_def)
  have "stopped_empty (sched_stop s)"
    unfolding stopped_empty_def e
  proof (intro impI allI)
    fix k q
    assume q: "map_of (sc_queues (fold cancelPeer (jm_keys (sc_queues s)) ?s)) k = Some q"
    show "pq_tasks q = []"
    proof (cases "k \<in> set (jm_keys (sc_queues s))")
      case True
      then show ?thesis using c q by auto
    next
      case False
      then have "map_of (sc_queues s) k = Some q" using c q by fastforce
      then show ?thesis using False by (auto dest: map_of_SomeD intro: rev_image_eqI)
    qed
  qed
  then show ?thesis using c by (simp add: sched_inv_weak e)
qed (simp add: sched_stop_def)

lemma sched_start_inv: "sched_inv po s \<Longrightarrow> sched_inv po (sched_start s)"
  by (simp add: sched_start_def sched_inv_weak weak_inv_def stopped_empty_def accounted_def)

lemma cancel_media_queue_inv:
  assumes inv: "sched_inv po s" and q: "map_of (sc_queues s) p = Some q"
  shows "sched_inv po (cancel_media_queue media p q s) \<and> others_kept p s (cancel_media_queue media p q s)"
proof -
  define hit where "hit = filter (\<lambda>t. tt_mediaObjectId t = Some media) (pq_tasks q)"
  define q1 where "q1 = (case pq_activeTask q of
            Some t \<Rightarrow> if tt_mediaObjectId t = Some media then cancel_wait Cancelled q else q
          | None \<Rightarrow> q)"
  define q2 where "q2 = q1\<lparr>pq_tasks := filter (\<lambda>t. tt_mediaObjectId t \<noteq> Some media) (pq_tasks q),
                  pq_queuedBytes := pq_queuedBytes q - sum_list (map tt_bytes hit)\<rparr>"
  define s1 where "s1 = settle hit (Rejected Cancelled)
                 (s\<lparr>sc_cancelledFrames := sc_cancelledFrames s + int (length hit)\<rparr>)"
  have w: "weak_inv po s" and em: "stopped_empty s" using inv by (simp_all add: sched_inv_weak)
  have pr: "pq_processing q" and qb: "pq_queuedBytes q = sum_list (map tt_bytes (pq_tasks q))"
    using w q by (simp_all add: weak_inv_def live_queue_def queue_ok_def)
  have q1: "pq_activeTask q1 = pq_activeTask q" "pq_processing q1 = pq_processing q"
    by (simp_all add: q1_def split: option.split)
  have e: "cancel_media_queue media p q s = put_queue p q2 s1"
    using pr q1(2) by (simp add: cancel_media_queue_def Let_def q2_def q1_def [symmetric] hit_def [symmetric]
        s1_def [symmetric])
  have split: "mset (filter (\<lambda>t. tt_mediaObjectId t \<noteq> Some media) xs)
      + mset (filter (\<lambda>t. tt_mediaObjectId t = Some media) xs) = mset xs" for xs
    by (induction xs) auto
  have sums: "sum_list (map tt_bytes xs) - sum_list (map tt_bytes (filter (\<lambda>t. tt_mediaObjectId t = Some media) xs))
      = sum_list (map tt_bytes (filter (\<lambda>t. tt_mediaObjectId t \<noteq> Some media) xs))" for xs
    by (induction xs) auto
  have "weak_inv po (put_queue p q2 s1)"
    by (rule replace_weak [OF w q, where gone = hit and k = Cancelled])
      (use q1 split sums qb in \<open>simp_all add: q2_def s1_def hit_def\<close>)
  moreover have "stopped_empty (put_queue p q2 s1)"
    using em q by (auto simp: stopped_empty_def put_queue_def jm.get_put s1_def q2_def)
  moreover have "others_kept p s s1" by (simp add: others_kept_same s1_def)
  then have "others_kept p s (put_queue p q2 s1)" using others_kept_put others_kept_trans by blast
  ultimately show ?thesis by (simp add: e sched_inv_weak)
qed

lemma cancelMedia_inv:
  assumes inv: "sched_inv po s"
  shows "sched_inv po (cancelMedia media s)"
proof -
  have "sched_inv po (fold (\<lambda>(p, q). cancel_media_queue media p q) xs s)"
    if "sched_inv po s" "distinct (map fst xs)" "\<forall>(p, q) \<in> set xs. map_of (sc_queues s) p = Some q" for xs s
    using that
  proof (induction xs arbitrary: s)
    case (Cons x xs)
    obtain p q where x: "x = (p, q)" by (cases x)
    have c: "sched_inv po (cancel_media_queue media p q s) \<and> others_kept p s (cancel_media_queue media p q s)"
      using Cons.prems x by (intro cancel_media_queue_inv) auto
    have "map_of (sc_queues (cancel_media_queue media p q s)) k = Some r" if "(k, r) \<in> set xs" for k r
    proof -
      have "k \<noteq> p" using Cons.prems(2) that x by (auto intro: rev_image_eqI)
      then show ?thesis using Cons.prems(3) c that by (auto simp: others_kept_def)
    qed
    then have "sched_inv po (fold (\<lambda>(p, q). cancel_media_queue media p q) xs
        (cancel_media_queue media p q s))"
      using Cons.prems(2) c by (intro Cons.IH) auto
    then show ?case by (simp add: x)
  qed simp
  moreover have d: "distinct (jm_keys (sc_queues s))" using inv by (simp add: sched_inv_def queues_ok_def)
  then have "\<forall>(p, q) \<in> set (sc_queues s). map_of (sc_queues s) p = Some q" by (auto simp: map_of_eq_Some_iff)
  ultimately show ?thesis using inv d by (simp add: cancelMedia_def)
qed

section \<open>Runs\<close>

datatype sched_event =
    Sv_enqueue transfer_task
  | Sv_congested string
  | Sv_writable string
  | Sv_done string "failure_kind option"
  | Sv_cancelPeer string
  | Sv_cancelMedia string
  | Sv_start
  | Sv_stop

fun sched_step :: "scheduler_policy \<Rightarrow> scheduler \<Rightarrow> sched_event \<Rightarrow> scheduler" where
  "sched_step po s (Sv_enqueue t) = snd (enqueue po t s)"
| "sched_step po s (Sv_congested p) = channel_congested p s"
| "sched_step po s (Sv_writable p) = channel_writable p s"
| "sched_step po s (Sv_done p r) = task_done p r s"
| "sched_step po s (Sv_cancelPeer p) = cancelPeer p s"
| "sched_step po s (Sv_cancelMedia m) = cancelMedia m s"
| "sched_step po s Sv_start = sched_start s"
| "sched_step po s Sv_stop = sched_stop s"

lemma sched_step_inv:
  "validatePolicy po \<and> sched_inv po s \<Longrightarrow> validatePolicy po \<and> sched_inv po (sched_step po s e)"
  by (cases e) (simp_all add: enqueue_inv congested_inv writable_inv task_done_inv cancelPeer_inv
      cancelMedia_inv sched_start_inv stop_inv)

interpretation sched: machine "sched_step po" "\<lambda>s. validatePolicy po \<and> sched_inv po s" for po
  by unfold_locales (rule sched_step_inv)

lemma sched_init_inv: "sched_inv po scheduler_init"
  by (simp add: sched_inv_def scheduler_init_def queues_ok_def accounted_def pending_seqs_def)

lemma sched_run_inv: "validatePolicy po \<Longrightarrow> sched_inv po (foldl (sched_step po) scheduler_init es)"
  using sched.inv_run [of po scheduler_init es] sched_init_inv by simp

lemma sample_policy_valid: "validatePolicy defaultMediaTransferSchedulerPolicy"
  by (simp add: validatePolicy_def defaultMediaTransferSchedulerPolicy_def)

text \<open>whatever is enqueued, cancelled, stopped or restarted, and however the channels behave, the
  queue of every peer stays within the policy: at most the allowed frames and bytes, the frame in
  flight included, with a byte count that is exactly that of the waiting tasks, and every queue kept
  has a frame in flight.\<close>

theorem scheduler_bounded:
  assumes po: "validatePolicy po" and q: "(p, q) \<in> set (sc_queues (foldl (sched_step po) scheduler_init es))"
  shows "int (length (peerTasks q)) \<le> po_maxQueuedFramesPerPeer po
    \<and> pq_queuedBytes q + active_bytes q \<le> po_maxQueuedBytesPerPeer po
    \<and> pq_queuedBytes q = sum_list (map tt_bytes (pq_tasks q))
    \<and> pq_processing q \<and> pq_activeTask q \<noteq> None"
proof -
  have "queue_ok po p q \<and> live_queue q"
    using sched_run_inv [OF po, of es] q by (auto simp: sched_inv_def queues_ok_def)
  then show ?thesis
    by (auto simp: queue_ok_def live_queue_def fits_def peerTasks_def active_bytes_def)
qed

definition sample_task :: transfer_task where
  "sample_task = \<lparr>tt_peerId = ''p'', tt_bytes = 100, tt_mediaObjectId = Some ''m'',
     tt_chunkId = Some ''c'', tt_priority = None, tt_sequence = 0\<rparr>"

lemma sample_enqueue:
  "sc_queues (foldl (sched_step defaultMediaTransferSchedulerPolicy) scheduler_init [Sv_enqueue sample_task])
     = [(''p'', \<lparr>pq_tasks = [], pq_queuedBytes = 0, pq_processing = True, pq_blocked = False,
        pq_cancelled = False, pq_activeTask = Some sample_task, pq_wait = No_wait\<rparr>)]"
  by (simp add: enqueue_def scheduler_init_def sample_task_def defaultMediaTransferSchedulerPolicy_def
      Let_def capacityExceeded_def createPeerQueue_def peerTasks_def active_bytes_def add_id_def
      object_ids_def chunk_ids_def js_uniq_def set_add_def processPeerQueue_def continue_queue_def
      takeNextTask_def put_queue_def)

theorem scheduler_bounded_witness:
  "int (length (peerTasks \<lparr>pq_tasks = [], pq_queuedBytes = 0, pq_processing = True, pq_blocked = False,
        pq_cancelled = False, pq_activeTask = Some sample_task, pq_wait = No_wait\<rparr>)) \<le> 64"
  using scheduler_bounded [OF sample_policy_valid, of "''p''" _ "[Sv_enqueue sample_task]"]
  unfolding sample_enqueue by (simp add: defaultMediaTransferSchedulerPolicy_def)

lemma count_pending:
  "n \<in># pending_seqs m \<longleftrightarrow> (\<exists>(p, q) \<in> set m. n \<in> tt_sequence ` set (peerTasks q))"
  by (induction m) (auto simp: pending_seqs_def seqs_def)

text \<open>C15: every task \<open>enqueue\<close> accepted is, at any later moment, either waiting or in flight in exactly
  one queue, or its promise has been settled, once; none is lost and none is settled twice. With no
  queue left, every accepted task has its result.\<close>

theorem scheduler_settles_once:
  assumes po: "validatePolicy po"
  shows "let s = foldl (sched_step po) scheduler_init es in
    distinct (map fst (sc_settled s))
    \<and> (n < sc_sequence s \<longleftrightarrow> n \<in> set (map fst (sc_settled s))
         \<or> (\<exists>(p, q) \<in> set (sc_queues s). n \<in> tt_sequence ` set (peerTasks q)))
    \<and> \<not> (n \<in> set (map fst (sc_settled s))
         \<and> (\<exists>(p, q) \<in> set (sc_queues s). n \<in> tt_sequence ` set (peerTasks q)))"
proof -
  define s where "s = foldl (sched_step po) scheduler_init es"
  have acc: "pending_seqs (sc_queues s) + mset (map fst (sc_settled s)) = mset [0 ..< sc_sequence s]"
    using sched_run_inv [OF po, of es] by (simp add: sched_inv_def accounted_def s_def)
  obtain xs where xs: "mset xs = pending_seqs (sc_queues s)" by (metis ex_mset)
  have eq: "mset (xs @ map fst (sc_settled s)) = mset [0 ..< sc_sequence s]"
    by (simp only: mset_append xs acc)
  then have d: "distinct (xs @ map fst (sc_settled s))" using mset_eq_imp_distinct_iff by fastforce
  have "set (xs @ map fst (sc_settled s)) = {0 ..< sc_sequence s}"
    using eq by (metis atLeastLessThan_upt set_mset_mset)
  then have "n \<in> set (xs @ map fst (sc_settled s)) \<longleftrightarrow> n \<in> {0 ..< sc_sequence s}" by (simp only:)
  then have "n \<in> set xs \<or> n \<in> set (map fst (sc_settled s)) \<longleftrightarrow> n < sc_sequence s"
    unfolding set_append Un_iff atLeastLessThan_iff by simp
  moreover have "(\<exists>(p, q) \<in> set (sc_queues s). n \<in> tt_sequence ` set (peerTasks q)) \<longleftrightarrow> n \<in> set xs"
    using count_pending [of n "sc_queues s"] xs by (metis set_mset_mset)
  ultimately show ?thesis
    using d unfolding s_def [symmetric] Let_def by (simp only: distinct_append) blast
qed

theorem scheduler_settles_once_witness:
  "distinct (map fst (sc_settled (foldl (sched_step defaultMediaTransferSchedulerPolicy) scheduler_init
     [Sv_enqueue sample_task, Sv_done ''p'' None])))"
  using scheduler_settles_once [OF sample_policy_valid, of "[Sv_enqueue sample_task, Sv_done ''p'' None]" 0]
  unfolding Let_def by blast

section \<open>Which task goes next\<close>

text \<open>the task taken next has the highest priority and, among those, was enqueued first; the others
  stay queued, and the byte count drops by the bytes of the one taken. Nothing is taken exactly when
  nothing waits.\<close>

theorem takeNextTask_order:
  "(case takeNextTask q of
      None \<Rightarrow> pq_tasks q = []
    | Some (t, q') \<Rightarrow> mset (pq_tasks q) = add_mset t (mset (pq_tasks q'))
        \<and> pq_queuedBytes q' = pq_queuedBytes q - tt_bytes t
        \<and> (\<forall>u \<in> set (pq_tasks q). priority_of u < priority_of t
             \<or> priority_of u = priority_of t \<and> tt_sequence t \<le> tt_sequence u))"
proof (cases "takeNextTask q")
  case None
  then have "pq_tasks q = []" by (simp only: takeNextTask_None)
  then show ?thesis using None by (simp only: option.case)
next
  case (Some x)
  obtain t q' where x: "x = (t, q')" by (cases x)
  note sp = takeNextTask_spec [OF Some [unfolded x]]
  have "priority_of u < priority_of t \<or> priority_of u = priority_of t \<and> tt_sequence t \<le> tt_sequence u"
    if "u \<in> set (pq_tasks q)" for u
  proof -
    have "compare_tasks t u \<le> 0" using sp(3) that by blast
    then show ?thesis by (auto simp: compare_tasks_def js_or_def split: if_splits)
  qed
  then show ?thesis using Some x sp(1,2) by simp
qed

definition two_tasks :: peer_queue where
  "two_tasks = createPeerQueue\<lparr>pq_tasks := [sample_task\<lparr>tt_sequence := 2\<rparr>,
     sample_task\<lparr>tt_sequence := 1\<rparr>], pq_queuedBytes := 200\<rparr>"

theorem takeNextTask_order_witness:
  "\<exists>t q'. takeNextTask two_tasks = Some (t, q') \<and> tt_sequence t \<le> 1 \<and> length (pq_tasks q') = 1"
proof (cases "takeNextTask two_tasks")
  case None
  then show ?thesis using takeNextTask_order [of two_tasks] by (simp add: two_tasks_def)
next
  case (Some x)
  obtain t q' where x: "x = (t, q')" by (cases x)
  have m: "mset (pq_tasks two_tasks) = add_mset t (mset (pq_tasks q'))"
    and le: "priority_of (sample_task\<lparr>tt_sequence := 1\<rparr>) < priority_of t
       \<or> priority_of (sample_task\<lparr>tt_sequence := 1\<rparr>) = priority_of t \<and> tt_sequence t \<le> 1"
    using takeNextTask_order [of two_tasks] Some x by (auto simp: two_tasks_def)
  have "size (add_mset t (mset (pq_tasks q'))) = 2"
    unfolding m [symmetric] by (simp add: two_tasks_def)
  moreover have "t \<in> set (pq_tasks two_tasks)" by (metis m set_mset_mset union_single_eq_member)
  then have "priority_of t = priority_of (sample_task\<lparr>tt_sequence := 1\<rparr>)"
    by (auto simp: two_tasks_def priority_of_def)
  ultimately show ?thesis using Some x le by simp
qed

section \<open>A queue cancelled in flight\<close>

text \<open>\<open>cancelled\<close> is never reset: when a peer is cancelled while a frame is in flight and a task for
  the same peer (reconnected) is accepted before that frame ends, the new task joins the cancelled
  queue, its frame is sent successfully, and its promise is rejected as cancelled all the same.\<close>

theorem cancelled_queue_rejects_sent_task:
  assumes q: "map_of (sc_queues s) p = Some q" "pq_processing q" "pq_activeTask q = Some a"
      "pq_wait q = No_wait" and run: "sc_running s"
    and t: "tt_peerId t = p" "enqueue po t (cancelPeer p s) = (None, s')"
  shows "(sc_sequence s, Rejected Cancelled) \<in> set (sc_settled (task_done p None (task_done p None s')))"
proof -
  define q1 where "q1 = q\<lparr>pq_cancelled := True, pq_tasks := [], pq_queuedBytes := 0\<rparr>"
  define c where "c = cancelPeer p s"
  have c: "map_of (sc_queues c) p = Some q1" "sc_running c" "sc_sequence c = sc_sequence s"
    using q run
    by (simp_all add: c_def cancelPeer_def rejectQueuedTasks_def cancel_wait_def put_queue_def q1_def
        jm.get_put)
  define t1 where "t1 = t\<lparr>tt_sequence := sc_sequence s\<rparr>"
  define q2 where "q2 = q1\<lparr>pq_tasks := [t1], pq_queuedBytes := tt_bytes t\<rparr>"
  have s': "map_of (sc_queues s') p = Some q2" "sc_running s'"
    using t(2) c q(2) t(1)
    by (auto simp: c_def [symmetric] enqueue_def Let_def processPeerQueue_def q1_def q2_def t1_def
        put_queue_def jm.get_put split: if_splits)
  define q3 where "q3 = q2\<lparr>pq_activeTask := Some t1, pq_tasks := [], pq_queuedBytes := 0,
      pq_processing := True, pq_wait := No_wait\<rparr>"
  define s3 where "s3 = task_done p None s'"
  have "map_of (sc_queues s3) p = Some q3 \<and> sc_running s3"
    using s' q
    by (simp add: s3_def task_done_def task_result_def q2_def q1_def q3_def continue_queue_def
        takeNextTask_def put_queue_def jm.get_put t1_def)
  then have "(tt_sequence t1, Rejected Cancelled) \<in> set (sc_settled (task_done p None s3))"
    by (simp add: task_done_def task_result_def q3_def q2_def q1_def continue_queue_def
        takeNextTask_def drop_queue_def)
  then show ?thesis by (simp add: s3_def t1_def)
qed

theorem cancelled_queue_rejects_sent_task_witness:
  "\<exists>s'. enqueue defaultMediaTransferSchedulerPolicy sample_task (cancelPeer ''p''
        (foldl (sched_step defaultMediaTransferSchedulerPolicy) scheduler_init [Sv_enqueue sample_task]))
      = (None, s')
    \<and> (1, Rejected Cancelled) \<in> set (sc_settled (task_done ''p'' None (task_done ''p'' None s')))"
proof -
  define s where "s = foldl (sched_step defaultMediaTransferSchedulerPolicy) scheduler_init [Sv_enqueue sample_task]"
  have s: "s = \<lparr>sc_queues = [(''p'', \<lparr>pq_tasks = [], pq_queuedBytes = 0, pq_processing = True,
      pq_blocked = False, pq_cancelled = False, pq_activeTask = Some sample_task, pq_wait = No_wait\<rparr>)],
      sc_sequence = 1, sc_running = True, sc_sentFrames = 0, sc_sentBytes = 0, sc_rejectedFrames = 0,
      sc_cancelledFrames = 0, sc_writableWaits = 0, sc_settled = []\<rparr>"
    by (simp add: s_def enqueue_def scheduler_init_def sample_task_def defaultMediaTransferSchedulerPolicy_def
      Let_def capacityExceeded_def createPeerQueue_def peerTasks_def active_bytes_def add_id_def
      object_ids_def chunk_ids_def js_uniq_def set_add_def processPeerQueue_def continue_queue_def
      takeNextTask_def put_queue_def)
  obtain s' where s': "enqueue defaultMediaTransferSchedulerPolicy sample_task (cancelPeer ''p'' s) = (None, s')"
    by (simp add: s cancelPeer_def rejectQueuedTasks_def cancel_wait_def put_queue_def settle_def
        enqueue_def sample_task_def defaultMediaTransferSchedulerPolicy_def Let_def capacityExceeded_def
        peerTasks_def active_bytes_def add_id_def object_ids_def chunk_ids_def js_uniq_def set_add_def)
  show ?thesis
    using cancelled_queue_rejects_sent_task [of s "''p''" _ sample_task sample_task, OF _ _ _ _ _ _ s'] s'
    unfolding s_def [symmetric] by (simp add: s sample_task_def)
qed

section \<open>The payload search\<close>

definition frame_size :: "(int \<Rightarrow> int \<Rightarrow> int) \<Rightarrow> int \<Rightarrow> int \<Rightarrow> int" where
  "frame_size frameBytes n c = frameBytes c (- ((- n) div c))"

declare payload_search.simps [simp del]

lemma payload_search_step:
  "payload_search f m n low high best =
     (if low > high then best
      else let c = low + (high - low) div 2 in
        if frame_size f n c \<le> m then payload_search f m n (c + 1) high c
        else payload_search f m n low (c - 1) best)"
  by (subst payload_search.simps) (simp add: frame_size_def Let_def)

lemma payload_search_fits:
  "1 \<le> low \<Longrightarrow> high \<le> n \<Longrightarrow> 0 \<le> best \<Longrightarrow> best \<le> n \<Longrightarrow> best = 0 \<or> frame_size f n best \<le> m
     \<Longrightarrow> 0 \<le> payload_search f m n low high best \<and> payload_search f m n low high best \<le> n
       \<and> (payload_search f m n low high best = 0
          \<or> frame_size f n (payload_search f m n low high best) \<le> m)"
proof (induction "nat (high - low + 1)" arbitrary: low high best rule: less_induct)
  case less
  define c where "c = low + (high - low) div 2"
  show ?case
  proof (cases "low > high")
    case False
    then have c: "low \<le> c" "c \<le> high" by (simp_all add: c_def)
    show ?thesis
      using False c less.prems less.hyps [of high "c + 1" c] less.hyps [of "c - 1" low best]
      by (subst (1 2 3 4) payload_search_step) (auto simp: c_def [symmetric] Let_def)
  qed (use less.prems in \<open>simp add: payload_search_step\<close>)
qed

lemma payload_search_max:
  assumes mono: "\<And>a b. 1 \<le> a \<Longrightarrow> a \<le> b \<Longrightarrow> b \<le> n \<Longrightarrow> frame_size f n a \<le> frame_size f n b"
  shows "1 \<le> low \<Longrightarrow> high \<le> n \<Longrightarrow> (\<And>d. high < d \<Longrightarrow> d \<le> n \<Longrightarrow> m < frame_size f n d)
     \<Longrightarrow> (\<And>d. 1 \<le> d \<Longrightarrow> d < low \<Longrightarrow> d \<le> best)
     \<Longrightarrow> 1 \<le> e \<Longrightarrow> e \<le> n \<Longrightarrow> frame_size f n e \<le> m \<Longrightarrow> e \<le> payload_search f m n low high best"
proof (induction "nat (high - low + 1)" arbitrary: low high best rule: less_induct)
  case less
  define c where "c = low + (high - low) div 2"
  show ?case
  proof (cases "low > high")
    case True
    have "e \<le> high" using less.prems(3) [of e] less.prems(6,7) by linarith
    then have "e \<le> best" using less.prems(4,5) True by simp
    then show ?thesis using True by (simp add: payload_search_step)
  next
    case False
    then have c: "low \<le> c" "c \<le> high" by (simp_all add: c_def)
    show ?thesis
    proof (cases "frame_size f n c \<le> m")
      case True
      have "e \<le> payload_search f m n (c + 1) high c"
        by (rule less.hyps) (use False c less.prems in auto)
      then show ?thesis
        using False True by (subst payload_search_step) (simp add: c_def [symmetric] Let_def)
    next
      case bad: False
      have "m < frame_size f n d" if "c - 1 < d" "d \<le> n" for d
        using bad mono [of c d] c less.prems(1) that by linarith
      then have "e \<le> payload_search f m n low (c - 1) best"
        by (intro less.hyps) (use False c less.prems in auto)
      then show ?thesis
        using False bad by (subst payload_search_step) (simp add: c_def [symmetric] Let_def)
    qed
  qed
qed

text \<open>the payload size found always gives a frame within the limit (or is 0), and where larger
  payloads never make smaller frames it is the largest one that fits, so 0 means none fits.\<close>

theorem max_payload_correct:
  assumes "\<And>a b. 1 \<le> a \<Longrightarrow> a \<le> b \<Longrightarrow> b \<le> n \<Longrightarrow> frame_size f n a \<le> frame_size f n b"
    and "0 < m" and "1 \<le> e" and "e \<le> n" and "frame_size f n e \<le> m"
  shows "e \<le> calculateMaxRawPayloadBytes f m n \<and> calculateMaxRawPayloadBytes f m n \<le> n
    \<and> frame_size f n (calculateMaxRawPayloadBytes f m n) \<le> m"
proof -
  have r: "calculateMaxRawPayloadBytes f m n = payload_search f m n 1 n 0"
    using assms(2-4) by (simp add: calculateMaxRawPayloadBytes_def)
  have le: "e \<le> payload_search f m n 1 n 0"
    by (rule payload_search_max) (use assms in auto)
  moreover have "payload_search f m n 1 n 0 \<le> n \<and>
      (payload_search f m n 1 n 0 = 0 \<or> frame_size f n (payload_search f m n 1 n 0) \<le> m)"
    using payload_search_fits [of 1 n n 0 f m] assms(3,4) by simp
  ultimately show ?thesis using assms(3) by (auto simp: r)
qed

theorem max_payload_correct_witness:
  "30 \<le> calculateMaxRawPayloadBytes (\<lambda>c k. 2 * c + 10) 100 1000"
  using max_payload_correct [of 1000 "\<lambda>c k. 2 * c + 10" 100 30] by (simp add: frame_size_def)

end
