(* ===== verification/NetMessage.thy ===== *)
theory NetMessage
  imports Canonical
begin

text \<open>
  The envelope of every frame between two peers (\<open>src/network/NetworkMessage.ts\<close>): building a
  message, validating one that arrived, and the table that refuses a message seen before. What
  arrives is an unknown JavaScript value, a \<open>jsval\<close>; \<open>Jv_other\<close> stands for the values
  \<open>JSON.stringify\<close> throws on (a bigint). Timestamps are safe integers; the time to
  live keeps its non-finite values, because the code does not exclude them.
\<close>

section \<open>Numbers with their non-finite values\<close>

fun num_val :: "number \<Rightarrow> jsval" where
  "num_val (Fin i) = Jv_num i"
| "num_val (Non x) = Jv_nonfinite x"

fun num_of :: "jsval \<Rightarrow> number option" where
  \<comment> \<open>\<open>typeof v === 'number'\<close>\<close>
  "num_of (Jv_num i) = Some (Fin i)"
| "num_of (Jv_nonfinite x) = Some (Non x)"
| "num_of v = None"

fun num_add :: "int \<Rightarrow> number \<Rightarrow> number" where
  "num_add i (Fin j) = Fin (i + j)"
| "num_add i (Non x) = Non x"

fun num_less :: "number \<Rightarrow> int \<Rightarrow> bool" where
  \<comment> \<open>\<open>x < now\<close>: false for NaN.\<close>
  "num_less (Fin i) n = (i < n)"
| "num_less (Non x) n = (x = Neg_infinity)"

fun num_nonpos :: "number \<Rightarrow> bool" where
  "num_nonpos (Fin i) = (i \<le> 0)"
| "num_nonpos (Non x) = (x = Neg_infinity)"

fun num_diff_cmp :: "number \<Rightarrow> number \<Rightarrow> int" where
  \<comment> \<open>The comparator \<open>left - right\<close>; \<open>sort\<close> reads NaN as zero.\<close>
  "num_diff_cmp (Fin i) (Fin j) = i - j"
| "num_diff_cmp (Fin i) (Non y) = (case y of Nan \<Rightarrow> 0 | Pos_infinity \<Rightarrow> - 1 | Neg_infinity \<Rightarrow> 1)"
| "num_diff_cmp (Non x) (Fin j) = (case x of Nan \<Rightarrow> 0 | Pos_infinity \<Rightarrow> 1 | Neg_infinity \<Rightarrow> - 1)"
| "num_diff_cmp (Non x) (Non y) =
     (if x = Nan \<or> y = Nan \<or> x = y then 0 else if x = Pos_infinity then 1 else - 1)"

lemma num_of_val [simp]: "num_of (num_val n) = Some n"
  by (cases n) auto

section \<open>\<open>JSON.stringify\<close> on any value\<close>

datatype serialized = Throws | Absent | Text json

fun or_null :: "serialized \<Rightarrow> serialized" where
  "or_null Absent = Text J_null"
| "or_null s = s"

fun to_json :: "jsval \<Rightarrow> serialized"
  and to_json_elems :: "jsval list \<Rightarrow> json list option"
  and to_json_fields :: "(string \<times> jsval) list \<Rightarrow> (string \<times> json) list option" where
  "to_json Jv_undefined = Absent"
| "to_json Jv_null = Text J_null"
| "to_json (Jv_bool b) = Text (J_bool b)"
| "to_json (Jv_num n) = Text (J_num n)"
| "to_json (Jv_nonfinite x) = Text J_null"
| "to_json (Jv_str s) = Text (J_str s)"
| "to_json (Jv_arr xs) = (case to_json_elems xs of None \<Rightarrow> Throws | Some vs \<Rightarrow> Text (J_arr vs))"
| "to_json (Jv_obj kvs) = (case to_json_fields kvs of None \<Rightarrow> Throws | Some vs \<Rightarrow> Text (J_obj vs))"
| "to_json Jv_other = Throws"
| "to_json_elems [] = Some []"
| "to_json_elems (x # xs) = (case or_null (to_json x) of
     Text v \<Rightarrow> map_option (\<lambda>vs. v # vs) (to_json_elems xs) | _ \<Rightarrow> None)"
| "to_json_fields [] = Some []"
| "to_json_fields ((k, v) # kvs) = (case to_json v of
     Throws \<Rightarrow> None
   | Absent \<Rightarrow> to_json_fields kvs
   | Text w \<Rightarrow> map_option (\<lambda>vs. (k, w) # vs) (to_json_fields kvs))"

section \<open>Sizes\<close>

text \<open>\<open>TextEncoder\<close> writes three replacement bytes for a lone surrogate and UTF-8 otherwise; the
  fallback walks the code points.\<close>

fun text_encode :: "code_unit list \<Rightarrow> byte list" where
  "text_encode (c # n # rest) =
     (if is_high c \<and> is_low n then encode_point (pair_point c n) @ text_encode rest
      else (if is_high c \<or> is_low c then [0xEF, 0xBF, 0xBD] else encode_point (ucast c))
             @ text_encode (n # rest))"
| "text_encode [c] = (if is_high c \<or> is_low c then [0xEF, 0xBF, 0xBD] else encode_point (ucast c))"
| "text_encode [] = []"

definition point_bytes :: "u32 \<Rightarrow> nat" where
  "point_bytes p = (if p \<le> 0x7F then 1 else if p \<le> 0x7FF then 2 else if p \<le> 0xFFFF then 3 else 4)"

fun code_point_bytes :: "code_unit list \<Rightarrow> nat" where
  "code_point_bytes (c # n # rest) =
     (if is_high c \<and> is_low n then point_bytes (pair_point c n) + code_point_bytes rest
      else point_bytes (ucast c) + code_point_bytes (n # rest))"
| "code_point_bytes [c] = point_bytes (ucast c)"
| "code_point_bytes [] = 0"

definition utf8ByteLength :: "bool \<Rightarrow> code_unit list \<Rightarrow> nat" where
  "utf8ByteLength has_encoder value =
     (if has_encoder then length (text_encode value) else code_point_bytes value)"

definition max_message_bytes :: nat where
  "max_message_bytes = 256 * 1024"

definition estimateNetworkMessageBytes :: "bool \<Rightarrow> jsval \<Rightarrow> nat" where
  \<comment> \<open>The text of \<open>undefined\<close> encodes to nothing.\<close>
  "estimateNetworkMessageBytes enc data = (case to_json data of
     Throws \<Rightarrow> max_message_bytes + 1
   | Absent \<Rightarrow> 0
   | Text j \<Rightarrow> utf8ByteLength enc (units (stringify j)))"

section \<open>Messages\<close>

definition protocol_version :: int where
  "protocol_version = 1"

record network_message =
  nm_messageId :: string
  nm_messageType :: string
  nm_senderId :: string
  nm_timestamp :: int
  nm_payload :: jsval
  nm_signature :: "string option"
  nm_correlationId :: "string option"
  nm_sequence :: "number option"
  nm_ttlMs :: number

record message_input =
  mi_messageType :: string
  mi_senderId :: string
  mi_payload :: jsval
  mi_signature :: "string option"
  mi_correlationId :: "string option"
  mi_sequence :: "number option"
  mi_ttlMs :: "number option"
  mi_timestamp :: "int option"

definition message_id_value :: "message_input \<Rightarrow> int \<Rightarrow> jsval" where
  "message_id_value inp now = Jv_obj [
     (''protocolVersion'', Jv_num protocol_version),
     (''messageType'', Jv_str (mi_messageType inp)),
     (''senderId'', Jv_str (mi_senderId inp)),
     (''timestamp'', Jv_num (or_else (mi_timestamp inp) now)),
     (''payload'', mi_payload inp),
     (''correlationId'', case mi_correlationId inp of None \<Rightarrow> Jv_null | Some s \<Rightarrow> Jv_str s),
     (''sequence'', case mi_sequence inp of None \<Rightarrow> Jv_null | Some n \<Rightarrow> num_val n),
     (''ttlMs'', num_val (or_else (mi_ttlMs inp) (Fin 60000)))]"

definition createNetworkMessage :: "message_input \<Rightarrow> int \<Rightarrow> network_message option" where
  \<comment> \<open>\<open>None\<close>: \<open>JSON.stringify\<close> throws on the payload.\<close>
  "createNetworkMessage inp now = (case to_json (message_id_value inp now) of
     Text canonicalPayload \<Rightarrow> Some \<lparr>
       nm_messageId = sha256Hex (stringify canonicalPayload),
       nm_messageType = mi_messageType inp,
       nm_senderId = mi_senderId inp,
       nm_timestamp = or_else (mi_timestamp inp) now,
       nm_payload = mi_payload inp,
       nm_signature = mi_signature inp,
       nm_correlationId = mi_correlationId inp,
       nm_sequence = mi_sequence inp,
       nm_ttlMs = or_else (mi_ttlMs inp) (Fin 60000)\<rparr>
   | _ \<Rightarrow> None)"

text \<open>The object a message is.\<close>

definition message_value :: "network_message \<Rightarrow> jsval" where
  "message_value m = Jv_obj [
     (''protocolVersion'', Jv_num protocol_version),
     (''messageId'', Jv_str (nm_messageId m)),
     (''messageType'', Jv_str (nm_messageType m)),
     (''senderId'', Jv_str (nm_senderId m)),
     (''timestamp'', Jv_num (nm_timestamp m)),
     (''payload'', nm_payload m),
     (''signature'', opt_str (nm_signature m)),
     (''correlationId'', opt_str (nm_correlationId m)),
     (''sequence'', case nm_sequence m of None \<Rightarrow> Jv_undefined | Some n \<Rightarrow> num_val n),
     (''ttlMs'', num_val (nm_ttlMs m))]"

datatype message_error =
    Not_an_object
  | Unsupported_protocol_version
  | Missing_message_id
  | Missing_message_type
  | Missing_sender_id
  | Invalid_timestamp
  | Invalid_ttl
  | Message_expired
  | Message_too_large

fun isRecord :: "jsval \<Rightarrow> bool" where
  "isRecord (Jv_obj kvs) = True"
| "isRecord v = False"

fun field :: "jsval \<Rightarrow> string \<Rightarrow> jsval" where
  "field (Jv_obj kvs) k = (case map_of kvs k of None \<Rightarrow> Jv_undefined | Some v \<Rightarrow> v)"
| "field v k = Jv_undefined"

fun str_of :: "jsval \<Rightarrow> string option" where
  "str_of (Jv_str s) = Some s"
| "str_of v = None"

fun finite_of :: "jsval \<Rightarrow> int option" where
  "finite_of (Jv_num i) = Some i"
| "finite_of v = None"

fun arr_of :: "jsval \<Rightarrow> jsval list option" where
  "arr_of (Jv_arr xs) = Some xs"
| "arr_of v = None"

fun bool_val :: "jsval \<Rightarrow> bool option" where
  "bool_val (Jv_bool b) = Some b"
| "bool_val v = None"

fun collect :: "('a \<Rightarrow> 'b option) \<Rightarrow> 'a list \<Rightarrow> 'b list option" where
  "collect f [] = Some []"
| "collect f (x # xs) = (case (f x, collect f xs) of (Some y, Some ys) \<Rightarrow> Some (y # ys) | _ \<Rightarrow> None)"

definition opt_field :: "(jsval \<Rightarrow> 'a option) \<Rightarrow> jsval \<Rightarrow> 'a option option" where
  \<comment> \<open>A field that may be \<open>undefined\<close>; \<open>None\<close>: it is something else.\<close>
  "opt_field f v = (if v = Jv_undefined then Some None else map_option Some (f v))"

lemma collect_map: "(\<And>x. x \<in> set xs \<Longrightarrow> f (g x) = Some x) \<Longrightarrow> collect f (map g xs) = Some xs"
  by (induction xs) auto

lemma str_of_opt [simp]: "str_of (opt_str x) = x"
  by (cases x) (simp_all add: opt_str_def)

definition validateNetworkMessage :: "bool \<Rightarrow> jsval \<Rightarrow> int \<Rightarrow> message_error + network_message" where
  "validateNetworkMessage enc data now =
     (if \<not> isRecord data then Inl Not_an_object
      else if field data ''protocolVersion'' \<noteq> Jv_num protocol_version
      then Inl Unsupported_protocol_version
      else (case str_of (field data ''messageId'') of
        None \<Rightarrow> Inl Missing_message_id
      | Some messageId \<Rightarrow> if messageId = [] then Inl Missing_message_id else
      (case str_of (field data ''messageType'') of
        None \<Rightarrow> Inl Missing_message_type
      | Some messageType \<Rightarrow>
      (case str_of (field data ''senderId'') of
        None \<Rightarrow> Inl Missing_sender_id
      | Some senderId \<Rightarrow> if senderId = [] then Inl Missing_sender_id else
      (case finite_of (field data ''timestamp'') of
        None \<Rightarrow> Inl Invalid_timestamp
      | Some timestamp \<Rightarrow>
      (case num_of (field data ''ttlMs'') of
        None \<Rightarrow> Inl Invalid_ttl
      | Some ttlMs \<Rightarrow> if num_nonpos ttlMs then Inl Invalid_ttl
        else if num_less (num_add timestamp ttlMs) now then Inl Message_expired
        else if estimateNetworkMessageBytes enc data > max_message_bytes
        then Inl Message_too_large
        else Inr \<lparr>
          nm_messageId = messageId,
          nm_messageType = messageType,
          nm_senderId = senderId,
          nm_timestamp = timestamp,
          nm_payload = field data ''payload'',
          nm_signature = str_of (field data ''signature''),
          nm_correlationId = str_of (field data ''correlationId''),
          nm_sequence = num_of (field data ''sequence''),
          nm_ttlMs = ttlMs\<rparr>))))))"

section \<open>The table of seen messages\<close>

record deduplicator =
  dd_seen :: "(string, number) jsmap"
  dd_maxEntries :: nat

definition dedup_prune :: "int \<Rightarrow> deduplicator \<Rightarrow> deduplicator" where
  "dedup_prune now d = d\<lparr>dd_seen := filter (\<lambda>(messageId, expiresAt). \<not> num_less expiresAt now) (dd_seen d)\<rparr>"

definition expiry_cmp :: "string \<times> number \<Rightarrow> string \<times> number \<Rightarrow> int" where
  "expiry_cmp l r = num_diff_cmp (snd l) (snd r)"

definition dedup_accept :: "network_message \<Rightarrow> int \<Rightarrow> deduplicator \<Rightarrow> deduplicator \<times> bool" where
  "dedup_accept message now d0 = (let d = dedup_prune now d0 in
     if map_of (dd_seen d) (nm_messageId message) \<noteq> None then (d, False)
     else (let seen = jm_set (nm_messageId message)
                        (num_add (nm_timestamp message) (nm_ttlMs message)) (dd_seen d) in
       (d\<lparr>dd_seen :=
            (if length seen > dd_maxEntries d
             then (case js_sort expiry_cmp seen of
                     [] \<Rightarrow> seen | oldest # _ \<Rightarrow> jm_delete (fst oldest) seen)
             else seen)\<rparr>, True)))"

definition dedup_clear :: "deduplicator \<Rightarrow> deduplicator" where
  "dedup_clear d = d\<lparr>dd_seen := []\<rparr>"

end
