(* ===== verification/NetMessage_Claims.thy ===== *)
theory NetMessage_Claims
  imports NetMessage
begin

text \<open>
  What the message envelope promises: both ways of measuring a text agree, a message that was built
  here is accepted or refused by the validation for exactly the documented reasons, and the table of
  seen messages is bounded and refuses replays as long as it is not full. Two theorems record where
  it does less than it means to: an infinite time to live, and a full table.
\<close>

section \<open>Sizes\<close>

lemma length_encode_point: "length (encode_point p) = point_bytes p"
  by (simp add: encode_point_def point_bytes_def word_less_nat_alt word_le_nat_alt)

lemma surrogate_bytes: "is_high c \<or> is_low c \<Longrightarrow> point_bytes (ucast c) = 3"
  using unat_code_unit_less [of c]
  by (auto simp: point_bytes_def is_high_def is_low_def to_nat)

lemma length_text_encode: "length (text_encode s) = code_point_bytes s"
  by (induction s rule: text_encode.induct)
    (auto simp: length_encode_point surrogate_bytes)

text \<open>The fallback of \<open>utf8ByteLength\<close> counts the bytes \<open>TextEncoder\<close> would write, lone
  surrogates included, so the size limit does not depend on the platform.\<close>

theorem utf8ByteLength_fallback:
  "utf8ByteLength False s = utf8ByteLength True s"
  by (simp add: utf8ByteLength_def length_text_encode)

section \<open>Validation\<close>

lemma num_of_opt: "num_of (case x of None \<Rightarrow> Jv_undefined | Some n \<Rightarrow> num_val n) = x"
  by (cases x) simp_all

lemma message_fields:
  "isRecord (message_value m)"
  "field (message_value m) ''protocolVersion'' = Jv_num protocol_version"
  "str_of (field (message_value m) ''messageId'') = Some (nm_messageId m)"
  "str_of (field (message_value m) ''messageType'') = Some (nm_messageType m)"
  "str_of (field (message_value m) ''senderId'') = Some (nm_senderId m)"
  "finite_of (field (message_value m) ''timestamp'') = Some (nm_timestamp m)"
  "num_of (field (message_value m) ''ttlMs'') = Some (nm_ttlMs m)"
  "field (message_value m) ''payload'' = nm_payload m"
  "str_of (field (message_value m) ''signature'') = nm_signature m"
  "str_of (field (message_value m) ''correlationId'') = nm_correlationId m"
  "num_of (field (message_value m) ''sequence'') = nm_sequence m"
  by (simp_all add: message_value_def num_of_opt)

lemma validate_message_value:
  "validateNetworkMessage enc (message_value m) now =
     (if nm_messageId m = [] then Inl Missing_message_id
      else if nm_senderId m = [] then Inl Missing_sender_id
      else if num_nonpos (nm_ttlMs m) then Inl Invalid_ttl
      else if num_less (num_add (nm_timestamp m) (nm_ttlMs m)) now then Inl Message_expired
      else if estimateNetworkMessageBytes enc (message_value m) > max_message_bytes
      then Inl Message_too_large else Inr m)"
  unfolding validateNetworkMessage_def by (simp add: message_fields)

text \<open>A message built by \<open>createNetworkMessage\<close> is returned unchanged by
  \<open>validateNetworkMessage\<close>, until its time to live has passed, unless it names no sender, has no
  positive time to live or is larger than 256 KiB; each of these is reported by its own error, in
  this order.\<close>

theorem created_message_validates:
  assumes "createNetworkMessage inp t = Some m"
  shows "validateNetworkMessage enc (message_value m) now =
     (if mi_senderId inp = [] then Inl Missing_sender_id
      else if num_nonpos (nm_ttlMs m) then Inl Invalid_ttl
      else if num_less (num_add (nm_timestamp m) (nm_ttlMs m)) now then Inl Message_expired
      else if estimateNetworkMessageBytes enc (message_value m) > max_message_bytes
      then Inl Message_too_large else Inr m)"
proof -
  obtain j where m: "nm_messageId m = sha256Hex (stringify j)" "nm_senderId m = mi_senderId inp"
    using assms by (auto simp: createNetworkMessage_def split: serialized.splits)
  have "sha256Hex (stringify j) \<noteq> []"
    using length_sha256Hex [of "stringify j"] by (metis list.size(3) zero_neq_numeral)
  then show ?thesis by (simp add: validate_message_value m)
qed

definition sample_message_input :: message_input where
  "sample_message_input = \<lparr>mi_messageType = ''peer.heartbeat'', mi_senderId = [], mi_payload = Jv_null,
     mi_signature = None, mi_correlationId = None, mi_sequence = None, mi_ttlMs = None,
     mi_timestamp = Some 5\<rparr>"

theorem created_message_validates_witness:
  "\<exists>m. createNetworkMessage sample_message_input 0 = Some m
     \<and> validateNetworkMessage True (message_value m) 10 = Inl Missing_sender_id"
proof -
  obtain m where m: "createNetworkMessage sample_message_input 0 = Some m"
    by (simp add: createNetworkMessage_def message_id_value_def sample_message_input_def or_else_def
        protocol_version_def)
  show ?thesis
    using created_message_validates [OF m, of True 10] m by (simp add: sample_message_input_def)
qed

text \<open>The time to live is not checked to be finite: a message whose \<open>ttlMs\<close> is infinite (the
  JSON number \<open>1e999\<close>) passes the validation at every time, and its entry in the table of seen
  messages is never pruned.\<close>

theorem infinite_ttl_never_expires:
  assumes "nm_ttlMs m = Non Pos_infinity" and "nm_messageId m \<noteq> []" and "nm_senderId m \<noteq> []"
    and "estimateNetworkMessageBytes enc (message_value m) \<le> max_message_bytes"
  shows "validateNetworkMessage enc (message_value m) now = Inr m
    \<and> dedup_prune now \<lparr>dd_seen = [(nm_messageId m, num_add (nm_timestamp m) (nm_ttlMs m))],
          dd_maxEntries = n\<rparr>
        = \<lparr>dd_seen = [(nm_messageId m, num_add (nm_timestamp m) (nm_ttlMs m))], dd_maxEntries = n\<rparr>"
  using assms by (simp add: validate_message_value dedup_prune_def)

definition endless_message :: network_message where
  "endless_message = \<lparr>nm_messageId = ''m'', nm_messageType = ''peer.heartbeat'', nm_senderId = ''p'',
     nm_timestamp = 5, nm_payload = Jv_null, nm_signature = None, nm_correlationId = None,
     nm_sequence = None, nm_ttlMs = Non Pos_infinity\<rparr>"

lemma length_quote_le: "length (quote s) \<le> 2 + 6 * length s"
proof -
  have "length (esc_char c) \<le> 6" for c by (simp add: esc_char_def Let_def)
  then have "length (concat (map esc_char s)) \<le> 6 * length s"
    by (induction s) (auto intro: add_mono order_trans)
  then show ?thesis by (simp add: quote_def)
qed

lemma code_point_bytes_le: "code_point_bytes s \<le> 4 * length s"
proof -
  have p: "point_bytes p \<le> 4" for p by (simp add: point_bytes_def)
  show ?thesis
  proof (induction s rule: code_point_bytes.induct)
    case (1 c n rest)
    then show ?case using p [of "pair_point c n"] p [of "ucast c"] by auto
  next
    case (2 c)
    then show ?case using p [of "ucast c"] by simp
  qed simp
qed

lemma utf8ByteLength_le: "utf8ByteLength enc s \<le> 4 * length s"
  using code_point_bytes_le [of s] by (simp add: utf8ByteLength_def length_text_encode)

lemma show_digit: "n < 10 \<Longrightarrow> show_nat n = [digit n]"
  by (subst show_nat.simps) simp

lemma endless_message_size:
  "estimateNetworkMessageBytes False (message_value endless_message) \<le> max_message_bytes"
proof -
  define j where "j = J_obj [(''protocolVersion'', J_num 1), (''messageId'', J_str ''m''),
     (''messageType'', J_str ''peer.heartbeat''), (''senderId'', J_str ''p''),
     (''timestamp'', J_num 5), (''payload'', J_null), (''ttlMs'', J_null)]"
  have j: "to_json (message_value endless_message) = Text j"
    by (simp add: message_value_def endless_message_def opt_str_def j_def protocol_version_def)
  have "length (stringify j) \<le> 1000"
    using length_quote_le [of "''protocolVersion''"] length_quote_le [of "''messageId''"]
      length_quote_le [of "''m''"] length_quote_le [of "''messageType''"]
      length_quote_le [of "''peer.heartbeat''"] length_quote_le [of "''senderId''"]
      length_quote_le [of "''p''"] length_quote_le [of "''timestamp''"]
      length_quote_le [of "''payload''"] length_quote_le [of "''ttlMs''"]
    by (simp add: j_def show_int_def show_digit)
  then show ?thesis
    using utf8ByteLength_le [of False "units (stringify j)"]
    by (simp add: estimateNetworkMessageBytes_def j max_message_bytes_def units_def)
qed

theorem infinite_ttl_never_expires_witness:
  "validateNetworkMessage False (message_value endless_message) 1000000 = Inr endless_message"
  using infinite_ttl_never_expires [of endless_message False 1000000 0] endless_message_size
  by (simp add: endless_message_def)

section \<open>The table of seen messages\<close>

datatype dedup_event = Dedup_accept network_message int | Dedup_clear

fun dedup_step :: "deduplicator \<Rightarrow> dedup_event \<Rightarrow> deduplicator" where
  "dedup_step d (Dedup_accept m now) = fst (dedup_accept m now d)"
| "dedup_step d Dedup_clear = dedup_clear d"

definition dedup_inv :: "deduplicator \<Rightarrow> bool" where
  "dedup_inv d \<longleftrightarrow> distinct (jm_keys (dd_seen d)) \<and> length (dd_seen d) \<le> dd_maxEntries d"

lemma jm_set_absent: "k \<notin> set (jm_keys m) \<Longrightarrow> jm_set k v m = m @ [(k, v)]"
  by (induction m) auto

lemma length_delete_hit:
  "k \<in> set (jm_keys m) \<Longrightarrow> length (jm_delete k m) < length m"
proof -
  assume "k \<in> set (jm_keys m)"
  then obtain v where "(k, v) \<in> set m" by auto
  then show ?thesis unfolding AList.delete_eq by (intro length_filter_less) auto
qed

lemma prune_keeps:
  "map_of (dd_seen d) k = Some e \<Longrightarrow> \<not> num_less e now
     \<Longrightarrow> map_of (dd_seen (dedup_prune now d)) k = Some e"
proof -
  have "map_of m k = Some e \<Longrightarrow> \<not> num_less e now
     \<Longrightarrow> map_of (filter (\<lambda>(messageId, expiresAt). \<not> num_less expiresAt now) m) k = Some e" for m
    by (induction m) (auto split: if_splits)
  then show "map_of (dd_seen d) k = Some e \<Longrightarrow> \<not> num_less e now
     \<Longrightarrow> map_of (dd_seen (dedup_prune now d)) k = Some e"
    by (simp add: dedup_prune_def)
qed

lemma prune_smaller: "length (dd_seen (dedup_prune now d)) \<le> length (dd_seen d)"
  by (simp add: dedup_prune_def)

lemma prune_max [simp]: "dd_maxEntries (dedup_prune now d) = dd_maxEntries d"
  by (simp add: dedup_prune_def)

lemma accept_max [simp]: "dd_maxEntries (fst (dedup_accept m now d)) = dd_maxEntries d"
  by (simp add: dedup_accept_def Let_def)

lemma accept_known:
  "map_of (dd_seen (dedup_prune now d)) (nm_messageId m) = Some e
     \<Longrightarrow> dedup_accept m now d = (dedup_prune now d, False)"
  by (simp add: dedup_accept_def Let_def)

lemma accept_room:
  assumes "map_of (dd_seen (dedup_prune now d)) (nm_messageId m) = None"
    and "length (dd_seen d) < dd_maxEntries d"
  shows "dedup_accept m now d = ((dedup_prune now d)\<lparr>dd_seen := dd_seen (dedup_prune now d)
           @ [(nm_messageId m, num_add (nm_timestamp m) (nm_ttlMs m))]\<rparr>, True)"
proof -
  have "nm_messageId m \<notin> set (jm_keys (dd_seen (dedup_prune now d)))"
    using assms(1) by (simp add: map_of_eq_None_iff)
  then show ?thesis
    using assms prune_smaller [of now d] by (simp add: dedup_accept_def Let_def jm_set_absent)
qed

lemma accept_inv: "dedup_inv d \<Longrightarrow> dedup_inv (fst (dedup_accept m now d))"
proof -
  assume inv: "dedup_inv d"
  define p where "p = dedup_prune now d"
  define k where "k = nm_messageId m"
  define seen where "seen = jm_set k (num_add (nm_timestamp m) (nm_ttlMs m)) (dd_seen p)"
  have p: "distinct (jm_keys (dd_seen p))" "length (dd_seen p) \<le> dd_maxEntries d"
    using inv prune_smaller [of now d]
    by (auto simp: p_def dedup_inv_def dedup_prune_def distinct_keys_filter
        intro: order_trans [OF length_filter_le])
  show ?thesis
  proof (cases "map_of (dd_seen p) k")
    case (Some e)
    then show ?thesis using p accept_known [of now d m e] by (simp add: p_def k_def dedup_inv_def)
  next
    case None
    have acc: "dd_seen (fst (dedup_accept m now d)) = (if length seen > dd_maxEntries d
        then (case js_sort expiry_cmp seen of [] \<Rightarrow> seen | oldest # _ \<Rightarrow> jm_delete (fst oldest) seen)
        else seen)"
      using None unfolding seen_def p_def k_def by (simp add: dedup_accept_def Let_def)
    have d: "distinct (jm_keys seen)" using p(1) by (simp add: seen_def distinct_update)
    have len: "length seen \<le> Suc (dd_maxEntries d)"
      using None p(2) by (simp add: seen_def jm_set_absent map_of_eq_None_iff)
    have ne: "seen \<noteq> []" by (simp add: seen_def update_nonempty)
    then have "length (js_sort expiry_cmp seen) \<noteq> 0" by simp
    then obtain y ys where s: "js_sort expiry_cmp seen = y # ys" by (metis length_0_conv neq_Nil_conv)
    then have "y \<in> set seen" by (metis list.set_intros(1) set_js_sort)
    then have "length (jm_delete (fst y) seen) < length seen" by (intro length_delete_hit) simp
    then show ?thesis
      using d len by (auto simp: dedup_inv_def acc s distinct_delete)
  qed
qed

interpretation dedup: machine dedup_step dedup_inv
proof
  fix d e
  assume "dedup_inv d"
  then show "dedup_inv (dedup_step d e)"
    by (cases e) (simp_all add: accept_inv, simp add: dedup_clear_def dedup_inv_def)
qed

text \<open>Whatever messages arrive and whatever the clock reads, the table of seen messages never
  holds more than \<open>maxEntries\<close> entries and never two for one message id.\<close>

theorem dedup_bounded:
  "let d = foldl dedup_step \<lparr>dd_seen = [], dd_maxEntries = n\<rparr> es
   in distinct (jm_keys (dd_seen d)) \<and> length (dd_seen d) \<le> n"
proof -
  have max: "dd_maxEntries (foldl dedup_step d es) = dd_maxEntries d" for d
  proof (induction es arbitrary: d)
    case (Cons e es)
    then show ?case by (cases e) (simp_all add: dedup_clear_def)
  qed simp
  have "dedup_inv (foldl dedup_step \<lparr>dd_seen = [], dd_maxEntries = n\<rparr> es)"
    by (rule dedup.inv_run) (simp add: dedup_inv_def)
  then show ?thesis using max [of "\<lparr>dd_seen = [], dd_maxEntries = n\<rparr>"]
    by (simp add: dedup_inv_def Let_def)
qed

text \<open>The messages and times of a run without \<open>clear\<close>.\<close>

definition dedup_run :: "deduplicator \<Rightarrow> (network_message \<times> int) list \<Rightarrow> deduplicator" where
  "dedup_run d ms = foldl dedup_step d (map (\<lambda>(m, now). Dedup_accept m now) ms)"

lemma dedup_run_Cons: "dedup_run d ((m, now) # ms) = dedup_run (fst (dedup_accept m now d)) ms"
  by (simp add: dedup_run_def)

lemma dedup_run_keeps:
  assumes "map_of (dd_seen d) k = Some e"
    and "length (dd_seen d) + length ms \<le> dd_maxEntries d"
    and "\<forall>(m, t) \<in> set ms. \<not> num_less e t"
  shows "map_of (dd_seen (dedup_run d ms)) k = Some e"
  using assms
proof (induction ms arbitrary: d)
  case Nil
  then show ?case by (simp add: dedup_run_def)
next
  case (Cons p ms)
  obtain m t where p: "p = (m, t)" by (cases p)
  let ?d = "fst (dedup_accept m t d)"
  have kept: "map_of (dd_seen (dedup_prune t d)) k = Some e"
    using Cons.prems(1,3) by (intro prune_keeps) (auto simp: p)
  have room: "length (dd_seen d) < dd_maxEntries d" using Cons.prems(2) by simp
  have "map_of (dd_seen ?d) k = Some e \<and> length (dd_seen ?d) \<le> Suc (length (dd_seen d))"
  proof (cases "map_of (dd_seen (dedup_prune t d)) (nm_messageId m)")
    case (Some x)
    then show ?thesis using accept_known [OF Some] kept prune_smaller [of t d] by simp
  next
    case None
    then show ?thesis
      using accept_room [OF None room] kept prune_smaller [of t d] by simp
  qed
  then show ?case using Cons.prems(2,3) by (simp add: p dedup_run_Cons Cons.IH)
qed

text \<open>A message that was accepted is refused when it comes again before its expiry, under any
  content with the same id, whatever arrived in between, as long as the table has room for all of
  it.\<close>

theorem dedup_rejects_replay:
  assumes "dedup_accept m now d = (d', True)"
    and "length (dd_seen d) + length ms < dd_maxEntries d"
    and "\<forall>(x, t) \<in> set ms. \<not> num_less (num_add (nm_timestamp m) (nm_ttlMs m)) t"
    and "\<not> num_less (num_add (nm_timestamp m) (nm_ttlMs m)) later"
    and "nm_messageId m' = nm_messageId m"
  shows "\<not> snd (dedup_accept m' later (dedup_run d' ms))"
proof -
  let ?e = "num_add (nm_timestamp m) (nm_ttlMs m)"
  have none: "map_of (dd_seen (dedup_prune now d)) (nm_messageId m) = None"
    using assms(1) accept_known [of now d m] by (cases "map_of (dd_seen (dedup_prune now d)) (nm_messageId m)") auto
  have room: "length (dd_seen d) < dd_maxEntries d" using assms(2) by simp
  have d': "d' = (dedup_prune now d)\<lparr>dd_seen := dd_seen (dedup_prune now d) @ [(nm_messageId m, ?e)]\<rparr>"
    using assms(1) accept_room [OF none room] by simp
  have "map_of (dd_seen (dedup_run d' ms)) (nm_messageId m) = Some ?e"
  proof (rule dedup_run_keeps)
    show "map_of (dd_seen d') (nm_messageId m) = Some ?e"
      using none by (simp add: d' map_add_def)
    show "length (dd_seen d') + length ms \<le> dd_maxEntries d'"
      using assms(2) prune_smaller [of now d] by (simp add: d')
  qed (use assms(3) in auto)
  then have "map_of (dd_seen (dedup_prune later (dedup_run d' ms))) (nm_messageId m') = Some ?e"
    unfolding assms(5) by (rule prune_keeps) (rule assms(4))
  then show ?thesis by (simp add: accept_known)
qed

lemma js_sort_last_least:
  assumes "\<forall>x \<in> set xs. cmp x y > 0"
  shows "js_sort cmp (xs @ [y]) = y # js_sort cmp xs"
  using assms by (induction xs) auto

text \<open>When the table is full and every entry expires later than a new message, the message
  itself is the one evicted: it is accepted and the table stays as it was, so every further copy is
  accepted too.\<close>

theorem dedup_forgets_accepted:
  assumes "length (dd_seen d) = dd_maxEntries d"
    and "nm_messageId m \<notin> set (jm_keys (dd_seen d))"
    and "nm_ttlMs m = Fin ttl"
    and "\<forall>(k, e) \<in> set (dd_seen d). \<exists>x. e = Fin x \<and> nm_timestamp m + ttl < x \<and> now \<le> x"
  shows "dedup_accept m now d = (d, True)"
proof -
  let ?y = "(nm_messageId m, Fin (nm_timestamp m + ttl))"
  have prune: "dedup_prune now d = d"
    using assms(4) by (fastforce simp: dedup_prune_def intro!: deduplicator.equality filter_True)
  have set: "jm_set (nm_messageId m) (Fin (nm_timestamp m + ttl)) (dd_seen d) = dd_seen d @ [?y]"
    using assms(2) by (rule jm_set_absent)
  have "js_sort expiry_cmp (dd_seen d @ [?y]) = ?y # js_sort expiry_cmp (dd_seen d)"
    by (rule js_sort_last_least) (use assms(4) in \<open>auto simp: expiry_cmp_def\<close>)
  moreover have "jm_delete (nm_messageId m) (dd_seen d @ [?y]) = dd_seen d"
    using jm_delete_absent [OF assms(2)] by (simp add: AList.delete_eq)
  moreover have "map_of (dd_seen d) (nm_messageId m) = None"
    using assms(2) by (simp add: map_of_eq_None_iff)
  ultimately show ?thesis
    by (simp add: dedup_accept_def Let_def prune set assms(1,3))
qed

definition beat :: "string \<Rightarrow> int \<Rightarrow> network_message" where
  "beat k ttl = endless_message\<lparr>nm_messageId := k, nm_ttlMs := Fin ttl\<rparr>"

theorem dedup_rejects_replay_witness:
  "\<not> snd (dedup_accept (beat ''a'' 9) 14 (dedup_run
      \<lparr>dd_seen = [(''a'', Fin 14)], dd_maxEntries = 3\<rparr> [(beat ''b'' 9, 10)]))"
  by (rule dedup_rejects_replay [where m = "beat ''a'' 9" and now = 6
        and d = "\<lparr>dd_seen = [], dd_maxEntries = 3\<rparr>"])
    (simp_all add: dedup_accept_def dedup_prune_def beat_def endless_message_def)

theorem dedup_forgets_accepted_witness:
  "let d = \<lparr>dd_seen = [(''a'', Fin 90)], dd_maxEntries = 1\<rparr>
   in dedup_accept (beat ''b'' 9) 10 d = (d, True)"
  using dedup_forgets_accepted [of "\<lparr>dd_seen = [(''a'', Fin 90)], dd_maxEntries = 1\<rparr>"
      "beat ''b'' 9" 9 10]
  by (simp add: beat_def endless_message_def)

end
