(* ===== verification/Conflict.thy ===== *)
theory Conflict
  imports Canonical
begin

text \<open>
  The resolution of concurrent revisions of a social record
  (\<open>src/services/social/SocialConflictResolver.ts\<close>, the revision metadata of \<open>SocialCanonical.ts\<close>,
  the fallback of \<open>src/services/sync/IncrementalSyncService.ts\<close> that applies it) and the journal of
  its decisions (\<open>SocialConflictDecisionRepository.ts\<close>). A record keeps the fields the resolver reads
  by name; those it reads through \<open>Reflect.get\<close> are an association list. \<open>localeCompare\<close> on two
  state hashes is a parameter.
\<close>

section \<open>Numbers\<close>

fun is_finite :: "number \<Rightarrow> bool" where
  "is_finite (Fin i) = True"
| "is_finite (Non x) = False"

fun num_lt :: "number \<Rightarrow> number \<Rightarrow> bool" where
  "num_lt (Fin i) (Fin j) = (i < j)"
| "num_lt (Fin i) (Non y) = (y = Pos_infinity)"
| "num_lt (Non x) (Fin j) = (x = Neg_infinity)"
| "num_lt (Non x) (Non y) = (x = Neg_infinity \<and> y = Pos_infinity)"

fun num_minus :: "number \<Rightarrow> number \<Rightarrow> number" where
  "num_minus (Fin i) (Fin j) = Fin (i - j)"
| "num_minus (Fin i) (Non y) =
     Non (case y of Nan \<Rightarrow> Nan | Pos_infinity \<Rightarrow> Neg_infinity | Neg_infinity \<Rightarrow> Pos_infinity)"
| "num_minus (Non x) (Fin j) = Non x"
| "num_minus (Non x) (Non y) = Non (if x = Nan \<or> y = Nan \<or> x = y then Nan else x)"

fun fin_part :: "number \<Rightarrow> int" where
  "fin_part (Fin i) = i"
| "fin_part (Non x) = 0"

definition isSafeInteger :: "number \<Rightarrow> bool" where
  "isSafeInteger n = (case n of Fin i \<Rightarrow> \<bar>i\<bar> \<le> 2 ^ 53 - 1 | Non _ \<Rightarrow> False)"

section \<open>Records\<close>

datatype conflict_entity = E_post | E_profile | E_comment | E_reaction | E_follow | E_chat

record social_record =
  sr_id :: string
  sr_author :: string
  sr_createdAt :: number
  sr_updatedAt :: number
  sr_revision :: "number option"
  sr_previousRevisionHash :: "string option"
  sr_deleted :: "bool option"
  sr_fields :: "(string \<times> jsval) list"

definition getSocialRevision :: "social_record \<Rightarrow> number" where
  "getSocialRevision r = or_else (sr_revision r) (Fin 1)"

definition hex_char_ci :: "char \<Rightarrow> bool" where
  \<comment> \<open>\<open>[a-f0-9]\<close> with the flag \<open>i\<close>.\<close>
  "hex_char_ci c = (let n = (of_char c :: nat) in
     48 \<le> n \<and> n \<le> 57 \<or> 97 \<le> n \<and> n \<le> 102 \<or> 65 \<le> n \<and> n \<le> 70)"

definition isValidSocialRevisionMetadata :: "social_record \<Rightarrow> bool" where
  "isValidSocialRevisionMetadata r = (case sr_revision r of
     None \<Rightarrow> sr_previousRevisionHash r = None
   | Some v \<Rightarrow>
       if \<not> isSafeInteger v \<or> num_lt v (Fin 1) then False
       else if v = Fin 1 then sr_previousRevisionHash r = None
       else (case sr_previousRevisionHash r of
         None \<Rightarrow> False
       | Some h \<Rightarrow> length h = 64 \<and> list_all hex_char_ci h))"

definition readProperty :: "social_record \<Rightarrow> string \<Rightarrow> jsval" where
  "readProperty r k = (case map_of (sr_fields r) k of None \<Rightarrow> Jv_undefined | Some v \<Rightarrow> v)"

definition js_null :: "jsval \<Rightarrow> jsval" where
  \<comment> \<open>\<open>v ?? null\<close>\<close>
  "js_null v = (if v = Jv_undefined then Jv_null else v)"

definition equalOptional :: "jsval \<Rightarrow> jsval \<Rightarrow> bool" where
  "equalOptional l r \<longleftrightarrow> js_null l = js_null r"

definition same_property :: "string \<Rightarrow> social_record \<Rightarrow> social_record \<Rightarrow> bool" where
  "same_property k a b \<longleftrightarrow> readProperty a k = readProperty b k"

definition hasStableIdentity :: "conflict_entity \<Rightarrow> social_record \<Rightarrow> social_record \<Rightarrow> bool" where
  "hasStableIdentity entity a b =
     (if sr_id a \<noteq> sr_id b \<or> sr_createdAt a \<noteq> sr_createdAt b \<or> sr_createdAt a = Non Nan then False
      else (case entity of
        E_post \<Rightarrow> equalOptional (readProperty a ''replyTo'') (readProperty b ''replyTo'')
      | E_profile \<Rightarrow> True
      | E_comment \<Rightarrow> same_property ''postId'' a b
          \<and> equalOptional (readProperty a ''parentCommentId'') (readProperty b ''parentCommentId'')
      | E_reaction \<Rightarrow> same_property ''postId'' a b
          \<and> equalOptional (readProperty a ''commentId'') (readProperty b ''commentId'')
          \<and> same_property ''reactionType'' a b
      | E_follow \<Rightarrow> same_property ''followerId'' a b \<and> same_property ''followingId'' a b
      | E_chat \<Rightarrow> same_property ''senderId'' a b \<and> same_property ''recipientId'' a b
          \<and> same_property ''conversationId'' a b))"

fun hasFinalTombstone :: "conflict_entity \<Rightarrow> bool" where
  "hasFinalTombstone entity = (entity = E_post \<or> entity = E_comment \<or> entity = E_chat)"

section \<open>Resolution\<close>

datatype conflict_action = Apply | Keep | Reject

datatype conflict_reason =
    No_local_record | Duplicate | Author_mismatch | Identity_mismatch | Invalid_revision
  | Timestamp_out_of_range | Higher_revision | Revision_gap | Previous_revision_mismatch
  | Lower_revision | Final_tombstone | Tombstone_wins | Canonical_hash_wins | Canonical_hash_loses

record resolution =
  rs_action :: conflict_action
  rs_reason :: conflict_reason
  rs_winnerStateHash :: string
  rs_conflict :: bool

definition max_future_skew :: int where
  "max_future_skew = 10 * 60 * 1000"

definition reject_with :: "conflict_reason \<Rightarrow> string \<Rightarrow> resolution" where
  "reject_with reason h = \<lparr>rs_action = Reject, rs_reason = reason, rs_winnerStateHash = h,
     rs_conflict = True\<rparr>"

definition timestampInvalid :: "social_record \<Rightarrow> int \<Rightarrow> int \<Rightarrow> bool" where
  "timestampInvalid r now maxFutureSkewMs \<longleftrightarrow>
     \<not> is_finite (sr_createdAt r) \<or> \<not> is_finite (sr_updatedAt r)
     \<or> \<not> num_lt (Fin 0) (sr_createdAt r)
     \<or> num_lt (sr_updatedAt r) (sr_createdAt r)
     \<or> num_lt (Fin (now + maxFutureSkewMs)) (sr_createdAt r)
     \<or> num_lt (Fin (now + maxFutureSkewMs)) (sr_updatedAt r)"

definition resolveSocialConflict ::
  "(string \<Rightarrow> string \<Rightarrow> int) \<Rightarrow> conflict_entity \<Rightarrow> social_record option \<Rightarrow> social_record
   \<Rightarrow> string option \<Rightarrow> string \<Rightarrow> int \<Rightarrow> int option \<Rightarrow> resolution" where
  "resolveSocialConflict localeCompare entity existing incoming existingHash incomingHash now skew =
     (if timestampInvalid incoming now (or_else skew max_future_skew)
      then reject_with Timestamp_out_of_range (or_else existingHash incomingHash)
      else if \<not> isValidSocialRevisionMetadata incoming
      then reject_with Invalid_revision (or_else existingHash incomingHash)
      else (case existing of
        None \<Rightarrow> \<lparr>rs_action = Apply, rs_reason = No_local_record, rs_winnerStateHash = incomingHash,
                 rs_conflict = False\<rparr>
      | Some ex \<Rightarrow>
      (if existingHash = None \<or> existingHash = Some [] then reject_with Invalid_revision incomingHash
      else let existingStateHash = the existingHash in
      if sr_author ex \<noteq> sr_author incoming then reject_with Author_mismatch existingStateHash
      else if \<not> hasStableIdentity entity ex incoming
      then reject_with Identity_mismatch existingStateHash
      else if existingStateHash = incomingHash
      then \<lparr>rs_action = Keep, rs_reason = Duplicate, rs_winnerStateHash = existingStateHash,
            rs_conflict = False\<rparr>
      else let existingDeleted = (sr_deleted ex = Some True);
               incomingDeleted = (sr_deleted incoming = Some True) in
      if existingDeleted \<and> \<not> incomingDeleted \<and> hasFinalTombstone entity
      then \<lparr>rs_action = Keep, rs_reason = Final_tombstone, rs_winnerStateHash = existingStateHash,
            rs_conflict = True\<rparr>
      else let existingRevision = getSocialRevision ex; incomingRevision = getSocialRevision incoming in
      if num_lt existingRevision incomingRevision
      then let gap = num_minus incomingRevision existingRevision;
               previousMismatch = (gap = Fin 1 \<and> sr_previousRevisionHash incoming \<noteq> None
                 \<and> sr_previousRevisionHash incoming \<noteq> Some existingStateHash) in
        \<lparr>rs_action = Apply,
         rs_reason = (if previousMismatch then Previous_revision_mismatch
           else if num_lt (Fin 1) gap then Revision_gap else Higher_revision),
         rs_winnerStateHash = incomingHash,
         rs_conflict = (previousMismatch \<or> num_lt (Fin 1) gap)\<rparr>
      else if num_lt incomingRevision existingRevision
      then \<lparr>rs_action = Keep, rs_reason = Lower_revision, rs_winnerStateHash = existingStateHash,
            rs_conflict = True\<rparr>
      else if existingDeleted \<noteq> incomingDeleted
      then (if incomingDeleted
        then \<lparr>rs_action = Apply, rs_reason = Tombstone_wins, rs_winnerStateHash = incomingHash,
              rs_conflict = True\<rparr>
        else \<lparr>rs_action = Keep, rs_reason = Tombstone_wins, rs_winnerStateHash = existingStateHash,
              rs_conflict = True\<rparr>)
      else let incomingWins = (localeCompare incomingHash existingStateHash > 0) in
        \<lparr>rs_action = (if incomingWins then Apply else Keep),
         rs_reason = (if incomingWins then Canonical_hash_wins else Canonical_hash_loses),
         rs_winnerStateHash = (if incomingWins then incomingHash else existingStateHash),
         rs_conflict = True\<rparr>)))"

definition tombstone_min_retention :: int where
  "tombstone_min_retention = 30 * 24 * 60 * 60 * 1000"

definition canPurgeSocialTombstone :: "bool option \<Rightarrow> int \<Rightarrow> int \<Rightarrow> bool" where
  "canPurgeSocialTombstone deleted updatedAt now \<longleftrightarrow>
     deleted = Some True \<and> now - updatedAt \<ge> tombstone_min_retention"

text \<open>\<open>null\<close> tells the caller to store the incoming record.\<close>

record apply_result =
  ar_applied :: bool
  ar_skipped :: bool
  ar_conflict :: bool

definition resolveFallbackConflict ::
  "(string \<Rightarrow> string \<Rightarrow> int) \<Rightarrow> conflict_entity \<Rightarrow> social_record option \<Rightarrow> social_record
   \<Rightarrow> string option \<Rightarrow> string \<Rightarrow> int \<Rightarrow> apply_result option" where
  "resolveFallbackConflict localeCompare entity existing incoming existingHash incomingHash now =
     (let r = resolveSocialConflict localeCompare entity existing incoming existingHash incomingHash
                now None
      in if rs_action r = Apply then None
         else Some \<lparr>ar_applied = False, ar_skipped = (rs_action r = Keep),
                    ar_conflict = (rs_action r = Reject)\<rparr>)"

section \<open>The journal of decisions\<close>

record decision =
  dc_id :: string
  dc_entity :: conflict_entity
  dc_entityId :: string
  dc_localStateHash :: "string option"
  dc_incomingStateHash :: string
  dc_winnerStateHash :: string
  dc_action :: conflict_action
  dc_reason :: conflict_reason
  dc_peerId :: "string option"
  dc_decidedAt :: int

fun entity_name :: "conflict_entity \<Rightarrow> string" where
  "entity_name E_post = ''post''" | "entity_name E_profile = ''profile''"
| "entity_name E_comment = ''comment''" | "entity_name E_reaction = ''reaction''"
| "entity_name E_follow = ''follow''" | "entity_name E_chat = ''chat''"

fun action_name :: "conflict_action \<Rightarrow> string" where
  "action_name Apply = ''apply''" | "action_name Keep = ''keep''" | "action_name Reject = ''reject''"

fun reason_name :: "conflict_reason \<Rightarrow> string" where
  "reason_name No_local_record = ''no_local_record''"
| "reason_name Duplicate = ''duplicate''"
| "reason_name Author_mismatch = ''author_mismatch''"
| "reason_name Identity_mismatch = ''identity_mismatch''"
| "reason_name Invalid_revision = ''invalid_revision''"
| "reason_name Timestamp_out_of_range = ''timestamp_out_of_range''"
| "reason_name Higher_revision = ''higher_revision''"
| "reason_name Revision_gap = ''revision_gap''"
| "reason_name Previous_revision_mismatch = ''previous_revision_mismatch''"
| "reason_name Lower_revision = ''lower_revision''"
| "reason_name Final_tombstone = ''final_tombstone''"
| "reason_name Tombstone_wins = ''tombstone_wins''"
| "reason_name Canonical_hash_wins = ''canonical_hash_wins''"
| "reason_name Canonical_hash_loses = ''canonical_hash_loses''"

definition decision_id ::
  "conflict_entity \<Rightarrow> string \<Rightarrow> string option \<Rightarrow> string \<Rightarrow> resolution \<Rightarrow> string" where
  "decision_id entity entityId localHash incomingHash r = sha256Hex (join_with '':''
     [entity_name entity, entityId, or_else localHash [], incomingHash, rs_winnerStateHash r,
      action_name (rs_action r), reason_name (rs_reason r)])"

text \<open>\<open>INSERT OR REPLACE\<close> deletes the row with the same key and inserts the new one last.\<close>

definition insert_or_replace :: "'k \<Rightarrow> 'v \<Rightarrow> ('k, 'v) jsmap \<Rightarrow> ('k, 'v) jsmap" where
  "insert_or_replace k v t = jm_delete k t @ [(k, v)]"

lemma get_insert_or_replace: "jm_get (insert_or_replace k v t) k' = (if k' = k then Some v else jm_get t k')"
  by (simp add: insert_or_replace_def map_add_def jm.get_remove split: option.split)

definition recordDecision ::
  "conflict_entity \<Rightarrow> string \<Rightarrow> string option \<Rightarrow> string \<Rightarrow> resolution \<Rightarrow> string option
   \<Rightarrow> int option \<Rightarrow> int \<Rightarrow> (string, decision) jsmap \<Rightarrow> (string, decision) jsmap \<times> decision" where
  "recordDecision entity entityId localHash incomingHash r peerId decidedAt now t =
     (let d = \<lparr>dc_id = decision_id entity entityId localHash incomingHash r, dc_entity = entity,
        dc_entityId = entityId, dc_localStateHash = localHash, dc_incomingStateHash = incomingHash,
        dc_winnerStateHash = rs_winnerStateHash r, dc_action = rs_action r,
        dc_reason = rs_reason r, dc_peerId = peerId, dc_decidedAt = or_else decidedAt now\<rparr>
      in (insert_or_replace (dc_id d) d t, d))"

definition mapDecisionRow :: "decision \<Rightarrow> decision" where
  \<comment> \<open>A well-typed row; an empty peer id reads as \<open>undefined\<close>.\<close>
  "mapDecisionRow d = d\<lparr>dc_peerId := (if dc_peerId d = Some [] then None else dc_peerId d)\<rparr>"

definition listDecisions :: "string option \<Rightarrow> (string, decision) jsmap \<Rightarrow> decision list" where
  \<comment> \<open>An empty id is falsy and lists everything.\<close>
  "listDecisions entityId t = js_sort (\<lambda>l r. dc_decidedAt l - dc_decidedAt r)
     (map mapDecisionRow (case entityId of
        Some (c # cs) \<Rightarrow> filter (\<lambda>d. dc_entityId d = c # cs) (jm_values t)
      | _ \<Rightarrow> jm_values t))"

definition clearDecisions :: "(string, decision) jsmap \<Rightarrow> (string, decision) jsmap" where
  "clearDecisions t = []"

end
