(* ===== verification/Conflict_Claims.thy ===== *)
theory Conflict_Claims
  imports Conflict
begin

text \<open>
  Replicas of a social record that resolve every copy they receive: convergence of the entities
  without final tombstones, what an accepted copy may change, the finality of tombstones, and the
  case in which two replicas that received the same copies disagree for ever.
\<close>

section \<open>A replica\<close>

text \<open>A replica stores the incoming copy when \<open>resolveFallbackConflict\<close> returns \<open>null\<close>; \<open>h\<close> is the
  state hash of a record.\<close>

definition receive ::
  "(string \<Rightarrow> string \<Rightarrow> int) \<Rightarrow> conflict_entity \<Rightarrow> (social_record \<Rightarrow> string)
   \<Rightarrow> social_record option \<Rightarrow> social_record \<times> int \<Rightarrow> social_record option" where
  "receive lc entity h s p =
     (case resolveFallbackConflict lc entity s (fst p) (map_option h s) (h (fst p)) (snd p) of
        None \<Rightarrow> Some (fst p) | Some _ \<Rightarrow> s)"

definition acceptable :: "social_record \<times> int \<Rightarrow> bool" where
  "acceptable p \<longleftrightarrow> \<not> timestampInvalid (fst p) (snd p) max_future_skew
     \<and> isValidSocialRevisionMetadata (fst p)"

lemma receive_rejected: "\<not> acceptable p \<Longrightarrow> receive lc entity h s p = s"
  by (auto simp: receive_def acceptable_def resolveFallbackConflict_def resolveSocialConflict_def
      reject_with_def or_else_def)

lemma receive_first: "acceptable p \<Longrightarrow> receive lc entity h None p = Some (fst p)"
  by (simp add: receive_def acceptable_def resolveFallbackConflict_def resolveSocialConflict_def
      or_else_def)

definition is_deleted :: "social_record \<Rightarrow> bool" where
  "is_deleted r \<longleftrightarrow> sr_deleted r = Some True"

text \<open>The copies that replace a stored record.\<close>

definition replaces ::
  "(string \<Rightarrow> string \<Rightarrow> int) \<Rightarrow> conflict_entity \<Rightarrow> (social_record \<Rightarrow> string)
   \<Rightarrow> social_record \<Rightarrow> social_record \<Rightarrow> bool" where
  "replaces lc entity h new old \<longleftrightarrow>
     h old \<noteq> [] \<and> sr_author old = sr_author new \<and> hasStableIdentity entity old new \<and> h old \<noteq> h new
     \<and> \<not> (is_deleted old \<and> \<not> is_deleted new \<and> hasFinalTombstone entity)
     \<and> (num_lt (getSocialRevision old) (getSocialRevision new)
        \<or> \<not> num_lt (getSocialRevision new) (getSocialRevision old)
          \<and> (if is_deleted old \<noteq> is_deleted new then is_deleted new
              else lc (h new) (h old) > 0))"

lemma receive_next:
  assumes "acceptable p"
  shows "receive lc entity h (Some old) p =
     (if replaces lc entity h (fst p) old then Some (fst p) else Some old)"
proof -
  have "rs_action (resolveSocialConflict lc entity (Some old) (fst p) (Some (h old)) (h (fst p)) (snd p) None)
      = Apply \<longleftrightarrow> replaces lc entity h (fst p) old"
    using assms
    by (auto simp: acceptable_def resolveSocialConflict_def or_else_def Let_def replaces_def
        is_deleted_def reject_with_def simp del: hasFinalTombstone.simps)
  then show ?thesis
    by (auto simp: receive_def resolveFallbackConflict_def Let_def)
qed

lemma receive_cases:
  obtains "receive lc entity h s p = s"
  | "s = None" "acceptable p" "receive lc entity h s p = Some (fst p)"
  | old where "s = Some old" "acceptable p" "replaces lc entity h (fst p) old"
      "receive lc entity h s p = Some (fst p)"
proof (cases "acceptable p")
  case False
  then show ?thesis using that(1) receive_rejected by blast
next
  case True
  then show ?thesis
    using that receive_first [OF True] receive_next [OF True]
    by (cases s) (simp, metis)
qed

section \<open>What an accepted copy may change\<close>

abbreviation revision_of :: "social_record \<Rightarrow> int" where
  "revision_of r \<equiv> fin_part (getSocialRevision r)"

lemma valid_revision:
  assumes "isValidSocialRevisionMetadata r"
  shows "getSocialRevision r = Fin (revision_of r)"
proof (cases "sr_revision r")
  case None
  then show ?thesis by (simp add: getSocialRevision_def or_else_def)
next
  case (Some v)
  then show ?thesis using assms
    by (cases v) (auto simp: getSocialRevision_def or_else_def isValidSocialRevisionMetadata_def
        isSafeInteger_def)
qed

lemma hasStableIdentity_trans:
  "hasStableIdentity e a b \<Longrightarrow> hasStableIdentity e b c \<Longrightarrow> hasStableIdentity e a c"
  by (cases e) (auto simp: hasStableIdentity_def equalOptional_def same_property_def split: if_splits)

text \<open>How a stored record may develop.\<close>

definition succeeds :: "conflict_entity \<Rightarrow> social_record option \<Rightarrow> social_record option \<Rightarrow> bool" where
  "succeeds e s t \<longleftrightarrow> s = t \<or> s = None \<or>
     (\<exists>a b. s = Some a \<and> t = Some b \<and> sr_author a = sr_author b \<and> hasStableIdentity e a b
        \<and> revision_of a \<le> revision_of b
        \<and> (is_deleted a \<and> hasFinalTombstone e \<longrightarrow> is_deleted b))"

definition stored_valid :: "social_record option \<Rightarrow> bool" where
  "stored_valid s \<longleftrightarrow> (\<forall>r. s = Some r \<longrightarrow> isValidSocialRevisionMetadata r)"

interpretation replica: progress_machine "receive lc e h" stored_valid "succeeds e" for lc e h
proof
  fix s p
  assume s: "stored_valid s"
  show "stored_valid (receive lc e h s p)"
    by (rule receive_cases [of lc e h s p]) (use s in \<open>auto simp: stored_valid_def acceptable_def\<close>)
  show "succeeds e s (receive lc e h s p)"
  proof (rule receive_cases [of lc e h s p])
    fix old
    assume a: "s = Some old" "acceptable p" "replaces lc e h (fst p) old"
      "receive lc e h s p = Some (fst p)"
    have v: "isValidSocialRevisionMetadata old" "isValidSocialRevisionMetadata (fst p)"
      using s a(1,2) by (simp_all add: stored_valid_def acceptable_def)
    have "revision_of old \<le> revision_of (fst p)"
      using a(3) valid_revision [OF v(1)] valid_revision [OF v(2)]
      unfolding replaces_def by (metis num_lt.simps(1) not_le order_le_less)
    then show ?thesis using a by (auto simp: succeeds_def replaces_def)
  qed (simp_all add: succeeds_def)
next
  fix s t u
  assume st: "succeeds e s t" and tu: "succeeds e t u"
  show "succeeds e s u"
  proof (cases "s = t \<or> s = None \<or> t = u")
    case True
    then show ?thesis using st tu by (auto simp: succeeds_def)
  next
    case False
    then obtain a b c where e: "s = Some a" "t = Some b" "u = Some c" and r:
      "sr_author a = sr_author b" "hasStableIdentity e a b" "revision_of a \<le> revision_of b"
      "is_deleted a \<and> hasFinalTombstone e \<longrightarrow> is_deleted b"
      "sr_author b = sr_author c" "hasStableIdentity e b c" "revision_of b \<le> revision_of c"
      "is_deleted b \<and> hasFinalTombstone e \<longrightarrow> is_deleted c"
      using st tu unfolding succeeds_def by blast
    have "sr_author a = sr_author c \<and> hasStableIdentity e a c \<and> revision_of a \<le> revision_of c
        \<and> (is_deleted a \<and> hasFinalTombstone e \<longrightarrow> is_deleted c)"
      using r hasStableIdentity_trans [OF r(2,6)] order_trans [OF r(3,7)] by (intro conjI) auto
    then show ?thesis unfolding succeeds_def e by blast
  qed
qed (simp add: succeeds_def)

text \<open>Whatever copies a replica receives, from whomever and in whatever order, the record it
  stores keeps its author, its id, its creation time and the fields that identify it, and its
  revision never decreases.\<close>

theorem stored_identity_kept:
  assumes "isValidSocialRevisionMetadata a"
  shows "\<exists>b. foldl (receive lc e h) (Some a) ps = Some b
    \<and> (b = a \<or> sr_author b = sr_author a \<and> hasStableIdentity e a b \<and> revision_of a \<le> revision_of b)"
proof -
  have "succeeds e (Some a) (foldl (receive lc e h) (Some a) ps)"
    by (rule replica.rel_run) (simp add: stored_valid_def assms)
  then show ?thesis by (auto simp: succeeds_def)
qed

text \<open>A deleted post, comment or chat message is never resurrected: no sequence of copies makes
  a replica that stores the tombstone store a live record again.\<close>

theorem tombstone_is_final:
  assumes "isValidSocialRevisionMetadata a" and "is_deleted a" and "hasFinalTombstone e"
  shows "\<exists>b. foldl (receive lc e h) (Some a) ps = Some b \<and> is_deleted b"
proof -
  have "succeeds e (Some a) (foldl (receive lc e h) (Some a) ps)"
    by (rule replica.rel_run) (simp add: stored_valid_def assms)
  then show ?thesis using assms by (auto simp: succeeds_def)
qed

section \<open>Convergence\<close>

definition deleted_num :: "social_record \<Rightarrow> int" where
  "deleted_num r = (if is_deleted r then 1 else 0)"

text \<open>The order the replicas agree on: revision, then tombstone, then state hash.\<close>

definition copy_cmp ::
  "(string \<Rightarrow> string \<Rightarrow> int) \<Rightarrow> (social_record \<Rightarrow> string) \<Rightarrow> social_record \<Rightarrow> social_record \<Rightarrow> int" where
  "copy_cmp lc h a b = js_or (revision_of a - revision_of b)
     (js_or (deleted_num a - deleted_num b) (lc (h a) (h b)))"

lemma copy_cmp_comparator: "comparator lc \<Longrightarrow> comparator (copy_cmp lc h)"
  unfolding copy_cmp_def [abs_def]
  by (rule comparator_or comparator_diff | erule comparator_pullback)+

text \<open>The copies of one record: one author, one identity, state hashes that tell them apart.\<close>

definition one_record ::
  "(string \<Rightarrow> string \<Rightarrow> int) \<Rightarrow> conflict_entity \<Rightarrow> (social_record \<Rightarrow> string) \<Rightarrow> social_record set \<Rightarrow> bool" where
  "one_record lc e h R \<longleftrightarrow> (\<forall>a\<in>R. h a \<noteq> [] \<and> isValidSocialRevisionMetadata a
     \<and> (\<forall>b\<in>R. sr_author a = sr_author b \<and> hasStableIdentity e a b
          \<and> (lc (h a) (h b) = 0 \<longrightarrow> a = b)))"

lemma comparator_zero: "comparator c \<Longrightarrow> c x x = 0"
  using comparator.cmp_swap [of c x x] comparator.cmp_refl [of c x] by auto

lemma replaces_iff_greater:
  assumes "comparator lc" and "one_record lc e h R" and "\<not> hasFinalTombstone e"
    and "new \<in> R" and "old \<in> R"
  shows "replaces lc e h new old \<longleftrightarrow> copy_cmp lc h new old > 0"
proof -
  obtain i j where rev: "getSocialRevision new = Fin i" "getSocialRevision old = Fin j"
    using assms(2,4,5) valid_revision unfolding one_record_def by blast
  have id: "h old \<noteq> []" "sr_author old = sr_author new" "hasStableIdentity e old new"
    using assms(2,4,5) unfolding one_record_def by blast+
  have same: "h old = h new \<longleftrightarrow> old = new"
    using assms(2,4,5) comparator_zero [OF assms(1), of "h old"] unfolding one_record_def by metis
  have "copy_cmp lc h new new = 0"
    using comparator_zero [OF copy_cmp_comparator [OF assms(1), of h]] .
  moreover have "replaces lc e h new old \<longleftrightarrow> h old \<noteq> h new
     \<and> (j < i \<or> \<not> i < j \<and> (if is_deleted old \<noteq> is_deleted new then is_deleted new
          else lc (h new) (h old) > 0))"
    using id assms(3) by (simp add: replaces_def rev del: hasFinalTombstone.simps)
  moreover have "copy_cmp lc h new old = js_or (i - j)
     (js_or (deleted_num new - deleted_num old) (lc (h new) (h old)))"
    by (simp add: copy_cmp_def rev)
  ultimately show ?thesis
    using same by (auto simp: js_or_def deleted_num_def)
qed

lemma run_winner:
  assumes "comparator lc" and "one_record lc e h R" and "\<not> hasFinalTombstone e"
    and "fst ` {p \<in> set ps. acceptable p} \<subseteq> R"
  shows "(foldl (receive lc e h) None ps = None \<and> {p \<in> set ps. acceptable p} = {})
    \<or> (\<exists>m \<in> fst ` {p \<in> set ps. acceptable p}. foldl (receive lc e h) None ps = Some m
         \<and> (\<forall>x \<in> fst ` {p \<in> set ps. acceptable p}. copy_cmp lc h x m \<le> 0))"
  using assms(4)
proof (induction ps rule: rev_induct)
  case Nil
  then show ?case by simp
next
  case (snoc p ps)
  let ?A = "\<lambda>ps. fst ` {p \<in> set ps. acceptable p}"
  note cmp = comparator.cmp_trans [OF copy_cmp_comparator [OF assms(1), of h]]
    comparator.cmp_total [OF copy_cmp_comparator [OF assms(1), of h]]
    comparator.cmp_refl [OF copy_cmp_comparator [OF assms(1), of h]]
  have IH: "foldl (receive lc e h) None ps = None \<and> {p \<in> set ps. acceptable p} = {}
    \<or> (\<exists>m \<in> ?A ps. foldl (receive lc e h) None ps = Some m \<and> (\<forall>x \<in> ?A ps. copy_cmp lc h x m \<le> 0))"
    by (rule snoc.IH) (use snoc.prems in auto)
  show ?case
  proof (cases "acceptable p")
    case False
    then have "?A (ps @ [p]) = ?A ps" "{q \<in> set (ps @ [p]). acceptable q} = {q \<in> set ps. acceptable q}"
      by auto
    then show ?thesis using IH receive_rejected [OF False] by (simp only: foldl_append foldl_Cons foldl_Nil)
  next
    case True
    then have A: "?A (ps @ [p]) = insert (fst p) (?A ps)" by auto
    have pR: "fst p \<in> R" using snoc.prems True by auto
    from IH show ?thesis
    proof
      assume n: "foldl (receive lc e h) None ps = None \<and> {p \<in> set ps. acceptable p} = {}"
      then have "foldl (receive lc e h) None (ps @ [p]) = Some (fst p)"
        by (simp add: receive_first [OF True])
      then show ?thesis using n cmp(3) unfolding A by auto
    next
      assume "\<exists>m \<in> ?A ps. foldl (receive lc e h) None ps = Some m \<and> (\<forall>x \<in> ?A ps. copy_cmp lc h x m \<le> 0)"
      then obtain m where m: "m \<in> ?A ps" "foldl (receive lc e h) None ps = Some m"
        "\<forall>x \<in> ?A ps. copy_cmp lc h x m \<le> 0" by blast
      have mR: "m \<in> R" using m(1) snoc.prems by auto
      have step: "foldl (receive lc e h) None (ps @ [p])
          = (if copy_cmp lc h (fst p) m > 0 then Some (fst p) else Some m)"
        by (simp add: m(2) receive_next [OF True] replaces_iff_greater [OF assms(1-3) pR mR])
      show ?thesis
      proof (cases "copy_cmp lc h (fst p) m > 0")
        case True
        then have "copy_cmp lc h m (fst p) \<le> 0" using cmp(2) [of "fst p" m] by linarith
        then have "\<forall>x \<in> ?A ps. copy_cmp lc h x (fst p) \<le> 0" using m(3) cmp(1) by blast
        then show ?thesis using True cmp(3) unfolding A step by auto
      next
        case False
        then show ?thesis using m(1,3) unfolding A step by auto
      qed
    qed
  qed
qed


section \<open>Divergence\<close>

text \<open>With final tombstones the resolution does not converge: when a record was deleted at a
  lower revision than a live copy, the replica that saw the live copy first keeps it and the replica
  that saw the tombstone first keeps the tombstone, however often both copies are delivered to both
  again.\<close>

theorem final_tombstone_diverges:
  assumes "hasFinalTombstone e" and "acceptable live" and "acceptable dead"
    and "\<not> is_deleted (fst live)" and "is_deleted (fst dead)"
    and "num_lt (getSocialRevision (fst dead)) (getSocialRevision (fst live))"
    and "set ps \<subseteq> {live, dead}"
  shows "foldl (receive lc e h) None (live # ps) = Some (fst live)
    \<and> foldl (receive lc e h) None (dead # ps) = Some (fst dead)"
proof -
  have asym: "\<not> num_lt (getSocialRevision (fst live)) (getSocialRevision (fst dead))"
    "\<not> num_lt (getSocialRevision r) (getSocialRevision r)" for r
    using assms(6) valid_revision assms(2,3) unfolding acceptable_def
    by (metis num_lt.simps(1) order_less_asym) (cases "getSocialRevision r"; auto)
  have keep: "\<not> replaces lc e h (fst dead) (fst live)" "\<not> replaces lc e h (fst live) (fst dead)"
    using assms(1,4-6) asym(1) by (auto simp: replaces_def)
  have same: "\<not> replaces lc e h r r" for r by (simp add: replaces_def)
  have stay: "receive lc e h (Some (fst x)) p = Some (fst x)"
    if "x \<in> {live, dead}" "p \<in> {live, dead}" for x p
    using that keep same assms(2,3) by (auto simp: receive_next)
  have "foldl (receive lc e h) (Some (fst x)) ps = Some (fst x)" if "x \<in> {live, dead}" for x
    using assms(7) that by (induction ps) (simp_all add: stay)
  then show ?thesis using assms(2,3) by (simp add: receive_first)
qed

section \<open>Concrete runs\<close>

definition sample_copy :: "int \<Rightarrow> bool \<Rightarrow> social_record" where
  "sample_copy v d = \<lparr>sr_id = ''x'', sr_author = ''ann'', sr_createdAt = Fin 5, sr_updatedAt = Fin 6,
     sr_revision = Some (Fin v),
     sr_previousRevisionHash = (if v = 1 then None else Some (replicate 64 (CHR ''a''))),
     sr_deleted = Some d, sr_fields = []\<rparr>"

definition sample_hash :: "social_record \<Rightarrow> string" where
  "sample_hash r = (if is_deleted r then ''b'' else ''a'')"

lemma sample_valid: "v = 1 \<or> v = 2 \<Longrightarrow> isValidSocialRevisionMetadata (sample_copy v d)"
  by (auto simp: isValidSocialRevisionMetadata_def sample_copy_def isSafeInteger_def hex_char_ci_def
      list_all_iff)

lemma sample_acceptable: "v = 1 \<or> v = 2 \<Longrightarrow> acceptable (sample_copy v d, 10)"
  using sample_valid [of v d]
  by (simp add: acceptable_def) (auto simp: timestampInvalid_def sample_copy_def max_future_skew_def)

lemma sample_deleted [simp]: "is_deleted (sample_copy v d) = d"
  by (simp add: is_deleted_def sample_copy_def)

lemma sample_identity: "hasStableIdentity e (sample_copy v d) (sample_copy w b)"
  by (cases e) (simp_all add: hasStableIdentity_def sample_copy_def equalOptional_def
      same_property_def readProperty_def)

theorem stored_identity_kept_witness:
  "\<exists>b. foldl (receive code_cmp E_profile sample_hash) (Some (sample_copy 1 False))
          [(sample_copy 2 False, 10)] = Some b
    \<and> (b = sample_copy 1 False \<or> sr_author b = sr_author (sample_copy 1 False)
        \<and> hasStableIdentity E_profile (sample_copy 1 False) b
        \<and> revision_of (sample_copy 1 False) \<le> revision_of b)"
  by (rule stored_identity_kept) (simp add: sample_valid)

theorem tombstone_is_final_witness:
  "\<exists>b. foldl (receive code_cmp E_post sample_hash) (Some (sample_copy 1 True))
          [(sample_copy 2 False, 10)] = Some b \<and> is_deleted b"
  by (rule tombstone_is_final) (simp_all add: sample_valid)


theorem final_tombstone_diverges_witness:
  "foldl (receive code_cmp E_post sample_hash) None [(sample_copy 2 False, 10), (sample_copy 1 True, 10)]
     = Some (sample_copy 2 False)
   \<and> foldl (receive code_cmp E_post sample_hash) None [(sample_copy 1 True, 10), (sample_copy 2 False, 10)]
     = Some (sample_copy 1 True)"
proof -
  have lt: "num_lt (getSocialRevision (sample_copy 1 True)) (getSocialRevision (sample_copy 2 False))"
    by (simp add: getSocialRevision_def sample_copy_def or_else_def)
  note d = final_tombstone_diverges [of E_post "(sample_copy 2 False, 10)" "(sample_copy 1 True, 10)"]
  show ?thesis
    using d [of "[(sample_copy 1 True, 10)]" code_cmp sample_hash]
      d [of "[(sample_copy 2 False, 10)]" code_cmp sample_hash] lt
    by (simp add: sample_acceptable)
qed

end
