(* ===== verification/PeerSession.thy ===== *)
theory PeerSession
  imports Complex_Main Canonical
begin

text \<open>
  The coordination of peer connections: \<open>src/services/peers/PeerReconnectPolicy.ts\<close> (the kinds of
  failure and the delay before the next attempt) and
  \<open>src/services/peers/PeerSessionCoordinator.ts\<close> (one session per peer, glare between crossing
  offers, negotiation time-outs, windows of attempts). A timer that has been set and not cleared is
  an entry of one of the two timer tables, which is how the code keeps them; that it fires is an
  event of the environment. A connect operation is known by the number of the promise it returned.
  The clock is read once per operation. Listeners are left out. Delays are computed in rationals,
  where the code rounds in double precision.
\<close>

section \<open>Failures\<close>

datatype peer_failure =
    Fk_blocked | Fk_data_channel | Fk_handshake | Fk_ice | Fk_peer_offline | Fk_removed
  | Fk_signaling | Fk_timeout | Fk_transport_limit | Fk_unknown

definition classifyPeerFailure :: "string \<Rightarrow> peer_failure" where
  "classifyPeerFailure reason = (let has = str_includes (map lower_char reason) in
     if has ''blocked'' then Fk_blocked
     else if has ''removed'' then Fk_removed
     else if has ''peerconnection limit'' \<or> has ''peer connection limit''
       \<or> has ''too many peerconnections'' \<or> has ''cannot create so many peerconnections''
     then Fk_transport_limit
     else if has ''handshake'' then Fk_handshake
     else if has ''heartbeat'' \<or> has ''timeout'' then Fk_timeout
     else if has ''data channel'' \<or> has ''data-channel'' then Fk_data_channel
     else if has ''ice'' \<or> has ''webrtc_connection_failed'' then Fk_ice
     else if has ''signal'' \<or> has ''offer'' \<or> has ''answer'' then Fk_signaling
     else if has ''offline'' \<or> has ''disconnected'' then Fk_peer_offline
     else Fk_unknown)"

definition isRetryablePeerFailure :: "peer_failure \<Rightarrow> bool" where
  "isRetryablePeerFailure k \<longleftrightarrow> k \<noteq> Fk_blocked \<and> k \<noteq> Fk_removed"

section \<open>The delay before an attempt\<close>

record reconnect_policy =
  rp_baseDelayMs :: int
  rp_maxDelayMs :: int
  rp_jitterRatio :: rat
  rp_maxAttemptsPerWindow :: int
  rp_attemptWindowMs :: int
  rp_glareWindowMs :: int
  rp_negotiationTimeoutMs :: int
  rp_transportLimitDelayMs :: int

definition defaultPeerReconnectPolicy :: reconnect_policy where
  "defaultPeerReconnectPolicy = \<lparr>rp_baseDelayMs = 1000, rp_maxDelayMs = 30000,
     rp_jitterRatio = 1 / 5, rp_maxAttemptsPerWindow = 8, rp_attemptWindowMs = 5 * 60000,
     rp_glareWindowMs = 3000, rp_negotiationTimeoutMs = 45000, rp_transportLimitDelayMs = 120000\<rparr>"

definition parse_hex :: "string \<Rightarrow> nat" where
  "parse_hex s = foldl (\<lambda>a c. 16 * a + hex_value c) 0 s"

definition js_round :: "rat \<Rightarrow> int" where
  "js_round x = \<lfloor>x + 1 / 2\<rfloor>"

definition jitter_sample :: "string \<Rightarrow> rat" where
  "jitter_sample digest = rat_of_nat (parse_hex (take 8 digest)) / 4294967295"

definition calculateReconnectDelay ::
  "string \<Rightarrow> string \<Rightarrow> int \<Rightarrow> reconnect_policy \<Rightarrow> int option \<Rightarrow> int" where
  "calculateReconnectDelay localPeerId remotePeerId attempt0 policy minimumDelayMs =
     (let attempt = max 1 attempt0;
          exponentialDelay = min (rp_maxDelayMs policy)
            (rp_baseDelayMs policy * 2 ^ nat (min (attempt - 1) 10));
          digest = sha256Hex (localPeerId @ '':'' @ remotePeerId @ '':'' @ show_int attempt);
          jitter = 1 - rp_jitterRatio policy + jitter_sample digest * rp_jitterRatio policy * 2;
          delayed = js_round (rat_of_int exponentialDelay * jitter)
      in max (or_else minimumDelayMs 0) delayed)"

section \<open>Sessions\<close>

datatype direction = Inbound | Outbound

datatype session_status =
  Negotiating | Connecting | Connected | Reconnecting | Disconnected | Failed

datatype transport_state =
    Ts_created | Ts_signaling | Ts_connecting | Ts_connected | Ts_authenticated
  | Ts_disconnected | Ts_failed | Ts_closed

fun state_name :: "transport_state \<Rightarrow> string" where
  "state_name Ts_created = ''created''" | "state_name Ts_signaling = ''signaling''"
| "state_name Ts_connecting = ''connecting''" | "state_name Ts_connected = ''connected''"
| "state_name Ts_authenticated = ''authenticated''"
| "state_name Ts_disconnected = ''disconnected''"
| "state_name Ts_failed = ''failed''" | "state_name Ts_closed = ''closed''"

fun mapTransportState :: "transport_state \<Rightarrow> session_status" where
  "mapTransportState Ts_created = Negotiating"
| "mapTransportState Ts_signaling = Negotiating"
| "mapTransportState Ts_connecting = Connecting"
| "mapTransportState Ts_connected = Connected"
| "mapTransportState Ts_authenticated = Connected"
| "mapTransportState Ts_failed = Failed"
| "mapTransportState Ts_disconnected = Disconnected"
| "mapTransportState Ts_closed = Disconnected"

record snapshot =
  sn_peerId :: string
  sn_direction :: direction
  sn_status :: session_status
  sn_negotiationId :: "string option"
  sn_startedAt :: int
  sn_signalCreatedAt :: "int option"
  sn_updatedAt :: int
  sn_reconnectAttempts :: int
  sn_nextReconnectAt :: "int option"
  sn_lastDisconnectedAt :: "int option"
  sn_failureCode :: "string option"
  sn_failureKind :: "peer_failure option"

record retry_window =
  rw_startedAt :: int
  rw_attempts :: int

text \<open>What the handler of a reconnect timer closes over.\<close>

record reconnect_timer =
  rt_exhausted :: bool
  rt_reason :: string
  rt_at :: int

record coordinator =
  co_sessions :: "(string, snapshot) jsmap"
  co_connectOperations :: "(string, nat) jsmap"
  co_reconnectTimers :: "(string, reconnect_timer) jsmap"
  co_negotiationTimers :: "(string, string) jsmap"
  co_retryWindows :: "(string, retry_window) jsmap"
  co_stopped :: bool
  co_promises :: nat

record coordinator_env =
  ce_localPeerId :: string
  ce_policy :: reconnect_policy
  ce_canReconnect :: "string \<Rightarrow> peer_failure \<Rightarrow> bool"
  ce_hasOnReconnect :: bool
  ce_localeCompare :: "string \<Rightarrow> string \<Rightarrow> int"

definition coordinator_init :: coordinator where
  "coordinator_init = \<lparr>co_sessions = [], co_connectOperations = [], co_reconnectTimers = [],
     co_negotiationTimers = [], co_retryWindows = [], co_stopped = False, co_promises = 0\<rparr>"

definition session :: "coordinator \<Rightarrow> string \<Rightarrow> snapshot option" where
  "session c p = jm_get (co_sessions c) p"

definition setSnapshot :: "snapshot \<Rightarrow> coordinator \<Rightarrow> coordinator" where
  "setSnapshot s c = c\<lparr>co_sessions := jm_set (sn_peerId s) s (co_sessions c)\<rparr>"

definition window_attempts :: "coordinator \<Rightarrow> string \<Rightarrow> int" where
  "window_attempts c p = (case jm_get (co_retryWindows c) p of None \<Rightarrow> 0 | Some w \<Rightarrow> rw_attempts w)"

definition delete_operation :: "string \<Rightarrow> coordinator \<Rightarrow> coordinator" where
  "delete_operation p c = c\<lparr>co_connectOperations := jm_delete p (co_connectOperations c)\<rparr>"

definition delete_window :: "string \<Rightarrow> coordinator \<Rightarrow> coordinator" where
  "delete_window p c = c\<lparr>co_retryWindows := jm_delete p (co_retryWindows c)\<rparr>"

definition clearNegotiationTimer :: "string \<Rightarrow> coordinator \<Rightarrow> coordinator" where
  "clearNegotiationTimer p c = c\<lparr>co_negotiationTimers := jm_delete p (co_negotiationTimers c)\<rparr>"

definition clearReconnectTimer :: "string \<Rightarrow> int \<Rightarrow> coordinator \<Rightarrow> coordinator" where
  "clearReconnectTimer p now c = (case jm_get (co_reconnectTimers c) p of
     None \<Rightarrow> c
   | Some t \<Rightarrow>
     (let c1 = c\<lparr>co_reconnectTimers := jm_delete p (co_reconnectTimers c)\<rparr>
      in case session c1 p of
           None \<Rightarrow> c1
         | Some s \<Rightarrow>
             if sn_nextReconnectAt s = None \<or> sn_nextReconnectAt s = Some 0 then c1
             else setSnapshot (s\<lparr>sn_nextReconnectAt := None, sn_updatedAt := now\<rparr>) c1))"

definition scheduleNegotiationTimeout :: "string \<Rightarrow> string \<Rightarrow> coordinator \<Rightarrow> coordinator" where
  "scheduleNegotiationTimeout p n c0 = (let c = clearNegotiationTimer p c0
     in c\<lparr>co_negotiationTimers := jm_set p n (co_negotiationTimers c)\<rparr>)"

definition coord_markFailed :: "string \<Rightarrow> string \<Rightarrow> int \<Rightarrow> coordinator \<Rightarrow> coordinator" where
  "coord_markFailed p failureCode now c =
     (if co_stopped c then c
      else (case session c p of
        None \<Rightarrow> c
      | Some s \<Rightarrow> if sn_direction s \<noteq> Outbound then c
          else setSnapshot (s\<lparr>sn_status := Failed, sn_updatedAt := now,
                 sn_failureCode := Some failureCode,
                 sn_failureKind := Some (classifyPeerFailure failureCode)\<rparr>) c))"

definition expireStaleNegotiation :: "coordinator_env \<Rightarrow> string \<Rightarrow> int \<Rightarrow> coordinator \<Rightarrow> coordinator" where
  "expireStaleNegotiation env p now c = (case session c p of
     None \<Rightarrow> c
   | Some s \<Rightarrow>
       if (sn_status s \<noteq> Negotiating \<and> sn_status s \<noteq> Connecting)
          \<or> now - sn_startedAt s \<le> rp_negotiationTimeoutMs (ce_policy env) then c
       else (let c1 = clearNegotiationTimer p c;
                 c2 = c1\<lparr>co_sessions := jm_delete p (co_sessions c1)\<rparr>
             in delete_operation p c2))"

section \<open>Reconnecting\<close>

definition current_window :: "coordinator_env \<Rightarrow> string \<Rightarrow> int \<Rightarrow> coordinator \<Rightarrow> retry_window" where
  "current_window env p now c = (case jm_get (co_retryWindows c) p of
     None \<Rightarrow> \<lparr>rw_startedAt = now, rw_attempts = 0\<rparr>
   | Some w \<Rightarrow> if now - rw_startedAt w \<ge> rp_attemptWindowMs (ce_policy env)
       then \<lparr>rw_startedAt = now, rw_attempts = 0\<rparr> else w)"

definition requestReconnect ::
  "coordinator_env \<Rightarrow> string \<Rightarrow> string \<Rightarrow> bool \<Rightarrow> int option \<Rightarrow> int \<Rightarrow> coordinator \<Rightarrow> bool \<times> coordinator" where
  "requestReconnect env p reason immediate minimumDelayMs now c =
     (let policy = ce_policy env; failureKind = classifyPeerFailure reason in
      if co_stopped c \<or> jm_get (co_reconnectTimers c) p \<noteq> None then (False, c)
      else if \<not> isRetryablePeerFailure failureKind \<or> \<not> ce_canReconnect env p failureKind
        \<or> \<not> ce_hasOnReconnect env then (False, c)
      else if map_option sn_status (session c p) = Some Connected then (False, c)
      else (let w = current_window env p now c;
                windowExhausted = (rw_attempts w \<ge> rp_maxAttemptsPerWindow policy);
                attempts = (if windowExhausted then rw_attempts w else rw_attempts w + 1);
                c1 = c\<lparr>co_retryWindows := jm_set p (w\<lparr>rw_attempts := attempts\<rparr>) (co_retryWindows c)\<rparr>;
                delayMs = (if windowExhausted
                  then max 0 (rw_startedAt w + rp_attemptWindowMs policy - now)
                  else if immediate then 0
                  else calculateReconnectDelay (ce_localPeerId env) p attempts policy
                    (if failureKind = Fk_transport_limit
                     then Some (max (or_else minimumDelayMs 0) (rp_transportLimitDelayMs policy))
                     else minimumDelayMs));
                s = \<lparr>sn_peerId = p,
                  sn_direction = (case session c1 p of None \<Rightarrow> Outbound | Some s \<Rightarrow> sn_direction s),
                  sn_status = Reconnecting,
                  sn_negotiationId = Option.bind (session c1 p) sn_negotiationId,
                  sn_startedAt = (case session c1 p of None \<Rightarrow> now | Some s \<Rightarrow> sn_startedAt s),
                  sn_signalCreatedAt = Option.bind (session c1 p) sn_signalCreatedAt,
                  sn_updatedAt = now,
                  sn_reconnectAttempts = attempts,
                  sn_nextReconnectAt = Some (now + delayMs),
                  sn_lastDisconnectedAt =
                    Some (or_else (Option.bind (session c1 p) sn_lastDisconnectedAt) now),
                  sn_failureCode = Some reason,
                  sn_failureKind = Some failureKind\<rparr>;
                c2 = setSnapshot s c1
            in (True, c2\<lparr>co_reconnectTimers := jm_set p
                  \<lparr>rt_exhausted = windowExhausted, rt_reason = reason, rt_at = now + delayMs\<rparr>
                  (co_reconnectTimers c2)\<rparr>)))"

text \<open>The handler of the timer, up to the call of \<open>onReconnect\<close>: the result tells whether it is
  called.\<close>

definition reconnect_fires :: "coordinator_env \<Rightarrow> string \<Rightarrow> coordinator \<Rightarrow> bool \<times> coordinator" where
  "reconnect_fires env p c = (case jm_get (co_reconnectTimers c) p of
     None \<Rightarrow> (False, c)
   | Some t \<Rightarrow>
     (let c1 = c\<lparr>co_reconnectTimers := jm_delete p (co_reconnectTimers c)\<rparr>;
          c2 = (if rt_exhausted t then delete_window p c1 else c1)
      in (\<not> co_stopped c2 \<and> ce_canReconnect env p (classifyPeerFailure (rt_reason t))
            \<and> ce_hasOnReconnect env, c2)))"

text \<open>\<open>onReconnect\<close> throws: the message of the error, if it is an \<open>Error\<close>, is the next reason.\<close>

definition reconnect_throws ::
  "coordinator_env \<Rightarrow> string \<Rightarrow> string \<Rightarrow> string option \<Rightarrow> int \<Rightarrow> coordinator \<Rightarrow> coordinator" where
  "reconnect_throws env p reason message now c =
     snd (requestReconnect env p (or_else message reason) False None now c)"

text \<open>The negotiation timer fires; the result tells whether \<open>onNegotiationTimeout\<close> is called, after
  which \<open>requestReconnect\<close> is.\<close>

definition negotiation_fires :: "string \<Rightarrow> int \<Rightarrow> coordinator \<Rightarrow> bool \<times> coordinator" where
  "negotiation_fires p now c = (case jm_get (co_negotiationTimers c) p of
     None \<Rightarrow> (False, c)
   | Some n \<Rightarrow>
     (let c1 = c\<lparr>co_negotiationTimers := jm_delete p (co_negotiationTimers c)\<rparr>
      in case session c1 p of
           None \<Rightarrow> (False, c1)
         | Some s \<Rightarrow>
             if co_stopped c1 \<or> sn_negotiationId s \<noteq> Some n
                \<or> (sn_status s \<noteq> Negotiating \<and> sn_status s \<noteq> Connecting) then (False, c1)
             else (True, coord_markFailed p ''PEER_NEGOTIATION_TIMEOUT'' now (delete_operation p c1))))"

section \<open>Connecting\<close>

datatype connect_result = Coordinator_stopped | Existing_operation nat | Auto_signaling | Started nat

definition coordinateConnect ::
  "coordinator_env \<Rightarrow> string \<Rightarrow> int \<Rightarrow> coordinator \<Rightarrow> connect_result \<times> coordinator" where
  "coordinateConnect env p now c0 =
     (if co_stopped c0 then (Coordinator_stopped, c0)
      else (let c = expireStaleNegotiation env p now c0 in
        case jm_get (co_connectOperations c) p of
          Some op \<Rightarrow> (Existing_operation op, c)
        | None \<Rightarrow>
          if map_option sn_status (session c p) \<in> {Some Connected, Some Negotiating, Some Connecting}
          then (Auto_signaling, c)
          else (let c1 = clearReconnectTimer p now c;
                    c2 = setSnapshot \<lparr>sn_peerId = p, sn_direction = Outbound,
                      sn_status = Negotiating, sn_negotiationId = None, sn_startedAt = now,
                      sn_signalCreatedAt = None, sn_updatedAt = now,
                      sn_reconnectAttempts = window_attempts c1 p, sn_nextReconnectAt = None,
                      sn_lastDisconnectedAt = None, sn_failureCode = None, sn_failureKind = None\<rparr> c1
                in (Started (co_promises c2),
                    c2\<lparr>co_connectOperations := jm_set p (co_promises c2) (co_connectOperations c2),
                       co_promises := Suc (co_promises c2)\<rparr>))))"

text \<open>The operation that was started rejects.\<close>

definition connect_rejects ::
  "coordinator_env \<Rightarrow> string \<Rightarrow> nat \<Rightarrow> string option \<Rightarrow> int \<Rightarrow> coordinator \<Rightarrow> coordinator" where
  "connect_rejects env p op message now c =
     (let reason = or_else message ''peer-negotiation-failed'';
          c1 = coord_markFailed p reason now c;
          c2 = (if jm_get (co_connectOperations c1) p = Some op then delete_operation p c1 else c1)
      in snd (requestReconnect env p reason False None now c2))"

definition registerOutbound ::
  "string \<Rightarrow> string \<Rightarrow> int option \<Rightarrow> int \<Rightarrow> coordinator \<Rightarrow> bool \<times> coordinator" where
  "registerOutbound p n signalCreatedAt now c =
     (if co_stopped c then (False, c)
      else (case session c p of
        None \<Rightarrow> (False, c)
      | Some s \<Rightarrow>
          if sn_direction s \<noteq> Outbound \<or> sn_status s \<noteq> Negotiating then (False, c)
          else (True, scheduleNegotiationTimeout p n (setSnapshot (s\<lparr>
            sn_negotiationId := Some n,
            sn_signalCreatedAt := Some (case signalCreatedAt of Some t \<Rightarrow> t
              | None \<Rightarrow> or_else (sn_signalCreatedAt s) (sn_startedAt s)),
            sn_updatedAt := now\<rparr>) c))))"

datatype ignore_reason =
  Already_connected | Stopped_coordinator | Duplicate_offer | Glare_local_wins | Stale_offer

datatype offer_decision = Accepted "string option" | Ignored ignore_reason

text \<open>The guards of \<open>considerIncomingOffer\<close>, in the order of the code.\<close>

definition offer_ignored ::
  "coordinator_env \<Rightarrow> string \<Rightarrow> string \<Rightarrow> int \<Rightarrow> coordinator \<Rightarrow> ignore_reason option" where
  "offer_ignored env p n createdAt c =
     (if co_stopped c then Some Stopped_coordinator
      else (case session c p of
        None \<Rightarrow> None
      | Some s \<Rightarrow>
        (let signalAt = or_else (sn_signalCreatedAt s) (sn_startedAt s);
             glare = rp_glareWindowMs (ce_policy env)
         in if sn_status s = Connected then Some Already_connected
            else if sn_direction s = Inbound \<and> sn_negotiationId s = Some n then Some Duplicate_offer
            else if sn_direction s = Outbound \<and> createdAt < signalAt - glare then Some Stale_offer
            else if sn_direction s = Outbound \<and> \<bar>createdAt - signalAt\<bar> \<le> glare
                 \<and> ce_localeCompare env (ce_localPeerId env) p < 0 then Some Glare_local_wins
            else if sn_direction s = Inbound \<and> sn_negotiationId s \<noteq> None
                 \<and> sn_negotiationId s \<noteq> Some [] \<and> createdAt \<le> signalAt then Some Stale_offer
            else None)))"

definition considerIncomingOffer ::
  "coordinator_env \<Rightarrow> string \<Rightarrow> string \<Rightarrow> int \<Rightarrow> int \<Rightarrow> coordinator \<Rightarrow> offer_decision \<times> coordinator" where
  "considerIncomingOffer env p n createdAt now c =
     (case offer_ignored env p n createdAt c of
        Some r \<Rightarrow> (Ignored r, c)
      | None \<Rightarrow>
        (let current = session c p;
             replaced = Option.bind current sn_negotiationId;
             c1 = clearNegotiationTimer p c;
             c2 = (if map_option sn_direction current = Some Outbound then delete_operation p c1 else c1);
             c3 = setSnapshot \<lparr>sn_peerId = p, sn_direction = Inbound, sn_status = Negotiating,
               sn_negotiationId = Some n, sn_startedAt = now, sn_signalCreatedAt = Some createdAt,
               sn_updatedAt = now, sn_reconnectAttempts = window_attempts c2 p,
               sn_nextReconnectAt = None, sn_lastDisconnectedAt = None, sn_failureCode = None,
               sn_failureKind = None\<rparr> c2
         in (Accepted (if replaced = Some n then None else replaced),
             scheduleNegotiationTimeout p n c3)))"

definition canApplyAnswer :: "string \<Rightarrow> string \<Rightarrow> coordinator \<Rightarrow> bool" where
  "canApplyAnswer p n c \<longleftrightarrow> \<not> co_stopped c \<and> (case session c p of
     None \<Rightarrow> False
   | Some s \<Rightarrow> sn_direction s = Outbound \<and> sn_negotiationId s = Some n
       \<and> (sn_status s = Negotiating \<or> sn_status s = Connecting))"

definition markAnswerApplied :: "string \<Rightarrow> string \<Rightarrow> int \<Rightarrow> coordinator \<Rightarrow> coordinator" where
  "markAnswerApplied p n now c = (case session c p of
     None \<Rightarrow> c
   | Some s \<Rightarrow> if sn_direction s \<noteq> Outbound \<or> sn_negotiationId s \<noteq> Some n then c
       else setSnapshot (s\<lparr>sn_status := Connecting, sn_updatedAt := now\<rparr>) c)"

definition handleTransportState ::
  "coordinator_env \<Rightarrow> string \<Rightarrow> string \<Rightarrow> transport_state \<Rightarrow> string option \<Rightarrow> int \<Rightarrow> coordinator
     \<Rightarrow> coordinator" where
  "handleTransportState env p n state failureCode now c =
     (if co_stopped c then c
      else (case session c p of
        None \<Rightarrow> c
      | Some s \<Rightarrow>
        if sn_negotiationId s \<noteq> None \<and> sn_negotiationId s \<noteq> Some [] \<and> sn_negotiationId s \<noteq> Some n
        then c
        else (let status = mapTransportState state;
                  c1 = (if status = Connected
                    then delete_window p (clearReconnectTimer p now
                           (clearNegotiationTimer p (delete_operation p c))) else c);
                  c2 = (if status = Disconnected \<or> status = Failed
                    then clearNegotiationTimer p (delete_operation p c1) else c1);
                  c3 = setSnapshot (s\<lparr>
                    sn_negotiationId := Some n,
                    sn_status := status,
                    sn_updatedAt := now,
                    sn_reconnectAttempts := (if status = Connected then 0 else window_attempts c2 p),
                    sn_nextReconnectAt := (if status = Connected then None else sn_nextReconnectAt s),
                    sn_lastDisconnectedAt := (if status = Disconnected \<or> status = Failed
                      then Some now else sn_lastDisconnectedAt s),
                    sn_failureCode := failureCode,
                    sn_failureKind := (case failureCode of
                        None \<Rightarrow> sn_failureKind s
                      | Some code \<Rightarrow> if code = [] then sn_failureKind s
                          else Some (classifyPeerFailure code))\<rparr>) c2
              in if state = Ts_closed \<or> state = Ts_failed
                 then snd (requestReconnect env p (or_else failureCode (state_name state))
                        False None now c3)
                 else c3)))"

definition coordinator_cancelPeer :: "string \<Rightarrow> int \<Rightarrow> coordinator \<Rightarrow> coordinator" where
  "coordinator_cancelPeer p now c0 =
     (let c = clearReconnectTimer p now (clearNegotiationTimer p c0)
      in delete_window p (delete_operation p (c\<lparr>co_sessions := jm_delete p (co_sessions c)\<rparr>)))"

definition peer_snapshot :: "string \<Rightarrow> coordinator \<Rightarrow> snapshot option" where
  "peer_snapshot p c = session c p"

definition getSnapshots :: "coordinator_env \<Rightarrow> coordinator \<Rightarrow> snapshot list" where
  "getSnapshots env c = js_sort (\<lambda>l r. ce_localeCompare env (sn_peerId l) (sn_peerId r))
     (jm_values (co_sessions c))"

definition coordinator_stop :: "coordinator \<Rightarrow> coordinator" where
  "coordinator_stop c = c\<lparr>co_stopped := True, co_reconnectTimers := [], co_negotiationTimers := [],
     co_sessions := [], co_connectOperations := [], co_retryWindows := []\<rparr>"

end
