(* ===== verification/PeerSession_Claims.thy ===== *)
theory PeerSession_Claims
  imports PeerSession
begin

text \<open>
  What the session coordinator promises: crossing offers are settled the same way on both sides, a
  connected peer has nothing pending, attempts and delays are bounded, a lost answer leads to a new
  attempt, and nothing happens once the coordinator is stopped. One theorem records the late event
  of an old negotiation that breaks the next one.
\<close>

section \<open>Reading the tables\<close>

lemma session_setSnapshot [simp]:
  "session (setSnapshot s c) p = (if p = sn_peerId s then Some s else session c p)"
  by (simp add: session_def setSnapshot_def jm.get_put)

lemma setSnapshot_fields [simp]:
  "co_connectOperations (setSnapshot s c) = co_connectOperations c"
  "co_reconnectTimers (setSnapshot s c) = co_reconnectTimers c"
  "co_negotiationTimers (setSnapshot s c) = co_negotiationTimers c"
  "co_retryWindows (setSnapshot s c) = co_retryWindows c"
  "co_stopped (setSnapshot s c) = co_stopped c"
  "co_promises (setSnapshot s c) = co_promises c"
  by (simp_all add: setSnapshot_def)

lemma session_updates [simp]:
  "session (c\<lparr>co_connectOperations := a\<rparr>) p = session c p"
  "session (c\<lparr>co_reconnectTimers := b\<rparr>) p = session c p"
  "session (c\<lparr>co_negotiationTimers := d\<rparr>) p = session c p"
  "session (c\<lparr>co_retryWindows := e\<rparr>) p = session c p"
  "session (c\<lparr>co_promises := n\<rparr>) p = session c p"
  "session (c\<lparr>co_sessions := f\<rparr>) p = jm_get f p"
  by (simp_all add: session_def)

lemmas table_ops = delete_operation_def delete_window_def clearNegotiationTimer_def
  scheduleNegotiationTimeout_def Let_def

section \<open>The invariant\<close>

text \<open>Everything the coordinator knows about a peer.\<close>

definition view where
  "view c p = (session c p, jm_get (co_connectOperations c) p, jm_get (co_reconnectTimers c) p,
     jm_get (co_negotiationTimers c) p, jm_get (co_retryWindows c) p)"

fun peer_ok :: "coordinator_env \<Rightarrow> string \<Rightarrow> snapshot option \<times> nat option \<times> reconnect_timer option
    \<times> string option \<times> retry_window option \<Rightarrow> bool" where
  "peer_ok env p (s, op, rt, nt, w) \<longleftrightarrow>
     (\<forall>x. s = Some x \<longrightarrow> sn_peerId x = p
        \<and> (sn_status x = Connected \<longrightarrow> op = None \<and> rt = None \<and> nt = None \<and> w = None))
     \<and> (\<forall>x. w = Some x \<longrightarrow> 0 \<le> rw_attempts x \<and> rw_attempts x \<le> max 0 (rp_maxAttemptsPerWindow (ce_policy env)))"

definition tables_empty :: "coordinator \<Rightarrow> bool" where
  "tables_empty c \<longleftrightarrow> co_sessions c = [] \<and> co_connectOperations c = [] \<and> co_reconnectTimers c = []
     \<and> co_negotiationTimers c = [] \<and> co_retryWindows c = []"

definition coord_inv :: "coordinator_env \<Rightarrow> coordinator \<Rightarrow> bool" where
  "coord_inv env c \<longleftrightarrow> (\<forall>p. peer_ok env p (view c p)) \<and> (co_stopped c \<longrightarrow> tables_empty c)"

text \<open>An operation on one peer, on a coordinator that runs.\<close>

lemma coord_inv_one:
  assumes "coord_inv env c" and "\<not> co_stopped c'"
    and "\<And>q. q \<noteq> p \<Longrightarrow> view c' q = view c q" and "peer_ok env p (view c' p)"
  shows "coord_inv env c'"
  using assms unfolding coord_inv_def by metis

lemma coord_inv_at: "coord_inv env c \<Longrightarrow> peer_ok env p (view c p)"
  by (simp add: coord_inv_def)

lemma coord_markFailed_inv: "coord_inv env c \<Longrightarrow> coord_inv env (coord_markFailed p code now c)"
proof (cases "co_stopped c")
  case False
  assume inv: "coord_inv env c"
  show ?thesis
    by (rule coord_inv_one [OF inv, of _ p])
      (use False coord_inv_at [OF inv, of p] in
        \<open>auto simp: coord_markFailed_def view_def split: option.splits\<close>)
qed (simp add: coord_markFailed_def)

lemma clearReconnectTimer_view:
  "(\<forall>s. session c p = Some s \<longrightarrow> sn_peerId s = p) \<Longrightarrow>
   q \<noteq> p \<Longrightarrow> view (clearReconnectTimer p now c) q = view c q"
  by (auto simp: clearReconnectTimer_def view_def jm.get_remove Let_def split: option.splits)

lemma clearReconnectTimer_fields [simp]:
  "co_connectOperations (clearReconnectTimer p now c) = co_connectOperations c"
  "co_negotiationTimers (clearReconnectTimer p now c) = co_negotiationTimers c"
  "co_retryWindows (clearReconnectTimer p now c) = co_retryWindows c"
  "co_stopped (clearReconnectTimer p now c) = co_stopped c"
  "jm_get (co_reconnectTimers (clearReconnectTimer p now c)) q
     = (if q = p then None else jm_get (co_reconnectTimers c) q)"
  by (auto simp: clearReconnectTimer_def jm.get_remove Let_def split: option.splits)

lemma clearReconnectTimer_session:
  "session (clearReconnectTimer p now c) q = session c q
   \<or> (\<exists>s. session c p = Some s \<and> q = sn_peerId s \<and> session (clearReconnectTimer p now c) q
        = Some (s\<lparr>sn_nextReconnectAt := None, sn_updatedAt := now\<rparr>))"
  by (auto simp: clearReconnectTimer_def Let_def split: option.splits)

lemma requestReconnect_inv:
  assumes inv: "coord_inv env c"
  shows "coord_inv env (snd (requestReconnect env p reason imm minimum now c))"
proof (cases "snd (requestReconnect env p reason imm minimum now c) = c")
  case True
  then show ?thesis using inv by simp
next
  case False
  then have run: "\<not> co_stopped c" and con: "map_option sn_status (session c p) \<noteq> Some Connected"
    by (auto simp: requestReconnect_def Let_def split: if_splits)
  have w: "0 \<le> rw_attempts (current_window env p now c)
      \<and> rw_attempts (current_window env p now c) \<le> max 0 (rp_maxAttemptsPerWindow (ce_policy env))"
    using coord_inv_at [OF inv, of p]
    by (auto simp: current_window_def view_def split: option.splits)
  show ?thesis
    by (rule coord_inv_one [OF inv, of _ p])
      (use run con w False in \<open>auto simp: requestReconnect_def Let_def view_def jm.get_put
        split: if_splits\<close>)
qed

lemma expireStale_inv:
  assumes inv: "coord_inv env c"
  shows "coord_inv env (expireStaleNegotiation env p now c)"
proof (cases "co_stopped c \<or> expireStaleNegotiation env p now c = c")
  case True
  then show ?thesis
    using inv by (auto simp: coord_inv_def tables_empty_def expireStaleNegotiation_def session_def)
next
  case False
  show ?thesis
    by (rule coord_inv_one [OF inv, of _ p])
      (use False coord_inv_at [OF inv, of p] in \<open>auto simp: expireStaleNegotiation_def view_def
        table_ops jm.get_remove session_def split: option.splits if_splits\<close>)
qed

lemma expireStale_stopped [simp]:
  "co_stopped (expireStaleNegotiation env p now c) = co_stopped c"
  by (auto simp: expireStaleNegotiation_def table_ops split: option.splits)

lemma coordinateConnect_inv:
  assumes inv: "coord_inv env c"
  shows "coord_inv env (snd (coordinateConnect env p now c))"
proof (cases "co_stopped c")
  case False
  define d where "d = expireStaleNegotiation env p now c"
  have d: "coord_inv env d" "\<not> co_stopped d"
    using expireStale_inv [OF inv, of p now] False by (simp_all add: d_def)
  have id: "\<forall>s. session d p = Some s \<longrightarrow> sn_peerId s = p"
    using coord_inv_at [OF d(1), of p] by (simp add: view_def)
  show ?thesis
  proof (cases "snd (coordinateConnect env p now c) = d")
    case True
    then show ?thesis using d by simp
  next
    case ne: False
    show ?thesis
      by (rule coord_inv_one [OF d(1), of _ p])
        (use ne False d(2) coord_inv_at [OF d(1), of p] clearReconnectTimer_view [OF id] in
          \<open>auto simp: coordinateConnect_def d_def [symmetric] Let_def view_def jm.get_put
            split: option.splits if_splits\<close>)
  qed
qed (use inv in \<open>simp add: coordinateConnect_def\<close>)

lemma delete_operation_inv:
  "coord_inv env c \<Longrightarrow> coord_inv env (delete_operation p c)"
  unfolding coord_inv_def by (auto simp: table_ops view_def jm.get_remove tables_empty_def split: if_splits)

lemma connect_rejects_inv: "coord_inv env c \<Longrightarrow> coord_inv env (connect_rejects env p op message now c)"
  by (simp add: connect_rejects_def Let_def requestReconnect_inv delete_operation_inv coord_markFailed_inv)

lemma registerOutbound_inv:
  assumes inv: "coord_inv env c"
  shows "coord_inv env (snd (registerOutbound p n t now c))"
proof (cases "snd (registerOutbound p n t now c) = c")
  case False
  show ?thesis
    by (rule coord_inv_one [OF inv, of _ p])
      (use False coord_inv_at [OF inv, of p] in \<open>auto simp: registerOutbound_def view_def table_ops
        jm.get_put jm.get_remove split: option.splits if_splits\<close>)
qed (use inv in simp)

lemma considerIncomingOffer_inv:
  assumes inv: "coord_inv env c"
  shows "coord_inv env (snd (considerIncomingOffer env p n t now c))"
proof (cases "offer_ignored env p n t c")
  case None
  show ?thesis
    by (rule coord_inv_one [OF inv, of _ p])
      (use None coord_inv_at [OF inv, of p] in \<open>auto simp: considerIncomingOffer_def view_def
        table_ops jm.get_put jm.get_remove offer_ignored_def split: option.splits if_splits\<close>)
qed (use inv in \<open>simp add: considerIncomingOffer_def\<close>)

lemma markAnswerApplied_inv:
  assumes inv: "coord_inv env c"
  shows "coord_inv env (markAnswerApplied p n now c)"
proof (cases "markAnswerApplied p n now c = c")
  case False
  have "\<not> co_stopped c"
    using False inv by (auto simp: markAnswerApplied_def coord_inv_def tables_empty_def session_def)
  then show ?thesis
    by (intro coord_inv_one [OF inv, of _ p])
      (use False coord_inv_at [OF inv, of p] in \<open>auto simp: markAnswerApplied_def view_def
        split: option.splits if_splits\<close>)
qed (use inv in simp)

text \<open>The state before a possible reconnection.\<close>

definition transport_update ::
  "string \<Rightarrow> string \<Rightarrow> transport_state \<Rightarrow> string option \<Rightarrow> int \<Rightarrow> snapshot \<Rightarrow> coordinator \<Rightarrow> coordinator" where
  "transport_update p n state failureCode now s c =
     (let status = mapTransportState state;
          c1 = (if status = Connected
            then delete_window p (clearReconnectTimer p now
                   (clearNegotiationTimer p (delete_operation p c))) else c);
          c2 = (if status = Disconnected \<or> status = Failed
            then clearNegotiationTimer p (delete_operation p c1) else c1)
      in setSnapshot (s\<lparr>
            sn_negotiationId := Some n, sn_status := status, sn_updatedAt := now,
            sn_reconnectAttempts := (if status = Connected then 0 else window_attempts c2 p),
            sn_nextReconnectAt := (if status = Connected then None else sn_nextReconnectAt s),
            sn_lastDisconnectedAt := (if status = Disconnected \<or> status = Failed
              then Some now else sn_lastDisconnectedAt s),
            sn_failureCode := failureCode,
            sn_failureKind := (case failureCode of
                None \<Rightarrow> sn_failureKind s
              | Some code \<Rightarrow> if code = [] then sn_failureKind s
                  else Some (classifyPeerFailure code))\<rparr>) c2)"

lemma handleTransportState_alt:
  "handleTransportState env p n state failureCode now c =
     (case session c p of
        None \<Rightarrow> c
      | Some s \<Rightarrow>
        if co_stopped c \<or> sn_negotiationId s \<noteq> None \<and> sn_negotiationId s \<noteq> Some []
           \<and> sn_negotiationId s \<noteq> Some n then c
        else if state = Ts_closed \<or> state = Ts_failed
        then snd (requestReconnect env p (or_else failureCode (state_name state)) False None now
               (transport_update p n state failureCode now s c))
        else transport_update p n state failureCode now s c)"
  by (simp add: handleTransportState_def transport_update_def Let_def split: option.split)

lemma transport_update_inv:
  assumes inv: "coord_inv env c" and run: "\<not> co_stopped c" and s: "session c p = Some s"
  shows "coord_inv env (transport_update p n state code now s c)"
proof -
  have pid: "sn_peerId s = p" using coord_inv_at [OF inv, of p] s by (simp add: view_def)
  let ?d = "clearNegotiationTimer p (delete_operation p c)"
  have id: "\<forall>x. session ?d p = Some x \<longrightarrow> sn_peerId x = p" using s pid by (simp add: table_ops)
  have other: "view (clearReconnectTimer p now ?d) q = view c q" if "q \<noteq> p" for q
    using clearReconnectTimer_view [OF id that] that by (simp add: view_def table_ops jm.get_remove)
  show ?thesis
  proof (rule coord_inv_one [OF inv, of _ p])
    show "\<not> co_stopped (transport_update p n state code now s c)"
      using run by (simp add: transport_update_def table_ops)
    show "view (transport_update p n state code now s c) q = view c q" if "q \<noteq> p" for q
      using that other [OF that] pid
      by (simp add: transport_update_def view_def table_ops jm.get_remove)
    show "peer_ok env p (view (transport_update p n state code now s c) p)"
      using coord_inv_at [OF inv, of p] pid
      by (auto simp: transport_update_def view_def table_ops jm.get_remove)
  qed
qed

lemma handleTransportState_inv:
  "coord_inv env c \<Longrightarrow> coord_inv env (handleTransportState env p n state code now c)"
  by (auto simp: handleTransportState_alt intro: requestReconnect_inv transport_update_inv
      split: option.split)

lemma coord_cancelPeer_inv:
  assumes inv: "coord_inv env c"
  shows "coord_inv env (coordinator_cancelPeer p now c)"
proof (cases "co_stopped c")
  case True
  then have "tables_empty c" using inv by (simp add: coord_inv_def)
  then have "coordinator_cancelPeer p now c = c"
    by (simp add: tables_empty_def coordinator_cancelPeer_def clearReconnectTimer_def table_ops)
  then show ?thesis using inv by simp
next
  case False
  let ?d = "clearNegotiationTimer p c"
  have id: "\<forall>x. session ?d p = Some x \<longrightarrow> sn_peerId x = p"
    using coord_inv_at [OF inv, of p] by (simp add: table_ops view_def)
  have other: "view (clearReconnectTimer p now ?d) q = view c q" if "q \<noteq> p" for q
    using clearReconnectTimer_view [OF id that] that by (simp add: view_def table_ops jm.get_remove)
  show ?thesis
  proof (rule coord_inv_one [OF inv, of _ p])
    show "view (coordinator_cancelPeer p now c) q = view c q" if "q \<noteq> p" for q
      using that other [OF that]
      by (simp add: coordinator_cancelPeer_def view_def table_ops jm.get_remove session_def)
  qed (use False in \<open>simp_all add: coordinator_cancelPeer_def view_def table_ops jm.get_remove\<close>)
qed

lemma coord_stop_inv: "coord_inv env (coordinator_stop c)"
  by (simp add: coord_inv_def coordinator_stop_def tables_empty_def view_def session_def)

lemma negotiation_fires_inv:
  assumes inv: "coord_inv env c"
  shows "coord_inv env (snd (negotiation_fires p now c))"
proof -
  have "coord_inv env (c\<lparr>co_negotiationTimers := jm_delete p (co_negotiationTimers c)\<rparr>)"
    using inv unfolding coord_inv_def
    by (auto simp: view_def jm.get_remove tables_empty_def split: if_splits)
  then show ?thesis
    by (auto simp: negotiation_fires_def Let_def inv split: option.split
        intro: coord_markFailed_inv delete_operation_inv)
qed

lemma reconnect_fires_inv:
  assumes inv: "coord_inv env c"
  shows "coord_inv env (snd (reconnect_fires env p c))"
proof -
  have "coord_inv env (c\<lparr>co_reconnectTimers := jm_delete p (co_reconnectTimers c)\<rparr>)"
    using inv unfolding coord_inv_def
    by (auto simp: view_def jm.get_remove tables_empty_def split: if_splits)
  moreover have "coord_inv env (delete_window p d)" if "coord_inv env d" for d
    using that unfolding coord_inv_def
    by (auto simp: view_def table_ops jm.get_remove tables_empty_def split: if_splits)
  ultimately show ?thesis
    by (simp add: reconnect_fires_def Let_def inv split: option.split)
qed

section \<open>Runs\<close>

datatype coordinator_event =
    Cv_connect string
  | Cv_rejects string nat "string option"
  | Cv_register string string "int option"
  | Cv_offer string string int
  | Cv_answer string string
  | Cv_transport string string transport_state "string option"
  | Cv_reconnect string string bool "int option"
  | Cv_reconnect_fires string
  | Cv_reconnect_throws string string "string option"
  | Cv_negotiation_fires string
  | Cv_cancel string
  | Cv_stop

fun coordinator_step :: "coordinator_env \<Rightarrow> coordinator \<Rightarrow> coordinator_event \<times> int \<Rightarrow> coordinator" where
  "coordinator_step env c (Cv_connect p, now) = snd (coordinateConnect env p now c)"
| "coordinator_step env c (Cv_rejects p op m, now) = connect_rejects env p op m now c"
| "coordinator_step env c (Cv_register p n t, now) = snd (registerOutbound p n t now c)"
| "coordinator_step env c (Cv_offer p n t, now) = snd (considerIncomingOffer env p n t now c)"
| "coordinator_step env c (Cv_answer p n, now) = markAnswerApplied p n now c"
| "coordinator_step env c (Cv_transport p n st code, now) = handleTransportState env p n st code now c"
| "coordinator_step env c (Cv_reconnect p r i m, now) = snd (requestReconnect env p r i m now c)"
| "coordinator_step env c (Cv_reconnect_fires p, now) = snd (reconnect_fires env p c)"
| "coordinator_step env c (Cv_reconnect_throws p r m, now) = reconnect_throws env p r m now c"
| "coordinator_step env c (Cv_negotiation_fires p, now) = snd (negotiation_fires p now c)"
| "coordinator_step env c (Cv_cancel p, now) = coordinator_cancelPeer p now c"
| "coordinator_step env c (Cv_stop, now) = coordinator_stop c"

lemmas coordinator_invs = coordinateConnect_inv connect_rejects_inv registerOutbound_inv
  considerIncomingOffer_inv markAnswerApplied_inv handleTransportState_inv requestReconnect_inv
  reconnect_fires_inv negotiation_fires_inv coord_cancelPeer_inv coord_stop_inv

definition stays_stopped :: "coordinator \<Rightarrow> coordinator \<Rightarrow> bool" where
  "stays_stopped c d \<longleftrightarrow> (co_stopped c \<longrightarrow> co_stopped d)"

lemma requestReconnect_stopped [simp]:
  "co_stopped (snd (requestReconnect env p r i m now c)) = co_stopped c"
  by (simp add: requestReconnect_def Let_def)

lemma markFailed_stopped [simp]: "co_stopped (coord_markFailed p code now c) = co_stopped c"
  by (simp add: coord_markFailed_def split: option.split)

lemma coordinator_step_stopped: "co_stopped c \<Longrightarrow> co_stopped (coordinator_step env c (e, now))"
  by (cases e)
    (auto simp: coordinateConnect_def connect_rejects_def registerOutbound_def
      considerIncomingOffer_def offer_ignored_def markAnswerApplied_def handleTransportState_def
      reconnect_fires_def reconnect_throws_def negotiation_fires_def coordinator_cancelPeer_def
      coordinator_stop_def table_ops split: option.split)

interpretation coord: progress_machine "coordinator_step env" "coord_inv env" stays_stopped for env
proof
  fix c e
  assume "coord_inv env c"
  then show "coord_inv env (coordinator_step env c e)"
    by (cases "(env, c, e)" rule: coordinator_step.cases)
      (simp_all add: coordinator_invs reconnect_throws_def)
  show "stays_stopped c (coordinator_step env c e)"
    by (cases e) (simp add: stays_stopped_def coordinator_step_stopped)
qed (auto simp: stays_stopped_def)

lemma coordinator_init_inv: "coord_inv env coordinator_init"
  by (simp add: coord_inv_def coordinator_init_def view_def session_def)

lemma coordinator_run_inv: "coord_inv env (foldl (coordinator_step env) coordinator_init es)"
  by (rule coord.inv_run) (rule coordinator_init_inv)

text \<open>C18: In every run, a peer whose session is connected has nothing pending: no connect operation,
  no reconnect timer, no negotiation timer and no window of counted attempts.\<close>

theorem connected_peer_settled:
  assumes "session (foldl (coordinator_step env) coordinator_init es) p = Some s"
    and "sn_status s = Connected"
  shows "let c = foldl (coordinator_step env) coordinator_init es in
     p \<notin> set (jm_keys (co_connectOperations c)) \<and> p \<notin> set (jm_keys (co_reconnectTimers c))
     \<and> p \<notin> set (jm_keys (co_negotiationTimers c)) \<and> p \<notin> set (jm_keys (co_retryWindows c))"
  using coord_inv_at [OF coordinator_run_inv, of env p es] assms
  by (simp add: view_def Let_def map_of_eq_None_iff)

text \<open>In every run, the attempts counted for a peer in one window never exceed
  \<open>maxAttemptsPerWindow\<close>.\<close>

theorem attempts_bounded:
  "0 \<le> window_attempts (foldl (coordinator_step env) coordinator_init es) p
   \<and> window_attempts (foldl (coordinator_step env) coordinator_init es) p
      \<le> max 0 (rp_maxAttemptsPerWindow (ce_policy env))"
  using coord_inv_at [OF coordinator_run_inv, of env p es]
  by (simp add: view_def window_attempts_def split: option.split)

text \<open>Once the coordinator is stopped it stays empty, whatever is called or fires afterwards: no
  session, no timer, no operation and no window comes back, connecting is refused, offers are ignored
  and no attempt is scheduled.\<close>

theorem stopped_stays_empty:
  "let c = foldl (coordinator_step env) coordinator_init (es @ (Cv_stop, t) # es') in
     tables_empty c \<and> coordinateConnect env p now c = (Coordinator_stopped, c)
     \<and> considerIncomingOffer env p n created now c = (Ignored Stopped_coordinator, c)
     \<and> requestReconnect env p reason imm minimum now c = (False, c)"
proof -
  let ?d = "foldl (coordinator_step env) coordinator_init (es @ [(Cv_stop, t)])"
  let ?c = "foldl (coordinator_step env) ?d es'"
  have "coord_inv env ?d" by (rule coordinator_run_inv)
  then have "stays_stopped ?d ?c" "coord_inv env ?c" by (rule coord.rel_run, rule coord.inv_run)
  moreover have "co_stopped ?d" by (simp add: coordinator_stop_def)
  ultimately have "co_stopped ?c" "tables_empty ?c"
    by (simp_all only: stays_stopped_def coord_inv_def)
  then show ?thesis
    by (simp add: coordinateConnect_def considerIncomingOffer_def offer_ignored_def
        requestReconnect_def Let_def)
qed

section \<open>Glare\<close>

text \<open>What a peer offers: the time of its signal.\<close>

definition offered_at :: "snapshot \<Rightarrow> int" where
  "offered_at s = or_else (sn_signalCreatedAt s) (sn_startedAt s)"

definition offer_accepted :: "offer_decision \<times> coordinator \<Rightarrow> bool" where
  "offer_accepted r = (case fst r of Accepted x \<Rightarrow> True | Ignored x \<Rightarrow> False)"

lemma offer_accepted_iff:
  "offer_accepted (considerIncomingOffer env p n t now c) \<longleftrightarrow> offer_ignored env p n t c = None"
  by (simp add: considerIncomingOffer_def offer_accepted_def Let_def split: option.split)

lemma outbound_offer:
  assumes "session c p = Some s" and "sn_direction s = Outbound" and "sn_status s \<noteq> Connected"
    and "\<not> co_stopped c"
  shows "offer_ignored env p n t c = None \<longleftrightarrow>
     \<not> t < offered_at s - rp_glareWindowMs (ce_policy env)
     \<and> \<not> (\<bar>t - offered_at s\<bar> \<le> rp_glareWindowMs (ce_policy env)
          \<and> ce_localeCompare env (ce_localPeerId env) p < 0)"
  using assms by (simp add: offer_ignored_def Let_def offered_at_def)

text \<open>C12: When the offers of two peers cross, exactly one of them accepts the other's offer, whatever
  the times of the two offers: never both, which would leave two sessions, and never neither.\<close>

theorem glare_exactly_one:
  assumes "session ca b = Some sa" and "sn_direction sa = Outbound" and "sn_status sa \<noteq> Connected"
    and "session cb a = Some sb" and "sn_direction sb = Outbound" and "sn_status sb \<noteq> Connected"
    and "\<not> co_stopped ca" and "\<not> co_stopped cb"
    and "ce_localPeerId ea = a" and "ce_localPeerId eb = b"
    and "rp_glareWindowMs (ce_policy ea) = g" and "rp_glareWindowMs (ce_policy eb) = g" and "0 \<le> g"
    and "ce_localeCompare ea a b < 0 \<longleftrightarrow> \<not> ce_localeCompare eb b a < 0"
  shows "offer_accepted (considerIncomingOffer ea b nb (offered_at sb) ta ca)
    \<longleftrightarrow> \<not> offer_accepted (considerIncomingOffer eb a na (offered_at sa) tb cb)"
  unfolding offer_accepted_iff
    outbound_offer [OF assms(1,2,3,7)] outbound_offer [OF assms(4,5,6,8)] assms(9-12)
  using assms(13,14) by (auto simp: abs_le_iff)

section \<open>Delays\<close>

lemma hex_value_le:
  assumes "c \<in> set hex_digits"
  shows "hex_value c \<le> 15"
proof -
  have len: "length hex_digits = 16" by (simp add: hex_digits_def)
  obtain i where "i < 16" "c = hex_digits ! i" using assms by (auto simp: in_set_conv_nth len)
  then show ?thesis by (simp add: hex_value_nth)
qed

lemma parse_hex_bound:
  assumes "set s \<subseteq> set hex_digits"
  shows "parse_hex s < 16 ^ length s"
proof -
  have "foldl (\<lambda>a c. 16 * a + hex_value c) a s < (a + 1) * 16 ^ length s" for a
    using assms
  proof (induction s arbitrary: a)
    case (Cons c s)
    have "foldl (\<lambda>a c. 16 * a + hex_value c) (16 * a + hex_value c) s
        < (16 * a + hex_value c + 1) * 16 ^ length s"
      using Cons by simp
    also have "\<dots> \<le> (16 * (a + 1)) * 16 ^ length s"
      using hex_value_le [of c] Cons.prems by (intro mult_right_mono) auto
    finally show ?case by (simp add: algebra_simps)
  qed simp
  from this [of 0] show ?thesis by (simp add: parse_hex_def)
qed

lemma jitter_sample_bounds: "0 \<le> jitter_sample (sha256Hex s)" "jitter_sample (sha256Hex s) \<le> 1"
proof -
  have "set (take 8 (sha256Hex s)) \<subseteq> set hex_digits"
    by (rule subset_trans [OF set_take_subset set_sha256Hex])
  then have "parse_hex (take 8 (sha256Hex s)) < 16 ^ length (take 8 (sha256Hex s))"
    by (rule parse_hex_bound)
  then have "parse_hex (take 8 (sha256Hex s)) < 16 ^ 8" by simp
  then have "parse_hex (take 8 (sha256Hex s)) \<le> 4294967295" by simp
  then have "rat_of_nat (parse_hex (take 8 (sha256Hex s))) \<le> rat_of_nat 4294967295"
    by (simp only: of_nat_le_iff)
  then show "jitter_sample (sha256Hex s) \<le> 1" by (simp add: jitter_sample_def)
qed (simp add: jitter_sample_def)

text \<open>The delay before jitter.\<close>

definition plain_delay :: "reconnect_policy \<Rightarrow> int \<Rightarrow> int" where
  "plain_delay policy attempt = min (rp_maxDelayMs policy)
     (rp_baseDelayMs policy * 2 ^ nat (min (max 1 attempt - 1) 10))"

lemma js_round_bounds: "x - 1 / 2 \<le> rat_of_int (js_round x)" "rat_of_int (js_round x) \<le> x + 1 / 2"
  unfolding js_round_def by (linarith)+

text \<open>The delay before an attempt is at least the requested minimum, and otherwise within the
  jitter ratio of the capped exponential delay, up to rounding: two peers that lost each other spread
  their attempts but neither waits longer than the maximum plus its jitter.\<close>

theorem reconnect_delay_bounds:
  assumes "0 \<le> rp_jitterRatio policy" and "0 \<le> rp_baseDelayMs policy" and "0 \<le> rp_maxDelayMs policy"
  shows "let d = rat_of_int (plain_delay policy attempt); r = rp_jitterRatio policy;
             m = rat_of_int (or_else minimum 0);
             w = rat_of_int (calculateReconnectDelay a b attempt policy minimum)
         in m \<le> w \<and> d * (1 - r) - 1 / 2 \<le> w \<and> w \<le> max m (d * (1 + r) + 1 / 2)"
proof -
  let ?d = "rat_of_int (plain_delay policy attempt)" and ?r = "rp_jitterRatio policy"
  define x where "x = jitter_sample (sha256Hex (a @ '':'' @ b @ '':'' @ show_int (max 1 attempt)))"
  define j where "j = js_round (?d * (1 - ?r + x * ?r * 2))"
  have w: "calculateReconnectDelay a b attempt policy minimum = max (or_else minimum 0) j"
    by (simp add: calculateReconnectDelay_def Let_def j_def x_def plain_delay_def)
  have x: "0 \<le> x * ?r" "x * ?r \<le> ?r"
    using jitter_sample_bounds assms(1) mult_right_mono [of x 1 ?r] by (simp_all add: x_def)
  have d: "0 \<le> ?d" using assms(2,3) by (simp add: plain_delay_def)
  have "?d * (1 - ?r) \<le> ?d * (1 - ?r + x * ?r * 2)" "?d * (1 - ?r + x * ?r * 2) \<le> ?d * (1 + ?r)"
    using d x by (intro mult_left_mono; linarith)+
  then have "?d * (1 - ?r) - 1 / 2 \<le> rat_of_int j" "rat_of_int j \<le> ?d * (1 + ?r) + 1 / 2"
    using js_round_bounds [of "?d * (1 - ?r + x * ?r * 2)"] unfolding j_def [symmetric] by linarith+
  then show ?thesis by (simp add: Let_def w) (auto simp: max_def)
qed

section \<open>Progress\<close>

lemma timeout_kind: "classifyPeerFailure ''PEER_NEGOTIATION_TIMEOUT'' = Fk_timeout"
  by code_simp


text \<open>A new connection forgets the old negotiation, so until the new offer is registered a late
  \<open>disconnected\<close> event of any old session is taken for the new one: the session leaves the negotiating
  state under the old id and the new offer is refused as cancelled.\<close>

theorem late_event_cancels_offer:
  assumes "coordinateConnect env p t c = (Started op, c1)" and "coord_inv env c"
  shows "let c2 = handleTransportState env p old Ts_disconnected code t' c1 in
     registerOutbound p new signal t'' c2 = (False, c2)
     \<and> Option.bind (session c2 p) sn_negotiationId = Some old"
proof -
  have run: "\<not> co_stopped c" using assms(1) by (auto simp: coordinateConnect_def)
  have fields: "session c1 p = Some s \<Longrightarrow> sn_negotiationId s = None \<and> sn_peerId s = p" for s
    using assms(1) by (auto simp: coordinateConnect_def Let_def split: if_splits option.splits)
  obtain s where s: "session c1 p = Some s" "\<not> co_stopped c1"
    using assms(1) run by (auto simp: coordinateConnect_def Let_def split: if_splits option.splits)
  have "handleTransportState env p old Ts_disconnected code t' c1
      = transport_update p old Ts_disconnected code t' s c1"
    using s fields [OF s(1)] by (simp add: handleTransportState_alt)
  then show ?thesis
    using s fields [OF s(1)]
    by (simp add: transport_update_def table_ops registerOutbound_def)
qed

section \<open>Concrete runs\<close>

definition coord_env :: "string \<Rightarrow> coordinator_env" where
  "coord_env me = \<lparr>ce_localPeerId = me, ce_policy = defaultPeerReconnectPolicy,
     ce_canReconnect = (\<lambda>_ _. True), ce_hasOnReconnect = True, ce_localeCompare = code_cmp\<rparr>"

text \<open>A session that \<open>me\<close> opened to \<open>p\<close>.\<close>

definition sample_snapshot :: "string \<Rightarrow> session_status \<Rightarrow> string option \<Rightarrow> snapshot" where
  "sample_snapshot p st n = \<lparr>sn_peerId = p, sn_direction = Outbound, sn_status = st,
     sn_negotiationId = n, sn_startedAt = 100, sn_signalCreatedAt = None, sn_updatedAt = 100,
     sn_reconnectAttempts = 0, sn_nextReconnectAt = None, sn_lastDisconnectedAt = None,
     sn_failureCode = None, sn_failureKind = None\<rparr>"

definition sample_open :: "string \<Rightarrow> coordinator" where
  "sample_open p = coordinator_init\<lparr>co_sessions := [(p, sample_snapshot p Negotiating None)],
     co_connectOperations := [(p, 0)], co_promises := 1\<rparr>"

lemma sample_connect:
  "coordinateConnect (coord_env me) p 100 coordinator_init = (Started 0, sample_open p)"
  by (simp add: coordinateConnect_def expireStaleNegotiation_def coordinator_init_def session_def
      clearReconnectTimer_def window_attempts_def setSnapshot_def sample_open_def sample_snapshot_def)

lemma sample_open_session [simp]:
  "session (sample_open p) p = Some (sample_snapshot p Negotiating None)"
  "\<not> co_stopped (sample_open p)" "co_reconnectTimers (sample_open p) = []"
  by (simp_all add: session_def sample_open_def coordinator_init_def)

theorem connected_peer_settled_witness:
  "let c = foldl (coordinator_step (coord_env ''a'')) coordinator_init
       [(Cv_connect ''b'', 100), (Cv_transport ''b'' ''n'' Ts_connected None, 120)]
   in ''b'' \<notin> set (jm_keys (co_connectOperations c))"
proof -
  let ?es = "[(Cv_connect ''b'', 100), (Cv_transport ''b'' ''n'' Ts_connected None, 120)]"
  let ?c = "foldl (coordinator_step (coord_env ''a'')) coordinator_init ?es"
  have "\<exists>s. session ?c ''b'' = Some s \<and> sn_status s = Connected"
    by (simp add: sample_connect handleTransportState_alt)
      (simp add: sample_snapshot_def transport_update_def)
  then obtain s where "session ?c ''b'' = Some s" "sn_status s = Connected" by blast
  from connected_peer_settled [OF this] show ?thesis by (simp add: Let_def)
qed

theorem glare_exactly_one_witness:
  "offer_accepted (considerIncomingOffer (coord_env ''a'') ''b'' ''nb'' 100 130 (sample_open ''b''))
    \<longleftrightarrow> \<not> offer_accepted (considerIncomingOffer (coord_env ''b'') ''a'' ''na'' 100 130 (sample_open ''a''))"
  using glare_exactly_one [of "sample_open ''b''" "''b''" "sample_snapshot ''b'' Negotiating None"
      "sample_open ''a''" "''a''" "sample_snapshot ''a'' Negotiating None"
      "coord_env ''a''" "coord_env ''b''" 3000 "''nb''" 130 "''na''" 130]
  by (simp add: coord_env_def sample_snapshot_def defaultPeerReconnectPolicy_def offered_at_def
      or_else_def)

theorem reconnect_delay_bounds_witness:
  "rat_of_int (calculateReconnectDelay ''a'' ''b'' 1 defaultPeerReconnectPolicy None) \<le> 1200 + 1 / 2"
  using reconnect_delay_bounds [of defaultPeerReconnectPolicy 1 None "''a''" "''b''"]
  by (simp add: defaultPeerReconnectPolicy_def plain_delay_def or_else_def Let_def)


theorem late_event_cancels_offer_witness:
  "fst (registerOutbound ''b'' ''n2'' None 130
     (handleTransportState (coord_env ''a'') ''b'' ''n1'' Ts_disconnected None 120 (sample_open ''b'')))
     = False"
  using late_event_cancels_offer [OF sample_connect coordinator_init_inv, of "''a''" "''b''" "''n1''"
      None 120 "''n2''" None 130]
  by (simp add: Let_def)

end
