(* ===== verification/Uri.thy ===== *)
theory Uri
  imports Canonical
begin

text \<open>
  \<open>encodeURIComponent\<close>, \<open>decodeURIComponent\<close>, \<open>Number\<close> and \<open>trim\<close> on Latin-1 text, as cursors and
  invites use them, with the facts that they read back what was written. What the decoders do with
  text outside the fragments modelled here is their first argument.
\<close>

section \<open>Definitions\<close>

definition uri_unreserved :: "char \<Rightarrow> bool" where
  "uri_unreserved c = (let n = (of_char c :: nat) in
     65 \<le> n \<and> n \<le> 90 \<or> 97 \<le> n \<and> n \<le> 122 \<or> 48 \<le> n \<and> n \<le> 57
     \<or> n \<in> {33, 39, 40, 41, 42, 45, 46, 95, 126})"

definition upper_hex :: string where
  "upper_hex = ''0123456789ABCDEF''"

definition percent_byte :: "nat \<Rightarrow> string" where
  "percent_byte b = [CHR 0x25, upper_hex ! (b div 16), upper_hex ! (b mod 16)]"

text \<open>The UTF-8 bytes of a Latin-1 character.\<close>

definition latin1_bytes :: "char \<Rightarrow> nat list" where
  "latin1_bytes c = (let n = (of_char c :: nat) in
     if n < 128 then [n] else [192 + n div 64, 128 + n mod 64])"

definition uri_char :: "char \<Rightarrow> string" where
  "uri_char c = (if uri_unreserved c then [c] else concat (map percent_byte (latin1_bytes c)))"

definition encodeURIComponent :: "string \<Rightarrow> string" where
  "encodeURIComponent s = concat (map uri_char s)"

fun hex_digit_value :: "char \<Rightarrow> nat option" where
  "hex_digit_value c = (let n = (of_char c :: nat) in
     if 48 \<le> n \<and> n \<le> 57 then Some (n - 48)
     else if 65 \<le> n \<and> n \<le> 70 then Some (n - 55)
     else if 97 \<le> n \<and> n \<le> 102 then Some (n - 87) else None)"

definition hex_byte_value :: "char \<Rightarrow> char \<Rightarrow> nat option" where
  "hex_byte_value a b = (case (hex_digit_value a, hex_digit_value b) of
     (Some x, Some y) \<Rightarrow> Some (16 * x + y) | _ \<Rightarrow> None)"

text \<open>\<open>decodeURIComponent\<close> on escapes of Latin-1 text; \<open>None\<close> for any other escape.\<close>

fun decode_latin1 :: "string \<Rightarrow> string option" where
  "decode_latin1 [] = Some []"
| "decode_latin1 (c # rest) =
     (if c \<noteq> CHR 0x25 then map_option (\<lambda>s. c # s) (decode_latin1 rest)
      else (case rest of
        a # b # rest1 \<Rightarrow> (case hex_byte_value a b of
          None \<Rightarrow> None
        | Some n \<Rightarrow>
            if n < 128 then map_option (\<lambda>s. char_of n # s) (decode_latin1 rest1)
            else if n = 194 \<or> n = 195 then (case rest1 of
              d # e # f # rest2 \<Rightarrow>
                if d \<noteq> CHR 0x25 then None
                else (case hex_byte_value e f of
                  None \<Rightarrow> None
                | Some m \<Rightarrow> if 128 \<le> m \<and> m < 192
                    then map_option (\<lambda>s. char_of (64 * (n - 192) + (m - 128)) # s) (decode_latin1 rest2)
                    else None)
            | _ \<Rightarrow> None)
            else None)
      | _ \<Rightarrow> None))"

definition decodeURIComponent :: "(string \<Rightarrow> string option) \<Rightarrow> string \<Rightarrow> string option" where
  \<comment> \<open>\<open>None\<close>: it throws.\<close>
  "decodeURIComponent other s = (case decode_latin1 s of Some t \<Rightarrow> Some t | None \<Rightarrow> other s)"

text \<open>\<open>Number\<close> of a text: decimal integers here.\<close>

definition js_Number :: "(string \<Rightarrow> number) \<Rightarrow> string \<Rightarrow> number" where
  "js_Number other s = (case s of
     [] \<Rightarrow> Fin 0
   | c # ds \<Rightarrow>
       if list_all is_digit s then Fin (int (read_nat s))
       else if c = CHR ''-'' \<and> ds \<noteq> [] \<and> list_all is_digit ds then Fin (- int (read_nat ds))
       else other s)"

definition js_space :: "char \<Rightarrow> bool" where
  "js_space c \<longleftrightarrow> of_char c \<in> {9, 10, 11, 12, 13, 32, 160 :: nat}"

definition js_trim :: "string \<Rightarrow> string" where
  "js_trim s = rev (dropWhile js_space (rev (dropWhile js_space s)))"

fun split_char :: "char \<Rightarrow> string \<Rightarrow> string list" where
  \<comment> \<open>\<open>s.split(c)\<close>\<close>
  "split_char c [] = [[]]"
| "split_char c (x # xs) =
     (if x = c then [] # split_char c xs
      else (case split_char c xs of [] \<Rightarrow> [[x]] | p # ps \<Rightarrow> (x # p) # ps))"

section \<open>Reading back\<close>

lemma upper_hex_digit:
  assumes "n < 16"
  shows "hex_digit_value (upper_hex ! n) = Some n"
proof -
  have "\<forall>n \<in> set [0..<16]. hex_digit_value (upper_hex ! n) = Some n"
    by (simp add: upper_hex_def upt_rec Let_def)
  then show ?thesis using assms by simp
qed

lemma hex_byte_percent: "n < 256 \<Longrightarrow> hex_byte_value (upper_hex ! (n div 16)) (upper_hex ! (n mod 16)) = Some n"
  using upper_hex_digit [of "n div 16"] upper_hex_digit [of "n mod 16"]
  by (simp add: hex_byte_value_def del: hex_digit_value.simps)

lemma decode_percent_low:
  "n < 128 \<Longrightarrow> decode_latin1 (percent_byte n @ r) = map_option (\<lambda>s. char_of n # s) (decode_latin1 r)"
  by (simp add: percent_byte_def hex_byte_percent)

lemma decode_percent_high:
  assumes "n = 194 \<or> n = 195" and "128 \<le> m" and "m < 192"
  shows "decode_latin1 (percent_byte n @ percent_byte m @ r)
    = map_option (\<lambda>s. char_of (64 * (n - 192) + (m - 128)) # s) (decode_latin1 r)"
proof -
  have h: "hex_byte_value (upper_hex ! (n div 16)) (upper_hex ! (n mod 16)) = Some n"
    "hex_byte_value (upper_hex ! (m div 16)) (upper_hex ! (m mod 16)) = Some m"
    using assms by (intro hex_byte_percent; auto)+
  have "\<not> n < 128" using assms(1) by auto
  then show ?thesis using assms h by (simp add: percent_byte_def)
qed

lemma decode_uri_char: "decode_latin1 (uri_char c @ r) = map_option (\<lambda>s. c # s) (decode_latin1 r)"
proof -
  define n where "n = (of_char c :: nat)"
  have c: "c = char_of n" and n: "n < 256" by (simp_all add: n_def)
  consider "uri_unreserved c" | "\<not> uri_unreserved c" "n < 128" | "\<not> uri_unreserved c" "128 \<le> n"
    by linarith
  then show ?thesis
  proof cases
    case 1
    then have "c \<noteq> CHR 0x25" by (auto simp: uri_unreserved_def)
    with 1 show ?thesis by (simp add: uri_char_def)
  next
    case 2
    then have "uri_char c = percent_byte n" by (simp add: uri_char_def latin1_bytes_def n_def)
    then show ?thesis using decode_percent_low [OF 2(2)] c by simp
  next
    case 3
    then have u: "uri_char c = percent_byte (192 + n div 64) @ percent_byte (128 + n mod 64)"
      by (simp add: uri_char_def latin1_bytes_def n_def Let_def)
    have "192 + n div 64 = 194 \<or> 192 + n div 64 = 195" using 3(2) n by linarith
    moreover have "char_of (64 * (192 + n div 64 - 192) + (128 + n mod 64 - 128)) = c"
      by (simp add: c)
    ultimately show ?thesis
      using decode_percent_high [of "192 + n div 64" "128 + n mod 64" r] by (simp add: u)
  qed
qed

lemma decode_encode_uri: "decode_latin1 (encodeURIComponent s) = Some s"
  by (induction s) (simp_all add: encodeURIComponent_def decode_uri_char)

lemma digit_not_colon: "is_digit c \<Longrightarrow> c \<noteq> CHR '':'' \<and> c \<noteq> CHR ''-''"
  by (auto simp: is_digit_def)

lemma show_nat_all_digits: "list_all is_digit (show_nat n)"
  using show_nat_digits by (simp add: list_all_iff)

lemma show_int_no_colon: "CHR '':'' \<notin> set (show_int t)"
proof -
  have "CHR '':'' \<notin> set (show_nat n)" for n using show_nat_digits [of n] digit_not_colon by blast
  then show ?thesis by (simp add: show_int_def)
qed

lemma number_show_nat: "js_Number other (show_nat n) = Fin (int n)"
proof -
  obtain c cs where "show_nat n = c # cs" using show_nat_hd by blast
  then show ?thesis using show_nat_all_digits [of n] read_show_nat [of n] by (simp add: js_Number_def)
qed

lemma number_show_int: "js_Number other (show_int t) = Fin t"
proof (cases "t < 0")
  case True
  then have s: "show_int t = CHR ''-'' # show_nat (nat (- t))" by (simp add: show_int_def)
  have "\<not> is_digit (CHR ''-'')" by (simp add: is_digit_def)
  then show ?thesis
    using True show_nat_all_digits show_nat_nonempty [of "nat (- t)"]
    by (simp add: s js_Number_def read_show_nat)
qed (simp add: show_int_def number_show_nat)

end
