(* ===== verification/Sync.thy ===== *)
theory Sync
  imports Conflict Uri
begin

text \<open>
  Incremental synchronisation: \<open>src/services/sync/IncrementalSyncService.ts\<close> (manifests and batches of
  the social records after a cursor, what a remote manifest has that is missing here, applying a
  batch) and \<open>src/services/sync/SyncCheckpointRepository.ts\<close> (how far each entity of each peer has been
  read). The repositories are tables by record id (\<open>INSERT OR REPLACE\<close> and \<open>UPDATE\<close> by id); stored times
  are finite. The social application service, which applies a record when it is configured, the state
  hash of a record, \<open>localeCompare\<close>, and what \<open>Number\<close> and \<open>decodeURIComponent\<close> do with text outside
  the fragments modelled here are parameters.
\<close>

section \<open>Records\<close>

record sync_data =
  sd_record :: social_record
  sd_contentHash :: string
  sd_signature :: string
  sd_relayOnly :: bool
  sd_senderId :: string
  sd_recipientId :: string

type_synonym data_table = "(string, sync_data) jsmap"

record sync_stores =
  ss_posts :: data_table
  ss_profiles :: "data_table option"
  ss_comments :: "data_table option"
  ss_reactions :: "data_table option"
  ss_follows :: "data_table option"
  ss_chats :: "data_table option"

record sync_record =
  ry_entity :: conflict_entity
  ry_id :: string
  ry_contentHash :: string
  ry_stateHash :: string
  ry_updatedAt :: int
  ry_author :: string
  ry_deleted :: bool
  ry_data :: sync_data

datatype apply_error = Apply_error bool

text \<open>The argument of \<open>Apply_error\<close>: \<open>isRetryableApplyFailure\<close> of the error.\<close>

fun isRetryableApplyFailure :: "apply_error \<Rightarrow> bool" where
  "isRetryableApplyFailure (Apply_error retryable) = retryable"

record sync_env =
  se_localPeerId :: string
  se_batchSize :: nat
  se_stateHash :: "conflict_entity \<Rightarrow> sync_data \<Rightarrow> string"
  se_localeCompare :: "string \<Rightarrow> string \<Rightarrow> int"
  se_number_text :: "string \<Rightarrow> number"
  se_uri_text :: "string \<Rightarrow> string option"
  se_service :: "(conflict_entity \<Rightarrow> string \<Rightarrow> sync_data \<Rightarrow> sync_stores
      \<Rightarrow> (apply_error + apply_result) \<times> sync_stores) option"

definition sync_entities :: "conflict_entity list" where
  "sync_entities = [E_post, E_profile, E_comment, E_reaction, E_follow, E_chat]"

text \<open>\<open>toPostRecord\<close> and its siblings: the entities with a content hash of their own, those known by
  their signature, and chat messages, whose author is the sender.\<close>

definition to_record :: "sync_env \<Rightarrow> conflict_entity \<Rightarrow> sync_data \<Rightarrow> sync_record" where
  "to_record env entity d = \<lparr>ry_entity = entity, ry_id = sr_id (sd_record d),
     ry_contentHash = (if entity \<in> {E_post, E_comment, E_chat} then sd_contentHash d else sd_signature d),
     ry_stateHash = se_stateHash env entity d,
     ry_updatedAt = fin_part (sr_updatedAt (sd_record d)),
     ry_author = (if entity = E_chat then sd_senderId d else sr_author (sd_record d)),
     ry_deleted = (entity \<noteq> E_profile \<and> sr_deleted (sd_record d) = Some True),
     ry_data = d\<rparr>"

definition compareRecordsAscending :: "(string \<Rightarrow> string \<Rightarrow> int) \<Rightarrow> sync_record \<Rightarrow> sync_record \<Rightarrow> int" where
  "compareRecordsAscending lc l r =
     (if ry_updatedAt l \<noteq> ry_updatedAt r then ry_updatedAt l - ry_updatedAt r
      else lc (ry_id l) (ry_id r))"

definition table_values :: "data_table option \<Rightarrow> sync_data list" where
  "table_values t = (case t of None \<Rightarrow> [] | Some m \<Rightarrow> jm_values m)"

definition truthy :: "string option \<Rightarrow> bool" where
  "truthy s \<longleftrightarrow> s \<noteq> None \<and> s \<noteq> Some []"

definition chat_visible :: "string option \<Rightarrow> sync_data \<Rightarrow> bool" where
  "chat_visible audience d \<longleftrightarrow> \<not> sd_relayOnly d
     \<and> (\<not> truthy audience \<or> Some (sd_senderId d) = audience \<or> Some (sd_recipientId d) = audience)"

definition getAllRecords :: "sync_env \<Rightarrow> string option \<Rightarrow> sync_stores \<Rightarrow> sync_record list" where
  "getAllRecords env audience st = js_sort (compareRecordsAscending (se_localeCompare env))
     (map (to_record env E_post) (jm_values (ss_posts st))
      @ map (to_record env E_profile) (table_values (ss_profiles st))
      @ map (to_record env E_comment) (table_values (ss_comments st))
      @ map (to_record env E_reaction) (table_values (ss_reactions st))
      @ map (to_record env E_follow) (table_values (ss_follows st))
      @ map (to_record env E_chat) (filter (chat_visible audience) (table_values (ss_chats st))))"

definition getRecordsForEntity ::
  "sync_env \<Rightarrow> conflict_entity \<Rightarrow> string option \<Rightarrow> sync_stores \<Rightarrow> sync_record list" where
  "getRecordsForEntity env entity audience st =
     filter (\<lambda>r. ry_entity r = entity) (getAllRecords env audience st)"

section \<open>Cursors\<close>

definition encodeCursor :: "int \<Rightarrow> string \<Rightarrow> string" where
  "encodeCursor updatedAt i = show_int updatedAt @ '':'' @ encodeURIComponent i"

datatype cursor_result = Cursor_throws | No_cursor | Cursor int string

definition decodeCursor :: "sync_env \<Rightarrow> string option \<Rightarrow> cursor_result" where
  "decodeCursor env cursor = (case cursor of
     None \<Rightarrow> No_cursor
   | Some s \<Rightarrow>
       if CHR '':'' \<notin> set s then No_cursor
       else (let before = takeWhile (\<lambda>c. c \<noteq> CHR '':'') s;
                 after = drop (Suc (length before)) s;
                 updatedAt = js_Number (se_number_text env) before
             in case decodeURIComponent (se_uri_text env) after of
                  None \<Rightarrow> Cursor_throws
                | Some i \<Rightarrow> (case updatedAt of
                    Fin t \<Rightarrow> if i = [] then No_cursor else Cursor t i
                  | Non _ \<Rightarrow> No_cursor)))"

text \<open>Comparison of ids with \<open>>\<close> is by code units.\<close>

definition after_cursor :: "int \<Rightarrow> string \<Rightarrow> sync_record \<Rightarrow> bool" where
  "after_cursor t i r \<longleftrightarrow> ry_updatedAt r > t \<or> ry_updatedAt r = t \<and> code_cmp (ry_id r) i > 0"

definition filterRecordsAfterCursor ::
  "sync_env \<Rightarrow> sync_record list \<Rightarrow> string option \<Rightarrow> sync_record list option" where
  "filterRecordsAfterCursor env records cursor = (case decodeCursor env cursor of
     Cursor_throws \<Rightarrow> None
   | No_cursor \<Rightarrow> Some records
   | Cursor t i \<Rightarrow> Some (filter (after_cursor t i) records))"

section \<open>Manifests\<close>

record manifest_item =
  mf_entity :: conflict_entity
  mf_id :: string
  mf_contentHash :: string
  mf_stateHash :: string
  mf_updatedAt :: int
  mf_author :: string
  mf_deleted :: bool

definition toManifestItem :: "sync_record \<Rightarrow> manifest_item" where
  "toManifestItem r = \<lparr>mf_entity = ry_entity r, mf_id = ry_id r, mf_contentHash = ry_contentHash r,
     mf_stateHash = ry_stateHash r, mf_updatedAt = ry_updatedAt r, mf_author = ry_author r,
     mf_deleted = ry_deleted r\<rparr>"

definition manifest_line :: "manifest_item \<Rightarrow> string" where
  "manifest_line m = join_with '':'' [entity_name (mf_entity m), encodeURIComponent (mf_id m),
     show_int (mf_updatedAt m), mf_stateHash m]"

definition hashManifestItems :: "manifest_item list \<Rightarrow> string" where
  "hashManifestItems items = sha256Hex (join_with [CHR 0x0A] (map manifest_line items))"

definition hashManifestRecords :: "sync_record list \<Rightarrow> string" where
  "hashManifestRecords records = hashManifestItems (map toManifestItem records)"

record sync_manifest =
  sm_peerId :: string
  sm_cursor :: "string option"
  sm_nextCursor :: "string option"
  sm_hasMore :: bool
  sm_items :: "manifest_item list"

record entity_manifest = sync_manifest +
  em_entity :: conflict_entity
  em_rootHash :: string
  em_rangeHash :: string
  em_totalItems :: nat

definition next_cursor :: "sync_record list \<Rightarrow> string option \<Rightarrow> string option" where
  "next_cursor selected cursor = (if selected = [] then cursor
     else Some (encodeCursor (ry_updatedAt (last selected)) (ry_id (last selected))))"

definition createManifest ::
  "sync_env \<Rightarrow> string option \<Rightarrow> string option \<Rightarrow> sync_stores \<Rightarrow> sync_manifest option" where
  "createManifest env cursor audience st =
     map_option (\<lambda>records. let selected = take (se_batchSize env) records in
       \<lparr>sm_peerId = se_localPeerId env, sm_cursor = cursor,
        sm_nextCursor = next_cursor selected cursor,
        sm_hasMore = (length records > length selected),
        sm_items = map toManifestItem selected\<rparr>)
     (filterRecordsAfterCursor env (getAllRecords env audience st) cursor)"

definition createEntityManifest ::
  "sync_env \<Rightarrow> conflict_entity \<Rightarrow> string option \<Rightarrow> string option \<Rightarrow> sync_stores
     \<Rightarrow> entity_manifest option" where
  "createEntityManifest env entity cursor audience st =
     (let allRecords = getRecordsForEntity env entity audience st in
      map_option (\<lambda>records. let selected = take (se_batchSize env) records in
        \<lparr>sm_peerId = se_localPeerId env, sm_cursor = cursor,
         sm_nextCursor = next_cursor selected cursor,
         sm_hasMore = (length records > length selected),
         sm_items = map toManifestItem selected,
         em_entity = entity, em_rootHash = hashManifestRecords allRecords,
         em_rangeHash = hashManifestRecords selected, em_totalItems = length allRecords\<rparr>)
      (filterRecordsAfterCursor env allRecords cursor))"

definition differs_locally :: "sync_record list \<Rightarrow> manifest_item \<Rightarrow> bool" where
  \<comment> \<open>\<open>new Map\<close> keeps the last record of an id.\<close>
  "differs_locally localRecords remote =
     (case map_of (rev (map (\<lambda>r. (ry_id r, r)) localRecords)) (mf_id remote) of
        None \<Rightarrow> True | Some r \<Rightarrow> mf_stateHash remote \<noteq> ry_stateHash r)"

definition findMissingManifestItems ::
  "sync_env \<Rightarrow> entity_manifest \<Rightarrow> string option \<Rightarrow> sync_stores \<Rightarrow> manifest_item list option" where
  "findMissingManifestItems env manifest audience0 st =
     (let audience = Some (or_else audience0 (se_localPeerId env)) in
      case createEntityManifest env (em_entity manifest) (sm_cursor manifest) audience st of
        None \<Rightarrow> None
      | Some localManifest \<Rightarrow> Some (
          if em_rangeHash localManifest = em_rangeHash manifest
             \<and> length (sm_items localManifest) = length (sm_items manifest) then []
          else filter (differs_locally (getRecordsForEntity env (em_entity manifest) audience st))
                 (sm_items manifest)))"

definition getEntityRootHash ::
  "sync_env \<Rightarrow> conflict_entity \<Rightarrow> string option \<Rightarrow> sync_stores \<Rightarrow> string" where
  "getEntityRootHash env entity audience st =
     hashManifestRecords (getRecordsForEntity env entity (Some (or_else audience (se_localPeerId env))) st)"

definition isManifestRangeValid :: "entity_manifest \<Rightarrow> bool" where
  "isManifestRangeValid m \<longleftrightarrow> hashManifestItems (sm_items m) = em_rangeHash m"

section \<open>Batches\<close>

record sync_batch =
  sb_version :: int
  sb_peerId :: string
  sb_entity :: "conflict_entity option"
  sb_itemIds :: "string list option"
  sb_cursor :: "string option"
  sb_nextCursor :: "string option"
  sb_hasMore :: bool
  sb_posts :: "sync_data list"
  sb_profiles :: "sync_data list option"
  sb_comments :: "sync_data list option"
  sb_reactions :: "sync_data list option"
  sb_follows :: "sync_data list option"
  sb_chatMessages :: "sync_data list option"

definition data_of :: "conflict_entity \<Rightarrow> sync_record list \<Rightarrow> sync_data list" where
  "data_of entity records = map ry_data (filter (\<lambda>r. ry_entity r = entity) records)"

definition createBatchFromRecords ::
  "string \<Rightarrow> sync_record list \<Rightarrow> int \<Rightarrow> conflict_entity option \<Rightarrow> string list option \<Rightarrow> string option
     \<Rightarrow> string option \<Rightarrow> bool option \<Rightarrow> sync_batch" where
  "createBatchFromRecords peerId records version entity itemIds cursor nextCursor hasMore =
     \<lparr>sb_version = version, sb_peerId = peerId, sb_entity = entity, sb_itemIds = itemIds,
      sb_cursor = cursor, sb_nextCursor = nextCursor, sb_hasMore = or_else hasMore False,
      sb_posts = data_of E_post records,
      sb_profiles = Some (data_of E_profile records),
      sb_comments = Some (data_of E_comment records),
      sb_reactions = Some (data_of E_reaction records),
      sb_follows = Some (data_of E_follow records),
      sb_chatMessages = Some (data_of E_chat records)\<rparr>"

definition createEntityBatch ::
  "sync_env \<Rightarrow> conflict_entity \<Rightarrow> string list \<Rightarrow> string option \<Rightarrow> sync_stores \<Rightarrow> sync_batch" where
  "createEntityBatch env entity itemIds audience st =
     (let requestedIds = set (take (se_batchSize env) itemIds);
          records = filter (\<lambda>r. ry_id r \<in> requestedIds) (getRecordsForEntity env entity audience st)
      in createBatchFromRecords (se_localPeerId env) records 2 (Some entity)
           (Some (map ry_id records)) None None None)"

definition createBatch ::
  "sync_env \<Rightarrow> string option \<Rightarrow> int option \<Rightarrow> string option \<Rightarrow> sync_stores \<Rightarrow> sync_batch option" where
  "createBatch env cursor maxItems audience st =
     map_option (\<lambda>records.
       let selected = take (nat (max 0 (min (or_else maxItems (int (se_batchSize env)))
                                   (int (se_batchSize env))))) records
       in createBatchFromRecords (se_localPeerId env) selected 1 None None cursor
            (next_cursor selected cursor) (Some (length records > length selected)))
     (filterRecordsAfterCursor env (getAllRecords env audience st) cursor)"

section \<open>Applying a batch\<close>

datatype sync_event =
    Conflict_detected conflict_entity string string
  | Cursor_recorded string "string option" nat
  | Sync_completed string nat

abbreviation result_of :: "bool \<Rightarrow> bool \<Rightarrow> bool \<Rightarrow> apply_result" where
  "result_of a s c \<equiv> \<lparr>ar_applied = a, ar_skipped = s, ar_conflict = c\<rparr>"

text \<open>The fallback of \<open>applyPost\<close> and its siblings on one table: \<open>existing\<close> is the row the entity looks
  up, \<open>duplicates\<close> tells whether a new record with a known content hash is skipped.\<close>

definition apply_to_table ::
  "sync_env \<Rightarrow> conflict_entity \<Rightarrow> bool \<Rightarrow> sync_data option \<Rightarrow> sync_data \<Rightarrow> int \<Rightarrow> data_table
     \<Rightarrow> apply_result \<times> data_table" where
  "apply_to_table env entity duplicates existing d now t =
     (case resolveFallbackConflict (se_localeCompare env) entity (map_option sd_record existing)
             (sd_record d) (map_option (se_stateHash env entity) existing)
             (se_stateHash env entity d) now of
        Some r \<Rightarrow> (r, t)
      | None \<Rightarrow>
          if duplicates \<and> existing = None
             \<and> (\<exists>x \<in> set (jm_values t). sd_contentHash x = sd_contentHash d)
          then (result_of False True False, t)
          else (result_of True False False, jm_set (sr_id (sd_record d)) d t))"

definition apply_optional ::
  "sync_env \<Rightarrow> conflict_entity \<Rightarrow> bool \<Rightarrow> sync_data \<Rightarrow> int \<Rightarrow> data_table option
     \<Rightarrow> apply_result \<times> data_table option" where
  "apply_optional env entity duplicates d now t = (case t of
     None \<Rightarrow> (result_of False True False, None)
   | Some m \<Rightarrow>
       (let existing = (if entity = E_profile
              then find (\<lambda>x. sr_author (sd_record x) = sr_author (sd_record d)) (jm_values m)
              else jm_get m (sr_id (sd_record d)));
            (r, m1) = apply_to_table env entity duplicates existing d now m
        in (r, Some m1)))"

definition apply_record ::
  "sync_env \<Rightarrow> conflict_entity \<Rightarrow> string \<Rightarrow> sync_data \<Rightarrow> int \<Rightarrow> sync_stores
     \<Rightarrow> (apply_error + apply_result) \<times> sync_stores" where
  "apply_record env entity peerId d now st = (case se_service env of
     Some service \<Rightarrow> service entity peerId d st
   | None \<Rightarrow> (case entity of
       E_post \<Rightarrow> (let (r, t) = apply_to_table env E_post True
                      (jm_get (ss_posts st) (sr_id (sd_record d))) d now (ss_posts st)
                   in (Inr r, st\<lparr>ss_posts := t\<rparr>))
     | E_profile \<Rightarrow> (let (r, t) = apply_optional env E_profile False d now (ss_profiles st)
                      in (Inr r, st\<lparr>ss_profiles := t\<rparr>))
     | E_comment \<Rightarrow> (let (r, t) = apply_optional env E_comment False d now (ss_comments st)
                      in (Inr r, st\<lparr>ss_comments := t\<rparr>))
     | E_reaction \<Rightarrow> (let (r, t) = apply_optional env E_reaction False d now (ss_reactions st)
                       in (Inr r, st\<lparr>ss_reactions := t\<rparr>))
     | E_follow \<Rightarrow> (let (r, t) = apply_optional env E_follow False d now (ss_follows st)
                     in (Inr r, st\<lparr>ss_follows := t\<rparr>))
     | E_chat \<Rightarrow> (let (r, t) = apply_optional env E_chat True d now (ss_chats st)
                   in (Inr r, st\<lparr>ss_chats := t\<rparr>))))"

record apply_state =
  as_stores :: sync_stores
  as_applied :: nat
  as_skipped :: nat
  as_events :: "sync_event list"

definition applySafely ::
  "sync_env \<Rightarrow> string \<Rightarrow> bool \<Rightarrow> int \<Rightarrow> conflict_entity \<times> sync_data \<Rightarrow> apply_state
     \<Rightarrow> (apply_error + apply_result) \<times> apply_state" where
  "applySafely env peerId strict now p s =
     (case apply_record env (fst p) peerId (snd p) now (as_stores s) of
        (Inr r, st) \<Rightarrow> (Inr r, s\<lparr>as_stores := st\<rparr>)
      | (Inl e, st) \<Rightarrow>
          (let s1 = s\<lparr>as_stores := st, as_events := as_events s
                 @ [Conflict_detected (fst p) (sr_id (sd_record (snd p))) peerId]\<rparr>
           in if strict \<and> isRetryableApplyFailure e then (Inl e, s1)
              else (Inr (result_of False True False), s1)))"

definition count_result :: "apply_result \<Rightarrow> apply_state \<Rightarrow> apply_state" where
  "count_result r s = s\<lparr>as_applied := as_applied s + (if ar_applied r then 1 else 0),
     as_skipped := as_skipped s + (if ar_skipped r \<or> ar_conflict r then 1 else 0)\<rparr>"

fun apply_all ::
  "sync_env \<Rightarrow> string \<Rightarrow> bool \<Rightarrow> int \<Rightarrow> (conflict_entity \<times> sync_data) list \<Rightarrow> apply_state
     \<Rightarrow> apply_error option \<times> apply_state" where
  "apply_all env peerId strict now [] s = (None, s)"
| "apply_all env peerId strict now (p # ps) s = (case applySafely env peerId strict now p s of
     (Inl e, s1) \<Rightarrow> (Some e, s1)
   | (Inr r, s1) \<Rightarrow> apply_all env peerId strict now ps (count_result r s1))"

definition batch_items :: "sync_batch \<Rightarrow> (conflict_entity \<times> sync_data) list" where
  "batch_items b = map (Pair E_post) (sb_posts b)
     @ map (Pair E_profile) (or_else (sb_profiles b) [])
     @ map (Pair E_comment) (or_else (sb_comments b) [])
     @ map (Pair E_reaction) (or_else (sb_reactions b) [])
     @ map (Pair E_follow) (or_else (sb_follows b) [])
     @ map (Pair E_chat) (or_else (sb_chatMessages b) [])"

record sync_result =
  sy_applied :: nat
  sy_skipped :: nat
  sy_nextCursor :: "string option"
  sy_hasMore :: bool

datatype batch_error = Unsupported_batch_version | Apply_failed apply_error

definition applyBatch ::
  "sync_env \<Rightarrow> string \<Rightarrow> sync_batch \<Rightarrow> int \<Rightarrow> sync_stores
     \<Rightarrow> (batch_error + sync_result) \<times> sync_stores \<times> sync_event list" where
  "applyBatch env peerId batch now st =
     (if sb_version batch \<noteq> 1 \<and> sb_version batch \<noteq> 2 then (Inl Unsupported_batch_version, st, [])
      else (case apply_all env peerId (sb_version batch = 2) now (batch_items batch)
                   \<lparr>as_stores = st, as_applied = 0, as_skipped = 0, as_events = []\<rparr> of
        (Some e, s) \<Rightarrow> (Inl (Apply_failed e), as_stores s, as_events s)
      | (None, s) \<Rightarrow>
          (Inr \<lparr>sy_applied = as_applied s, sy_skipped = as_skipped s,
                sy_nextCursor = sb_nextCursor batch, sy_hasMore = sb_hasMore batch\<rparr>,
           as_stores s,
           as_events s
           @ (if sb_version batch = 1
              then [Cursor_recorded peerId (sb_nextCursor batch) (as_applied s)] else [])
           @ (if as_applied s > 0 then [Sync_completed peerId (as_applied s)] else []))))"

section \<open>Checkpoints\<close>

datatype checkpoint_status = Scanning | Complete

record checkpoint =
  cp_id :: string
  cp_peerId :: string
  cp_entity :: conflict_entity
  cp_cursor :: "string option"
  cp_manifestHash :: string
  cp_status :: checkpoint_status
  cp_syncedObjects :: int
  cp_updatedAt :: int

type_synonym checkpoint_table = "(string, checkpoint) jsmap"

definition createCheckpointId :: "string \<Rightarrow> conflict_entity \<Rightarrow> string" where
  "createCheckpointId peerId entity = peerId @ '':'' @ entity_name entity"

definition getCheckpoint :: "string \<Rightarrow> conflict_entity \<Rightarrow> checkpoint_table \<Rightarrow> checkpoint option" where
  "getCheckpoint peerId entity t = jm_get t (createCheckpointId peerId entity)"

definition compareCheckpoints :: "(string \<Rightarrow> string \<Rightarrow> int) \<Rightarrow> checkpoint \<Rightarrow> checkpoint \<Rightarrow> int" where
  "compareCheckpoints lc l r = js_or (lc (cp_peerId l) (cp_peerId r))
     (lc (entity_name (cp_entity l)) (entity_name (cp_entity r)))"

definition listCheckpoints ::
  "(string \<Rightarrow> string \<Rightarrow> int) \<Rightarrow> string option \<Rightarrow> checkpoint_table \<Rightarrow> checkpoint list" where
  "listCheckpoints lc peerId t = js_sort (compareCheckpoints lc)
     (if truthy peerId then filter (\<lambda>c. Some (cp_peerId c) = peerId) (jm_values t) else jm_values t)"

definition writeCheckpoint :: "checkpoint \<Rightarrow> checkpoint_table \<Rightarrow> checkpoint_table" where
  "writeCheckpoint c t = insert_or_replace (cp_id c) c t"

definition accumulated ::
  "string \<Rightarrow> conflict_entity \<Rightarrow> string \<Rightarrow> int option \<Rightarrow> checkpoint_table \<Rightarrow> int" where
  "accumulated peerId entity manifestHash syncedObjects t =
     (case getCheckpoint peerId entity t of
        Some e \<Rightarrow> if cp_manifestHash e = manifestHash then cp_syncedObjects e else 0
      | None \<Rightarrow> 0) + max 0 (or_else syncedObjects 0)"

definition saveProgress ::
  "string \<Rightarrow> conflict_entity \<Rightarrow> string option \<Rightarrow> string \<Rightarrow> int option \<Rightarrow> int \<Rightarrow> checkpoint_table
     \<Rightarrow> checkpoint \<times> checkpoint_table" where
  "saveProgress peerId entity cursor manifestHash syncedObjects now t =
     (let c = \<lparr>cp_id = createCheckpointId peerId entity, cp_peerId = peerId, cp_entity = entity,
         cp_cursor = cursor, cp_manifestHash = manifestHash, cp_status = Scanning,
         cp_syncedObjects = accumulated peerId entity manifestHash syncedObjects t,
         cp_updatedAt = now\<rparr>
      in (c, writeCheckpoint c t))"

definition markComplete ::
  "string \<Rightarrow> conflict_entity \<Rightarrow> string \<Rightarrow> int option \<Rightarrow> int \<Rightarrow> checkpoint_table
     \<Rightarrow> checkpoint \<times> checkpoint_table" where
  "markComplete peerId entity manifestHash syncedObjects now t =
     (let c = \<lparr>cp_id = createCheckpointId peerId entity, cp_peerId = peerId, cp_entity = entity,
         cp_cursor = None, cp_manifestHash = manifestHash, cp_status = Complete,
         cp_syncedObjects = accumulated peerId entity manifestHash syncedObjects t,
         cp_updatedAt = now\<rparr>
      in (c, writeCheckpoint c t))"

definition clearPeer :: "string \<Rightarrow> checkpoint_table \<Rightarrow> checkpoint_table" where
  "clearPeer peerId t = filter (\<lambda>(k, c). cp_peerId c \<noteq> peerId) t"

definition clearCheckpoints :: "checkpoint_table \<Rightarrow> checkpoint_table" where
  "clearCheckpoints t = []"

end
