(* ===== verification/Sync_Claims.thy ===== *)
theory Sync_Claims
  imports Sync
begin

text \<open>
  What synchronisation promises: cursors read back, the pages of an entity are its records in order,
  each once, a manifest asks for exactly the records that differ, a batch accounts for every record
  and a failed batch moves no cursor, and checkpoints do not interfere. One theorem records the
  records a page boundary can lose.
\<close>

section \<open>Cursors\<close>

lemma decode_encode_cursor:
  assumes "i \<noteq> []"
  shows "decodeCursor env (Some (encodeCursor t i)) = Cursor t i"
proof -
  have "takeWhile (\<lambda>c. c \<noteq> CHR '':'') (encodeCursor t i) = show_int t"
    unfolding encodeCursor_def
    by (subst takeWhile_append2) (use show_int_no_colon in auto)
  then show ?thesis
    using assms by (simp add: decodeCursor_def encodeCursor_def number_show_int
        decodeURIComponent_def decode_encode_uri)
qed

text \<open>A cursor reads back as the time and id it was made of, whatever characters the id has.\<close>

theorem cursor_roundtrip:
  assumes "i \<noteq> []"
  shows "decodeCursor env (Some (encodeCursor t i)) = Cursor t i"
  using assms by (rule decode_encode_cursor)

section \<open>Pages\<close>

text \<open>Reading an entity page by page, as a peer does: at most \<open>n\<close> pages.\<close>

fun read_pages ::
  "sync_env \<Rightarrow> conflict_entity \<Rightarrow> string option \<Rightarrow> sync_stores \<Rightarrow> nat \<Rightarrow> string option
     \<Rightarrow> manifest_item list option" where
  "read_pages env entity audience st 0 cursor = Some []"
| "read_pages env entity audience st (Suc n) cursor =
     (case createEntityManifest env entity cursor audience st of
        None \<Rightarrow> None
      | Some m \<Rightarrow> if sm_hasMore m
          then map_option (\<lambda>rest. sm_items m @ rest)
                 (read_pages env entity audience st n (sm_nextCursor m))
          else Some (sm_items m))"

lemma compareRecords_or:
  "compareRecordsAscending lc = (\<lambda>l r. js_or (ry_updatedAt l - ry_updatedAt r) (lc (ry_id l) (ry_id r)))"
  by (intro ext) (simp add: compareRecordsAscending_def js_or_def)

lemma compareRecords_comparator:
  "comparator lc \<Longrightarrow> comparator (compareRecordsAscending lc)"
  unfolding compareRecords_or
  by (rule comparator_or comparator_diff | erule comparator_pullback)+

text \<open>The position of a record in the order the cursors use.\<close>

definition before :: "sync_record \<Rightarrow> sync_record \<Rightarrow> bool" where
  "before l r \<longleftrightarrow> after_cursor (ry_updatedAt l) (ry_id l) r"

lemma sorted_filter: "sorted_wrt P xs \<Longrightarrow> sorted_wrt P (filter Q xs)"
  by (rule sorted_wrt_filter)

lemma records_strictly_sorted:
  assumes "comparator (se_localeCompare env)"
    and "distinct (map ry_id (getRecordsForEntity env entity audience st))"
    and "\<forall>l \<in> set (getRecordsForEntity env entity audience st).
         \<forall>r \<in> set (getRecordsForEntity env entity audience st).
           se_localeCompare env (ry_id l) (ry_id r) \<le> 0 \<longrightarrow> code_cmp (ry_id l) (ry_id r) \<le> 0"
  shows "sorted_wrt before (getRecordsForEntity env entity audience st)"
proof -
  let ?rs = "getRecordsForEntity env entity audience st"
  let ?c = "compareRecordsAscending (se_localeCompare env)"
  have s: "sorted_wrt (\<lambda>l r. ?c l r \<le> 0) ?rs"
    unfolding getRecordsForEntity_def getAllRecords_def
    by (intro sorted_filter comparator.sorted_js_sort compareRecords_comparator assms(1))
  show ?thesis
  proof (subst sorted_wrt_iff_nth_less, intro allI impI)
    fix i j
    assume ij: "i < j" "j < length ?rs"
    then have le: "?c (?rs ! i) (?rs ! j) \<le> 0" using s by (simp add: sorted_wrt_iff_nth_less)
    have ne: "ry_id (?rs ! i) \<noteq> ry_id (?rs ! j)"
      using ij assms(2) nth_eq_iff_index_eq [of "map ry_id ?rs" i j] by simp
    have "code_cmp (ry_id (?rs ! j)) (ry_id (?rs ! i)) > 0"
      if "ry_updatedAt (?rs ! i) = ry_updatedAt (?rs ! j)"
    proof -
      have "se_localeCompare env (ry_id (?rs ! i)) (ry_id (?rs ! j)) \<le> 0"
        using le that by (simp add: compareRecordsAscending_def)
      then have "code_cmp (ry_id (?rs ! i)) (ry_id (?rs ! j)) \<le> 0" using assms(3) ij by auto
      moreover have "code_cmp (ry_id (?rs ! i)) (ry_id (?rs ! j)) \<noteq> 0" using ne by simp
      ultimately show ?thesis using code_cmp_neg [of "ry_id (?rs ! j)" "ry_id (?rs ! i)"] by linarith
    qed
    moreover have "ry_updatedAt (?rs ! i) \<le> ry_updatedAt (?rs ! j)"
      using le by (auto simp: compareRecordsAscending_def split: if_splits)
    ultimately show "before (?rs ! i) (?rs ! j)" by (auto simp: before_def after_cursor_def)
  qed
qed

lemma before_irrefl: "\<not> before r r"
  by (simp add: before_def after_cursor_def)

lemma before_asym: "before l r \<Longrightarrow> \<not> before r l"
  using code_cmp_neg [of "ry_id l" "ry_id r"] by (auto simp: before_def after_cursor_def)

text \<open>The cursor that stands before position \<open>k\<close>.\<close>

definition cursor_at :: "sync_record list \<Rightarrow> nat \<Rightarrow> string option" where
  "cursor_at rs k = (if k = 0 then None
     else Some (encodeCursor (ry_updatedAt (rs ! (k - 1))) (ry_id (rs ! (k - 1)))))"

lemma filter_at:
  assumes "sorted_wrt before rs" and "k \<le> length rs" and "\<forall>r \<in> set rs. ry_id r \<noteq> []"
  shows "filterRecordsAfterCursor env rs (cursor_at rs k) = Some (drop k rs)"
proof (cases k)
  case 0
  then show ?thesis by (simp add: filterRecordsAfterCursor_def decodeCursor_def cursor_at_def)
next
  case (Suc j)
  let ?x = "rs ! j"
  have x: "ry_id ?x \<noteq> []" using assms(2,3) Suc by simp
  have nth: "\<And>a b. a < b \<Longrightarrow> b < length rs \<Longrightarrow> before (rs ! a) (rs ! b)"
    using assms(1) by (simp add: sorted_wrt_iff_nth_less)
  have "\<not> before ?x r" if r: "r \<in> set (take k rs)" for r
  proof -
    obtain a where "a < k" "r = rs ! a" using r by (auto simp: in_set_conv_nth)
    then show ?thesis using nth [of a j] before_asym before_irrefl assms(2) Suc
      by (cases "a = j") auto
  qed
  moreover have "before ?x r" if r: "r \<in> set (drop k rs)" for r
  proof -
    obtain a where "a < length (drop k rs)" "drop k rs ! a = r" using r by (metis in_set_conv_nth)
    then have "k + a < length rs" "r = rs ! (k + a)" by auto
    then show ?thesis using nth [of j "k + a"] Suc by simp
  qed
  ultimately have "filter (before ?x) (take k rs) = []" "filter (before ?x) (drop k rs) = drop k rs"
    by (simp_all add: filter_empty_conv)
  then have "filter (before ?x) rs = drop k rs"
    by (metis append_Nil append_take_drop_id filter_append)
  then show ?thesis
    using decode_encode_cursor [OF x, of env "ry_updatedAt ?x"] Suc
    by (simp add: filterRecordsAfterCursor_def cursor_at_def before_def [abs_def])
qed

lemma next_cursor_at:
  assumes "k + b \<le> length rs" and "0 < b"
  shows "next_cursor (take b (drop k rs)) (cursor_at rs k) = cursor_at rs (k + b)"
proof -
  have len: "length (take b (drop k rs)) = b" using assms by simp
  have ne: "take b (drop k rs) \<noteq> []" using assms by auto
  moreover have "last (take b (drop k rs)) = rs ! (k + b - 1)"
    unfolding last_conv_nth [OF ne] len using assms by simp
  ultimately show ?thesis using assms by (simp add: next_cursor_def cursor_at_def)
qed

lemma read_pages_from:
  assumes "sorted_wrt before (getRecordsForEntity env entity audience st)"
    and "\<forall>r \<in> set (getRecordsForEntity env entity audience st). ry_id r \<noteq> []"
    and "0 < se_batchSize env"
    and "k \<le> length (getRecordsForEntity env entity audience st)"
    and "length (getRecordsForEntity env entity audience st) - k \<le> n * se_batchSize env"
  shows "read_pages env entity audience st n (cursor_at (getRecordsForEntity env entity audience st) k)
    = Some (map toManifestItem (drop k (getRecordsForEntity env entity audience st)))"
  using assms(4,5)
proof (induction n arbitrary: k)
  case 0
  then show ?case by simp
next
  case (Suc n)
  let ?rs = "getRecordsForEntity env entity audience st" and ?b = "se_batchSize env"
  have f: "filterRecordsAfterCursor env ?rs (cursor_at ?rs k) = Some (drop k ?rs)"
    using assms(1,2) Suc.prems(1) by (intro filter_at)
  show ?case
  proof (cases "k + ?b < length ?rs")
    case True
    have "read_pages env entity audience st n (cursor_at ?rs (k + ?b))
        = Some (map toManifestItem (drop (k + ?b) ?rs))"
      using True Suc.prems by (intro Suc.IH) auto
    moreover have "map toManifestItem (take ?b (drop k ?rs)) @ map toManifestItem (drop (k + ?b) ?rs)
        = map toManifestItem (drop k ?rs)"
      by (metis add.commute append_take_drop_id drop_drop map_append)
    ultimately show ?thesis
      using True next_cursor_at [of k ?b ?rs] assms(3)
      by (simp add: createEntityManifest_def Let_def f)
  next
    case False
    then have "take ?b (drop k ?rs) = drop k ?rs" by simp
    then show ?thesis by (simp add: createEntityManifest_def Let_def f)
  qed
qed

text \<open>Reading an entity page by page returns exactly its records, in order and each once, and
  ends after as many pages as the batch size requires, provided \<open>localeCompare\<close> orders the ids as
  their code units do.\<close>

theorem pages_complete:
  assumes "comparator (se_localeCompare env)"
    and "distinct (map ry_id (getRecordsForEntity env entity audience st))"
    and "\<forall>l \<in> set (getRecordsForEntity env entity audience st).
         \<forall>r \<in> set (getRecordsForEntity env entity audience st).
           se_localeCompare env (ry_id l) (ry_id r) \<le> 0 \<longrightarrow> code_cmp (ry_id l) (ry_id r) \<le> 0"
    and "\<forall>r \<in> set (getRecordsForEntity env entity audience st). ry_id r \<noteq> []"
    and "0 < se_batchSize env"
    and "length (getRecordsForEntity env entity audience st) \<le> n * se_batchSize env"
  shows "read_pages env entity audience st n None
    = Some (map toManifestItem (getRecordsForEntity env entity audience st))"
  using read_pages_from [OF records_strictly_sorted [OF assms(1-3)] assms(4,5), of 0 n] assms(6)
  by (simp add: cursor_at_def)

text \<open>The position an item has with respect to a cursor.\<close>

definition item_after :: "int \<Rightarrow> string \<Rightarrow> manifest_item \<Rightarrow> bool" where
  "item_after t i m \<longleftrightarrow> mf_updatedAt m > t \<or> mf_updatedAt m = t \<and> code_cmp (mf_id m) i > 0"

lemma item_after_record: "item_after t i (toManifestItem r) = after_cursor t i r"
  by (simp add: item_after_def after_cursor_def toManifestItem_def)

lemma item_after_trans:
  assumes "item_after (ry_updatedAt l) (ry_id l) m" and "after_cursor t i l"
  shows "item_after t i m"
proof -
  have "code_cmp (mf_id m) i > 0" if "code_cmp (mf_id m) (ry_id l) > 0" "code_cmp (ry_id l) i > 0"
  proof -
    have "code_cmp (ry_id l) (mf_id m) \<le> 0" "code_cmp i (ry_id l) \<le> 0"
      using that code_cmp_neg [of "mf_id m" "ry_id l"] code_cmp_neg [of "ry_id l" i] by linarith+
    then have le: "code_cmp i (mf_id m) \<le> 0" using code_cmp_trans by blast
    have "code_cmp i (mf_id m) \<noteq> 0"
      using that code_cmp_neg [of "ry_id l" "mf_id m"] by auto
    then show ?thesis using le code_cmp_neg [of "mf_id m" i] by linarith
  qed
  then show ?thesis using assms by (auto simp: item_after_def after_cursor_def)
qed

lemma read_pages_after:
  assumes "\<forall>r \<in> set (getRecordsForEntity env entity audience st). ry_id r \<noteq> []"
    and "i \<noteq> []"
    and "read_pages env entity audience st n (Some (encodeCursor t i)) = Some items"
  shows "\<forall>m \<in> set items. item_after t i m
    \<and> m \<in> toManifestItem ` set (getRecordsForEntity env entity audience st)"
  using assms(2,3)
proof (induction n arbitrary: t i items)
  case 0
  then show ?case by simp
next
  case (Suc n)
  let ?rs = "getRecordsForEntity env entity audience st"
  let ?sel = "take (se_batchSize env) (filter (after_cursor t i) ?rs)"
  have f: "filterRecordsAfterCursor env ?rs (Some (encodeCursor t i)) = Some (filter (after_cursor t i) ?rs)"
    using Suc.prems(1) by (simp add: filterRecordsAfterCursor_def decode_encode_cursor)
  obtain m where m: "createEntityManifest env entity (Some (encodeCursor t i)) audience st = Some m"
    and mi: "sm_items m = map toManifestItem ?sel"
    and mn: "sm_nextCursor m = next_cursor ?sel (Some (encodeCursor t i))"
    by (simp add: createEntityManifest_def Let_def f)
  have sel: "\<forall>r \<in> set ?sel. after_cursor t i r \<and> r \<in> set ?rs" using set_take_subset by fastforce
  have page: "\<forall>x \<in> set (sm_items m). item_after t i x \<and> x \<in> toManifestItem ` set ?rs"
  proof
    fix x
    assume "x \<in> set (sm_items m)"
    then obtain r where r: "r \<in> set ?sel" "x = toManifestItem r" unfolding mi set_map by (rule imageE)
    have "after_cursor t i r" "r \<in> set ?rs" using bspec [OF sel r(1)] by (rule conjunct1, rule conjunct2)
    then show "item_after t i x \<and> x \<in> toManifestItem ` set ?rs"
      unfolding r(2) item_after_record by (intro conjI imageI)
  qed
  show ?case
  proof (cases "sm_hasMore m")
    case False
    then show ?thesis using Suc.prems(2) m page by simp
  next
    case True
    then obtain rest where rest: "read_pages env entity audience st n (sm_nextCursor m) = Some rest"
      and items: "items = sm_items m @ rest"
      using Suc.prems(2) m by auto
    have "\<forall>x \<in> set rest. item_after t i x \<and> x \<in> toManifestItem ` set ?rs"
    proof (cases "?sel = []")
      case True
      then show ?thesis using rest Suc.IH [OF Suc.prems(1)] by (simp add: mn next_cursor_def)
    next
      case False
      then have l: "after_cursor t i (last ?sel)" "last ?sel \<in> set ?rs" using sel last_in_set by blast+
      have "\<forall>x \<in> set rest. item_after (ry_updatedAt (last ?sel)) (ry_id (last ?sel)) x
          \<and> x \<in> toManifestItem ` set ?rs"
      proof (rule Suc.IH)
        show "ry_id (last ?sel) \<noteq> []" using l(2) assms(1) by blast
        show "read_pages env entity audience st n (Some (encodeCursor (ry_updatedAt (last ?sel))
            (ry_id (last ?sel)))) = Some rest"
          using rest False by (simp only: mn next_cursor_def if_False)
      qed
      then show ?thesis using item_after_trans l(1) by blast
    qed
    then show ?thesis using page items by auto
  qed
qed

lemma distinct_ids_same:
  assumes "distinct (map ry_id rs)" and "a \<in> set rs" and "b \<in> set rs" and "ry_id a = ry_id b"
  shows "a = b"
  using assms by (metis distinct_map inj_onD)

text \<open>A page boundary can lose a record: where \<open>localeCompare\<close> places a record after the last of a
  full page of the same time but its code units are smaller, the next pages, filtered by code units,
  never contain it, however many are read.\<close>

theorem cursor_skips_record:
  assumes "0 < se_batchSize env"
    and "se_batchSize env < length (getRecordsForEntity env entity audience st)"
    and "l = getRecordsForEntity env entity audience st ! (se_batchSize env - 1)"
    and "r \<in> set (drop (se_batchSize env) (getRecordsForEntity env entity audience st))"
    and "ry_updatedAt r = ry_updatedAt l" and "code_cmp (ry_id r) (ry_id l) < 0"
    and "\<forall>r \<in> set (getRecordsForEntity env entity audience st). ry_id r \<noteq> []"
    and "distinct (map ry_id (getRecordsForEntity env entity audience st))"
    and "read_pages env entity audience st n None = Some items"
  shows "ry_id r \<notin> mf_id ` set items"
proof (cases n)
  case 0
  then show ?thesis using assms(9) by simp
next
  case (Suc n')
  let ?rs = "getRecordsForEntity env entity audience st" and ?b = "se_batchSize env"
  have f: "filterRecordsAfterCursor env ?rs None = Some ?rs"
    by (simp add: filterRecordsAfterCursor_def decodeCursor_def)
  have cur: "next_cursor (take ?b ?rs) None = Some (encodeCursor (ry_updatedAt l) (ry_id l))"
    using next_cursor_at [of 0 ?b ?rs] assms(1-3) by (simp add: cursor_at_def)
  obtain rest where rest: "items = map toManifestItem (take ?b ?rs) @ rest"
    "read_pages env entity audience st n' (Some (encodeCursor (ry_updatedAt l) (ry_id l))) = Some rest"
    using assms(2,9) by (auto simp: Suc createEntityManifest_def Let_def f cur)
  have rR: "r \<in> set ?rs" and lR: "l \<in> set ?rs" using assms(1-4) by (auto dest: in_set_dropD)
  have same: "x = r" if "x \<in> set ?rs" "ry_id x = ry_id r" for x
    using distinct_ids_same [OF assms(8) that(1) rR that(2)] .
  have "r \<notin> set (take ?b ?rs)"
    using assms(4,8) by (metis distinct_map set_take_disj_set_drop_if_distinct disjoint_iff order_refl)
  have "ry_id r \<notin> mf_id ` set (map toManifestItem (take ?b ?rs))"
  proof -
    have "x \<noteq> r" if "x \<in> set (take ?b ?rs)" for x
      using that \<open>r \<notin> set (take ?b ?rs)\<close> by blast
    then have "ry_id x \<noteq> ry_id r" if "x \<in> set (take ?b ?rs)" for x
      using that same in_set_takeD by metis
    then show ?thesis by (fastforce simp: toManifestItem_def)
  qed
  moreover have "ry_id r \<notin> mf_id ` set rest"
  proof
    assume "ry_id r \<in> mf_id ` set rest"
    then obtain m where m: "m \<in> set rest" "mf_id m = ry_id r" by auto
    have "item_after (ry_updatedAt l) (ry_id l) m \<and> m \<in> toManifestItem ` set ?rs"
      using read_pages_after [OF assms(7) _ rest(2)] assms(7) lR m(1) by blast
    then obtain x where "x \<in> set ?rs" "m = toManifestItem x" "item_after (ry_updatedAt l) (ry_id l) m"
      by blast
    moreover from this have "x = r" using m(2) by (intro same) (simp_all add: toManifestItem_def)
    ultimately show False using assms(5,6) by (simp add: item_after_record after_cursor_def)
  qed
  ultimately show ?thesis unfolding rest(1) by auto
qed

section \<open>Missing records\<close>

lemma map_of_ids:
  assumes "distinct (map ry_id rs)" and "r \<in> set rs"
  shows "map_of (rev (map (\<lambda>r. (ry_id r, r)) rs)) (ry_id r) = Some r"
proof (rule map_of_is_SomeI)
  show "distinct (map fst (rev (map (\<lambda>r. (ry_id r, r)) rs)))"
    using assms(1) by (simp add: rev_map [symmetric] o_def)
qed (use assms(2) in auto)

lemma missing_items_filter:
  assumes "createEntityManifest env (em_entity m) (sm_cursor m) (Some (or_else audience (se_localPeerId env))) st
      = Some lm"
    and "em_rangeHash lm = em_rangeHash m \<and> length (sm_items lm) = length (sm_items m) \<longrightarrow>
         map (\<lambda>i. (mf_id i, mf_stateHash i)) (sm_items lm) = map (\<lambda>i. (mf_id i, mf_stateHash i)) (sm_items m)"
    and "distinct (map ry_id (getRecordsForEntity env (em_entity m)
           (Some (or_else audience (se_localPeerId env))) st))"
  shows "findMissingManifestItems env m audience st = Some (filter (differs_locally
      (getRecordsForEntity env (em_entity m) (Some (or_else audience (se_localPeerId env))) st)) (sm_items m))"
proof -
  let ?rs = "getRecordsForEntity env (em_entity m) (Some (or_else audience (se_localPeerId env))) st"
  have "\<not> differs_locally ?rs i" if i: "i \<in> set (sm_items m)" and eq: "em_rangeHash lm = em_rangeHash m"
    and len: "length (sm_items lm) = length (sm_items m)" for i
  proof -
    let ?f = "\<lambda>i. (mf_id i, mf_stateHash i)"
    have "?f i \<in> set (map ?f (sm_items m))" unfolding set_map using i by (rule imageI)
    then have "?f i \<in> set (map ?f (sm_items lm))" using assms(2) eq len by simp
    then obtain i' where i': "i' \<in> set (sm_items lm)" "mf_id i' = mf_id i" "mf_stateHash i' = mf_stateHash i"
      by auto
    obtain recs where "sm_items lm = map toManifestItem (take (se_batchSize env) recs)"
      "filterRecordsAfterCursor env ?rs (sm_cursor m) = Some recs"
      using assms(1) by (auto simp: createEntityManifest_def Let_def)
    moreover from this have "set recs \<subseteq> set ?rs"
      by (auto simp: filterRecordsAfterCursor_def split: cursor_result.splits)
    ultimately obtain r where r: "r \<in> set ?rs" "i' = toManifestItem r"
      using i'(1) by (auto dest: in_set_takeD)
    then show ?thesis
      using map_of_ids [OF assms(3) r(1)] i' by (simp add: differs_locally_def toManifestItem_def)
  qed
  then show ?thesis
    by (simp add: findMissingManifestItems_def Let_def assms(1) filter_empty_conv)
qed

text \<open>What a remote manifest has to send is exactly the items that are absent here or have
  another state, unless two different ranges have the same hash: equal ranges are not requested
  again and no difference is overlooked.\<close>

theorem missing_items_exact:
  assumes "createEntityManifest env (em_entity m) (sm_cursor m) (Some (or_else audience (se_localPeerId env))) st
      = Some lm"
    and "em_rangeHash lm = em_rangeHash m \<longrightarrow>
         map (\<lambda>i. (mf_id i, mf_stateHash i)) (sm_items lm) = map (\<lambda>i. (mf_id i, mf_stateHash i)) (sm_items m)"
    and "distinct (map ry_id (getRecordsForEntity env (em_entity m)
           (Some (or_else audience (se_localPeerId env))) st))"
  shows "findMissingManifestItems env m audience st = Some (filter (differs_locally
      (getRecordsForEntity env (em_entity m) (Some (or_else audience (se_localPeerId env))) st)) (sm_items m))"
  using assms by (intro missing_items_filter) auto

section \<open>Applying a batch\<close>

definition one_outcome :: "apply_result \<Rightarrow> bool" where
  "one_outcome r \<longleftrightarrow> (ar_applied r \<longleftrightarrow> \<not> (ar_skipped r \<or> ar_conflict r))"

lemma apply_to_table_outcome: "one_outcome (fst (apply_to_table env e dup ex d now t))"
proof -
  have "rs_action r \<noteq> Apply \<Longrightarrow> rs_action r = Keep \<or> rs_action r = Reject" for r :: resolution
    by (cases "rs_action r") auto
  then show ?thesis
    by (auto simp: apply_to_table_def one_outcome_def resolveFallbackConflict_def Let_def
        split: option.split)
qed

lemma apply_optional_outcome: "one_outcome (fst (apply_optional env e dup d now t))"
  using apply_to_table_outcome
  by (auto simp: apply_optional_def one_outcome_def Let_def case_prod_beta split: option.split)

lemma apply_record_outcome:
  assumes "\<forall>service. se_service env = Some service \<longrightarrow>
      (\<forall>e p d st r st'. service e p d st = (Inr r, st') \<longrightarrow> one_outcome r)"
    and "apply_record env e p d now st = (Inr r, st')"
  shows "one_outcome r"
proof (cases "se_service env")
  case None
  then show ?thesis
    using assms(2) apply_to_table_outcome [of env e] apply_optional_outcome [of env e]
    by (cases e) (auto simp: apply_record_def case_prod_beta Let_def)
next
  case (Some service)
  then have "service e p d st = (Inr r, st')" using assms(2) by (simp add: apply_record_def)
  then show ?thesis using assms(1) Some by blast
qed

lemma apply_all_counts:
  assumes "\<forall>service. se_service env = Some service \<longrightarrow>
      (\<forall>e p d st r st'. service e p d st = (Inr r, st') \<longrightarrow> one_outcome r)"
    and "apply_all env peer strict now ps s = (None, s')"
  shows "as_applied s' + as_skipped s' = as_applied s + as_skipped s + length ps"
  using assms(2)
proof (induction ps arbitrary: s)
  case (Cons p ps)
  obtain r s1 where r: "applySafely env peer strict now p s = (Inr r, s1)"
    and rest: "apply_all env peer strict now ps (count_result r s1) = (None, s')"
    using Cons.prems by (auto split: prod.splits sum.splits)
  have "one_outcome r \<and> as_applied s1 = as_applied s \<and> as_skipped s1 = as_skipped s"
    using r apply_record_outcome [OF assms(1)]
    by (auto simp: applySafely_def Let_def one_outcome_def split: prod.splits sum.splits if_splits)
  then show ?case using Cons.IH [OF rest] by (auto simp: count_result_def one_outcome_def)
qed simp

text \<open>A batch that is applied accounts for every record it carries: each is counted once, as
  applied or as skipped.\<close>

theorem batch_accounts_for_all:
  assumes "\<forall>service. se_service env = Some service \<longrightarrow>
      (\<forall>e p d st r st'. service e p d st = (Inr r, st') \<longrightarrow> one_outcome r)"
    and "applyBatch env peer batch now st = (Inr r, st', events)"
  shows "sy_applied r + sy_skipped r = length (batch_items batch)"
proof -
  let ?s = "\<lparr>as_stores = st, as_applied = 0, as_skipped = 0, as_events = []\<rparr>"
  obtain s' where s': "apply_all env peer (sb_version batch = 2) now (batch_items batch) ?s = (None, s')"
    and "sy_applied r = as_applied s'" "sy_skipped r = as_skipped s'"
    using assms(2) by (auto simp: applyBatch_def split: if_splits prod.splits option.splits)
  then show ?thesis using apply_all_counts [OF assms(1) s'] by simp
qed

lemma apply_all_events:
  assumes "\<forall>x \<in> set (as_events s). \<exists>a b c. x = Conflict_detected a b c"
  shows "\<forall>x \<in> set (as_events (snd (apply_all env peer strict now ps s))). \<exists>a b c. x = Conflict_detected a b c"
  using assms
proof (induction ps arbitrary: s)
  case (Cons p ps)
  obtain r s1 where r: "applySafely env peer strict now p s = (r, s1)" by fastforce
  have ok: "\<forall>x \<in> set (as_events s1). \<exists>a b c. x = Conflict_detected a b c"
    using Cons.prems r
    by (auto simp: applySafely_def Let_def split: prod.splits sum.splits if_splits)
  show ?case
  proof (cases r)
    case (Inl e)
    then show ?thesis using ok by (simp add: r)
  next
    case (Inr a)
    then show ?thesis
      using Cons.IH [of "count_result a s1"] ok by (simp add: r) (simp add: count_result_def)
  qed
qed simp

text \<open>A batch that fails, for its version or because a record of a version 2 batch could not be
  stored, records no cursor and reports no completed synchronisation: the records will be asked for
  again.\<close>

theorem failed_batch_keeps_cursor:
  assumes "applyBatch env peer batch now st = (Inl e, st', events)"
  shows "\<forall>x \<in> set events. \<exists>a b c. x = Conflict_detected a b c"
proof (cases "sb_version batch \<noteq> 1 \<and> sb_version batch \<noteq> 2")
  case True
  then show ?thesis using assms by (simp add: applyBatch_def)
next
  case False
  let ?r = "apply_all env peer (sb_version batch = 2) now (batch_items batch)
    \<lparr>as_stores = st, as_applied = 0, as_skipped = 0, as_events = []\<rparr>"
  have "events = as_events (snd ?r)"
    using assms False by (auto simp: applyBatch_def split: prod.splits option.splits)
  then show ?thesis by (simp only:) (rule apply_all_events, simp)
qed

section \<open>Checkpoints\<close>

lemma entity_name_no_colon: "CHR '':'' \<notin> set (entity_name e)"
  by (cases e) auto

lemma entity_name_inj: "entity_name e = entity_name e' \<Longrightarrow> e = e'"
  by (cases e; cases e') auto

lemma checkpoint_id_inj: "createCheckpointId p e = createCheckpointId p' e' \<longleftrightarrow> p = p' \<and> e = e'"
proof
  assume eq: "createCheckpointId p e = createCheckpointId p' e'"
  have tw: "takeWhile (\<lambda>c. c \<noteq> CHR '':'') (rev (createCheckpointId q f)) = rev (entity_name f)" for q f
    unfolding createCheckpointId_def rev_append
    by (simp add: takeWhile_append) (use entity_name_no_colon [of f] in auto)
  have "entity_name e = entity_name e'" using tw [of p e] tw [of p' e'] eq by simp
  then have "e = e'" by (rule entity_name_inj)
  then show "p = p' \<and> e = e'" using eq by (simp add: createCheckpointId_def)
qed simp

text \<open>Saving the progress of one entity of one peer is read back as saved and changes the
  checkpoint of no other peer or entity, whatever the peer's id; progress over the same manifest
  accumulates and another manifest starts from zero.\<close>

theorem checkpoint_saved:
  "let (c, t') = saveProgress p e cursor h n now t
   in getCheckpoint p' e' t' = (if p' = p \<and> e' = e then Some c else getCheckpoint p' e' t)
      \<and> cp_syncedObjects c = (case getCheckpoint p e t of
           Some old \<Rightarrow> if cp_manifestHash old = h then cp_syncedObjects old else 0
         | None \<Rightarrow> 0) + max 0 (or_else n 0)"
  by (auto simp: saveProgress_def Let_def getCheckpoint_def writeCheckpoint_def accumulated_def
      get_insert_or_replace checkpoint_id_inj)

section \<open>Concrete runs\<close>

definition sample_data :: "string \<Rightarrow> sync_data" where
  "sample_data i = \<lparr>sd_record = \<lparr>sr_id = i, sr_author = ''ann'', sr_createdAt = Fin 5,
       sr_updatedAt = Fin 6, sr_revision = None, sr_previousRevisionHash = None,
       sr_deleted = Some False, sr_fields = []\<rparr>,
     sd_contentHash = i, sd_signature = i, sd_relayOnly = False, sd_senderId = [],
     sd_recipientId = []\<rparr>"

definition sample_sync_env :: "(string \<Rightarrow> string \<Rightarrow> int) \<Rightarrow> sync_env" where
  "sample_sync_env lc = \<lparr>se_localPeerId = ''me'', se_batchSize = 1,
     se_stateHash = (\<lambda>_ d. sr_id (sd_record d)), se_localeCompare = lc,
     se_number_text = (\<lambda>_. Non Nan), se_uri_text = (\<lambda>_. None), se_service = None\<rparr>"

definition sample_stores :: sync_stores where
  "sample_stores = \<lparr>ss_posts = [(''a'', sample_data ''a''), (''B'', sample_data ''B'')],
     ss_profiles = None, ss_comments = None, ss_reactions = None, ss_follows = None,
     ss_chats = None\<rparr>"

text \<open>An order that, as collation does, places \<open>a\<close> before \<open>B\<close>.\<close>

definition caseless_cmp :: "string \<Rightarrow> string \<Rightarrow> int" where
  "caseless_cmp x y = (let up = map (\<lambda>c. if c = CHR ''a'' then CHR ''A'' else c)
     in code_cmp (up x) (up y))"

lemma sample_records:
  "getRecordsForEntity (sample_sync_env code_cmp) E_post aud sample_stores
     = [to_record (sample_sync_env code_cmp) E_post (sample_data ''B''),
        to_record (sample_sync_env code_cmp) E_post (sample_data ''a'')]"
  "getRecordsForEntity (sample_sync_env caseless_cmp) E_post aud sample_stores
     = [to_record (sample_sync_env caseless_cmp) E_post (sample_data ''a''),
        to_record (sample_sync_env caseless_cmp) E_post (sample_data ''B'')]"
  by (simp_all add: getRecordsForEntity_def getAllRecords_def sample_stores_def table_values_def
      sample_sync_env_def to_record_def sample_data_def compareRecordsAscending_def caseless_cmp_def)

lemma sample_record_fields [simp]:
  "ry_id (to_record env E_post (sample_data i)) = i"
  "ry_updatedAt (to_record env E_post (sample_data i)) = 6"
  by (simp_all add: to_record_def sample_data_def)

lemma sample_batch_size [simp]: "se_batchSize (sample_sync_env lc) = 1"
  "se_localeCompare (sample_sync_env lc) = lc" "se_service (sample_sync_env lc) = None"
  by (simp_all add: sample_sync_env_def)

theorem cursor_roundtrip_witness:
  "decodeCursor (sample_sync_env code_cmp) (Some (encodeCursor 6 ''a:b%'')) = Cursor 6 ''a:b%''"
  by (rule cursor_roundtrip) simp

theorem pages_complete_witness:
  "read_pages (sample_sync_env code_cmp) E_post None sample_stores 2 None
    = Some (map toManifestItem [to_record (sample_sync_env code_cmp) E_post (sample_data ''B''),
        to_record (sample_sync_env code_cmp) E_post (sample_data ''a'')])"
  unfolding sample_records(1) [of None, symmetric]
  by (rule pages_complete) (simp_all add: sample_records(1) code_order.comparator_axioms)

theorem cursor_skips_record_witness:
  "\<exists>items. read_pages (sample_sync_env caseless_cmp) E_post None sample_stores 5 None = Some items
     \<and> ''B'' \<notin> mf_id ` set items"
proof -
  let ?e = "sample_sync_env caseless_cmp"
  have f: "filterRecordsAfterCursor ?e rs (Some (encodeCursor 6 ''a'')) = Some (filter (after_cursor 6 ''a'') rs)" for rs
    by (simp add: filterRecordsAfterCursor_def decode_encode_cursor)
  have n: "filterRecordsAfterCursor ?e rs None = Some rs" for rs
    by (simp add: filterRecordsAfterCursor_def decodeCursor_def)
  obtain items where items: "read_pages ?e E_post None sample_stores 5 None = Some items"
    by (simp add: eval_nat_numeral createEntityManifest_def Let_def sample_records n f next_cursor_def
        after_cursor_def)
  have "ry_id (to_record ?e E_post (sample_data ''B'')) \<notin> mf_id ` set items"
    by (rule cursor_skips_record [OF _ _ _ _ _ _ _ _ items,
          where l = "to_record ?e E_post (sample_data ''a'')"])
      (simp_all add: sample_records)
  then show ?thesis using items by simp
qed

theorem missing_items_exact_witness:
  "\<exists>m. createEntityManifest (sample_sync_env code_cmp) E_post None (Some ''me'') sample_stores = Some m
     \<and> findMissingManifestItems (sample_sync_env code_cmp) m None sample_stores
       = Some (filter (differs_locally (getRecordsForEntity (sample_sync_env code_cmp) E_post (Some ''me'')
            sample_stores)) (sm_items m))"
proof -
  let ?e = "sample_sync_env code_cmp"
  obtain m where m: "createEntityManifest ?e E_post None (Some ''me'') sample_stores = Some m"
    and f: "em_entity m = E_post" "sm_cursor m = None"
    by (simp add: createEntityManifest_def Let_def filterRecordsAfterCursor_def decodeCursor_def)
  have me: "or_else None (se_localPeerId ?e) = ''me''" by (simp add: or_else_def sample_sync_env_def)
  have "findMissingManifestItems ?e m None sample_stores = Some (filter (differs_locally
      (getRecordsForEntity ?e (em_entity m) (Some (or_else None (se_localPeerId ?e))) sample_stores)) (sm_items m))"
    by (rule missing_items_exact [where lm = m])
      (simp_all add: m f me sample_records)
  then show ?thesis using m f me by auto
qed

definition sample_sync_batch :: "int \<Rightarrow> sync_batch" where
  "sample_sync_batch v = \<lparr>sb_version = v, sb_peerId = ''p'', sb_entity = None, sb_itemIds = None,
     sb_cursor = None, sb_nextCursor = None, sb_hasMore = False, sb_posts = [], sb_profiles = Some [sample_data ''x''],
     sb_comments = None, sb_reactions = None, sb_follows = None, sb_chatMessages = None\<rparr>"

theorem batch_accounts_for_all_witness:
  "\<exists>r st ev. applyBatch (sample_sync_env code_cmp) ''p'' (sample_sync_batch 1) 9 sample_stores = (Inr r, st, ev)
     \<and> sy_applied r + sy_skipped r = 1"
proof -
  obtain r st ev where r: "applyBatch (sample_sync_env code_cmp) ''p'' (sample_sync_batch 1) 9 sample_stores
      = (Inr r, st, ev)"
    by (simp add: applyBatch_def sample_sync_batch_def batch_items_def or_else_def applySafely_def
        apply_record_def apply_optional_def sample_stores_def)
  have "length (batch_items (sample_sync_batch 1)) = 1"
    by (simp add: batch_items_def sample_sync_batch_def or_else_def)
  then show ?thesis
    using batch_accounts_for_all [OF _ r] r by (auto simp: sample_sync_env_def)
qed

theorem failed_batch_keeps_cursor_witness:
  "\<exists>env st ev. applyBatch env ''p'' (sample_sync_batch 2) 9 sample_stores
       = (Inl (Apply_failed (Apply_error True)), st, ev)
     \<and> (\<forall>x \<in> set ev. \<exists>a b c. x = Conflict_detected a b c)"
proof -
  let ?env = "(sample_sync_env code_cmp)\<lparr>se_service := Some (\<lambda>_ _ _ st. (Inl (Apply_error True), st))\<rparr>"
  obtain st ev where r: "applyBatch ?env ''p'' (sample_sync_batch 2) 9 sample_stores
      = (Inl (Apply_failed (Apply_error True)), st, ev)"
    by (simp add: applyBatch_def sample_sync_batch_def batch_items_def or_else_def applySafely_def
        apply_record_def)
  from failed_batch_keeps_cursor [OF r] r show ?thesis by blast
qed

end
