(* ===== verification/TrustedPeers.thy ===== *)
theory TrustedPeers
  imports Uri
begin

text \<open>
  What a device knows about other peers: \<open>src/services/peers/TrustedPeerRepository.ts\<close> and
  \<open>TrustedPeerTypes.ts\<close>. The two JSON objects of the repository are maps by peer id; reading them
  back from storage is the identity. A trust score is the rounded percentage of rationals.
\<close>

section \<open>Data\<close>

datatype trust_status = Trust_unknown | Trust_verified | Trust_blocked

datatype peer_source = From_invite | From_manual | From_discovery

datatype session_state =
  Ss_unknown | Ss_connecting | Ss_verified | Ss_failed | Ss_blocked | Ss_disconnected

record trust_projection =
  tj_trustScore :: int
  tj_successfulHandshakes :: nat
  tj_failedHandshakes :: nat
  tj_lastFailureReason :: "string option"
  tj_lastProjectedAt :: int

record trusted_peer =
  tp_peerId :: string
  tp_identityId :: "string option"
  tp_displayName :: "string option"
  tp_publicKey :: "string option"
  tp_addresses :: "string list"
  tp_trustStatus :: trust_status
  tp_lastSeenAt :: "int option"
  tp_lastConnectedAt :: "int option"
  tp_lastSyncAt :: "int option"
  tp_addedAt :: int
  tp_updatedAt :: int
  tp_source :: peer_source
  tp_syncedObjects :: int
  tp_sessionState :: session_state
  tp_lastHandshakeAt :: "int option"
  tp_activeSessionId :: "string option"
  tp_syncCursor :: "string option"
  tp_projection :: "trust_projection option"

record trust_store =
  ts_peers :: "(string, trusted_peer) jsmap"
  ts_removed :: "(string, int) jsmap"

definition trust_store_init :: trust_store where
  "trust_store_init = \<lparr>ts_peers = [], ts_removed = []\<rparr>"

record upsert_input =
  ui_peerId :: string
  ui_addresses :: "string list option"
  ui_identityId :: "string option"
  ui_displayName :: "string option"
  ui_publicKey :: "string option"
  ui_trustStatus :: "trust_status option"
  ui_source :: "peer_source option"

abbreviation upsert_only :: "string \<Rightarrow> peer_source \<Rightarrow> upsert_input" where
  "upsert_only peerId source \<equiv> \<lparr>ui_peerId = peerId, ui_addresses = None, ui_identityId = None,
     ui_displayName = None, ui_publicKey = None, ui_trustStatus = None, ui_source = Some source\<rparr>"

text \<open>\<open>x ?? y\<close> where \<open>y\<close> may be missing too.\<close>

definition opt_else :: "'a option \<Rightarrow> 'a option \<Rightarrow> 'a option" where
  "opt_else x y = (case x of None \<Rightarrow> y | Some v \<Rightarrow> Some v)"

section \<open>Reading\<close>

definition listPeers :: "trust_store \<Rightarrow> trusted_peer list" where
  "listPeers s = js_sort (\<lambda>l r. tp_updatedAt r - tp_updatedAt l) (jm_values (ts_peers s))"

definition getPeer :: "string \<Rightarrow> trust_store \<Rightarrow> trusted_peer option" where
  "getPeer peerId s = jm_get (ts_peers s) peerId"

definition isRemoved :: "string \<Rightarrow> trust_store \<Rightarrow> bool" where
  \<comment> \<open>A time of zero is falsy.\<close>
  "isRemoved peerId s = (case jm_get (ts_removed s) peerId of None \<Rightarrow> False | Some t \<Rightarrow> t \<noteq> 0)"

section \<open>Writing\<close>

definition put_peer :: "trusted_peer \<Rightarrow> string \<Rightarrow> trust_store \<Rightarrow> trust_store" where
  "put_peer p peerId s = s\<lparr>ts_peers := jm_set peerId p (ts_peers s)\<rparr>"

definition forgetRemoved :: "string \<Rightarrow> trust_store \<Rightarrow> trust_store" where
  "forgetRemoved peerId s = (if \<not> isRemoved peerId s then s
     else s\<lparr>ts_removed := jm_delete peerId (ts_removed s)\<rparr>)"

definition rememberRemoved :: "string \<Rightarrow> int \<Rightarrow> trust_store \<Rightarrow> trust_store" where
  "rememberRemoved peerId now s = s\<lparr>ts_removed := jm_set peerId now (ts_removed s)\<rparr>"

definition mergeAddresses :: "string list \<Rightarrow> string list \<Rightarrow> string list" where
  "mergeAddresses existing incoming = js_uniq (filter (\<lambda>a. a \<noteq> []) (map js_trim (existing @ incoming)))"

definition updateProjection ::
  "trust_projection option \<Rightarrow> bool \<Rightarrow> string option \<Rightarrow> int \<Rightarrow> trust_projection" where
  \<comment> \<open>\<open>Math.round\<close> of a nonnegative ratio rounds halves up.\<close>
  "updateProjection existing success failureReason now =
     (let successes = (case existing of None \<Rightarrow> 0 | Some j \<Rightarrow> tj_successfulHandshakes j)
            + (if success then 1 else 0);
          failures = (case existing of None \<Rightarrow> 0 | Some j \<Rightarrow> tj_failedHandshakes j)
            + (if success then 0 else 1);
          attempts = successes + failures
      in \<lparr>tj_trustScore = (if attempts = 0 then 0
            else int ((200 * successes + attempts) div (2 * attempts))),
          tj_successfulHandshakes = successes, tj_failedHandshakes = failures,
          tj_lastFailureReason = (if success
            then (case existing of None \<Rightarrow> None | Some j \<Rightarrow> tj_lastFailureReason j) else failureReason),
          tj_lastProjectedAt = now\<rparr>)"

definition upserted :: "upsert_input \<Rightarrow> trusted_peer option \<Rightarrow> int \<Rightarrow> trusted_peer" where
  "upserted inp existing now =
     \<lparr>tp_peerId = ui_peerId inp,
       tp_identityId = opt_else (ui_identityId inp) (Option.bind existing tp_identityId),
       tp_displayName = opt_else (ui_displayName inp) (Option.bind existing tp_displayName),
       tp_publicKey = opt_else (ui_publicKey inp) (Option.bind existing tp_publicKey),
       tp_addresses = mergeAddresses (case existing of None \<Rightarrow> [] | Some e \<Rightarrow> tp_addresses e)
         (or_else (ui_addresses inp) []),
       tp_trustStatus = or_else (ui_trustStatus inp)
         (case existing of None \<Rightarrow> Trust_unknown | Some e \<Rightarrow> tp_trustStatus e),
       tp_lastSeenAt = Option.bind existing tp_lastSeenAt, tp_lastConnectedAt = Option.bind existing tp_lastConnectedAt,
       tp_lastSyncAt = Option.bind existing tp_lastSyncAt,
       tp_addedAt = (case existing of None \<Rightarrow> now | Some e \<Rightarrow> tp_addedAt e), tp_updatedAt = now,
       tp_source = or_else (ui_source inp)
         (case existing of None \<Rightarrow> From_manual | Some e \<Rightarrow> tp_source e),
       tp_syncedObjects = (case existing of None \<Rightarrow> 0 | Some e \<Rightarrow> tp_syncedObjects e),
       tp_sessionState = (case existing of None \<Rightarrow> Ss_unknown | Some e \<Rightarrow> tp_sessionState e),
       tp_lastHandshakeAt = Option.bind existing tp_lastHandshakeAt, tp_activeSessionId = Option.bind existing tp_activeSessionId,
       tp_syncCursor = Option.bind existing tp_syncCursor,
       tp_projection = Option.bind existing tp_projection\<rparr>"

definition upsert :: "upsert_input \<Rightarrow> int \<Rightarrow> trust_store \<Rightarrow> trusted_peer \<times> trust_store" where
  "upsert inp now s =
     (let s1 = forgetRemoved (ui_peerId inp) s;
          p = upserted inp (getPeer (ui_peerId inp) s1) now
      in (p, put_peer p (ui_peerId inp) s1))"

record trust_identity =
  id_peerId :: string
  id_identityId :: string
  id_displayName :: "string option"
  id_publicKey :: string
  id_timestamp :: int
  id_signature :: string

definition markVerified :: "string \<Rightarrow> trust_identity \<Rightarrow> int \<Rightarrow> trust_store \<Rightarrow> trusted_peer \<times> trust_store" where
  "markVerified peerId identity now s =
     (let existing = getPeer peerId s;
          go = upsert \<lparr>ui_peerId = peerId, ui_addresses = None,
            ui_identityId = Some (id_identityId identity), ui_displayName = id_displayName identity,
            ui_publicKey = Some (id_publicKey identity), ui_trustStatus = Some Trust_verified,
            ui_source = Some (case existing of None \<Rightarrow> From_discovery | Some e \<Rightarrow> tp_source e)\<rparr> now s
      in case existing of
           Some e \<Rightarrow> if tp_trustStatus e = Trust_blocked then (e, s) else go
         | None \<Rightarrow> go)"

text \<open>The operations that change an existing row and do nothing without one.\<close>

definition change_peer ::
  "string \<Rightarrow> (trusted_peer \<Rightarrow> trusted_peer) \<Rightarrow> trust_store \<Rightarrow> trusted_peer option \<times> trust_store" where
  "change_peer peerId f s = (case getPeer peerId s of
     None \<Rightarrow> (None, s) | Some e \<Rightarrow> (Some (f e), put_peer (f e) peerId s))"

definition markBlocked :: "string \<Rightarrow> int \<Rightarrow> trust_store \<Rightarrow> trusted_peer option \<times> trust_store" where
  "markBlocked peerId now = change_peer peerId (\<lambda>e. e\<lparr>tp_trustStatus := Trust_blocked,
     tp_sessionState := Ss_blocked, tp_updatedAt := now\<rparr>)"

definition markUnknown :: "string \<Rightarrow> int \<Rightarrow> trust_store \<Rightarrow> trusted_peer option \<times> trust_store" where
  "markUnknown peerId now = change_peer peerId (\<lambda>e. e\<lparr>tp_trustStatus := Trust_unknown, tp_updatedAt := now\<rparr>)"

definition removePeer :: "string \<Rightarrow> int \<Rightarrow> trust_store \<Rightarrow> trust_store" where
  "removePeer peerId now s = rememberRemoved peerId now (s\<lparr>ts_peers := jm_delete peerId (ts_peers s)\<rparr>)"

definition clearTrust :: "trust_store \<Rightarrow> trust_store" where
  "clearTrust s = trust_store_init"

definition recordConnection :: "string \<Rightarrow> int \<Rightarrow> trust_store \<Rightarrow> trust_store" where
  "recordConnection peerId now s = snd (change_peer peerId (\<lambda>e. e\<lparr>tp_lastSeenAt := Some now,
     tp_lastConnectedAt := Some now, tp_updatedAt := now\<rparr>) s)"

definition updateSessionState ::
  "string \<Rightarrow> session_state \<Rightarrow> string option \<Rightarrow> string option \<Rightarrow> int \<Rightarrow> trust_store
     \<Rightarrow> trusted_peer option \<times> trust_store" where
  "updateSessionState peerId state sessionId reason now = change_peer peerId (\<lambda>e. e\<lparr>
     tp_sessionState := (if tp_trustStatus e = Trust_blocked then Ss_blocked else state),
     tp_activeSessionId := opt_else sessionId (tp_activeSessionId e),
     tp_projection := (if state = Ss_failed
       then Some (updateProjection (tp_projection e) False reason now) else tp_projection e),
     tp_updatedAt := now\<rparr>)"

definition recordHandshakeSuccess ::
  "string \<Rightarrow> string option \<Rightarrow> int \<Rightarrow> trust_store \<Rightarrow> trusted_peer \<times> trust_store" where
  "recordHandshakeSuccess peerId sessionId now s =
     (let (existing, s1) = (case getPeer peerId s of
            Some e \<Rightarrow> (e, s) | None \<Rightarrow> upsert (upsert_only peerId From_discovery) now s);
          p = existing\<lparr>tp_sessionState := Ss_verified, tp_lastHandshakeAt := Some now,
            tp_activeSessionId := opt_else sessionId (tp_activeSessionId existing),
            tp_projection := Some (updateProjection (tp_projection existing) True None now),
            tp_updatedAt := now\<rparr>
      in (p, put_peer p peerId s1))"

definition recordSync :: "string \<Rightarrow> int \<Rightarrow> int \<Rightarrow> trust_store \<Rightarrow> trust_store" where
  "recordSync peerId syncedObjects now s = snd (change_peer peerId (\<lambda>e. e\<lparr>tp_lastSyncAt := Some now,
     tp_syncedObjects := tp_syncedObjects e + max 0 syncedObjects, tp_updatedAt := now\<rparr>) s)"

definition recordSyncCursor :: "string \<Rightarrow> string option \<Rightarrow> int \<Rightarrow> int \<Rightarrow> trust_store \<Rightarrow> trust_store" where
  "recordSyncCursor peerId cursor syncedObjects now s = snd (change_peer peerId (\<lambda>e. e\<lparr>
     tp_lastSyncAt := Some now, tp_syncedObjects := tp_syncedObjects e + max 0 syncedObjects,
     tp_syncCursor := opt_else cursor (tp_syncCursor e), tp_updatedAt := now\<rparr>) s)"

end
