(* ===== verification/SyncProtocol.thy ===== *)
theory SyncProtocol
  imports Sync TrustedPeers NetMessage
begin

text \<open>
  The exchange by which a device brings itself up to date with a peer:
  \<open>src/services/sync/PeerIncrementalSyncProtocol.ts\<close>. The loops of the requester take the network as
  a function from each request to what its promise settles with, which may change a world of its own;
  the responder and the guards work on the JavaScript values that are exchanged. How a social record is
  written as such a value and read from one is a parameter, and one operation reads the clock once.
  A cursor of a batch that is no text is read as absent.
\<close>

section \<open>Requests and responses\<close>

datatype sync_request =
    Legacy_manifest_request "string option"
  | Legacy_batch_request "string option"
  | Entity_manifest_request conflict_entity "string option"
  | Entity_batch_request conflict_entity "string list"

text \<open>The content of an old manifest is not looked at.\<close>

datatype sync_response =
    Legacy_manifest_response jsval
  | Entity_manifest_response entity_manifest
  | Batch_response sync_batch

datatype sync_error =
    Not_connected | Send_failed | Timed_out | Protocol_stopped
  | Unexpected_response | Unexpected_manifest | Unexpected_batch
  | Range_hash_invalid | Empty_entity_batch | Cursor_not_advanced
  | Malformed_cursor | Exceeds_transport_limit | Not_serializable
  | Apply_batch_failed batch_error

record record_codec =
  rc_write :: "conflict_entity \<Rightarrow> sync_data \<Rightarrow> jsval"
  rc_read :: "conflict_entity \<Rightarrow> jsval \<Rightarrow> sync_data"

definition entity_of :: "jsval \<Rightarrow> conflict_entity option" where
  "entity_of v = find (\<lambda>e. v = Jv_str (entity_name e)) sync_entities"

definition id_text :: "jsval \<Rightarrow> string option" where
  "id_text v = (case str_of v of None \<Rightarrow> None | Some s \<Rightarrow> if s = [] then None else Some s)"

section \<open>Reading what arrives\<close>

definition sync_request_of :: "jsval \<Rightarrow> sync_request option" where
  \<comment> \<open>The guards in the order \<open>handleMessage\<close> tries them.\<close>
  "sync_request_of v =
     (let version = field v ''version''; t = field v ''type'' in
      if version = Jv_num 2 \<and> t = Jv_str ''sync.manifest.request''
      then (case (entity_of (field v ''entity''), opt_field str_of (field v ''cursor'')) of
        (Some e, Some c) \<Rightarrow> Some (Entity_manifest_request e c) | _ \<Rightarrow> None)
      else if version = Jv_num 1 \<and> t = Jv_str ''sync.manifest.request''
      then Some (Legacy_manifest_request (str_of (field v ''cursor'')))
      else if version = Jv_num 2 \<and> t = Jv_str ''sync.batch.request''
      then (case (entity_of (field v ''entity''), arr_of (field v ''itemIds'')) of
        (Some e, Some xs) \<Rightarrow> if length xs > 50 then None
           else map_option (Entity_batch_request e) (collect id_text xs)
      | _ \<Rightarrow> None)
      else if version = Jv_num 1 \<and> t = Jv_str ''sync.batch.request''
      then Some (Legacy_batch_request (str_of (field v ''cursor'')))
      else None)"

definition isSyncRefreshHint :: "jsval \<Rightarrow> bool" where
  "isSyncRefreshHint v \<longleftrightarrow> field v ''version'' = Jv_num 1 \<and> field v ''type'' = Jv_str ''sync.refresh.hint''
     \<and> finite_of (field v ''changedAt'') \<noteq> None"

definition manifest_item_of :: "conflict_entity \<Rightarrow> jsval \<Rightarrow> manifest_item option" where
  "manifest_item_of e v =
     (if field v ''entity'' \<noteq> Jv_str (entity_name e) then None
      else (case (str_of (field v ''id''), str_of (field v ''contentHash''), str_of (field v ''stateHash''),
                  finite_of (field v ''updatedAt''), str_of (field v ''author''), bool_val (field v ''deleted'')) of
        (Some i, Some c, Some s, Some t, Some a, Some d) \<Rightarrow> Some \<lparr>mf_entity = e, mf_id = i,
          mf_contentHash = c, mf_stateHash = s, mf_updatedAt = t, mf_author = a, mf_deleted = d\<rparr>
      | _ \<Rightarrow> None))"

definition entity_manifest_of :: "jsval \<Rightarrow> entity_manifest option" where
  "entity_manifest_of v =
     (if field v ''version'' \<noteq> Jv_num 2 then None
      else (case (str_of (field v ''peerId''), entity_of (field v ''entity''), str_of (field v ''rootHash''),
                  str_of (field v ''rangeHash''), finite_of (field v ''totalItems''), bool_val (field v ''hasMore''),
                  opt_field str_of (field v ''cursor''), opt_field str_of (field v ''nextCursor''),
                  arr_of (field v ''items'')) of
        (Some p, Some e, Some root, Some rangeHash, Some n, Some hasMore, Some c, Some nc, Some xs) \<Rightarrow>
          map_option (\<lambda>items. \<lparr>sm_peerId = p, sm_cursor = c, sm_nextCursor = nc, sm_hasMore = hasMore,
            sm_items = items, em_entity = e, em_rootHash = root, em_rangeHash = rangeHash,
            em_totalItems = nat n\<rparr>) (collect (manifest_item_of e) xs)
      | _ \<Rightarrow> None))"

definition batch_of :: "record_codec \<Rightarrow> jsval \<Rightarrow> sync_batch option" where
  "batch_of rc v =
     (case finite_of (field v ''version'') of
        None \<Rightarrow> None
      | Some version \<Rightarrow>
         if version \<noteq> 1 \<and> version \<noteq> 2 then None
         else (case (str_of (field v ''peerId''), opt_field (\<lambda>w. Option.bind (arr_of w) (collect id_text)) (field v ''itemIds''),
                     bool_val (field v ''hasMore''), arr_of (field v ''posts''),
                     opt_field arr_of (field v ''profiles''), opt_field arr_of (field v ''comments''),
                     opt_field arr_of (field v ''reactions''), opt_field arr_of (field v ''follows''),
                     opt_field arr_of (field v ''chatMessages'')) of
           (Some p, Some ids, Some hasMore, Some posts, Some profiles, Some comments, Some reactions,
            Some follows, Some chats) \<Rightarrow>
              if version = 2 \<and> entity_of (field v ''entity'') = None then None
              else Some \<lparr>sb_version = version, sb_peerId = p, sb_entity = entity_of (field v ''entity''),
                sb_itemIds = ids, sb_cursor = str_of (field v ''cursor''),
                sb_nextCursor = str_of (field v ''nextCursor''), sb_hasMore = hasMore,
                sb_posts = map (rc_read rc E_post) posts,
                sb_profiles = map_option (map (rc_read rc E_profile)) profiles,
                sb_comments = map_option (map (rc_read rc E_comment)) comments,
                sb_reactions = map_option (map (rc_read rc E_reaction)) reactions,
                sb_follows = map_option (map (rc_read rc E_follow)) follows,
                sb_chatMessages = map_option (map (rc_read rc E_chat)) chats\<rparr>
         | _ \<Rightarrow> None))"

definition sync_response_of :: "record_codec \<Rightarrow> jsval \<Rightarrow> sync_response option" where
  "sync_response_of rc v =
     (let version = field v ''version''; t = field v ''type''; m = field v ''manifest'' in
      if version = Jv_num 1 \<and> t = Jv_str ''sync.manifest.response''
      then (if field m ''version'' = Jv_num 1 \<and> str_of (field m ''peerId'') \<noteq> None
              \<and> arr_of (field m ''items'') \<noteq> None then Some (Legacy_manifest_response m) else None)
      else if version = Jv_num 2 \<and> t = Jv_str ''sync.manifest.response''
      then map_option Entity_manifest_response (entity_manifest_of m)
      else if (version = Jv_num 1 \<or> version = Jv_num 2) \<and> t = Jv_str ''sync.batch.response''
      then (case batch_of rc (field v ''batch'') of
        None \<Rightarrow> None
      | Some b \<Rightarrow> if version = Jv_num (sb_version b) then Some (Batch_response b) else None)
      else None)"

section \<open>Writing\<close>

definition sync_request_value :: "sync_request \<Rightarrow> jsval" where
  "sync_request_value r = (case r of
     Legacy_manifest_request c \<Rightarrow> Jv_obj [(''version'', Jv_num 1), (''type'', Jv_str ''sync.manifest.request''),
       (''cursor'', opt_str c)]
   | Legacy_batch_request c \<Rightarrow> Jv_obj [(''version'', Jv_num 1), (''type'', Jv_str ''sync.batch.request''),
       (''cursor'', opt_str c)]
   | Entity_manifest_request e c \<Rightarrow> Jv_obj [(''version'', Jv_num 2), (''type'', Jv_str ''sync.manifest.request''),
       (''entity'', Jv_str (entity_name e)), (''cursor'', opt_str c)]
   | Entity_batch_request e ids \<Rightarrow> Jv_obj [(''version'', Jv_num 2), (''type'', Jv_str ''sync.batch.request''),
       (''entity'', Jv_str (entity_name e)), (''itemIds'', Jv_arr (map Jv_str ids))])"

definition manifest_item_value :: "manifest_item \<Rightarrow> jsval" where
  "manifest_item_value m = Jv_obj
     [(''entity'', Jv_str (entity_name (mf_entity m))), (''id'', Jv_str (mf_id m)),
      (''contentHash'', Jv_str (mf_contentHash m)), (''stateHash'', Jv_str (mf_stateHash m)),
      (''updatedAt'', Jv_num (mf_updatedAt m)), (''author'', Jv_str (mf_author m)),
      (''deleted'', Jv_bool (mf_deleted m))]"

definition legacy_manifest_value :: "sync_manifest \<Rightarrow> jsval" where
  "legacy_manifest_value m = Jv_obj
     [(''version'', Jv_num 1), (''peerId'', Jv_str (sm_peerId m)), (''cursor'', opt_str (sm_cursor m)),
      (''nextCursor'', opt_str (sm_nextCursor m)), (''hasMore'', Jv_bool (sm_hasMore m)),
      (''items'', Jv_arr (map manifest_item_value (sm_items m)))]"

definition entity_manifest_value :: "entity_manifest \<Rightarrow> jsval" where
  "entity_manifest_value m = Jv_obj
     [(''version'', Jv_num 2), (''peerId'', Jv_str (sm_peerId m)),
      (''entity'', Jv_str (entity_name (em_entity m))), (''cursor'', opt_str (sm_cursor m)),
      (''nextCursor'', opt_str (sm_nextCursor m)), (''hasMore'', Jv_bool (sm_hasMore m)),
      (''rootHash'', Jv_str (em_rootHash m)), (''rangeHash'', Jv_str (em_rangeHash m)),
      (''totalItems'', Jv_num (int (em_totalItems m))),
      (''items'', Jv_arr (map manifest_item_value (sm_items m)))]"

definition opt_arr :: "('a \<Rightarrow> jsval) \<Rightarrow> 'a list option \<Rightarrow> jsval" where
  "opt_arr f xs = (case xs of None \<Rightarrow> Jv_undefined | Some ys \<Rightarrow> Jv_arr (map f ys))"

definition batch_value :: "record_codec \<Rightarrow> sync_batch \<Rightarrow> jsval" where
  "batch_value rc b = Jv_obj
     [(''version'', Jv_num (sb_version b)), (''peerId'', Jv_str (sb_peerId b)),
      (''entity'', opt_str (map_option entity_name (sb_entity b))),
      (''itemIds'', opt_arr Jv_str (sb_itemIds b)), (''cursor'', opt_str (sb_cursor b)),
      (''nextCursor'', opt_str (sb_nextCursor b)), (''hasMore'', Jv_bool (sb_hasMore b)),
      (''posts'', Jv_arr (map (rc_write rc E_post) (sb_posts b))),
      (''profiles'', opt_arr (rc_write rc E_profile) (sb_profiles b)),
      (''comments'', opt_arr (rc_write rc E_comment) (sb_comments b)),
      (''reactions'', opt_arr (rc_write rc E_reaction) (sb_reactions b)),
      (''follows'', opt_arr (rc_write rc E_follow) (sb_follows b)),
      (''chatMessages'', opt_arr (rc_write rc E_chat) (sb_chatMessages b))]"

definition sync_response_value :: "record_codec \<Rightarrow> sync_response \<Rightarrow> jsval" where
  "sync_response_value rc r = (case r of
     Legacy_manifest_response m \<Rightarrow> Jv_obj [(''version'', Jv_num 1),
       (''type'', Jv_str ''sync.manifest.response''), (''manifest'', m)]
   | Entity_manifest_response m \<Rightarrow> Jv_obj [(''version'', Jv_num 2),
       (''type'', Jv_str ''sync.manifest.response''), (''manifest'', entity_manifest_value m)]
   | Batch_response b \<Rightarrow> Jv_obj [(''version'', Jv_num (sb_version b)),
       (''type'', Jv_str ''sync.batch.response''), (''batch'', batch_value rc b)])"

section \<open>Answering a request\<close>

definition emptyBatch ::
  "string \<Rightarrow> int \<Rightarrow> conflict_entity option \<Rightarrow> string option \<Rightarrow> string option \<Rightarrow> bool option \<Rightarrow> sync_batch" where
  "emptyBatch peerId version entity cursor nextCursor hasMore =
     \<lparr>sb_version = version, sb_peerId = peerId, sb_entity = entity, sb_itemIds = None,
      sb_cursor = cursor, sb_nextCursor = nextCursor, sb_hasMore = or_else hasMore False,
      sb_posts = [], sb_profiles = Some [], sb_comments = Some [], sb_reactions = Some [],
      sb_follows = Some [], sb_chatMessages = Some []\<rparr>"

definition fitsNetworkLimit ::
  "record_codec \<Rightarrow> string \<Rightarrow> string option \<Rightarrow> int \<Rightarrow> sync_batch \<Rightarrow> bool option" where
  \<comment> \<open>\<open>None\<close>: \<open>JSON.stringify\<close> throws. The length is in UTF-16 code units.\<close>
  "fitsNetworkLimit rc localPeerId correlationId now b =
     (case createNetworkMessage \<lparr>mi_messageType = ''sync.response'', mi_senderId = localPeerId,
             mi_payload = sync_response_value rc (Batch_response b), mi_signature = None,
             mi_correlationId = correlationId, mi_sequence = None, mi_ttlMs = None, mi_timestamp = None\<rparr> now of
        None \<Rightarrow> None
      | Some m \<Rightarrow> (case to_json (message_value m) of
          Text j \<Rightarrow> Some (length (stringify j) \<le> max_message_bytes) | _ \<Rightarrow> None))"

text \<open>\<open>floor(maxItems / 2)\<close> reaches zero; the cursor may be malformed, which throws.\<close>

function sized_legacy ::
  "record_codec \<Rightarrow> sync_env \<Rightarrow> string \<Rightarrow> string option \<Rightarrow> string option \<Rightarrow> int \<Rightarrow> sync_stores \<Rightarrow> nat
     \<Rightarrow> sync_error + sync_batch option" where
  "sized_legacy rc env peerId cursor correlationId now st maxItems =
     (if maxItems < 1 then Inr None
      else (case createBatch env cursor (Some (int maxItems)) (Some peerId) st of
        None \<Rightarrow> Inl Malformed_cursor
      | Some b \<Rightarrow> (case fitsNetworkLimit rc (se_localPeerId env) correlationId now b of
          None \<Rightarrow> Inl Not_serializable
        | Some True \<Rightarrow> Inr (Some b)
        | Some False \<Rightarrow> sized_legacy rc env peerId cursor correlationId now st (maxItems div 2))))"
  by pat_completeness auto

termination by (relation "measure (\<lambda>(rc, env, p, c, k, now, st, n). n)") auto

declare sized_legacy.simps [simp del]

definition createSizedLegacyBatch ::
  "record_codec \<Rightarrow> sync_env \<Rightarrow> string \<Rightarrow> string option \<Rightarrow> string option \<Rightarrow> int \<Rightarrow> sync_stores
     \<Rightarrow> sync_error + sync_batch" where
  "createSizedLegacyBatch rc env peerId cursor correlationId now st =
     (case sized_legacy rc env peerId cursor correlationId now st 50 of
        Inl e \<Rightarrow> Inl e
      | Inr (Some b) \<Rightarrow> Inr b
      | Inr None \<Rightarrow> (case createBatch env cursor (Some 1) (Some peerId) st of
          None \<Rightarrow> Inl Malformed_cursor
        | Some b \<Rightarrow> (case fitsNetworkLimit rc (se_localPeerId env) correlationId now b of
            None \<Rightarrow> Inl Not_serializable
          | Some True \<Rightarrow> Inr b
          | Some False \<Rightarrow> Inr (emptyBatch (sb_peerId b) 1 None (sb_cursor b) (sb_nextCursor b)
              (Some (sb_hasMore b))))))"

function sized_entity ::
  "record_codec \<Rightarrow> sync_env \<Rightarrow> string \<Rightarrow> conflict_entity \<Rightarrow> string option \<Rightarrow> int \<Rightarrow> sync_stores \<Rightarrow> string list
     \<Rightarrow> sync_error + sync_batch" where
  "sized_entity rc env peerId entity correlationId now st ids =
     (if ids = [] then Inr (emptyBatch (se_localPeerId env) 2 (Some entity) None None None)
      else (let b = createEntityBatch env entity ids (Some peerId) st in
        case fitsNetworkLimit rc (se_localPeerId env) correlationId now b of
          None \<Rightarrow> Inl Not_serializable
        | Some True \<Rightarrow> Inr b
        | Some False \<Rightarrow> if length ids = 1 then Inl Exceeds_transport_limit
            else sized_entity rc env peerId entity correlationId now st
                   (take (max 1 (length ids div 2)) ids)))"
  by pat_completeness auto

termination
proof (relation "measure (\<lambda>(rc, env, p, e, c, now, st, ids). length ids)")
  fix ids :: "string list"
  assume "ids \<noteq> []" "length ids \<noteq> 1"
  then have "2 \<le> length ids" by (cases ids) (auto simp: Suc_le_eq)
  then show "((rc, env, p, e, c, now, st, take (max 1 (length ids div 2)) ids), (rc, env, p, e, c, now, st, ids))
      \<in> measure (\<lambda>(rc, env, p, e, c, now, st, ids). length ids)"
    for rc :: record_codec and env :: sync_env and p :: string and e :: conflict_entity
      and c :: "string option" and now :: int and st :: sync_stores
    by auto
qed simp

declare sized_entity.simps [simp del]

definition createSizedEntityBatch ::
  "record_codec \<Rightarrow> sync_env \<Rightarrow> string \<Rightarrow> conflict_entity \<Rightarrow> string list \<Rightarrow> string option \<Rightarrow> int \<Rightarrow> sync_stores
     \<Rightarrow> sync_error + sync_batch" where
  "createSizedEntityBatch rc env peerId entity itemIds correlationId now st =
     sized_entity rc env peerId entity correlationId now st (take 50 itemIds)"

text \<open>What is sent back to \<open>peerId\<close>; an error is logged and nothing is sent.\<close>

definition answer_request ::
  "record_codec \<Rightarrow> sync_env \<Rightarrow> string \<Rightarrow> sync_request \<Rightarrow> string option \<Rightarrow> int \<Rightarrow> sync_stores
     \<Rightarrow> sync_error + sync_response" where
  "answer_request rc env peerId req correlationId now st = (case req of
     Entity_manifest_request e c \<Rightarrow> (case createEntityManifest env e c (Some peerId) st of
       None \<Rightarrow> Inl Malformed_cursor | Some m \<Rightarrow> Inr (Entity_manifest_response m))
   | Legacy_manifest_request c \<Rightarrow> (case createManifest env c (Some peerId) st of
       None \<Rightarrow> Inl Malformed_cursor | Some m \<Rightarrow> Inr (Legacy_manifest_response (legacy_manifest_value m)))
   | Entity_batch_request e ids \<Rightarrow>
       map_sum id Batch_response (createSizedEntityBatch rc env peerId e ids correlationId now st)
   | Legacy_batch_request c \<Rightarrow>
       map_sum id Batch_response (createSizedLegacyBatch rc env peerId c correlationId now st))"

section \<open>Requests under way\<close>

text \<open>The promise of a request is settled by its response, its timeout, a failure to send or a stop.\<close>

record request_table =
  rq_pending :: "string list"
  rq_sequence :: nat
  rq_settled :: "(string \<times> (sync_error + sync_response)) list"

definition correlation_id :: "int \<Rightarrow> string \<Rightarrow> nat \<Rightarrow> string" where
  "correlation_id now peerId n = ''sync_'' @ show_int now @ ''_'' @ peerId @ ''_'' @ show_nat n"

definition register_request :: "int \<Rightarrow> string \<Rightarrow> request_table \<Rightarrow> string \<times> request_table" where
  "register_request now peerId t =
     (let n = Suc (rq_sequence t); c = correlation_id now peerId n
      in (c, t\<lparr>rq_sequence := n, rq_pending := set_add c (rq_pending t)\<rparr>))"

definition settle_request ::
  "string \<Rightarrow> (sync_error + sync_response) \<Rightarrow> request_table \<Rightarrow> request_table" where
  \<comment> \<open>A timer that fires after the request is gone was cleared.\<close>
  "settle_request c outcome t =
     (if c \<notin> set (rq_pending t) then t
      else t\<lparr>rq_pending := removeAll c (rq_pending t), rq_settled := rq_settled t @ [(c, outcome)]\<rparr>)"

definition resolvePendingResponse ::
  "record_codec \<Rightarrow> string option \<Rightarrow> jsval \<Rightarrow> request_table \<Rightarrow> request_table" where
  "resolvePendingResponse rc correlationId payload t = (case correlationId of
     None \<Rightarrow> t
   | Some c \<Rightarrow> if c = [] then t
       else (case sync_response_of rc payload of None \<Rightarrow> t | Some r \<Rightarrow> settle_request c (Inr r) t))"

definition stop_requests :: "request_table \<Rightarrow> request_table" where
  "stop_requests t = t\<lparr>rq_pending := [],
     rq_settled := rq_settled t @ map (\<lambda>c. (c, Inl Protocol_stopped)) (rq_pending t)\<rparr>"

section \<open>Messages that arrive\<close>

definition verified_peer :: "string \<Rightarrow> trust_store \<Rightarrow> bool" where
  "verified_peer peerId s = (case getPeer peerId s of
     None \<Rightarrow> False | Some e \<Rightarrow> tp_trustStatus e = Trust_verified)"

record sync_output =
  so_response :: "jsval option"
  so_refresh :: bool \<comment> \<open>\<open>onRefreshRequested\<close> is called\<close>

definition handleSyncMessage ::
  "record_codec \<Rightarrow> sync_env \<Rightarrow> trust_store \<Rightarrow> string \<Rightarrow> string \<Rightarrow> string option \<Rightarrow> jsval \<Rightarrow> int
     \<Rightarrow> sync_stores \<Rightarrow> request_table \<Rightarrow> sync_output \<times> request_table" where
  "handleSyncMessage rc env trust peerId messageType correlationId payload now st t =
     (let nothing = \<lparr>so_response = None, so_refresh = False\<rparr> in
      if messageType \<notin> {''sync.request'', ''sync.response'', ''sync.hint''} then (nothing, t)
      else if \<not> verified_peer peerId trust then (nothing, t)
      else if messageType = ''sync.hint'' then (nothing\<lparr>so_refresh := isSyncRefreshHint payload\<rparr>, t)
      else if messageType = ''sync.response'' then (nothing, resolvePendingResponse rc correlationId payload t)
      else (case sync_request_of payload of
        None \<Rightarrow> (nothing, t)
      | Some req \<Rightarrow> (case answer_request rc env peerId req correlationId now st of
          Inl e \<Rightarrow> (nothing, t)
        | Inr r \<Rightarrow> (nothing\<lparr>so_response := Some (sync_response_value rc r)\<rparr>, t))))"

definition notifyPeerOfChanges :: "trust_store \<Rightarrow> string \<Rightarrow> bool \<Rightarrow> int \<Rightarrow> jsval option" where
  \<comment> \<open>The hint that is sent.\<close>
  "notifyPeerOfChanges trust peerId hasConnection changedAt =
     (if \<not> verified_peer peerId trust \<or> \<not> hasConnection then None
      else Some (Jv_obj [(''version'', Jv_num 1), (''type'', Jv_str ''sync.refresh.hint''),
             (''changedAt'', Jv_num changedAt)]))"

section \<open>The requester\<close>

definition MAX_SYNC_PAGES :: nat where
  "MAX_SYNC_PAGES = 100"

text \<open>What the promise of a request settles with, and the world after it.\<close>

type_synonym 'w network = "sync_request \<Rightarrow> 'w \<Rightarrow> (sync_error + sync_response) \<times> 'w"

record sync_node =
  yn_stores :: sync_stores
  yn_checkpoints :: "checkpoint_table option" \<comment> \<open>\<open>None\<close>: there is no checkpoint repository\<close>
  yn_trust :: trust_store
  yn_events :: "sync_event list"

definition emptySyncResult :: sync_result where
  "emptySyncResult = \<lparr>sy_applied = 0, sy_skipped = 0, sy_nextCursor = None, sy_hasMore = False\<rparr>"

definition mergeSyncResults :: "sync_result \<Rightarrow> sync_result \<Rightarrow> sync_result" where
  "mergeSyncResults current next = \<lparr>sy_applied = sy_applied current + sy_applied next,
     sy_skipped = sy_skipped current + sy_skipped next,
     sy_nextCursor = opt_else (sy_nextCursor next) (sy_nextCursor current), sy_hasMore = sy_hasMore next\<rparr>"

definition requestEntityManifest ::
  "'w network \<Rightarrow> conflict_entity \<Rightarrow> string option \<Rightarrow> 'w \<Rightarrow> (sync_error + entity_manifest) \<times> 'w" where
  "requestEntityManifest net entity cursor w = (case net (Entity_manifest_request entity cursor) w of
     (Inl e, w1) \<Rightarrow> (Inl e, w1)
   | (Inr r, w1) \<Rightarrow> (case r of
       Entity_manifest_response m \<Rightarrow>
         if em_entity m \<noteq> entity then (Inl Unexpected_manifest, w1)
         else if \<not> isManifestRangeValid m then (Inl Range_hash_invalid, w1) else (Inr m, w1)
     | _ \<Rightarrow> (Inl Unexpected_manifest, w1)))"

definition requestEntityBatch ::
  "'w network \<Rightarrow> conflict_entity \<Rightarrow> string list \<Rightarrow> 'w \<Rightarrow> (sync_error + sync_batch) \<times> 'w" where
  "requestEntityBatch net entity ids w = (case net (Entity_batch_request entity ids) w of
     (Inl e, w1) \<Rightarrow> (Inl e, w1)
   | (Inr r, w1) \<Rightarrow> (case r of
       Batch_response b \<Rightarrow>
         if sb_version b \<noteq> 2 \<or> sb_entity b \<noteq> Some entity then (Inl Unexpected_batch, w1) else (Inr b, w1)
     | _ \<Rightarrow> (Inl Unexpected_batch, w1)))"

fun record_cursor :: "int \<Rightarrow> sync_event \<Rightarrow> trust_store \<Rightarrow> trust_store" where
  "record_cursor now (Cursor_recorded p c n) s = recordSyncCursor p c (int n) now s"
| "record_cursor now e s = s"

definition apply_to_node ::
  "sync_env \<Rightarrow> string \<Rightarrow> sync_batch \<Rightarrow> int \<Rightarrow> sync_node \<Rightarrow> (sync_error + sync_result) \<times> sync_node" where
  "apply_to_node env peerId batch now n = (case applyBatch env peerId batch now (yn_stores n) of
     (r, st, events) \<Rightarrow> (map_sum Apply_batch_failed id r,
       n\<lparr>yn_stores := st, yn_events := yn_events n @ events,
         yn_trust := fold (record_cursor now) events (yn_trust n)\<rparr>))"

text \<open>The loop over the missing ids need not end: a peer may go on answering with other ids.\<close>

partial_function (option) pull_batches ::
  "sync_env \<Rightarrow> 'w network \<Rightarrow> string \<Rightarrow> conflict_entity \<Rightarrow> int \<Rightarrow> string list \<Rightarrow> sync_result \<Rightarrow> sync_result
     \<Rightarrow> sync_node \<Rightarrow> 'w \<Rightarrow> ((sync_error + sync_result \<times> sync_result) \<times> sync_node \<times> 'w) option" where
  "pull_batches env net peerId entity now ids page acc n w =
     (if ids = [] then Some (Inr (page, acc), n, w)
      else (case requestEntityBatch net entity ids w of
        (Inl e, w1) \<Rightarrow> Some (Inl e, n, w1)
      | (Inr batch, w1) \<Rightarrow>
          if or_else (sb_itemIds batch) [] = [] then Some (Inl Empty_entity_batch, n, w1)
          else (case apply_to_node env peerId batch now n of
            (Inl e, n1) \<Rightarrow> Some (Inl e, n1, w1)
          | (Inr r, n1) \<Rightarrow> pull_batches env net peerId entity now
              (filter (\<lambda>i. i \<notin> set (or_else (sb_itemIds batch) [])) ids)
              (mergeSyncResults page r) (mergeSyncResults acc r) n1 w1)))"

definition save_page ::
  "string \<Rightarrow> conflict_entity \<Rightarrow> string option \<Rightarrow> string \<Rightarrow> nat \<Rightarrow> int \<Rightarrow> sync_node \<Rightarrow> checkpoint option \<times> sync_node" where
  "save_page peerId entity cursor rootHash applied now n = (case yn_checkpoints n of
     None \<Rightarrow> (None, n)
   | Some t \<Rightarrow> (let (c, t1) = saveProgress peerId entity cursor rootHash (Some (int applied)) now t
               in (Some c, n\<lparr>yn_checkpoints := Some t1\<rparr>)))"

definition mark_complete ::
  "string \<Rightarrow> conflict_entity \<Rightarrow> string \<Rightarrow> nat \<Rightarrow> int \<Rightarrow> sync_node \<Rightarrow> sync_node" where
  "mark_complete peerId entity rootHash applied now n = n\<lparr>yn_checkpoints :=
     map_option (\<lambda>t. snd (markComplete peerId entity rootHash (Some (int applied)) now t)) (yn_checkpoints n)\<rparr>"

definition unchanged_since ::
  "sync_env \<Rightarrow> conflict_entity \<Rightarrow> checkpoint option \<Rightarrow> string option \<Rightarrow> entity_manifest \<Rightarrow> sync_stores \<Rightarrow> bool" where
  "unchanged_since env entity checkpoint cursor m st \<longleftrightarrow> \<not> truthy cursor
     \<and> (\<exists>c. checkpoint = Some c \<and> cp_status c = Complete \<and> cp_manifestHash c = em_rootHash m)
     \<and> getEntityRootHash env entity None st = em_rootHash m"

text \<open>At most \<open>k\<close> further pages.\<close>

fun sync_pages ::
  "sync_env \<Rightarrow> 'w network \<Rightarrow> string \<Rightarrow> conflict_entity \<Rightarrow> int \<Rightarrow> nat \<Rightarrow> string option \<Rightarrow> checkpoint option
     \<Rightarrow> sync_result \<Rightarrow> sync_node \<Rightarrow> 'w \<Rightarrow> ((sync_error + sync_result) \<times> sync_node \<times> 'w) option" where
  "sync_pages env net peerId entity now 0 cursor checkpoint acc n w =
     Some (Inr (acc\<lparr>sy_hasMore := True\<rparr>), n, w)"
| "sync_pages env net peerId entity now (Suc k) cursor checkpoint acc n w =
     (case requestEntityManifest net entity cursor w of
        (Inl e, w1) \<Rightarrow> Some (Inl e, n, w1)
      | (Inr m, w1) \<Rightarrow>
          if truthy cursor \<and> map_option cp_manifestHash checkpoint \<noteq> Some (em_rootHash m)
          then sync_pages env net peerId entity now k None None acc n w1
          else if unchanged_since env entity checkpoint cursor m (yn_stores n)
          then Some (Inr emptySyncResult, n, w1)
          else (case findMissingManifestItems env m None (yn_stores n) of
            None \<Rightarrow> Some (Inl Malformed_cursor, n, w1)
          | Some missing \<Rightarrow>
              (case pull_batches env net peerId entity now (map mf_id missing) emptySyncResult acc n w1 of
                None \<Rightarrow> None
              | Some (Inl e, n1, w2) \<Rightarrow> Some (Inl e, n1, w2)
              | Some (Inr (page, acc1), n1, w2) \<Rightarrow>
                  if sm_hasMore m
                  then (if \<not> truthy (sm_nextCursor m) \<or> sm_nextCursor m = cursor
                        then Some (Inl Cursor_not_advanced, n1, w2)
                        else (let (c, n2) = save_page peerId entity (sm_nextCursor m) (em_rootHash m)
                                    (sy_applied page) now n1
                              in sync_pages env net peerId entity now k (sm_nextCursor m) c acc1 n2 w2))
                  else Some (Inr (acc1\<lparr>sy_nextCursor := sm_nextCursor m, sy_hasMore := False\<rparr>),
                         mark_complete peerId entity (em_rootHash m) (sy_applied page) now n1, w2))))"

definition syncEntity ::
  "sync_env \<Rightarrow> 'w network \<Rightarrow> string \<Rightarrow> conflict_entity \<Rightarrow> int \<Rightarrow> sync_node \<Rightarrow> 'w
     \<Rightarrow> ((sync_error + sync_result) \<times> sync_node \<times> 'w) option" where
  "syncEntity env net peerId entity now n w = (case yn_checkpoints n of
     None \<Rightarrow> Some (Inr emptySyncResult, n, w)
   | Some t \<Rightarrow>
       (let checkpoint = getCheckpoint peerId entity t;
            cursor = (case checkpoint of
              None \<Rightarrow> None | Some c \<Rightarrow> if cp_status c = Scanning then cp_cursor c else None)
        in sync_pages env net peerId entity now MAX_SYNC_PAGES cursor checkpoint emptySyncResult n w))"

fun sync_entities_in ::
  "sync_env \<Rightarrow> 'w network \<Rightarrow> string \<Rightarrow> int \<Rightarrow> conflict_entity list \<Rightarrow> sync_result \<Rightarrow> sync_node \<Rightarrow> 'w
     \<Rightarrow> ((sync_error + sync_result) \<times> sync_node \<times> 'w) option" where
  "sync_entities_in env net peerId now [] acc n w = Some (Inr acc, n, w)"
| "sync_entities_in env net peerId now (e # es) acc n w = (case syncEntity env net peerId e now n w of
     None \<Rightarrow> None
   | Some (Inl x, n1, w1) \<Rightarrow> Some (Inl x, n1, w1)
   | Some (Inr r, n1, w1) \<Rightarrow> sync_entities_in env net peerId now es (mergeSyncResults acc r) n1 w1)"

fun legacy_pages ::
  "sync_env \<Rightarrow> 'w network \<Rightarrow> string \<Rightarrow> int \<Rightarrow> nat \<Rightarrow> string option \<Rightarrow> sync_result \<Rightarrow> sync_node \<Rightarrow> 'w
     \<Rightarrow> (sync_error + sync_result) \<times> sync_node \<times> 'w" where
  "legacy_pages env net peerId now 0 cursor acc n w = (Inr acc, n, w)"
| "legacy_pages env net peerId now (Suc k) cursor acc n w = (case net (Legacy_batch_request cursor) w of
     (Inl e, w1) \<Rightarrow> (Inl e, n, w1)
   | (Inr r, w1) \<Rightarrow> (case r of
       Batch_response b \<Rightarrow>
         if sb_version b \<noteq> 1 then (Inl Unexpected_response, n, w1)
         else (case apply_to_node env peerId b now n of
           (Inl e, n1) \<Rightarrow> (Inl e, n1, w1)
         | (Inr x, n1) \<Rightarrow>
             if \<not> sy_hasMore x \<or> \<not> truthy (sy_nextCursor x) \<or> sy_nextCursor x = cursor
             then (Inr (mergeSyncResults acc x), n1, w1)
             else legacy_pages env net peerId now k (sy_nextCursor x) (mergeSyncResults acc x) n1 w1)
     | _ \<Rightarrow> (Inl Unexpected_response, n, w1)))"

definition performSyncPeer ::
  "sync_env \<Rightarrow> 'w network \<Rightarrow> string \<Rightarrow> bool \<Rightarrow> int \<Rightarrow> sync_node \<Rightarrow> 'w
     \<Rightarrow> ((sync_error + sync_result) \<times> sync_node \<times> 'w) option" where
  "performSyncPeer env net peerId hasConnection now n w =
     (if \<not> verified_peer peerId (yn_trust n) then Some (Inr emptySyncResult, n, w)
      else if \<not> hasConnection then Some (Inl Not_connected, n, w)
      else (case yn_checkpoints n of
        None \<Rightarrow> Some (legacy_pages env net peerId now MAX_SYNC_PAGES
            (Option.bind (getPeer peerId (yn_trust n)) tp_syncCursor) emptySyncResult n w)
      | Some t \<Rightarrow> (case sync_entities_in env net peerId now sync_entities emptySyncResult n w of
          None \<Rightarrow> None
        | Some (Inl e, n1, w1) \<Rightarrow> Some (Inl e, n1, w1)
        | Some (Inr r, n1, w1) \<Rightarrow> Some (Inr (r\<lparr>sy_hasMore := False\<rparr>),
            n1\<lparr>yn_trust := recordSync peerId (int (sy_applied r)) now (yn_trust n1)\<rparr>, w1))))"

text \<open>Only one synchronisation with a peer is under way: a call during it asks for another pass.\<close>

record sync_flights =
  yf_inFlight :: "string list"
  yf_resync :: "string list"

datatype sync_call = Joined | Begun

definition sync_called :: "string \<Rightarrow> sync_flights \<Rightarrow> sync_call \<times> sync_flights" where
  "sync_called p f =
     (if p \<in> set (yf_inFlight f) then (Joined, f\<lparr>yf_resync := set_add p (yf_resync f)\<rparr>)
      else (Begun, f\<lparr>yf_inFlight := set_add p (yf_inFlight f), yf_resync := removeAll p (yf_resync f)\<rparr>))"

definition pass_ended :: "string \<Rightarrow> bool \<Rightarrow> sync_flights \<Rightarrow> bool \<times> sync_flights" where
  \<comment> \<open>Whether another pass begins; a pass that failed ends the operation.\<close>
  "pass_ended p ok f =
     (if ok \<and> p \<in> set (yf_resync f) then (True, f\<lparr>yf_resync := removeAll p (yf_resync f)\<rparr>)
      else (False, f\<lparr>yf_inFlight := removeAll p (yf_inFlight f)\<rparr>))"

definition stop_flights :: "sync_flights \<Rightarrow> sync_flights" where
  "stop_flights f = f\<lparr>yf_inFlight := [], yf_resync := []\<rparr>"

end
