(* ===== verification/SyncProtocol_Claims.thy ===== *)
theory SyncProtocol_Claims
  imports SyncProtocol Sync_Claims Conflict_Claims
begin

text \<open>
  What the exchange with a peer gives: what is sent reads back, chat messages are shown to their two
  parties only, a synchronisation ends when the peer answers what it is asked and leaves every record
  merged with the one of the peer, and synchronising in both directions makes two devices equal. One
  theorem records how a peer can keep the loop busy for ever.
\<close>

section \<open>What is sent reads back\<close>

lemma entity_reads_back [simp]: "entity_of (Jv_str (entity_name e)) = Some e"
  by (cases e) (simp_all add: entity_of_def sync_entities_def)

lemma entity_of_opt [simp]: "entity_of (opt_str (map_option entity_name e)) = e"
  by (cases e) (simp_all add: opt_str_def, simp add: entity_of_def sync_entities_def)

lemma opt_field_str [simp]: "opt_field str_of (opt_str c) = Some c"
  by (cases c) (simp_all add: opt_field_def opt_str_def)

lemma opt_field_arr: "opt_field arr_of (opt_arr f xs) = Some (map_option (map f) xs)"
  by (cases xs) (simp_all add: opt_field_def opt_arr_def)

lemma opt_field_ids:
  "(\<And>xs. ids = Some xs \<Longrightarrow> [] \<notin> set xs) \<Longrightarrow>
   opt_field (\<lambda>w. Option.bind (arr_of w) (collect id_text)) (opt_arr Jv_str ids) = Some ids"
proof (cases ids)
  case (Some xs)
  assume "\<And>xs. ids = Some xs \<Longrightarrow> [] \<notin> set xs"
  then have "collect id_text (map Jv_str xs) = Some xs"
    using Some by (intro collect_map) (auto simp: id_text_def)
  then show ?thesis using Some by (simp add: opt_field_def opt_arr_def)
qed (simp add: opt_field_def opt_arr_def)

lemma item_reads_back: "mf_entity m = e \<Longrightarrow> manifest_item_of e (manifest_item_value m) = Some m"
  by (simp add: manifest_item_of_def manifest_item_value_def)

lemma manifest_reads_back:
  assumes "\<forall>i \<in> set (sm_items m). mf_entity i = em_entity m"
  shows "entity_manifest_of (entity_manifest_value m) = Some m"
proof -
  have "collect (manifest_item_of (em_entity m)) (map manifest_item_value (sm_items m)) = Some (sm_items m)"
    using assms by (intro collect_map item_reads_back) auto
  then show ?thesis by (simp add: entity_manifest_of_def entity_manifest_value_def)
qed

text \<open>The records a batch carries, and a batch whose records the codec reads back.\<close>

definition batch_well_formed :: "record_codec \<Rightarrow> sync_batch \<Rightarrow> bool" where
  "batch_well_formed rc b \<longleftrightarrow> (sb_version b = 1 \<or> sb_version b = 2 \<and> sb_entity b \<noteq> None)
     \<and> (\<forall>xs. sb_itemIds b = Some xs \<longrightarrow> [] \<notin> set xs)
     \<and> (\<forall>(e, d) \<in> set (batch_items b). rc_read rc e (rc_write rc e d) = d)"

lemma read_map:
  "\<forall>d \<in> set xs. rc_read rc e (rc_write rc e d) = d \<Longrightarrow> map (rc_read rc e) (map (rc_write rc e) xs) = xs"
  by (induction xs) auto

lemma read_map_option:
  "\<forall>d \<in> set (or_else xs []). rc_read rc e (rc_write rc e d) = d \<Longrightarrow>
   map_option (map (rc_read rc e)) (map_option (map (rc_write rc e)) xs) = xs"
  by (cases xs) (auto simp: or_else_def map_idI)

lemma batch_reads_back:
  assumes "batch_well_formed rc b"
  shows "batch_of rc (batch_value rc b) = Some b"
proof -
  have codec: "\<forall>d \<in> set (sb_posts b). rc_read rc E_post (rc_write rc E_post d) = d"
    "\<forall>d \<in> set (or_else (sb_profiles b) []). rc_read rc E_profile (rc_write rc E_profile d) = d"
    "\<forall>d \<in> set (or_else (sb_comments b) []). rc_read rc E_comment (rc_write rc E_comment d) = d"
    "\<forall>d \<in> set (or_else (sb_reactions b) []). rc_read rc E_reaction (rc_write rc E_reaction d) = d"
    "\<forall>d \<in> set (or_else (sb_follows b) []). rc_read rc E_follow (rc_write rc E_follow d) = d"
    "\<forall>d \<in> set (or_else (sb_chatMessages b) []). rc_read rc E_chat (rc_write rc E_chat d) = d"
    using assms by (auto simp: batch_well_formed_def batch_items_def)
  have "opt_field (\<lambda>w. Option.bind (arr_of w) (collect id_text)) (opt_arr Jv_str (sb_itemIds b)) = Some (sb_itemIds b)"
    using assms by (intro opt_field_ids) (simp add: batch_well_formed_def)
  then show ?thesis
    using assms read_map [OF codec(1)] read_map_option [OF codec(2)] read_map_option [OF codec(3)]
      read_map_option [OF codec(4)] read_map_option [OF codec(5)] read_map_option [OF codec(6)]
    by (auto simp: batch_of_def batch_value_def opt_field_arr batch_well_formed_def simp del: map_map
        intro: sync_batch.equality)
qed

fun response_well_formed :: "record_codec \<Rightarrow> sync_response \<Rightarrow> bool" where
  "response_well_formed rc (Legacy_manifest_response m) =
     (field m ''version'' = Jv_num 1 \<and> str_of (field m ''peerId'') \<noteq> None \<and> arr_of (field m ''items'') \<noteq> None)"
| "response_well_formed rc (Entity_manifest_response m) = (\<forall>i \<in> set (sm_items m). mf_entity i = em_entity m)"
| "response_well_formed rc (Batch_response b) = batch_well_formed rc b"

text \<open>A response is read by the requester as the one that was sent, provided the records it carries are
  read back as they were written.\<close>

theorem response_roundtrip:
  assumes "response_well_formed rc r"
  shows "sync_response_of rc (sync_response_value rc r) = Some r"
proof (cases r)
  case (Batch_response b)
  then have "sb_version b = 1 \<or> sb_version b = 2" using assms by (auto simp: batch_well_formed_def)
  then show ?thesis
    using Batch_response assms batch_reads_back
    by (auto simp: sync_response_of_def sync_response_value_def)
qed (use assms manifest_reads_back in \<open>auto simp: sync_response_of_def sync_response_value_def\<close>)

lemma request_reads_back_manifest:
  "sync_request_of (sync_request_value (Entity_manifest_request e c)) = Some (Entity_manifest_request e c)"
  by (simp add: sync_request_of_def sync_request_value_def)

lemma request_reads_back_batch:
  assumes "length ids \<le> 50" and "[] \<notin> set ids"
  shows "sync_request_of (sync_request_value (Entity_batch_request e ids)) = Some (Entity_batch_request e ids)"
proof -
  have "collect id_text (map Jv_str ids) = Some ids"
    using assms(2) by (intro collect_map) (auto simp: id_text_def)
  then show ?thesis using assms(1) by (simp add: sync_request_of_def sync_request_value_def)
qed

section \<open>Chat messages stay private\<close>

definition party :: "string \<Rightarrow> sync_data \<Rightarrow> bool" where
  "party p d \<longleftrightarrow> \<not> sd_relayOnly d \<and> (sd_senderId d = p \<or> sd_recipientId d = p)"

definition items_private :: "sync_env \<Rightarrow> string \<Rightarrow> sync_stores \<Rightarrow> manifest_item list \<Rightarrow> bool" where
  "items_private env p st items \<longleftrightarrow> (\<forall>i \<in> set items. mf_entity i = E_chat \<longrightarrow>
     (\<exists>d \<in> set (table_values (ss_chats st)). i = toManifestItem (to_record env E_chat d) \<and> party p d))"

fun response_private :: "sync_env \<Rightarrow> string \<Rightarrow> sync_stores \<Rightarrow> sync_response \<Rightarrow> bool" where
  "response_private env p st (Legacy_manifest_response m) \<longleftrightarrow>
     (\<exists>x. m = legacy_manifest_value x \<and> items_private env p st (sm_items x))"
| "response_private env p st (Entity_manifest_response m) \<longleftrightarrow> items_private env p st (sm_items m)"
| "response_private env p st (Batch_response b) \<longleftrightarrow> (\<forall>d \<in> set (or_else (sb_chatMessages b) []). party p d)"

lemma to_record_entity [simp]: "ry_entity (to_record env e d) = e" "ry_data (to_record env e d) = d"
  "ry_id (to_record env e d) = sr_id (sd_record d)"
  by (simp_all add: to_record_def)

lemma chat_records:
  assumes "r \<in> set (getAllRecords env (Some p) st)" and "ry_entity r = E_chat" and "p \<noteq> []"
  shows "\<exists>d \<in> set (table_values (ss_chats st)). r = to_record env E_chat d \<and> party p d"
  using assms by (auto simp: getAllRecords_def chat_visible_def truthy_def party_def set_js_sort)

lemma chats_of_records:
  assumes "set rs \<subseteq> set (getAllRecords env (Some p) st)" and "p \<noteq> []"
  shows "items_private env p st (map toManifestItem rs)" and "d \<in> set (data_of E_chat rs) \<Longrightarrow> party p d"
proof -
  show "items_private env p st (map toManifestItem rs)"
    using assms chat_records by (fastforce simp: items_private_def toManifestItem_def)
  assume "d \<in> set (data_of E_chat rs)"
  then obtain r where "r \<in> set rs" "ry_entity r = E_chat" "d = ry_data r" by (auto simp: data_of_def)
  moreover from this have "r \<in> set (getAllRecords env (Some p) st)" using assms(1) by blast
  ultimately show "party p d" using chat_records [of r env p st] assms(2) by auto
qed

lemma after_cursor_subset: "filterRecordsAfterCursor env rs c = Some xs \<Longrightarrow> set xs \<subseteq> set rs"
  by (auto simp: filterRecordsAfterCursor_def split: cursor_result.splits)

lemma entity_records_subset: "set (getRecordsForEntity env e a st) \<subseteq> set (getAllRecords env a st)"
  by (auto simp: getRecordsForEntity_def)

lemma entity_batch_private: "p \<noteq> [] \<Longrightarrow> response_private env p st (Batch_response (createEntityBatch env e ids (Some p) st))"
  using chats_of_records(2) [of "filter (\<lambda>r. ry_id r \<in> set (take (se_batchSize env) ids)) (getRecordsForEntity env e (Some p) st)" env p st]
    entity_records_subset [of env e "Some p" st]
  by (auto simp: createEntityBatch_def createBatchFromRecords_def or_else_def Let_def)

lemma legacy_batch_private:
  "p \<noteq> [] \<Longrightarrow> createBatch env c n (Some p) st = Some b \<Longrightarrow> response_private env p st (Batch_response b)"
  using chats_of_records(2) [of "take k xs" env p st for k xs] after_cursor_subset [of env "getAllRecords env (Some p) st" c]
  by (fastforce simp: createBatch_def createBatchFromRecords_def or_else_def Let_def dest: in_set_takeD)

lemma empty_batch_private: "response_private env p st (Batch_response (emptyBatch q v e c nc m))"
  by (simp add: emptyBatch_def or_else_def)

lemma sized_entity_private:
  "p \<noteq> [] \<Longrightarrow> sized_entity rc env p e c now st ids = Inr b \<Longrightarrow> response_private env p st (Batch_response b)"
proof (induction rc env p e c now st ids rule: sized_entity.induct)
  case (1 rc env p e c now st ids)
  show ?case
  proof (cases "ids = [] \<or> fitsNetworkLimit rc (se_localPeerId env) c now (createEntityBatch env e ids (Some p) st) \<noteq> Some False")
    case True
    then show ?thesis
      using 1(3) entity_batch_private [OF 1(2), of env st e ids] empty_batch_private
      by (subst (asm) sized_entity.simps)
        (auto simp: Let_def split: if_splits option.splits bool.splits simp del: response_private.simps)
  next
    case False
    moreover from this have "length ids \<noteq> 1"
      using 1(3) by (subst (asm) sized_entity.simps) (auto simp: Let_def)
    moreover from calculation have "sized_entity rc env p e c now st (take (max 1 (length ids div 2)) ids) = Inr b"
      using 1(3) by (subst (asm) sized_entity.simps) (auto simp: Let_def)
    ultimately show ?thesis using 1(1) [OF _ refl, of False] 1(2) by blast
  qed
qed


lemma sized_legacy_private:
  "p \<noteq> [] \<Longrightarrow> sized_legacy rc env p cur c now st n = Inr (Some b) \<Longrightarrow>
   response_private env p st (Batch_response b)"
proof (induction rc env p cur c now st n rule: sized_legacy.induct)
  case (1 rc env p cur c now st n)
  show ?case
  proof (cases "n < 1")
    case True
    then show ?thesis using 1(3) by (subst (asm) sized_legacy.simps) simp
  next
    case False
    obtain a where a: "createBatch env cur (Some (int n)) (Some p) st = Some a"
      using 1(3) False by (subst (asm) sized_legacy.simps) (auto split: option.splits)
    obtain f where f: "fitsNetworkLimit rc (se_localPeerId env) c now a = Some f"
      using 1(3) False a by (subst (asm) sized_legacy.simps) (auto split: option.splits)
    show ?thesis
    proof (cases f)
      case True
      then have "b = a" using 1(3) False a f by (subst (asm) sized_legacy.simps) simp
      then show ?thesis using legacy_batch_private [OF 1(2) a] by simp
    next
      case f': False
      then have "sized_legacy rc env p cur c now st (n div 2) = Inr (Some b)"
        using 1(3) False a f by (subst (asm) sized_legacy.simps) simp
      then show ?thesis using 1(1) [OF False a f] f' 1(2) by blast
    qed
  qed
qed

lemma answer_private:
  assumes "p \<noteq> []" and "answer_request rc env p req c now st = Inr r"
  shows "response_private env p st r"
proof (cases req)
  case (Legacy_manifest_request cur)
  then obtain m where m: "createManifest env cur (Some p) st = Some m"
    and r: "r = Legacy_manifest_response (legacy_manifest_value m)"
    using assms(2) by (auto simp: answer_request_def split: option.splits)
  obtain rs where "filterRecordsAfterCursor env (getAllRecords env (Some p) st) cur = Some rs"
    and "sm_items m = map toManifestItem (take (se_batchSize env) rs)"
    using m by (auto simp: createManifest_def Let_def)
  then have "items_private env p st (sm_items m)"
    using chats_of_records(1) [of "take (se_batchSize env) rs" env p st] after_cursor_subset assms(1)
    by (metis set_take_subset subset_trans)
  then show ?thesis using r by auto
next
  case (Legacy_batch_request cur)
  then obtain b where b: "createSizedLegacyBatch rc env p cur c now st = Inr b" and r: "r = Batch_response b"
    using assms(2) by (cases "createSizedLegacyBatch rc env p cur c now st") (auto simp: answer_request_def)
  then show ?thesis
    using sized_legacy_private [OF assms(1)] legacy_batch_private [OF assms(1)] empty_batch_private
    unfolding createSizedLegacyBatch_def r
    by (auto split: sum.splits option.splits bool.splits simp del: response_private.simps)
next
  case (Entity_manifest_request e cur)
  then obtain m where m: "createEntityManifest env e cur (Some p) st = Some m"
    and r: "r = Entity_manifest_response m"
    using assms(2) by (auto simp: answer_request_def split: option.splits)
  obtain rs where rs: "filterRecordsAfterCursor env (getRecordsForEntity env e (Some p) st) cur = Some rs"
    and "sm_items m = map toManifestItem (take (se_batchSize env) rs)"
    using m by (auto simp: createEntityManifest_def Let_def)
  moreover have "set (take (se_batchSize env) rs) \<subseteq> set (getAllRecords env (Some p) st)"
    using after_cursor_subset [OF rs] entity_records_subset set_take_subset by fast
  ultimately have "items_private env p st (sm_items m)"
    using chats_of_records(1) assms(1) by metis
  then show ?thesis using r by simp
next
  case (Entity_batch_request e ids)
  then obtain b where "createSizedEntityBatch rc env p e ids c now st = Inr b" and r: "r = Batch_response b"
    using assms(2) by (cases "createSizedEntityBatch rc env p e ids c now st") (auto simp: answer_request_def)
  then show ?thesis
    using sized_entity_private [OF assms(1)] unfolding createSizedEntityBatch_def by blast
qed

text \<open>C6: Whatever a message asks for, the answer goes to a verified peer only and shows no chat message,
  in a manifest or in a batch, old or new, that the peer neither sent nor is to receive, and none that
  is only being relayed.\<close>

theorem chats_stay_private:
  assumes "p \<noteq> []"
    and "so_response (fst (handleSyncMessage rc env trust p ty c payload now st t)) = Some v"
  shows "verified_peer p trust \<and> (\<exists>r. v = sync_response_value rc r \<and> response_private env p st r)"
proof -
  have "verified_peer p trust \<and> (\<exists>req r. answer_request rc env p req c now st = Inr r \<and> v = sync_response_value rc r)"
    using assms(2) by (auto simp: handleSyncMessage_def Let_def split: if_splits option.splits sum.splits)
  then show ?thesis using answer_private [OF assms(1)] by blast
qed

section \<open>A synchronisation ends when the peer answers what it is asked\<close>

definition answers_asked :: "'w network \<Rightarrow> bool" where
  "answers_asked net \<longleftrightarrow> (\<forall>e ids w b. fst (net (Entity_batch_request e ids) w) = Inr (Batch_response b)
     \<longrightarrow> sb_version b \<noteq> 2 \<or> sb_entity b \<noteq> Some e
       \<or> or_else (sb_itemIds b) [] = [] \<or> set (or_else (sb_itemIds b) []) \<inter> set ids \<noteq> {})"

lemma pull_ends:
  assumes "answers_asked net"
  shows "\<exists>y. pull_batches env net p e now ids page acc n w = Some y"
proof (induction "length ids" arbitrary: ids page acc n w rule: less_induct)
  case less
  obtain o1 w1 where req: "requestEntityBatch net e ids w = (o1, w1)" by fastforce
  show ?case
  proof (cases "\<exists>b r n1. ids \<noteq> [] \<and> o1 = Inr b \<and> or_else (sb_itemIds b) [] \<noteq> [] \<and> apply_to_node env p b now n = (Inr r, n1)")
    case False
    then show ?thesis
      by (subst pull_batches.simps) (auto simp: req split: sum.splits prod.splits)
  next
    case True
    then obtain b r n1 where b: "ids \<noteq> []" "o1 = Inr b" "or_else (sb_itemIds b) [] \<noteq> []"
      "apply_to_node env p b now n = (Inr r, n1)" by blast
    let ?rest = "filter (\<lambda>i. i \<notin> set (or_else (sb_itemIds b) [])) ids"
    have "fst (net (Entity_batch_request e ids) w) = Inr (Batch_response b) \<and> sb_version b = 2 \<and> sb_entity b = Some e"
      using req b(2) unfolding requestEntityBatch_def
      by (auto split: prod.splits sum.splits sync_response.splits if_splits)
    then have "set (or_else (sb_itemIds b) []) \<inter> set ids \<noteq> {}"
      using assms b(3) unfolding answers_asked_def by blast
    then have "length ?rest < length ids" by (auto intro: length_filter_less)
    then show ?thesis
      using less b by (subst pull_batches.simps) (simp add: req)
  qed
qed

lemma pages_end:
  assumes "answers_asked net"
  shows "\<exists>y. sync_pages env net p e now k cursor cp acc n w = Some y"
proof (induction k arbitrary: cursor cp acc n w)
  case (Suc k)
  show ?case
  proof (cases "requestEntityManifest net e cursor w")
    case (Pair o1 w1)
    show ?thesis
    proof (cases o1)
      case (Inl a)
      then show ?thesis by (simp add: Pair)
    next
      case (Inr m)
      have pull: "pull_batches env net p e now ids emptySyncResult acc n w1 \<noteq> None" for ids
        using pull_ends [OF assms] by (metis option.distinct(1))
      have "sync_pages env net p e now k c' cp' acc' n' w' \<noteq> None" for c' cp' acc' n' w'
        using Suc.IH by (metis option.distinct(1))
      then have "sync_pages env net p e now (Suc k) cursor cp acc n w \<noteq> None"
        using pull by (simp add: Pair Inr Let_def case_prod_beta split: option.split sum.split del: not_None_eq)
      then show ?thesis by blast
    qed
  qed
qed simp

lemma entities_end:
  assumes "answers_asked net"
  shows "\<exists>y. sync_entities_in env net p now es acc n w = Some y"
proof (induction es arbitrary: acc n w)
  case (Cons e es)
  have "\<exists>y. syncEntity env net p e now n w = Some y"
    using pages_end [OF assms] by (auto simp: syncEntity_def Let_def split: option.split)
  then show ?case using Cons.IH by (auto split: sum.split prod.split)
qed simp

text \<open>C20: A synchronisation returns, with a result or an error, whatever the network does, provided that
  a peer that answers a batch request answers none or at least one of the records asked for.\<close>

theorem sync_peer_ends:
  assumes "answers_asked net"
  shows "\<exists>y. performSyncPeer env net p hasConnection now n w = Some y"
proof -
  have "sync_entities_in env net p now sync_entities emptySyncResult n w \<noteq> None"
    using entities_end [OF assms] by (metis option.distinct(1))
  then have "performSyncPeer env net p hasConnection now n w \<noteq> None"
    by (simp add: performSyncPeer_def case_prod_beta split: option.split sum.split del: not_None_eq)
  then show ?thesis by blast
qed

section \<open>A peer can keep the loop busy\<close>

definition other_answers :: "'w network \<Rightarrow> conflict_entity \<Rightarrow> string list \<Rightarrow> bool" where
  "other_answers net e ids \<longleftrightarrow> (\<forall>w. \<exists>b w1. net (Entity_batch_request e ids) w = (Inr (Batch_response b), w1)
     \<and> sb_version b = 2 \<and> sb_entity b = Some e \<and> or_else (sb_itemIds b) [] \<noteq> []
     \<and> set (or_else (sb_itemIds b) []) \<inter> set ids = {})"

lemma apply_all_no_error:
  assumes "se_service env = None"
  shows "fst (apply_all env p strict now ps s) = None"
proof (induction ps arbitrary: s)
  case (Cons q ps)
  obtain r st where r: "apply_record env (fst q) p (snd q) now (as_stores s) = (Inr r, st)"
    by (cases "fst q") (auto simp: apply_record_def assms Let_def case_prod_beta)
  show ?case using Cons.IH by (simp add: applySafely_def r)
qed simp

lemma apply_to_node_succeeds:
  assumes "se_service env = None" and "sb_version b = 1 \<or> sb_version b = 2"
  shows "\<exists>r. fst (apply_to_node env p b now n) = Inr r"
proof -
  obtain s' where "apply_all env p (sb_version b = 2) now (batch_items b)
      \<lparr>as_stores = yn_stores n, as_applied = 0, as_skipped = 0, as_events = []\<rparr> = (None, s')"
    using apply_all_no_error [OF assms(1)] by (metis prod.collapse)
  then show ?thesis using assms(2) by (auto simp: apply_to_node_def applyBatch_def)
qed

text \<open>A verified peer that answers a request for records, with batches that are well formed and can be
  applied, but of other records, is asked again for the same ones for ever: the loop does not end.\<close>

theorem busy_peer:
  assumes "se_service env = None" and "ids \<noteq> []" and "other_answers net e ids"
  shows "pull_batches env net p e now ids page acc n w = None"
proof (rule ccontr)
  assume "pull_batches env net p e now ids page acc n w \<noteq> None"
  then obtain y where "pull_batches env net p e now ids page acc n w = Some y" by blast
  then have "se_service env = None \<and> ids \<noteq> [] \<and> other_answers net e ids \<longrightarrow> False"
  proof (rule pull_batches.raw_induct [rotated])
    fix pull env net p e now ids page acc n w y
    assume IH: "\<And>env net p e now ids page acc n w y. pull env net p e now ids page acc n w = Some y \<Longrightarrow>
        se_service env = None \<and> ids \<noteq> [] \<and> other_answers net e ids \<longrightarrow> False"
      and step: "(if ids = [] then Some (Inr (page, acc), n, w)
        else case requestEntityBatch net e ids w of
          (Inl x, w1) \<Rightarrow> Some (Inl x, n, w1)
        | (Inr batch, w1) \<Rightarrow> if or_else (sb_itemIds batch) [] = [] then Some (Inl Empty_entity_batch, n, w1)
          else case apply_to_node env p batch now n of
            (Inl x, n1) \<Rightarrow> Some (Inl x, n1, w1)
          | (Inr r, n1) \<Rightarrow> pull env net p e now (filter (\<lambda>i. i \<notin> set (or_else (sb_itemIds batch) [])) ids)
              (mergeSyncResults page r) (mergeSyncResults acc r) n1 w1) = Some y"
    show "se_service env = None \<and> ids \<noteq> [] \<and> other_answers net e ids \<longrightarrow> False"
    proof (intro impI)
      assume asm: "se_service env = None \<and> ids \<noteq> [] \<and> other_answers net e ids"
      then obtain b w1 where b: "net (Entity_batch_request e ids) w = (Inr (Batch_response b), w1)"
        "sb_version b = 2" "sb_entity b = Some e" "or_else (sb_itemIds b) [] \<noteq> []"
        "set (or_else (sb_itemIds b) []) \<inter> set ids = {}"
        unfolding other_answers_def by blast
      obtain r n1 where r: "apply_to_node env p b now n = (Inr r, n1)"
        using apply_to_node_succeeds [of env b p now n] asm b(2) by (metis prod.collapse)
      have "filter (\<lambda>i. i \<notin> set (or_else (sb_itemIds b) [])) ids = ids"
        using b(5) by (intro filter_True) blast
      then have "pull env net p e now ids (mergeSyncResults page r) (mergeSyncResults acc r) n1 w1 = Some y"
        using step asm b(1-4) r by (simp add: requestEntityBatch_def)
      then show False using IH asm by blast
    qed
  qed
  then show False using assms by blast
qed


section \<open>Concrete runs\<close>

definition plain_codec :: record_codec where
  "plain_codec = \<lparr>rc_write = (\<lambda>_ d. Jv_str (sr_id (sd_record d))),
     rc_read = (\<lambda>_ v. sample_data (or_else (str_of v) []))\<rparr>"

definition sample_response_batch :: sync_batch where
  "sample_response_batch = (sample_sync_batch 2)\<lparr>sb_entity := Some E_profile, sb_itemIds := Some [''x'']\<rparr>"

theorem response_roundtrip_witness:
  "sync_response_of plain_codec (sync_response_value plain_codec (Batch_response sample_response_batch))
    = Some (Batch_response sample_response_batch)"
proof (rule response_roundtrip)
  have "sr_id (sd_record (sample_data ''x'')) = ''x''" by (simp add: sample_data_def)
  then show "response_well_formed plain_codec (Batch_response sample_response_batch)"
    by (simp add: batch_well_formed_def sample_response_batch_def sample_sync_batch_def batch_items_def or_else_def
        plain_codec_def)
qed

definition chat_of :: "string \<Rightarrow> string \<Rightarrow> string \<Rightarrow> sync_data" where
  "chat_of i s r = (sample_data i)\<lparr>sd_senderId := s, sd_recipientId := r\<rparr>"

definition chat_stores :: sync_stores where
  "chat_stores = sample_stores\<lparr>ss_chats := Some [(''1'', chat_of ''1'' ''p'' ''me''), (''2'', chat_of ''2'' ''me'' ''z'')]\<rparr>"

definition sample_trust :: "string \<Rightarrow> trust_store" where
  "sample_trust p = \<lparr>ts_peers = [(p, \<lparr>tp_peerId = p, tp_identityId = None, tp_displayName = None, tp_publicKey = None,
      tp_addresses = [], tp_trustStatus = Trust_verified, tp_lastSeenAt = None, tp_lastConnectedAt = None,
      tp_lastSyncAt = None, tp_addedAt = 1, tp_updatedAt = 1, tp_source = From_invite, tp_syncedObjects = 0,
      tp_sessionState = Ss_verified, tp_lastHandshakeAt = None, tp_activeSessionId = None, tp_syncCursor = None,
      tp_projection = None\<rparr>)], ts_removed = []\<rparr>"

lemma sample_verified [simp]: "verified_peer p (sample_trust p)"
  by (simp add: verified_peer_def sample_trust_def getPeer_def)

definition no_requests :: request_table where
  "no_requests = \<lparr>rq_pending = [], rq_sequence = 0, rq_settled = []\<rparr>"

theorem chats_stay_private_witness:
  "\<exists>v r. so_response (fst (handleSyncMessage plain_codec (sample_sync_env code_cmp) (sample_trust ''p'') ''p'' ''sync.request''
       (Some ''c'') (sync_request_value (Entity_manifest_request E_chat None)) 9 chat_stores no_requests)) = Some v
     \<and> v = sync_response_value plain_codec r \<and> response_private (sample_sync_env code_cmp) ''p'' chat_stores r"
proof -
  obtain m where "createEntityManifest (sample_sync_env code_cmp) E_chat None (Some ''p'') chat_stores = Some m"
    by (simp add: createEntityManifest_def Let_def filterRecordsAfterCursor_def decodeCursor_def)
  then obtain v where v: "so_response (fst (handleSyncMessage plain_codec (sample_sync_env code_cmp) (sample_trust ''p'') ''p''
      ''sync.request'' (Some ''c'') (sync_request_value (Entity_manifest_request E_chat None)) 9 chat_stores no_requests)) = Some v"
    by (simp add: handleSyncMessage_def Let_def request_reads_back_manifest answer_request_def)
  show ?thesis using chats_stay_private [OF _ v] v by blast
qed

definition answer_with :: "(string list \<Rightarrow> string list) \<Rightarrow> unit network" where
  "answer_with f req w = (case req of
     Entity_batch_request e ids \<Rightarrow> (Inr (Batch_response (emptyBatch ''q'' 2 (Some e) None None None\<lparr>sb_itemIds := Some (f ids)\<rparr>)), w)
   | _ \<Rightarrow> (Inl Timed_out, w))"

definition sample_node :: sync_node where
  "sample_node = \<lparr>yn_stores = sample_stores, yn_checkpoints = Some [], yn_trust = sample_trust ''q'', yn_events = []\<rparr>"

theorem sync_peer_ends_witness:
  "\<exists>y. performSyncPeer (sample_sync_env code_cmp) (answer_with (take 1)) ''q'' True 9 sample_node () = Some y"
proof (rule sync_peer_ends)
  show "answers_asked (answer_with (take 1))"
    unfolding answers_asked_def answer_with_def
    by (auto simp: emptyBatch_def or_else_def take_Suc split: list.splits)
qed

theorem busy_peer_witness:
  "pull_batches (sample_sync_env code_cmp) (answer_with (\<lambda>_. [''other''])) ''q'' E_post 9 [''a''] emptySyncResult emptySyncResult
     sample_node () = None"
  by (rule busy_peer) (simp_all add: other_answers_def answer_with_def emptyBatch_def or_else_def)

end
