(* ===== verification/SyncMerge.thy ===== *)
theory SyncMerge
  imports SyncProtocol_Claims "HOL-Library.Sublist"
begin

text \<open>
  Two devices that synchronise one entity: \<open>exchange\<close> joins the two sides of the protocol into a
  network, \<open>merge_rows\<close> is the reference, the table of the peer merged into the local one record by
  record with the conflict resolution, and the lemmas follow the requester page by page and batch by
  batch up to the end of a first synchronisation.
\<close>

section \<open>Two devices\<close>

text \<open>The promise of a request of \<open>env\<close>'s device: its message is handled by the peer, \<open>renv\<close>, and the
  answer, when there is one, by the device; the world is the table of the requests under way.\<close>

definition exchange ::
  "record_codec \<Rightarrow> sync_env \<Rightarrow> sync_env \<Rightarrow> trust_store \<Rightarrow> trust_store \<Rightarrow> int \<Rightarrow> sync_stores \<Rightarrow> sync_stores
     \<Rightarrow> request_table network" where
  "exchange rc env renv trust rtrust now st rst req t =
     (let (c, t1) = register_request now (se_localPeerId renv) t in
      case so_response (fst (handleSyncMessage rc renv rtrust (se_localPeerId env) ''sync.request'' (Some c)
             (sync_request_value req) now rst t1)) of
        None \<Rightarrow> (Inl Timed_out, settle_request c (Inl Timed_out) t1)
      | Some v \<Rightarrow> (let t2 = snd (handleSyncMessage rc env trust (se_localPeerId renv) ''sync.response'' (Some c)
               v now st t1) in
          case map_of (rq_settled t2) c of
            None \<Rightarrow> (Inl Timed_out, settle_request c (Inl Timed_out) t2)
          | Some outcome \<Rightarrow> (outcome, t2)))"

text \<open>The ids of the requests end in the numbers used so far.\<close>

definition numbered :: "request_table \<Rightarrow> bool" where
  "numbered t \<longleftrightarrow> (\<forall>c \<in> set (rq_pending t) \<union> fst ` set (rq_settled t).
     \<exists>now p k. c = correlation_id now p k \<and> k \<le> rq_sequence t)"

lemma digit_not_underscore: "CHR ''_'' \<notin> set (show_nat n)"
  using show_nat_digits[of n] by (auto simp: is_digit_def)


lemma correlation_id_number: "correlation_id a p k = correlation_id b q l \<Longrightarrow> k = l"
proof -
  assume eq: "correlation_id a p k = correlation_id b q l"
  have "takeWhile (\<lambda>c. c \<noteq> CHR ''_'') (rev (correlation_id n r m)) = rev (show_nat m)" for n r m
    unfolding correlation_id_def
    by (simp add: takeWhile_append) (use digit_not_underscore [of m] in auto)
  then have "rev (show_nat k) = rev (show_nat l)" using eq by metis
  then show ?thesis by (metis rev_rev_ident read_show_nat)
qed

lemma exchange_answers:
  assumes "numbered t" and "verified_peer (se_localPeerId renv) trust" and "verified_peer (se_localPeerId env) rtrust"
    and "sync_request_of (sync_request_value req) = Some req" and "response_well_formed rc r"
    and "answer_request rc renv (se_localPeerId env) req
      (Some (correlation_id now (se_localPeerId renv) (Suc (rq_sequence t)))) now rst = Inr r"
  shows "\<exists>t'. exchange rc env renv trust rtrust now st rst req t = (Inr r, t') \<and> numbered t'
    \<and> rq_sequence t' = Suc (rq_sequence t)"
proof -
  let ?c = "correlation_id now (se_localPeerId renv) (Suc (rq_sequence t))"
  let ?t1 = "t\<lparr>rq_sequence := Suc (rq_sequence t), rq_pending := set_add ?c (rq_pending t)\<rparr>"
  have reg: "register_request now (se_localPeerId renv) t = (?c, ?t1)"
    by (simp add: register_request_def Let_def)
  have fresh: "?c \<notin> fst ` set (rq_settled t)"
    using assms(1) correlation_id_number unfolding numbered_def by (metis UnI2 Suc_n_not_le_n)
  have sent: "so_response (fst (handleSyncMessage rc renv rtrust (se_localPeerId env) ''sync.request'' (Some ?c)
      (sync_request_value req) now rst ?t1)) = Some (sync_response_value rc r)"
    using assms(3,4,6) by (simp add: handleSyncMessage_def Let_def)
  let ?t2 = "settle_request ?c (Inr r) ?t1"
  have received: "snd (handleSyncMessage rc env trust (se_localPeerId renv) ''sync.response'' (Some ?c)
      (sync_response_value rc r) now st ?t1) = ?t2"
    using assms(2) response_roundtrip [OF assms(5)]
    by (simp add: handleSyncMessage_def Let_def resolvePendingResponse_def correlation_id_def)
  have settled: "rq_settled ?t2 = rq_settled t @ [(?c, Inr r)]" "rq_sequence ?t2 = Suc (rq_sequence t)"
    "set (rq_pending ?t2) \<subseteq> set (rq_pending t)"
    by (auto simp: settle_request_def set_add_def)
  have "map_of (rq_settled t) ?c = None" using fresh by (simp only: map_of_eq_None_iff not_False_eq_True)
  then have outcome: "map_of (rq_settled ?t2) ?c = Some (Inr r)"
    unfolding settled(1) map_of_append by (simp add: map_add_def)
  have "exchange rc env renv trust rtrust now st rst req t = (Inr r, ?t2)"
    unfolding exchange_def reg prod.case Let_def sent option.case received outcome by simp
  moreover have "numbered ?t2"
    unfolding numbered_def
  proof
    fix x
    assume "x \<in> set (rq_pending ?t2) \<union> fst ` set (rq_settled ?t2)"
    then consider "x = ?c" | "x \<in> set (rq_pending t) \<union> fst ` set (rq_settled t)"
      unfolding settled(1) using settled(3) by auto
    then show "\<exists>n p k. x = correlation_id n p k \<and> k \<le> rq_sequence ?t2"
    proof cases
      case 1
      then show ?thesis unfolding settled(2) by blast
    next
      case 2
      then show ?thesis unfolding settled(2) using assms(1) unfolding numbered_def by (meson le_SucI)
    qed
  qed
  ultimately show ?thesis using settled(2) by blast
qed

section \<open>Tables\<close>

definition mergeable :: "conflict_entity \<Rightarrow> bool" where
  "mergeable e \<longleftrightarrow> e = E_comment \<or> e = E_reaction \<or> e = E_follow"

definition rows :: "conflict_entity \<Rightarrow> sync_stores \<Rightarrow> data_table option" where
  "rows e st = (case e of E_post \<Rightarrow> Some (ss_posts st) | E_profile \<Rightarrow> ss_profiles st
     | E_comment \<Rightarrow> ss_comments st | E_reaction \<Rightarrow> ss_reactions st | E_follow \<Rightarrow> ss_follows st
     | E_chat \<Rightarrow> ss_chats st)"

definition with_rows :: "conflict_entity \<Rightarrow> data_table \<Rightarrow> sync_stores \<Rightarrow> sync_stores" where
  "with_rows e t st = (case e of E_post \<Rightarrow> st\<lparr>ss_posts := t\<rparr> | E_profile \<Rightarrow> st\<lparr>ss_profiles := Some t\<rparr>
     | E_comment \<Rightarrow> st\<lparr>ss_comments := Some t\<rparr> | E_reaction \<Rightarrow> st\<lparr>ss_reactions := Some t\<rparr>
     | E_follow \<Rightarrow> st\<lparr>ss_follows := Some t\<rparr> | E_chat \<Rightarrow> st\<lparr>ss_chats := Some t\<rparr>)"

lemma rows_with_rows [simp]: "rows e (with_rows e t st) = Some t"
  by (cases e) (simp_all add: rows_def with_rows_def)

lemma with_rows_twice [simp]: "with_rows e t (with_rows e u st) = with_rows e t st"
  by (cases e) (simp_all add: with_rows_def)

lemma with_same_rows: "rows e st = Some t \<Longrightarrow> with_rows e t st = st"
  by (cases e) (simp_all add: rows_def with_rows_def)

definition data_id :: "sync_data \<Rightarrow> string" where
  "data_id d = sr_id (sd_record d)"

definition keyed :: "data_table \<Rightarrow> bool" where
  "keyed t \<longleftrightarrow> distinct (jm_keys t) \<and> (\<forall>(k, d) \<in> set t. k = data_id d)"

lemma keyed_ids: "keyed t \<Longrightarrow> map data_id (jm_values t) = jm_keys t"
  unfolding keyed_def by (induction t) auto

lemma keyed_get: "keyed t \<Longrightarrow> jm_get t i = Some d \<longleftrightarrow> d \<in> set (jm_values t) \<and> data_id d = i"
  unfolding keyed_def by (force simp: jm_in_set_iff [symmetric])

text \<open>The reference: the table of the peer merged into the local one, record by record.\<close>

definition merge_row :: "sync_env \<Rightarrow> conflict_entity \<Rightarrow> int \<Rightarrow> sync_data \<Rightarrow> data_table \<Rightarrow> data_table" where
  "merge_row env e now d t = snd (apply_to_table env e False (jm_get t (data_id d)) d now t)"

definition merge_rows :: "sync_env \<Rightarrow> conflict_entity \<Rightarrow> int \<Rightarrow> sync_data list \<Rightarrow> data_table \<Rightarrow> data_table" where
  "merge_rows env e now ds t = fold (merge_row env e now) ds t"

definition merge_data :: "sync_env \<Rightarrow> conflict_entity \<Rightarrow> int \<Rightarrow> sync_data option \<Rightarrow> sync_data \<Rightarrow> sync_data option" where
  "merge_data env e now old d = (if resolveFallbackConflict (se_localeCompare env) e (map_option sd_record old)
       (sd_record d) (map_option (se_stateHash env e) old) (se_stateHash env e d) now = None
     then Some d else old)"

lemma merge_row_get:
  "jm_get (merge_row env e now d t) i = (if i = data_id d then merge_data env e now (jm_get t i) d else jm_get t i)"
  by (auto simp: merge_row_def merge_data_def apply_to_table_def data_id_def update_conv' split: option.split)

lemma merge_row_keyed: "keyed t \<Longrightarrow> keyed (merge_row env e now d t)"
  using jm_values_update_subset [of "data_id d" d t] distinct_update [of t "data_id d" d]
  by (auto simp: merge_row_def apply_to_table_def keyed_def data_id_def split: option.split)

lemma merge_rows_keyed: "keyed t \<Longrightarrow> keyed (merge_rows env e now ds t)"
  unfolding merge_rows_def by (induction ds arbitrary: t) (simp_all add: merge_row_keyed)

lemma merge_rows_other: "i \<notin> data_id ` set ds \<Longrightarrow> jm_get (merge_rows env e now ds t) i = jm_get t i"
  unfolding merge_rows_def by (induction ds arbitrary: t) (simp_all add: merge_row_get)

lemma merge_rows_get:
  "distinct (map data_id ds) \<Longrightarrow> d \<in> set ds \<Longrightarrow>
   jm_get (merge_rows env e now ds t) (data_id d) = merge_data env e now (jm_get t (data_id d)) d"
proof (induction ds arbitrary: t)
  case (Cons x ds)
  show ?case
  proof (cases "x = d")
    case True
    then have "data_id d \<notin> data_id ` set ds" using Cons.prems(1) by auto
    then have "jm_get (merge_rows env e now ds (merge_row env e now x t)) (data_id d)
        = jm_get (merge_row env e now x t) (data_id d)" by (rule merge_rows_other)
    then show ?thesis using True by (simp add: merge_rows_def merge_row_get)
  next
    case False
    then have "d \<in> set ds" using Cons.prems(2) by simp
    moreover from this have "data_id d \<noteq> data_id x" using Cons.prems(1) by (metis distinct.simps(2) image_eqI list.map(2) set_map)
    ultimately show ?thesis
      using Cons.IH [of "merge_row env e now x t"] Cons.prems(1) by (simp add: merge_rows_def merge_row_get)
  qed
qed simp

text \<open>A record is asked for when there is none here or one with another state.\<close>

definition differs_here :: "sync_env \<Rightarrow> conflict_entity \<Rightarrow> data_table \<Rightarrow> sync_data \<Rightarrow> bool" where
  "differs_here env e t d \<longleftrightarrow> (case jm_get t (data_id d) of
     None \<Rightarrow> True | Some x \<Rightarrow> se_stateHash env e d \<noteq> se_stateHash env e x)"

lemma merge_same_state:
  assumes "\<not> differs_here env e t d"
  shows "merge_row env e now d t = t"
proof -
  obtain x where x: "jm_get t (data_id d) = Some x" "se_stateHash env e d = se_stateHash env e x"
    using assms by (auto simp: differs_here_def split: option.splits)
  have "rs_action (resolveSocialConflict (se_localeCompare env) e (Some (sd_record x)) (sd_record d)
      (Some (se_stateHash env e x)) (se_stateHash env e d) now None) \<noteq> Apply"
    by (simp add: resolveSocialConflict_def x(2) reject_with_def Let_def)
  then show ?thesis
    by (simp add: merge_row_def x apply_to_table_def resolveFallbackConflict_def Let_def)
qed

lemma merge_only_differing:
  assumes "distinct (map data_id ds)" and "\<And>d. d \<in> set ds \<Longrightarrow> jm_get t (data_id d) = jm_get t0 (data_id d)"
  shows "merge_rows env e now (filter (differs_here env e t0) ds) t = merge_rows env e now ds t"
  using assms
proof (induction ds arbitrary: t)
  case (Cons x ds)
  have "data_id d \<noteq> data_id x" if "d \<in> set ds" for d
    using Cons.prems(1) that by (metis distinct.simps(2) image_eqI list.map(2) set_map)
  then have "jm_get (merge_row env e now x t) (data_id d) = jm_get t0 (data_id d)" if "d \<in> set ds" for d
    using Cons.prems(2) that by (simp add: merge_row_get)
  then have IH: "merge_rows env e now (filter (differs_here env e t0) ds) (merge_row env e now x t)
      = merge_rows env e now ds (merge_row env e now x t)"
    using Cons.IH Cons.prems(1) by simp
  have "differs_here env e t x = differs_here env e t0 x"
    using Cons.prems(2) by (simp add: differs_here_def)
  then show ?case using IH merge_same_state [of env e t x now] by (auto simp: merge_rows_def)
qed (simp add: merge_rows_def)


section \<open>Records of a table\<close>

lemma mset_records:
  assumes "mergeable e" and "rows e st = Some t"
  shows "mset (getRecordsForEntity env e a st) = mset (map (to_record env e) (jm_values t))"
proof -
  have none: "filter_mset (\<lambda>r. ry_entity r = g) (mset (map (to_record env f) xs)) = {#}" if "f \<noteq> g" for f g xs
    using that by (induction xs) simp_all
  have all: "filter_mset (\<lambda>r. ry_entity r = g) (mset (map (to_record env g) xs)) = mset (map (to_record env g) xs)" for g xs
    by (induction xs) simp_all
  show ?thesis
    using assms unfolding mergeable_def getRecordsForEntity_def getAllRecords_def mset_filter mset_js_sort mset_append
    by (auto simp add: rows_def table_values_def none all simp del: mset_map map_map list.map_comp)
qed

lemma records_set:
  assumes "mergeable e" and "rows e st = Some t"
  shows "set (getRecordsForEntity env e a st) = to_record env e ` set (jm_values t)"
proof -
  have "set_mset (mset (getRecordsForEntity env e a st)) = set_mset (mset (map (to_record env e) (jm_values t)))"
    using mset_records [OF assms] by metis
  then show ?thesis by (simp only: set_mset_mset set_map)
qed

lemma record_data: "r \<in> to_record env e ` D \<Longrightarrow> r = to_record env e (ry_data r) \<and> ry_data r \<in> D"
  by auto

lemma records_ids:
  assumes "mergeable e" and "rows e st = Some t" and "keyed t"
  shows "distinct (map ry_id (getRecordsForEntity env e a st))"
proof -
  have "mset (map ry_id (getRecordsForEntity env e a st)) = mset (map ry_id (map (to_record env e) (jm_values t)))"
    using mset_records [OF assms(1,2), of env a] by (metis mset_map)
  also have "map ry_id (map (to_record env e) (jm_values t)) = jm_keys t"
    using keyed_ids [OF assms(3)] by (simp add: o_def data_id_def)
  finally show ?thesis using assms(3) by (metis keyed_def mset_eq_imp_distinct_iff)
qed

lemma differs_locally_table:
  assumes "mergeable e" and "rows e st = Some t" and "keyed t" and "se_stateHash renv = se_stateHash env"
  shows "differs_locally (getRecordsForEntity env e a st) (toManifestItem (to_record renv e d)) = differs_here env e t d"
proof -
  let ?rs = "getRecordsForEntity env e a st"
  have set: "set ?rs = to_record env e ` set (jm_values t)" by (rule records_set [OF assms(1,2)])
  show ?thesis
  proof (cases "jm_get t (data_id d)")
    case None
    then have "data_id d \<notin> set (jm_keys t)" by (simp add: map_of_eq_None_iff)
    then have "data_id d \<notin> ry_id ` set ?rs"
      unfolding set keyed_ids [OF assms(3), symmetric] image_image set_map [symmetric] by (simp add: data_id_def)
    then have "map_of (rev (map (\<lambda>r. (ry_id r, r)) ?rs)) (data_id d) = None"
      by (auto simp: map_of_eq_None_iff image_image)
    then show ?thesis using None by (simp add: differs_locally_def differs_here_def toManifestItem_def data_id_def)
  next
    case (Some x)
    then have x: "x \<in> set (jm_values t)" "data_id x = data_id d" using keyed_get [OF assms(3)] by blast+
    then have "to_record env e x \<in> set ?rs" unfolding set by blast
    then have "map_of (rev (map (\<lambda>r. (ry_id r, r)) ?rs)) (ry_id (to_record env e x)) = Some (to_record env e x)"
      by (rule map_of_ids [OF records_ids [OF assms(1-3)]])
    then show ?thesis
      using x(2) Some by (simp add: differs_locally_def differs_here_def toManifestItem_def data_id_def
          to_record_def assms(4))
  qed
qed

section \<open>Applying the records of one table\<close>

lemma apply_record_table:
  assumes "mergeable e" and "se_service env = None" and "rows e st = Some t"
  shows "\<exists>r. apply_record env e p d now st = (Inr r, with_rows e (merge_row env e now d t) st)"
  using assms unfolding mergeable_def
  by (auto simp: apply_record_def rows_def with_rows_def apply_optional_def merge_row_def data_id_def case_prod_beta Let_def)

lemma apply_all_table:
  assumes "mergeable e" and "se_service env = None" and "rows e (as_stores s) = Some t"
  shows "\<exists>s'. apply_all env p strict now (map (Pair e) ds) s = (None, s')
    \<and> as_stores s' = with_rows e (merge_rows env e now ds t) (as_stores s) \<and> as_events s' = as_events s"
  using assms(3)
proof (induction ds arbitrary: s t)
  case Nil
  then show ?case by (simp add: merge_rows_def with_same_rows)
next
  case (Cons d ds)
  let ?st = "with_rows e (merge_row env e now d t) (as_stores s)"
  obtain r where r: "apply_record env e p d now (as_stores s) = (Inr r, ?st)"
    using apply_record_table [OF assms(1,2) Cons.prems] by blast
  let ?s = "count_result r (s\<lparr>as_stores := ?st\<rparr>)"
  have "as_stores ?s = ?st" "as_events ?s = as_events s" by (simp_all add: count_result_def)
  then show ?case
    using Cons.IH [of ?s "merge_row env e now d t"] by (simp add: applySafely_def r merge_rows_def)
qed

lemma apply_batch_table:
  assumes "mergeable e" and "se_service env = None" and "rows e (yn_stores n) = Some t"
    and "sb_version b = 2" and "batch_items b = map (Pair e) ds"
  shows "\<exists>r n'. apply_to_node env p b now n = (Inr r, n')
    \<and> yn_stores n' = with_rows e (merge_rows env e now ds t) (yn_stores n)
    \<and> yn_checkpoints n' = yn_checkpoints n \<and> yn_trust n' = yn_trust n"
proof -
  obtain s' where s': "apply_all env p True now (map (Pair e) ds)
      \<lparr>as_stores = yn_stores n, as_applied = 0, as_skipped = 0, as_events = []\<rparr> = (None, s')"
    "as_stores s' = with_rows e (merge_rows env e now ds t) (yn_stores n)" "as_events s' = []"
    using apply_all_table [OF assms(1,2), of "\<lparr>as_stores = yn_stores n, as_applied = 0, as_skipped = 0, as_events = []\<rparr>" t]
      assms(3) by fastforce
  show ?thesis
    using s' by (auto simp: apply_to_node_def applyBatch_def assms(4,5))
qed

section \<open>What the peer sends\<close>

lemma subseq_set: "subseq xs ys \<Longrightarrow> set xs \<subseteq> set ys"
  by (induction rule: list_emb.induct) auto

lemma filter_subseq: "subseq ms rs \<Longrightarrow> distinct (map f rs) \<Longrightarrow> filter (\<lambda>r. f r \<in> f ` set ms) rs = ms"
proof (induction rule: list_emb.induct)
  case (list_emb_Nil ys)
  then show ?case by simp
next
  case (list_emb_Cons xs ys y)
  have "f y \<notin> f ` set xs" using subseq_set [OF list_emb_Cons.hyps] list_emb_Cons.prems by auto
  then show ?case using list_emb_Cons.IH list_emb_Cons.prems by simp
next
  case (list_emb_Cons2 x y xs ys)
  have x: "f x \<notin> f ` set ys" using list_emb_Cons2.hyps(1) list_emb_Cons2.prems by simp
  have same: "f r \<in> f ` set (x # xs) \<longleftrightarrow> f r \<in> f ` set xs" if "r \<in> set ys" for r
  proof -
    have "f r \<in> f ` set ys" using that by (rule imageI)
    then have "f r \<noteq> f x" using x by metis
    then show ?thesis by simp
  qed
  have "filter (\<lambda>r. f r \<in> f ` set (x # xs)) ys = filter (\<lambda>r. f r \<in> f ` set xs) ys"
    by (rule filter_cong [OF refl same])
  then show ?case using list_emb_Cons2.hyps(1) list_emb_Cons2.IH list_emb_Cons2.prems by simp
qed

lemma filter_not_taken:
  assumes "distinct xs"
  shows "filter (\<lambda>x. x \<notin> set (take j xs)) xs = drop j xs"
proof -
  have disj: "set (take j xs) \<inter> set (drop j xs) = {}" using assms by (simp add: set_take_disj_set_drop_if_distinct)
  have "filter (\<lambda>x. x \<notin> set (take j xs)) (take j xs) = []" by (simp add: filter_empty_conv)
  moreover have "filter (\<lambda>x. x \<notin> set (take j xs)) (drop j xs) = drop j xs"
    using disj by (intro filter_True) blast
  ultimately show ?thesis by (metis append_Nil append_take_drop_id filter_append)
qed

lemma batch_of_records:
  assumes "mergeable e" and "rows e rst = Some t" and "keyed t"
    and "subseq ms (getRecordsForEntity renv e a rst)" and "length ms \<le> se_batchSize renv"
  shows "sb_version (createEntityBatch renv e (map ry_id ms) a rst) = 2"
    and "sb_entity (createEntityBatch renv e (map ry_id ms) a rst) = Some e"
    and "sb_itemIds (createEntityBatch renv e (map ry_id ms) a rst) = Some (map ry_id ms)"
    and "batch_items (createEntityBatch renv e (map ry_id ms) a rst) = map (Pair e) (map ry_data ms)"
proof -
  let ?rs = "getRecordsForEntity renv e a rst"
  have f: "filter (\<lambda>r. ry_id r \<in> ry_id ` set ms) ?rs = ms"
    by (rule filter_subseq [OF assms(4) records_ids [OF assms(1-3)]])
  have ent: "\<forall>r \<in> set ms. ry_entity r = e"
    using subseq_set [OF assms(4)] by (auto simp: getRecordsForEntity_def)
  then have "data_of e ms = map ry_data ms" by (simp add: data_of_def)
  moreover have "data_of g ms = []" if "g \<noteq> e" for g
    using ent that by (auto simp: data_of_def filter_empty_conv)
  ultimately show "batch_items (createEntityBatch renv e (map ry_id ms) a rst) = map (Pair e) (map ry_data ms)"
    using assms(1) unfolding mergeable_def
    by (auto simp: batch_items_def createEntityBatch_def createBatchFromRecords_def or_else_def Let_def
        assms(5) f)
  show "sb_itemIds (createEntityBatch renv e (map ry_id ms) a rst) = Some (map ry_id ms)"
    by (simp add: createEntityBatch_def createBatchFromRecords_def Let_def assms(5) f)
qed (simp_all add: createEntityBatch_def createBatchFromRecords_def Let_def)


text \<open>Every batch of records can be serialised, and a single one fits a message.\<close>

definition sendable ::
  "record_codec \<Rightarrow> sync_env \<Rightarrow> string \<Rightarrow> conflict_entity \<Rightarrow> string \<Rightarrow> int \<Rightarrow> sync_stores \<Rightarrow> bool" where
  "sendable rc renv me e c now rst \<longleftrightarrow>
     (\<forall>ids. ids \<noteq> [] \<and> set ids \<subseteq> ry_id ` set (getRecordsForEntity renv e (Some me) rst) \<longrightarrow>
       (\<exists>f. fitsNetworkLimit rc (se_localPeerId renv) (Some c) now (createEntityBatch renv e ids (Some me) rst) = Some f
          \<and> (length ids = 1 \<longrightarrow> f)))"

lemma sized_prefix:
  assumes "sendable rc renv me e c now rst" and "ids \<noteq> []"
    and "set ids \<subseteq> ry_id ` set (getRecordsForEntity renv e (Some me) rst)"
  shows "\<exists>j. 0 < j \<and> j \<le> length ids
    \<and> sized_entity rc renv me e (Some c) now rst ids = Inr (createEntityBatch renv e (take j ids) (Some me) rst)"
  using assms(2,3)
proof (induction "length ids" arbitrary: ids rule: less_induct)
  case less
  obtain f where f: "fitsNetworkLimit rc (se_localPeerId renv) (Some c) now (createEntityBatch renv e ids (Some me) rst) = Some f"
    "length ids = 1 \<longrightarrow> f"
    using assms(1) less.prems unfolding sendable_def by blast
  show ?case
  proof (cases f)
    case True
    then show ?thesis using f(1) less.prems(1) by (subst sized_entity.simps) (auto intro: exI [of _ "length ids"])
  next
    case False
    let ?m = "max 1 (length ids div 2)"
    have len: "2 \<le> length ids" using less.prems(1) f(2) False by (cases ids) (auto simp: Suc_le_eq)
    then have "?m < length ids" "0 < ?m" by auto
    then have shorter: "length (take ?m ids) < length ids" "take ?m ids \<noteq> []" using less.prems(1) by auto
    obtain j where j: "0 < j" "j \<le> length (take ?m ids)"
      "sized_entity rc renv me e (Some c) now rst (take ?m ids)
        = Inr (createEntityBatch renv e (take j (take ?m ids)) (Some me) rst)"
      using less.hyps [OF shorter] less.prems(2) set_take_subset [of ?m ids] by blast
    have "j \<le> ?m" "j \<le> length ids" using j(2) by (simp_all only: length_take min.bounded_iff)
    then have "take j (take ?m ids) = take j ids" by (simp only: take_take min_absorb1)
    moreover have "sized_entity rc renv me e (Some c) now rst ids = sized_entity rc renv me e (Some c) now rst (take ?m ids)"
      using f(1) False len less.prems(1) by (subst sized_entity.simps) auto
    ultimately show ?thesis using j \<open>j \<le> length ids\<close> by metis
  qed
qed

section \<open>A synchronisation of one entity\<close>

text \<open>Two devices that run the same code without the social application service, trust each other, and
  whose messages pass; \<open>limit\<close> bounds the numbers of the requests.\<close>

definition can_sync ::
  "record_codec \<Rightarrow> sync_env \<Rightarrow> sync_env \<Rightarrow> trust_store \<Rightarrow> trust_store \<Rightarrow> conflict_entity \<Rightarrow> int \<Rightarrow> sync_stores
     \<Rightarrow> data_table \<Rightarrow> nat \<Rightarrow> bool" where
  "can_sync rc env renv trust rtrust e now rst rt limit \<longleftrightarrow> mergeable e \<and> se_service env = None
     \<and> se_stateHash renv = se_stateHash env
     \<and> verified_peer (se_localPeerId renv) trust \<and> verified_peer (se_localPeerId env) rtrust
     \<and> rows e rst = Some rt \<and> keyed rt
     \<and> (\<forall>d \<in> set (jm_values rt). data_id d \<noteq> [] \<and> rc_read rc e (rc_write rc e d) = d)
     \<and> comparator (se_localeCompare renv)
     \<and> (\<forall>x \<in> set (jm_keys rt). \<forall>y \<in> set (jm_keys rt). se_localeCompare renv x y \<le> 0 \<longrightarrow> code_cmp x y \<le> 0)
     \<and> 0 < se_batchSize renv \<and> se_batchSize renv \<le> 50
     \<and> (\<forall>k \<le> limit. sendable rc renv (se_localPeerId env) e (correlation_id now (se_localPeerId renv) k) now rst)"

text \<open>The records of the peer, in the order of the pages.\<close>

definition peer_records :: "sync_env \<Rightarrow> sync_env \<Rightarrow> conflict_entity \<Rightarrow> sync_stores \<Rightarrow> sync_record list" where
  "peer_records env renv e rst = getRecordsForEntity renv e (Some (se_localPeerId env)) rst"

lemma peer_records_set:
  assumes "can_sync rc env renv trust rtrust e now rst rt limit"
  shows "set (peer_records env renv e rst) = to_record renv e ` set (jm_values rt)"
    and "distinct (map ry_id (peer_records env renv e rst))"
    and "r \<in> set (peer_records env renv e rst) \<Longrightarrow> ry_id r \<noteq> []"
    and "sorted_wrt before (peer_records env renv e rst)"
    and "map ry_id (peer_records env renv e rst) = map data_id (map ry_data (peer_records env renv e rst))"
proof -
  note c = assms [unfolded can_sync_def]
  show set: "set (peer_records env renv e rst) = to_record renv e ` set (jm_values rt)"
    unfolding peer_records_def using c by (intro records_set) auto
  show dist: "distinct (map ry_id (peer_records env renv e rst))"
    unfolding peer_records_def using c by (intro records_ids) auto
  have id: "ry_id r = data_id (ry_data r)" "data_id (ry_data r) \<in> set (jm_keys rt)" "data_id (ry_data r) \<noteq> []"
    if "r \<in> set (peer_records env renv e rst)" for r
  proof -
    have "r \<in> to_record renv e ` set (jm_values rt)" using that unfolding set .
    then obtain d where d: "r = to_record renv e d" "d \<in> set (jm_values rt)" by (rule imageE)
    have k: "set (map data_id (jm_values rt)) = set (jm_keys rt)" using c keyed_ids by metis
    show "ry_id r = data_id (ry_data r)" using d by (simp add: data_id_def)
    show "data_id (ry_data r) \<in> set (jm_keys rt)" unfolding k [symmetric] set_map [of data_id] using d by (auto simp del: set_map)
    have "data_id d \<noteq> []" using c d(2) by blast
    then show "data_id (ry_data r) \<noteq> []" using d(1) by simp
  qed
  then show "r \<in> set (peer_records env renv e rst) \<Longrightarrow> ry_id r \<noteq> []" by metis
  show "map ry_id (peer_records env renv e rst) = map data_id (map ry_data (peer_records env renv e rst))"
    using id(1) by simp
  show "sorted_wrt before (peer_records env renv e rst)"
    unfolding peer_records_def
  proof (rule records_strictly_sorted)
    show "comparator (se_localeCompare renv)" using c by blast
    show "distinct (map ry_id (getRecordsForEntity renv e (Some (se_localPeerId env)) rst))"
      using dist unfolding peer_records_def .
    show "\<forall>l \<in> set (getRecordsForEntity renv e (Some (se_localPeerId env)) rst).
      \<forall>r \<in> set (getRecordsForEntity renv e (Some (se_localPeerId env)) rst).
        se_localeCompare renv (ry_id l) (ry_id r) \<le> 0 \<longrightarrow> code_cmp (ry_id l) (ry_id r) \<le> 0"
      using c id unfolding peer_records_def by metis
  qed
qed

lemma pull_records:
  assumes "can_sync rc env renv trust rtrust e now rst rt limit"
    and "subseq ms (peer_records env renv e rst)" and "length ms \<le> se_batchSize renv"
    and "rows e (yn_stores n) = Some t" and "numbered w" and "rq_sequence w + length ms \<le> limit"
  shows "\<exists>page' acc' n' w'. pull_batches env (exchange rc env renv trust rtrust now st rst) (se_localPeerId renv) e now
      (map ry_id ms) page acc n w = Some (Inr (page', acc'), n', w')
    \<and> yn_stores n' = with_rows e (merge_rows env e now (map ry_data ms) t) (yn_stores n)
    \<and> yn_checkpoints n' = yn_checkpoints n \<and> yn_trust n' = yn_trust n
    \<and> numbered w' \<and> rq_sequence w' \<le> rq_sequence w + length ms"
  using assms(2-)
proof (induction "length ms" arbitrary: ms page acc n t w rule: less_induct)
  case less
  note c = assms(1) [unfolded can_sync_def]
  let ?rs = "peer_records env renv e rst" and ?net = "exchange rc env renv trust rtrust now st rst"
  show ?case
  proof (cases "ms = []")
    case True
    then show ?thesis
      using less.prems by (subst pull_batches.simps) (simp add: merge_rows_def with_same_rows)
  next
    case False
    let ?c = "correlation_id now (se_localPeerId renv) (Suc (rq_sequence w))"
    have ids: "set (map ry_id ms) \<subseteq> ry_id ` set ?rs" using subseq_set [OF less.prems(1)] by auto
    have "sendable rc renv (se_localPeerId env) e ?c now rst" using c less.prems(5) False by (cases ms) auto
    then obtain j where j: "0 < j" "j \<le> length ms"
      "sized_entity rc renv (se_localPeerId env) e (Some ?c) now rst (map ry_id ms)
        = Inr (createEntityBatch renv e (take j (map ry_id ms)) (Some (se_localPeerId env)) rst)"
      using sized_prefix ids False unfolding peer_records_def by (metis length_map map_is_Nil_conv)
    let ?b = "createEntityBatch renv e (map ry_id (take j ms)) (Some (se_localPeerId env)) rst"
    have sub: "subseq (take j ms) (getRecordsForEntity renv e (Some (se_localPeerId env)) rst)"
      using less.prems(1) unfolding peer_records_def by (meson prefix_imp_subseq subseq_order.trans take_is_prefix)
    have mrk: "mergeable e" "rows e rst = Some rt" "keyed rt" using c by blast+
    have len: "length (take j ms) \<le> se_batchSize renv" using less.prems(2) by simp
    note b = batch_of_records [OF mrk sub len]
    have data: "ry_data r \<in> set (jm_values rt)" "ry_id r \<noteq> []" if "r \<in> set ms" for r
    proof -
      have r: "r \<in> set ?rs" using that subseq_set [OF less.prems(1)] by blast
      show "ry_id r \<noteq> []" by (rule peer_records_set(3) [OF assms(1) r])
      show "ry_data r \<in> set (jm_values rt)"
        using r record_data [of r renv e "set (jm_values rt)"] unfolding peer_records_set(1) [OF assms(1)] by blast
    qed
    have "batch_well_formed rc ?b"
    proof -
      have "ry_id r \<noteq> [] \<and> rc_read rc e (rc_write rc e (ry_data r)) = ry_data r" if "r \<in> set (take j ms)" for r
        using data [OF in_set_takeD [OF that]] c by blast
      then show ?thesis unfolding batch_well_formed_def b by (auto) (metis)
    qed
    moreover have "sync_request_of (sync_request_value (Entity_batch_request e (map ry_id ms)))
        = Some (Entity_batch_request e (map ry_id ms))"
    proof (rule request_reads_back_batch)
      show "length (map ry_id ms) \<le> 50" using less.prems(2) c by simp
      show "[] \<notin> set (map ry_id ms)" using data(2) by (metis imageE set_map)
    qed
    moreover have "answer_request rc renv (se_localPeerId env) (Entity_batch_request e (map ry_id ms)) (Some ?c) now rst
        = Inr (Batch_response ?b)"
      using j(3) less.prems(2) c by (simp add: answer_request_def createSizedEntityBatch_def take_map)
    ultimately obtain w1 where w1: "?net (Entity_batch_request e (map ry_id ms)) w = (Inr (Batch_response ?b), w1)"
      "numbered w1" "rq_sequence w1 = Suc (rq_sequence w)"
      using exchange_answers [OF less.prems(4), of renv trust env rtrust "Entity_batch_request e (map ry_id ms)" rc "Batch_response ?b" now rst st] c
      by auto
    have req: "requestEntityBatch ?net e (map ry_id ms) w = (Inr ?b, w1)"
      by (simp add: requestEntityBatch_def w1(1) b)
    obtain r n1 where n1: "apply_to_node env (se_localPeerId renv) ?b now n = (Inr r, n1)"
      "yn_stores n1 = with_rows e (merge_rows env e now (map ry_data (take j ms)) t) (yn_stores n)"
      "yn_checkpoints n1 = yn_checkpoints n" "yn_trust n1 = yn_trust n"
      using apply_batch_table [OF mrk(1) _ less.prems(3) b(1,4)] c by blast
    have "distinct (map ry_id ms)"
      using peer_records_set(2) [OF assms(1)] filter_subseq [OF less.prems(1), of ry_id] by (metis distinct_map_filter)
    then have rest: "filter (\<lambda>i. i \<notin> set (map ry_id (take j ms))) (map ry_id ms) = map ry_id (drop j ms)"
      unfolding take_map [symmetric] drop_map [symmetric] by (rule filter_not_taken)
    have "\<exists>page' acc' n' w'. pull_batches env ?net (se_localPeerId renv) e now
      (map ry_id (drop j ms)) (mergeSyncResults page r) (mergeSyncResults acc r) n1 w1 = Some (Inr (page', acc'), n', w')
      \<and> yn_stores n' = with_rows e (merge_rows env e now (map ry_data (drop j ms))
          (merge_rows env e now (map ry_data (take j ms)) t)) (yn_stores n1)
      \<and> yn_checkpoints n' = yn_checkpoints n1 \<and> yn_trust n' = yn_trust n1
      \<and> numbered w' \<and> rq_sequence w' \<le> rq_sequence w1 + length (drop j ms)"
    proof (rule less.hyps)
      show "length (drop j ms) < length ms" using j(1) False by simp
      show "subseq (drop j ms) ?rs"
        using less.prems(1) by (meson suffix_imp_subseq subseq_order.trans suffix_drop)
    qed (use less.prems j n1 w1 in auto)
    moreover have "merge_rows env e now (map ry_data (drop j ms)) (merge_rows env e now (map ry_data (take j ms)) t)
        = merge_rows env e now (map ry_data ms) t"
      unfolding merge_rows_def by (metis append_take_drop_id comp_apply fold_append map_append)
    ultimately show ?thesis
      using req n1 rest b(3) False j w1(3)
      by (subst pull_batches.simps) (auto simp: or_else_def)
  qed
qed


text \<open>Two pages that start at the same cursor and have as many items and the same hash, but different items.\<close>

definition page_collision ::
  "sync_env \<Rightarrow> sync_env \<Rightarrow> conflict_entity \<Rightarrow> sync_stores \<Rightarrow> string option \<Rightarrow> sync_stores \<Rightarrow> bool" where
  "page_collision env renv e rst cursor st \<longleftrightarrow>
     (case (createEntityManifest renv e cursor (Some (se_localPeerId env)) rst,
            createEntityManifest env e cursor (Some (se_localPeerId env)) st) of
        (Some m, Some lm) \<Rightarrow> em_rangeHash lm = em_rangeHash m \<and> length (sm_items lm) = length (sm_items m)
          \<and> map (\<lambda>i. (mf_id i, mf_stateHash i)) (sm_items lm) \<noteq> map (\<lambda>i. (mf_id i, mf_stateHash i)) (sm_items m)
      | _ \<Rightarrow> False)"

text \<open>The stores after the first \<open>k\<close> records of the peer.\<close>

definition stores_after ::
  "sync_env \<Rightarrow> sync_env \<Rightarrow> conflict_entity \<Rightarrow> int \<Rightarrow> sync_stores \<Rightarrow> data_table \<Rightarrow> sync_stores \<Rightarrow> nat \<Rightarrow> sync_stores" where
  "stores_after env renv e now rst t st k =
     with_rows e (merge_rows env e now (map ry_data (take k (peer_records env renv e rst))) t) st"

lemma manifest_at:
  assumes "can_sync rc env renv trust rtrust e now rst rt limit" and "k \<le> length (peer_records env renv e rst)"
  shows "createEntityManifest renv e (cursor_at (peer_records env renv e rst) k) (Some (se_localPeerId env)) rst =
    Some (let page = take (se_batchSize renv) (drop k (peer_records env renv e rst)) in
      \<lparr>sm_peerId = se_localPeerId renv, sm_cursor = cursor_at (peer_records env renv e rst) k,
       sm_nextCursor = next_cursor page (cursor_at (peer_records env renv e rst) k),
       sm_hasMore = (k + se_batchSize renv < length (peer_records env renv e rst)),
       sm_items = map toManifestItem page, em_entity = e,
       em_rootHash = hashManifestRecords (peer_records env renv e rst),
       em_rangeHash = hashManifestRecords page, em_totalItems = length (peer_records env renv e rst)\<rparr>)"
proof -
  have "filterRecordsAfterCursor renv (peer_records env renv e rst) (cursor_at (peer_records env renv e rst) k)
      = Some (drop k (peer_records env renv e rst))"
    using peer_records_set [OF assms(1)] assms(2) by (intro filter_at) auto
  then show ?thesis
    unfolding peer_records_def by (auto simp: createEntityManifest_def Let_def)
qed

lemma request_manifest_at:
  assumes "can_sync rc env renv trust rtrust e now rst rt limit" and "k \<le> length (peer_records env renv e rst)"
    and "numbered w"
    and "createEntityManifest renv e (cursor_at (peer_records env renv e rst) k) (Some (se_localPeerId env)) rst = Some m"
  shows "\<exists>w'. requestEntityManifest (exchange rc env renv trust rtrust now st rst) e
      (cursor_at (peer_records env renv e rst) k) w = (Inr m, w') \<and> numbered w' \<and> rq_sequence w' = Suc (rq_sequence w)"
proof -
  note c = assms(1) [unfolded can_sync_def]
  have m: "em_entity m = e" "isManifestRangeValid m"
    using assms(4) unfolding manifest_at [OF assms(1,2)]
    by (auto simp: Let_def isManifestRangeValid_def hashManifestRecords_def)
  have page: "sm_items m = map toManifestItem (take (se_batchSize renv) (drop k (peer_records env renv e rst)))"
    using assms(4) unfolding manifest_at [OF assms(1,2)] by (auto simp: Let_def)
  have "ry_entity r = e" if "r \<in> set (peer_records env renv e rst)" for r
    using that by (simp add: peer_records_def getRecordsForEntity_def)
  then have "\<forall>i \<in> set (sm_items m). mf_entity i = em_entity m"
    unfolding page m(1) by (auto simp: toManifestItem_def dest!: in_set_takeD in_set_dropD)
  then have wf: "response_well_formed rc (Entity_manifest_response m)" by simp
  obtain w' where "exchange rc env renv trust rtrust now st rst (Entity_manifest_request e
      (cursor_at (peer_records env renv e rst) k)) w = (Inr (Entity_manifest_response m), w')"
    "numbered w'" "rq_sequence w' = Suc (rq_sequence w)"
    using exchange_answers [OF assms(3) _ _ request_reads_back_manifest wf, of renv trust env rtrust e
        "cursor_at (peer_records env renv e rst) k" now rst st] c assms(4)
    by (auto simp: answer_request_def)
  then show ?thesis using m by (auto simp: requestEntityManifest_def)
qed

lemma cursor_at_truthy: "truthy (cursor_at rs k) \<longleftrightarrow> k \<noteq> 0"
  by (simp add: truthy_def cursor_at_def encodeCursor_def)

lemma cursor_at_inj:
  assumes "distinct (map ry_id rs)" and "\<And>r. r \<in> set rs \<Longrightarrow> ry_id r \<noteq> []" and "j \<le> length rs" and "k < j"
  shows "cursor_at rs j \<noteq> cursor_at rs k"
proof (cases k)
  case 0
  then show ?thesis using assms(4) by (simp add: cursor_at_def)
next
  case (Suc l)
  have "ry_id (rs ! l) \<noteq> []" "ry_id (rs ! (j - 1)) \<noteq> []" using assms(2-4) Suc by simp_all
  moreover have "ry_id (rs ! l) \<noteq> ry_id (rs ! (j - 1))"
    using assms(1,3,4) Suc nth_eq_iff_index_eq [of "map ry_id rs" l "j - 1"] by simp
  ultimately have "decodeCursor undefined (cursor_at rs j) \<noteq> decodeCursor undefined (cursor_at rs k)"
    using assms(4) Suc by (simp add: cursor_at_def decode_encode_cursor)
  then show ?thesis by auto
qed


lemma rows_after: "rows e (stores_after env renv e now rst t st k)
    = Some (merge_rows env e now (map ry_data (take k (peer_records env renv e rst))) t)"
  by (simp add: stores_after_def)

lemma missing_at:
  assumes "can_sync rc env renv trust rtrust e now rst rt limit" and "k \<le> length (peer_records env renv e rst)"
    and "keyed t"
    and "createEntityManifest renv e (cursor_at (peer_records env renv e rst) k) (Some (se_localPeerId env)) rst = Some m"
    and "\<not> page_collision env renv e rst (cursor_at (peer_records env renv e rst) k) (stores_after env renv e now rst t st k)"
  shows "findMissingManifestItems env m None (stores_after env renv e now rst t st k) = Some (map toManifestItem
    (filter (\<lambda>r. differs_here env e (merge_rows env e now (map ry_data (take k (peer_records env renv e rst))) t) (ry_data r))
      (take (se_batchSize renv) (drop k (peer_records env renv e rst)))))"
proof -
  note c = assms(1) [unfolded can_sync_def]
  let ?rs = "peer_records env renv e rst" and ?st = "stores_after env renv e now rst t st k"
  let ?T = "merge_rows env e now (map ry_data (take k ?rs)) t"
  let ?page = "take (se_batchSize renv) (drop k ?rs)"
  have m: "em_entity m = e" "sm_cursor m = cursor_at ?rs k" "sm_items m = map toManifestItem ?page"
    using assms(4) unfolding manifest_at [OF assms(1,2)] by (auto simp: Let_def)
  have T: "keyed ?T" "rows e ?st = Some ?T" using assms(3) by (simp_all add: merge_rows_keyed rows_after)
  have "\<exists>xs. filterRecordsAfterCursor env (getRecordsForEntity env e (Some (se_localPeerId env)) ?st) (cursor_at ?rs k) = Some xs"
  proof (cases "k = 0")
    case True
    then show ?thesis by (simp add: cursor_at_def filterRecordsAfterCursor_def decodeCursor_def)
  next
    case False
    then have "ry_id (?rs ! (k - 1)) \<noteq> []" using assms(2) peer_records_set(3) [OF assms(1)] by simp
    then show ?thesis using False by (simp add: cursor_at_def filterRecordsAfterCursor_def decode_encode_cursor)
  qed
  then obtain lm where lm: "createEntityManifest env e (cursor_at ?rs k) (Some (se_localPeerId env)) ?st = Some lm"
    by (auto simp: createEntityManifest_def Let_def)
  have me: "Some (or_else None (se_localPeerId env)) = Some (se_localPeerId env)" by (simp add: or_else_def)
  have "findMissingManifestItems env m None ?st = Some (filter (differs_locally
      (getRecordsForEntity env (em_entity m) (Some (or_else None (se_localPeerId env))) ?st)) (sm_items m))"
  proof (rule missing_items_filter)
    show "createEntityManifest env (em_entity m) (sm_cursor m) (Some (or_else None (se_localPeerId env))) ?st = Some lm"
      using lm by (simp only: m me)
    show "em_rangeHash lm = em_rangeHash m \<and> length (sm_items lm) = length (sm_items m) \<longrightarrow>
         map (\<lambda>i. (mf_id i, mf_stateHash i)) (sm_items lm) = map (\<lambda>i. (mf_id i, mf_stateHash i)) (sm_items m)"
      using assms(5) unfolding page_collision_def assms(4) lm by auto
    show "distinct (map ry_id (getRecordsForEntity env (em_entity m) (Some (or_else None (se_localPeerId env))) ?st))"
      unfolding m me using c T by (intro records_ids [where t = ?T]) auto
  qed
  also have "filter (differs_locally (getRecordsForEntity env (em_entity m) (Some (or_else None (se_localPeerId env))) ?st))
      (sm_items m) = map toManifestItem (filter (\<lambda>r. differs_here env e ?T (ry_data r)) ?page)"
  proof -
    have "differs_locally (getRecordsForEntity env e (Some (se_localPeerId env)) ?st) (toManifestItem r)
        = differs_here env e ?T (ry_data r)" if "r \<in> set ?page" for r
    proof -
      have "r \<in> set ?rs" using that by (blast dest: in_set_takeD in_set_dropD)
      then have "r = to_record renv e (ry_data r)"
        unfolding peer_records_set(1) [OF assms(1)] using record_data by blast
      moreover have "differs_locally (getRecordsForEntity env e (Some (se_localPeerId env)) ?st)
          (toManifestItem (to_record renv e (ry_data r))) = differs_here env e ?T (ry_data r)"
        using c T by (intro differs_locally_table) auto
      ultimately show ?thesis by metis
    qed
    then show ?thesis unfolding m me filter_map by (auto intro!: arg_cong [where f = "map toManifestItem"] filter_cong)
  qed
  finally show ?thesis .
qed

lemma page_merged:
  assumes "can_sync rc env renv trust rtrust e now rst rt limit" and "subseq page (peer_records env renv e rst)"
  shows "merge_rows env e now (map ry_data (filter (\<lambda>r. differs_here env e T (ry_data r)) page)) T
      = merge_rows env e now (map ry_data page) T"
proof -
  have "distinct (map ry_id page)"
    using peer_records_set(2) [OF assms(1)] filter_subseq [OF assms(2), of ry_id] by (metis distinct_map_filter)
  moreover have "map ry_id page = map data_id (map ry_data page)"
  proof -
    have "ry_id r = data_id (ry_data r)" if "r \<in> set (peer_records env renv e rst)" for r
      using that unfolding peer_records_set(1) [OF assms(1)] by (auto simp: data_id_def)
    then show ?thesis using subseq_set [OF assms(2)] by auto
  qed
  ultimately have "distinct (map data_id (map ry_data page))" by simp
  then have "merge_rows env e now (filter (differs_here env e T) (map ry_data page)) T
      = merge_rows env e now (map ry_data page) T"
    by (rule merge_only_differing) simp
  then show ?thesis by (simp add: filter_map o_def)
qed

lemma stores_after_page:
  "with_rows e (merge_rows env e now (map ry_data (take b (drop k (peer_records env renv e rst))))
      (merge_rows env e now (map ry_data (take k (peer_records env renv e rst))) t)) (stores_after env renv e now rst t st k)
    = stores_after env renv e now rst t st (k + b)"
proof -
  have "take (k + b) (peer_records env renv e rst) = take k (peer_records env renv e rst) @ take b (drop k (peer_records env renv e rst))"
    by (rule take_add)
  then show ?thesis by (simp add: stores_after_def merge_rows_def)
qed

text \<open>From a page boundary on.\<close>

lemma sync_from:
  assumes "can_sync rc env renv trust rtrust e now rst rt limit" and "keyed t"
    and "\<And>j. j \<le> length (peer_records env renv e rst) \<Longrightarrow>
      \<not> page_collision env renv e rst (cursor_at (peer_records env renv e rst) j) (stores_after env renv e now rst t st j)"
    and "k \<le> length (peer_records env renv e rst)" and "yn_stores n = stores_after env renv e now rst t st k"
    and "yn_checkpoints n \<noteq> None"
    and "if k = 0 then cp = None else map_option cp_manifestHash cp = Some (hashManifestRecords (peer_records env renv e rst))"
    and "numbered w" and "rq_sequence w + pages + (length (peer_records env renv e rst) - k) \<le> limit"
    and "0 < pages" and "length (peer_records env renv e rst) - k \<le> pages * se_batchSize renv"
  shows "\<exists>r n' w' tb cp'. sync_pages env (exchange rc env renv trust rtrust now st0 rst) (se_localPeerId renv) e now pages
      (cursor_at (peer_records env renv e rst) k) cp acc n w = Some (Inr r, n', w')
    \<and> \<not> sy_hasMore r \<and> numbered w'
    \<and> yn_stores n' = stores_after env renv e now rst t st (length (peer_records env renv e rst))
    \<and> yn_trust n' = yn_trust n \<and> yn_checkpoints n' = Some tb
    \<and> getCheckpoint (se_localPeerId renv) e tb = Some cp' \<and> cp_status cp' = Complete
    \<and> cp_manifestHash cp' = hashManifestRecords (peer_records env renv e rst)"
  using assms(4-)
proof (induction pages arbitrary: k cp acc n w)
  case 0
  then show ?case by simp
next
  case (Suc pages)
  note c = assms(1) [unfolded can_sync_def]
  let ?rs = "peer_records env renv e rst" and ?net = "exchange rc env renv trust rtrust now st0 rst"
  let ?T = "merge_rows env e now (map ry_data (take k ?rs)) t" and ?b = "se_batchSize renv"
  let ?page = "take ?b (drop k ?rs)"
  let ?ms = "filter (\<lambda>r. differs_here env e ?T (ry_data r)) ?page"
  obtain m where m: "createEntityManifest renv e (cursor_at ?rs k) (Some (se_localPeerId env)) rst = Some m"
    and mf: "sm_hasMore m = (k + ?b < length ?rs)" "sm_nextCursor m = next_cursor ?page (cursor_at ?rs k)"
      "em_rootHash m = hashManifestRecords ?rs"
    unfolding manifest_at [OF assms(1) Suc.prems(1)] by (simp add: Let_def)
  obtain w1 where w1: "requestEntityManifest ?net e (cursor_at ?rs k) w = (Inr m, w1)" "numbered w1"
    "rq_sequence w1 = Suc (rq_sequence w)"
    using request_manifest_at [OF assms(1) Suc.prems(1,5) m] by blast
  have fresh: "\<not> (truthy (cursor_at ?rs k) \<and> map_option cp_manifestHash cp \<noteq> Some (em_rootHash m))"
    "\<not> unchanged_since env e cp (cursor_at ?rs k) m (yn_stores n)"
    using Suc.prems(4) by (auto simp: cursor_at_truthy mf unchanged_since_def split: if_splits)
  have missing: "findMissingManifestItems env m None (yn_stores n) = Some (map toManifestItem ?ms)"
    unfolding Suc.prems(2) by (rule missing_at [OF assms(1) Suc.prems(1) assms(2) m assms(3) [OF Suc.prems(1)]])
  have ids: "map mf_id (map toManifestItem ?ms) = map ry_id ?ms" by (simp add: toManifestItem_def)
  have sub: "subseq ?page ?rs"
    by (meson prefix_imp_subseq suffix_imp_subseq subseq_order.trans take_is_prefix suffix_drop)
  have subms: "subseq ?ms ?rs" using sub by (meson subseq_filter_left subseq_order.trans)
  have lenms: "length ?ms \<le> ?b" "length ?ms \<le> length ?rs - k"
    using length_filter_le [of "\<lambda>r. differs_here env e ?T (ry_data r)" ?page] by (auto simp: min_def split: if_splits)
  have "rows e (yn_stores n) = Some ?T" "rq_sequence w1 + length ?ms \<le> limit"
    using Suc.prems(2,6) lenms(2) w1(3) by (simp_all add: rows_after)
  then obtain page' acc' n1 w2 where pull: "pull_batches env ?net (se_localPeerId renv) e now (map ry_id ?ms)
      emptySyncResult acc n w1 = Some (Inr (page', acc'), n1, w2)"
    and n1: "yn_stores n1 = with_rows e (merge_rows env e now (map ry_data ?ms) ?T) (yn_stores n)"
      "yn_checkpoints n1 = yn_checkpoints n" "yn_trust n1 = yn_trust n"
    and w2: "numbered w2" "rq_sequence w2 \<le> rq_sequence w1 + length ?ms"
    using pull_records [OF assms(1) subms lenms(1) _ w1(2)] by blast
  have st1: "yn_stores n1 = stores_after env renv e now rst t st (k + ?b)"
    unfolding n1(1) page_merged [OF assms(1) sub] Suc.prems(2) by (rule stores_after_page)
  note step = sync_pages.simps(2) [of env ?net "se_localPeerId renv" e now pages "cursor_at ?rs k" cp acc n w]
  show ?case
  proof (cases "k + ?b < length ?rs")
    case True
    have next_at: "next_cursor ?page (cursor_at ?rs k) = cursor_at ?rs (k + ?b)"
      using True c by (intro next_cursor_at) auto
    have moved: "truthy (cursor_at ?rs (k + ?b))" "cursor_at ?rs (k + ?b) \<noteq> cursor_at ?rs k"
      using c True cursor_at_inj [OF peer_records_set(2) [OF assms(1)] peer_records_set(3) [OF assms(1)], of "k + ?b" k]
      by (auto simp: cursor_at_truthy)
    obtain tb0 where tb0: "yn_checkpoints n1 = Some tb0" using n1(2) Suc.prems(3) by auto
    obtain c n2 where save: "save_page (se_localPeerId renv) e (cursor_at ?rs (k + ?b)) (hashManifestRecords ?rs)
        (sy_applied page') now n1 = (Some c, n2)" "cp_manifestHash c = hashManifestRecords ?rs"
      "yn_stores n2 = yn_stores n1" "yn_trust n2 = yn_trust n1" "yn_checkpoints n2 \<noteq> None"
      by (simp add: save_page_def tb0 saveProgress_def Let_def)
    have "\<exists>r n' w' tb cp'. sync_pages env ?net (se_localPeerId renv) e now pages
      (cursor_at ?rs (k + ?b)) (Some c) acc' n2 w2 = Some (Inr r, n', w')
      \<and> \<not> sy_hasMore r \<and> numbered w'
      \<and> yn_stores n' = stores_after env renv e now rst t st (length ?rs)
      \<and> yn_trust n' = yn_trust n2 \<and> yn_checkpoints n' = Some tb
      \<and> getCheckpoint (se_localPeerId renv) e tb = Some cp' \<and> cp_status cp' = Complete
      \<and> cp_manifestHash cp' = hashManifestRecords ?rs"
    proof (rule Suc.IH)
      show "0 < pages" using True Suc.prems(8) by (cases pages) auto
      show "rq_sequence w2 + pages + (length ?rs - (k + ?b)) \<le> limit"
        using w2(2) w1(3) lenms(1) Suc.prems(6) True by simp
      show "length ?rs - (k + ?b) \<le> pages * ?b" using Suc.prems(8) by simp
      show "if k + ?b = 0 then Some c = None
          else map_option cp_manifestHash (Some c) = Some (hashManifestRecords ?rs)"
        using c save(2) by simp
    qed (use True st1 save w2 in auto)
    moreover have "sync_pages env ?net (se_localPeerId renv) e now (Suc pages) (cursor_at ?rs k) cp acc n w
        = sync_pages env ?net (se_localPeerId renv) e now pages (cursor_at ?rs (k + ?b)) (Some c) acc' n2 w2"
      unfolding step w1(1) prod.case sum.case missing option.case ids pull
      using fresh True moved by (auto simp: mf next_at save(1))
    ultimately show ?thesis using save(4) n1(3) by metis
  next
    case False
    obtain tb0 where tb0: "yn_checkpoints n1 = Some tb0" using n1(2) Suc.prems(3) by auto
    let ?n2 = "mark_complete (se_localPeerId renv) e (hashManifestRecords ?rs) (sy_applied page') now n1"
    have "take (k + ?b) ?rs = take (length ?rs) ?rs" using False by simp
    then have "yn_stores ?n2 = stores_after env renv e now rst t st (length ?rs)"
      using st1 by (simp add: mark_complete_def stores_after_def)
    moreover have "sync_pages env ?net (se_localPeerId renv) e now (Suc pages) (cursor_at ?rs k) cp acc n w
        = Some (Inr (acc'\<lparr>sy_nextCursor := sm_nextCursor m, sy_hasMore := False\<rparr>), ?n2, w2)"
      unfolding step w1(1) prod.case sum.case missing option.case ids pull
      using fresh False by (auto simp: mf)
    moreover obtain tb cp' where "yn_checkpoints ?n2 = Some tb"
      "getCheckpoint (se_localPeerId renv) e tb = Some cp'" "cp_status cp' = Complete"
      "cp_manifestHash cp' = hashManifestRecords ?rs"
      by (simp add: mark_complete_def tb0 markComplete_def Let_def getCheckpoint_def writeCheckpoint_def
          get_insert_or_replace)
    moreover have "yn_trust ?n2 = yn_trust n" using n1(3) by (simp add: mark_complete_def)
    ultimately show ?thesis using w2(1) by fastforce
  qed
qed


lemma peer_records_data:
  assumes "can_sync rc env renv trust rtrust e now rst rt limit"
  shows "mset (map ry_data (peer_records env renv e rst)) = mset (jm_values rt)"
    and "distinct (map data_id (map ry_data (peer_records env renv e rst)))"
    and "length (peer_records env renv e rst) = length rt"
proof -
  have "mergeable e" "rows e rst = Some rt" using assms unfolding can_sync_def by blast+
  then have m: "mset (peer_records env renv e rst) = mset (map (to_record renv e) (jm_values rt))"
    unfolding peer_records_def by (rule mset_records)
  then have "mset (map ry_data (peer_records env renv e rst)) = mset (map ry_data (map (to_record renv e) (jm_values rt)))"
    by (metis mset_map)
  then show "mset (map ry_data (peer_records env renv e rst)) = mset (jm_values rt)" by (simp add: o_def)
  show "distinct (map data_id (map ry_data (peer_records env renv e rst)))"
    using peer_records_set(2,5) [OF assms] by simp
  show "length (peer_records env renv e rst) = length rt"
    using m by (metis length_map size_mset)
qed

lemma merged_get:
  assumes "can_sync rc env renv trust rtrust e now rst rt limit"
  shows "jm_get (merge_rows env e now (map ry_data (peer_records env renv e rst)) t) i = (case jm_get rt i of
    None \<Rightarrow> jm_get t i | Some d \<Rightarrow> merge_data env e now (jm_get t i) d)"
proof -
  have k: "keyed rt" using assms unfolding can_sync_def by blast
  have set: "set (map ry_data (peer_records env renv e rst)) = set (jm_values rt)"
    using peer_records_data(1) [OF assms] by (metis set_mset_mset)
  show ?thesis
  proof (cases "jm_get rt i")
    case None
    then have "i \<notin> set (map data_id (jm_values rt))" unfolding keyed_ids [OF k] by (simp add: map_of_eq_None_iff)
    then have "i \<notin> data_id ` set (map ry_data (peer_records env renv e rst))" unfolding set by (simp only: set_map not_False_eq_True)
    then show ?thesis using None by (simp add: merge_rows_other)
  next
    case (Some d)
    then have "d \<in> set (map ry_data (peer_records env renv e rst))" "data_id d = i"
      unfolding set using keyed_get [OF k] by blast+
    then show ?thesis using Some merge_rows_get [OF peer_records_data(2) [OF assms]] by (metis option.simps(5))
  qed
qed

text \<open>Everything the device \<open>env\<close>, whose node is \<open>n\<close> and whose requests are \<open>w\<close>, needs for its first
  synchronisation with the peer, whose stores are \<open>rst\<close>.\<close>

definition first_sync ::
  "record_codec \<Rightarrow> sync_env \<Rightarrow> sync_env \<Rightarrow> trust_store \<Rightarrow> trust_store \<Rightarrow> conflict_entity \<Rightarrow> int
     \<Rightarrow> sync_node \<Rightarrow> data_table \<Rightarrow> request_table \<Rightarrow> sync_stores \<Rightarrow> data_table \<Rightarrow> bool" where
  "first_sync rc env renv trust rtrust e now n t w rst rt \<longleftrightarrow>
     can_sync rc env renv trust rtrust e now rst rt (rq_sequence w + MAX_SYNC_PAGES + length rt)
     \<and> rows e (yn_stores n) = Some t \<and> keyed t
     \<and> (\<exists>tb. yn_checkpoints n = Some tb \<and> getCheckpoint (se_localPeerId renv) e tb = None)
     \<and> (\<forall>j \<le> length rt. \<not> page_collision env renv e rst (cursor_at (peer_records env renv e rst) j)
            (stores_after env renv e now rst t (yn_stores n) j))
     \<and> numbered w \<and> length rt \<le> MAX_SYNC_PAGES * se_batchSize renv"

lemma first_sync_run:
  assumes "first_sync rc env renv trust rtrust e now n t w rst rt"
  shows "\<exists>r n' w' tb' cp. syncEntity env (exchange rc env renv trust rtrust now st0 rst) (se_localPeerId renv) e now n w
        = Some (Inr r, n', w')
    \<and> \<not> sy_hasMore r \<and> numbered w'
    \<and> yn_stores n' = with_rows e (merge_rows env e now (map ry_data (peer_records env renv e rst)) t) (yn_stores n)
    \<and> yn_checkpoints n' = Some tb' \<and> getCheckpoint (se_localPeerId renv) e tb' = Some cp
    \<and> cp_status cp = Complete \<and> cp_manifestHash cp = hashManifestRecords (peer_records env renv e rst)"
proof -
  let ?rs = "peer_records env renv e rst" and ?net = "exchange rc env renv trust rtrust now st0 rst"
  note f = assms [unfolded first_sync_def]
  have can: "can_sync rc env renv trust rtrust e now rst rt (rq_sequence w + MAX_SYNC_PAGES + length rt)"
    and t: "rows e (yn_stores n) = Some t" "keyed t"
    using f by blast+
  obtain tb where tb: "yn_checkpoints n = Some tb" "getCheckpoint (se_localPeerId renv) e tb = None" using f by blast
  have "yn_stores n = stores_after env renv e now rst t (yn_stores n) 0"
    using t by (simp add: stores_after_def merge_rows_def with_same_rows)
  moreover have "cursor_at ?rs 0 = None" by (simp add: cursor_at_def)
  moreover have "0 < MAX_SYNC_PAGES" by (simp add: MAX_SYNC_PAGES_def)
  ultimately obtain r n' w' tb' cp where run: "sync_pages env ?net (se_localPeerId renv) e now MAX_SYNC_PAGES
      None None emptySyncResult n w = Some (Inr r, n', w')"
    "\<not> sy_hasMore r" "numbered w'" "yn_stores n' = stores_after env renv e now rst t (yn_stores n) (length ?rs)"
    "yn_checkpoints n' = Some tb'" "getCheckpoint (se_localPeerId renv) e tb' = Some cp" "cp_status cp = Complete"
    "cp_manifestHash cp = hashManifestRecords ?rs"
    using sync_from [OF can t(2), where k = 0 and st = "yn_stores n" and n = n and cp = None and w = w
        and pages = MAX_SYNC_PAGES and acc = emptySyncResult and ?st0.0 = st0] f peer_records_data(3) [OF can]
    by auto
  have "syncEntity env ?net (se_localPeerId renv) e now n w = Some (Inr r, n', w')"
    using run(1) by (simp add: syncEntity_def tb)
  moreover have "yn_stores n' = with_rows e (merge_rows env e now (map ry_data ?rs) t) (yn_stores n)"
    using run(4) by (simp add: stores_after_def)
  ultimately show ?thesis using run(2-) by blast
qed

lemma sync_merged:
  assumes "first_sync rc env renv trust rtrust e now n t w rst rt"
  shows "\<exists>r n' w' t'. syncEntity env (exchange rc env renv trust rtrust now st0 rst) (se_localPeerId renv) e now n w
        = Some (Inr r, n', w')
    \<and> \<not> sy_hasMore r \<and> yn_stores n' = with_rows e t' (yn_stores n)
    \<and> (\<forall>i. jm_get t' i = (case jm_get rt i of
         None \<Rightarrow> jm_get t i | Some d \<Rightarrow> merge_data env e now (jm_get t i) d))"
proof -
  have "can_sync rc env renv trust rtrust e now rst rt (rq_sequence w + MAX_SYNC_PAGES + length rt)"
    using assms unfolding first_sync_def by blast
  then show ?thesis using first_sync_run [OF assms, of st0] merged_get by blast
qed

end
