(* ===== verification/TextBounds.thy ===== *)
theory TextBounds
  imports NetMessage
begin

text \<open>
  A bound on the length of \<open>JSON.stringify\<close> of a value, from the lengths of the strings and numbers in it,
  and on its length in UTF-8: by them a message is known to fit a limit without its text being computed.
\<close>

text \<open>A bound on the text of a value without \<open>Jv_other\<close>; a character is escaped with at most six.\<close>

fun text_bound :: "jsval \<Rightarrow> nat"
  and elems_bound :: "jsval list \<Rightarrow> nat"
  and fields_bound :: "(string \<times> jsval) list \<Rightarrow> nat" where
  "text_bound Jv_undefined = 4"
| "text_bound Jv_null = 4"
| "text_bound (Jv_bool b) = 5"
| "text_bound (Jv_num n) = length (show_int n)"
| "text_bound (Jv_nonfinite x) = 4"
| "text_bound (Jv_str s) = 6 * length s + 2"
| "text_bound (Jv_arr xs) = 2 + elems_bound xs"
| "text_bound (Jv_obj kvs) = 2 + fields_bound kvs"
| "text_bound Jv_other = 0"
| "elems_bound [] = 0"
| "elems_bound (x # xs) = text_bound x + 1 + elems_bound xs"
| "fields_bound [] = 0"
| "fields_bound ((k, v) # kvs) = 6 * length k + 4 + text_bound v + fields_bound kvs"

fun plain :: "jsval \<Rightarrow> bool"
  and plain_elems :: "jsval list \<Rightarrow> bool"
  and plain_fields :: "(string \<times> jsval) list \<Rightarrow> bool" where
  "plain Jv_other = False"
| "plain (Jv_arr xs) = plain_elems xs"
| "plain (Jv_obj kvs) = plain_fields kvs"
| "plain v = True"
| "plain_elems [] = True"
| "plain_elems (x # xs) = (plain x \<and> plain_elems xs)"
| "plain_fields [] = True"
| "plain_fields ((k, v) # kvs) = (plain v \<and> plain_fields kvs)"

lemma length_esc_char: "length (esc_char c) \<le> 6"
  by (simp add: esc_char_def Let_def)

lemma length_quote: "length (quote s) \<le> 6 * length s + 2"
proof -
  have "length (concat (map esc_char s)) \<le> 6 * length s"
  proof (induction s)
    case (Cons c s)
    then show ?case using length_esc_char [of c] by simp
  qed simp
  then show ?thesis by (simp add: quote_def)
qed

lemma text_bounded:
  "plain v \<Longrightarrow> to_json v \<noteq> Throws \<and> (to_json v = Absent \<longrightarrow> v = Jv_undefined)
     \<and> (\<forall>j. to_json v = Text j \<longrightarrow> length (stringify j) \<le> text_bound v)"
  "plain_elems xs \<Longrightarrow> \<exists>vs. to_json_elems xs = Some vs \<and> length (stringify_elems vs) \<le> elems_bound xs"
  "plain_fields kvs \<Longrightarrow> \<exists>vs. to_json_fields kvs = Some vs \<and> length (stringify_fields vs) \<le> fields_bound kvs"
proof (induction v and xs and kvs rule: plain_plain_elems_plain_fields.induct)
  case (6 x xs)
  obtain vs where vs: "to_json_elems xs = Some vs" "length (stringify_elems vs) \<le> elems_bound xs"
    using 6 by auto
  obtain j where "or_null (to_json x) = Text j" "length (stringify j) \<le> text_bound x"
    using 6 by (cases "to_json x") auto
  then show ?case using vs by auto
next
  case (8 k v kvs)
  obtain vs where vs: "to_json_fields kvs = Some vs" "length (stringify_fields vs) \<le> fields_bound kvs"
    using 8 by auto
  show ?case
  proof (cases "to_json v")
    case (Text j)
    then have "length (stringify j) \<le> text_bound v" using 8 by auto
    then show ?thesis using vs length_quote [of k] by (auto simp: Text)
  qed (use 8 vs in auto)
qed (use length_quote in auto)


lemma plain_text:
  assumes "plain v" and "v \<noteq> Jv_undefined"
  shows "\<exists>j. to_json v = Text j \<and> length (stringify j) \<le> text_bound v"
  using text_bounded(1) [OF assms(1)] assms(2) by (cases "to_json v") auto

lemma encoded_length: "length (encodeUtf8 us) \<le> 4 * length us"
  by (induction us rule: encodeUtf8.induct) (auto simp: encode_point_def)

end
