(* ===== verification/SyncMerge_Claims.thy ===== *)
theory SyncMerge_Claims
  imports SyncMerge TextBounds
begin

text \<open>
  A first synchronisation with a peer is the merge of its table, one in each direction makes the two
  devices equal, and a run on two small tables.
\<close>

section \<open>One way\<close>


section \<open>Both ways\<close>

definition state_cmp :: "sync_env \<Rightarrow> conflict_entity \<Rightarrow> sync_data \<Rightarrow> sync_data \<Rightarrow> int" where
  "state_cmp env e a b = js_or (revision_of (sd_record a) - revision_of (sd_record b))
     (js_or (deleted_num (sd_record a) - deleted_num (sd_record b))
       (se_localeCompare env (se_stateHash env e a) (se_stateHash env e b)))"

text \<open>Copies that either device accepts from the other.\<close>

definition compatible :: "sync_env \<Rightarrow> conflict_entity \<Rightarrow> int \<Rightarrow> sync_data \<Rightarrow> sync_data \<Rightarrow> bool" where
  "compatible env e now a b \<longleftrightarrow> acceptable (sd_record a, now) \<and> acceptable (sd_record b, now)
     \<and> se_stateHash env e a \<noteq> [] \<and> se_stateHash env e b \<noteq> []
     \<and> (data_id a = data_id b \<longrightarrow> sr_author (sd_record a) = sr_author (sd_record b)
          \<and> hasStableIdentity e (sd_record a) (sd_record b) \<and> hasStableIdentity e (sd_record b) (sd_record a))"

lemma merge_first: "acceptable (sd_record d, now) \<Longrightarrow> merge_data env e now None d = Some d"
  by (simp add: merge_data_def acceptable_def resolveFallbackConflict_def resolveSocialConflict_def or_else_def)

lemma merge_same: "se_stateHash env e x = se_stateHash env e d \<Longrightarrow> merge_data env e now (Some x) d = Some x"
  by (auto simp: merge_data_def resolveFallbackConflict_def resolveSocialConflict_def Let_def reject_with_def)

lemma merge_second:
  assumes "compatible env e now x d" and "data_id x = data_id d" and "\<not> hasFinalTombstone e"
    and "se_stateHash env e x \<noteq> se_stateHash env e d"
  shows "merge_data env e now (Some x) d = (if state_cmp env e d x > 0 then Some d else Some x)"
proof -
  obtain i j where rev: "getSocialRevision (sd_record d) = Fin i" "getSocialRevision (sd_record x) = Fin j"
    using assms(1) valid_revision unfolding compatible_def acceptable_def by (metis fst_conv)
  have cmp: "state_cmp env e d x = js_or (i - j) (js_or (deleted_num (sd_record d) - deleted_num (sd_record x))
      (se_localeCompare env (se_stateHash env e d) (se_stateHash env e x)))"
    by (simp add: state_cmp_def rev)
  have "rs_action (resolveSocialConflict (se_localeCompare env) e (Some (sd_record x)) (sd_record d)
      (Some (se_stateHash env e x)) (se_stateHash env e d) now None) = Apply \<longleftrightarrow> state_cmp env e d x > 0"
    using assms unfolding cmp
    by (auto simp: compatible_def acceptable_def resolveSocialConflict_def or_else_def Let_def rev
        js_or_def deleted_num_def is_deleted_def simp del: hasFinalTombstone.simps)
  then show ?thesis by (auto simp: merge_data_def resolveFallbackConflict_def Let_def)
qed


lemma state_cmp_comparator:
  assumes "comparator (se_localeCompare env)"
  shows "comparator (state_cmp env e)"
  unfolding state_cmp_def [abs_def]
  by (rule comparator_or comparator_diff | rule comparator_pullback [OF assms])+

lemma merge_both:
  assumes "comparator (se_localeCompare env)" and "\<And>x y. se_localeCompare env x y = 0 \<Longrightarrow> x = y"
    and "compatible env e now a b" and "compatible env e now b a" and "data_id a = data_id b" and "\<not> hasFinalTombstone e"
    and "merge_data env e now (Some a) b = Some c"
  shows "map_option (se_stateHash env e) (merge_data env e now (Some b) c) = Some (se_stateHash env e c)"
proof (cases "se_stateHash env e a = se_stateHash env e b")
  case True
  then show ?thesis using merge_same [of env e a b now] merge_same [of env e b a now] assms(7) by simp
next
  case False
  have c: "c = (if state_cmp env e b a > 0 then b else a)"
    using merge_second [OF assms(3,5,6) False] assms(7) by (simp split: if_splits)
  show ?thesis
  proof (cases "state_cmp env e b a > 0")
    case True
    then show ?thesis using c merge_same [of env e b b now] by simp
  next
    case le: False
    have "state_cmp env e a b \<noteq> 0"
    proof
      assume "state_cmp env e a b = 0"
      then have "se_localeCompare env (se_stateHash env e a) (se_stateHash env e b) = 0"
        by (auto simp: state_cmp_def js_or_def split: if_splits)
      then show False using assms(2) False by blast
    qed
    then have "state_cmp env e a b > 0"
      using le comparator.cmp_swap [OF state_cmp_comparator [OF assms(1), of e], of b a] by linarith
    then show ?thesis
      using c le merge_second [OF assms(4) assms(5) [symmetric] assms(6)] False by auto
  qed
qed



section \<open>Small batches fit a message\<close>

lemma small_batch_fits:
  assumes "plain (batch_value rc b)"
    and "text_bound (batch_value rc b) + 6 * length p + 6 * length c + length (show_int now)
      + length (show_int (sb_version b)) + 5000 \<le> max_message_bytes"
  shows "fitsNetworkLimit rc p (Some c) now b = Some True"
proof -
  let ?r = "sync_response_value rc (Batch_response b)"
  have small: "length (show_int 1) \<le> 100" "length (show_int 60000) \<le> 100"
    by (simp_all add: show_int_def show_nat.simps)
  have r: "plain ?r" "text_bound ?r \<le> text_bound (batch_value rc b) + length (show_int (sb_version b)) + 1000"
    using assms(1) by (simp_all add: sync_response_value_def)
  let ?inp = "\<lparr>mi_messageType = ''sync.response'', mi_senderId = p, mi_payload = ?r, mi_signature = None,
    mi_correlationId = Some c, mi_sequence = None, mi_ttlMs = None, mi_timestamp = None\<rparr>"
  have "plain (message_id_value ?inp now)" using r(1) by (simp add: message_id_value_def or_else_def)
  then obtain j where j: "to_json (message_id_value ?inp now) = Text j"
    using plain_text [of "message_id_value ?inp now"] by (auto simp only: message_id_value_def jsval.distinct)
  let ?m = "\<lparr>nm_messageId = sha256Hex (stringify j), nm_messageType = ''sync.response'', nm_senderId = p,
    nm_timestamp = now, nm_payload = ?r, nm_signature = None, nm_correlationId = Some c, nm_sequence = None,
    nm_ttlMs = Fin 60000\<rparr>"
  have m: "createNetworkMessage ?inp now = Some ?m" by (simp add: createNetworkMessage_def j or_else_def)
  have "plain (message_value ?m)" using r(1) by (simp add: message_value_def opt_str_def)
  moreover have "message_value ?m \<noteq> Jv_undefined" by (simp add: message_value_def)
  ultimately obtain k where k: "to_json (message_value ?m) = Text k" "length (stringify k) \<le> text_bound (message_value ?m)"
    using plain_text by blast
  have "text_bound (message_value ?m) \<le> text_bound ?r + 6 * length p + 6 * length c + length (show_int now) + 4000"
    using small by (simp add: message_value_def opt_str_def protocol_version_def)
  then have "length (stringify k) \<le> max_message_bytes" using k(2) r(2) assms(2) by linarith
  then show ?thesis by (simp add: fitsNetworkLimit_def m k(1))
qed

lemma length_show_nat: "length (show_nat n) \<le> Suc n"
proof (induction n rule: show_nat.induct)
  case (1 n)
  show ?case
  proof (cases "n < 10")
    case True
    then show ?thesis by (subst show_nat.simps) simp
  next
    case False
    then have "length (show_nat n) = Suc (length (show_nat (n div 10)))" by (subst show_nat.simps) simp
    moreover have "n div 10 < n" using False by simp
    ultimately show ?thesis using 1 [OF False] by linarith
  qed
qed

section \<open>Concrete runs\<close>

definition copy_of :: "string \<Rightarrow> string \<Rightarrow> int \<Rightarrow> sync_data" where
  "copy_of i s t = \<lparr>sd_record = \<lparr>sr_id = i, sr_author = ''ann'', sr_createdAt = Fin 5,
       sr_updatedAt = Fin t, sr_revision = None, sr_previousRevisionHash = None,
       sr_deleted = Some False, sr_fields = []\<rparr>,
     sd_contentHash = i, sd_signature = s, sd_relayOnly = False, sd_senderId = [], sd_recipientId = []\<rparr>"

lemma copy_fields [simp]: "sd_signature (copy_of i s t) = s" "data_id (copy_of i s t) = i"
  "to_record env E_reaction (copy_of i s t) = \<lparr>ry_entity = E_reaction, ry_id = i, ry_contentHash = s,
     ry_stateHash = se_stateHash env E_reaction (copy_of i s t), ry_updatedAt = t, ry_author = ''ann'',
     ry_deleted = False, ry_data = copy_of i s t\<rparr>"
  by (simp_all add: copy_of_def data_id_def to_record_def)

definition pair_codec :: record_codec where
  "pair_codec = \<lparr>rc_write = (\<lambda>_ d. Jv_arr [Jv_str (sr_id (sd_record d)), Jv_str (sd_signature d),
       Jv_num (fin_part (sr_updatedAt (sd_record d)))]),
     rc_read = (\<lambda>_ v. case v of Jv_arr [Jv_str i, Jv_str s, Jv_num t] \<Rightarrow> copy_of i s t | _ \<Rightarrow> copy_of [] [] 0)\<rparr>"

lemma codec_copy [simp]: "rc_write pair_codec e (copy_of i s t) = Jv_arr [Jv_str i, Jv_str s, Jv_num t]"
  "rc_read pair_codec e (Jv_arr [Jv_str i, Jv_str s, Jv_num t]) = copy_of i s t"
  by (simp_all add: pair_codec_def copy_of_def)

definition pair_env :: "string \<Rightarrow> sync_env" where
  "pair_env i = \<lparr>se_localPeerId = i, se_batchSize = 2, se_stateHash = (\<lambda>_ d. sd_signature d),
     se_localeCompare = code_cmp, se_number_text = (\<lambda>_. Non Nan), se_uri_text = (\<lambda>_. None), se_service = None\<rparr>"

lemma pair_env_fields [simp]: "se_localPeerId (pair_env i) = i" "se_batchSize (pair_env i) = 2"
  "se_stateHash (pair_env i) = (\<lambda>_ d. sd_signature d)" "se_localeCompare (pair_env i) = code_cmp"
  "se_service (pair_env i) = None"
  by (simp_all add: pair_env_def)

definition pair_stores :: "data_table \<Rightarrow> sync_stores" where
  "pair_stores t = \<lparr>ss_posts = [], ss_profiles = None, ss_comments = None, ss_reactions = Some t,
     ss_follows = None, ss_chats = None\<rparr>"

lemma pair_rows [simp]: "rows E_reaction (pair_stores t) = Some t"
  "with_rows E_reaction u (pair_stores t) = pair_stores u"
  by (simp_all add: rows_def with_rows_def pair_stores_def)

definition pair_node :: "string \<Rightarrow> data_table \<Rightarrow> sync_node" where
  "pair_node peer t = \<lparr>yn_stores = pair_stores t, yn_checkpoints = Some [], yn_trust = sample_trust peer, yn_events = []\<rparr>"

definition table_a :: data_table where
  "table_a = [(''x'', copy_of ''x'' ''p'' 6), (''y'', copy_of ''y'' ''q'' 5)]"

definition table_b :: data_table where
  "table_b = [(''x'', copy_of ''x'' ''r'' 6)]"

definition table_ab :: data_table where
  "table_ab = [(''x'', copy_of ''x'' ''r'' 6), (''y'', copy_of ''y'' ''q'' 5)]"

lemma keyed_tables: "keyed table_a" "keyed table_b" "keyed table_ab"
  by (simp_all add: keyed_def table_a_def table_b_def table_ab_def)

lemma pair_records:
  "getRecordsForEntity env E_reaction a (pair_stores t) = js_sort (compareRecordsAscending (se_localeCompare env))
     (map (to_record env E_reaction) (jm_values t))"
proof -
  have "filter (\<lambda>r. ry_entity r = E_reaction) xs = xs" if "\<forall>r \<in> set xs. ry_entity r = E_reaction" for xs :: "sync_record list"
    using that by (induction xs) auto
  then show ?thesis
    by (auto simp: getRecordsForEntity_def getAllRecords_def pair_stores_def table_values_def)
qed

definition rec_of :: "string \<Rightarrow> string \<Rightarrow> int \<Rightarrow> sync_record" where
  "rec_of i s t = \<lparr>ry_entity = E_reaction, ry_id = i, ry_contentHash = s, ry_stateHash = s, ry_updatedAt = t,
     ry_author = ''ann'', ry_deleted = False, ry_data = copy_of i s t\<rparr>"

lemma pair_record_lists:
  "getRecordsForEntity (pair_env p) E_reaction a (pair_stores table_a) = [rec_of ''y'' ''q'' 5, rec_of ''x'' ''p'' 6]"
  "getRecordsForEntity (pair_env p) E_reaction a (pair_stores table_b) = [rec_of ''x'' ''r'' 6]"
  "getRecordsForEntity (pair_env p) E_reaction a (pair_stores table_ab) = [rec_of ''y'' ''q'' 5, rec_of ''x'' ''r'' 6]"
  by (simp_all add: pair_records table_a_def table_b_def table_ab_def rec_of_def compareRecordsAscending_def)


lemma pair_peer_records:
  "peer_records (pair_env p) (pair_env q) E_reaction (pair_stores table_b) = [rec_of ''x'' ''r'' 6]"
  "peer_records (pair_env p) (pair_env q) E_reaction (pair_stores table_ab) = [rec_of ''y'' ''q'' 5, rec_of ''x'' ''r'' 6]"
  by (simp_all only: peer_records_def pair_record_lists)

lemma rec_fields [simp]: "ry_id (rec_of i s t) = i" "ry_data (rec_of i s t) = copy_of i s t"
  "ry_updatedAt (rec_of i s t) = t" "ry_stateHash (rec_of i s t) = s" "ry_entity (rec_of i s t) = E_reaction"
  by (simp_all add: rec_of_def)

lemma acceptable_copy: "5 \<le> t \<Longrightarrow> t \<le> 9 \<Longrightarrow> acceptable (sd_record (copy_of i s t), 9)"
  by (simp add: acceptable_def timestampInvalid_def copy_of_def isValidSocialRevisionMetadata_def max_future_skew_def)

lemma compatible_copies:
  "5 \<le> t \<Longrightarrow> t \<le> 9 \<Longrightarrow> 5 \<le> u \<Longrightarrow> u \<le> 9 \<Longrightarrow> s \<noteq> [] \<Longrightarrow> r \<noteq> [] \<Longrightarrow>
   compatible (pair_env p) E_reaction 9 (copy_of i s t) (copy_of j r u)"
  by (simp add: compatible_def acceptable_copy) (simp add: copy_of_def data_id_def hasStableIdentity_def
      same_property_def equalOptional_def readProperty_def)

lemma merge_copy:
  assumes "5 \<le> t" "t \<le> 9" "5 \<le> u" "u \<le> 9" "s \<noteq> []" "r \<noteq> []"
  shows "merge_data (pair_env p) E_reaction 9 (Some (copy_of i s t)) (copy_of i r u)
    = Some (if code_cmp r s > 0 then copy_of i r u else copy_of i s t)"
proof (cases "s = r")
  case True
  then show ?thesis by (simp add: merge_same)
next
  case False
  have "state_cmp (pair_env p) E_reaction (copy_of i r u) (copy_of i s t) = code_cmp r s"
    by (simp add: state_cmp_def js_or_def copy_of_def getSocialRevision_def or_else_def deleted_num_def is_deleted_def)
  then show ?thesis
    using merge_second [OF compatible_copies [OF assms, where p = p and i = i and j = i]] False by simp
qed

lemma pair_merges:
  "merge_rows (pair_env p) E_reaction 9 [copy_of ''x'' ''r'' 6] table_a = table_ab"
  "merge_rows (pair_env p) E_reaction 9 [copy_of ''y'' ''q'' 5] table_b = table_ab"
  "merge_rows (pair_env p) E_reaction 9 [copy_of ''y'' ''q'' 5, copy_of ''x'' ''r'' 6] table_b = table_ab"
  by (simp_all add: merge_rows_def merge_row_def table_a_def table_b_def table_ab_def apply_to_table_def
      resolveFallbackConflict_def resolveSocialConflict_def timestampInvalid_def copy_of_def max_future_skew_def
      isValidSocialRevisionMetadata_def data_id_def or_else_def hasStableIdentity_def same_property_def
      equalOptional_def readProperty_def getSocialRevision_def Let_def)

lemma pair_after:
  "stores_after (pair_env p) (pair_env q) E_reaction 9 (pair_stores table_b) table_a (pair_stores table_a) 0 = pair_stores table_a"
  "stores_after (pair_env p) (pair_env q) E_reaction 9 (pair_stores table_b) table_a (pair_stores table_a) (Suc 0) = pair_stores table_ab"
  "stores_after (pair_env p) (pair_env q) E_reaction 9 (pair_stores table_ab) table_b (pair_stores table_b) 0 = pair_stores table_b"
  "stores_after (pair_env p) (pair_env q) E_reaction 9 (pair_stores table_ab) table_b (pair_stores table_b) (Suc 0) = pair_stores table_ab"
  "stores_after (pair_env p) (pair_env q) E_reaction 9 (pair_stores table_ab) table_b (pair_stores table_b) 2 = pair_stores table_ab"
  by (simp_all add: stores_after_def pair_peer_records pair_merges)
    (simp_all add: merge_rows_def numeral_2_eq_2)

lemma after_none: "filterRecordsAfterCursor env rs None = Some rs"
  by (simp add: filterRecordsAfterCursor_def decodeCursor_def)

lemma after_some: "i \<noteq> [] \<Longrightarrow> filterRecordsAfterCursor env rs (Some (encodeCursor t i)) = Some (filter (after_cursor t i) rs)"
  by (simp add: filterRecordsAfterCursor_def decode_encode_cursor)

lemma pair_no_collision_a:
  "j \<le> 1 \<Longrightarrow> \<not> page_collision (pair_env p) (pair_env q) E_reaction (pair_stores table_b)
     (cursor_at (peer_records (pair_env p) (pair_env q) E_reaction (pair_stores table_b)) j)
     (stores_after (pair_env p) (pair_env q) E_reaction 9 (pair_stores table_b) table_a (pair_stores table_a) j)"
  by (cases j) (simp_all add: pair_after pair_peer_records cursor_at_def page_collision_def createEntityManifest_def
      pair_record_lists Let_def after_none after_some after_cursor_def)

lemma pair_no_collision_b:
  "j \<le> 2 \<Longrightarrow> \<not> page_collision (pair_env p) (pair_env q) E_reaction (pair_stores table_ab)
     (cursor_at (peer_records (pair_env p) (pair_env q) E_reaction (pair_stores table_ab)) j)
     (stores_after (pair_env p) (pair_env q) E_reaction 9 (pair_stores table_ab) table_b (pair_stores table_b) j)"
proof -
  assume "j \<le> 2"
  then consider "j = 0" | "j = Suc 0" | "j = 2" by linarith
  then show ?thesis
    by cases (simp_all add: pair_after pair_peer_records cursor_at_def page_collision_def createEntityManifest_def
      pair_record_lists Let_def after_none after_some after_cursor_def)
qed

lemma pair_sendable:
  assumes "length c \<le> 2000" and "length q = 1" and "T = table_b \<or> T = table_ab"
  shows "sendable pair_codec (pair_env q) p E_reaction c 9 (pair_stores T)"
  unfolding sendable_def
proof (intro allI impI)
  fix ids :: "string list"
  have nums: "length (show_int 9) = 1" "length (show_int 2) = 1" "length (show_int 5) = 1" "length (show_int 6) = 1"
    by (simp_all add: show_int_def show_nat.simps)
  let ?b = "createEntityBatch (pair_env q) E_reaction ids (Some p) (pair_stores T)"
  have "fitsNetworkLimit pair_codec q (Some c) 9 ?b = Some True"
  proof (rule small_batch_fits)
    show "plain (batch_value pair_codec ?b)"
      using assms(3) by (cases "''x'' \<in> set (take 2 ids)"; cases "''y'' \<in> set (take 2 ids)")
        (auto simp: createEntityBatch_def createBatchFromRecords_def batch_value_def pair_record_lists Let_def
          data_of_def opt_str_def opt_arr_def)
    have "text_bound (batch_value pair_codec ?b) \<le> 5000 \<and> sb_version ?b = 2"
      using assms(2,3) nums by (cases "''x'' \<in> set (take 2 ids)"; cases "''y'' \<in> set (take 2 ids)")
        (auto simp: createEntityBatch_def createBatchFromRecords_def batch_value_def pair_record_lists Let_def
          data_of_def opt_str_def opt_arr_def)
    then show "text_bound (batch_value pair_codec ?b) + 6 * length q + 6 * length c + length (show_int 9)
        + length (show_int (sb_version ?b)) + 5000 \<le> max_message_bytes"
      using nums assms(1,2) by (simp add: max_message_bytes_def)
  qed
  then show "\<exists>f. fitsNetworkLimit pair_codec (se_localPeerId (pair_env q)) (Some c) 9 ?b = Some f
      \<and> (length ids = 1 \<longrightarrow> f)" by (intro exI [of _ True]) simp
qed

lemma pair_correlation_id: "k \<le> 200 \<Longrightarrow> length q = 1 \<Longrightarrow> length (correlation_id 9 q k) \<le> 2000"
  using length_show_nat [of k] by (simp add: correlation_id_def show_int_def show_nat.simps [of 9])

lemma pair_can_sync:
  assumes "length q = 1" and "T = table_b \<or> T = table_ab" and "limit \<le> 200"
  shows "can_sync pair_codec (pair_env p) (pair_env q) (sample_trust q) (sample_trust p) E_reaction 9 (pair_stores T) T limit"
  unfolding can_sync_def
proof (intro conjI)
  show "keyed T" using assms(2) keyed_tables by blast
  show "\<forall>d \<in> set (jm_values T). data_id d \<noteq> [] \<and> rc_read pair_codec E_reaction (rc_write pair_codec E_reaction d) = d"
    using assms(2) by (auto simp: table_b_def table_ab_def)
  show "\<forall>k \<le> limit. sendable pair_codec (pair_env q) (se_localPeerId (pair_env p)) E_reaction
      (correlation_id 9 (se_localPeerId (pair_env q)) k) 9 (pair_stores T)"
    using pair_sendable [OF pair_correlation_id assms(1,2)] assms(1,3) by simp
qed (simp_all add: mergeable_def code_order.comparator_axioms)

lemma pair_first_sync_a:
  "first_sync pair_codec (pair_env ''A'') (pair_env ''B'') (sample_trust ''B'') (sample_trust ''A'') E_reaction 9
     (pair_node ''B'' table_a) table_a no_requests (pair_stores table_b) table_b"
  unfolding first_sync_def
proof (intro conjI)
  show "can_sync pair_codec (pair_env ''A'') (pair_env ''B'') (sample_trust ''B'') (sample_trust ''A'') E_reaction 9
      (pair_stores table_b) table_b (rq_sequence no_requests + MAX_SYNC_PAGES + length table_b)"
    by (rule pair_can_sync) (simp_all add: no_requests_def MAX_SYNC_PAGES_def table_b_def)
  show "\<forall>j \<le> length table_b. \<not> page_collision (pair_env ''A'') (pair_env ''B'') E_reaction (pair_stores table_b)
      (cursor_at (peer_records (pair_env ''A'') (pair_env ''B'') E_reaction (pair_stores table_b)) j)
      (stores_after (pair_env ''A'') (pair_env ''B'') E_reaction 9 (pair_stores table_b) table_a
        (yn_stores (pair_node ''B'' table_a)) j)"
    using pair_no_collision_a by (simp add: table_b_def pair_node_def)
qed (simp_all add: pair_node_def keyed_tables getCheckpoint_def numbered_def no_requests_def, simp add: table_b_def MAX_SYNC_PAGES_def)

lemma pair_first_sync_b:
  "first_sync pair_codec (pair_env ''B'') (pair_env ''A'') (sample_trust ''A'') (sample_trust ''B'') E_reaction 9
     (pair_node ''A'' table_b) table_b no_requests (pair_stores table_ab) table_ab"
  unfolding first_sync_def
proof (intro conjI)
  show "can_sync pair_codec (pair_env ''B'') (pair_env ''A'') (sample_trust ''A'') (sample_trust ''B'') E_reaction 9
      (pair_stores table_ab) table_ab (rq_sequence no_requests + MAX_SYNC_PAGES + length table_ab)"
    by (rule pair_can_sync) (simp_all add: no_requests_def MAX_SYNC_PAGES_def table_ab_def)
  show "\<forall>j \<le> length table_ab. \<not> page_collision (pair_env ''B'') (pair_env ''A'') E_reaction (pair_stores table_ab)
      (cursor_at (peer_records (pair_env ''B'') (pair_env ''A'') E_reaction (pair_stores table_ab)) j)
      (stores_after (pair_env ''B'') (pair_env ''A'') E_reaction 9 (pair_stores table_ab) table_b
        (yn_stores (pair_node ''A'' table_b)) j)"
    using pair_no_collision_b by (simp add: table_ab_def pair_node_def)
qed (simp_all add: pair_node_def keyed_tables getCheckpoint_def numbered_def no_requests_def, simp add: table_ab_def MAX_SYNC_PAGES_def)



end
