(* ===== verification/Votes.thy ===== *)
theory Votes
  imports Complex_Main Canonical
begin

text \<open>
  Votes on contributions and the quorum they have to reach: \<open>src/consensus/VoteManager.ts\<close> (the votes
  by id, with an index by contribution and one by voter) and \<open>src/consensus/QuorumManager.ts\<close> (the
  requirements, the result of a count and the history of results). Percentages are rationals. The
  clock is read once per operation. What is stored or imported is a list of well-typed votes: text
  that does not parse, or records of another shape, leave the tables alone and are not modelled.
\<close>

section \<open>Votes\<close>

datatype vote_type = Approve | Reject | Abstain

fun vote_name :: "vote_type \<Rightarrow> string" where
  "vote_name Approve = ''approve''"
| "vote_name Reject = ''reject''"
| "vote_name Abstain = ''abstain''"

definition vote_of :: "string \<Rightarrow> vote_type option" where
  "vote_of s = (if s = ''approve'' then Some Approve else if s = ''reject'' then Some Reject
     else if s = ''abstain'' then Some Abstain else None)"

record contribution_vote =
  cv_contributionId :: string
  cv_voter :: string
  cv_vote :: vote_type
  cv_reason :: "string option"
  cv_timestamp :: int
  cv_signature :: string

record vote_manager =
  vm_votes :: "(string, contribution_vote) jsmap"
  vm_byContribution :: "(string, string list) jsmap"
  vm_byVoter :: "(string, string list) jsmap"

datatype cast_result =
    Cast_accepted contribution_vote bool \<comment> \<open>the vote, and whether it was there already\<close>
  | Cast_conflict contribution_vote
  | Cast_invalid

definition vote_manager_init :: vote_manager where
  "vote_manager_init = \<lparr>vm_votes = [], vm_byContribution = [], vm_byVoter = []\<rparr>"

definition vote_id_value :: "string \<Rightarrow> string \<Rightarrow> jsval" where
  "vote_id_value contributionId voter =
     Jv_obj [(''contributionId'', Jv_str contributionId), (''voter'', Jv_str voter)]"

definition createVoteId :: "string \<Rightarrow> string \<Rightarrow> string" where
  "createVoteId contributionId voter =
     ''vote_'' @ take 32 (sha256Hex (canonical_text (vote_id_value contributionId voter)))"

abbreviation vote_key :: "contribution_vote \<Rightarrow> string" where
  "vote_key v \<equiv> createVoteId (cv_contributionId v) (cv_voter v)"

definition index_add :: "string \<Rightarrow> string \<Rightarrow> (string, string list) jsmap \<Rightarrow> (string, string list) jsmap" where
  "index_add k i m = jm_set k (set_add i (or_else (jm_get m k) [])) m"

definition index_remove :: "string \<Rightarrow> string \<Rightarrow> (string, string list) jsmap \<Rightarrow> (string, string list) jsmap" where
  "index_remove k i m = (case jm_get m k of None \<Rightarrow> m | Some ids \<Rightarrow> jm_set k (removeAll i ids) m)"

definition store_vote :: "contribution_vote \<Rightarrow> vote_manager \<Rightarrow> vote_manager" where
  "store_vote v m = \<lparr>vm_votes = jm_set (vote_key v) v (vm_votes m),
     vm_byContribution = index_add (cv_contributionId v) (vote_key v) (vm_byContribution m),
     vm_byVoter = index_add (cv_voter v) (vote_key v) (vm_byVoter m)\<rparr>"

definition tryCastVote ::
  "string \<Rightarrow> string \<Rightarrow> string \<Rightarrow> string option \<Rightarrow> string option \<Rightarrow> int \<Rightarrow> vote_manager
     \<Rightarrow> cast_result \<times> vote_manager" where
  "tryCastVote contributionId voter vote reason signature now m =
     (case vote_of vote of
        None \<Rightarrow> (Cast_invalid, m)
      | Some t \<Rightarrow> (case jm_get (vm_votes m) (createVoteId contributionId voter) of
          Some existing \<Rightarrow>
            if cv_vote existing = t \<and> cv_reason existing = reason
            then (Cast_accepted existing True, m) else (Cast_conflict existing, m)
        | None \<Rightarrow>
            (let v = \<lparr>cv_contributionId = contributionId, cv_voter = voter, cv_vote = t,
                      cv_reason = reason, cv_timestamp = now, cv_signature = or_else signature []\<rparr>
             in (Cast_accepted v False, store_vote v m))))"

definition castVote ::
  "string \<Rightarrow> string \<Rightarrow> string \<Rightarrow> string option \<Rightarrow> string option \<Rightarrow> int \<Rightarrow> vote_manager
     \<Rightarrow> contribution_vote option \<times> vote_manager" where
  \<comment> \<open>\<open>None\<close>: it throws.\<close>
  "castVote contributionId voter vote reason signature now m =
     (case tryCastVote contributionId voter vote reason signature now m of
        (Cast_accepted v d, m1) \<Rightarrow> (Some v, m1)
      | (Cast_conflict existing, m1) \<Rightarrow> (Some existing, m1)
      | (Cast_invalid, m1) \<Rightarrow> (None, m1))"

definition votes_at :: "string list option \<Rightarrow> vote_manager \<Rightarrow> contribution_vote list" where
  "votes_at ids m = (case ids of None \<Rightarrow> [] | Some is \<Rightarrow> List.map_filter (jm_get (vm_votes m)) is)"

definition getVote :: "string \<Rightarrow> vote_manager \<Rightarrow> contribution_vote option" where
  "getVote voteId m = jm_get (vm_votes m) voteId"

definition getVotesForContribution :: "string \<Rightarrow> vote_manager \<Rightarrow> contribution_vote list" where
  "getVotesForContribution contributionId m = votes_at (jm_get (vm_byContribution m) contributionId) m"

definition getVotesByVoter :: "string \<Rightarrow> vote_manager \<Rightarrow> contribution_vote list" where
  "getVotesByVoter voter m = votes_at (jm_get (vm_byVoter m) voter) m"

definition getVotesByType :: "string \<Rightarrow> vote_type \<Rightarrow> vote_manager \<Rightarrow> contribution_vote list" where
  "getVotesByType contributionId t m =
     filter (\<lambda>v. cv_vote v = t) (getVotesForContribution contributionId m)"

record vote_counts =
  vc_total :: nat
  vc_approve :: nat
  vc_reject :: nat
  vc_abstain :: nat

definition countVotes :: "string \<Rightarrow> vote_manager \<Rightarrow> vote_counts" where
  "countVotes contributionId m = (let votes = getVotesForContribution contributionId m in
     \<lparr>vc_total = length votes,
      vc_approve = length (filter (\<lambda>v. cv_vote v = Approve) votes),
      vc_reject = length (filter (\<lambda>v. cv_vote v = Reject) votes),
      vc_abstain = length (filter (\<lambda>v. cv_vote v = Abstain) votes)\<rparr>)"

definition calculateApprovalPercentage :: "string \<Rightarrow> vote_manager \<Rightarrow> rat" where
  "calculateApprovalPercentage contributionId m = (let counts = countVotes contributionId m in
     if vc_total counts = 0 then 0 else of_nat (vc_approve counts) / of_nat (vc_total counts) * 100)"

definition hasVoted :: "string \<Rightarrow> string \<Rightarrow> vote_manager \<Rightarrow> bool" where
  "hasVoted contributionId voter m =
     list_ex (\<lambda>v. cv_voter v = voter) (getVotesForContribution contributionId m)"

definition validateVote :: "contribution_vote \<Rightarrow> int \<Rightarrow> vote_manager \<Rightarrow> bool" where
  "validateVote v now m \<longleftrightarrow> \<not> now - cv_timestamp v > 5 * 60 * 1000
     \<and> \<not> hasVoted (cv_contributionId v) (cv_voter v) m"

definition removeVote :: "string \<Rightarrow> vote_manager \<Rightarrow> bool \<times> vote_manager" where
  "removeVote voteId m = (case jm_get (vm_votes m) voteId of
     None \<Rightarrow> (False, m)
   | Some v \<Rightarrow> (True,
       \<lparr>vm_votes = jm_delete voteId (vm_votes m),
        vm_byContribution = index_remove (cv_contributionId v) voteId (vm_byContribution m),
        vm_byVoter = index_remove (cv_voter v) voteId (vm_byVoter m)\<rparr>))"

fun remove_votes :: "string list \<Rightarrow> vote_manager \<Rightarrow> nat \<times> vote_manager" where
  "remove_votes [] m = (0, m)"
| "remove_votes (i # is) m = (let (b, m1) = removeVote i m; (n, m2) = remove_votes is m1
     in (if b then Suc n else n, m2))"

definition removeVotesForContribution :: "string \<Rightarrow> vote_manager \<Rightarrow> nat \<times> vote_manager" where
  "removeVotesForContribution contributionId m =
     (case jm_get (vm_byContribution m) contributionId of
        None \<Rightarrow> (0, m)
      | Some ids \<Rightarrow> (let (n, m1) = remove_votes ids m in
          (n, m1\<lparr>vm_byContribution := jm_delete contributionId (vm_byContribution m1)\<rparr>)))"

definition removeVotesByVoter :: "string \<Rightarrow> vote_manager \<Rightarrow> nat \<times> vote_manager" where
  "removeVotesByVoter voter m =
     (case jm_get (vm_byVoter m) voter of
        None \<Rightarrow> (0, m)
      | Some ids \<Rightarrow> (let (n, m1) = remove_votes ids m in
          (n, m1\<lparr>vm_byVoter := jm_delete voter (vm_byVoter m1)\<rparr>)))"

definition getAllVotes :: "vote_manager \<Rightarrow> contribution_vote list" where
  "getAllVotes m = jm_values (vm_votes m)"

definition clearAllVotes :: "vote_manager \<Rightarrow> vote_manager" where
  "clearAllVotes m = vote_manager_init"

definition restore_vote :: "contribution_vote \<Rightarrow> vote_manager \<Rightarrow> vote_manager" where
  "restore_vote v m = (case jm_get (vm_votes m) (vote_key v) of
     Some e \<Rightarrow> if cv_vote e \<noteq> cv_vote v \<or> cv_reason e \<noteq> cv_reason v then m else store_vote v m
   | None \<Rightarrow> store_vote v m)"

definition restoreVotes :: "contribution_vote list \<Rightarrow> vote_manager \<Rightarrow> vote_manager" where
  "restoreVotes votes m = fold restore_vote votes (clearAllVotes m)"

definition importVotes :: "contribution_vote list \<Rightarrow> int \<Rightarrow> vote_manager \<Rightarrow> vote_manager" where
  "importVotes votes now m =
     fold (\<lambda>v m. if validateVote v now m then store_vote v m else m) votes m"

record vote_statistics =
  vs_totalVotes :: nat
  vs_totalContributions :: nat
  vs_totalVoters :: nat
  vs_averageApprovalRate :: rat
  vs_byType :: "(vote_type, nat) jsmap"

definition count_types :: "contribution_vote list \<Rightarrow> (vote_type, nat) jsmap" where
  "count_types votes =
     foldl (\<lambda>c v. jm_set (cv_vote v) (or_else (jm_get c (cv_vote v)) 0 + 1) c) [] votes"

definition voteStatistics :: "vote_manager \<Rightarrow> vote_statistics" where
  "voteStatistics m =
     (let votes = getAllVotes m;
          rates = filter (\<lambda>r. r > 0)
            (map (\<lambda>c. calculateApprovalPercentage c m) (jm_keys (vm_byContribution m)))
      in \<lparr>vs_totalVotes = length votes, vs_totalContributions = length (vm_byContribution m),
          vs_totalVoters = length (vm_byVoter m),
          vs_averageApprovalRate = (if rates = [] then 0 else sum_list rates / of_nat (length rates)),
          vs_byType = count_types votes\<rparr>)"

section \<open>Quorum\<close>

record quorum_requirements =
  qr_minPeers :: int
  qr_requiredAgreement :: rat
  qr_minTrustScore :: int
  qr_timeout :: int

definition defaultQuorumRequirements :: quorum_requirements where
  "defaultQuorumRequirements = \<lparr>qr_minPeers = 3, qr_requiredAgreement = 66 / 100,
     qr_minTrustScore = 600, qr_timeout = 300000\<rparr>"

record quorum_result =
  qu_reached :: bool
  qu_requiredPeers :: int
  qu_actualPeers :: int
  qu_requiredAgreement :: rat
  qu_actualAgreement :: rat
  qu_approvalPercentage :: rat
  qu_rejectPercentage :: rat
  qu_abstainPercentage :: rat
  qu_timestamp :: int

record quorum_manager =
  qm_requirements :: quorum_requirements
  qm_history :: "(string, quorum_result) jsmap"

definition percentage :: "nat \<Rightarrow> nat \<Rightarrow> rat" where
  "percentage n k = (if k > 0 then of_nat n / of_nat k * 100 else 0)"

definition calculateQuorum ::
  "quorum_requirements \<Rightarrow> nat \<Rightarrow> nat \<Rightarrow> nat \<Rightarrow> int \<Rightarrow> quorum_result" where
  "calculateQuorum req approveCount rejectCount abstainCount now =
     (let totalVotes = approveCount + rejectCount + abstainCount;
          approval = percentage approveCount totalVotes;
          rejected = percentage rejectCount totalVotes
      in \<lparr>qu_reached = (int totalVotes \<ge> qr_minPeers req \<and> approval / 100 \<ge> qr_requiredAgreement req
            \<and> approval > rejected),
          qu_requiredPeers = qr_minPeers req, qu_actualPeers = int totalVotes,
          qu_requiredAgreement = qr_requiredAgreement req, qu_actualAgreement = approval / 100,
          qu_approvalPercentage = approval, qu_rejectPercentage = rejected,
          qu_abstainPercentage = percentage abstainCount totalVotes, qu_timestamp = now\<rparr>)"

definition validateQuorum :: "quorum_requirements \<Rightarrow> quorum_result \<Rightarrow> int \<Rightarrow> bool" where
  "validateQuorum req r now \<longleftrightarrow> \<not> now - qu_timestamp r > qr_timeout req \<and> qu_reached r
     \<and> \<not> qu_actualPeers r < qu_requiredPeers r \<and> \<not> qu_actualAgreement r < qu_requiredAgreement r"

definition updateRequirements ::
  "int option \<Rightarrow> rat option \<Rightarrow> int option \<Rightarrow> int option \<Rightarrow> quorum_manager \<Rightarrow> quorum_manager" where
  "updateRequirements minPeers agreement trust timeout q = q\<lparr>qm_requirements :=
     \<lparr>qr_minPeers = or_else minPeers (qr_minPeers (qm_requirements q)),
      qr_requiredAgreement = or_else agreement (qr_requiredAgreement (qm_requirements q)),
      qr_minTrustScore = or_else trust (qr_minTrustScore (qm_requirements q)),
      qr_timeout = or_else timeout (qr_timeout (qm_requirements q))\<rparr>\<rparr>"

definition recordQuorum :: "string \<Rightarrow> quorum_result \<Rightarrow> quorum_manager \<Rightarrow> quorum_manager" where
  "recordQuorum contributionId r q = q\<lparr>qm_history := jm_set contributionId r (qm_history q)\<rparr>"

definition getQuorumResult :: "string \<Rightarrow> quorum_manager \<Rightarrow> quorum_result option" where
  "getQuorumResult contributionId q = jm_get (qm_history q) contributionId"

definition restoreSnapshotEntries ::
  "(string \<times> quorum_result) list \<Rightarrow> quorum_manager \<Rightarrow> quorum_manager" where
  "restoreSnapshotEntries entries q =
     q\<lparr>qm_history := foldl (\<lambda>h (c, r). jm_set c r h) [] entries\<rparr>"

definition getSuccessfulQuorumResults :: "quorum_manager \<Rightarrow> quorum_result list" where
  "getSuccessfulQuorumResults q = filter qu_reached (jm_values (qm_history q))"

definition getFailedQuorumResults :: "quorum_manager \<Rightarrow> quorum_result list" where
  "getFailedQuorumResults q = filter (\<lambda>r. \<not> qu_reached r) (jm_values (qm_history q))"

record quorum_statistics =
  qs_total :: nat
  qs_successful :: nat
  qs_failed :: nat
  qs_successRate :: rat
  qs_averageApprovalRate :: rat
  qs_averagePeerCount :: rat

definition quorumStatistics :: "quorum_manager \<Rightarrow> quorum_statistics" where
  "quorumStatistics q =
     (let results = jm_values (qm_history q); n = length results;
          good = length (filter qu_reached results)
      in \<lparr>qs_total = n, qs_successful = good, qs_failed = n - good,
          qs_successRate = percentage good n,
          qs_averageApprovalRate =
            (if n > 0 then sum_list (map qu_approvalPercentage results) / of_nat n else 0),
          qs_averagePeerCount =
            (if n > 0 then sum_list (map (\<lambda>r. of_int (qu_actualPeers r)) results) / of_nat n else 0)\<rparr>)"

definition clearQuorumResult :: "string \<Rightarrow> quorum_manager \<Rightarrow> bool \<times> quorum_manager" where
  "clearQuorumResult contributionId q = (jm_get (qm_history q) contributionId \<noteq> None,
     q\<lparr>qm_history := jm_delete contributionId (qm_history q)\<rparr>)"

definition clearHistory :: "quorum_manager \<Rightarrow> quorum_manager" where
  "clearHistory q = q\<lparr>qm_history := []\<rparr>"

definition importQuorums :: "(string \<times> quorum_result) list \<Rightarrow> int \<Rightarrow> quorum_manager \<Rightarrow> quorum_manager" where
  "importQuorums entries now q = foldl (\<lambda>q (c, r).
     if validateQuorum (qm_requirements q) r now then recordQuorum c r q else q) q entries"

definition calculateDynamicRequirements :: "int \<Rightarrow> quorum_requirements \<Rightarrow> quorum_requirements" where
  "calculateDynamicRequirements networkSize req = req\<lparr>
     qr_minPeers := min (max (networkSize div 100) (qr_minPeers req)) 100,
     qr_requiredAgreement := max (qr_requiredAgreement req)
       (if networkSize > 1000 then 6 / 10 else 66 / 100)\<rparr>"

definition estimateTimeToQuorum :: "int \<Rightarrow> int \<Rightarrow> rat \<Rightarrow> rat option" where
  \<comment> \<open>\<open>None\<close>: \<open>Infinity\<close>.\<close>
  "estimateTimeToQuorum currentVotes requiredVotes votingRate =
     (if currentVotes \<ge> requiredVotes then Some 0
      else if votingRate \<le> 0 then None
      else Some (of_int (requiredVotes - currentVotes) / votingRate * 1000))"

definition isQuorumLikely :: "quorum_requirements \<Rightarrow> int \<Rightarrow> int \<Rightarrow> rat \<Rightarrow> int \<Rightarrow> bool" where
  "isQuorumLikely req currentVotes requiredVotes votingRate elapsedTime =
     (case estimateTimeToQuorum currentVotes requiredVotes votingRate of
        None \<Rightarrow> False | Some t \<Rightarrow> t \<le> of_int (qr_timeout req - elapsedTime))"

end
