(* ===== verification/StringHash.thy ===== *)
theory StringHash
  imports Canonical
begin

text \<open>
  The 32-bit string hash that evidence, witnesses and ledger snapshots compute in the same way
  (\<open>hash = (hash << 5) - hash + code; hash = hash & hash\<close>), with \<open>Math.abs(hash).toString(16)\<close>.
\<close>

section \<open>The 32-bit hash\<close>

definition hash_step :: "32 word \<Rightarrow> char \<Rightarrow> 32 word" where
  "hash_step h c = push_bit 5 h - h + of_nat (of_char c)"

definition string_hash :: "string \<Rightarrow> 32 word" where
  "string_hash s = foldl hash_step 0 s"

fun hex_of_nat :: "nat \<Rightarrow> string" where
  "hex_of_nat n = (if n < 16 then [hex_digits ! n] else hex_of_nat (n div 16) @ [hex_digits ! (n mod 16)])"

declare hex_of_nat.simps [simp del]

definition hash_text :: "string \<Rightarrow> string" where
  "hash_text s = hex_of_nat (nat \<bar>sint (string_hash s)\<bar>)"

end
