(* ===== verification/Witness.thy ===== *)
theory Witness
  imports Complex_Main StringHash
begin

text \<open>
  Who takes part in consensus and on what evidence: \<open>src/consensus/PeerVerification.ts\<close>
  (fingerprints, fraud reports, the Sybil score), \<open>src/consensus/EvidenceManager.ts\<close> (pending and
  validated evidence, the 32-bit hash that names it) and \<open>src/consensus/WitnessManager.ts\<close> (which
  witnesses are selected). Scores are integers. The clock is read once per operation, except in
  \<open>createEvidence\<close>, which reads it twice: once for the time and once for the hash. An evidence object
  that the code shares between a caller and a table is the value in the table. \<open>localeCompare\<close> is a
  parameter.
\<close>

section \<open>Peer verification\<close>

record fingerprint =
  fp_peerId :: string
  fp_ipAddress :: "string option"
  fp_userAgent :: "string option"
  fp_behaviorPattern :: string
  fp_creationTime :: int
  fp_connectionCount :: int

datatype fraud_type = Sybil | Data_corruption | Fake_storage | Fake_ping | Duplicate_chunks | Manipulation

record fraud_report =
  fr_reportId :: string
  fr_accused :: string
  fr_fraudType :: fraud_type
  fr_evidence :: "string list"

record peer_verification =
  pv_fingerprints :: "(string, fingerprint) jsmap"
  pv_fraudReports :: "(string, fraud_report) jsmap"
  pv_suspicious :: "string list"
  pv_banned :: "string list"

definition peer_verification_init :: peer_verification where
  "peer_verification_init =
     \<lparr>pv_fingerprints = [], pv_fraudReports = [], pv_suspicious = [], pv_banned = []\<rparr>"

record verification_result =
  vr_verified :: bool
  vr_reason :: "string option"
  vr_confidence :: int

definition registerFingerprint :: "fingerprint \<Rightarrow> peer_verification \<Rightarrow> peer_verification" where
  "registerFingerprint f v = v\<lparr>pv_fingerprints := jm_set (fp_peerId f) f (pv_fingerprints v)\<rparr>"

definition verifyPeer :: "string \<Rightarrow> int \<Rightarrow> peer_verification \<Rightarrow> verification_result" where
  "verifyPeer peerId now v = (case jm_get (pv_fingerprints v) peerId of
     None \<Rightarrow> \<lparr>vr_verified = False, vr_reason = Some ''Peer fingerprint not found'', vr_confidence = 0\<rparr>
   | Some f \<Rightarrow>
       if peerId \<in> set (pv_banned v)
       then \<lparr>vr_verified = False, vr_reason = Some ''Peer is banned'', vr_confidence = 100\<rparr>
       else if peerId \<in> set (pv_suspicious v)
       then \<lparr>vr_verified = False, vr_reason = Some ''Peer is marked as suspicious'', vr_confidence = 75\<rparr>
       else if now - fp_creationTime f < 5 * 60 * 1000
       then \<lparr>vr_verified = True, vr_reason = Some ''Peer is recently created, monitor closely'',
              vr_confidence = 50\<rparr>
       else if fp_connectionCount f < 3
       then \<lparr>vr_verified = True, vr_reason = Some ''Peer has low activity'', vr_confidence = 70\<rparr>
       else \<lparr>vr_verified = True, vr_reason = None, vr_confidence = 100\<rparr>)"

record sybil_result =
  sb_isSybil :: bool
  sb_confidence :: int
  sb_evidence :: "string list"
  sb_relatedPeers :: "string list"

text \<open>What one other fingerprint adds: confidence and lines of evidence.\<close>

definition sybil_signs :: "fingerprint \<Rightarrow> string \<Rightarrow> fingerprint \<Rightarrow> (int \<times> string) list" where
  "sybil_signs f otherId other =
     (if fp_ipAddress other = fp_ipAddress f then [(30, ''Same IP address as peer '' @ otherId)] else [])
   @ (if fp_behaviorPattern other = fp_behaviorPattern f
      then [(20, ''Same behavior pattern as peer '' @ otherId)] else [])
   @ (if fp_userAgent other = fp_userAgent f then [(15, ''Same user agent as peer '' @ otherId)] else [])
   @ (if \<bar>fp_creationTime f - fp_creationTime other\<bar> < 2 * 60 * 1000
      then [(25, ''Created at same time as peer '' @ otherId)] else [])"

definition getRecentlyCreatedPeers :: "int \<Rightarrow> int \<Rightarrow> peer_verification \<Rightarrow> fingerprint list" where
  "getRecentlyCreatedPeers timeWindow now v =
     filter (\<lambda>f. now - fp_creationTime f < timeWindow) (jm_values (pv_fingerprints v))"

definition detectSybil :: "string \<Rightarrow> int \<Rightarrow> peer_verification \<Rightarrow> sybil_result" where
  "detectSybil peerId now v = (case jm_get (pv_fingerprints v) peerId of
     None \<Rightarrow> \<lparr>sb_isSybil = False, sb_confidence = 0, sb_evidence = [], sb_relatedPeers = []\<rparr>
   | Some f \<Rightarrow>
     (let others = filter (\<lambda>(k, other). k \<noteq> peerId) (pv_fingerprints v);
          signs = concat (map (\<lambda>(k, other). map (\<lambda>s. (k, s)) (sybil_signs f k other)) others);
          burst = length (getRecentlyCreatedPeers (2 * 60 * 1000) now v) > 10;
          confidence = sum_list (map (\<lambda>(k, n, t). n) signs) + (if burst then 40 else 0)
      in \<lparr>sb_isSybil = confidence > 50, sb_confidence = min 100 confidence,
          sb_evidence = map (\<lambda>(k, n, t). t) signs
            @ (if burst then [''Burst peer creation detected''] else []),
          sb_relatedPeers = map fst signs\<rparr>))"

definition reportFraud :: "fraud_report \<Rightarrow> peer_verification \<Rightarrow> peer_verification" where
  "reportFraud r v = v\<lparr>
     pv_fraudReports := jm_set (fr_reportId r) r (pv_fraudReports v),
     pv_suspicious := (if fr_fraudType r = Sybil \<or> fr_fraudType r = Manipulation
       then set_add (fr_accused r) (pv_suspicious v) else pv_suspicious v),
     pv_banned := (if fr_fraudType r = Sybil then set_add (fr_accused r) (pv_banned v)
       else pv_banned v)\<rparr>"

definition getFraudReports :: "string \<Rightarrow> peer_verification \<Rightarrow> fraud_report list" where
  "getFraudReports peerId v = filter (\<lambda>r. fr_accused r = peerId) (jm_values (pv_fraudReports v))"

definition getFraudReportsByType :: "fraud_type \<Rightarrow> peer_verification \<Rightarrow> fraud_report list" where
  "getFraudReportsByType t v = filter (\<lambda>r. fr_fraudType r = t) (jm_values (pv_fraudReports v))"

definition markSuspicious :: "string \<Rightarrow> peer_verification \<Rightarrow> peer_verification" where
  "markSuspicious p v = v\<lparr>pv_suspicious := set_add p (pv_suspicious v)\<rparr>"

definition markBanned :: "string \<Rightarrow> peer_verification \<Rightarrow> peer_verification" where
  "markBanned p v = v\<lparr>pv_banned := set_add p (pv_banned v)\<rparr>"

definition unmarkSuspicious :: "string \<Rightarrow> peer_verification \<Rightarrow> peer_verification" where
  "unmarkSuspicious p v = v\<lparr>pv_suspicious := removeAll p (pv_suspicious v)\<rparr>"

definition unbanPeer :: "string \<Rightarrow> peer_verification \<Rightarrow> peer_verification" where
  "unbanPeer p v = v\<lparr>pv_banned := removeAll p (pv_banned v)\<rparr>"

definition removeFingerprint :: "string \<Rightarrow> peer_verification \<Rightarrow> bool \<times> peer_verification" where
  "removeFingerprint p v = (jm_get (pv_fingerprints v) p \<noteq> None,
     v\<lparr>pv_fingerprints := jm_delete p (pv_fingerprints v)\<rparr>)"

section \<open>Evidence\<close>

datatype contribution_type = Storage | Bandwidth | Validation | Witnessing

fun type_name :: "contribution_type \<Rightarrow> string" where
  "type_name Storage = ''STORAGE''"
| "type_name Bandwidth = ''BANDWIDTH''"
| "type_name Validation = ''VALIDATION''"
| "type_name Witnessing = ''WITNESS''"

record peer_signature =
  sg_algorithm :: string
  sg_publicKey :: string
  sg_signature :: string
  sg_timestamp :: int

record evidence =
  ev_contributionId :: string
  ev_contributor :: string
  ev_type :: contribution_type
  ev_value :: int
  ev_timestamp :: int
  ev_chunkId :: "string option"
  ev_recipient :: "string option"
  ev_witnesses :: "string list"
  ev_signatures :: "peer_signature list"
  ev_hash :: string

record evidence_manager =
  em_evidence :: "(string, evidence) jsmap"
  em_pending :: "(string, evidence) jsmap"
  em_validated :: "(string, evidence) jsmap"

definition evidence_init :: evidence_manager where
  "evidence_init = \<lparr>em_evidence = [], em_pending = [], em_validated = []\<rparr>"

definition calculateEvidenceHash ::
  "string \<Rightarrow> string \<Rightarrow> contribution_type \<Rightarrow> int \<Rightarrow> int \<Rightarrow> string" where
  "calculateEvidenceHash contributionId contributor t value timestamp =
     hash_text (contributionId @ contributor @ type_name t @ show_int value @ show_int timestamp)"

definition createEvidence ::
  "string \<Rightarrow> string \<Rightarrow> contribution_type \<Rightarrow> int \<Rightarrow> string option \<Rightarrow> string option \<Rightarrow> int \<Rightarrow> int
     \<Rightarrow> evidence_manager \<Rightarrow> evidence \<times> evidence_manager" where
  "createEvidence contributionId contributor t value chunkId recipient now1 now2 m =
     (let e = \<lparr>ev_contributionId = contributionId, ev_contributor = contributor, ev_type = t,
         ev_value = value, ev_timestamp = now1, ev_chunkId = chunkId, ev_recipient = recipient,
         ev_witnesses = [], ev_signatures = [],
         ev_hash = calculateEvidenceHash contributionId contributor t value now2\<rparr>
      in (e, m\<lparr>em_pending := jm_set (ev_hash e) e (em_pending m)\<rparr>))"

definition addWitness :: "string \<Rightarrow> string \<Rightarrow> evidence_manager \<Rightarrow> bool \<times> evidence_manager" where
  "addWitness h witness m = (case jm_get (em_pending m) h of
     None \<Rightarrow> (False, m)
   | Some e \<Rightarrow> if witness \<in> set (ev_witnesses e) then (False, m)
       else (True, m\<lparr>em_pending := jm_set h (e\<lparr>ev_witnesses := ev_witnesses e @ [witness]\<rparr>)
               (em_pending m)\<rparr>))"

definition addSignature :: "string \<Rightarrow> peer_signature \<Rightarrow> evidence_manager \<Rightarrow> bool \<times> evidence_manager" where
  "addSignature h s m = (case jm_get (em_pending m) h of
     None \<Rightarrow> (False, m)
   | Some e \<Rightarrow> (True, m\<lparr>em_pending := jm_set h (e\<lparr>ev_signatures := ev_signatures e @ [s]\<rparr>)
               (em_pending m)\<rparr>))"

definition validateSignature :: "int \<Rightarrow> peer_signature \<Rightarrow> bool" where
  "validateSignature now s \<longleftrightarrow> sg_algorithm s = ''ed25519'' \<and> \<not> now - sg_timestamp s > 5 * 60 * 1000
     \<and> sg_publicKey s \<noteq> [] \<and> sg_signature s \<noteq> []"

definition evidence_hash_of :: "evidence \<Rightarrow> string" where
  "evidence_hash_of e = calculateEvidenceHash (ev_contributionId e) (ev_contributor e) (ev_type e)
     (ev_value e) (ev_timestamp e)"

definition validateEvidence :: "int \<Rightarrow> evidence \<Rightarrow> bool" where
  "validateEvidence now e \<longleftrightarrow> evidence_hash_of e = ev_hash e
     \<and> \<not> now - ev_timestamp e > 5 * 60 * 1000
     \<and> ev_witnesses e \<noteq> [] \<and> ev_signatures e \<noteq> []
     \<and> list_all (validateSignature now) (ev_signatures e)"

definition submitEvidence :: "evidence \<Rightarrow> int \<Rightarrow> evidence_manager \<Rightarrow> bool \<times> evidence_manager" where
  "submitEvidence e now m = (if \<not> validateEvidence now e then (False, m)
     else (True, m\<lparr>em_pending := jm_delete (ev_hash e) (em_pending m),
                   em_validated := jm_set (ev_hash e) e (em_validated m),
                   em_evidence := jm_set (ev_hash e) e (em_evidence m)\<rparr>))"

definition getEvidence :: "string \<Rightarrow> evidence_manager \<Rightarrow> evidence option" where
  "getEvidence h m = jm_get (em_evidence m) h"

definition getEvidenceByContributionId :: "string \<Rightarrow> evidence_manager \<Rightarrow> evidence list" where
  "getEvidenceByContributionId c m = filter (\<lambda>e. ev_contributionId e = c) (jm_values (em_evidence m))"

definition getEvidenceByContributor :: "string \<Rightarrow> evidence_manager \<Rightarrow> evidence list" where
  "getEvidenceByContributor p m = filter (\<lambda>e. ev_contributor e = p) (jm_values (em_evidence m))"

definition getEvidenceByType :: "contribution_type \<Rightarrow> evidence_manager \<Rightarrow> evidence list" where
  "getEvidenceByType t m = filter (\<lambda>e. ev_type e = t) (jm_values (em_evidence m))"

definition deleteEvidence :: "string \<Rightarrow> evidence_manager \<Rightarrow> bool \<times> evidence_manager" where
  "deleteEvidence h m = (jm_get (em_evidence m) h \<noteq> None,
     \<lparr>em_evidence = jm_delete h (em_evidence m), em_pending = jm_delete h (em_pending m),
      em_validated = jm_delete h (em_validated m)\<rparr>)"

definition deleteEvidenceByContributionId :: "string \<Rightarrow> evidence_manager \<Rightarrow> nat \<times> evidence_manager" where
  "deleteEvidenceByContributionId c m =
     (let hs = map fst (filter (\<lambda>(h, e). ev_contributionId e = c) (em_evidence m))
      in (length hs, foldl (\<lambda>m h. snd (deleteEvidence h m)) m hs))"

definition importEvidence :: "evidence list \<Rightarrow> int \<Rightarrow> evidence_manager \<Rightarrow> evidence_manager" where
  "importEvidence es now m = foldl (\<lambda>m e. if validateEvidence now e
     then m\<lparr>em_evidence := jm_set (ev_hash e) e (em_evidence m),
            em_validated := jm_set (ev_hash e) e (em_validated m)\<rparr> else m) m es"

section \<open>Witnesses\<close>

record witness_info =
  wi_peerId :: string
  wi_trustScore :: int
  wi_lastSeen :: int
  wi_region :: "string option"
  wi_selectedCount :: nat

record witness_criteria =
  wc_minTrustScore :: int
  wc_minCount :: nat
  wc_maxCount :: nat
  wc_requireGeographicDiversity :: bool
  wc_requireRandomSelection :: bool

definition defaultWitnessCriteria :: witness_criteria where
  "defaultWitnessCriteria = \<lparr>wc_minTrustScore = 600, wc_minCount = 3, wc_maxCount = 10,
     wc_requireGeographicDiversity = True, wc_requireRandomSelection = True\<rparr>"

record witness_manager =
  wm_witnesses :: "(string, witness_info) jsmap"
  wm_selected :: "(string, string list) jsmap"
  wm_criteria :: witness_criteria
  wm_counter :: nat

definition registerWitness ::
  "string \<Rightarrow> int \<Rightarrow> string option \<Rightarrow> int \<Rightarrow> witness_manager \<Rightarrow> witness_manager" where
  "registerWitness p trustScore region now m = m\<lparr>wm_witnesses := jm_set p
     \<lparr>wi_peerId = p, wi_trustScore = trustScore, wi_lastSeen = now, wi_region = region,
      wi_selectedCount = 0\<rparr> (wm_witnesses m)\<rparr>"

definition updateWitnessTrustScore :: "string \<Rightarrow> int \<Rightarrow> int \<Rightarrow> witness_manager \<Rightarrow> bool \<times> witness_manager" where
  "updateWitnessTrustScore p trustScore now m = (case jm_get (wm_witnesses m) p of
     None \<Rightarrow> (False, m)
   | Some w \<Rightarrow> (True, m\<lparr>wm_witnesses := jm_set p (w\<lparr>wi_trustScore := trustScore, wi_lastSeen := now\<rparr>)
       (wm_witnesses m)\<rparr>))"

definition witness_eligible :: "witness_criteria \<Rightarrow> string list \<Rightarrow> int \<Rightarrow> witness_info \<Rightarrow> bool" where
  "witness_eligible c excluded now w \<longleftrightarrow> \<not> wi_trustScore w < wc_minTrustScore c
     \<and> wi_peerId w \<notin> set excluded \<and> \<not> now - wi_lastSeen w > 24 * 60 * 60 * 1000"

definition getEligibleWitnesses :: "string list \<Rightarrow> int \<Rightarrow> witness_manager \<Rightarrow> witness_info list" where
  "getEligibleWitnesses excluded now m =
     filter (witness_eligible (wm_criteria m) excluded now) (jm_values (wm_witnesses m))"

definition hashPeerId :: "string \<Rightarrow> nat \<Rightarrow> string" where
  "hashPeerId p counter = hash_text (p @ ''_'' @ show_nat counter)"

definition selectRandomWitnesses ::
  "(string \<Rightarrow> string \<Rightarrow> int) \<Rightarrow> witness_info list \<Rightarrow> nat \<Rightarrow> string list" where
  "selectRandomWitnesses localeCompare eligible counter = map wi_peerId
     (js_sort (\<lambda>a b. localeCompare (hashPeerId (wi_peerId a) counter) (hashPeerId (wi_peerId b) counter))
       eligible)"

definition selectTopWitnesses :: "witness_info list \<Rightarrow> string list" where
  "selectTopWitnesses eligible =
     map wi_peerId (js_sort (\<lambda>a b. wi_trustScore b - wi_trustScore a) eligible)"

definition regions_of :: "(string, witness_info) jsmap \<Rightarrow> string list \<Rightarrow> string list" where
  "regions_of ws selected = js_uniq (List.map_filter (\<lambda>p. case jm_get ws p of
     None \<Rightarrow> None
   | Some w \<Rightarrow> (case wi_region w of None \<Rightarrow> None | Some r \<Rightarrow> if r = [] then None else Some r)) selected)"

text \<open>The loop over the eligible witnesses, with the regions and witnesses selected so far.\<close>

fun add_diverse ::
  "witness_info list \<Rightarrow> string list \<Rightarrow> string list \<Rightarrow> string list" where
  "add_diverse [] regions chosen = []"
| "add_diverse (w # ws) regions chosen =
     (if wi_peerId w \<in> set chosen then add_diverse ws regions chosen
      else (case wi_region w of
        None \<Rightarrow> add_diverse ws regions chosen
      | Some r \<Rightarrow>
          if r = [] \<or> r \<in> set regions then add_diverse ws regions chosen
          else wi_peerId w # (if Suc (length regions) \<ge> 3 then []
                 else add_diverse ws (regions @ [r]) (wi_peerId w # chosen))))"

definition ensureGeographicDiversity ::
  "(string, witness_info) jsmap \<Rightarrow> string list \<Rightarrow> witness_info list \<Rightarrow> string list" where
  "ensureGeographicDiversity ws selected eligible =
     (let regions = regions_of ws selected
      in if length regions \<ge> 3 then selected else selected @ add_diverse eligible regions selected)"

definition count_selected :: "(string, witness_info) jsmap \<Rightarrow> string \<Rightarrow> (string, witness_info) jsmap" where
  "count_selected ws p = (case jm_get ws p of None \<Rightarrow> ws
     | Some w \<Rightarrow> jm_set p (w\<lparr>wi_selectedCount := Suc (wi_selectedCount w)\<rparr>) ws)"

definition selectWitnesses ::
  "(string \<Rightarrow> string \<Rightarrow> int) \<Rightarrow> string \<Rightarrow> string list \<Rightarrow> int \<Rightarrow> witness_manager
     \<Rightarrow> string list \<times> witness_manager" where
  "selectWitnesses localeCompare contributionId excluded now m =
     (let eligible = getEligibleWitnesses excluded now m; cr = wm_criteria m in
      if length eligible < wc_minCount cr then ([], m)
      else let counter = (if wc_requireRandomSelection cr then Suc (wm_counter m) else wm_counter m);
               selected0 = (if wc_requireRandomSelection cr
                 then selectRandomWitnesses localeCompare eligible counter
                 else selectTopWitnesses eligible);
               selected1 = (if wc_requireGeographicDiversity cr
                 then ensureGeographicDiversity (wm_witnesses m) selected0 eligible else selected0);
               selected = take (wc_maxCount cr) selected1
           in (selected, m\<lparr>wm_counter := counter,
                 wm_selected := jm_set contributionId (js_uniq selected) (wm_selected m),
                 wm_witnesses := foldl count_selected (wm_witnesses m) selected\<rparr>))"

definition verifyWitnessSignature :: "string \<Rightarrow> peer_signature \<Rightarrow> int \<Rightarrow> witness_manager \<Rightarrow> bool" where
  "verifyWitnessSignature p s now m \<longleftrightarrow> jm_get (wm_witnesses m) p \<noteq> None
     \<and> sg_algorithm s = ''ed25519'' \<and> \<not> now - sg_timestamp s > 5 * 60 * 1000 \<and> sg_publicKey s = p"

definition getSelectedWitnesses :: "string \<Rightarrow> witness_manager \<Rightarrow> string list" where
  "getSelectedWitnesses contributionId m = or_else (jm_get (wm_selected m) contributionId) []"

definition removeWitness :: "string \<Rightarrow> witness_manager \<Rightarrow> bool \<times> witness_manager" where
  "removeWitness p m = (jm_get (wm_witnesses m) p \<noteq> None,
     m\<lparr>wm_witnesses := jm_delete p (wm_witnesses m)\<rparr>)"

definition clearWitnesses :: "witness_manager \<Rightarrow> witness_manager" where
  "clearWitnesses m = m\<lparr>wm_witnesses := [], wm_selected := []\<rparr>"

definition importWitnesses :: "witness_info list \<Rightarrow> witness_manager \<Rightarrow> witness_manager" where
  "importWitnesses ws m = m\<lparr>wm_witnesses := foldl (\<lambda>t w. jm_set (wi_peerId w) w t) (wm_witnesses m) ws\<rparr>"

end
