(* ===== verification/Consensus.thy ===== *)
theory Consensus
  imports Votes Witness TrustedPeers
begin

text \<open>
  Consensus on contributions: \<open>src/consensus/ConsensusRound.ts\<close> (the life of a round),
  \<open>src/consensus/ConsensusEngine.ts\<close> (the rounds by id, the managers they share, snapshots) and
  \<open>src/services/consensus/PeerConsensusProtocol.ts\<close> with \<open>ConsensusVoteCrypto.ts\<close> (proposals, signed
  votes and results between peers). Events, logging and the queue that persists snapshots are left
  out; what is stored is the snapshot itself. A message is one of the three well-typed payloads or
  anything else. Signing and verifying are parameters, the clock is read once per operation.
\<close>

section \<open>Rounds\<close>

datatype round_status = Pending | Voting | Reached | Failed | Expired

datatype round_outcome = Approved | Rejected

record consensus_round =
  rn_roundId :: string
  rn_contributionId :: string
  rn_status :: round_status
  rn_startTime :: int
  rn_endTime :: "int option"
  rn_witnesses :: "string list"
  rn_votes :: "contribution_vote list"
  rn_quorumRequired :: int
  rn_quorumReached :: bool
  rn_approvalPercentage :: rat
  rn_result :: "round_outcome option"

record managers =
  mg_votes :: vote_manager
  mg_quorum :: quorum_manager
  mg_evidence :: evidence_manager
  mg_witness :: witness_manager
  mg_verification :: peer_verification

definition new_round :: "string \<Rightarrow> string \<Rightarrow> int \<Rightarrow> managers \<Rightarrow> consensus_round" where
  "new_round roundId contributionId now g = \<lparr>rn_roundId = roundId, rn_contributionId = contributionId,
     rn_status = Pending, rn_startTime = now, rn_endTime = None, rn_witnesses = [], rn_votes = [],
     rn_quorumRequired = qr_minPeers (qm_requirements (mg_quorum g)), rn_quorumReached = False,
     rn_approvalPercentage = 0, rn_result = None\<rparr>"

definition expireIfTimedOut :: "managers \<Rightarrow> int \<Rightarrow> consensus_round \<Rightarrow> bool \<times> consensus_round" where
  "expireIfTimedOut g now r =
     (if rn_status r = Voting \<and> now - rn_startTime r \<ge> qr_timeout (qm_requirements (mg_quorum g))
      then (True, r\<lparr>rn_status := Expired, rn_endTime := Some now\<rparr>) else (False, r))"

definition round_start :: "managers \<Rightarrow> int \<Rightarrow> consensus_round \<Rightarrow> consensus_round" where
  "round_start g now r = snd (expireIfTimedOut g now (r\<lparr>rn_status := Voting\<rparr>))"

definition round_selectWitnesses ::
  "(string \<Rightarrow> string \<Rightarrow> int) \<Rightarrow> string list \<Rightarrow> int \<Rightarrow> consensus_round \<times> managers
     \<Rightarrow> string list \<times> consensus_round \<times> managers" where
  "round_selectWitnesses localeCompare excluded now rg = (case rg of (r, g) \<Rightarrow>
     (let (ws, w) = selectWitnesses localeCompare (rn_contributionId r) excluded now (mg_witness g)
      in (ws, r\<lparr>rn_witnesses := ws\<rparr>, g\<lparr>mg_witness := w\<rparr>)))"

definition round_submitEvidence :: "string \<Rightarrow> int \<Rightarrow> managers \<Rightarrow> bool \<times> managers" where
  "round_submitEvidence evidenceHash now g = (case getEvidence evidenceHash (mg_evidence g) of
     None \<Rightarrow> (False, g)
   | Some e \<Rightarrow> (let (b, m) = submitEvidence e now (mg_evidence g) in (b, g\<lparr>mg_evidence := m\<rparr>)))"

definition complete :: "round_outcome \<Rightarrow> int \<Rightarrow> consensus_round \<Rightarrow> consensus_round" where
  "complete result now r = r\<lparr>rn_status := Reached, rn_result := Some result, rn_endTime := Some now\<rparr>"

definition checkQuorum :: "int \<Rightarrow> consensus_round \<times> managers \<Rightarrow> consensus_round \<times> managers" where
  "checkQuorum now rg = (case rg of (r, g) \<Rightarrow>
     (let counts = countVotes (rn_contributionId r) (mg_votes g);
          q = calculateQuorum (qm_requirements (mg_quorum g)) (vc_approve counts) (vc_reject counts)
                (vc_abstain counts) now;
          r1 = r\<lparr>rn_approvalPercentage := qu_approvalPercentage q\<rparr>
      in if qu_reached q \<and> \<not> rn_quorumReached r1
         then (complete (if qu_approvalPercentage q > qu_rejectPercentage q then Approved else Rejected)
                 now (r1\<lparr>rn_quorumReached := True\<rparr>),
               g\<lparr>mg_quorum := recordQuorum (rn_contributionId r) q (mg_quorum g)\<rparr>)
         else (r1, g)))"

definition round_castVote ::
  "string \<Rightarrow> string \<Rightarrow> string option \<Rightarrow> int \<Rightarrow> consensus_round \<times> managers
     \<Rightarrow> bool \<times> consensus_round \<times> managers" where
  "round_castVote voter vote reason now rg = (case rg of (r, g) \<Rightarrow>
     (if \<not> vr_verified (verifyPeer voter now (mg_verification g)) then (False, r, g)
      else if hasVoted (rn_contributionId r) voter (mg_votes g) then (False, r, g)
      else (case tryCastVote (rn_contributionId r) voter vote reason None now (mg_votes g) of
        (Cast_accepted v False, m) \<Rightarrow>
          (True, checkQuorum now (r\<lparr>rn_votes := rn_votes r @ [v]\<rparr>, g\<lparr>mg_votes := m\<rparr>))
      | (c, m) \<Rightarrow> (False, r, g\<lparr>mg_votes := m\<rparr>))))"

definition round_recordVerifiedVote ::
  "string \<Rightarrow> string \<Rightarrow> string option \<Rightarrow> string option \<Rightarrow> int \<Rightarrow> consensus_round \<times> managers
     \<Rightarrow> bool \<times> consensus_round \<times> managers" where
  "round_recordVerifiedVote voter vote reason signature now rg = (case rg of (r, g) \<Rightarrow>
     (case tryCastVote (rn_contributionId r) voter vote reason signature now (mg_votes g) of
        (Cast_accepted v False, m) \<Rightarrow>
          (True, checkQuorum now (r\<lparr>rn_votes := rn_votes r @ [v]\<rparr>, g\<lparr>mg_votes := m\<rparr>))
      | (Cast_accepted v True, m) \<Rightarrow> (True, r, g\<lparr>mg_votes := m\<rparr>)
      | (c, m) \<Rightarrow> (False, r, g\<lparr>mg_votes := m\<rparr>)))"

definition round_recordExternalResult ::
  "round_outcome \<Rightarrow> rat \<Rightarrow> int \<Rightarrow> consensus_round \<Rightarrow> bool \<times> consensus_round" where
  "round_recordExternalResult result approval decidedAt r =
     (if rn_status r = Reached
      then (rn_result r = Some result \<and> rn_approvalPercentage r = approval, r)
      else if rn_status r = Failed \<or> rn_status r = Expired then (False, r)
      else (True, r\<lparr>rn_status := Reached, rn_result := Some result, rn_quorumReached := True,
              rn_approvalPercentage := approval, rn_endTime := Some decidedAt\<rparr>))"

definition round_fail :: "int \<Rightarrow> consensus_round \<Rightarrow> consensus_round" where
  "round_fail now r = r\<lparr>rn_status := Failed, rn_endTime := Some now\<rparr>"

definition round_cancel :: "int \<Rightarrow> consensus_round \<Rightarrow> consensus_round" where
  "round_cancel now r = r\<lparr>rn_status := Failed, rn_endTime := Some now\<rparr>"

definition getDuration :: "int \<Rightarrow> consensus_round \<Rightarrow> int" where
  \<comment> \<open>\<open>endTime || now\<close>: an end at time zero counts as none.\<close>
  "getDuration now r = (let e = or_else (rn_endTime r) 0 in (if e = 0 then now else e) - rn_startTime r)"

definition isComplete :: "consensus_round \<Rightarrow> bool" where
  "isComplete r \<longleftrightarrow> rn_status r = Reached \<or> rn_status r = Failed \<or> rn_status r = Expired"

definition isSuccessful :: "consensus_round \<Rightarrow> bool" where
  "isSuccessful r \<longleftrightarrow> rn_status r = Reached \<and> rn_result r = Some Approved"

section \<open>The engine\<close>

record engine =
  ng_rounds :: "(string, consensus_round) jsmap"
  ng_managers :: managers

definition managers_init :: managers where
  "managers_init = \<lparr>mg_votes = vote_manager_init,
     mg_quorum = \<lparr>qm_requirements = defaultQuorumRequirements, qm_history = []\<rparr>,
     mg_evidence = evidence_init,
     mg_witness = \<lparr>wm_witnesses = [], wm_selected = [], wm_criteria = defaultWitnessCriteria,
       wm_counter = 0\<rparr>,
     mg_verification = peer_verification_init\<rparr>"

definition engine_init :: engine where
  "engine_init = \<lparr>ng_rounds = [], ng_managers = managers_init\<rparr>"

definition round_id_value ::
  "string \<Rightarrow> string \<Rightarrow> contribution_type \<Rightarrow> int \<Rightarrow> int \<Rightarrow> jsval" where
  "round_id_value contributionId contributor t value startedAt = Jv_obj
     [(''contributionId'', Jv_str contributionId), (''contributor'', Jv_str contributor),
      (''type'', Jv_str (type_name t)), (''value'', Jv_num value), (''startedAt'', Jv_num startedAt)]"

definition startContributionRound ::
  "string \<Rightarrow> string \<Rightarrow> contribution_type \<Rightarrow> int \<Rightarrow> string option \<Rightarrow> int option \<Rightarrow> int \<Rightarrow> engine
     \<Rightarrow> string \<times> engine" where
  "startContributionRound contributionId contributor t value roundId0 startedAt0 now e =
     (let startedAt = or_else startedAt0 now;
          roundId = or_else roundId0 (''round_'' @ take 32
            (sha256Hex (canonical_text (round_id_value contributionId contributor t value startedAt))))
      in case jm_get (ng_rounds e) roundId of
           Some r \<Rightarrow> (roundId, e)
         | None \<Rightarrow> (roundId, e\<lparr>ng_rounds := jm_set roundId
               (new_round roundId contributionId now (ng_managers e)) (ng_rounds e)\<rparr>))"

definition getRoundByContributionId :: "string \<Rightarrow> engine \<Rightarrow> (string \<times> consensus_round) option" where
  "getRoundByContributionId contributionId e =
     find (\<lambda>(k, r). rn_contributionId r = contributionId) (ng_rounds e)"

definition find_round :: "string \<Rightarrow> string \<Rightarrow> engine \<Rightarrow> (string \<times> consensus_round) option" where
  "find_round roundId contributionId e = (case jm_get (ng_rounds e) roundId of
     Some r \<Rightarrow> Some (roundId, r) | None \<Rightarrow> getRoundByContributionId contributionId e)"

definition put_round :: "string \<Rightarrow> consensus_round \<times> managers \<Rightarrow> engine \<Rightarrow> engine" where
  "put_round k rg e = e\<lparr>ng_rounds := jm_set k (fst rg) (ng_rounds e), ng_managers := snd rg\<rparr>"

definition engine_recordVerifiedVote ::
  "string \<Rightarrow> string \<Rightarrow> string \<Rightarrow> string \<Rightarrow> string option \<Rightarrow> string option \<Rightarrow> int \<Rightarrow> engine
     \<Rightarrow> bool \<times> engine" where
  "engine_recordVerifiedVote roundId contributionId voter vote reason signature now e =
     (case find_round roundId contributionId e of
        None \<Rightarrow> (False, e)
      | Some (k, r) \<Rightarrow> (let (b, rg) = round_recordVerifiedVote voter vote reason signature now
                               (r, ng_managers e)
                        in (b, put_round k rg e)))"

definition engine_recordExternalResult ::
  "string \<Rightarrow> string \<Rightarrow> round_outcome option \<Rightarrow> rat \<Rightarrow> int \<Rightarrow> engine \<Rightarrow> bool \<times> engine" where
  \<comment> \<open>No round_outcome: \<open>'pending'\<close>.\<close>
  "engine_recordExternalResult roundId contributionId result approval decidedAt e =
     (case result of
        None \<Rightarrow> (False, e)
      | Some out \<Rightarrow> (case find_round roundId contributionId e of
          None \<Rightarrow> (False, e)
        | Some (k, r) \<Rightarrow> (let (b, r1) = round_recordExternalResult out approval decidedAt r
                          in (b, put_round k (r1, ng_managers e) e))))"

definition getActiveRounds :: "engine \<Rightarrow> consensus_round list" where
  "getActiveRounds e = filter (\<lambda>r. \<not> isComplete r) (jm_values (ng_rounds e))"

definition getCompletedRounds :: "engine \<Rightarrow> consensus_round list" where
  "getCompletedRounds e = filter isComplete (jm_values (ng_rounds e))"

definition getSuccessfulRounds :: "engine \<Rightarrow> consensus_round list" where
  "getSuccessfulRounds e = filter isSuccessful (jm_values (ng_rounds e))"

definition removeRound :: "string \<Rightarrow> engine \<Rightarrow> bool \<times> engine" where
  "removeRound roundId e = (case jm_get (ng_rounds e) roundId of
     Some r \<Rightarrow> (True, e\<lparr>ng_rounds := jm_delete roundId (ng_rounds e)\<rparr>)
   | None \<Rightarrow> (False, e))"

definition clearAllRounds :: "engine \<Rightarrow> engine" where
  "clearAllRounds e = e\<lparr>ng_rounds := []\<rparr>"

record consensus_statistics =
  cs_totalRounds :: nat
  cs_successfulRounds :: nat
  cs_failedRounds :: nat
  cs_averageRoundTime :: rat
  cs_totalContributions :: nat
  cs_averageApprovalRate :: rat
  cs_fraudReports :: nat
  cs_sybilDetections :: nat

definition engineStatistics :: "int \<Rightarrow> engine \<Rightarrow> consensus_statistics" where
  "engineStatistics now e =
     (let rounds = jm_values (ng_rounds e); good = getSuccessfulRounds e; n = length rounds;
          verification = mg_verification (ng_managers e)
      in \<lparr>cs_totalRounds = n, cs_successfulRounds = length good,
          cs_failedRounds = length (filter (\<lambda>r. isComplete r \<and> \<not> isSuccessful r) rounds),
          cs_averageRoundTime = (if n > 0
            then of_int (sum_list (map (getDuration now) rounds)) / of_nat n else 0),
          cs_totalContributions = length (em_evidence (mg_evidence (ng_managers e))),
          cs_averageApprovalRate = (if good \<noteq> []
            then sum_list (map rn_approvalPercentage good) / of_nat (length good) else 0),
          cs_fraudReports = length (pv_fraudReports verification),
          cs_sybilDetections = length (getFraudReportsByType Sybil verification)\<rparr>)"

definition engine_reset :: "engine \<Rightarrow> engine" where
  "engine_reset e = (let e1 = clearAllRounds e; g = ng_managers e1 in e1\<lparr>ng_managers :=
     g\<lparr>mg_evidence := evidence_init, mg_witness := clearWitnesses (mg_witness g),
       mg_votes := clearAllVotes (mg_votes g), mg_quorum := clearHistory (mg_quorum g),
       mg_verification := peer_verification_init\<rparr>\<rparr>)"

record consensus_snapshot =
  ks_rounds :: "consensus_round list"
  ks_votes :: "contribution_vote list"
  ks_quorumHistory :: "(string \<times> quorum_result) list"
  ks_capturedAt :: int

definition createSnapshot :: "int \<Rightarrow> engine \<Rightarrow> consensus_snapshot" where
  "createSnapshot now e = \<lparr>ks_rounds = jm_values (ng_rounds e),
     ks_votes = getAllVotes (mg_votes (ng_managers e)),
     ks_quorumHistory = qm_history (mg_quorum (ng_managers e)), ks_capturedAt = now\<rparr>"

definition restoreSnapshot :: "consensus_snapshot \<Rightarrow> engine \<Rightarrow> engine" where
  "restoreSnapshot s e = (let g = ng_managers e in
     \<lparr>ng_rounds = foldl (\<lambda>m r. jm_set (rn_roundId r) r m) [] (ks_rounds s),
      ng_managers = g\<lparr>mg_votes := restoreVotes (ks_votes s) (mg_votes g),
        mg_quorum := restoreSnapshotEntries (ks_quorumHistory s) (mg_quorum g)\<rparr>\<rparr>)"

section \<open>The protocol\<close>

record consensus_peer =
  kp_localPeerId :: string
  kp_trusted :: "string \<Rightarrow> trusted_peer option"
  kp_connected :: "string list"
  kp_publicIdentity :: "string option"
  kp_sign :: "string \<Rightarrow> string"
  kp_verify :: "string \<Rightarrow> string \<Rightarrow> string \<Rightarrow> bool"

record proposal_payload =
  pp_roundId :: string
  pp_contributionId :: string
  pp_contributor :: string
  pp_contributionType :: contribution_type
  pp_value :: int
  pp_proposedAt :: int

record vote_payload =
  vp_roundId :: string
  vp_contributionId :: string
  vp_voter :: string
  vp_vote :: vote_type
  vp_reason :: "string option"
  vp_publicKey :: string
  vp_signature :: string
  vp_votedAt :: int

record result_payload =
  sp_roundId :: string
  sp_contributionId :: string
  sp_result :: "round_outcome option"
  sp_approvalPercentage :: rat
  sp_decidedAt :: int

datatype consensus_message =
    Proposal_message proposal_payload
  | Vote_message vote_payload
  | Result_message result_payload
  | Other_message

definition isVerified :: "consensus_peer \<Rightarrow> string \<Rightarrow> bool" where
  "isVerified p peerId = (case kp_trusted p peerId of None \<Rightarrow> False | Some t \<Rightarrow> tp_trustStatus t = Trust_verified)"

definition vote_signable_value ::
  "string \<Rightarrow> string \<Rightarrow> string \<Rightarrow> vote_type \<Rightarrow> string option \<Rightarrow> int \<Rightarrow> jsval" where
  "vote_signable_value roundId contributionId voter vote reason votedAt = Jv_obj
     [(''roundId'', Jv_str roundId), (''contributionId'', Jv_str contributionId),
      (''voter'', Jv_str voter), (''vote'', Jv_str (vote_name vote)),
      (''reason'', case reason of None \<Rightarrow> Jv_null | Some t \<Rightarrow> Jv_str t), (''votedAt'', Jv_num votedAt)]"

definition getConsensusVoteSignableBytes ::
  "string \<Rightarrow> string \<Rightarrow> string \<Rightarrow> vote_type \<Rightarrow> string option \<Rightarrow> int \<Rightarrow> string" where
  "getConsensusVoteSignableBytes roundId contributionId voter vote reason votedAt =
     canonical_text (vote_signable_value roundId contributionId voter vote reason votedAt)"

definition createVotePayload ::
  "consensus_peer \<Rightarrow> proposal_payload \<Rightarrow> vote_type \<Rightarrow> string option \<Rightarrow> int \<Rightarrow> vote_payload option" where
  \<comment> \<open>\<open>None\<close>: it throws. The reason is not part of what is signed.\<close>
  "createVotePayload p proposal vote reason now = (case kp_publicIdentity p of
     None \<Rightarrow> None
   | Some key \<Rightarrow> if key = [] then None else
       Some \<lparr>vp_roundId = pp_roundId proposal, vp_contributionId = pp_contributionId proposal,
         vp_voter = kp_localPeerId p, vp_vote = vote, vp_reason = reason, vp_publicKey = key,
         vp_signature = kp_sign p (getConsensusVoteSignableBytes (pp_roundId proposal)
           (pp_contributionId proposal) (kp_localPeerId p) vote None now),
         vp_votedAt = now\<rparr>)"

definition record_vote_payload :: "vote_payload \<Rightarrow> int \<Rightarrow> engine \<Rightarrow> bool \<times> engine" where
  "record_vote_payload v now e = engine_recordVerifiedVote (vp_roundId v) (vp_contributionId v)
     (vp_voter v) (vote_name (vp_vote v)) (vp_reason v) (Some (vp_signature v)) now e"

text \<open>Every handler returns whether it threw, what it sent and the engine.\<close>

type_synonym handled = "bool \<times> (string \<times> consensus_message) list \<times> engine"

definition proposeContribution ::
  "consensus_peer \<Rightarrow> string \<Rightarrow> string \<Rightarrow> contribution_type \<Rightarrow> int \<Rightarrow> string list option \<Rightarrow> int \<Rightarrow> engine
     \<Rightarrow> string \<times> (string \<times> consensus_message) list \<times> engine" where
  "proposeContribution p contributionId contributor t value targets now e =
     (let (k, e1) = startContributionRound contributionId contributor t value None None now e;
          r = round_start (ng_managers e1) now (the (jm_get (ng_rounds e1) k));
          m = Proposal_message \<lparr>pp_roundId = rn_roundId r, pp_contributionId = contributionId,
            pp_contributor = contributor, pp_contributionType = t, pp_value = value,
            pp_proposedAt = rn_startTime r\<rparr>
      in (rn_roundId r,
          map (\<lambda>q. (q, m)) (filter (\<lambda>q. isVerified p q \<and> q \<in> set (kp_connected p))
            (or_else targets (kp_connected p))),
          put_round k (r, ng_managers e1) e1))"

definition broadcastResultIfComplete ::
  "consensus_peer \<Rightarrow> string \<Rightarrow> int \<Rightarrow> engine \<Rightarrow> (string \<times> consensus_message) list" where
  "broadcastResultIfComplete p roundId now e = (case jm_get (ng_rounds e) roundId of
     None \<Rightarrow> []
   | Some r \<Rightarrow> (case (rn_status r, rn_result r) of
       (Reached, Some out) \<Rightarrow> map (\<lambda>q. (q, Result_message \<lparr>sp_roundId = rn_roundId r,
           sp_contributionId = rn_contributionId r, sp_result = Some out,
           sp_approvalPercentage = rn_approvalPercentage r,
           sp_decidedAt = or_else (rn_endTime r) now\<rparr>)) (filter (isVerified p) (kp_connected p))
     | _ \<Rightarrow> []))"

definition handleProposal :: "consensus_peer \<Rightarrow> string \<Rightarrow> proposal_payload \<Rightarrow> int \<Rightarrow> engine \<Rightarrow> handled" where
  "handleProposal p peerId proposal now e =
     (let (k, e1) = startContributionRound (pp_contributionId proposal) (pp_contributor proposal)
            (pp_contributionType proposal) (pp_value proposal) (Some (pp_roundId proposal))
            (Some (pp_proposedAt proposal)) now e;
          r = the (jm_get (ng_rounds e1) k);
          e2 = (if rn_status r = Pending
                then put_round k (round_start (ng_managers e1) now r, ng_managers e1) e1 else e1)
      in case createVotePayload p proposal Approve None now of
           None \<Rightarrow> (True, [], e2)
         | Some v \<Rightarrow> (False, [(peerId, Vote_message v)], snd (record_vote_payload v now e2)))"

definition vote_authentic :: "consensus_peer \<Rightarrow> string \<Rightarrow> vote_payload \<Rightarrow> bool" where
  "vote_authentic p peerId v \<longleftrightarrow> vp_voter v = peerId
     \<and> (case kp_trusted p peerId of
          None \<Rightarrow> True
        | Some t \<Rightarrow> (case tp_publicKey t of
            None \<Rightarrow> True | Some k \<Rightarrow> k = [] \<or> k = vp_publicKey v))
     \<and> kp_verify p (getConsensusVoteSignableBytes (vp_roundId v) (vp_contributionId v) (vp_voter v)
         (vp_vote v) (vp_reason v) (vp_votedAt v)) (vp_signature v) (vp_publicKey v)"

definition handleVote :: "consensus_peer \<Rightarrow> string \<Rightarrow> vote_payload \<Rightarrow> int \<Rightarrow> engine \<Rightarrow> handled" where
  "handleVote p peerId v now e =
     (if \<not> vote_authentic p peerId v then (False, [], e)
      else (let (applied, e1) = record_vote_payload v now e
            in (False, if applied then broadcastResultIfComplete p (vp_roundId v) now e1 else [], e1)))"

definition handleResult :: "consensus_peer \<Rightarrow> string \<Rightarrow> result_payload \<Rightarrow> engine \<Rightarrow> handled" where
  "handleResult p peerId s e = (False, [],
     if isVerified p peerId
     then snd (engine_recordExternalResult (sp_roundId s) (sp_contributionId s) (sp_result s)
            (sp_approvalPercentage s) (sp_decidedAt s) e)
     else e)"

definition handleMessage :: "consensus_peer \<Rightarrow> string \<Rightarrow> consensus_message \<Rightarrow> int \<Rightarrow> engine \<Rightarrow> handled" where
  "handleMessage p peerId msg now e =
     (if \<not> isVerified p peerId then (False, [], e)
      else (case msg of
        Proposal_message x \<Rightarrow> handleProposal p peerId x now e
      | Vote_message x \<Rightarrow> handleVote p peerId x now e
      | Result_message x \<Rightarrow> handleResult p peerId x e
      | Other_message \<Rightarrow> (False, [], e)))"

end
