(* ===== verification/Votes_Claims.thy ===== *)
theory Votes_Claims
  imports Votes
begin

text \<open>
  What the vote tables promise: the two indexes always agree with the table of votes, so a
  contribution has at most one vote of every voter, votes are neither changed nor lost by later
  votes, and storing and restoring the votes gives the same tables. A count that reaches the quorum
  is a count of enough votes with enough agreement.
\<close>

section \<open>The invariant of the tables\<close>

definition ids_where :: "(contribution_vote \<Rightarrow> bool) \<Rightarrow> (string, contribution_vote) jsmap \<Rightarrow> string list" where
  "ids_where P t = map fst (filter (\<lambda>(k, v). P v) t)"

definition indexed :: "(contribution_vote \<Rightarrow> string) \<Rightarrow> (string, string list) jsmap
    \<Rightarrow> (string, contribution_vote) jsmap \<Rightarrow> bool" where
  "indexed f ix t \<longleftrightarrow> distinct (jm_keys ix)
     \<and> (\<forall>c. or_else (jm_get ix c) [] = ids_where (\<lambda>v. f v = c) t)"

definition votes_ok :: "vote_manager \<Rightarrow> bool" where
  "votes_ok m \<longleftrightarrow> distinct (jm_keys (vm_votes m)) \<and> (\<forall>(k, v) \<in> set (vm_votes m). k = vote_key v)
     \<and> indexed cv_contributionId (vm_byContribution m) (vm_votes m)
     \<and> indexed cv_voter (vm_byVoter m) (vm_votes m)"

lemma votes_ok_init [simp]: "votes_ok vote_manager_init"
  by (simp add: votes_ok_def vote_manager_init_def indexed_def ids_where_def or_else_def)

lemma ids_where_subset: "set (ids_where P t) \<subseteq> set (jm_keys t)"
  by (auto simp: ids_where_def)

lemma ids_where_append: "ids_where P (t @ u) = ids_where P t @ ids_where P u"
  by (simp add: ids_where_def)

lemma jm_set_new: "k \<notin> set (jm_keys t) \<Longrightarrow> jm_set k v t = t @ [(k, v)]"
  by (induction t) auto

lemma map_of_delete_filter: "jm_delete k t = filter (\<lambda>p. fst p \<noteq> k) t"
  by (auto simp: AList.delete_eq intro!: filter_cong)

lemma ids_where_filter: "ids_where P (filter (\<lambda>p. fst p \<notin> A) t) = filter (\<lambda>k. k \<notin> A) (ids_where P t)"
  by (simp add: ids_where_def filter_map comp_def case_prod_beta conj_commute)

lemma ids_where_delete: "ids_where P (jm_delete k t) = removeAll k (ids_where P t)"
  using ids_where_filter [of P "{k}" t] by (simp add: map_of_delete_filter removeAll_filter_not_eq)
    (metis (mono_tags, lifting) filter_cong)

lemma or_else_set: "or_else (jm_get (jm_set k x m) c) [] = (if c = k then x else or_else (jm_get m c) [])"
  by (simp add: jm.get_put or_else_def)

lemma indexed_add:
  assumes "indexed f ix t" and "k \<notin> set (jm_keys t)"
  shows "indexed f (index_add (f v) k ix) (jm_set k v t)"
proof -
  have ix: "or_else (jm_get ix c) [] = ids_where (\<lambda>v. f v = c) t" for c
    using assms(1) by (simp add: indexed_def)
  have "k \<notin> set (ids_where P t)" for P using assms(2) ids_where_subset by blast
  then have "or_else (jm_get (index_add (f v) k ix) c) [] = ids_where (\<lambda>w. f w = c) (t @ [(k, v)])" for c
    by (simp add: index_add_def or_else_set ix set_add_def ids_where_append)
      (auto simp: ids_where_def)
  then show ?thesis
    using assms by (simp add: indexed_def index_add_def jm_set_new jm_keys_update_distinct)
qed

lemma store_new_ok:
  assumes "votes_ok m" and "jm_get (vm_votes m) (vote_key v) = None"
  shows "votes_ok (store_vote v m) \<and> vm_votes (store_vote v m) = vm_votes m @ [(vote_key v, v)]"
proof -
  have new: "vote_key v \<notin> set (jm_keys (vm_votes m))" using assms(2) by (simp add: map_of_eq_None_iff)
  show ?thesis
    using assms(1) new indexed_add [of cv_contributionId _ _ _ v] indexed_add [of cv_voter _ _ _ v]
    by (auto simp: votes_ok_def store_vote_def jm_set_new)
qed

lemma indexed_remove:
  assumes "indexed f ix t" and "jm_get t k = Some v" and "distinct (jm_keys t)"
  shows "indexed f (index_remove (f v) k ix) (jm_delete k t)"
proof -
  have ix: "or_else (jm_get ix c) [] = ids_where (\<lambda>v. f v = c) t" for c
    using assms(1) by (simp add: indexed_def)
  have mem: "(k, v) \<in> set t" using assms(2) by (rule map_of_SomeD)
  have other: "k \<notin> set (ids_where (\<lambda>w. f w = c) t)" if "c \<noteq> f v" for c
    using that mem assms(3) by (auto simp: ids_where_def dest: eq_key_imp_eq_value)
  have "k \<in> set (ids_where (\<lambda>w. f w = f v) t)" using mem by (force simp: ids_where_def)
  then obtain ids where ids: "jm_get ix (f v) = Some ids" and idsv: "ids = ids_where (\<lambda>w. f w = f v) t"
    using ix [of "f v"] by (cases "jm_get ix (f v)") (auto simp: or_else_def)
  have "or_else (jm_get (index_remove (f v) k ix) c) [] = ids_where (\<lambda>w. f w = c) (jm_delete k t)" for c
    using other [of c] by (simp add: index_remove_def ids or_else_set idsv ix ids_where_delete)
  then show ?thesis
    using assms(1) by (simp add: indexed_def index_remove_def ids jm_keys_update_distinct)
qed

lemma removeVote_ok:
  assumes "votes_ok m"
  shows "votes_ok (snd (removeVote k m)) \<and> vm_votes (snd (removeVote k m)) = jm_delete k (vm_votes m)"
proof (cases "jm_get (vm_votes m) k")
  case None
  then have "jm_delete k (vm_votes m) = vm_votes m" by (simp add: jm_delete_absent map_of_eq_None_iff)
  then show ?thesis using assms None by (simp add: removeVote_def)
next
  case (Some v)
  then show ?thesis
    using assms indexed_remove [of cv_contributionId "vm_byContribution m" "vm_votes m" k v]
      indexed_remove [of cv_voter "vm_byVoter m" "vm_votes m" k v] jm_delete_subset [of k "vm_votes m"]
    by (auto simp: removeVote_def votes_ok_def jm_keys_delete_distinct)
qed

lemma remove_votes_ok:
  "votes_ok m \<Longrightarrow> votes_ok (snd (remove_votes ids m))
     \<and> vm_votes (snd (remove_votes ids m)) = filter (\<lambda>p. fst p \<notin> set ids) (vm_votes m)"
proof (induction ids arbitrary: m)
  case (Cons i ids)
  have r: "votes_ok (snd (removeVote i m))" "vm_votes (snd (removeVote i m)) = jm_delete i (vm_votes m)"
    using removeVote_ok [OF Cons.prems, of i] by auto
  show ?case
    using Cons.IH [OF r(1)] r(2)
    by (auto simp: case_prod_beta Let_def map_of_delete_filter intro!: filter_cong)
qed simp

lemma indexed_clear:
  assumes "indexed f ix t" and "\<forall>(k, v) \<in> set t. f v \<noteq> c"
  shows "indexed f (jm_delete c ix) t"
proof -
  have "or_else (jm_get (jm_delete c ix) d) [] = ids_where (\<lambda>v. f v = d) t" for d
  proof (cases "d = c")
    case True
    then have "ids_where (\<lambda>v. f v = d) t = []" using assms(2) by (auto simp: ids_where_def filter_empty_conv)
    then show ?thesis using True by (simp add: jm.get_remove or_else_def)
  next
    case False
    then show ?thesis using assms(1) by (simp add: indexed_def jm.get_remove)
  qed
  then show ?thesis using assms(1) by (simp add: indexed_def jm_keys_delete_distinct)
qed

lemma removed_where:
  assumes "ids = ids_where P t" and "distinct (jm_keys t)"
  shows "filter (\<lambda>p. fst p \<notin> set ids) t = filter (\<lambda>(k, v). \<not> P v) t"
proof (rule filter_cong [OF refl])
  fix p assume p: "p \<in> set t"
  obtain k v where kv: "p = (k, v)" by (cases p)
  have "P v" if "k \<in> set ids"
  proof -
    from that obtain w where "(k, w) \<in> set t" "P w" unfolding assms(1) by (auto simp: ids_where_def)
    then show ?thesis using p kv assms(2) by (metis eq_key_imp_eq_value)
  qed
  moreover have "k \<in> set ids" if "P v" using p kv that assms(1) by (force simp: ids_where_def)
  ultimately show "(fst p \<notin> set ids) = (case p of (k, v) \<Rightarrow> \<not> P v)" using kv by auto
qed

lemma removeVotesForContribution_ok:
  assumes "votes_ok m"
  shows "votes_ok (snd (removeVotesForContribution c m))"
proof (cases "jm_get (vm_byContribution m) c")
  case None
  then show ?thesis using assms by (simp add: removeVotesForContribution_def)
next
  case (Some ids)
  have ids: "ids = ids_where (\<lambda>v. cv_contributionId v = c) (vm_votes m)"
    using assms Some by (auto simp: votes_ok_def indexed_def or_else_def dest: spec [of _ c])
  let ?n = "snd (remove_votes ids m)"
  have ok: "votes_ok ?n" and eq: "vm_votes ?n = filter (\<lambda>(k, v). cv_contributionId v \<noteq> c) (vm_votes m)"
    using remove_votes_ok [OF assms, of ids] removed_where [OF ids] assms by (auto simp: votes_ok_def)
  have "indexed cv_contributionId (jm_delete c (vm_byContribution ?n)) (vm_votes ?n)"
    using ok by (intro indexed_clear) (auto simp: votes_ok_def eq)
  then show ?thesis using ok Some by (simp add: removeVotesForContribution_def case_prod_beta votes_ok_def)
qed

lemma removeVotesByVoter_ok:
  assumes "votes_ok m"
  shows "votes_ok (snd (removeVotesByVoter c m))"
proof (cases "jm_get (vm_byVoter m) c")
  case None
  then show ?thesis using assms by (simp add: removeVotesByVoter_def)
next
  case (Some ids)
  have ids: "ids = ids_where (\<lambda>v. cv_voter v = c) (vm_votes m)"
    using assms Some by (auto simp: votes_ok_def indexed_def or_else_def dest: spec [of _ c])
  let ?n = "snd (remove_votes ids m)"
  have ok: "votes_ok ?n" and eq: "vm_votes ?n = filter (\<lambda>(k, v). cv_voter v \<noteq> c) (vm_votes m)"
    using remove_votes_ok [OF assms, of ids] removed_where [OF ids] assms by (auto simp: votes_ok_def)
  have "indexed cv_voter (jm_delete c (vm_byVoter ?n)) (vm_votes ?n)"
    using ok by (intro indexed_clear) (auto simp: votes_ok_def eq)
  then show ?thesis using ok Some by (simp add: removeVotesByVoter_def case_prod_beta votes_ok_def)
qed

lemma tryCastVote_cases:
  "snd (tryCastVote c p t reason s now m) = m
   \<or> (\<exists>v. fst (tryCastVote c p t reason s now m) = Cast_accepted v False
        \<and> snd (tryCastVote c p t reason s now m) = store_vote v m
        \<and> cv_contributionId v = c \<and> cv_voter v = p \<and> vote_of t = Some (cv_vote v)
        \<and> jm_get (vm_votes m) (vote_key v) = None)"
  by (auto simp: tryCastVote_def Let_def split: option.splits)

lemma tryCastVote_ok: "votes_ok m \<Longrightarrow> votes_ok (snd (tryCastVote c p t reason s now m))"
  using tryCastVote_cases [of c p t reason s now m] store_new_ok by metis

section \<open>Restoring\<close>

lemma restore_distinct:
  "distinct (map vote_key vs) \<Longrightarrow>
   votes_ok (restoreVotes vs m) \<and> vm_votes (restoreVotes vs m) = map (\<lambda>v. (vote_key v, v)) vs"
proof (induction vs rule: rev_induct)
  case Nil
  then show ?case by (simp add: restoreVotes_def clearAllVotes_def) (simp add: vote_manager_init_def)
next
  case (snoc v vs)
  let ?m = "restoreVotes vs m"
  have ih: "votes_ok ?m" "vm_votes ?m = map (\<lambda>v. (vote_key v, v)) vs" using snoc by auto
  have new: "jm_get (vm_votes ?m) (vote_key v) = None"
    using snoc.prems by (auto simp: ih map_of_eq_None_iff)
  have "restoreVotes (vs @ [v]) m = store_vote v ?m"
    using new by (simp add: restoreVotes_def restore_vote_def)
  then show ?case using store_new_ok [OF ih(1) new] ih(2) by simp
qed

lemma restore_own:
  assumes "votes_ok m"
  shows "votes_ok (restoreVotes (getAllVotes m) m') \<and> vm_votes (restoreVotes (getAllVotes m) m') = vm_votes m"
proof -
  have keys: "map vote_key (jm_values (vm_votes m)) = jm_keys (vm_votes m)"
    using assms by (auto simp: votes_ok_def)
  have "distinct (map vote_key (getAllVotes m))"
    unfolding getAllVotes_def keys using assms by (simp add: votes_ok_def)
  moreover have "map (\<lambda>v. (vote_key v, v)) (getAllVotes m) = vm_votes m"
    using assms by (auto simp: getAllVotes_def votes_ok_def intro!: map_idI)
  ultimately show ?thesis using restore_distinct [of "getAllVotes m" m'] by simp
qed

section \<open>Reading the tables\<close>

lemma map_filter_ids:
  assumes "distinct (jm_keys t)"
  shows "List.map_filter (jm_get t) (ids_where P t) = filter P (jm_values t)"
proof -
  have all: "filter (\<lambda>k. jm_get t k \<noteq> None) (ids_where P t) = ids_where P t"
    by (rule filter_True) (auto simp: ids_where_def map_of_eq_None_iff)
  have "List.map_filter (jm_get t) (ids_where P t)
      = map (\<lambda>p. the (jm_get t (fst p))) (filter (\<lambda>(k, v). P v) t)"
    by (simp only: List.map_filter_def comp_def all) (simp add: ids_where_def comp_def)
  also have "\<dots> = map snd (filter (\<lambda>(k, v). P v) t)"
    using assms by (intro map_cong [OF refl]) (auto simp: case_prod_beta)
  also have "\<dots> = filter P (jm_values t)"
    by (induction t) (auto simp: case_prod_beta)
  finally show ?thesis .
qed

lemma votes_at_index:
  assumes "indexed f ix (vm_votes m)" and "distinct (jm_keys (vm_votes m))"
  shows "votes_at (jm_get ix c) m = filter (\<lambda>v. f v = c) (getAllVotes m)"
proof -
  have "votes_at (jm_get ix c) m = List.map_filter (jm_get (vm_votes m)) (or_else (jm_get ix c) [])"
    by (simp add: votes_at_def or_else_def map_filter_def split: option.split)
  then show ?thesis
    using assms by (simp add: indexed_def map_filter_ids getAllVotes_def)
qed

lemma scan_contribution:
  "votes_ok m \<Longrightarrow> getVotesForContribution c m = filter (\<lambda>v. cv_contributionId v = c) (getAllVotes m)"
  by (simp add: getVotesForContribution_def votes_ok_def votes_at_index)

lemma scan_voter: "votes_ok m \<Longrightarrow> getVotesByVoter p m = filter (\<lambda>v. cv_voter v = p) (getAllVotes m)"
  by (simp add: getVotesByVoter_def votes_ok_def votes_at_index)

lemma one_vote_each:
  assumes "votes_ok m"
  shows "distinct (map cv_voter (getVotesForContribution c m))"
proof -
  have "distinct (map vote_key (getAllVotes m))"
  proof -
    have "map vote_key (getAllVotes m) = jm_keys (vm_votes m)"
      using assms by (auto simp: votes_ok_def getAllVotes_def)
    then show ?thesis using assms by (simp add: votes_ok_def)
  qed
  then have d: "distinct (map vote_key (getVotesForContribution c m))"
    by (simp add: scan_contribution [OF assms] distinct_map_filter)
  have k: "map vote_key (getVotesForContribution c m)
      = map (createVoteId c) (map cv_voter (getVotesForContribution c m))"
    using scan_contribution [OF assms] by simp
  show ?thesis using d unfolding k distinct_map by blast
qed

section \<open>Runs\<close>

datatype vote_event =
    Ve_cast string string string "string option" "string option" int
  | Ve_remove string
  | Ve_remove_contribution string
  | Ve_remove_voter string
  | Ve_clear

fun vote_step :: "vote_manager \<Rightarrow> vote_event \<Rightarrow> vote_manager" where
  "vote_step m (Ve_cast c p t reason s now) = snd (tryCastVote c p t reason s now m)"
| "vote_step m (Ve_remove k) = snd (removeVote k m)"
| "vote_step m (Ve_remove_contribution c) = snd (removeVotesForContribution c m)"
| "vote_step m (Ve_remove_voter p) = snd (removeVotesByVoter p m)"
| "vote_step m Ve_clear = clearAllVotes m"

interpretation vote_tables: machine vote_step votes_ok
proof
  fix s e assume "votes_ok s"
  then show "votes_ok (vote_step s e)"
    by (cases e) (simp_all add: tryCastVote_ok removeVote_ok removeVotesForContribution_ok
        removeVotesByVoter_ok clearAllVotes_def)
qed

definition vote_run :: "vote_event list \<Rightarrow> vote_manager" where
  "vote_run es = foldl vote_step vote_manager_init es"

lemma vote_run_ok: "votes_ok (vote_run es)"
  unfolding vote_run_def by (rule vote_tables.inv_run) simp

text \<open>Whatever votes are cast and removed, the index by contribution and the index by voter
  return exactly the votes a scan of all votes finds, in the order they were cast, and no voter has
  two votes on one contribution: a repeated vote is the old one and a different one is refused.\<close>

theorem vote_index_exact:
  "getVotesForContribution c (vote_run es) = filter (\<lambda>v. cv_contributionId v = c) (getAllVotes (vote_run es))
   \<and> getVotesByVoter p (vote_run es) = filter (\<lambda>v. cv_voter v = p) (getAllVotes (vote_run es))
   \<and> distinct (map cv_voter (getVotesForContribution c (vote_run es)))"
  using scan_contribution [OF vote_run_ok] scan_voter [OF vote_run_ok] one_vote_each [OF vote_run_ok]
  by blast

section \<open>Quorum\<close>

lemma percentage_less: "0 < k \<Longrightarrow> percentage n k < percentage m k \<longleftrightarrow> n < m"
  by (simp add: percentage_def divide_less_cancel)

lemma percentage_ge: "0 < k \<Longrightarrow> a * 100 \<le> percentage n k \<longleftrightarrow> a * of_nat k \<le> of_nat n"
  by (simp add: percentage_def field_simps)

lemma quorum_reached_iff:
  "qu_reached (calculateQuorum req a r ab now) \<longleftrightarrow>
     qr_minPeers req \<le> int (a + r + ab) \<and> qr_requiredAgreement req * of_nat (a + r + ab) \<le> of_nat a \<and> r < a"
proof (cases "a + r + ab = 0")
  case True
  then show ?thesis by (simp add: calculateQuorum_def percentage_def)
next
  case False
  then have k: "0 < a + r + ab" by simp
  show ?thesis
    by (simp add: calculateQuorum_def Let_def percentage_ge [OF k] percentage_less [OF k] del: of_nat_add
        add: pos_le_divide_eq)
qed

lemma counts_sum:
  "vc_total (countVotes c m) = vc_approve (countVotes c m) + vc_reject (countVotes c m)
     + vc_abstain (countVotes c m)"
proof -
  have "length vs = length (filter (\<lambda>v. cv_vote v = Approve) vs)
      + length (filter (\<lambda>v. cv_vote v = Reject) vs) + length (filter (\<lambda>v. cv_vote v = Abstain) vs)" for vs
  proof (induction vs)
    case (Cons v vs)
    then show ?case by (cases "cv_vote v") auto
  qed simp
  then show ?thesis by (simp add: countVotes_def Let_def)
qed

end
