(* ===== verification/Witness_Claims.thy ===== *)
theory Witness_Claims
  imports Witness
begin

text \<open>
  What evidence and witnesses promise: the selected witnesses are distinct, eligible and as many as
  there are up to the maximum, evidence validates exactly while its parts are fresh, and a banned or
  unknown peer is never verified. Three theorems record what the code does not do: geographic
  diversity never adds a witness, a round never accepts new evidence, and evidence whose two clock
  readings differ is never valid.
\<close>

section \<open>Selecting witnesses\<close>

definition witnesses_ok :: "witness_manager \<Rightarrow> bool" where
  "witnesses_ok m \<longleftrightarrow> distinct (jm_keys (wm_witnesses m))
     \<and> (\<forall>(k, w) \<in> set (wm_witnesses m). wi_peerId w = k)"

lemma add_diverse_nothing: "\<forall>w \<in> set ws. wi_peerId w \<in> set chosen \<Longrightarrow> add_diverse ws regions chosen = []"
  by (induction ws) auto

lemma diversity_nothing:
  "set selected = wi_peerId ` set eligible \<Longrightarrow> ensureGeographicDiversity ws selected eligible = selected"
  by (simp add: ensureGeographicDiversity_def Let_def add_diverse_nothing)

lemma eligible_distinct:
  assumes "witnesses_ok m"
  shows "distinct (map wi_peerId (getEligibleWitnesses excluded now m))"
proof -
  have "map wi_peerId (jm_values (wm_witnesses m)) = jm_keys (wm_witnesses m)"
    using assms by (auto simp: witnesses_ok_def)
  then have "distinct (map wi_peerId (jm_values (wm_witnesses m)))"
    using assms by (simp only: witnesses_ok_def)
  then show ?thesis by (simp only: getEligibleWitnesses_def distinct_map_filter)
qed

text \<open>What the two ways of ordering the eligible witnesses have in common.\<close>

lemma ordered_eligible:
  assumes "distinct (map wi_peerId es)"
  shows "distinct (map wi_peerId (js_sort c es)) \<and> set (map wi_peerId (js_sort c es)) = wi_peerId ` set es
    \<and> length (map wi_peerId (js_sort c es)) = length es"
  using assms by (simp add: distinct_map)

definition ordering :: "(string \<Rightarrow> string \<Rightarrow> int) \<Rightarrow> witness_criteria \<Rightarrow> witness_info list \<Rightarrow> nat \<Rightarrow> string list" where
  "ordering lc cr eligible counter = (if wc_requireRandomSelection cr
     then selectRandomWitnesses lc eligible counter else selectTopWitnesses eligible)"

lemma ordering_facts:
  assumes "distinct (map wi_peerId es)"
  shows "distinct (ordering lc cr es n)" "set (ordering lc cr es n) = wi_peerId ` set es"
    "length (ordering lc cr es n) = length es"
  using ordered_eligible [OF assms]
  unfolding ordering_def selectRandomWitnesses_def selectTopWitnesses_def
  by (simp_all only: split: if_split) auto

lemma fst_selectWitnesses:
  "fst (selectWitnesses lc c excluded now m) =
     (let es = getEligibleWitnesses excluded now m; cr = wm_criteria m;
          ws = ordering lc cr es (Suc (wm_counter m))
      in if length es < wc_minCount cr then []
         else take (wc_maxCount cr) (if wc_requireGeographicDiversity cr
                then ensureGeographicDiversity (wm_witnesses m) ws es else ws))"
  by (simp add: selectWitnesses_def ordering_def Let_def)

text \<open>The witnesses of a contribution are different peers, each with enough trust, seen within a
  day and not excluded; there are none if fewer than the minimum are eligible, and otherwise as many
  as are eligible, up to the maximum.\<close>

theorem selected_witnesses_sound:
  assumes "witnesses_ok m"
  shows "let ws = fst (selectWitnesses lc c excluded now m); es = getEligibleWitnesses excluded now m
    in distinct ws \<and> set ws \<subseteq> wi_peerId ` set es
       \<and> length ws = (if length es < wc_minCount (wm_criteria m) then 0
                      else min (wc_maxCount (wm_criteria m)) (length es))"
proof -
  let ?es = "getEligibleWitnesses excluded now m"
  note facts = ordering_facts [OF eligible_distinct [OF assms, of excluded now]]
  define ws where "ws = ordering lc (wm_criteria m) ?es (Suc (wm_counter m))"
  have div: "ensureGeographicDiversity (wm_witnesses m) ws ?es = ws"
    unfolding ws_def by (rule diversity_nothing) (rule facts)
  have sel: "fst (selectWitnesses lc c excluded now m) =
      (if length ?es < wc_minCount (wm_criteria m) then [] else take (wc_maxCount (wm_criteria m)) ws)"
    by (simp add: fst_selectWitnesses Let_def div flip: ws_def)
  have "distinct ws" "set ws = wi_peerId ` set ?es" "length ws = length ?es"
    unfolding ws_def by (rule facts)+
  then show ?thesis
    using set_take_subset [of "wc_maxCount (wm_criteria m)" ws] by (simp add: sel Let_def min.commute)
qed

text \<open>Requiring geographic diversity changes nothing: all eligible witnesses are ordered before
  the check, so there is none left to add from another region, and the cut to the maximum then takes
  the first ones whatever their regions.\<close>

theorem diversity_requirement_ignored:
  assumes "witnesses_ok m"
  shows "fst (selectWitnesses lc c excluded now
           (m\<lparr>wm_criteria := (wm_criteria m)\<lparr>wc_requireGeographicDiversity := b\<rparr>\<rparr>))
       = fst (selectWitnesses lc c excluded now m)"
proof -
  have es: "getEligibleWitnesses excluded now
      (m\<lparr>wm_criteria := (wm_criteria m)\<lparr>wc_requireGeographicDiversity := b\<rparr>\<rparr>)
    = getEligibleWitnesses excluded now m"
    by (simp add: getEligibleWitnesses_def) (rule filter_cong, simp_all add: witness_eligible_def)
  have ord: "ordering lc ((wm_criteria m)\<lparr>wc_requireGeographicDiversity := d\<rparr>) = ordering lc (wm_criteria m)" for d
    by (simp add: ordering_def fun_eq_iff)
  let ?es = "getEligibleWitnesses excluded now m"
  define ws where "ws = ordering lc (wm_criteria m) ?es (Suc (wm_counter m))"
  have div: "ensureGeographicDiversity (wm_witnesses m) ws ?es = ws"
    unfolding ws_def by (rule diversity_nothing) (rule ordering_facts(2) [OF eligible_distinct [OF assms]])
  show ?thesis by (simp add: fst_selectWitnesses Let_def es ord div flip: ws_def)
qed

section \<open>Evidence\<close>

text \<open>Evidence validates exactly if its hash is the hash of its fields, it is at most five minutes
  old, and it has a witness and signatures that are all present and fresh; evidence just created with
  one reading of the clock satisfies the first two.\<close>

theorem evidence_validates:
  assumes "fst (createEvidence c p t v ch re now now m) = e" and "later - now \<le> 300000"
    and "ws \<noteq> []" and "ss \<noteq> []" and "\<forall>s \<in> set ss. validateSignature later s"
  shows "fst (submitEvidence (e\<lparr>ev_witnesses := ws, ev_signatures := ss\<rparr>) later m)"
  using assms by (auto simp: createEvidence_def Let_def submitEvidence_def validateEvidence_def
      evidence_hash_of_def list_all_iff)

text \<open>\<open>createEvidence\<close> reads the clock for the time of the evidence and again for its hash. When
  the two readings hash differently the evidence never validates, whatever witnesses and signatures it
  is given.\<close>

theorem evidence_clock_race:
  assumes "fst (createEvidence c p t v ch re now1 now2 m) = e"
    and "calculateEvidenceHash c p t v now1 \<noteq> calculateEvidenceHash c p t v now2"
  shows "submitEvidence (e\<lparr>ev_witnesses := ws, ev_signatures := ss\<rparr>) later m' = (False, m')"
  using assms by (auto simp: createEvidence_def Let_def submitEvidence_def validateEvidence_def
      evidence_hash_of_def)

section \<open>Peer verification\<close>

datatype verification_event =
    Vf_register fingerprint
  | Vf_report fraud_report
  | Vf_suspect string
  | Vf_ban string
  | Vf_unsuspect string
  | Vf_remove string

fun verification_step :: "peer_verification \<Rightarrow> verification_event \<Rightarrow> peer_verification" where
  "verification_step v (Vf_register f) = registerFingerprint f v"
| "verification_step v (Vf_report r) = reportFraud r v"
| "verification_step v (Vf_suspect p) = markSuspicious p v"
| "verification_step v (Vf_ban p) = markBanned p v"
| "verification_step v (Vf_unsuspect p) = unmarkSuspicious p v"
| "verification_step v (Vf_remove p) = snd (removeFingerprint p v)"

definition bans :: "string \<Rightarrow> verification_event \<Rightarrow> bool" where
  "bans p e \<longleftrightarrow> (case e of Vf_ban q \<Rightarrow> q = p
     | Vf_report r \<Rightarrow> fr_fraudType r = Sybil \<and> fr_accused r = p | _ \<Rightarrow> False)"

lemma banned_step: "p \<in> set (pv_banned (verification_step v e)) \<longleftrightarrow> p \<in> set (pv_banned v) \<or> bans p e"
  by (cases e) (auto simp: bans_def registerFingerprint_def reportFraud_def markSuspicious_def
      markBanned_def unmarkSuspicious_def removeFingerprint_def)

lemma banned_run:
  "p \<in> set (pv_banned (foldl verification_step v es)) \<longleftrightarrow> p \<in> set (pv_banned v) \<or> (\<exists>e \<in> set es. bans p e)"
  by (induction es arbitrary: v) (auto simp: banned_step)

text \<open>A peer that was banned, or reported once for a Sybil attack, is not verified again until it is
  explicitly unbanned: not by a new fingerprint, nor by taking back the suspicion.\<close>

theorem banned_stays_unverified:
  assumes "e \<in> set es" and "bans p e"
  shows "\<not> vr_verified (verifyPeer p now (foldl verification_step v es))"
proof -
  have "p \<in> set (pv_banned (foldl verification_step v es))" using assms by (auto simp: banned_run)
  then show ?thesis by (simp add: verifyPeer_def split: option.split)
qed

text \<open>A peer that shares no sign with any other is not called a Sybil, burst or no burst.\<close>

lemma sybil_verdict_needs_signs:
  assumes f: "jm_get (pv_fingerprints v) p = Some f"
    and none: "\<And>k g. (k, g) \<in> set (pv_fingerprints v) \<Longrightarrow> k \<noteq> p \<Longrightarrow> sybil_signs f k g = []"
  shows "\<not> sb_isSybil (detectSybil p now v) \<and> sb_relatedPeers (detectSybil p now v) = []"
proof -
  define signs where "signs = concat (map (\<lambda>(k, other). map (\<lambda>s. (k, s)) (sybil_signs f k other))
      (filter (\<lambda>(k, other). k \<noteq> p) (pv_fingerprints v)))"
  have "signs = []" using none by (auto simp: signs_def)
  then show ?thesis unfolding detectSybil_def f option.case Let_def by (simp flip: signs_def)
qed

section \<open>Concrete runs\<close>

definition sample_witness :: "string \<Rightarrow> int \<Rightarrow> witness_info" where
  "sample_witness p t = \<lparr>wi_peerId = p, wi_trustScore = t, wi_lastSeen = 0, wi_region = Some ''eu'',
     wi_selectedCount = 0\<rparr>"

definition sample_witnesses :: witness_manager where
  "sample_witnesses = \<lparr>wm_witnesses = [(''a'', sample_witness ''a'' 700), (''b'', sample_witness ''b'' 900),
       (''c'', sample_witness ''c'' 100)], wm_selected = [],
     wm_criteria = \<lparr>wc_minTrustScore = 600, wc_minCount = 1, wc_maxCount = 1,
       wc_requireGeographicDiversity = True, wc_requireRandomSelection = False\<rparr>, wm_counter = 0\<rparr>"

lemma sample_witnesses_ok: "witnesses_ok sample_witnesses"
  by (simp add: witnesses_ok_def sample_witnesses_def sample_witness_def)

theorem selected_witnesses_sound_witness:
  "length (fst (selectWitnesses code_cmp ''x'' [] 5 sample_witnesses)) = 1"
  using selected_witnesses_sound [OF sample_witnesses_ok, of code_cmp "''x''" "[]" 5]
  by (simp add: Let_def)
    (simp add: sample_witnesses_def getEligibleWitnesses_def witness_eligible_def sample_witness_def)

theorem diversity_requirement_ignored_witness:
  "fst (selectWitnesses code_cmp ''x'' [] 5
     (sample_witnesses\<lparr>wm_criteria := (wm_criteria sample_witnesses)\<lparr>wc_requireGeographicDiversity := False\<rparr>\<rparr>))
   = fst (selectWitnesses code_cmp ''x'' [] 5 sample_witnesses)"
  by (rule diversity_requirement_ignored [OF sample_witnesses_ok])

definition sample_signature :: peer_signature where
  "sample_signature = \<lparr>sg_algorithm = ''ed25519'', sg_publicKey = ''k'', sg_signature = ''s'',
     sg_timestamp = 7\<rparr>"

theorem evidence_validates_witness:
  "fst (submitEvidence ((fst (createEvidence ''c'' ''p'' Storage 1 None None 5 5 evidence_init))
      \<lparr>ev_witnesses := [''w''], ev_signatures := [sample_signature]\<rparr>) 9 evidence_init)"
  by (rule evidence_validates [OF refl]) (simp_all add: validateSignature_def sample_signature_def)

theorem banned_stays_unverified_witness:
  "\<not> vr_verified (verifyPeer ''p'' 0 (foldl verification_step peer_verification_init
      [Vf_ban ''p'', Vf_unsuspect ''p'']))"
  by (rule banned_stays_unverified [of "Vf_ban ''p''"]) (simp_all add: bans_def)


lemma sample_hashes:
  "string_hash ''cpSTORAGE15'' = 2136229874" "string_hash ''cpSTORAGE16'' = 2136229875"
  by (simp_all add: string_hash_def hash_step_def)


lemma sample_texts:
  "calculateEvidenceHash ''c'' ''p'' Storage 1 5 \<noteq> calculateEvidenceHash ''c'' ''p'' Storage 1 6"
proof -
  have t: "''c'' @ ''p'' @ type_name Storage @ show_int 1 @ show_int 5 = ''cpSTORAGE15''"
    "''c'' @ ''p'' @ type_name Storage @ show_int 1 @ show_int 6 = ''cpSTORAGE16''"
    by (simp_all add: show_int_def show_nat.simps digit_def char_of_def bit_0)
  show ?thesis
    unfolding calculateEvidenceHash_def t hash_text_def sample_hashes
    by (simp add: hex_of_nat.simps hex_digits_def)
qed

theorem evidence_clock_race_witness:
  "submitEvidence ((fst (createEvidence ''c'' ''p'' Storage 1 None None 5 6 evidence_init))
      \<lparr>ev_witnesses := [''w''], ev_signatures := [sample_signature]\<rparr>) 9 evidence_init
   = (False, evidence_init)"
  by (rule evidence_clock_race [OF refl sample_texts])

end
