(* ===== verification/Consensus_Claims.thy ===== *)
theory Consensus_Claims
  imports Consensus Votes_Claims Witness_Claims
begin

text \<open>
  What consensus promises: a round decided by votes had enough of them, from different voters, with
  enough agreement; a message adds at most the vote of the peer that signed it or the local vote;
  delivering a vote twice is delivering it once; a snapshot restores the engine. The remaining
  theorems record that votes never reject, that one peer's result message decides a round, that
  votes decide rounds that were closed, and that rounds accept no new evidence.
\<close>

section \<open>The invariant of the engine\<close>

definition round_ok :: "string \<Rightarrow> consensus_round \<Rightarrow> bool" where
  "round_ok k r \<longleftrightarrow> rn_roundId r = k \<and> (rn_quorumReached r \<longleftrightarrow> rn_result r \<noteq> None)
     \<and> (rn_status r = Reached \<longrightarrow> rn_quorumReached r)"

definition managers_ok :: "managers \<Rightarrow> bool" where
  "managers_ok g \<longleftrightarrow> votes_ok (mg_votes g) \<and> distinct (jm_keys (qm_history (mg_quorum g)))"

definition engine_ok :: "engine \<Rightarrow> bool" where
  "engine_ok e \<longleftrightarrow> distinct (jm_keys (ng_rounds e)) \<and> (\<forall>(k, r) \<in> set (ng_rounds e). round_ok k r)
     \<and> managers_ok (ng_managers e)"

lemma engine_ok_init [simp]: "engine_ok engine_init"
  by (simp add: engine_ok_def engine_init_def managers_init_def managers_ok_def)

lemma managers_votes [simp]: "managers_ok (g\<lparr>mg_votes := m\<rparr>) \<longleftrightarrow> votes_ok m \<and> distinct (jm_keys (qm_history (mg_quorum g)))"
  by (simp add: managers_ok_def)

lemma put_round_ok:
  "engine_ok e \<Longrightarrow> round_ok k (fst rg) \<Longrightarrow> managers_ok (snd rg) \<Longrightarrow> engine_ok (put_round k rg e)"
  using jm_values_update_subset [of k "fst rg" "ng_rounds e"]
  by (auto simp: engine_ok_def put_round_def jm_keys_update_distinct)

lemma engine_ok_round: "engine_ok e \<Longrightarrow> jm_get (ng_rounds e) k = Some r \<Longrightarrow> round_ok k r"
  by (auto simp: engine_ok_def dest!: map_of_SomeD)

lemma engine_ok_managers: "engine_ok e \<Longrightarrow> managers_ok (ng_managers e)"
  by (simp add: engine_ok_def)

lemma find_mem: "find P xs = Some x \<Longrightarrow> x \<in> set xs \<and> P x"
  by (induction xs) (auto split: if_splits)

lemma find_round_get:
  assumes "engine_ok e" and "find_round i c e = Some (k, r)"
  shows "jm_get (ng_rounds e) k = Some r"
proof (cases "jm_get (ng_rounds e) i")
  case None
  then have "(k, r) \<in> set (ng_rounds e)"
    using assms(2) by (auto simp: find_round_def getRoundByContributionId_def dest: find_mem)
  then show ?thesis using assms(1) by (simp add: engine_ok_def)
qed (use assms in \<open>simp add: find_round_def\<close>)

text \<open>The quorum check changes the status, the percentage, the result and the history only.\<close>

lemma checkQuorum_cases:
  obtains (decided) q where
      "q = calculateQuorum (qm_requirements (mg_quorum g))
             (vc_approve (countVotes (rn_contributionId r) (mg_votes g)))
             (vc_reject (countVotes (rn_contributionId r) (mg_votes g)))
             (vc_abstain (countVotes (rn_contributionId r) (mg_votes g))) now"
      and "qu_reached q" and "\<not> rn_quorumReached r"
      and "checkQuorum now (r, g) =
        (r\<lparr>rn_status := Reached, rn_endTime := Some now, rn_quorumReached := True,
           rn_approvalPercentage := qu_approvalPercentage q, rn_result := Some Approved\<rparr>,
         g\<lparr>mg_quorum := recordQuorum (rn_contributionId r) q (mg_quorum g)\<rparr>)"
  | (open_round) a where "checkQuorum now (r, g) = (r\<lparr>rn_approvalPercentage := a\<rparr>, g)"
proof -
  define q where "q = calculateQuorum (qm_requirements (mg_quorum g))
             (vc_approve (countVotes (rn_contributionId r) (mg_votes g)))
             (vc_reject (countVotes (rn_contributionId r) (mg_votes g)))
             (vc_abstain (countVotes (rn_contributionId r) (mg_votes g))) now"
  show thesis
  proof (cases "qu_reached q \<and> \<not> rn_quorumReached r")
    case True
    then have "qu_approvalPercentage q > qu_rejectPercentage q"
      by (simp add: q_def calculateQuorum_def Let_def)
    then have "checkQuorum now (r, g) =
        (r\<lparr>rn_status := Reached, rn_endTime := Some now, rn_quorumReached := True,
           rn_approvalPercentage := qu_approvalPercentage q, rn_result := Some Approved\<rparr>,
         g\<lparr>mg_quorum := recordQuorum (rn_contributionId r) q (mg_quorum g)\<rparr>)"
      using True by (simp add: checkQuorum_def Let_def complete_def flip: q_def)
    with True show thesis by (intro decided [OF q_def]) auto
  next
    case False
    then show thesis
      by (intro open_round [of "qu_approvalPercentage q"]) (auto simp: checkQuorum_def Let_def simp flip: q_def)
  qed
qed

lemma checkQuorum_ok:
  assumes "round_ok k r" and "managers_ok g"
  shows "round_ok k (fst (checkQuorum now (r, g))) \<and> managers_ok (snd (checkQuorum now (r, g)))"
  by (rule checkQuorum_cases [of g r now])
    (use assms in \<open>auto simp: round_ok_def managers_ok_def recordQuorum_def jm_keys_update_distinct\<close>)

lemma checkQuorum_same [simp]:
  "rn_contributionId (fst (checkQuorum now (r, g))) = rn_contributionId r"
  "rn_roundId (fst (checkQuorum now (r, g))) = rn_roundId r"
  "rn_votes (fst (checkQuorum now (r, g))) = rn_votes r"
  "mg_votes (snd (checkQuorum now (r, g))) = mg_votes g"
  "qm_requirements (mg_quorum (snd (checkQuorum now (r, g)))) = qm_requirements (mg_quorum g)"
  by (rule checkQuorum_cases [of g r now]; simp add: recordQuorum_def)+

text \<open>What one vote does to a round: nothing, or it is stored and the quorum is checked.\<close>

lemma record_vote_cases:
  obtains (same) b where "round_recordVerifiedVote p t reason s now (r, g) = (b, r, g)"
      and "vote_of t = None \<or> jm_get (vm_votes (mg_votes g)) (createVoteId (rn_contributionId r) p) \<noteq> None"
  | (stored) v where "round_recordVerifiedVote p t reason s now (r, g)
        = (True, checkQuorum now (r\<lparr>rn_votes := rn_votes r @ [v]\<rparr>, g\<lparr>mg_votes := store_vote v (mg_votes g)\<rparr>))"
      and "jm_get (vm_votes (mg_votes g)) (vote_key v) = None"
      and "v = \<lparr>cv_contributionId = rn_contributionId r, cv_voter = p, cv_vote = the (vote_of t),
        cv_reason = reason, cv_timestamp = now, cv_signature = or_else s []\<rparr>"
      and "vote_of t \<noteq> None"
proof (cases "vote_of t")
  case None
  then show thesis by (intro same [of False]) (simp_all add: round_recordVerifiedVote_def tryCastVote_def)
next
  case (Some x)
  show thesis
  proof (cases "jm_get (vm_votes (mg_votes g)) (createVoteId (rn_contributionId r) p)")
    case None
    then show thesis
      by (intro stored) (simp_all add: round_recordVerifiedVote_def tryCastVote_def Some Let_def)
  next
    case (Some e)
    then show thesis
      using \<open>vote_of t = Some x\<close>
      by (intro same [of "cv_vote e = x \<and> cv_reason e = reason"])
        (simp_all add: round_recordVerifiedVote_def tryCastVote_def)
  qed
qed

lemma record_vote_ok:
  assumes "round_ok k r" and "managers_ok g"
  shows "round_ok k (fst (snd (round_recordVerifiedVote p t reason s now (r, g))))
    \<and> managers_ok (snd (snd (round_recordVerifiedVote p t reason s now (r, g))))"
proof (cases rule: record_vote_cases [of p t reason s now r g])
  case (stored v)
  have "votes_ok (store_vote v (mg_votes g))"
    using store_new_ok [of "mg_votes g" v] stored assms by (simp add: managers_ok_def)
  then have "managers_ok (g\<lparr>mg_votes := store_vote v (mg_votes g)\<rparr>)"
    using assms(2) by (simp add: managers_ok_def)
  moreover have "round_ok k (r\<lparr>rn_votes := rn_votes r @ [v]\<rparr>)" using assms(1) by (auto simp: round_ok_def)
  ultimately show ?thesis unfolding stored(1) snd_conv by (intro checkQuorum_ok)
qed (use assms in simp)

lemma cast_vote_is_record:
  obtains (refused) "round_castVote p t reason now (r, g) = (False, r, g)"
  | (recorded) "snd (round_castVote p t reason now (r, g)) = snd (round_recordVerifiedVote p t reason None now (r, g))"
proof -
  obtain x m where tc: "tryCastVote (rn_contributionId r) p t reason None now (mg_votes g) = (x, m)" by fastforce
  consider (no) "\<not> vr_verified (verifyPeer p now (mg_verification g)) \<or> hasVoted (rn_contributionId r) p (mg_votes g)"
    | (new) v where "vr_verified (verifyPeer p now (mg_verification g))"
        "\<not> hasVoted (rn_contributionId r) p (mg_votes g)" "x = Cast_accepted v False"
    | (old) "vr_verified (verifyPeer p now (mg_verification g))"
        "\<not> hasVoted (rn_contributionId r) p (mg_votes g)" "\<And>v. x \<noteq> Cast_accepted v False" by blast
  then show thesis
  proof cases
    case no
    then show thesis by (intro refused) (auto simp: round_castVote_def)
  next
    case new
    then show thesis by (intro recorded) (simp add: round_castVote_def round_recordVerifiedVote_def tc)
  next
    case old
    then have "m = mg_votes g" using tryCastVote_cases tc by (metis fst_conv snd_conv)
    then show thesis using old tc by (intro refused) (cases x; auto simp: round_castVote_def split: bool.splits)
  qed
qed

lemma engine_vote_ok: "engine_ok e \<Longrightarrow> engine_ok (snd (engine_recordVerifiedVote i c p t reason s now e))"
proof (cases "find_round i c e")
  case None
  then show "engine_ok e \<Longrightarrow> ?thesis" by (simp add: engine_recordVerifiedVote_def)
next
  case (Some kr)
  obtain k r where kr: "find_round i c e = Some (k, r)" using Some by (cases kr) auto
  assume ok: "engine_ok e"
  have r: "round_ok k r" by (rule engine_ok_round [OF ok find_round_get [OF ok kr]])
  have "engine_ok (put_round k (snd (round_recordVerifiedVote p t reason s now (r, ng_managers e))) e)"
    using record_vote_ok [OF r engine_ok_managers [OF ok]] by (intro put_round_ok [OF ok]) blast+
  then show ?thesis by (simp add: engine_recordVerifiedVote_def kr case_prod_beta)
qed


lemma cast_vote_ok:
  assumes "round_ok k r" and "managers_ok g"
  shows "round_ok k (fst (snd (round_castVote p t reason now (r, g))))
    \<and> managers_ok (snd (snd (round_castVote p t reason now (r, g))))"
  by (cases rule: cast_vote_is_record [of p t reason now r g])
    (use assms record_vote_ok [OF assms] in simp_all)

lemma new_round_ok [simp]: "round_ok k (new_round k c now g)"
  by (simp add: round_ok_def new_round_def)

lemma round_start_ok [simp]: "round_ok k r \<Longrightarrow> round_ok k (round_start g now r)"
  by (simp add: round_ok_def round_start_def expireIfTimedOut_def)

lemma external_ok: "round_ok k r \<Longrightarrow> round_ok k (snd (round_recordExternalResult out a t r))"
  by (auto simp: round_ok_def round_recordExternalResult_def)

lemma engine_external_ok: "engine_ok e \<Longrightarrow> engine_ok (snd (engine_recordExternalResult i c out a t e))"
  using external_ok put_round_ok [of e _ "(_, ng_managers e)"] engine_ok_round find_round_get engine_ok_managers
  by (auto simp: engine_recordExternalResult_def case_prod_beta split: option.split)

lemma start_round:
  obtains k e1 r where "startContributionRound c p t v i st now e = (k, e1)"
    and "jm_get (ng_rounds e1) k = Some r" and "ng_managers e1 = ng_managers e"
    and "engine_ok e \<Longrightarrow> engine_ok e1"
    and "e1 = e \<or> jm_get (ng_rounds e) k = None
      \<and> e1 = e\<lparr>ng_rounds := jm_set k (new_round k c now (ng_managers e)) (ng_rounds e)\<rparr>"
proof -
  obtain k e1 where s: "startContributionRound c p t v i st now e = (k, e1)" by fastforce
  have *: "e1 = e \<and> jm_get (ng_rounds e) k \<noteq> None \<or> jm_get (ng_rounds e) k = None
      \<and> e1 = e\<lparr>ng_rounds := jm_set k (new_round k c now (ng_managers e)) (ng_rounds e)\<rparr>"
    using s by (auto simp: startContributionRound_def Let_def split: option.splits)
  have ok: "engine_ok e1" if "engine_ok e"
    using * put_round_ok [OF that, of k "(new_round k c now (ng_managers e), ng_managers e)"] that
    by (auto simp: put_round_def engine_ok_managers)
  have g: "ng_managers e1 = ng_managers e" using * by auto
  from * obtain r where r: "jm_get (ng_rounds e1) k = Some r" by (auto simp: jm.get_put)
  have "e1 = e \<or> jm_get (ng_rounds e) k = None
      \<and> e1 = e\<lparr>ng_rounds := jm_set k (new_round k c now (ng_managers e)) (ng_rounds e)\<rparr>" using * by blast
  from that [OF s r g ok this] show thesis .
qed

text \<open>Without result messages no round is rejected: the quorum asks for more approvals than rejections.\<close>

definition no_rejection :: "engine \<Rightarrow> bool" where
  "no_rejection e \<longleftrightarrow> (\<forall>(k, r) \<in> set (ng_rounds e). rn_result r \<noteq> Some Rejected)"

lemma no_rejection_get: "no_rejection e \<Longrightarrow> jm_get (ng_rounds e) k = Some r \<Longrightarrow> rn_result r \<noteq> Some Rejected"
  by (auto simp: no_rejection_def dest!: map_of_SomeD)

lemma no_rejection_put:
  "no_rejection e \<Longrightarrow> rn_result (fst rg) \<noteq> Some Rejected \<Longrightarrow> no_rejection (put_round k rg e)"
  using jm_values_update_subset [of k "fst rg" "ng_rounds e"]
  by (auto simp: no_rejection_def put_round_def)

lemma start_no_rejection:
  assumes "no_rejection e" and "startContributionRound c p t v i st now e = (k, e1)"
  shows "no_rejection e1"
proof -
  have "no_rejection (put_round k (new_round k c now (ng_managers e), ng_managers e) e)"
    using assms(1) by (intro no_rejection_put) (simp_all add: new_round_def)
  moreover have "e1 = e \<or> e1 = put_round k (new_round k c now (ng_managers e), ng_managers e) e"
    using start_round [of c p t v i st now e] assms(2) by (fastforce simp: put_round_def)
  ultimately show ?thesis using assms(1) by auto
qed

lemma round_start_result [simp]: "rn_result (round_start g now r) = rn_result r"
  by (simp add: round_start_def expireIfTimedOut_def)

text \<open>A proposal opens its round if need be and then records the local vote.\<close>

lemma proposal_split:
  assumes "engine_ok e"
  obtains e2 where "engine_ok e2" and "ng_managers e2 = ng_managers e"
    and "no_rejection e \<Longrightarrow> no_rejection e2"
    and "snd (snd (handleProposal p q x now e)) = (case createVotePayload p x Approve None now of
          None \<Rightarrow> e2 | Some v \<Rightarrow> snd (record_vote_payload v now e2))"
proof -
  obtain k e1 r where s: "startContributionRound (pp_contributionId x) (pp_contributor x)
      (pp_contributionType x) (pp_value x) (Some (pp_roundId x)) (Some (pp_proposedAt x)) now e = (k, e1)"
    and r: "jm_get (ng_rounds e1) k = Some r" and ok: "engine_ok e1" and g: "ng_managers e1 = ng_managers e"
    using start_round [of "pp_contributionId x" "pp_contributor x" "pp_contributionType x" "pp_value x"
        "Some (pp_roundId x)" "Some (pp_proposedAt x)" now e] assms by metis
  define e2 where "e2 = (if rn_status r = Pending
    then put_round k (round_start (ng_managers e1) now r, ng_managers e1) e1 else e1)"
  show thesis
  proof (rule that)
    show "engine_ok e2"
      using ok put_round_ok [OF ok] engine_ok_round [OF ok r] engine_ok_managers [OF ok] by (simp add: e2_def)
    show "ng_managers e2 = ng_managers e" by (simp add: e2_def put_round_def g)
    show "no_rejection e2" if "no_rejection e"
      using start_no_rejection [OF that s] no_rejection_put no_rejection_get [OF start_no_rejection [OF that s] r]
      by (simp add: e2_def)
    show "snd (snd (handleProposal p q x now e)) = (case createVotePayload p x Approve None now of
          None \<Rightarrow> e2 | Some v \<Rightarrow> snd (record_vote_payload v now e2))"
      using s r by (simp add: handleProposal_def Let_def e2_def split: option.split)
  qed
qed

lemma propose_ok:
  assumes "engine_ok e"
  shows "engine_ok (snd (snd (proposeContribution p c q t v ts now e)))"
proof -
  obtain k e1 r where s: "startContributionRound c q t v None None now e = (k, e1)"
    and r: "jm_get (ng_rounds e1) k = Some r" and ok: "engine_ok e1"
    using start_round [of c q t v None None now e] assms by metis
  then show ?thesis
    using put_round_ok [OF ok, of k "(round_start (ng_managers e1) now r, ng_managers e1)"]
      engine_ok_round [OF ok r] engine_ok_managers [OF ok]
    by (simp add: proposeContribution_def Let_def)
qed

lemma handle_ok:
  assumes "engine_ok e"
  shows "engine_ok (snd (snd (handleMessage p q msg now e)))"
proof (cases msg)
  case (Proposal_message x)
  show ?thesis
    by (rule proposal_split [OF assms, of p q x now])
      (use assms in \<open>simp add: Proposal_message handleMessage_def record_vote_payload_def engine_vote_ok
        split: option.split\<close>)
next
  case (Vote_message x)
  then show ?thesis
    using engine_vote_ok [OF assms] assms
    by (simp add: handleMessage_def handleVote_def record_vote_payload_def case_prod_beta Let_def)
next
  case (Result_message x)
  then show ?thesis
    using engine_external_ok [OF assms] assms by (simp add: handleMessage_def handleResult_def)
next
  case Other_message
  then show ?thesis using assms by (simp add: handleMessage_def)
qed

section \<open>Runs\<close>

datatype engine_event =
    Ee_start string string contribution_type int "string option" "int option" int
  | Ee_propose consensus_peer string string contribution_type int "string list option" int
  | Ee_vote string string string string "string option" "string option" int
  | Ee_cast string string string "string option" int
  | Ee_message consensus_peer string consensus_message int
  | Ee_requirements "int option" "rat option" "int option" "int option"
  | Ee_expire string int
  | Ee_fail string int
  | Ee_remove string
  | Ee_clear
  | Ee_reset

definition on_round :: "string \<Rightarrow> (consensus_round \<times> managers \<Rightarrow> consensus_round \<times> managers) \<Rightarrow> engine \<Rightarrow> engine" where
  "on_round k f e = (case jm_get (ng_rounds e) k of
     None \<Rightarrow> e | Some r \<Rightarrow> put_round k (f (r, ng_managers e)) e)"

fun engine_step :: "engine \<Rightarrow> engine_event \<Rightarrow> engine" where
  "engine_step e (Ee_start c p t v i st now) = snd (startContributionRound c p t v i st now e)"
| "engine_step e (Ee_propose pe c p t v ts now) = snd (snd (proposeContribution pe c p t v ts now e))"
| "engine_step e (Ee_vote i c p t reason s now) = snd (engine_recordVerifiedVote i c p t reason s now e)"
| "engine_step e (Ee_cast k p t reason now) = on_round k (\<lambda>rg. snd (round_castVote p t reason now rg)) e"
| "engine_step e (Ee_message pe q msg now) = snd (snd (handleMessage pe q msg now e))"
| "engine_step e (Ee_requirements n a tr to) = (let g = ng_managers e in
     e\<lparr>ng_managers := g\<lparr>mg_quorum := updateRequirements n a tr to (mg_quorum g)\<rparr>\<rparr>)"
| "engine_step e (Ee_expire k now) = on_round k (\<lambda>(r, g). (snd (expireIfTimedOut g now r), g)) e"
| "engine_step e (Ee_fail k now) = on_round k (\<lambda>(r, g). (round_fail now r, g)) e"
| "engine_step e (Ee_remove k) = snd (removeRound k e)"
| "engine_step e Ee_clear = clearAllRounds e"
| "engine_step e Ee_reset = engine_reset e"

lemma on_round_ok:
  assumes "engine_ok e"
    and "\<And>r g. round_ok k r \<Longrightarrow> managers_ok g \<Longrightarrow> round_ok k (fst (f (r, g))) \<and> managers_ok (snd (f (r, g)))"
  shows "engine_ok (on_round k f e)"
  using assms put_round_ok engine_ok_round engine_ok_managers by (auto simp: on_round_def split: option.split)

interpretation consensus: machine engine_step engine_ok
proof
  fix e v assume ok: "engine_ok e"
  show "engine_ok (engine_step e v)"
  proof (cases v)
    case (Ee_start c p t x i st now)
    then show ?thesis using start_round [of c p t x i st now e] ok by (metis engine_step.simps(1) snd_conv)
  next
    case (Ee_remove k)
    then show ?thesis
      using ok jm_delete_subset [of k "ng_rounds e"]
      by (auto simp: removeRound_def engine_ok_def jm_keys_delete_distinct split: option.split)
  next
    case Ee_clear
    then show ?thesis using ok by (simp add: clearAllRounds_def engine_ok_def)
  next
    case Ee_reset
    then show ?thesis using ok
      by (simp add: engine_reset_def clearAllRounds_def engine_ok_def managers_ok_def clearAllVotes_def
          clearHistory_def Let_def)
  next
    case (Ee_requirements n a tr to)
    then show ?thesis using ok
      by (simp add: engine_ok_def managers_ok_def updateRequirements_def Let_def)
  next
    case (Ee_cast k p t reason now)
    then show ?thesis using ok cast_vote_ok by (simp add: on_round_ok)
  next
    case (Ee_expire k now)
    then show ?thesis using ok
      by (auto simp: expireIfTimedOut_def round_ok_def intro!: on_round_ok)
  next
    case (Ee_fail k now)
    then show ?thesis using ok by (auto simp: round_fail_def round_ok_def intro!: on_round_ok)
  qed (use ok in \<open>simp_all add: propose_ok engine_vote_ok handle_ok\<close>)
qed

definition engine_run :: "engine_event list \<Rightarrow> engine" where
  "engine_run es = foldl engine_step engine_init es"

lemma engine_run_ok: "engine_ok (engine_run es)"
  unfolding engine_run_def by (rule consensus.inv_run) simp


section \<open>Votes decide rounds\<close>

lemma approvals: "vc_approve (countVotes c m)
    = length (filter (\<lambda>v. cv_vote v = Approve) (getVotesForContribution c m))"
  "vc_reject (countVotes c m) = length (filter (\<lambda>v. cv_vote v = Reject) (getVotesForContribution c m))"
  "vc_total (countVotes c m) = length (getVotesForContribution c m)"
  by (simp_all add: countVotes_def Let_def)

lemma record_decides:
  assumes "managers_ok g" and "round_recordVerifiedVote p t reason s now (r, g) = (b, r', g')"
    and "\<not> rn_quorumReached r" and "rn_quorumReached r'"
  shows "rn_status r' = Reached \<and> rn_result r' = Some Approved
    \<and> distinct (map cv_voter (getVotesForContribution (rn_contributionId r) (mg_votes g')))
    \<and> (let n = vc_total (countVotes (rn_contributionId r) (mg_votes g'));
            a = vc_approve (countVotes (rn_contributionId r) (mg_votes g'));
            req = qm_requirements (mg_quorum g)
        in qr_minPeers req \<le> int n \<and> qr_requiredAgreement req * of_nat n \<le> of_nat a
           \<and> vc_reject (countVotes (rn_contributionId r) (mg_votes g')) < a)"
proof (cases rule: record_vote_cases [of p t reason s now r g])
  case (same b)
  then show ?thesis using assms by simp
next
  case (stored v)
  let ?g = "g\<lparr>mg_votes := store_vote v (mg_votes g)\<rparr>" and ?r = "r\<lparr>rn_votes := rn_votes r @ [v]\<rparr>"
  have rg: "(r', g') = checkQuorum now (?r, ?g)" using stored(1) assms(2) by simp
  have ok: "votes_ok (store_vote v (mg_votes g))"
    using store_new_ok stored(2) assms(1) by (simp add: managers_ok_def)
  show ?thesis
  proof (cases rule: checkQuorum_cases [of ?g ?r now])
    case (decided q)
    have "mg_votes g' = store_vote v (mg_votes g)" using rg decided by simp
    then show ?thesis
      using decided rg one_vote_each [OF ok, of "rn_contributionId r"]
      by (simp add: quorum_reached_iff Let_def counts_sum del: of_nat_add)
  next
    case (open_round a)
    then show ?thesis using rg assms(3,4) by simp
  qed
qed


definition no_result_message :: "engine_event \<Rightarrow> bool" where
  "no_result_message e \<longleftrightarrow> (case e of Ee_message p q (Result_message x) now \<Rightarrow> False | _ \<Rightarrow> True)"

lemma record_no_rejection:
  "rn_result r \<noteq> Some Rejected \<Longrightarrow>
   rn_result (fst (snd (round_recordVerifiedVote p t reason s now (r, g)))) \<noteq> Some Rejected"
proof (cases rule: record_vote_cases [of p t reason s now r g])
  case (stored v)
  assume "rn_result r \<noteq> Some Rejected"
  then show ?thesis
    by (cases rule: checkQuorum_cases [of "g\<lparr>mg_votes := store_vote v (mg_votes g)\<rparr>"
          "r\<lparr>rn_votes := rn_votes r @ [v]\<rparr>" now]) (simp_all add: stored(1))
qed simp

lemma engine_vote_no_rejection:
  "no_rejection e \<Longrightarrow> engine_ok e \<Longrightarrow> no_rejection (snd (engine_recordVerifiedVote i c p t reason s now e))"
  using record_no_rejection no_rejection_put no_rejection_get find_round_get
  by (simp add: engine_recordVerifiedVote_def case_prod_beta split: option.split) blast


lemma message_no_rejection:
  assumes "no_rejection e" and "engine_ok e" and "\<And>x. msg \<noteq> Result_message x"
  shows "no_rejection (snd (snd (handleMessage p q msg now e)))"
proof (cases msg)
  case (Proposal_message x)
  show ?thesis
    by (rule proposal_split [OF assms(2), of p q x now])
      (use assms(1) in \<open>simp add: Proposal_message handleMessage_def record_vote_payload_def
        engine_vote_no_rejection split: option.split\<close>)
next
  case (Vote_message x)
  then show ?thesis
    using engine_vote_no_rejection [OF assms(1,2)] assms(1)
    by (simp add: handleMessage_def handleVote_def record_vote_payload_def case_prod_beta Let_def)
qed (use assms in \<open>auto simp: handleMessage_def\<close>)

lemma on_round_no_rejection:
  assumes "no_rejection e"
    and "\<And>r g. rn_result r \<noteq> Some Rejected \<Longrightarrow> rn_result (fst (f (r, g))) \<noteq> Some Rejected"
  shows "no_rejection (on_round k f e)"
  using assms no_rejection_put no_rejection_get by (auto simp: on_round_def split: option.split)

lemma step_no_rejection:
  assumes "no_rejection e" and "engine_ok e" and "no_result_message v"
  shows "no_rejection (engine_step e v)"
proof (cases v)
  case (Ee_start c p t x i st now)
  then show ?thesis using start_no_rejection [OF assms(1), of c p t x i st now] by (simp add: prod_eq_iff)
next
  case (Ee_propose pe c p t x ts now)
  obtain k e1 r where s: "startContributionRound c p t x None None now e = (k, e1)"
    and r: "jm_get (ng_rounds e1) k = Some r"
    using start_round [of c p t x None None now e] by metis
  note no = start_no_rejection [OF assms(1) s]
  then show ?thesis
    using s r no_rejection_put [OF no] no_rejection_get [OF no r]
    by (simp add: Ee_propose proposeContribution_def Let_def)
next
  case (Ee_cast k p t reason now)
  have "rn_result (fst (snd (round_castVote p t reason now (r, g)))) \<noteq> Some Rejected"
    if "rn_result r \<noteq> Some Rejected" for r g
    by (cases rule: cast_vote_is_record [of p t reason now r g])
      (use that record_no_rejection [OF that] in simp_all)
  then show ?thesis using assms(1) by (simp add: Ee_cast on_round_no_rejection)
next
  case (Ee_message pe q msg now)
  then show ?thesis
    using message_no_rejection [OF assms(1,2)] assms(3)
    by (auto simp: no_result_message_def split: consensus_message.splits)
next
  case (Ee_expire k now)
  then show ?thesis using assms(1)
    by (auto simp: expireIfTimedOut_def intro!: on_round_no_rejection split: if_splits)
next
  case (Ee_fail k now)
  then show ?thesis using assms(1) by (auto simp: round_fail_def intro!: on_round_no_rejection)
next
  case (Ee_remove k)
  then show ?thesis using assms(1) jm_delete_subset [of k "ng_rounds e"]
    by (auto simp: removeRound_def no_rejection_def split: option.split)
qed (use assms engine_vote_no_rejection in
    \<open>simp_all add: clearAllRounds_def engine_reset_def no_rejection_def Let_def\<close>)

text \<open>C23: Votes never reject a contribution. However many peers vote against it, and whatever else
  happens, a round gets the result \<open>rejected\<close> only through a result message of another peer, so a
  contribution that everybody rejects stays undecided.\<close>

theorem votes_never_reject:
  assumes "\<forall>v \<in> set es. no_result_message v" and "(k, r) \<in> set (ng_rounds (engine_run es))"
  shows "rn_result r \<noteq> Some Rejected"
proof -
  have "no_rejection (engine_run es)"
    using assms(1)
  proof (induction es rule: rev_induct)
    case Nil
    then show ?case by (simp add: engine_run_def engine_init_def no_rejection_def)
  next
    case (snoc v es)
    then show ?case using step_no_rejection [of "engine_run es" v] engine_run_ok [of es]
      by (simp add: engine_run_def)
  qed
  then show ?thesis using assms(2) by (auto simp: no_rejection_def)
qed

text \<open>One message decides. Any verified peer can set the result and the percentage of a round that is
  pending or open, although no vote has been counted: the votes stay as they were.\<close>

theorem one_peer_decides:
  assumes "jm_get (ng_rounds e) (sp_roundId x) = Some r" and "rn_status r = Pending \<or> rn_status r = Voting"
    and "isVerified p q" and "sp_result x = Some out"
  shows "\<exists>r'. jm_get (ng_rounds (snd (snd (handleMessage p q (Result_message x) now e)))) (sp_roundId x) = Some r'
    \<and> rn_status r' = Reached \<and> rn_result r' = Some out \<and> rn_approvalPercentage r' = sp_approvalPercentage x
    \<and> mg_votes (ng_managers (snd (snd (handleMessage p q (Result_message x) now e)))) = mg_votes (ng_managers e)"
  using assms by (auto simp: handleMessage_def handleResult_def engine_recordExternalResult_def
      find_round_def round_recordExternalResult_def put_round_def jm.get_put)

text \<open>A closed round can still be decided. A vote that completes the quorum of a round that failed or
  expired makes it \<open>reached\<close> and approved, although \<open>recordExternalResult\<close> refuses such rounds.\<close>

theorem closed_round_decided:
  assumes "rn_status r = Failed \<or> rn_status r = Expired" and "\<not> rn_quorumReached r"
    and "managers_ok g" and "round_recordVerifiedVote p t reason s now (r, g) = (True, r', g')"
    and "mg_votes g' \<noteq> mg_votes g"
    and "qu_reached (calculateQuorum (qm_requirements (mg_quorum g))
        (vc_approve (countVotes (rn_contributionId r) (mg_votes g')))
        (vc_reject (countVotes (rn_contributionId r) (mg_votes g')))
        (vc_abstain (countVotes (rn_contributionId r) (mg_votes g'))) now)"
  shows "isSuccessful r' \<and> fst (round_recordExternalResult out a d r) = False"
proof (cases rule: record_vote_cases [of p t reason s now r g])
  case (same b)
  then show ?thesis using assms by simp
next
  case (stored v)
  let ?g = "g\<lparr>mg_votes := store_vote v (mg_votes g)\<rparr>" and ?r = "r\<lparr>rn_votes := rn_votes r @ [v]\<rparr>"
  have rg: "(r', g') = checkQuorum now (?r, ?g)" using stored(1) assms(4) by simp
  have votes: "mg_votes g' = store_vote v (mg_votes g)" using rg by (metis checkQuorum_same(4) snd_conv managers.select_convs(1) managers.surjective managers.update_convs(1))
  have "isSuccessful r'"
    using rg assms(2,6) by (simp add: checkQuorum_def Let_def complete_def isSuccessful_def votes
        calculateQuorum_def split: if_splits)
  then show ?thesis using assms(1) by (auto simp: round_recordExternalResult_def)
qed


section \<open>Messages\<close>

abbreviation all_votes :: "engine \<Rightarrow> contribution_vote list" where
  "all_votes e \<equiv> getAllVotes (mg_votes (ng_managers e))"

lemma record_adds:
  assumes "managers_ok g"
  shows "getAllVotes (mg_votes (snd (snd (round_recordVerifiedVote p t reason s now (r, g)))))
      = getAllVotes (mg_votes g)
    \<or> (\<exists>v. getAllVotes (mg_votes (snd (snd (round_recordVerifiedVote p t reason s now (r, g)))))
      = getAllVotes (mg_votes g) @ [v] \<and> cv_voter v = p \<and> vote_of t = Some (cv_vote v)
        \<and> cv_reason v = reason \<and> cv_signature v = or_else s [])"
proof (cases rule: record_vote_cases [of p t reason s now r g])
  case (stored v)
  have "vm_votes (store_vote v (mg_votes g)) = vm_votes (mg_votes g) @ [(vote_key v, v)]"
    using store_new_ok stored(2) assms by (simp add: managers_ok_def)
  then show ?thesis using stored by (auto simp: getAllVotes_def)
qed simp

lemma engine_vote_adds:
  assumes "engine_ok e"
  shows "all_votes (snd (engine_recordVerifiedVote i c p t reason s now e)) = all_votes e
    \<or> (\<exists>v. all_votes (snd (engine_recordVerifiedVote i c p t reason s now e)) = all_votes e @ [v]
        \<and> cv_voter v = p \<and> vote_of t = Some (cv_vote v) \<and> cv_reason v = reason
        \<and> cv_signature v = or_else s [])"
proof (cases "find_round i c e")
  case None
  then show ?thesis by (simp add: engine_recordVerifiedVote_def)
next
  case (Some kr)
  obtain k r where kr: "find_round i c e = Some (k, r)" using Some by (cases kr) auto
  then show ?thesis
    using record_adds [OF engine_ok_managers [OF assms], of p t reason s now r]
    by (simp add: engine_recordVerifiedVote_def case_prod_beta put_round_def)
qed

lemma vote_of_name [simp]: "vote_of (vote_name v) = Some v"
  by (cases v) (simp_all add: vote_of_def)

lemma vote_name_inj [simp]: "vote_name v = vote_name w \<longleftrightarrow> v = w"
  by (cases v; cases w) simp_all

lemma external_votes [simp]:
  "mg_votes (ng_managers (snd (engine_recordExternalResult i c out a t e))) = mg_votes (ng_managers e)"
  by (simp add: engine_recordExternalResult_def case_prod_beta put_round_def split: option.split)

text \<open>Who may have cast the vote a message adds.\<close>

definition vote_justified :: "consensus_peer \<Rightarrow> string \<Rightarrow> consensus_message \<Rightarrow> contribution_vote \<Rightarrow> bool" where
  "vote_justified p q msg v \<longleftrightarrow> (case msg of
     Vote_message x \<Rightarrow> vote_authentic p q x \<and> cv_voter v = q \<and> cv_vote v = vp_vote x
       \<and> cv_reason v = vp_reason x \<and> cv_signature v = vp_signature x
   | Proposal_message x \<Rightarrow> cv_voter v = kp_localPeerId p \<and> cv_vote v = Approve
   | _ \<Rightarrow> False)"


text \<open>The text a voter signs determines the vote.\<close>

lemma vote_signable_canonical:
  "toCanonicalValue (vote_signable_value i c p v reason t) = Inr (J_obj
     [(''contributionId'', J_str c), (''reason'', case reason of None \<Rightarrow> J_null | Some x \<Rightarrow> J_str x),
      (''roundId'', J_str i), (''vote'', J_str (vote_name v)), (''votedAt'', J_num t), (''voter'', J_str p)])"
  by (simp add: vote_signable_value_def key_cmp_def split: option.split)

text \<open>What a voter signs fixes the vote: two votes with the same signed text agree on the round, the
  contribution, the voter, the vote, the reason and the time.\<close>

theorem vote_text_fixes_vote:
  "getConsensusVoteSignableBytes i c p v reason t = getConsensusVoteSignableBytes i' c' p' v' reason' t'
     \<longleftrightarrow> i = i' \<and> c = c' \<and> p = p' \<and> v = v' \<and> reason = reason' \<and> t = t'" (is "?l \<longleftrightarrow> ?r")
proof
  assume ?l
  then have "toCanonicalValue (vote_signable_value i c p v reason t)
      = toCanonicalValue (vote_signable_value i' c' p' v' reason' t')"
    unfolding getConsensusVoteSignableBytes_def
    by (rule canonical_text_inj [OF vote_signable_canonical vote_signable_canonical])
  then show ?r by (simp add: vote_signable_canonical split: option.splits)
qed simp

section \<open>Delivering twice\<close>

lemma record_leaves_vote:
  assumes "round_recordVerifiedVote p t reason s now (r, g) = (b, r', g')"
  shows "rn_contributionId r' = rn_contributionId r
    \<and> (vote_of t = None \<or> jm_get (vm_votes (mg_votes g')) (createVoteId (rn_contributionId r) p) \<noteq> None)"
proof (cases rule: record_vote_cases [of p t reason s now r g])
  case (same b)
  then have "r' = r" "g' = g" using assms by auto
  then show ?thesis using same by simp
next
  case (stored v)
  have rg: "(r', g') = checkQuorum now (r\<lparr>rn_votes := rn_votes r @ [v]\<rparr>, g\<lparr>mg_votes := store_vote v (mg_votes g)\<rparr>)"
    using stored(1) assms by simp
  have "mg_votes g' = store_vote v (mg_votes g)" "rn_contributionId r' = rn_contributionId r"
    using rg checkQuorum_same by (metis fst_conv snd_conv managers.select_convs(1) managers.surjective
        managers.update_convs(1), metis fst_conv checkQuorum_same(1) consensus_round.select_convs(2)
        consensus_round.surjective consensus_round.update_convs(7))
  then show ?thesis by (simp add: store_vote_def stored(3) jm.get_put)
qed

lemma record_again:
  assumes "vote_of t = None \<or> jm_get (vm_votes (mg_votes g)) (createVoteId (rn_contributionId r) p) \<noteq> None"
  shows "snd (round_recordVerifiedVote p t reason s now (r, g)) = (r, g)"
  using assms by (auto simp: round_recordVerifiedVote_def tryCastVote_def split: option.split)

lemma find_update:
  "find P m = Some (k, r) \<Longrightarrow> distinct (jm_keys m) \<Longrightarrow> P (k, r') \<Longrightarrow> find P (jm_set k r' m) = Some (k, r')"
proof (induction m)
  case (Cons a m)
  obtain l x where a: "a = (l, x)" by (cases a)
  show ?case
  proof (cases "P a")
    case True
    then show ?thesis using Cons.prems a by simp
  next
    case False
    then have "find P m = Some (k, r)" using Cons.prems by simp
    moreover then have "(k, r) \<in> set m" using find_mem by fast
    then have "l \<noteq> k" using Cons.prems(2) a by force
    ultimately show ?thesis using Cons False a by simp
  qed
qed simp

lemma find_round_put:
  assumes "engine_ok e" and "find_round i c e = Some (k, r)" and "rn_contributionId (fst rg) = rn_contributionId r"
  shows "find_round i c (put_round k rg e) = Some (k, fst rg)"
proof (cases "jm_get (ng_rounds e) i")
  case None
  then have f: "find (\<lambda>(k, r). rn_contributionId r = c) (ng_rounds e) = Some (k, r)"
    using assms(2) by (simp add: find_round_def getRoundByContributionId_def)
  then have "rn_contributionId r = c" by (auto dest: find_mem)
  then have "find (\<lambda>(k, r). rn_contributionId r = c) (jm_set k (fst rg) (ng_rounds e)) = Some (k, fst rg)"
    using f assms(1,3) by (intro find_update) (auto simp: engine_ok_def)
  moreover have "k \<noteq> i" using None find_round_get [OF assms(1,2)] by auto
  ultimately show ?thesis
    using None by (simp add: find_round_def getRoundByContributionId_def put_round_def jm.get_put)
qed (use assms in \<open>simp add: find_round_def put_round_def jm.get_put\<close>)

lemma vote_twice:
  assumes "engine_ok e"
  shows "snd (engine_recordVerifiedVote i c p t reason s' now'
           (snd (engine_recordVerifiedVote i c p t reason s now e)))
       = snd (engine_recordVerifiedVote i c p t reason s now e)"
proof (cases "find_round i c e")
  case None
  then show ?thesis by (simp add: engine_recordVerifiedVote_def)
next
  case (Some kr)
  obtain k r where kr: "find_round i c e = Some (k, r)" using Some by (cases kr) auto
  obtain b r' g' where rec: "round_recordVerifiedVote p t reason s now (r, ng_managers e) = (b, r', g')"
    by (metis prod_cases3)
  note left = record_leaves_vote [OF rec]
  have e1: "snd (engine_recordVerifiedVote i c p t reason s now e) = put_round k (r', g') e"
    by (simp add: engine_recordVerifiedVote_def kr rec)
  have again: "snd (round_recordVerifiedVote p t reason s' now' (r', g')) = (r', g')"
    using left by (intro record_again) auto
  have "find_round i c (put_round k (r', g') e) = Some (k, r')"
    using find_round_put [OF assms kr, of "(r', g')"] left by simp
  then have "snd (engine_recordVerifiedVote i c p t reason s' now' (put_round k (r', g') e))
      = put_round k (r', g') (put_round k (r', g') e)"
    using again by (simp add: engine_recordVerifiedVote_def case_prod_beta put_round_def)
  also have "\<dots> = put_round k (r', g') e" by (simp add: put_round_def update_triv jm.get_put)
  finally show ?thesis unfolding e1 .
qed

text \<open>Delivering a vote message a second time, then or later, changes nothing, whether the first
  delivery was counted, refused or ignored.\<close>

theorem vote_redelivery_harmless:
  "let e1 = snd (snd (handleMessage p q (Vote_message x) now (engine_run es)))
   in snd (snd (handleMessage p q (Vote_message x) later e1)) = e1"
  using vote_twice [OF engine_run_ok]
  by (simp add: handleMessage_def handleVote_def record_vote_payload_def case_prod_beta Let_def)

section \<open>Snapshots\<close>

lemma foldl_rebuild:
  "distinct (jm_keys (u @ m)) \<Longrightarrow> \<forall>(k, v) \<in> set m. f v = k \<Longrightarrow>
   foldl (\<lambda>t v. jm_set (f v) v t) u (jm_values m) = u @ m"
proof (induction m arbitrary: u)
  case (Cons a m)
  obtain k v where a: "a = (k, v)" by (cases a)
  have "jm_set k v u = u @ [(k, v)]" using Cons.prems(1) a by (intro jm_set_new) auto
  then show ?case using Cons.IH [of "u @ [a]"] Cons.prems a by simp
qed simp

lemma foldl_entries:
  "distinct (jm_keys (u @ m)) \<Longrightarrow> foldl (\<lambda>t (k, v). jm_set k v t) u m = u @ m"
proof (induction m arbitrary: u)
  case (Cons a m)
  obtain k v where a: "a = (k, v)" by (cases a)
  have "jm_set k v u = u @ [(k, v)]" using Cons.prems a by (intro jm_set_new) auto
  then show ?case using Cons.IH [of "u @ [a]"] Cons.prems a by simp
qed simp

text \<open>Restoring the snapshot of an engine gives its rounds, its votes with the same counts for every
  contribution, and its history of quorums, whatever the engine that restores it held before.\<close>

theorem snapshot_roundtrip:
  "let e = engine_run es; e' = restoreSnapshot (createSnapshot now e) e0
   in ng_rounds e' = ng_rounds e \<and> all_votes e' = all_votes e
      \<and> countVotes c (mg_votes (ng_managers e')) = countVotes c (mg_votes (ng_managers e))
      \<and> getVotesByVoter p (mg_votes (ng_managers e')) = getVotesByVoter p (mg_votes (ng_managers e))
      \<and> qm_history (mg_quorum (ng_managers e')) = qm_history (mg_quorum (ng_managers e))"
proof -
  define e where "e = engine_run es"
  define e' where "e' = restoreSnapshot (createSnapshot now e) e0"
  have ok: "engine_ok e" unfolding e_def by (rule engine_run_ok)
  then have vok: "votes_ok (mg_votes (ng_managers e))" by (simp add: engine_ok_def managers_ok_def)
  have "\<forall>(k, r) \<in> set (ng_rounds e). rn_roundId r = k" using ok by (auto simp: engine_ok_def round_ok_def)
  then have rounds: "ng_rounds e' = ng_rounds e"
    using ok foldl_rebuild [of "[]" "ng_rounds e" rn_roundId]
    by (simp add: e'_def restoreSnapshot_def createSnapshot_def Let_def engine_ok_def)
  have m: "mg_votes (ng_managers e') = restoreVotes (all_votes e) (mg_votes (ng_managers e0))"
    by (simp add: e'_def restoreSnapshot_def createSnapshot_def Let_def)
  have vok': "votes_ok (mg_votes (ng_managers e'))" and all: "all_votes e' = all_votes e"
    using restore_own [OF vok, of "mg_votes (ng_managers e0)"] by (simp_all add: m) (simp add: getAllVotes_def)
  have counts: "countVotes c (mg_votes (ng_managers e')) = countVotes c (mg_votes (ng_managers e))"
    by (simp add: countVotes_def scan_contribution [OF vok'] scan_contribution [OF vok] all)
  have voter: "getVotesByVoter p (mg_votes (ng_managers e')) = getVotesByVoter p (mg_votes (ng_managers e))"
    by (simp add: scan_voter [OF vok'] scan_voter [OF vok] all)
  have "qm_history (mg_quorum (ng_managers e')) = qm_history (mg_quorum (ng_managers e))"
    using ok foldl_entries [of "[]" "qm_history (mg_quorum (ng_managers e))"]
    by (simp add: e'_def restoreSnapshot_def createSnapshot_def Let_def restoreSnapshotEntries_def
        engine_ok_def managers_ok_def)
  then show ?thesis using rounds all counts voter unfolding e_def e'_def by (simp add: Let_def)
qed


section \<open>Evidence in rounds\<close>

datatype evidence_event =
    Ev_create string string contribution_type int "string option" "string option" int int
  | Ev_witness string string
  | Ev_sign string peer_signature
  | Ev_round_submit string int
  | Ev_delete string

fun evidence_step :: "managers \<Rightarrow> evidence_event \<Rightarrow> managers" where
  "evidence_step g (Ev_create c p t v ch re n1 n2) =
     g\<lparr>mg_evidence := snd (createEvidence c p t v ch re n1 n2 (mg_evidence g))\<rparr>"
| "evidence_step g (Ev_witness h w) = g\<lparr>mg_evidence := snd (addWitness h w (mg_evidence g))\<rparr>"
| "evidence_step g (Ev_sign h x) = g\<lparr>mg_evidence := snd (addSignature h x (mg_evidence g))\<rparr>"
| "evidence_step g (Ev_round_submit h now) = snd (round_submitEvidence h now g)"
| "evidence_step g (Ev_delete h) = g\<lparr>mg_evidence := snd (deleteEvidence h (mg_evidence g))\<rparr>"

interpretation evidence: machine evidence_step "\<lambda>g :: managers. em_evidence (mg_evidence g) = []"
proof
  fix g :: managers and e assume "em_evidence (mg_evidence g) = []"
  then show "em_evidence (mg_evidence (evidence_step g e)) = []"
    by (cases e) (simp_all add: createEvidence_def addWitness_def addSignature_def deleteEvidence_def
        round_submitEvidence_def getEvidence_def Let_def split: option.split)
qed

text \<open>A round never accepts new evidence: \<open>submitEvidence\<close> of a round looks the hash up among the
  evidence that has been submitted already, so evidence that was created, witnessed and signed is
  refused, and nothing is ever counted as a contribution this way.\<close>

theorem round_accepts_no_evidence:
  "\<not> fst (round_submitEvidence h now (foldl evidence_step managers_init es))
   \<and> em_evidence (mg_evidence (foldl evidence_step managers_init es)) = []"
proof -
  have "em_evidence (mg_evidence (foldl evidence_step managers_init es)) = []"
    by (rule evidence.inv_run) (simp add: managers_init_def evidence_init_def)
  then show ?thesis by (simp add: round_submitEvidence_def getEvidence_def)
qed

section \<open>Concrete runs\<close>

definition sample_consensus :: "engine_event list" where
  "sample_consensus = [Ee_requirements (Some 1) None None None,
     Ee_start ''c'' ''p'' Storage 1 (Some ''r'') None 0]"

lemma sample_engine:
  "engine_run sample_consensus = \<lparr>ng_rounds = [(''r'', \<lparr>rn_roundId = ''r'', rn_contributionId = ''c'',
      rn_status = Pending, rn_startTime = 0, rn_endTime = None, rn_witnesses = [], rn_votes = [],
      rn_quorumRequired = 1, rn_quorumReached = False, rn_approvalPercentage = 0, rn_result = None\<rparr>)],
    ng_managers = managers_init\<lparr>mg_quorum := \<lparr>qm_requirements =
      \<lparr>qr_minPeers = 1, qr_requiredAgreement = 66 / 100, qr_minTrustScore = 600, qr_timeout = 300000\<rparr>,
      qm_history = []\<rparr>\<rparr>\<rparr>"
  by (simp add: engine_run_def sample_consensus_def engine_init_def updateRequirements_def or_else_def
      startContributionRound_def new_round_def managers_init_def defaultQuorumRequirements_def Let_def)

definition sample_vote :: contribution_vote where
  "sample_vote = \<lparr>cv_contributionId = ''c'', cv_voter = ''v'', cv_vote = Approve, cv_reason = None,
     cv_timestamp = 5, cv_signature = []\<rparr>"

lemma sample_counts: "countVotes ''c'' (store_vote sample_vote vote_manager_init)
    = \<lparr>vc_total = 1, vc_approve = 1, vc_reject = 0, vc_abstain = 0\<rparr>"
  by (simp add: sample_vote_def countVotes_def getVotesForContribution_def store_vote_def
      vote_manager_init_def index_add_def votes_at_def or_else_def set_add_def map_filter_simps Let_def)

lemma sample_quorum:
  "qr_minPeers req = 1 \<Longrightarrow> qr_requiredAgreement req = 66 / 100 \<Longrightarrow> qu_reached (calculateQuorum req 1 0 0 5)"
  by (simp add: calculateQuorum_def percentage_def Let_def)

lemma sample_decides:
  assumes "mg_votes g = vote_manager_init" and "rn_contributionId r = ''c''" and "\<not> rn_quorumReached r"
    and "qr_minPeers (qm_requirements (mg_quorum g)) = 1"
    and "qr_requiredAgreement (qm_requirements (mg_quorum g)) = 66 / 100"
  obtains r' g' where "round_recordVerifiedVote ''v'' ''approve'' None None 5 (r, g) = (True, r', g')"
    and "rn_quorumReached r'" and "mg_votes g' = store_vote sample_vote vote_manager_init"
proof -
  let ?r = "r\<lparr>rn_votes := rn_votes r @ [sample_vote]\<rparr>"
    and ?g = "g\<lparr>mg_votes := store_vote sample_vote vote_manager_init\<rparr>"
  have rec: "round_recordVerifiedVote ''v'' ''approve'' None None 5 (r, g) = (True, checkQuorum 5 (?r, ?g))"
    using assms(1,2) by (simp add: round_recordVerifiedVote_def tryCastVote_def vote_of_def
        vote_manager_init_def Let_def or_else_def sample_vote_def)
  obtain r' g' where c: "checkQuorum 5 (?r, ?g) = (r', g')" by fastforce
  have "rn_quorumReached r'" "mg_votes g' = store_vote sample_vote vote_manager_init"
    using c sample_quorum [OF assms(4,5)] assms(2,3)
    by (auto simp: checkQuorum_def Let_def sample_counts complete_def)
  with rec c show thesis by (intro that) simp_all
qed


theorem votes_never_reject_witness:
  "rn_result (snd (hd (ng_rounds (engine_run sample_consensus)))) \<noteq> Some Rejected"
  using votes_never_reject [of sample_consensus "''r''" "snd (hd (ng_rounds (engine_run sample_consensus)))"]
  by (simp add: sample_engine sample_consensus_def [THEN arg_cong [of _ _ set]] no_result_message_def)

definition sample_trusted :: "string \<Rightarrow> trusted_peer" where
  "sample_trusted p = (upserted (upsert_only p From_manual) None 0)\<lparr>tp_trustStatus := Trust_verified\<rparr>"

definition sample_peer :: consensus_peer where
  "sample_peer = \<lparr>kp_localPeerId = ''me'', kp_trusted = (\<lambda>p. Some (sample_trusted p)),
     kp_connected = [''q''], kp_publicIdentity = Some ''key'', kp_sign = (\<lambda>t. t),
     kp_verify = (\<lambda>t s k. s = t)\<rparr>"

theorem one_peer_decides_witness:
  "\<exists>r'. jm_get (ng_rounds (snd (snd (handleMessage sample_peer ''q'' (Result_message
      \<lparr>sp_roundId = ''r'', sp_contributionId = ''c'', sp_result = Some Rejected, sp_approvalPercentage = 7,
       sp_decidedAt = 1\<rparr>) 2 (engine_run sample_consensus))))) ''r'' = Some r' \<and> rn_result r' = Some Rejected"
proof -
  let ?x = "\<lparr>sp_roundId = ''r'', sp_contributionId = ''c'', sp_result = Some Rejected,
    sp_approvalPercentage = 7, sp_decidedAt = 1\<rparr> :: result_payload"
  have "isVerified sample_peer ''q''" by (simp add: isVerified_def sample_peer_def sample_trusted_def)
  then show ?thesis
    using one_peer_decides [of "engine_run sample_consensus" ?x "snd (hd (ng_rounds (engine_run sample_consensus)))"
        sample_peer "''q''" Rejected 2]
    by (auto simp: sample_engine)
qed

theorem closed_round_decided_witness:
  "isSuccessful (fst (snd (round_recordVerifiedVote ''v'' ''approve'' None None 5
     (round_fail 3 (snd (hd (ng_rounds (engine_run sample_consensus)))), ng_managers (engine_run sample_consensus)))))"
proof -
  let ?r = "round_fail 3 (snd (hd (ng_rounds (engine_run sample_consensus))))"
    and ?g = "ng_managers (engine_run sample_consensus)"
  obtain r' g' where rec: "round_recordVerifiedVote ''v'' ''approve'' None None 5 (?r, ?g) = (True, r', g')"
    and votes: "mg_votes g' = store_vote sample_vote vote_manager_init"
    by (rule sample_decides [of ?g ?r]) (simp_all add: sample_engine managers_init_def round_fail_def)
  have "mg_votes g' \<noteq> mg_votes ?g"
    by (simp add: votes sample_engine managers_init_def) (simp add: store_vote_def vote_manager_init_def)
  moreover have "managers_ok ?g" by (rule engine_ok_managers [OF engine_run_ok])
  moreover have "rn_status ?r = Failed" "\<not> rn_quorumReached ?r" "rn_contributionId ?r = ''c''"
    by (simp_all add: round_fail_def sample_engine)
  moreover have "qu_reached (calculateQuorum (qm_requirements (mg_quorum ?g)) 1 0 0 5)"
    by (rule sample_quorum) (simp_all add: sample_engine)
  ultimately have "isSuccessful r'"
    using closed_round_decided [OF _ _ _ rec, where out = Approved and a = 0 and d = 0]
    by (simp add: votes sample_counts)
  then show ?thesis by (simp add: rec)
qed

end
