(* ===== verification/Ledger.thy ===== *)
theory Ledger
  imports Complex_Main StringHash
begin

text \<open>
  The local ledger (\<open>src/economy/Ledger/LedgerEngine.ts\<close>): entries by id, the balance of every wallet,
  the total supply and snapshots. Amounts are rationals, where the code adds floating point numbers
  and compares the sums for equality. The clock is read once per operation. A limit of zero is no
  limit, as in the code. The metadata of an entry is left out.
\<close>

datatype reward_category = RStorage | RBandwidth | RStreaming | RReplication | RAvailability | RCommunity

datatype ledger_type = LReward | LTransfer | LPenalty | LBonus | LStake | LUnstake

record ledger_entry =
  le_id :: string
  le_wallet :: string
  le_amount :: rat
  le_type :: ledger_type
  le_category :: "reward_category option"
  le_description :: string
  le_timestamp :: int
  le_balance :: rat

record ledger_snapshot =
  ls_id :: string
  ls_timestamp :: int
  ls_totalSupply :: rat
  ls_totalWallets :: nat
  ls_totalTransactions :: nat
  ls_rootHash :: string
  ls_previous :: "string option"

record ledger =
  lg_entries :: "(string, ledger_entry) jsmap"
  lg_snapshots :: "(string, ledger_snapshot) jsmap"
  lg_balances :: "(string, rat) jsmap"
  lg_totalSupply :: rat
  lg_entryCounter :: nat
  lg_snapshotCounter :: nat

definition ledger_init :: ledger where
  "ledger_init = \<lparr>lg_entries = [], lg_snapshots = [], lg_balances = [], lg_totalSupply = 0,
     lg_entryCounter = 0, lg_snapshotCounter = 0\<rparr>"

definition entry_id :: "int \<Rightarrow> nat \<Rightarrow> string" where
  "entry_id now n = ''ledger_entry_'' @ show_int now @ ''_'' @ show_nat n"

definition snapshot_id :: "int \<Rightarrow> nat \<Rightarrow> string" where
  "snapshot_id now n = ''snapshot_'' @ show_int now @ ''_'' @ show_nat n"

definition ledger_getBalance :: "string \<Rightarrow> ledger \<Rightarrow> rat" where
  "ledger_getBalance w l = or_else (jm_get (lg_balances l) w) 0"

definition addEntry ::
  "string \<Rightarrow> rat \<Rightarrow> ledger_type \<Rightarrow> string \<Rightarrow> reward_category option \<Rightarrow> int \<Rightarrow> ledger
     \<Rightarrow> ledger_entry \<times> ledger" where
  "addEntry w amount t description category now l =
     (let newBalance = ledger_getBalance w l + amount;
          n = Suc (lg_entryCounter l);
          e = \<lparr>le_id = entry_id now n, le_wallet = w, le_amount = amount, le_type = t,
               le_category = category, le_description = description, le_timestamp = now,
               le_balance = newBalance\<rparr>
      in (e, l\<lparr>lg_entryCounter := n, lg_entries := jm_set (le_id e) e (lg_entries l),
               lg_balances := jm_set w newBalance (lg_balances l),
               lg_totalSupply := lg_totalSupply l + amount\<rparr>))"

definition limited :: "nat option \<Rightarrow> 'a list \<Rightarrow> 'a list" where
  "limited limit xs = (case limit of None \<Rightarrow> xs | Some n \<Rightarrow> if n = 0 then xs else last_n n xs)"

definition getEntry :: "string \<Rightarrow> ledger \<Rightarrow> ledger_entry option" where
  "getEntry i l = jm_get (lg_entries l) i"

definition getEntriesForWallet :: "string \<Rightarrow> nat option \<Rightarrow> ledger \<Rightarrow> ledger_entry list" where
  "getEntriesForWallet w limit l = limited limit (filter (\<lambda>e. le_wallet e = w) (jm_values (lg_entries l)))"

definition getEntriesByType :: "ledger_type \<Rightarrow> nat option \<Rightarrow> ledger \<Rightarrow> ledger_entry list" where
  "getEntriesByType t limit l = limited limit (filter (\<lambda>e. le_type e = t) (jm_values (lg_entries l)))"

definition getEntriesByCategory :: "reward_category \<Rightarrow> nat option \<Rightarrow> ledger \<Rightarrow> ledger_entry list" where
  "getEntriesByCategory c limit l =
     limited limit (filter (\<lambda>e. le_category e = Some c) (jm_values (lg_entries l)))"

definition getAllEntries :: "nat option \<Rightarrow> ledger \<Rightarrow> ledger_entry list" where
  "getAllEntries limit l = limited limit (jm_values (lg_entries l))"

definition getLatestSnapshot :: "ledger \<Rightarrow> ledger_snapshot option" where
  "getLatestSnapshot l = (case js_sort (\<lambda>a b. ls_timestamp b - ls_timestamp a) (jm_values (lg_snapshots l)) of
     [] \<Rightarrow> None | s # ss \<Rightarrow> Some s)"

definition calculateRootHash :: "ledger \<Rightarrow> string" where
  "calculateRootHash l = hash_text (concat (js_sort code_cmp (jm_keys (lg_entries l))))"

definition ledger_createSnapshot :: "int \<Rightarrow> ledger \<Rightarrow> ledger_snapshot \<times> ledger" where
  "ledger_createSnapshot now l =
     (let n = Suc (lg_snapshotCounter l);
          s = \<lparr>ls_id = snapshot_id now n, ls_timestamp = now, ls_totalSupply = lg_totalSupply l,
               ls_totalWallets = length (lg_balances l), ls_totalTransactions = length (lg_entries l),
               ls_rootHash = calculateRootHash l, ls_previous = map_option ls_id (getLatestSnapshot l)\<rparr>
      in (s, l\<lparr>lg_snapshotCounter := n, lg_snapshots := jm_set (ls_id s) s (lg_snapshots l)\<rparr>))"

definition ledger_getSnapshot :: "string \<Rightarrow> ledger \<Rightarrow> ledger_snapshot option" where
  "ledger_getSnapshot i l = jm_get (lg_snapshots l) i"

definition verifyIntegrity :: "ledger \<Rightarrow> bool" where
  "verifyIntegrity l \<longleftrightarrow> sum_list (jm_values (lg_balances l)) = lg_totalSupply l"

definition clearEntries :: "ledger \<Rightarrow> ledger" where
  "clearEntries l = l\<lparr>lg_entries := [], lg_balances := [], lg_totalSupply := 0\<rparr>"

definition clearSnapshots :: "ledger \<Rightarrow> ledger" where
  "clearSnapshots l = l\<lparr>lg_snapshots := []\<rparr>"

definition ledger_clearAll :: "ledger \<Rightarrow> ledger" where
  "ledger_clearAll l = clearSnapshots (clearEntries l)"

text \<open>What \<open>JSON.parse\<close> of an export returns; each part may be missing.\<close>

record ledger_text =
  li_entries :: "ledger_entry list option"
  li_snapshots :: "ledger_snapshot list option"
  li_balances :: "(string \<times> rat) list option"
  li_totalSupply :: "rat option"

definition ledger_import :: "ledger_text \<Rightarrow> ledger \<Rightarrow> ledger" where
  "ledger_import d l = l\<lparr>
     lg_entries := foldl (\<lambda>m e. jm_set (le_id e) e m) (lg_entries l) (or_else (li_entries d) []),
     lg_snapshots := foldl (\<lambda>m s. jm_set (ls_id s) s m) (lg_snapshots l) (or_else (li_snapshots d) []),
     lg_balances := foldl (\<lambda>m (w, b). jm_set w b m) (lg_balances l) (or_else (li_balances d) []),
     lg_totalSupply := or_else (li_totalSupply d) (lg_totalSupply l)\<rparr>"

definition ledger_export :: "ledger \<Rightarrow> ledger_text" where
  "ledger_export l = \<lparr>li_entries = Some (jm_values (lg_entries l)),
     li_snapshots = Some (jm_values (lg_snapshots l)), li_balances = Some (lg_balances l),
     li_totalSupply = Some (lg_totalSupply l)\<rparr>"

record ledger_statistics =
  lt_totalEntries :: nat
  lt_totalSnapshots :: nat
  lt_totalWallets :: nat
  lt_totalSupply :: rat
  lt_averageBalance :: rat

definition ledgerStatistics :: "ledger \<Rightarrow> ledger_statistics" where
  "ledgerStatistics l = (let balances = jm_values (lg_balances l) in
     \<lparr>lt_totalEntries = length (lg_entries l), lt_totalSnapshots = length (lg_snapshots l),
      lt_totalWallets = length (lg_balances l), lt_totalSupply = lg_totalSupply l,
      lt_averageBalance = (if balances \<noteq> [] then sum_list balances / of_nat (length balances) else 0)\<rparr>)"

end
