(* ===== verification/Rewards.thy ===== *)
theory Rewards
  imports Ledger Wallet
begin

text \<open>
  Rewards for contributions: \<open>src/economy/RewardCalculator.ts\<close> (what a proof earns),
  \<open>RewardSchedule.ts\<close> (the emission of each year), \<open>RewardPool.ts\<close> (daily and per-peer limits by
  category), \<open>InflationController.ts\<close> (supply, daily and per-peer limits), \<open>AntiAbuseController.ts\<close>
  (reports and scores) and \<open>api/EconomyPublicAPI.ts\<close> that puts them together. Amounts are rationals.
  Where the code divides by zero the result is written out. Descriptions and evidence of abuse
  reports, which are only displayed, and the JSON texts are left out; a value that is imported is
  what \<open>JSON.parse\<close> returned.
\<close>

section \<open>What a proof earns\<close>

record contribution_proof =
  pr_contributionId :: string
  pr_contributor :: string
  pr_category :: reward_category
  pr_value :: rat
  pr_timestamp :: int
  pr_trustScore :: rat
  pr_approvalPercentage :: rat
  pr_quorumReached :: bool

record calculator =
  ca_weights :: "reward_category \<Rightarrow> rat"
  ca_baseRate :: rat

fun default_weight :: "reward_category \<Rightarrow> rat" where
  "default_weight RStorage = 30 / 100"
| "default_weight RBandwidth = 25 / 100"
| "default_weight RStreaming = 15 / 100"
| "default_weight RReplication = 15 / 100"
| "default_weight RAvailability = 10 / 100"
| "default_weight RCommunity = 5 / 100"

definition calculator_init :: "(reward_category \<Rightarrow> rat option) \<Rightarrow> rat option \<Rightarrow> calculator" where
  "calculator_init weights rate =
     \<lparr>ca_weights = (\<lambda>c. or_else (weights c) (default_weight c)), ca_baseRate = or_else rate 1\<rparr>"

definition calculateBaseReward :: "calculator \<Rightarrow> contribution_proof \<Rightarrow> rat" where
  \<comment> \<open>\<open>weights[category] || 0.1\<close>: a weight of zero counts as missing.\<close>
  "calculateBaseReward k p = pr_value p * ca_baseRate k
     * (if ca_weights k (pr_category p) = 0 then 10 / 100 else ca_weights k (pr_category p))"

definition calculateBonus :: "contribution_proof \<Rightarrow> int \<Rightarrow> rat" where
  "calculateBonus p now =
     (if pr_approvalPercentage p \<ge> 90 then pr_value p * (10 / 100)
      else if pr_approvalPercentage p \<ge> 80 then pr_value p * (5 / 100) else 0)
   + (if now - pr_timestamp p < 24 * 60 * 60 * 1000 then pr_value p * (5 / 100) else 0)
   + (if pr_trustScore p \<ge> 800 then pr_value p * (10 / 100)
      else if pr_trustScore p \<ge> 700 then pr_value p * (5 / 100) else 0)"

definition calculatePenalty :: "contribution_proof \<Rightarrow> int \<Rightarrow> rat" where
  "calculatePenalty p now =
     (if pr_approvalPercentage p < 66 then pr_value p * (20 / 100)
      else if pr_approvalPercentage p < 70 then pr_value p * (10 / 100) else 0)
   + (if pr_trustScore p < 500 then pr_value p * (15 / 100)
      else if pr_trustScore p < 600 then pr_value p * (5 / 100) else 0)
   + (if now - pr_timestamp p > 7 * 24 * 60 * 60 * 1000 then pr_value p * (10 / 100) else 0)"

record reward_result =
  rr_baseReward :: rat
  rr_bonus :: rat
  rr_penalty :: rat
  rr_netReward :: rat
  rr_breakdown :: "reward_category \<Rightarrow> rat"

definition calculateReward :: "calculator \<Rightarrow> contribution_proof \<Rightarrow> int \<Rightarrow> reward_result" where
  "calculateReward k p now =
     (let base = calculateBaseReward k p; bonus = calculateBonus p now; penalty = calculatePenalty p now
      in \<lparr>rr_baseReward = base, rr_bonus = bonus, rr_penalty = penalty,
          rr_netReward = base + bonus - penalty,
          rr_breakdown = (\<lambda>c. if pr_category p = c then base else 0)\<rparr>)"

definition calculateTotalReward :: "calculator \<Rightarrow> contribution_proof list \<Rightarrow> int \<Rightarrow> reward_result" where
  "calculateTotalReward k ps now =
     (let rs = map (\<lambda>p. calculateReward k p now) ps;
          base = sum_list (map rr_baseReward rs); bonus = sum_list (map rr_bonus rs);
          penalty = sum_list (map rr_penalty rs)
      in \<lparr>rr_baseReward = base, rr_bonus = bonus, rr_penalty = penalty,
          rr_netReward = base + bonus - penalty,
          rr_breakdown = (\<lambda>c. sum_list (map (\<lambda>r. rr_breakdown r c) rs))\<rparr>)"

definition updateCategoryWeights :: "(reward_category \<Rightarrow> rat option) \<Rightarrow> calculator \<Rightarrow> calculator" where
  "updateCategoryWeights weights k = k\<lparr>ca_weights := (\<lambda>c. or_else (weights c) (ca_weights k c))\<rparr>"

section \<open>The emission schedule\<close>

record schedule_entry =
  se_year :: int
  se_totalEmission :: rat
  se_monthlyEmission :: rat
  se_dailyEmission :: rat
  se_reductionRate :: rat

record inflation_config =
  ic_maxSupply :: rat
  ic_annualReduction :: rat
  ic_dailyLimit :: rat
  ic_perPeerLimit :: rat
  ic_currentSupply :: rat

definition defaultInflationConfig :: inflation_config where
  "defaultInflationConfig = \<lparr>ic_maxSupply = 1000000000, ic_annualReduction = 20 / 100,
     ic_dailyLimit = 1000000, ic_perPeerLimit = 1000, ic_currentSupply = 0\<rparr>"

definition schedule_row :: "int \<Rightarrow> rat \<Rightarrow> rat \<Rightarrow> rat \<Rightarrow> rat \<Rightarrow> schedule_entry" where
  "schedule_row y t m d r = \<lparr>se_year = y, se_totalEmission = t, se_monthlyEmission = m,
     se_dailyEmission = d, se_reductionRate = r\<rparr>"

definition defaultRewardSchedule :: "schedule_entry list" where
  "defaultRewardSchedule =
     [schedule_row 1 100000000 8333333 273972 0,
      schedule_row 2 80000000 6666666 219178 (20 / 100),
      schedule_row 3 64000000 5333333 175342 (20 / 100),
      schedule_row 4 51200000 4266666 140274 (20 / 100),
      schedule_row 5 40960000 3413333 112219 (20 / 100),
      schedule_row 6 32768000 2730666 89775 (20 / 100),
      schedule_row 7 26214400 2184533 71820 (20 / 100),
      schedule_row 8 20971520 1747626 57456 (20 / 100),
      schedule_row 9 16777216 1398101 45965 (20 / 100),
      schedule_row 10 13421772 1118481 36772 (20 / 100)]"

definition year_ms :: int where
  "year_ms = 365 * 24 * 60 * 60 * 1000"

record schedule =
  sd_entries :: "schedule_entry list"
  sd_inflation :: inflation_config
  sd_currentYear :: int
  sd_startTime :: int

definition year_of :: "int \<Rightarrow> int \<Rightarrow> int" where
  "year_of startTime now = (now - startTime) div year_ms + 1"

definition schedule_init ::
  "schedule_entry list option \<Rightarrow> inflation_config option \<Rightarrow> int option \<Rightarrow> int \<Rightarrow> schedule" where
  \<comment> \<open>\<open>startTime || Date.now()\<close>: a start at time zero counts as missing.\<close>
  "schedule_init entries config start0 now =
     (let start = (case start0 of None \<Rightarrow> now | Some s \<Rightarrow> if s = 0 then now else s)
      in \<lparr>sd_entries = or_else entries defaultRewardSchedule,
          sd_inflation = or_else config defaultInflationConfig, sd_currentYear = year_of start now,
          sd_startTime = start\<rparr>)"

definition getScheduleEntry :: "int \<Rightarrow> schedule \<Rightarrow> schedule_entry option" where
  "getScheduleEntry year s = find (\<lambda>e. se_year e = year) (sd_entries s)"

definition emission_of :: "(schedule_entry \<Rightarrow> rat) \<Rightarrow> schedule \<Rightarrow> rat" where
  "emission_of f s = (case getScheduleEntry (sd_currentYear s) s of None \<Rightarrow> 0 | Some e \<Rightarrow> f e)"

definition getRemainingEmission :: "schedule \<Rightarrow> int \<Rightarrow> rat" where
  "getRemainingEmission s now = (case getScheduleEntry (sd_currentYear s) s of
     None \<Rightarrow> 0
   | Some e \<Rightarrow>
       (let elapsedInYear = now - (sd_startTime s + (sd_currentYear s - 1) * year_ms);
            elapsedDays = of_int elapsedInYear / (24 * 60 * 60 * 1000)
        in max 0 (se_totalEmission e - elapsedDays * se_dailyEmission e)))"

definition getTotalEmissionAcrossAllYears :: "schedule \<Rightarrow> rat" where
  "getTotalEmissionAcrossAllYears s = sum_list (map se_totalEmission (sd_entries s))"

definition schedule_percentage :: "schedule \<Rightarrow> rat" where
  "schedule_percentage s = (if ic_maxSupply (sd_inflation s) > 0
     then getTotalEmissionAcrossAllYears s / ic_maxSupply (sd_inflation s) * 100 else 0)"

section \<open>Pools\<close>

record pool_config =
  pc_category :: reward_category
  pc_weight :: rat
  pc_dailyLimit :: rat
  pc_perPeerLimit :: rat
  pc_enabled :: bool

record reward_pool =
  po_pools :: "(reward_category, pool_config) jsmap"
  po_daily :: "(reward_category, rat) jsmap"
  po_peers :: "(string, (reward_category, rat) jsmap) jsmap"

definition default_pool :: "reward_category \<Rightarrow> rat \<Rightarrow> rat \<Rightarrow> reward_category \<times> pool_config" where
  "default_pool c daily peer = (c, \<lparr>pc_category = c, pc_weight = default_weight c, pc_dailyLimit = daily,
     pc_perPeerLimit = peer, pc_enabled = True\<rparr>)"

definition default_pools :: "(reward_category, pool_config) jsmap" where
  "default_pools =
     [default_pool RStorage 300000 300, default_pool RBandwidth 250000 250,
      default_pool RStreaming 150000 150, default_pool RReplication 150000 150,
      default_pool RAvailability 100000 100, default_pool RCommunity 50000 50]"

definition pool_init :: "(reward_category, pool_config) jsmap \<Rightarrow> reward_pool" where
  "pool_init configs = (let pools = foldl (\<lambda>m (c, k). jm_set c k m) default_pools configs
     in \<lparr>po_pools = pools, po_daily = map (\<lambda>(c, k). (c, 0)) pools, po_peers = []\<rparr>)"

definition updatePool :: "reward_category \<Rightarrow> (pool_config \<Rightarrow> pool_config) \<Rightarrow> reward_pool \<Rightarrow> reward_pool" where
  "updatePool c f p = (case jm_get (po_pools p) c of
     None \<Rightarrow> p | Some k \<Rightarrow> p\<lparr>po_pools := jm_set c (f k) (po_pools p)\<rparr>)"

definition enablePool :: "reward_category \<Rightarrow> reward_pool \<Rightarrow> reward_pool" where
  "enablePool c = updatePool c (\<lambda>k. k\<lparr>pc_enabled := True\<rparr>)"

definition disablePool :: "reward_category \<Rightarrow> reward_pool \<Rightarrow> reward_pool" where
  "disablePool c = updatePool c (\<lambda>k. k\<lparr>pc_enabled := False\<rparr>)"

definition getDailyAllocation :: "reward_category \<Rightarrow> reward_pool \<Rightarrow> rat" where
  "getDailyAllocation c p = or_else (jm_get (po_daily p) c) 0"

definition getPeerAllocation :: "string \<Rightarrow> reward_category \<Rightarrow> reward_pool \<Rightarrow> rat" where
  "getPeerAllocation peer c p = or_else (jm_get (or_else (jm_get (po_peers p) peer) []) c) 0"

definition getRemainingDailyAllocation :: "reward_category \<Rightarrow> reward_pool \<Rightarrow> rat" where
  "getRemainingDailyAllocation c p = (case jm_get (po_pools p) c of
     None \<Rightarrow> 0 | Some k \<Rightarrow> if \<not> pc_enabled k then 0 else max 0 (pc_dailyLimit k - getDailyAllocation c p))"

definition allocateReward ::
  "reward_category \<Rightarrow> rat \<Rightarrow> string option \<Rightarrow> reward_pool \<Rightarrow> bool \<times> reward_pool" where
  "allocateReward c amount peer p = (case jm_get (po_pools p) c of
     None \<Rightarrow> (False, p)
   | Some k \<Rightarrow>
       if \<not> pc_enabled k \<or> getDailyAllocation c p + amount > pc_dailyLimit k then (False, p)
       else (let daily = jm_set c (getDailyAllocation c p + amount) (po_daily p) in
         case peer of
           None \<Rightarrow> (True, p\<lparr>po_daily := daily\<rparr>)
         | Some q \<Rightarrow>
             if q = [] then (True, p\<lparr>po_daily := daily\<rparr>)
             else if getPeerAllocation q c p + amount > pc_perPeerLimit k then (False, p)
             else (True, p\<lparr>po_daily := daily, po_peers := jm_set q
                (jm_set c (getPeerAllocation q c p + amount) (or_else (jm_get (po_peers p) q) []))
                (po_peers p)\<rparr>)))"

definition resetDailyAllocations :: "reward_pool \<Rightarrow> reward_pool" where
  "resetDailyAllocations p = p\<lparr>po_daily := foldl (\<lambda>m c. jm_set c 0 m) (po_daily p) (jm_keys (po_pools p))\<rparr>"

definition resetPeerAllocations :: "string option \<Rightarrow> reward_pool \<Rightarrow> reward_pool" where
  "resetPeerAllocations peer p = (case peer of
     Some q \<Rightarrow> if q = [] then p\<lparr>po_peers := []\<rparr> else p\<lparr>po_peers := jm_delete q (po_peers p)\<rparr>
   | None \<Rightarrow> p\<lparr>po_peers := []\<rparr>)"

definition calculateRewardAmount :: "rat \<Rightarrow> reward_category \<Rightarrow> reward_pool \<Rightarrow> rat" where
  "calculateRewardAmount pool_total c p = (case jm_get (po_pools p) c of
     None \<Rightarrow> 0 | Some k \<Rightarrow> if pc_enabled k then pool_total * pc_weight k else 0)"

definition normalizeWeights :: "reward_pool \<Rightarrow> reward_pool" where
  "normalizeWeights p = (let weights = sum_list (map pc_weight (jm_values (po_pools p))) in
     if weights = 0 then p
     else p\<lparr>po_pools := map (\<lambda>(c, k). (c, k\<lparr>pc_weight := pc_weight k / weights\<rparr>)) (po_pools p)\<rparr>)"

section \<open>Inflation\<close>

record inflation =
  in_config :: inflation_config
  in_dailyEmitted :: rat
  in_peerEmitted :: "(string, rat) jsmap"
  in_startTime :: int

definition getPeerEmitted :: "string \<Rightarrow> inflation \<Rightarrow> rat" where
  "getPeerEmitted q i = or_else (jm_get (in_peerEmitted i) q) 0"

definition canEmit :: "rat \<Rightarrow> string option \<Rightarrow> inflation \<Rightarrow> bool" where
  "canEmit amount peer i \<longleftrightarrow>
     \<not> ic_currentSupply (in_config i) + amount > ic_maxSupply (in_config i)
     \<and> \<not> in_dailyEmitted i + amount > ic_dailyLimit (in_config i)
     \<and> (case peer of None \<Rightarrow> True | Some q \<Rightarrow> q = []
          \<or> \<not> getPeerEmitted q i + amount > ic_perPeerLimit (in_config i))"

definition recordEmission :: "rat \<Rightarrow> string option \<Rightarrow> inflation \<Rightarrow> inflation" where
  "recordEmission amount peer i =
     (let i1 = i\<lparr>in_config := (in_config i)\<lparr>ic_currentSupply := ic_currentSupply (in_config i) + amount\<rparr>,
                 in_dailyEmitted := in_dailyEmitted i + amount\<rparr>
      in case peer of None \<Rightarrow> i1
         | Some q \<Rightarrow> if q = [] then i1
             else i1\<lparr>in_peerEmitted := jm_set q (getPeerEmitted q i + amount) (in_peerEmitted i)\<rparr>)"

definition getRemainingSupply :: "inflation \<Rightarrow> rat" where
  "getRemainingSupply i = max 0 (ic_maxSupply (in_config i) - ic_currentSupply (in_config i))"

definition getRemainingDailyEmission :: "inflation \<Rightarrow> rat" where
  "getRemainingDailyEmission i = max 0 (ic_dailyLimit (in_config i) - in_dailyEmitted i)"

definition getRemainingPeerEmission :: "string \<Rightarrow> inflation \<Rightarrow> rat" where
  "getRemainingPeerEmission q i = max 0 (ic_perPeerLimit (in_config i) - getPeerEmitted q i)"

definition calculateDailyLimitForYear :: "inflation \<Rightarrow> int \<Rightarrow> rat" where
  "calculateDailyLimitForYear i year =
     ic_dailyLimit (in_config i) * power_int (1 - ic_annualReduction (in_config i)) (year - 1)"

definition updateDailyLimitForCurrentYear :: "int \<Rightarrow> inflation \<Rightarrow> inflation" where
  "updateDailyLimitForCurrentYear now i = i\<lparr>in_config := (in_config i)\<lparr>ic_dailyLimit :=
     calculateDailyLimitForYear i (year_of (in_startTime i) now)\<rparr>\<rparr>"

definition resetDailyEmission :: "inflation \<Rightarrow> inflation" where
  "resetDailyEmission i = i\<lparr>in_dailyEmitted := 0\<rparr>"

definition resetPeerEmission :: "string option \<Rightarrow> inflation \<Rightarrow> inflation" where
  "resetPeerEmission peer i = (case peer of
     Some q \<Rightarrow> if q = [] then i\<lparr>in_peerEmitted := []\<rparr> else i\<lparr>in_peerEmitted := jm_delete q (in_peerEmitted i)\<rparr>
   | None \<Rightarrow> i\<lparr>in_peerEmitted := []\<rparr>)"

definition updateInflationConfig :: "rat option \<Rightarrow> rat option \<Rightarrow> rat option \<Rightarrow> inflation \<Rightarrow> inflation" where
  "updateInflationConfig daily peer reduction i = i\<lparr>in_config := (in_config i)\<lparr>
     ic_dailyLimit := or_else daily (ic_dailyLimit (in_config i)),
     ic_perPeerLimit := or_else peer (ic_perPeerLimit (in_config i)),
     ic_annualReduction := or_else reduction (ic_annualReduction (in_config i))\<rparr>\<rparr>"

section \<open>Abuse\<close>

datatype abuse_type =
    Artificial_farming | Auto_download | Auto_like | Fake_streaming | Peer_loops
  | Rate_limit_exceeded | Suspicious_pattern

datatype severity = Low | Medium | High | Critical

fun getSeverityScore :: "severity \<Rightarrow> int" where
  "getSeverityScore Low = 10"
| "getSeverityScore Medium = 25"
| "getSeverityScore High = 50"
| "getSeverityScore Critical = 100"

record abuse_report =
  ab_id :: string
  ab_peerId :: string
  ab_type :: abuse_type
  ab_severity :: severity
  ab_timestamp :: int
  ab_resolved :: bool
  ab_resolvedAt :: "int option"
  ab_resolution :: "string option"

record anti_abuse =
  aa_reports :: "(string, abuse_report) jsmap"
  aa_scores :: "(string, int) jsmap"
  aa_counter :: nat
  aa_connections :: "(string, string list) jsmap"
  aa_maxActivityPerMinute :: rat
  aa_maxConnectionsPerPeer :: nat
  aa_farmingThreshold :: rat

definition anti_abuse_init :: anti_abuse where
  "anti_abuse_init = \<lparr>aa_reports = [], aa_scores = [], aa_counter = 0, aa_connections = [],
     aa_maxActivityPerMinute = 100, aa_maxConnectionsPerPeer = 50, aa_farmingThreshold = 80 / 100\<rparr>"

definition abuse_id :: "int \<Rightarrow> nat \<Rightarrow> string" where
  "abuse_id now n = ''abuse_'' @ show_int now @ ''_'' @ show_nat n"

definition getPeerScore :: "string \<Rightarrow> anti_abuse \<Rightarrow> int" where
  "getPeerScore q a = or_else (jm_get (aa_scores a) q) 0"

definition isPeerBanned :: "string \<Rightarrow> anti_abuse \<Rightarrow> bool" where
  "isPeerBanned q a \<longleftrightarrow> getPeerScore q a \<ge> 200"

definition reportAbuse ::
  "string \<Rightarrow> abuse_type \<Rightarrow> severity \<Rightarrow> int \<Rightarrow> anti_abuse \<Rightarrow> abuse_report \<times> anti_abuse" where
  "reportAbuse q t sev now a =
     (let n = Suc (aa_counter a);
          r = \<lparr>ab_id = abuse_id now n, ab_peerId = q, ab_type = t, ab_severity = sev, ab_timestamp = now,
               ab_resolved = False, ab_resolvedAt = None, ab_resolution = None\<rparr>
      in (r, a\<lparr>aa_counter := n, aa_reports := jm_set (ab_id r) r (aa_reports a),
               aa_scores := jm_set q (getPeerScore q a + getSeverityScore sev) (aa_scores a)\<rparr>))"

definition resolveReport :: "string \<Rightarrow> string \<Rightarrow> int \<Rightarrow> anti_abuse \<Rightarrow> bool \<times> anti_abuse" where
  "resolveReport i resolution now a = (case jm_get (aa_reports a) i of
     None \<Rightarrow> (False, a)
   | Some r \<Rightarrow> (True, a\<lparr>
       aa_reports := jm_set i (r\<lparr>ab_resolved := True, ab_resolvedAt := Some now,
         ab_resolution := Some resolution\<rparr>) (aa_reports a),
       aa_scores := jm_set (ab_peerId r)
         (max 0 (getPeerScore (ab_peerId r) a - getSeverityScore (ab_severity r))) (aa_scores a)\<rparr>))"

definition detect :: "bool \<Rightarrow> string \<Rightarrow> abuse_type \<Rightarrow> severity \<Rightarrow> int \<Rightarrow> anti_abuse \<Rightarrow> bool \<times> anti_abuse" where
  "detect found q t sev now a = (if found then (True, snd (reportAbuse q t sev now a)) else (False, a))"

definition detectArtificialFarming :: "string \<Rightarrow> rat \<Rightarrow> int \<Rightarrow> anti_abuse \<Rightarrow> bool \<times> anti_abuse" where
  "detectArtificialFarming q rate now a =
     detect (rate > aa_farmingThreshold a) q Artificial_farming High now a"

definition rate_exceeds :: "rat \<Rightarrow> rat \<Rightarrow> rat \<Rightarrow> bool" where
  \<comment> \<open>A window of zero gives \<open>Infinity\<close>, \<open>-Infinity\<close> or \<open>NaN\<close>.\<close>
  "rate_exceeds n window threshold = (if window = 0 then n > 0 else n / window > threshold)"

definition detectAutoDownload :: "string \<Rightarrow> rat \<Rightarrow> rat \<Rightarrow> int \<Rightarrow> anti_abuse \<Rightarrow> bool \<times> anti_abuse" where
  "detectAutoDownload q n window now a =
     detect (rate_exceeds n window (aa_maxActivityPerMinute a)) q Auto_download Medium now a"

definition detectAutoLike :: "string \<Rightarrow> rat \<Rightarrow> rat \<Rightarrow> int \<Rightarrow> anti_abuse \<Rightarrow> bool \<times> anti_abuse" where
  "detectAutoLike q n window now a =
     detect (rate_exceeds n window (aa_maxActivityPerMinute a)) q Auto_like Medium now a"

definition detectFakeStreaming :: "string \<Rightarrow> rat \<Rightarrow> rat \<Rightarrow> int \<Rightarrow> anti_abuse \<Rightarrow> bool \<times> anti_abuse" where
  "detectFakeStreaming q streamed watched now a =
     detect (if streamed = 0 then watched < 0 else watched / streamed < 1 / 10) q Fake_streaming High now a"

definition detectPeerLoops :: "string \<Rightarrow> string list \<Rightarrow> int \<Rightarrow> anti_abuse \<Rightarrow> bool \<times> anti_abuse" where
  "detectPeerLoops q peers now a =
     (if list_ex (\<lambda>c. q \<in> set (or_else (jm_get (aa_connections a) c) [])) peers
      then detect True q Peer_loops High now a
      else detect (length peers > aa_maxConnectionsPerPeer a) q Peer_loops Medium now a)"

definition calculatePatternScore :: "rat list \<Rightarrow> rat" where
  \<comment> \<open>With a mean of zero the code compares \<open>NaN\<close> or takes the maximum of zero and \<open>-Infinity\<close>: no pattern.\<close>
  "calculatePatternScore xs = (if length xs < 10 then 0
     else let mean = sum_list xs / of_nat (length xs);
              variance = sum_list (map (\<lambda>x. (x - mean) ^ 2) xs) / of_nat (length xs)
          in if mean = 0 then 0 else max 0 (1 - variance / mean))"

definition detectSuspiciousPattern :: "string \<Rightarrow> rat list \<Rightarrow> int \<Rightarrow> anti_abuse \<Rightarrow> bool \<times> anti_abuse" where
  "detectSuspiciousPattern q xs now a =
     detect (calculatePatternScore xs > 9 / 10) q Suspicious_pattern Medium now a"

definition updatePeerConnections :: "string \<Rightarrow> string list \<Rightarrow> anti_abuse \<Rightarrow> anti_abuse" where
  "updatePeerConnections q peers a = a\<lparr>aa_connections := jm_set q (js_uniq peers) (aa_connections a)\<rparr>"

section \<open>The economy\<close>

record economy =
  ec_wallet :: wallet_state
  ec_calculator :: calculator
  ec_schedule :: schedule
  ec_ledger :: ledger
  ec_pool :: reward_pool
  ec_inflation :: inflation
  ec_abuse :: anti_abuse

definition economy_init :: "int \<Rightarrow> economy" where
  "economy_init now = \<lparr>ec_wallet = empty_wallet_state, ec_calculator = calculator_init (\<lambda>_. None) None,
     ec_schedule = schedule_init None None None now, ec_ledger = ledger_init, ec_pool = pool_init [],
     ec_inflation = \<lparr>in_config = defaultInflationConfig, in_dailyEmitted = 0, in_peerEmitted = [],
       in_startTime = now\<rparr>,
     ec_abuse = anti_abuse_init\<rparr>"

definition getWalletByPeerId :: "string \<Rightarrow> wallet_state \<Rightarrow> wallet option" where
  "getWalletByPeerId q st = (case ws_wallet st of
     None \<Rightarrow> None | Some w \<Rightarrow> if wa_peerId w = q then Some w else None)"

definition validateContribution :: "contribution_proof \<Rightarrow> bool" where
  "validateContribution p \<longleftrightarrow> pr_contributionId p \<noteq> [] \<and> pr_contributor p \<noteq> [] \<and> pr_value p > 0
     \<and> pr_quorumReached p \<and> \<not> pr_approvalPercentage p < 66"

fun category_name :: "reward_category \<Rightarrow> string" where
  "category_name RStorage = ''STORAGE''"
| "category_name RBandwidth = ''BANDWIDTH''"
| "category_name RStreaming = ''STREAMING''"
| "category_name RReplication = ''REPLICATION''"
| "category_name RAvailability = ''AVAILABILITY''"
| "category_name RCommunity = ''COMMUNITY''"

definition submitContribution :: "contribution_proof \<Rightarrow> int \<Rightarrow> economy \<Rightarrow> bool \<times> economy" where
  "submitContribution p now e =
     (if \<not> validateContribution p \<or> isPeerBanned (pr_contributor p) (ec_abuse e) then (False, e)
      else (let net = rr_netReward (calculateReward (ec_calculator e) p now) in
        if \<not> canEmit net (Some (pr_contributor p)) (ec_inflation e) then (False, e)
        else (case allocateReward (pr_category p) net (Some (pr_contributor p)) (ec_pool e) of
          (False, q) \<Rightarrow> (False, e\<lparr>ec_pool := q\<rparr>)
        | (True, q) \<Rightarrow>
            (let e1 = e\<lparr>ec_pool := q,
                   ec_inflation := recordEmission net (Some (pr_contributor p)) (ec_inflation e)\<rparr>
             in case getWalletByPeerId (pr_contributor p) (ec_wallet e) of
                  Some w \<Rightarrow>
                    if wa_address w = [] then (True, e1)
                    else (True, e1\<lparr>ec_ledger := snd (addEntry (wa_address w) net LReward
                      (''Reward for '' @ category_name (pr_category p) @ '' contribution'')
                      (Some (pr_category p)) now (ec_ledger e))\<rparr>)
                | None \<Rightarrow> (True, e1)))))"

definition economy_createWallet :: "string \<Rightarrow> int \<Rightarrow> economy \<Rightarrow> economy" where
  "economy_createWallet q now e = e\<lparr>ec_wallet := snd (createWallet q now (ec_wallet e))\<rparr>"

definition economy_resetDaily :: "economy \<Rightarrow> economy" where
  "economy_resetDaily e = e\<lparr>ec_pool := resetDailyAllocations (ec_pool e),
     ec_inflation := resetDailyEmission (ec_inflation e)\<rparr>"

definition updateRewardWeights :: "(reward_category \<Rightarrow> rat option) \<Rightarrow> economy \<Rightarrow> economy" where
  "updateRewardWeights weights e = e\<lparr>ec_calculator := updateCategoryWeights weights (ec_calculator e),
     ec_pool := normalizeWeights (ec_pool e)\<rparr>"

definition economy_updateInflation :: "rat option \<Rightarrow> rat option \<Rightarrow> rat option \<Rightarrow> economy \<Rightarrow> economy" where
  "economy_updateInflation daily peer reduction e =
     e\<lparr>ec_inflation := updateInflationConfig daily peer reduction (ec_inflation e)\<rparr>"

record contribution_statistics =
  ct_totalContributions :: nat
  ct_totalRewards :: rat
  ct_byCategory :: "reward_category \<Rightarrow> rat"

definition getContributionStatistics :: "economy \<Rightarrow> contribution_statistics" where
  "getContributionStatistics e =
     (let entries = filter (\<lambda>x. le_type x = LReward) (getAllEntries None (ec_ledger e))
      in \<lparr>ct_totalContributions = length entries, ct_totalRewards = sum_list (map le_amount entries),
          ct_byCategory = (\<lambda>c. sum_list (map le_amount (filter (\<lambda>x. le_category x = Some c) entries)))\<rparr>)"

end
