(* ===== verification/Rewards_Claims.thy ===== *)
theory Rewards_Claims
  imports Rewards
begin

text \<open>
  What the economy promises: the ledger adds up, and the rewards ever paid are the current supply and
  never pass the limits. The other theorems record what the limits and the scores miss: the same proof
  is paid again, a penalised contribution has a negative reward that widens the allowance, the peer
  limit is never renewed, and resolving one report again lowers the score again.
\<close>

section \<open>The ledger\<close>

lemma entry_id_inj: "entry_id t n = entry_id u m \<longleftrightarrow> t = u \<and> n = m"
proof
  assume "entry_id t n = entry_id u m"
  then have "show_int t @ ''_'' @ show_nat n = show_int u @ ''_'' @ show_nat m" by (simp add: entry_id_def)
  moreover have "no_digit (''_'' @ x)" for x by (simp add: no_digit_def is_digit_def)
  ultimately have "t = u \<and> ''_'' @ show_nat n = ''_'' @ show_nat m" by (intro show_int_prefix)
  then show "t = u \<and> n = m" by (metis append_same_eq read_show_nat same_append_eq)
qed simp

definition entry_sum :: "(ledger_entry \<Rightarrow> bool) \<Rightarrow> ledger \<Rightarrow> rat" where
  "entry_sum P l = sum_list (map le_amount (filter P (jm_values (lg_entries l))))"

definition ledger_ok :: "ledger \<Rightarrow> bool" where
  "ledger_ok l \<longleftrightarrow> (\<forall>k \<in> set (jm_keys (lg_entries l)). \<exists>t n. n \<le> lg_entryCounter l \<and> k = entry_id t n)
     \<and> distinct (jm_keys (lg_balances l)) \<and> verifyIntegrity l
     \<and> (\<forall>w. ledger_getBalance w l = entry_sum (\<lambda>e. le_wallet e = w) l)
     \<and> lg_totalSupply l = entry_sum (\<lambda>e. True) l"

lemma ledger_ok_init [simp]: "ledger_ok ledger_init"
  by (simp add: ledger_ok_def ledger_init_def verifyIntegrity_def ledger_getBalance_def entry_sum_def or_else_def)

lemma jm_set_append_new: "k \<notin> set (jm_keys m) \<Longrightarrow> jm_set k v m = m @ [(k, v)]"
  by (induction m) auto

lemma sum_values_set:
  fixes m :: "('k, rat) jsmap"
  shows "distinct (jm_keys m) \<Longrightarrow> sum_list (jm_values (jm_set k v m)) = sum_list (jm_values m) - or_else (jm_get m k) 0 + v"
proof (induction m)
  case (Cons a m)
  obtain l x where a: "a = (l, x)" by (cases a)
  show ?case
  proof (cases "l = k")
    case True
    then have "jm_get m k = None" using Cons.prems a by (simp add: map_of_eq_None_iff)
    then show ?thesis using True a by (simp add: or_else_def)
  qed (use Cons a in \<open>simp add: or_else_def\<close>)
qed (simp add: or_else_def)

lemma fresh_entry:
  assumes "ledger_ok l"
  shows "entry_id now (Suc (lg_entryCounter l)) \<notin> set (jm_keys (lg_entries l))"
proof
  assume "entry_id now (Suc (lg_entryCounter l)) \<in> set (jm_keys (lg_entries l))"
  then obtain t n where "n \<le> lg_entryCounter l" "entry_id now (Suc (lg_entryCounter l)) = entry_id t n"
    using assms by (auto simp: ledger_ok_def)
  then show False by (simp add: entry_id_inj)
qed

lemma addEntry_entries:
  assumes "ledger_ok l" and "addEntry w a t d c now l = (e, l')"
  shows "lg_entries l' = lg_entries l @ [(entry_id now (Suc (lg_entryCounter l)), e)]"
  using assms fresh_entry [OF assms(1), of now] by (auto simp: addEntry_def Let_def jm_set_append_new)

lemma addEntry_ok:
  assumes "ledger_ok l"
  shows "ledger_ok (snd (addEntry w a t d c now l))"
proof -
  obtain e l' where add: "addEntry w a t d c now l = (e, l')" by fastforce
  note es = addEntry_entries [OF assms add]
  have e: "le_wallet e = w" "le_amount e = a" using add by (auto simp: addEntry_def Let_def)
  have keys: "\<forall>k \<in> set (jm_keys (lg_entries l')). \<exists>t n. n \<le> lg_entryCounter l' \<and> k = entry_id t n"
  proof
    fix k assume k: "k \<in> set (jm_keys (lg_entries l'))"
    have cnt: "lg_entryCounter l' = Suc (lg_entryCounter l)" using add by (auto simp: addEntry_def Let_def)
    show "\<exists>t n. n \<le> lg_entryCounter l' \<and> k = entry_id t n"
    proof (cases "k \<in> set (jm_keys (lg_entries l))")
      case True
      then obtain t n where "n \<le> lg_entryCounter l" "k = entry_id t n"
        using assms unfolding ledger_ok_def by blast
      then show ?thesis unfolding cnt using le_SucI by blast
    next
      case False
      then have "k = entry_id now (Suc (lg_entryCounter l))" using k by (simp add: es)
      then show ?thesis unfolding cnt by blast
    qed
  qed
  have bal: "lg_balances l' = jm_set w (ledger_getBalance w l + a) (lg_balances l)"
    and sup: "lg_totalSupply l' = lg_totalSupply l + a" using add by (auto simp: addEntry_def Let_def)
  have "verifyIntegrity l'"
    using assms by (simp add: verifyIntegrity_def bal sup sum_values_set ledger_ok_def ledger_getBalance_def)
  moreover have "ledger_getBalance v l' = entry_sum (\<lambda>e. le_wallet e = v) l'" for v
    using assms by (simp add: ledger_ok_def ledger_getBalance_def bal entry_sum_def es jm.get_put or_else_def e)
  moreover have "lg_totalSupply l' = entry_sum (\<lambda>e. True) l'"
    using assms by (simp add: ledger_ok_def entry_sum_def es sup e)
  ultimately show ?thesis
    using keys assms by (simp add: add ledger_ok_def bal jm_keys_update_distinct)
qed

datatype ledger_event =
    Le_add string rat ledger_type string "reward_category option" int
  | Le_snapshot int
  | Le_clear_entries
  | Le_clear_snapshots

fun ledger_step :: "ledger \<Rightarrow> ledger_event \<Rightarrow> ledger" where
  "ledger_step l (Le_add w a t d c now) = snd (addEntry w a t d c now l)"
| "ledger_step l (Le_snapshot now) = snd (ledger_createSnapshot now l)"
| "ledger_step l Le_clear_entries = clearEntries l"
| "ledger_step l Le_clear_snapshots = clearSnapshots l"

lemma ledger_ok_cong:
  "lg_entries l' = lg_entries l \<Longrightarrow> lg_balances l' = lg_balances l \<Longrightarrow> lg_totalSupply l' = lg_totalSupply l
   \<Longrightarrow> lg_entryCounter l' = lg_entryCounter l \<Longrightarrow> ledger_ok l' = ledger_ok l"
  by (simp add: ledger_ok_def verifyIntegrity_def ledger_getBalance_def entry_sum_def)

interpretation ledger_machine: machine ledger_step ledger_ok
proof
  fix l v assume ok: "ledger_ok l"
  show "ledger_ok (ledger_step l v)"
  proof (cases v)
    case (Le_snapshot now)
    then show ?thesis using ok
      by (subst ledger_ok_cong [of _ l]) (simp_all add: ledger_createSnapshot_def Let_def)
  next
    case Le_clear_snapshots
    then show ?thesis using ok by (subst ledger_ok_cong [of _ l]) (simp_all add: clearSnapshots_def)
  next
    case Le_clear_entries
    then show ?thesis
      by (simp add: clearEntries_def ledger_ok_def verifyIntegrity_def ledger_getBalance_def entry_sum_def or_else_def)
  qed (use ok addEntry_ok in simp)
qed


section \<open>Limits\<close>

definition pool_ok :: "reward_pool \<Rightarrow> bool" where
  "pool_ok p \<longleftrightarrow> (\<forall>c k. jm_get (po_pools p) c = Some k \<longrightarrow> 0 \<le> pc_dailyLimit k
     \<and> getDailyAllocation c p \<le> pc_dailyLimit k \<and> (\<forall>q. getPeerAllocation q c p \<le> pc_perPeerLimit k))"

definition inflation_ok :: "inflation \<Rightarrow> bool" where
  "inflation_ok i \<longleftrightarrow> ic_currentSupply (in_config i) \<le> ic_maxSupply (in_config i)
     \<and> in_dailyEmitted i \<le> ic_dailyLimit (in_config i) \<and> 0 \<le> ic_dailyLimit (in_config i)
     \<and> (\<forall>q. getPeerEmitted q i \<le> ic_perPeerLimit (in_config i))"

lemma allocate_refused: "allocateReward c a q p = (False, p') \<Longrightarrow> p' = p"
  by (auto simp: allocateReward_def Let_def split: option.splits if_splits)

lemma allocate_granted:
  assumes "allocateReward c a (Some q) p = (True, p')" and "q \<noteq> []"
  obtains k where "jm_get (po_pools p) c = Some k" and "pc_enabled k" and "po_pools p' = po_pools p"
    and "getDailyAllocation c p + a \<le> pc_dailyLimit k" and "getPeerAllocation q c p + a \<le> pc_perPeerLimit k"
    and "\<And>d. getDailyAllocation d p' = (if d = c then getDailyAllocation c p + a else getDailyAllocation d p)"
    and "\<And>r d. getPeerAllocation r d p'
      = (if r = q \<and> d = c then getPeerAllocation q c p + a else getPeerAllocation r d p)"
proof -
  obtain k where k: "jm_get (po_pools p) c = Some k"
    using assms(1) by (cases "jm_get (po_pools p) c") (auto simp: allocateReward_def)
  have lim: "pc_enabled k" "\<not> getDailyAllocation c p + a > pc_dailyLimit k"
    "\<not> getPeerAllocation q c p + a > pc_perPeerLimit k"
    using assms k by (auto simp: allocateReward_def Let_def split: if_splits)
  then have p': "p' = p\<lparr>po_daily := jm_set c (getDailyAllocation c p + a) (po_daily p),
      po_peers := jm_set q (jm_set c (getPeerAllocation q c p + a) (or_else (jm_get (po_peers p) q) []))
        (po_peers p)\<rparr>"
    using assms k by (simp add: allocateReward_def Let_def)
  show thesis
  proof (rule that [OF k lim(1)])
    show "getDailyAllocation d p' = (if d = c then getDailyAllocation c p + a else getDailyAllocation d p)" for d
      unfolding p' getDailyAllocation_def by (simp add: jm.get_put or_else_def)
    show "getPeerAllocation r d p'
      = (if r = q \<and> d = c then getPeerAllocation q c p + a else getPeerAllocation r d p)" for r d
      unfolding p' getPeerAllocation_def by (simp add: jm.get_put or_else_def)
  qed (use lim p' in \<open>simp_all add: not_less\<close>)
qed

lemma allocate_ok:
  assumes "pool_ok p" and "allocateReward c a (Some q) p = (True, p')" and "q \<noteq> []"
  shows "pool_ok p'"
  by (rule allocate_granted [OF assms(2,3)]) (use assms(1) in \<open>simp add: pool_ok_def\<close>)

lemma emission_ok:
  "inflation_ok i \<Longrightarrow> canEmit a q i \<Longrightarrow> inflation_ok (recordEmission a q i)"
  by (cases q) (auto simp: inflation_ok_def canEmit_def recordEmission_def Let_def getPeerEmitted_def
      jm.get_put or_else_def not_less)

lemma fold_reset: "jm_get (foldl (\<lambda>m c. jm_set c (0 :: rat) m) m cs) d = (if d \<in> set cs then Some 0 else jm_get m d)"
  by (induction cs arbitrary: m) (auto simp: jm.get_put)

lemma reset_ok: "pool_ok p \<Longrightarrow> pool_ok (resetDailyAllocations p)"
  by (auto simp: pool_ok_def resetDailyAllocations_def getDailyAllocation_def getPeerAllocation_def
      fold_reset or_else_def dest!: map_of_SomeD)

lemma normalize_get:
  "jm_get (map (\<lambda>(c, k). (c, f k)) m) c = map_option f (jm_get m c)"
  by (induction m) auto

lemma normalize_ok: "pool_ok p \<Longrightarrow> pool_ok (normalizeWeights p)"
  by (fastforce simp: pool_ok_def normalizeWeights_def Let_def normalize_get getDailyAllocation_def
      getPeerAllocation_def split: if_splits)


definition economy_ok :: "economy \<Rightarrow> bool" where
  "economy_ok e \<longleftrightarrow> pool_ok (ec_pool e) \<and> inflation_ok (ec_inflation e)"

text \<open>What a submission does: nothing, or the reward is allocated and emitted.\<close>

abbreviation net_reward :: "contribution_proof \<Rightarrow> int \<Rightarrow> economy \<Rightarrow> rat" where
  "net_reward p now e \<equiv> rr_netReward (calculateReward (ec_calculator e) p now)"

lemma submit_cases:
  obtains (refused) "submitContribution p now e = (False, e)"
  | (paid) e1 q where "submitContribution p now e = (True, e1)"
      and "validateContribution p" and "\<not> isPeerBanned (pr_contributor p) (ec_abuse e)"
      and "canEmit (net_reward p now e) (Some (pr_contributor p)) (ec_inflation e)"
      and "allocateReward (pr_category p) (net_reward p now e) (Some (pr_contributor p)) (ec_pool e) = (True, q)"
      and "ec_pool e1 = q" and "ec_calculator e1 = ec_calculator e" and "ec_abuse e1 = ec_abuse e"
      and "ec_wallet e1 = ec_wallet e"
      and "ec_inflation e1 = recordEmission (net_reward p now e) (Some (pr_contributor p)) (ec_inflation e)"
proof -
  obtain b q where al: "allocateReward (pr_category p) (net_reward p now e) (Some (pr_contributor p)) (ec_pool e) = (b, q)"
    by fastforce
  show thesis
  proof (cases "validateContribution p \<and> \<not> isPeerBanned (pr_contributor p) (ec_abuse e)
      \<and> canEmit (net_reward p now e) (Some (pr_contributor p)) (ec_inflation e) \<and> b")
    case True
    define e1 where "e1 = snd (submitContribution p now e)"
    have s: "submitContribution p now e = (True, e1)"
      using True al by (auto simp: e1_def submitContribution_def Let_def split: option.split)
    show thesis
      by (rule paid [OF s]) (use True al in \<open>auto simp: e1_def submitContribution_def Let_def split: option.split\<close>)
  next
    case False
    then have "submitContribution p now e = (False, e)"
      using al allocate_refused [of "pr_category p" "net_reward p now e" "Some (pr_contributor p)" "ec_pool e" q]
      by (cases b) (auto simp: submitContribution_def Let_def)
    then show thesis by (rule refused)
  qed
qed

lemma valid_contributor: "validateContribution p \<Longrightarrow> pr_contributor p \<noteq> []"
  by (simp add: validateContribution_def)

datatype economy_event =
    Ec_submit contribution_proof int
  | Ec_wallet string int
  | Ec_new_day
  | Ec_weights "reward_category \<Rightarrow> rat option"
  | Ec_abuse string abuse_type severity int
  | Ec_resolve string string int

fun economy_step :: "economy \<Rightarrow> economy_event \<Rightarrow> economy" where
  "economy_step e (Ec_submit p now) = snd (submitContribution p now e)"
| "economy_step e (Ec_wallet q now) = economy_createWallet q now e"
| "economy_step e Ec_new_day = economy_resetDaily e"
| "economy_step e (Ec_weights w) = updateRewardWeights w e"
| "economy_step e (Ec_abuse q t sev now) = e\<lparr>ec_abuse := snd (reportAbuse q t sev now (ec_abuse e))\<rparr>"
| "economy_step e (Ec_resolve i r now) = e\<lparr>ec_abuse := snd (resolveReport i r now (ec_abuse e))\<rparr>"

text \<open>The rewards a run pays, with their recipients.\<close>

fun rewards_paid :: "economy \<Rightarrow> economy_event list \<Rightarrow> (string \<times> rat) list" where
  "rewards_paid e [] = []"
| "rewards_paid e (v # vs) = (case v of
     Ec_submit p now \<Rightarrow> if fst (submitContribution p now e) then [(pr_contributor p, net_reward p now e)] else []
   | _ \<Rightarrow> []) @ rewards_paid (economy_step e v) vs"

lemma submit_ok: "economy_ok e \<Longrightarrow> economy_ok (snd (submitContribution p now e))"
proof (cases rule: submit_cases [of p now e])
  case (paid e1 q)
  assume "economy_ok e"
  then show ?thesis
    using paid allocate_ok [OF _ paid(5) valid_contributor [OF paid(2)]] emission_ok [OF _ paid(4)]
    by (simp add: economy_ok_def)
qed simp

interpretation economy_machine: machine economy_step economy_ok
proof
  fix e v assume ok: "economy_ok e"
  show "economy_ok (economy_step e v)"
    by (cases v) (use ok submit_ok reset_ok normalize_ok in \<open>simp_all add: economy_ok_def
        economy_createWallet_def economy_resetDaily_def updateRewardWeights_def resetDailyEmission_def
        inflation_ok_def getPeerEmitted_def\<close>)
qed

lemma economy_ok_init: "economy_ok (economy_init now)"
proof -
  have "pool_ok (pool_init [])"
    by (auto simp: pool_ok_def pool_init_def default_pools_def default_pool_def getDailyAllocation_def
        getPeerAllocation_def or_else_def split: if_splits)
  moreover have "inflation_ok (ec_inflation (economy_init now))"
    by (simp add: inflation_ok_def economy_init_def defaultInflationConfig_def getPeerEmitted_def or_else_def)
  ultimately show ?thesis by (simp add: economy_ok_def) (simp add: economy_init_def)
qed

lemma emission_counts:
  "ic_currentSupply (in_config (recordEmission a q i)) = ic_currentSupply (in_config i) + a"
  "ic_maxSupply (in_config (recordEmission a q i)) = ic_maxSupply (in_config i)"
  "ic_perPeerLimit (in_config (recordEmission a q i)) = ic_perPeerLimit (in_config i)"
  "ic_dailyLimit (in_config (recordEmission a q i)) = ic_dailyLimit (in_config i)"
  by (simp_all add: recordEmission_def Let_def split: option.split)

lemma emission_peer:
  "r \<noteq> [] \<Longrightarrow> getPeerEmitted q (recordEmission a (Some r) i) = getPeerEmitted q i + (if q = r then a else 0)"
  by (simp add: recordEmission_def Let_def getPeerEmitted_def jm.get_put or_else_def)

lemma paid_step:
  "ic_currentSupply (in_config (ec_inflation (economy_step e v)))
     = ic_currentSupply (in_config (ec_inflation e)) + sum_list (map snd (rewards_paid e [v]))"
  "getPeerEmitted q (ec_inflation (economy_step e v))
     = getPeerEmitted q (ec_inflation e) + sum_list (map snd (filter (\<lambda>x. fst x = q) (rewards_paid e [v])))"
  "ic_maxSupply (in_config (ec_inflation (economy_step e v))) = ic_maxSupply (in_config (ec_inflation e))"
  "ic_perPeerLimit (in_config (ec_inflation (economy_step e v))) = ic_perPeerLimit (in_config (ec_inflation e))"
proof -
  have "ic_currentSupply (in_config (ec_inflation (economy_step e v)))
      = ic_currentSupply (in_config (ec_inflation e)) + sum_list (map snd (rewards_paid e [v]))
    \<and> getPeerEmitted q (ec_inflation (economy_step e v))
      = getPeerEmitted q (ec_inflation e) + sum_list (map snd (filter (\<lambda>x. fst x = q) (rewards_paid e [v])))
    \<and> ic_maxSupply (in_config (ec_inflation (economy_step e v))) = ic_maxSupply (in_config (ec_inflation e))
    \<and> ic_perPeerLimit (in_config (ec_inflation (economy_step e v))) = ic_perPeerLimit (in_config (ec_inflation e))"
  proof (cases v)
    case (Ec_submit p now)
    show ?thesis
    proof (cases rule: submit_cases [of p now e])
      case (paid e1 r)
      then show ?thesis
        using emission_peer [OF valid_contributor [OF paid(2)]]
        by (simp add: Ec_submit emission_counts eq_commute [of q])
    qed (simp add: Ec_submit)
  qed (simp_all add: economy_createWallet_def economy_resetDaily_def resetDailyEmission_def
      updateRewardWeights_def getPeerEmitted_def)
  then show "ic_currentSupply (in_config (ec_inflation (economy_step e v)))
      = ic_currentSupply (in_config (ec_inflation e)) + sum_list (map snd (rewards_paid e [v]))"
    "getPeerEmitted q (ec_inflation (economy_step e v))
      = getPeerEmitted q (ec_inflation e) + sum_list (map snd (filter (\<lambda>x. fst x = q) (rewards_paid e [v])))"
    "ic_maxSupply (in_config (ec_inflation (economy_step e v))) = ic_maxSupply (in_config (ec_inflation e))"
    "ic_perPeerLimit (in_config (ec_inflation (economy_step e v))) = ic_perPeerLimit (in_config (ec_inflation e))"
    by blast+
qed

lemma rewards_paid_Cons: "rewards_paid e (v # vs) = rewards_paid e [v] @ rewards_paid (economy_step e v) vs"
  by simp

lemma paid_run:
  "ic_currentSupply (in_config (ec_inflation (foldl economy_step e es)))
     = ic_currentSupply (in_config (ec_inflation e)) + sum_list (map snd (rewards_paid e es))
   \<and> getPeerEmitted q (ec_inflation (foldl economy_step e es))
     = getPeerEmitted q (ec_inflation e) + sum_list (map snd (filter (\<lambda>x. fst x = q) (rewards_paid e es)))
   \<and> ic_maxSupply (in_config (ec_inflation (foldl economy_step e es))) = ic_maxSupply (in_config (ec_inflation e))
   \<and> ic_perPeerLimit (in_config (ec_inflation (foldl economy_step e es))) = ic_perPeerLimit (in_config (ec_inflation e))"
proof (induction es arbitrary: e)
  case (Cons v vs)
  show ?case
    unfolding foldl_Cons rewards_paid_Cons [of e v vs]
    using Cons.IH [of "economy_step e v"] paid_step(1,3,4) [of e v] paid_step(2) [of q e v]
    by (simp del: rewards_paid.simps economy_step.simps)
qed simp


section \<open>What the limits miss\<close>

text \<open>Nothing remembers which contributions were paid: a proof that was rewarded is rewarded again
  when it is submitted again, as long as the limits have room.\<close>

theorem proof_paid_twice:
  assumes "submitContribution p now e = (True, e1)"
    and "canEmit (net_reward p now e) (Some (pr_contributor p)) (ec_inflation e1)"
    and "fst (allocateReward (pr_category p) (net_reward p now e) (Some (pr_contributor p)) (ec_pool e1))"
  shows "fst (submitContribution p now e1)
    \<and> getPeerEmitted (pr_contributor p) (ec_inflation (snd (submitContribution p now e1)))
      = getPeerEmitted (pr_contributor p) (ec_inflation e) + 2 * net_reward p now e"
proof (cases rule: submit_cases [of p now e])
  case (paid e2 q)
  then have e1: "e1 = e2" using assms(1) by simp
  note pos = emission_peer [OF valid_contributor [OF paid(2)]]
  show ?thesis
  proof (cases rule: submit_cases [of p now e1])
    case refused
    obtain q' where "allocateReward (pr_category p) (net_reward p now e) (Some (pr_contributor p)) (ec_pool e1) = (True, q')"
      using assms(3) by (metis prod.collapse)
    then have "fst (submitContribution p now e1)"
      using assms(2) paid e1 by (simp add: submitContribution_def Let_def split: option.split)
    then show ?thesis using refused by simp
  next
    case (paid e3 q')
    then show ?thesis using \<open>ec_inflation e2 = _\<close> \<open>ec_calculator e2 = _\<close> e1 by (simp add: pos)
  qed
qed (use assms in simp)

text \<open>A contribution that is penalised for low approval, low trust and age has a negative reward, in
  every category and with the default weights. It is accepted, lowers the supply and the amount counted
  for the peer, and so gives the peer a larger allowance than before.\<close>

theorem penalised_reward_negative:
  assumes "ec_calculator e = calculator_init (\<lambda>_. None) None" and "submitContribution p now e = (True, e1)"
    and "pr_approvalPercentage p < 70" and "pr_trustScore p < 500" and "now - pr_timestamp p > 604800000"
  shows "net_reward p now e < 0
    \<and> ic_currentSupply (in_config (ec_inflation e1)) < ic_currentSupply (in_config (ec_inflation e))
    \<and> getPeerEmitted (pr_contributor p) (ec_inflation e1) < getPeerEmitted (pr_contributor p) (ec_inflation e)"
proof (cases rule: submit_cases [of p now e])
  case (paid e2 q)
  have v: "pr_value p > 0" "66 \<le> pr_approvalPercentage p" using paid(2) by (auto simp: validateContribution_def)
  have w: "default_weight c \<le> 30 / 100" "default_weight c \<noteq> 0" for c by (cases c; simp)+
  have "net_reward p now e = pr_value p * (default_weight (pr_category p) - 35 / 100)"
    using assms(1,3,4,5) v w by (simp add: calculateReward_def calculateBaseReward_def calculateBonus_def
        calculatePenalty_def calculator_init_def or_else_def Let_def algebra_simps)
  moreover have "default_weight (pr_category p) - 35 / 100 < 0" using w(1) [of "pr_category p"] by simp
  ultimately have neg: "net_reward p now e < 0" using v(1) by (simp only: mult_pos_neg)
  then show ?thesis
    using paid assms(2) emission_peer [OF valid_contributor [OF paid(2)]] by (simp add: emission_counts)
qed (use assms in simp)

text \<open>Resolving a report lowers the score of the peer each time, also when the report is resolved
  already: resolving one report \<open>n\<close> times takes its weight off the score \<open>n\<close> times, so one report is
  enough to lift a ban.\<close>

theorem resolving_again_lowers_again:
  assumes "jm_get (aa_reports a) i = Some r" and "0 \<le> getPeerScore (ab_peerId r) a"
  shows "getPeerScore (ab_peerId r) (((\<lambda>x. snd (resolveReport i t now x)) ^^ n) a)
    = max 0 (getPeerScore (ab_peerId r) a - int n * getSeverityScore (ab_severity r))"
proof -
  have sev: "0 \<le> getSeverityScore (ab_severity r)" by (cases "ab_severity r") simp_all
  have "(\<exists>r'. jm_get (aa_reports (((\<lambda>x. snd (resolveReport i t now x)) ^^ n) a)) i = Some r'
      \<and> ab_peerId r' = ab_peerId r \<and> ab_severity r' = ab_severity r)
    \<and> getPeerScore (ab_peerId r) (((\<lambda>x. snd (resolveReport i t now x)) ^^ n) a)
      = max 0 (getPeerScore (ab_peerId r) a - int n * getSeverityScore (ab_severity r))"
  proof (induction n)
    case 0
    then show ?case using assms by simp
  next
    case (Suc n)
    define b where "b = ((\<lambda>x. snd (resolveReport i t now x)) ^^ n) a"
    obtain r' where r': "jm_get (aa_reports b) i = Some r'" "ab_peerId r' = ab_peerId r"
      "ab_severity r' = ab_severity r" using Suc unfolding b_def [symmetric] by blast
    have s: "getPeerScore (ab_peerId r) b
      = max 0 (getPeerScore (ab_peerId r) a - int n * getSeverityScore (ab_severity r))"
      using Suc unfolding b_def [symmetric] by blast
    have "getPeerScore (ab_peerId r) (snd (resolveReport i t now b))
      = max 0 (getPeerScore (ab_peerId r) b - getSeverityScore (ab_severity r))"
      using r' by (simp add: resolveReport_def getPeerScore_def jm.get_put or_else_def)
    moreover have "\<exists>r''. jm_get (aa_reports (snd (resolveReport i t now b))) i = Some r''
      \<and> ab_peerId r'' = ab_peerId r \<and> ab_severity r'' = ab_severity r"
      using r' by (simp add: resolveReport_def jm.get_put)
    ultimately show ?case using sev s by (simp add: b_def [symmetric] algebra_simps max_def)
  qed
  then show ?thesis by blast
qed


section \<open>Concrete runs\<close>

definition sample_proof :: "rat \<Rightarrow> rat \<Rightarrow> contribution_proof" where
  "sample_proof approval trust = \<lparr>pr_contributionId = ''x'', pr_contributor = ''p'', pr_category = RStorage,
     pr_value = 100, pr_timestamp = 0, pr_trustScore = trust, pr_approvalPercentage = approval,
     pr_quorumReached = True\<rparr>"

lemmas reward_eval = sample_proof_def calculateReward_def calculateBaseReward_def calculateBonus_def
  calculatePenalty_def calculator_init_def or_else_def Let_def

lemmas economy_eval = submitContribution_def validateContribution_def isPeerBanned_def getPeerScore_def
  canEmit_def getPeerEmitted_def allocateReward_def getDailyAllocation_def getPeerAllocation_def
  recordEmission_def getWalletByPeerId_def economy_init_def defaultInflationConfig_def pool_init_def
  default_pools_def default_pool_def anti_abuse_init_def empty_wallet_state_def

lemma sample_net: "rr_netReward (calculateReward (calculator_init (\<lambda>_. None) None) (sample_proof 75 650) 200000000) = 30"
  "rr_netReward (calculateReward (calculator_init (\<lambda>_. None) None) (sample_proof 67 400) 700000000) = - 5"
  by (simp_all add: reward_eval)

lemma sample_calculator: "ec_calculator (economy_init t) = calculator_init (\<lambda>_. None) None"
  by (simp add: economy_init_def)

lemma sample_parts: "pr_contributor (sample_proof a t) = ''p''" "pr_category (sample_proof a t) = RStorage"
  by (simp_all add: sample_proof_def)

lemma sample_room: "canEmit 30 (Some ''p'') (ec_inflation (economy_init 0))"
    "canEmit 30 (Some ''p'') (recordEmission 30 (Some ''p'') (ec_inflation (economy_init 0)))"
    "canEmit (- 5) (Some ''p'') (ec_inflation (economy_init 0))"
  by (simp_all add: economy_eval or_else_def Let_def)

lemma sample_pool: "\<exists>q. allocateReward RStorage 30 (Some ''p'') (ec_pool (economy_init 0)) = (True, q)
    \<and> fst (allocateReward RStorage 30 (Some ''p'') q)"
  "fst (allocateReward RStorage (- 5) (Some ''p'') (ec_pool (economy_init 0)))"
  by (simp_all add: economy_eval or_else_def Let_def)

lemma sample_not_banned: "\<not> isPeerBanned q (ec_abuse (economy_init t))"
  by (simp add: economy_eval or_else_def)

lemma sample_accepted:
  assumes "validateContribution (sample_proof a t)"
    and "canEmit (net_reward (sample_proof a t) now (economy_init 0)) (Some ''p'') (ec_inflation (economy_init 0))"
    and "fst (allocateReward RStorage (net_reward (sample_proof a t) now (economy_init 0)) (Some ''p'')
        (ec_pool (economy_init 0)))"
  shows "fst (submitContribution (sample_proof a t) now (economy_init 0))"
proof -
  obtain q where "allocateReward RStorage (net_reward (sample_proof a t) now (economy_init 0)) (Some ''p'')
        (ec_pool (economy_init 0)) = (True, q)" using assms(3) by (metis prod.collapse)
  then show ?thesis
    using assms(1,2) sample_not_banned
    by (simp add: submitContribution_def Let_def sample_parts split: option.split)
qed

theorem proof_paid_twice_witness:
  "getPeerEmitted ''p'' (ec_inflation (economy_step (economy_step (economy_init 0)
      (Ec_submit (sample_proof 75 650) 200000000)) (Ec_submit (sample_proof 75 650) 200000000))) = 60"
proof -
  let ?p = "sample_proof 75 650"
  have net: "net_reward ?p 200000000 (economy_init 0) = 30" by (simp only: sample_calculator sample_net)
  obtain q where q: "allocateReward RStorage 30 (Some ''p'') (ec_pool (economy_init 0)) = (True, q)"
    "fst (allocateReward RStorage 30 (Some ''p'') q)" using sample_pool(1) by blast
  have acc: "fst (submitContribution ?p 200000000 (economy_init 0))"
  proof (rule sample_accepted)
    show "validateContribution ?p" by (simp add: sample_proof_def validateContribution_def)
  qed (simp_all only: net sample_room(1) q fst_conv)
  show ?thesis
  proof (cases rule: submit_cases [of ?p 200000000 "economy_init 0"])
    case (paid e1 r)
    have "r = q" using paid(5) q(1) by (simp add: sample_parts net)
    then have "fst (submitContribution ?p 200000000 e1)
      \<and> getPeerEmitted (pr_contributor ?p) (ec_inflation (snd (submitContribution ?p 200000000 e1)))
        = getPeerEmitted (pr_contributor ?p) (ec_inflation (economy_init 0)) + 2 * 30"
      using proof_paid_twice [OF paid(1)] paid(6,10) q(2) sample_room(2) by (simp add: sample_parts net)
    then show ?thesis using paid(1) by (simp add: sample_parts) (simp add: economy_eval or_else_def)
  qed (use acc in simp)
qed

theorem penalised_reward_negative_witness:
  "ic_currentSupply (in_config (ec_inflation (economy_step (economy_init 0)
      (Ec_submit (sample_proof 67 400) 700000000)))) < 0"
proof -
  let ?p = "sample_proof 67 400"
  have net: "net_reward ?p 700000000 (economy_init 0) = - 5" by (simp only: sample_calculator sample_net)
  have acc: "fst (submitContribution ?p 700000000 (economy_init 0))"
  proof (rule sample_accepted)
    show "validateContribution ?p" by (simp add: sample_proof_def validateContribution_def)
  qed (simp_all only: net sample_room(3) sample_pool(2))
  obtain e1 where e1: "submitContribution ?p 700000000 (economy_init 0) = (True, e1)"
    using acc by (metis prod.collapse)
  have "ic_currentSupply (in_config (ec_inflation e1)) < ic_currentSupply (in_config (ec_inflation (economy_init 0)))"
    using penalised_reward_negative [OF sample_calculator e1] by (simp add: sample_proof_def)
  then show ?thesis using e1 by simp (simp add: economy_init_def defaultInflationConfig_def)
qed

definition sample_abuse :: anti_abuse where
  "sample_abuse = anti_abuse_init\<lparr>aa_reports := [(''r'', \<lparr>ab_id = ''r'', ab_peerId = ''p'', ab_type = Auto_like,
     ab_severity = Critical, ab_timestamp = 0, ab_resolved = False, ab_resolvedAt = None, ab_resolution = None\<rparr>)],
     aa_scores := [(''p'', 250)]\<rparr>"

theorem resolving_again_lowers_again_witness:
  "isPeerBanned ''p'' sample_abuse
   \<and> getPeerScore ''p'' (((\<lambda>x. snd (resolveReport ''r'' ''ok'' 1 x)) ^^ 3) sample_abuse) = 0"
  using resolving_again_lowers_again [of sample_abuse "''r''" "snd (hd (aa_reports sample_abuse))" 3 "''ok''" 1]
  by (simp add: isPeerBanned_def) (simp add: sample_abuse_def getPeerScore_def or_else_def)

end
