(* ===== verification/PeerTrust.thy ===== *)
theory PeerTrust
  imports TrustedPeers NetMessage
begin

text \<open>
  How peers come to trust each other: sessions (\<open>src/services/peers/PeerSessionService.ts\<close>), identities
  and the handshake over the old transport (\<open>PeerTrustService.ts\<close>), the handshake over a peer
  connection (\<open>PeerHandshakeProtocol.ts\<close>) and invites (\<open>PeerInviteService.ts\<close>). Signing and verifying
  are parameters; a handler runs without interruption; numbers in messages are integers; the callbacks
  \<open>onVerified\<close> are the peers they are called with.
\<close>

section \<open>Sessions\<close>

record peer_session =
  pn_sessionId :: string
  pn_peerId :: string
  pn_state :: session_state
  pn_createdAt :: int
  pn_updatedAt :: int
  pn_localChallenge :: "string option"
  pn_remoteChallenge :: "string option"
  pn_lastError :: "string option"

record trust_node =
  tn_store :: trust_store
  tn_sessions :: "(string, peer_session) jsmap"
  tn_counter :: nat
  tn_pending :: "(string, string) jsmap" \<comment> \<open>the session of a handshake under way, and its challenge\<close>

definition handshake_ttl :: int where
  "handshake_ttl = 5 * 60 * 1000"

definition on_store :: "(trust_store \<Rightarrow> trust_store) \<Rightarrow> trust_node \<Rightarrow> trust_node" where
  "on_store f n = n\<lparr>tn_store := f (tn_store n)\<rparr>"

definition put_session :: "peer_session \<Rightarrow> trust_node \<Rightarrow> trust_node" where
  "put_session s n = n\<lparr>tn_sessions := jm_set (pn_sessionId s) s (tn_sessions n)\<rparr>"

definition source_of :: "string \<Rightarrow> trust_store \<Rightarrow> peer_source" where
  "source_of peerId s = (case getPeer peerId s of None \<Rightarrow> From_discovery | Some e \<Rightarrow> tp_source e)"

definition set_session_state ::
  "string \<Rightarrow> session_state \<Rightarrow> string option \<Rightarrow> string option \<Rightarrow> int \<Rightarrow> trust_node \<Rightarrow> trust_node" where
  "set_session_state peerId state sessionId reason now =
     on_store (\<lambda>s. snd (updateSessionState peerId state sessionId reason now s))"

definition open_session :: "peer_session \<Rightarrow> int \<Rightarrow> trust_node \<Rightarrow> trust_node" where
  "open_session s now n =
     set_session_state (pn_peerId s) Ss_connecting (Some (pn_sessionId s)) None now
       (on_store (\<lambda>t. snd (upsert (upsert_only (pn_peerId s) (source_of (pn_peerId s) t)) now t))
         (put_session s n))"

definition challenge_value :: "string \<Rightarrow> string \<Rightarrow> string \<Rightarrow> int \<Rightarrow> nat \<Rightarrow> jsval" where
  "challenge_value peerId localPeerId localIdentity createdAt counter = Jv_obj
     [(''peerId'', Jv_str peerId), (''localPeerId'', Jv_str localPeerId),
      (''localIdentity'', Jv_str localIdentity), (''createdAt'', Jv_num createdAt),
      (''sequence'', Jv_num (int counter))]"

definition session_id_value :: "string \<Rightarrow> string \<Rightarrow> string \<Rightarrow> jsval" where
  "session_id_value peerId localPeerId challenge = Jv_obj
     [(''peerId'', Jv_str peerId), (''localPeerId'', Jv_str localPeerId),
      (''challenge'', Jv_str challenge)]"

definition startHandshake ::
  "string \<Rightarrow> string \<Rightarrow> string \<Rightarrow> int \<Rightarrow> trust_node \<Rightarrow> peer_session \<times> string \<times> trust_node" where
  "startHandshake peerId localPeerId localIdentity now n =
     (let challenge = sha256Hex (canonical_text
            (challenge_value peerId localPeerId localIdentity now (tn_counter n)));
          s = \<lparr>pn_sessionId = ''ps_'' @ take 32 (sha256Hex (canonical_text
                 (session_id_value peerId localPeerId challenge))),
               pn_peerId = peerId, pn_state = Ss_connecting, pn_createdAt = now, pn_updatedAt = now,
               pn_localChallenge = Some challenge, pn_remoteChallenge = None, pn_lastError = None\<rparr>
      in (s, challenge, open_session s now (n\<lparr>tn_counter := Suc (tn_counter n)\<rparr>)))"

definition acceptRemoteHandshake ::
  "string \<Rightarrow> string \<Rightarrow> string \<Rightarrow> int \<Rightarrow> trust_node \<Rightarrow> peer_session \<times> trust_node" where
  "acceptRemoteHandshake peerId sessionId remoteChallenge now n =
     (let s = \<lparr>pn_sessionId = sessionId, pn_peerId = peerId, pn_state = Ss_connecting,
               pn_createdAt = now, pn_updatedAt = now, pn_localChallenge = None,
               pn_remoteChallenge = Some remoteChallenge, pn_lastError = None\<rparr>
      in (s, open_session s now n))"

definition failSession :: "string \<Rightarrow> string \<Rightarrow> int \<Rightarrow> trust_node \<Rightarrow> peer_session option \<times> trust_node" where
  "failSession sessionId reason now n = (case jm_get (tn_sessions n) sessionId of
     None \<Rightarrow> (None, n)
   | Some s \<Rightarrow>
       (let failed = s\<lparr>pn_state := Ss_failed, pn_lastError := Some reason, pn_updatedAt := now\<rparr>
        in (Some failed, set_session_state (pn_peerId s) Ss_failed (Some sessionId) (Some reason) now
              (n\<lparr>tn_sessions := jm_set sessionId failed (tn_sessions n)\<rparr>))))"

definition verifySession ::
  "string \<Rightarrow> string \<Rightarrow> string option \<Rightarrow> int \<Rightarrow> trust_node \<Rightarrow> peer_session option \<times> trust_node" where
  "verifySession sessionId peerId remoteChallenge now n =
     (case (case jm_get (tn_sessions n) sessionId of
              None \<Rightarrow> None | Some s \<Rightarrow> if pn_peerId s \<noteq> peerId then None else Some s) of
        None \<Rightarrow> (None, set_session_state peerId Ss_failed (Some sessionId) (Some ''Session not found'') now n)
      | Some s \<Rightarrow>
          if now - pn_createdAt s > handshake_ttl then failSession sessionId ''Handshake expired'' now n
          else (let verified = s\<lparr>pn_state := Ss_verified,
                      pn_remoteChallenge := opt_else remoteChallenge (pn_remoteChallenge s),
                      pn_updatedAt := now\<rparr>
                in (Some verified, on_store (\<lambda>t. snd (recordHandshakeSuccess peerId (Some sessionId) now t))
                      (n\<lparr>tn_sessions := jm_set sessionId verified (tn_sessions n)\<rparr>))))"

definition disconnectPeer :: "string \<Rightarrow> int \<Rightarrow> trust_node \<Rightarrow> trust_node" where
  "disconnectPeer peerId now n = (set_session_state peerId Ss_disconnected None None now n)\<lparr>
     tn_sessions := map (\<lambda>(k, s). (k, if pn_peerId s = peerId \<and> pn_state s = Ss_verified
       then s\<lparr>pn_state := Ss_disconnected, pn_updatedAt := now\<rparr> else s)) (tn_sessions n)\<rparr>"

definition getPeerState :: "string \<Rightarrow> trust_node \<Rightarrow> session_state" where
  "getPeerState peerId n =
     (case getPeer peerId (tn_store n) of None \<Rightarrow> Ss_unknown | Some e \<Rightarrow> tp_sessionState e)"

section \<open>Identities\<close>

record trust_env =
  te_peerId :: "string option"
  te_identityId :: "string option"
  te_sign :: "string \<Rightarrow> string"
  te_verify :: "string \<Rightarrow> string \<Rightarrow> string \<Rightarrow> bool"
  te_transport :: bool \<comment> \<open>the old transport is there\<close>

text \<open>\<open>JSON.stringify\<close> keeps the order of the fields.\<close>

definition createSignedPayload :: "trust_identity \<Rightarrow> string" where
  "createSignedPayload i = stringify (J_obj
     [(''peerId'', J_str (id_peerId i)), (''identityId'', J_str (id_identityId i)),
      (''displayName'', case id_displayName i of None \<Rightarrow> J_null | Some s \<Rightarrow> J_str s),
      (''publicKey'', J_str (id_publicKey i)), (''timestamp'', J_num (id_timestamp i))])"

definition createLocalIdentity :: "trust_env \<Rightarrow> string option \<Rightarrow> int \<Rightarrow> trust_identity option" where
  \<comment> \<open>\<open>None\<close>: it throws.\<close>
  "createLocalIdentity env displayName now = (case (te_identityId env, te_peerId env) of
     (Some identityId, Some peerId) \<Rightarrow>
       if identityId = [] \<or> peerId = [] then None
       else (let i = \<lparr>id_peerId = peerId, id_identityId = identityId, id_displayName = displayName,
                   id_publicKey = identityId, id_timestamp = now, id_signature = []\<rparr>
             in Some (i\<lparr>id_signature := te_sign env (createSignedPayload i)\<rparr>))
   | _ \<Rightarrow> None)"

definition verifyIdentity :: "trust_env \<Rightarrow> trust_identity \<Rightarrow> int \<Rightarrow> bool" where
  "verifyIdentity env i now \<longleftrightarrow> \<not> now - id_timestamp i > 5 * 60 * 1000
     \<and> te_verify env (createSignedPayload i) (id_signature i) (id_publicKey i)"

definition is_blocked :: "string \<Rightarrow> trust_store \<Rightarrow> bool" where
  "is_blocked peerId s = (case getPeer peerId s of
     None \<Rightarrow> False | Some e \<Rightarrow> tp_trustStatus e = Trust_blocked)"

definition demote :: "string \<Rightarrow> peer_source \<Rightarrow> int \<Rightarrow> trust_store \<Rightarrow> trust_store" where
  "demote peerId source now s =
     snd (upsert ((upsert_only peerId source)\<lparr>ui_trustStatus := Some Trust_unknown\<rparr>) now s)"

definition promote :: "trust_identity \<Rightarrow> int \<Rightarrow> trust_store \<Rightarrow> trust_store" where
  "promote i now s = recordConnection (id_peerId i) now (snd (markVerified (id_peerId i) i now s))"

definition verifyAndStore :: "trust_env \<Rightarrow> trust_identity \<Rightarrow> int \<Rightarrow> trust_store \<Rightarrow> bool \<times> trust_store" where
  "verifyAndStore env i now s =
     (if is_blocked (id_peerId i) s then (False, s)
      else if \<not> verifyIdentity env i now
      then (False, demote (id_peerId i) (source_of (id_peerId i) s) now s)
      else (True, promote i now s))"

definition verify_and_store :: "trust_env \<Rightarrow> trust_identity \<Rightarrow> int \<Rightarrow> trust_node \<Rightarrow> bool \<times> trust_node" where
  "verify_and_store env i now n =
     (let (ok, s) = verifyAndStore env i now (tn_store n) in (ok, n\<lparr>tn_store := s\<rparr>))"

section \<open>The handshake over the old transport\<close>

record handshake_request =
  hq_sessionId :: string
  hq_challenge :: string
  hq_identity :: trust_identity

record handshake_response =
  hr_sessionId :: string
  hr_requestChallenge :: string
  hr_responseChallenge :: string
  hr_identity :: trust_identity
  hr_accepted :: bool
  hr_reason :: "string option"

text \<open>A handshake is begun, then the answers of the transport are looked at.\<close>

datatype trust_begin = Trust_false | Trust_throws | Trust_request handshake_request

definition begin_trust_handshake :: "trust_env \<Rightarrow> string \<Rightarrow> int \<Rightarrow> trust_node \<Rightarrow> trust_begin \<times> trust_node" where
  "begin_trust_handshake env peerId now n =
     (if is_blocked peerId (tn_store n) then (Trust_false, n)
      else (let n1 = on_store (\<lambda>s. snd (upsert (upsert_only peerId (source_of peerId s)) now s)) n in
        if \<not> te_transport env then (Trust_false, n1)
        else (case createLocalIdentity env None now of
          None \<Rightarrow> (Trust_throws, n1)
        | Some i \<Rightarrow>
            (let (s, challenge, n2) = startHandshake peerId (id_peerId i) (id_identityId i) now n1
             in (Trust_request \<lparr>hq_sessionId = pn_sessionId s, hq_challenge = challenge,
                   hq_identity = i\<rparr>, n2)))))"

fun check_responses ::
  "trust_env \<Rightarrow> handshake_request \<Rightarrow> int \<Rightarrow> handshake_response list \<Rightarrow> bool \<Rightarrow> trust_node \<Rightarrow> bool \<times> trust_node" where
  "check_responses env q now [] accepted n = (accepted, n)"
| "check_responses env q now (r # rs) accepted n =
     (if hr_sessionId r = hq_sessionId q \<and> hr_requestChallenge r = hq_challenge q \<and> hr_accepted r
      then (let (ok, n1) = verify_and_store env (hr_identity r) now n
            in if ok then check_responses env q now rs True
                 (snd (verifySession (hq_sessionId q) (id_peerId (hr_identity r))
                    (Some (hr_responseChallenge r)) now n1))
               else check_responses env q now rs accepted n1)
      else check_responses env q now rs accepted n)"

definition finish_trust_handshake ::
  "trust_env \<Rightarrow> string \<Rightarrow> handshake_request \<Rightarrow> handshake_response list \<Rightarrow> int \<Rightarrow> trust_node \<Rightarrow> bool \<times> trust_node" where
  "finish_trust_handshake env peerId q responses now n =
     (let (accepted, n1) = check_responses env q now responses False n
      in (accepted, if accepted then on_store (recordConnection peerId now) n1
            else snd (failSession (hq_sessionId q) ''Handshake rejected or no valid response'' now n1)))"

definition createResponseChallenge :: "string \<Rightarrow> trust_identity \<Rightarrow> string" where
  "createResponseChallenge challenge i = stringify (J_obj
     [(''challenge'', J_str challenge), (''peerId'', J_str (id_peerId i)),
      (''identityId'', J_str (id_identityId i)), (''timestamp'', J_num (id_timestamp i))])"

text \<open>The responder; the answer is \<open>None\<close> when there is no local identity and it throws.\<close>

definition respondToTrust ::
  "trust_env \<Rightarrow> handshake_request \<Rightarrow> int \<Rightarrow> trust_node \<Rightarrow> handshake_response option \<times> trust_node" where
  "respondToTrust env q now n =
     (let i = hq_identity q; p = id_peerId i; blocked = is_blocked p (tn_store n);
          n1 = snd (acceptRemoteHandshake p (hq_sessionId q) (hq_challenge q) now n);
          answer = (\<lambda>challenge accepted reason. map_option (\<lambda>me. \<lparr>hr_sessionId = hq_sessionId q,
             hr_requestChallenge = hq_challenge q, hr_responseChallenge = challenge me,
             hr_identity = me, hr_accepted = accepted, hr_reason = reason\<rparr>)
             (createLocalIdentity env None now))
      in if blocked then (answer (\<lambda>me. []) False (Some ''Peer is blocked''), n1)
         else if verifyIdentity env i now
         then (answer (createResponseChallenge (hq_challenge q)) True None,
               snd (verifySession (hq_sessionId q) p (Some (hq_challenge q)) now
                 (on_store (promote i now) n1)))
         else (answer (createResponseChallenge (hq_challenge q)) False
                 (Some ''Invalid identity signature''),
               snd (failSession (hq_sessionId q) ''Invalid identity signature'' now
                 (on_store (demote p From_discovery now) n1))))"

text \<open>A response that arrives outside a handshake.\<close>

definition processTrustResponse :: "trust_env \<Rightarrow> handshake_response \<Rightarrow> int \<Rightarrow> trust_node \<Rightarrow> trust_node" where
  "processTrustResponse env r now n =
     (if hr_accepted r then snd (verify_and_store env (hr_identity r) now n) else n)"

section \<open>The handshake over a peer connection\<close>

definition identity_of :: "jsval \<Rightarrow> trust_identity option" where
  \<comment> \<open>\<open>isPeerTrustIdentity\<close>, and the fields it leaves alone.\<close>
  "identity_of v = (case (str_of (field v ''peerId''), str_of (field v ''identityId''),
        str_of (field v ''publicKey''), finite_of (field v ''timestamp''), str_of (field v ''signature'')) of
     (Some p, Some i, Some k, Some t, Some g) \<Rightarrow> Some \<lparr>id_peerId = p, id_identityId = i,
        id_displayName = str_of (field v ''displayName''), id_publicKey = k, id_timestamp = t,
        id_signature = g\<rparr>
   | _ \<Rightarrow> None)"

definition handshake_request_of :: "jsval \<Rightarrow> handshake_request option" where
  "handshake_request_of v =
     (if field v ''version'' \<noteq> Jv_num 1 \<or> field v ''type'' \<noteq> Jv_str ''peer.handshake.request'' then None
      else (case (str_of (field v ''sessionId''), str_of (field v ''challenge''),
                  identity_of (field v ''identity'')) of
        (Some s, Some c, Some i) \<Rightarrow> Some \<lparr>hq_sessionId = s, hq_challenge = c, hq_identity = i\<rparr>
      | _ \<Rightarrow> None))"

fun bool_of :: "jsval \<Rightarrow> bool option" where
  "bool_of (Jv_bool b) = Some b"
| "bool_of v = None"

definition handshake_response_of :: "jsval \<Rightarrow> handshake_response option" where
  "handshake_response_of v =
     (if field v ''version'' \<noteq> Jv_num 1 \<or> field v ''type'' \<noteq> Jv_str ''peer.handshake.response'' then None
      else (case (str_of (field v ''sessionId''), str_of (field v ''requestChallenge''),
                  str_of (field v ''responseChallenge''), bool_of (field v ''accepted''),
                  identity_of (field v ''identity'')) of
        (Some s, Some q, Some c, Some a, Some i) \<Rightarrow> Some \<lparr>hr_sessionId = s, hr_requestChallenge = q,
           hr_responseChallenge = c, hr_identity = i, hr_accepted = a,
           hr_reason = str_of (field v ''reason'')\<rparr>
      | _ \<Rightarrow> None))"

definition identity_value :: "trust_identity \<Rightarrow> jsval" where
  "identity_value i = Jv_obj
     [(''peerId'', Jv_str (id_peerId i)), (''identityId'', Jv_str (id_identityId i)),
      (''displayName'', opt_str (id_displayName i)), (''publicKey'', Jv_str (id_publicKey i)),
      (''timestamp'', Jv_num (id_timestamp i)), (''signature'', Jv_str (id_signature i))]"

definition request_value :: "handshake_request \<Rightarrow> jsval" where
  "request_value q = Jv_obj
     [(''version'', Jv_num 1), (''type'', Jv_str ''peer.handshake.request''),
      (''sessionId'', Jv_str (hq_sessionId q)), (''challenge'', Jv_str (hq_challenge q)),
      (''identity'', identity_value (hq_identity q))]"

definition response_value :: "handshake_response \<Rightarrow> jsval" where
  "response_value r = Jv_obj
     [(''version'', Jv_num 1), (''type'', Jv_str ''peer.handshake.response''),
      (''sessionId'', Jv_str (hr_sessionId r)), (''requestChallenge'', Jv_str (hr_requestChallenge r)),
      (''responseChallenge'', Jv_str (hr_responseChallenge r)), (''identity'', identity_value (hr_identity r)),
      (''accepted'', Jv_bool (hr_accepted r)), (''reason'', opt_str (hr_reason r))]"

text \<open>\<open>handshake\<close> up to the send; then it waits for the response, the timeout, a failure to send or a stop.\<close>

definition begin_handshake ::
  "trust_env \<Rightarrow> string \<Rightarrow> bool \<Rightarrow> int \<Rightarrow> trust_node \<Rightarrow> handshake_request option \<times> trust_node" where
  \<comment> \<open>\<open>None\<close>: not connected, or no local identity.\<close>
  "begin_handshake env peerId hasConnection now n =
     (if \<not> hasConnection then (None, n)
      else (case createLocalIdentity env None now of
        None \<Rightarrow> (None, n)
      | Some i \<Rightarrow>
          (let (s, challenge, n1) = startHandshake peerId (id_peerId i) (id_identityId i) now n
           in (Some \<lparr>hq_sessionId = pn_sessionId s, hq_challenge = challenge, hq_identity = i\<rparr>,
               n1\<lparr>tn_pending := jm_set (pn_sessionId s) challenge (tn_pending n1)\<rparr>))))"

definition drop_pending :: "string \<Rightarrow> trust_node \<Rightarrow> trust_node" where
  "drop_pending sessionId n = n\<lparr>tn_pending := jm_delete sessionId (tn_pending n)\<rparr>"

definition handshake_timeout :: "string \<Rightarrow> int \<Rightarrow> trust_node \<Rightarrow> trust_node" where
  "handshake_timeout sessionId now n =
     (if jm_get (tn_pending n) sessionId = None then n \<comment> \<open>the timer was cleared\<close>
      else snd (failSession sessionId ''Handshake timed out'' now (drop_pending sessionId n)))"

definition handshake_send_failed :: "string \<Rightarrow> string \<Rightarrow> int \<Rightarrow> trust_node \<Rightarrow> trust_node" where
  "handshake_send_failed sessionId message now n =
     snd (failSession sessionId message now (drop_pending sessionId n))"

definition handshake_stop :: "trust_node \<Rightarrow> trust_node" where
  "handshake_stop n = n\<lparr>tn_pending := []\<rparr>"

definition complete_handshake ::
  "trust_env \<Rightarrow> string \<Rightarrow> string \<Rightarrow> handshake_response \<Rightarrow> int \<Rightarrow> trust_node \<Rightarrow> bool \<times> string list \<times> trust_node" where
  \<comment> \<open>The result of \<open>handshake\<close>, and the peers reported as verified.\<close>
  "complete_handshake env sessionId challenge r now n =
     (let failed = (\<lambda>n. (False, [],
            snd (failSession sessionId (or_else (hr_reason r) ''Handshake rejected'') now n))) in
      if hr_accepted r \<and> hr_sessionId r = sessionId \<and> hr_requestChallenge r = challenge
      then (let (ok, n1) = verify_and_store env (hr_identity r) now n
            in if ok then (True, [id_peerId (hr_identity r)],
                  snd (verifySession sessionId (id_peerId (hr_identity r))
                    (Some (hr_responseChallenge r)) now n1))
               else failed n1)
      else failed n)"

definition respondToHandshake ::
  "trust_env \<Rightarrow> handshake_request \<Rightarrow> int \<Rightarrow> trust_node
     \<Rightarrow> handshake_response option \<times> string list \<times> trust_node" where
  "respondToHandshake env q now n =
     (let i = hq_identity q; p = id_peerId i;
          n1 = snd (acceptRemoteHandshake p (hq_sessionId q) (hq_challenge q) now n);
          (valid, n2) = verify_and_store env i now n1;
          n3 = (if valid
            then snd (verifySession (hq_sessionId q) p (Some (hq_challenge q)) now n2)
            else snd (failSession (hq_sessionId q) ''Invalid identity signature'' now n2))
      in (map_option (\<lambda>me. \<lparr>hr_sessionId = hq_sessionId q, hr_requestChallenge = hq_challenge q,
             hr_responseChallenge = hq_challenge q @ '':'' @ id_peerId me @ '':'' @ show_int (id_timestamp me),
             hr_identity = me, hr_accepted = valid,
             hr_reason = (if valid then None else Some ''Invalid identity signature'')\<rparr>)
            (createLocalIdentity env None now),
          if valid then [p] else [], n3))"

record handshake_output =
  ho_response :: "handshake_response option"
  ho_result :: "bool option" \<comment> \<open>what the waiting call of \<open>handshake\<close> returns\<close>
  ho_verified :: "string list"

definition handleHandshakeMessage ::
  "trust_env \<Rightarrow> string \<Rightarrow> jsval \<Rightarrow> int \<Rightarrow> trust_node \<Rightarrow> handshake_output \<times> trust_node" where
  "handleHandshakeMessage env messageType payload now n =
     (let nothing = \<lparr>ho_response = None, ho_result = None, ho_verified = []\<rparr> in
      if messageType \<noteq> ''peer.handshake'' then (nothing, n)
      else (case handshake_request_of payload of
        Some q \<Rightarrow> (let (r, vs, n1) = respondToHandshake env q now n
                   in (nothing\<lparr>ho_response := r, ho_verified := vs\<rparr>, n1))
      | None \<Rightarrow> (case handshake_response_of payload of
          None \<Rightarrow> (nothing, n)
        | Some r \<Rightarrow> (case jm_get (tn_pending n) (hr_sessionId r) of
            None \<Rightarrow> (nothing, n)
          | Some challenge \<Rightarrow>
              (let (ok, vs, n1) = complete_handshake env (hr_sessionId r) challenge r now
                     (drop_pending (hr_sessionId r) n)
               in (nothing\<lparr>ho_result := Some ok, ho_verified := vs\<rparr>, n1))))))"

end
