(* ===== verification/Invite.thy ===== *)
theory Invite
  imports PeerTrust
begin

text \<open>
  Invites: \<open>src/services/peers/PeerInviteService.ts\<close>. An invite is a URI with a query; its parameters
  are kept in the order they are written, each with its values. Parameter names are not names of
  \<open>Object.prototype\<close>; what \<open>Number\<close> and \<open>decodeURIComponent\<close> do with other text are parameters.
\<close>

record invite =
  iv_peerId :: string
  iv_identityId :: "string option"
  iv_addresses :: "string list"
  iv_createdAt :: int
  iv_expiresAt :: "int option"
  iv_nonce :: "string option"
  iv_signature :: "string option"

definition invite_scheme :: string where
  "invite_scheme = ''synpeer:peer''"

definition legacy_invite_scheme :: string where
  "legacy_invite_scheme = ''insta99:peer''"

definition invite_ttl :: int where
  "invite_ttl = 24 * 60 * 60 * 1000"

definition nonce_value :: "string \<Rightarrow> string option \<Rightarrow> int \<Rightarrow> jsval" where
  "nonce_value peerId identityId createdAt = Jv_obj
     [(''peerId'', Jv_str peerId),
      (''identityId'', case identityId of None \<Rightarrow> Jv_null | Some s \<Rightarrow> Jv_str s),
      (''createdAt'', Jv_num createdAt)]"

definition createInviteNonce :: "string \<Rightarrow> string option \<Rightarrow> int \<Rightarrow> string" where
  "createInviteNonce peerId identityId createdAt =
     take 32 (sha256Hex (canonical_text (nonce_value peerId identityId createdAt)))"

definition optional_param :: "string \<Rightarrow> string option \<Rightarrow> (string \<times> string) list" where
  "optional_param k v = (case v of None \<Rightarrow> [] | Some s \<Rightarrow> if s = [] then [] else [(k, s)])"

definition invite_params :: "invite \<Rightarrow> (string \<times> string) list" where
  "invite_params i = [(''v'', ''1''), (''peerId'', iv_peerId i)]
     @ optional_param ''identityId'' (iv_identityId i)
     @ [(''createdAt'', show_int (iv_createdAt i))]
     @ (case iv_expiresAt i of None \<Rightarrow> [] | Some t \<Rightarrow> if t = 0 then [] else [(''expiresAt'', show_int t)])
     @ optional_param ''nonce'' (iv_nonce i)
     @ map (Pair ''addr'') (iv_addresses i)
     @ optional_param ''signature'' (iv_signature i)"

definition param_text :: "string \<times> string \<Rightarrow> string" where
  "param_text p = encodeURIComponent (fst p) @ ''='' @ encodeURIComponent (snd p)"

definition serializeInvite :: "invite \<Rightarrow> string" where
  "serializeInvite i = invite_scheme @ ''?'' @ join_with ''&'' (map param_text (invite_params i))"

definition createInvite ::
  "string option \<Rightarrow> (string \<times> string) option \<Rightarrow> string option \<Rightarrow> string list \<Rightarrow> int \<Rightarrow> string option" where
  \<comment> \<open>The id of the peer manager, the local identity (peer id and public identity), the last resort,
    the listen addresses. \<open>None\<close>: it throws.\<close>
  "createInvite managerPeerId identity localPeerId addresses now =
     (case opt_else managerPeerId (opt_else (map_option fst identity) localPeerId) of
        None \<Rightarrow> None
      | Some p \<Rightarrow> if p = [] then None
          else Some (serializeInvite \<lparr>iv_peerId = p, iv_identityId = map_option snd identity,
            iv_addresses = addresses, iv_createdAt = now, iv_expiresAt = Some (now + invite_ttl),
            iv_nonce = Some (createInviteNonce p (map_option snd identity) now), iv_signature = None\<rparr>))"

section \<open>Reading an invite\<close>

datatype invite_error =
    Invalid_invite | Missing_peer_data | Malformed_escape | Unsupported_invite_version
  | Missing_peer_id | Invalid_creation | Invalid_expiration | Invite_expired | Own_invite

record invite_env =
  ve_number_text :: "string \<Rightarrow> number"
  ve_uri_text :: "string \<Rightarrow> string option"

fun parseQuery ::
  "invite_env \<Rightarrow> string list \<Rightarrow> (string, string list) jsmap \<Rightarrow> (string, string list) jsmap option" where
  \<comment> \<open>The parts between \<open>&\<close>; \<open>None\<close>: it throws.\<close>
  "parseQuery env [] params = Some params"
| "parseQuery env (part # parts) params =
     (if part = [] then parseQuery env parts params
      else (let fields = split_char (CHR ''='') part;
                rawValue = (case tl fields of [] \<Rightarrow> [] | v # _ \<Rightarrow> v)
            in case decodeURIComponent (ve_uri_text env) (hd fields) of
                 None \<Rightarrow> None
               | Some k \<Rightarrow> (case decodeURIComponent (ve_uri_text env) rawValue of
                   None \<Rightarrow> None
                 | Some v \<Rightarrow> parseQuery env parts
                     (jm_set k (or_else (jm_get params k) [] @ [v]) params))))"

definition first_param :: "(string, string list) jsmap \<Rightarrow> string \<Rightarrow> string option" where
  "first_param params k = (case jm_get params k of Some (v # vs) \<Rightarrow> Some v | _ \<Rightarrow> None)"

definition checkInvite ::
  "invite_env \<Rightarrow> (string, string list) jsmap \<Rightarrow> int \<Rightarrow> invite_error + invite" where
  "checkInvite env params now =
     (let version = js_Number (ve_number_text env) (or_else (first_param params ''v'') ''1'');
          createdAt = (case first_param params ''createdAt'' of
            None \<Rightarrow> Fin now | Some s \<Rightarrow> js_Number (ve_number_text env) s);
          expiresAt = (case first_param params ''expiresAt'' of
            None \<Rightarrow> None | Some s \<Rightarrow> if s = [] then None else Some (js_Number (ve_number_text env) s))
      in if version \<noteq> Fin 1 then Inl Unsupported_invite_version
      else (case first_param params ''peerId'' of
        None \<Rightarrow> Inl Missing_peer_id
      | Some peerId \<Rightarrow> if peerId = [] then Inl Missing_peer_id
        else (case createdAt of
          Non x \<Rightarrow> Inl Invalid_creation
        | Fin created \<Rightarrow>
            (let ok = (\<lambda>expires. Inr \<lparr>iv_peerId = peerId,
                  iv_identityId = first_param params ''identityId'',
                  iv_addresses = or_else (jm_get params ''addr'') [], iv_createdAt = created,
                  iv_expiresAt = expires, iv_nonce = first_param params ''nonce'',
                  iv_signature = first_param params ''signature''\<rparr>)
             in case expiresAt of
                  None \<Rightarrow> ok None
                | Some (Non x) \<Rightarrow> Inl Invalid_expiration
                | Some (Fin t) \<Rightarrow> if t \<le> created then Inl Invalid_expiration
                    else if now > t then Inl Invite_expired else ok (Some t)))))"

definition parseInvite :: "invite_env \<Rightarrow> string \<Rightarrow> int \<Rightarrow> invite_error + invite" where
  "parseInvite env uri now =
     (let trimmed = js_trim uri in
      if \<not> starts_with trimmed invite_scheme \<and> \<not> starts_with trimmed legacy_invite_scheme
      then Inl Invalid_invite
      else if CHR ''?'' \<notin> set trimmed then Inl Missing_peer_data
      else (let query = tl (dropWhile (\<lambda>c. c \<noteq> CHR ''?'') trimmed)
            in case parseQuery env (split_char (CHR ''&'') query) [] of
                 None \<Rightarrow> Inl Malformed_escape
               | Some params \<Rightarrow> checkInvite env params now))"

definition importInvite ::
  "invite_env \<Rightarrow> string option \<Rightarrow> string \<Rightarrow> int \<Rightarrow> trust_store
     \<Rightarrow> (invite_error + trusted_peer) \<times> trust_store" where
  "importInvite env localPeerId uri now s = (case parseInvite env uri now of
     Inl e \<Rightarrow> (Inl e, s)
   | Inr i \<Rightarrow>
       if localPeerId = Some (iv_peerId i) \<and> iv_peerId i \<noteq> [] then (Inl Own_invite, s)
       else (let (p, s1) = upsert \<lparr>ui_peerId = iv_peerId i, ui_addresses = Some (iv_addresses i),
                 ui_identityId = iv_identityId i, ui_displayName = None, ui_publicKey = None,
                 ui_trustStatus = Some Trust_unknown, ui_source = Some From_invite\<rparr> now s
             in (Inr p, s1)))"

end
