(* ===== verification/PeerTrust_Claims.thy ===== *)
theory PeerTrust_Claims
  imports Invite
begin

text \<open>
  What the trust between peers rests on: a blocked peer stays blocked whatever the network delivers, a
  peer is verified only with a fresh signature under the key that is stored for it, two honest peers
  verify each other in one exchange, and an invite reads back as it was written. Four theorems record
  what the handshake does not bind: the key, the asked peer, the trust of others, and the block.
\<close>

section \<open>The repository\<close>

named_theorems trust_get

lemma getPeer_put [trust_get]: "getPeer q (put_peer p k s) = (if q = k then Some p else getPeer q s)"
  by (simp add: getPeer_def put_peer_def jm.get_put)

lemma getPeer_change [trust_get]:
  "getPeer q (snd (change_peer k f s)) = (if q = k then map_option f (getPeer k s) else getPeer q s)"
  by (simp add: change_peer_def getPeer_put split: option.split)

lemma getPeer_forget [trust_get]: "getPeer q (forgetRemoved k s) = getPeer q s"
  by (simp add: forgetRemoved_def getPeer_def)

lemma getPeer_upsert [trust_get]:
  "getPeer q (snd (upsert inp now s)) = (if q = ui_peerId inp then Some (upserted inp (getPeer q s) now)
     else getPeer q s)"
  by (simp add: upsert_def Let_def trust_get)

lemma tn_store_on_store [simp]: "tn_store (on_store f n) = f (tn_store n)"
  by (simp add: on_store_def)

text \<open>The key a peer is trusted with.\<close>

definition trusted_key :: "string \<Rightarrow> trust_store \<Rightarrow> string option option" where
  "trusted_key q s = (case getPeer q s of
     None \<Rightarrow> None | Some e \<Rightarrow> if tp_trustStatus e = Trust_verified then Some (tp_publicKey e) else None)"

lemma trusted_key_change:
  "(\<And>e. tp_trustStatus (f e) = tp_trustStatus e \<and> tp_publicKey (f e) = tp_publicKey e) \<Longrightarrow>
   trusted_key q (snd (change_peer k f s)) = trusted_key q s"
  by (simp add: trusted_key_def trust_get split: option.split)

lemma trusted_key_session [simp]: "trusted_key q (snd (updateSessionState k st sid r now s)) = trusted_key q s"
  unfolding updateSessionState_def by (rule trusted_key_change) simp

lemma trusted_key_connection [simp]: "trusted_key q (recordConnection k now s) = trusted_key q s"
  unfolding recordConnection_def by (rule trusted_key_change) simp

lemma trusted_key_upsert_only [simp]:
  "trusted_key q (snd (upsert (upsert_only k src) now s)) = trusted_key q s"
  by (auto simp: trusted_key_def trust_get upserted_def or_else_def opt_else_def split: option.split)

lemma trusted_key_handshake [simp]: "trusted_key q (snd (recordHandshakeSuccess k sid now s)) = trusted_key q s"
proof (cases "getPeer k s")
  case None
  then have u: "getPeer k (snd (upsert (upsert_only k From_discovery) now s)) =
      Some (fst (upsert (upsert_only k From_discovery) now s))"
    by (simp add: trust_get upsert_def Let_def)
  have "trusted_key q (snd (recordHandshakeSuccess k sid now s))
      = trusted_key q (snd (upsert (upsert_only k From_discovery) now s))"
    using None u by (simp add: recordHandshakeSuccess_def trusted_key_def trust_get case_prod_beta Let_def)
  then show ?thesis by simp
qed (simp add: recordHandshakeSuccess_def trusted_key_def trust_get Let_def)

lemma trusted_key_demote:
  "trusted_key q (demote k src now s) = (if q = k then None else trusted_key q s)"
  by (simp add: demote_def trusted_key_def trust_get upserted_def or_else_def)

lemma trusted_key_promote:
  "\<not> is_blocked (id_peerId i) s \<Longrightarrow> trusted_key q (promote i now s) =
     (if q = id_peerId i then Some (Some (id_publicKey i)) else trusted_key q s)"
  by (auto simp: promote_def markVerified_def is_blocked_def trusted_key_def trust_get Let_def
      upserted_def or_else_def opt_else_def recordConnection_def split: option.splits)

section \<open>A peer that is blocked\<close>

definition blocked_for_good :: "string \<Rightarrow> trust_store \<Rightarrow> bool" where
  "blocked_for_good q s \<longleftrightarrow>
     (\<exists>e. getPeer q s = Some e \<and> tp_trustStatus e = Trust_blocked \<and> tp_sessionState e = Ss_blocked)"

named_theorems blocked

lemma blocked_is [simp]: "blocked_for_good q s \<Longrightarrow> is_blocked q s"
  by (auto simp: blocked_for_good_def is_blocked_def)

lemma blocked_change:
  "(\<And>e. tp_trustStatus e = Trust_blocked \<Longrightarrow> tp_sessionState e = Ss_blocked \<Longrightarrow>
      tp_trustStatus (f e) = Trust_blocked \<and> tp_sessionState (f e) = Ss_blocked) \<Longrightarrow>
   blocked_for_good q s \<Longrightarrow> blocked_for_good q (snd (change_peer k f s))"
  by (auto simp: blocked_for_good_def trust_get)

lemma blocked_session [blocked]:
  "blocked_for_good q s \<Longrightarrow> blocked_for_good q (snd (updateSessionState k st sid r now s))"
  unfolding updateSessionState_def by (rule blocked_change) simp_all

lemma blocked_connection [blocked]: "blocked_for_good q s \<Longrightarrow> blocked_for_good q (recordConnection k now s)"
  unfolding recordConnection_def by (rule blocked_change) simp_all

lemma blocked_sync [blocked]: "blocked_for_good q s \<Longrightarrow> blocked_for_good q (recordSyncCursor k c m now s)"
  "blocked_for_good q s \<Longrightarrow> blocked_for_good q (recordSync k m now s)"
  unfolding recordSyncCursor_def recordSync_def by (rule blocked_change; simp)+

lemma blocked_upsert_only [blocked]:
  "blocked_for_good q s \<Longrightarrow> blocked_for_good q (snd (upsert (upsert_only k src) now s))"
  by (auto simp: blocked_for_good_def trust_get upserted_def or_else_def)

lemma blocked_other:
  "blocked_for_good q s \<Longrightarrow> getPeer q s' = getPeer q s \<Longrightarrow> blocked_for_good q s'"
  by (simp add: blocked_for_good_def)

lemma getPeer_demote: "q \<noteq> k \<Longrightarrow> getPeer q (demote k src now s) = getPeer q s"
  by (simp add: demote_def trust_get)

lemma getPeer_promote: "q \<noteq> id_peerId i \<Longrightarrow> getPeer q (promote i now s) = getPeer q s"
  by (auto simp: promote_def markVerified_def trust_get recordConnection_def Let_def split: option.split)

lemma getPeer_handshake: "q \<noteq> k \<Longrightarrow> getPeer q (snd (recordHandshakeSuccess k sid now s)) = getPeer q s"
  by (simp add: recordHandshakeSuccess_def trust_get case_prod_beta Let_def split: option.split)

lemma blocked_verifyAndStore [blocked]:
  "blocked_for_good q s \<Longrightarrow> blocked_for_good q (snd (verifyAndStore env i now s))"
  by (cases "q = id_peerId i")
    (auto simp: verifyAndStore_def getPeer_demote getPeer_promote intro: blocked_other)

lemma verified_not_blocked:
  "fst (verifyAndStore env i now s) \<Longrightarrow> blocked_for_good q s \<Longrightarrow> q \<noteq> id_peerId i"
  by (auto simp: verifyAndStore_def split: if_splits)

abbreviation blocked_in :: "string \<Rightarrow> trust_node \<Rightarrow> bool" where
  "blocked_in q n \<equiv> blocked_for_good q (tn_store n)"

lemma blocked_set_state [blocked]:
  "blocked_in q n \<Longrightarrow> blocked_in q (set_session_state k st sid r now n)"
  by (simp add: set_session_state_def blocked_session)

lemma blocked_open [blocked]: "blocked_in q n \<Longrightarrow> blocked_in q (open_session s now n)"
  by (simp add: open_session_def put_session_def blocked_set_state blocked_upsert_only)

lemma blocked_fail [blocked]: "blocked_in q n \<Longrightarrow> blocked_in q (snd (failSession sid r now n))"
  by (auto simp: failSession_def Let_def intro!: blocked_set_state split: option.split)

lemma blocked_verify_session:
  "blocked_in q n \<Longrightarrow> q \<noteq> p \<Longrightarrow> blocked_in q (snd (verifySession sid p c now n))"
  by (auto simp: verifySession_def Let_def getPeer_handshake intro!: blocked_set_state blocked_fail
      intro: blocked_other split: option.split)

lemma blocked_verify_store [blocked]: "blocked_in q n \<Longrightarrow> blocked_in q (snd (verify_and_store env i now n))"
  by (simp add: verify_and_store_def case_prod_beta blocked_verifyAndStore Let_def)

lemma store_then_session:
  assumes "blocked_in q n" and "fst (verify_and_store env i now n)"
  shows "blocked_in q (snd (verifySession sid (id_peerId i) c t (snd (verify_and_store env i now n))))"
  using assms by (intro blocked_verify_session blocked_verify_store)
    (auto simp: verify_and_store_def case_prod_beta Let_def dest: verified_not_blocked)

section \<open>Runs of a device\<close>

text \<open>What the network, timers and the local services do to the trust of a device, and what its user
  does.\<close>

datatype trust_event =
    Te_begin string bool int
  | Te_message string jsval int
  | Te_timeout string int
  | Te_send_failed string string int
  | Te_stop
  | Te_trust_begin string int
  | Te_trust_finish string handshake_request "handshake_response list" int
  | Te_trust_request handshake_request int
  | Te_trust_response handshake_response int
  | Te_disconnect string int
  | Te_connection string int
  | Te_sync string "string option" int int
  | Te_block string int
  | Te_unknown string int
  | Te_remove string int
  | Te_import invite_env "string option" string int

fun trust_step :: "trust_env \<Rightarrow> trust_node \<Rightarrow> trust_event \<Rightarrow> trust_node" where
  "trust_step env n (Te_begin p c now) = snd (begin_handshake env p c now n)"
| "trust_step env n (Te_message t v now) = snd (handleHandshakeMessage env t v now n)"
| "trust_step env n (Te_timeout sid now) = handshake_timeout sid now n"
| "trust_step env n (Te_send_failed sid m now) = handshake_send_failed sid m now n"
| "trust_step env n Te_stop = handshake_stop n"
| "trust_step env n (Te_trust_begin p now) = snd (begin_trust_handshake env p now n)"
| "trust_step env n (Te_trust_finish p q rs now) = snd (finish_trust_handshake env p q rs now n)"
| "trust_step env n (Te_trust_request q now) = snd (respondToTrust env q now n)"
| "trust_step env n (Te_trust_response r now) = processTrustResponse env r now n"
| "trust_step env n (Te_disconnect p now) = disconnectPeer p now n"
| "trust_step env n (Te_connection p now) = on_store (recordConnection p now) n"
| "trust_step env n (Te_sync p c k now) = on_store (recordSyncCursor p c k now) n"
| "trust_step env n (Te_block p now) = on_store (\<lambda>s. snd (markBlocked p now s)) n"
| "trust_step env n (Te_unknown p now) = on_store (\<lambda>s. snd (markUnknown p now s)) n"
| "trust_step env n (Te_remove p now) = on_store (removePeer p now) n"
| "trust_step env n (Te_import v me uri now) = on_store (\<lambda>s. snd (importInvite v me uri now s)) n"

definition by_user :: "trust_event \<Rightarrow> bool" where
  "by_user e \<longleftrightarrow> (case e of Te_unknown p t \<Rightarrow> True | Te_remove p t \<Rightarrow> True | Te_import v m u t \<Rightarrow> True | _ \<Rightarrow> False)"

definition trust_init :: trust_node where
  "trust_init = \<lparr>tn_store = trust_store_init, tn_sessions = [], tn_counter = 0, tn_pending = []\<rparr>"

lemma check_blocked:
  "blocked_in q n \<Longrightarrow> blocked_in q (snd (check_responses env r now rs a n))"
  by (induction rs arbitrary: a n) (auto simp: Let_def case_prod_beta blocked_verify_store store_then_session)

lemma blocked_pending [simp]: "blocked_in q (n\<lparr>tn_pending := x\<rparr>) = blocked_in q n"
  "blocked_in q (n\<lparr>tn_counter := c\<rparr>) = blocked_in q n" "blocked_in q (drop_pending sid n) = blocked_in q n"
  by (simp_all add: drop_pending_def)

lemma blocked_start [blocked]:
  "blocked_in q n \<Longrightarrow> blocked_in q (snd (snd (startHandshake p me i now n)))"
  "blocked_in q n \<Longrightarrow> blocked_in q (snd (acceptRemoteHandshake p sid c now n))"
  by (simp_all add: startHandshake_def acceptRemoteHandshake_def Let_def blocked_open)

lemma blocked_respond:
  assumes "blocked_in q n"
  shows "blocked_in q (snd (snd (respondToHandshake env r now n)))"
proof -
  have "blocked_in q (snd (acceptRemoteHandshake p sid c now n))" for p sid c
    using assms by (rule blocked_start(2))
  then show ?thesis
    by (auto simp: respondToHandshake_def Let_def case_prod_beta
        intro!: blocked_fail blocked_verify_store store_then_session)
qed

lemma blocked_complete:
  "blocked_in q n \<Longrightarrow> blocked_in q (snd (snd (complete_handshake env sid c r now n)))"
  by (auto simp: complete_handshake_def Let_def case_prod_beta
      intro!: blocked_fail blocked_verify_store store_then_session)

lemma blocked_message:
  "blocked_in q n \<Longrightarrow> blocked_in q (snd (handleHandshakeMessage env t v now n))"
  by (auto simp: handleHandshakeMessage_def Let_def case_prod_beta split: option.split
      intro!: blocked_respond blocked_complete)

lemma accept_getPeer_blocked:
  "is_blocked p (tn_store (snd (acceptRemoteHandshake p sid c now n))) = is_blocked p (tn_store n)"
  by (auto simp: acceptRemoteHandshake_def open_session_def set_session_state_def put_session_def Let_def
      is_blocked_def updateSessionState_def trust_get upserted_def or_else_def split: option.splits)

lemma blocked_trust_respond:
  assumes "blocked_in q n"
  shows "blocked_in q (snd (respondToTrust env r now n))"
proof -
  let ?p = "id_peerId (hq_identity r)"
  let ?n1 = "snd (acceptRemoteHandshake ?p (hq_sessionId r) (hq_challenge r) now n)"
  have b: "blocked_in q ?n1" using assms by (rule blocked_start(2))
  show ?thesis
  proof (cases "is_blocked ?p (tn_store n)")
    case True
    then show ?thesis using b by (simp add: respondToTrust_def Let_def)
  next
    case False
    then have ne: "q \<noteq> ?p" using assms by auto
    have "blocked_in q (on_store (promote (hq_identity r) now) ?n1)"
      "blocked_in q (on_store (demote ?p From_discovery now) ?n1)"
      using b ne by (auto intro: blocked_other simp: getPeer_promote getPeer_demote)
    then show ?thesis
      using False ne by (auto simp: respondToTrust_def Let_def intro!: blocked_fail blocked_verify_session)
  qed
qed

lemma blocked_step:
  assumes "blocked_in q n" and "\<not> by_user e"
  shows "blocked_in q (trust_step env n e)"
proof (cases e)
  case (Te_begin p c now)
  then show ?thesis using assms
    by (auto simp: begin_handshake_def Let_def case_prod_beta split: option.split intro: blocked_start)
next
  case (Te_trust_begin p now)
  then show ?thesis using assms
    by (auto simp: begin_trust_handshake_def Let_def case_prod_beta blocked_upsert_only split: option.split
        intro!: blocked_start)
next
  case (Te_trust_finish p r rs now)
  then show ?thesis using assms
    by (auto simp: finish_trust_handshake_def Let_def case_prod_beta
        intro!: blocked_connection blocked_fail check_blocked)
next
  case (Te_block p now)
  have "blocked_for_good q (snd (markBlocked p now (tn_store n)))"
    unfolding markBlocked_def by (rule blocked_change) (use assms in simp_all)
  then show ?thesis using Te_block by simp
qed (use assms in \<open>auto simp: by_user_def handshake_timeout_def handshake_send_failed_def handshake_stop_def
      processTrustResponse_def disconnectPeer_def
      intro!: blocked_message blocked_fail blocked_trust_respond blocked_verify_store blocked_set_state
        blocked_connection blocked_sync\<close>)


section \<open>Where trust comes from\<close>

abbreviation key_in :: "string \<Rightarrow> trust_node \<Rightarrow> string option option" where
  "key_in q n \<equiv> trusted_key q (tn_store n)"

named_theorems same_key

lemma key_set_state [same_key]: "key_in q (set_session_state k st sid r now n) = key_in q n"
  by (simp add: set_session_state_def)

lemma key_open [same_key]: "key_in q (open_session s now n) = key_in q n"
  by (simp add: open_session_def put_session_def key_set_state)

lemma key_start [same_key]: "key_in q (snd (snd (startHandshake p me i now n))) = key_in q n"
  "key_in q (snd (acceptRemoteHandshake p sid c now n)) = key_in q n"
  by (simp_all add: startHandshake_def acceptRemoteHandshake_def Let_def key_open)

lemma key_fail [same_key]: "key_in q (snd (failSession sid r now n)) = key_in q n"
  by (simp add: failSession_def Let_def key_set_state split: option.split)

lemma key_verify_session [same_key]: "key_in q (snd (verifySession sid p c now n)) = key_in q n"
  by (simp add: verifySession_def Let_def key_set_state key_fail split: option.split)

lemma key_pending [simp]: "key_in q (n\<lparr>tn_pending := x\<rparr>) = key_in q n"
  "key_in q (n\<lparr>tn_counter := c\<rparr>) = key_in q n" "key_in q (drop_pending sid n) = key_in q n"
  by (simp_all add: drop_pending_def)

text \<open>A key is kept, or dropped, or taken from one of the identities \<open>ids\<close> that verifies now.\<close>

definition key_from ::
  "trust_env \<Rightarrow> int \<Rightarrow> trust_identity list \<Rightarrow> string \<Rightarrow> trust_node \<Rightarrow> trust_node \<Rightarrow> bool" where
  "key_from env now ids q n n' \<longleftrightarrow> key_in q n' = key_in q n \<or> key_in q n' = None
     \<or> (\<exists>i \<in> set ids. id_peerId i = q \<and> verifyIdentity env i now \<and> key_in q n' = Some (Some (id_publicKey i)))"

lemma key_from_same: "key_in q n' = key_in q n \<Longrightarrow> key_from env now ids q n n'"
  by (simp add: key_from_def)

lemma key_from_then:
  "key_from env now ids q n n1 \<Longrightarrow> key_in q n2 = key_in q n1 \<Longrightarrow> key_from env now ids q n n2"
  by (simp add: key_from_def)

lemma key_from_trans:
  "key_from env now ids q n n1 \<Longrightarrow> key_from env now ids q n1 n2 \<Longrightarrow> key_from env now ids q n n2"
  unfolding key_from_def by metis

lemma key_from_mono: "key_from env now ids q n n' \<Longrightarrow> set ids \<subseteq> set ids' \<Longrightarrow> key_from env now ids' q n n'"
  unfolding key_from_def by blast

lemma key_verify_store: "key_from env now [i] q n (snd (verify_and_store env i now n))"
  by (auto simp: key_from_def verify_and_store_def verifyAndStore_def case_prod_beta Let_def
      trusted_key_demote trusted_key_promote)

lemma key_from_start: "key_in q n1 = key_in q n \<Longrightarrow> key_from env now ids q n1 n2 \<Longrightarrow> key_from env now ids q n n2"
  by (simp add: key_from_def)

lemma key_respond: "key_from env now [hq_identity r] q n (snd (snd (respondToHandshake env r now n)))"
proof -
  let ?n1 = "snd (acceptRemoteHandshake (id_peerId (hq_identity r)) (hq_sessionId r) (hq_challenge r) now n)"
  have "key_from env now [hq_identity r] q n (snd (verify_and_store env (hq_identity r) now ?n1))"
    by (rule key_from_start [OF _ key_verify_store]) (simp add: same_key)
  then show ?thesis
    by (rule key_from_then) (simp add: respondToHandshake_def Let_def case_prod_beta same_key)
qed

lemma key_complete: "key_from env now [hr_identity r] q n (snd (snd (complete_handshake env sid c r now n)))"
proof (cases "hr_accepted r \<and> hr_sessionId r = sid \<and> hr_requestChallenge r = c")
  case True
  then show ?thesis
    by (intro key_from_then [OF key_verify_store])
      (simp add: complete_handshake_def Let_def case_prod_beta same_key)
next
  case False
  then have "complete_handshake env sid c r now n =
      (False, [], snd (failSession sid (or_else (hr_reason r) ''Handshake rejected'') now n))"
    by (simp only: complete_handshake_def Let_def if_False)
  then show ?thesis by (intro key_from_same) (simp add: same_key)
qed

lemma key_check: "key_from env now (map hr_identity rs) q n (snd (check_responses env r now rs a n))"
proof (induction rs arbitrary: a n)
  case Nil
  then show ?case by (simp add: key_from_def)
next
  case (Cons x rs)
  define ids where "ids = map hr_identity (x # rs)"
  have sub: "set (map hr_identity rs) \<subseteq> set ids" "set [hr_identity x] \<subseteq> set ids" by (auto simp: ids_def)
  have later: "key_from env now ids q n' (snd (check_responses env r now rs b n'))" for b n'
    by (rule key_from_mono [OF Cons.IH sub(1)])
  have first: "key_from env now ids q n (snd (verify_and_store env (hr_identity x) now n))"
    by (rule key_from_mono [OF key_verify_store sub(2)])
  have verified: "key_from env now ids q n
      (snd (verifySession sid p c now (snd (verify_and_store env (hr_identity x) now n))))" for sid p c
    using first by (rule key_from_then) (simp add: same_key)
  show ?case
    unfolding ids_def [symmetric]
    by (auto simp: Let_def case_prod_beta intro: later key_from_trans [OF first later]
        key_from_trans [OF verified later])
qed

lemma key_trust_respond: "key_from env now [hq_identity r] q n (snd (respondToTrust env r now n))"
proof -
  let ?i = "hq_identity r"
  let ?n1 = "snd (acceptRemoteHandshake (id_peerId ?i) (hq_sessionId r) (hq_challenge r) now n)"
  have b: "is_blocked (id_peerId ?i) (tn_store ?n1) = is_blocked (id_peerId ?i) (tn_store n)"
    by (rule accept_getPeer_blocked)
  show ?thesis
    by (cases "is_blocked (id_peerId ?i) (tn_store n)")
      (use b in \<open>auto simp: key_from_def respondToTrust_def Let_def same_key trusted_key_demote trusted_key_promote\<close>)
qed

definition identities_of :: "trust_event \<Rightarrow> trust_identity list" where
  "identities_of e = (case e of
     Te_message t v now \<Rightarrow> (case handshake_request_of v of
        Some q \<Rightarrow> [hq_identity q]
      | None \<Rightarrow> (case handshake_response_of v of Some r \<Rightarrow> [hr_identity r] | None \<Rightarrow> []))
   | Te_trust_finish p q rs now \<Rightarrow> map hr_identity rs
   | Te_trust_request q now \<Rightarrow> [hq_identity q]
   | Te_trust_response r now \<Rightarrow> [hr_identity r]
   | _ \<Rightarrow> [])"

fun time_of :: "trust_event \<Rightarrow> int" where
  "time_of (Te_message t v now) = now" | "time_of (Te_trust_finish p q rs now) = now"
| "time_of (Te_trust_request q now) = now" | "time_of (Te_trust_response r now) = now"
| "time_of e = 0"

lemma key_message:
  "key_from env now (identities_of (Te_message t v now)) q n (snd (handleHandshakeMessage env t v now n))"
proof (cases "handshake_request_of v")
  case (Some r)
  then show ?thesis using key_respond [of env now r q n]
    by (auto simp: handleHandshakeMessage_def identities_of_def Let_def case_prod_beta key_from_same)
next
  case None
  then show ?thesis
  proof (cases "handshake_response_of v")
    case (Some r)
    then show ?thesis using None
        key_from_start [OF _ key_complete [of env now r q "drop_pending (hr_sessionId r) n"], of n]
      by (auto simp: handleHandshakeMessage_def identities_of_def Let_def case_prod_beta key_from_same
          split: option.split)
  qed (simp add: handleHandshakeMessage_def Let_def key_from_same)
qed

lemma key_blocked: "trusted_key q (snd (markBlocked k now s)) = (if q = k then None else trusted_key q s)"
  by (auto simp: markBlocked_def trusted_key_def trust_get split: option.split)

lemma key_unknown: "trusted_key q (snd (markUnknown k now s)) = (if q = k then None else trusted_key q s)"
  by (auto simp: markUnknown_def trusted_key_def trust_get split: option.split)

lemma key_remove: "trusted_key q (removePeer k now s) = (if q = k then None else trusted_key q s)"
  by (simp add: removePeer_def rememberRemoved_def trusted_key_def getPeer_def jm.get_remove)

lemma key_import: "trusted_key q (snd (importInvite v me uri now s)) \<in> {None, trusted_key q s}"
  by (auto simp: importInvite_def case_prod_beta Let_def trusted_key_def trust_get upserted_def or_else_def
      split: sum.split)

lemma key_sync: "trusted_key q (recordSyncCursor k c m now s) = trusted_key q s"
  unfolding recordSyncCursor_def by (rule trusted_key_change) simp

lemma key_step: "key_from env (time_of e) (identities_of e) q n (trust_step env n e)"
proof (cases e)
  case (Te_message t v now)
  then show ?thesis using key_message by simp
next
  case (Te_trust_finish p r rs now)
  show ?thesis
    by (simp add: Te_trust_finish finish_trust_handshake_def case_prod_beta Let_def identities_of_def)
      (auto intro!: key_from_then [OF key_check [of env now rs q n r False]] simp: same_key)
next
  case (Te_trust_request r now)
  then show ?thesis using key_trust_respond by (simp add: identities_of_def)
next
  case (Te_trust_response r now)
  then show ?thesis using key_verify_store [of env now "hr_identity r" q n]
    by (auto simp: processTrustResponse_def identities_of_def key_from_same)
next
  case (Te_import v me uri now)
  then show ?thesis using key_import [of q v me uri now "tn_store n"] by (auto simp: key_from_def)
next
  case (Te_begin p c now)
  then show ?thesis
    by (intro key_from_same) (auto simp: begin_handshake_def Let_def case_prod_beta same_key split: option.split)
next
  case (Te_trust_begin p now)
  then show ?thesis
    by (intro key_from_same)
      (auto simp: begin_trust_handshake_def Let_def case_prod_beta same_key split: option.split)
qed (auto simp: key_from_def handshake_timeout_def handshake_send_failed_def handshake_stop_def
    disconnectPeer_def key_blocked key_unknown key_remove key_sync same_key)


section \<open>Handshakes\<close>

lemma identity_reads_back: "identity_of (identity_value i) = Some i"
  by (simp add: identity_of_def identity_value_def opt_str_def split: option.split)

lemma request_reads_back: "handshake_request_of (request_value q) = Some q"
  by (simp add: handshake_request_of_def request_value_def identity_reads_back)

lemma response_reads_back: "handshake_response_of (response_value r) = Some r"
  by (simp add: handshake_response_of_def response_value_def identity_reads_back opt_str_def split: option.split)

lemma response_no_request: "handshake_request_of (response_value r) = None"
  by (simp add: handshake_request_of_def response_value_def)

definition trusted_session :: "string \<Rightarrow> string \<Rightarrow> trust_node \<Rightarrow> bool" where
  "trusted_session q k n \<longleftrightarrow> (\<exists>e. getPeer q (tn_store n) = Some e \<and> tp_trustStatus e = Trust_verified
     \<and> tp_publicKey e = Some k \<and> tp_sessionState e = Ss_verified)"

lemma session_settles:
  assumes "jm_get (tn_sessions n) sid = Some s" and "pn_peerId s = p" and "now - pn_createdAt s \<le> handshake_ttl"
    and "key_in p n = Some (Some k)"
  shows "trusted_session p k (snd (verifySession sid p c now n))"
proof -
  obtain e where "getPeer p (tn_store n) = Some e" "tp_trustStatus e = Trust_verified" "tp_publicKey e = Some k"
    using assms(4) by (auto simp: trusted_key_def split: option.splits if_splits)
  then show ?thesis using assms(1-3)
    by (simp add: verifySession_def Let_def trusted_session_def recordHandshakeSuccess_def trust_get)
qed

lemma accept_session:
  "jm_get (tn_sessions (snd (acceptRemoteHandshake p sid c now n))) sid' =
     (if sid' = sid then Some (fst (acceptRemoteHandshake p sid c now n)) else jm_get (tn_sessions n) sid')"
  by (simp add: acceptRemoteHandshake_def open_session_def set_session_state_def put_session_def on_store_def
      Let_def jm.get_put)

lemma verify_store_sessions [simp]:
  "tn_sessions (snd (verify_and_store env i now n)) = tn_sessions n"
  by (simp add: verify_and_store_def case_prod_beta Let_def)

lemma verify_store_valid:
  assumes "verifyIdentity env i now" and "\<not> is_blocked (id_peerId i) (tn_store n)"
  shows "fst (verify_and_store env i now n)"
    and "key_in (id_peerId i) (snd (verify_and_store env i now n)) = Some (Some (id_publicKey i))"
  using assms by (simp_all add: verify_and_store_def verifyAndStore_def trusted_key_promote)

lemma respond_valid:
  assumes "verifyIdentity env (hq_identity r) now" and "\<not> is_blocked (id_peerId (hq_identity r)) (tn_store n)"
  shows "trusted_session (id_peerId (hq_identity r)) (id_publicKey (hq_identity r)) (snd (snd (respondToHandshake env r now n)))"
    and "fst (snd (respondToHandshake env r now n)) = [id_peerId (hq_identity r)]"
    and "map_option hr_accepted (fst (respondToHandshake env r now n)) = map_option (\<lambda>i. True) (createLocalIdentity env None now)"
proof -
  let ?i = "hq_identity r"
  let ?n1 = "snd (acceptRemoteHandshake (id_peerId ?i) (hq_sessionId r) (hq_challenge r) now n)"
  have nb: "\<not> is_blocked (id_peerId ?i) (tn_store ?n1)" using assms(2) by (simp add: accept_getPeer_blocked)
  note v = verify_store_valid [OF assms(1) nb]
  have "trusted_session (id_peerId ?i) (id_publicKey ?i)
      (snd (verifySession (hq_sessionId r) (id_peerId ?i) c now (snd (verify_and_store env ?i now ?n1))))" for c
    by (rule session_settles [OF _ _ _ v(2)])
      (simp_all add: accept_session, simp_all add: acceptRemoteHandshake_def Let_def handshake_ttl_def)
  then show "trusted_session (id_peerId ?i) (id_publicKey ?i) (snd (snd (respondToHandshake env r now n)))"
    "fst (snd (respondToHandshake env r now n)) = [id_peerId ?i]"
    "map_option hr_accepted (fst (respondToHandshake env r now n)) = map_option (\<lambda>i. True) (createLocalIdentity env None now)"
    using v(1) by (simp_all add: respondToHandshake_def Let_def case_prod_beta option.map_comp o_def)
qed

text \<open>A device with an identity whose signatures verify on another device.\<close>

definition honest :: "trust_env \<Rightarrow> string \<Rightarrow> string \<Rightarrow> trust_env \<Rightarrow> bool" where
  "honest env p k other \<longleftrightarrow> te_peerId env = Some p \<and> te_identityId env = Some k \<and> p \<noteq> [] \<and> k \<noteq> []
     \<and> (\<forall>m. te_verify other m (te_sign env m) k)"

lemma honest_identity:
  assumes "honest env p k other"
  obtains i where "createLocalIdentity env None now = Some i" "id_peerId i = p" "id_publicKey i = k"
    "id_timestamp i = now" "\<And>t. t - now \<le> 300000 \<Longrightarrow> verifyIdentity other i t"
proof -
  let ?i = "\<lparr>id_peerId = p, id_identityId = k, id_displayName = None, id_publicKey = k, id_timestamp = now,
      id_signature = []\<rparr>"
  let ?j = "?i\<lparr>id_signature := te_sign env (createSignedPayload ?i)\<rparr>"
  have same: "createSignedPayload ?j = createSignedPayload ?i" by (simp add: createSignedPayload_def)
  show ?thesis
    by (rule that [of ?j])
      (use assms same in \<open>simp_all add: honest_def createLocalIdentity_def verifyIdentity_def Let_def\<close>)
qed


section \<open>What a handshake does not bind\<close>

text \<open>C24: The key is not bound to the peer: whoever sends an identity that names a peer and is signed with
  any key of its own replaces the key the device had verified for that peer, over any session and
  challenge it likes, also on the connection of another peer.\<close>

theorem any_key_takes_over:
  assumes "trusted_session q k n" and "verifyIdentity env i now" and "id_peerId i = q" and "id_publicKey i \<noteq> k"
  shows "trusted_session q (id_publicKey i) (snd (handleHandshakeMessage env ''peer.handshake''
      (request_value \<lparr>hq_sessionId = sid, hq_challenge = c, hq_identity = i\<rparr>) now n))
    \<and> ho_verified (fst (handleHandshakeMessage env ''peer.handshake''
      (request_value \<lparr>hq_sessionId = sid, hq_challenge = c, hq_identity = i\<rparr>) now n)) = [q]"
proof -
  have "\<not> is_blocked q (tn_store n)" using assms(1) by (auto simp: trusted_session_def is_blocked_def)
  then show ?thesis
    using respond_valid(1,2) [of env "\<lparr>hq_sessionId = sid, hq_challenge = c, hq_identity = i\<rparr>" now n] assms(2,3)
    by (simp add: handleHandshakeMessage_def request_reads_back case_prod_beta Let_def)
qed

text \<open>Nor does it take a signature to undo trust: a request that names a verified peer with a signature
  that does not verify makes that peer unknown.\<close>

theorem bad_identity_demotes:
  assumes "trusted_session q k n" and "\<not> verifyIdentity env i now" and "id_peerId i = q"
  shows "key_in q (snd (handleHandshakeMessage env ''peer.handshake''
      (request_value \<lparr>hq_sessionId = sid, hq_challenge = c, hq_identity = i\<rparr>) now n)) = None"
proof -
  let ?r = "\<lparr>hq_sessionId = sid, hq_challenge = c, hq_identity = i\<rparr>"
  let ?n1 = "snd (acceptRemoteHandshake q sid c now n)"
  have nb: "\<not> is_blocked q (tn_store ?n1)"
    using assms(1) by (auto simp: trusted_session_def is_blocked_def accept_getPeer_blocked [unfolded is_blocked_def])
  have "\<not> fst (verify_and_store env i now ?n1)" "key_in q (snd (verify_and_store env i now ?n1)) = None"
    using assms(2,3) nb
    by (simp_all add: verify_and_store_def verifyAndStore_def trusted_key_demote)
  then have "key_in q (snd (snd (respondToHandshake env ?r now n))) = None"
    using assms(3) by (simp add: respondToHandshake_def Let_def case_prod_beta same_key)
  then show ?thesis by (simp add: handleHandshakeMessage_def request_reads_back case_prod_beta Let_def)
qed

text \<open>A handshake that was asked of one peer succeeds with the identity of another: the call returns
  true and the other peer is reported as verified, while the session never is.\<close>

theorem handshake_of_other_peer:
  assumes "jm_get (tn_pending n) sid = Some c" and "jm_get (tn_sessions n) sid = Some s"
    and "pn_state s \<noteq> Ss_verified" and "id_peerId i \<noteq> pn_peerId s"
    and "verifyIdentity env i now" and "\<not> is_blocked (id_peerId i) (tn_store n)"
  shows "\<exists>out n'. handleHandshakeMessage env ''peer.handshake'' (response_value \<lparr>hr_sessionId = sid,
        hr_requestChallenge = c, hr_responseChallenge = d, hr_identity = i, hr_accepted = True,
        hr_reason = None\<rparr>) now n = (out, n')
    \<and> ho_result out = Some True \<and> ho_verified out = [id_peerId i] \<and> jm_get (tn_sessions n') sid = Some s
    \<and> key_in (pn_peerId s) n' = key_in (pn_peerId s) n"
proof -
  let ?r = "\<lparr>hr_sessionId = sid, hr_requestChallenge = c, hr_responseChallenge = d, hr_identity = i,
      hr_accepted = True, hr_reason = None\<rparr>" and ?n = "drop_pending sid n"
  have v: "fst (verify_and_store env i now ?n)" "key_in (pn_peerId s) (snd (verify_and_store env i now ?n)) = key_in (pn_peerId s) n"
    using assms(4-6) by (auto simp: verify_and_store_def verifyAndStore_def trusted_key_promote drop_pending_def)
  have s: "jm_get (tn_sessions ?n) sid = Some s" using assms(2) by (simp add: drop_pending_def)
  have "tn_sessions (snd (verifySession sid (id_peerId i) (Some d) now (snd (verify_and_store env i now ?n))))
      = tn_sessions ?n"
    using s assms(4) by (auto simp: verifySession_def set_session_state_def on_store_def)
  then have "complete_handshake env sid c ?r now ?n = (True, [id_peerId i],
        snd (verifySession sid (id_peerId i) (Some d) now (snd (verify_and_store env i now ?n))))"
    "jm_get (tn_sessions (snd (verifySession sid (id_peerId i) (Some d) now
        (snd (verify_and_store env i now ?n))))) sid = Some s"
    using v(1) s by (simp_all add: complete_handshake_def case_prod_beta Let_def)
  then show ?thesis
    using assms(1) v(2) by (simp add: handleHandshakeMessage_def response_reads_back response_no_request
        Let_def same_key)
qed

section \<open>Invites\<close>

lemma uri_text_chars:
  assumes "c \<in> set (encodeURIComponent s)"
  shows "uri_unreserved c \<or> c = CHR 0x25"
proof -
  have hex: "\<forall>k \<in> set [0..<16]. uri_unreserved (upper_hex ! k)"
    by (simp add: upper_hex_def upt_rec uri_unreserved_def)
  have "d \<in> set (percent_byte b) \<Longrightarrow> b < 256 \<Longrightarrow> uri_unreserved d \<or> d = CHR 0x25" for b d
  proof -
    assume "d \<in> set (percent_byte b)" "b < 256"
    moreover have "uri_unreserved (upper_hex ! (b div 16))" "uri_unreserved (upper_hex ! (b mod 16))"
      using hex \<open>b < 256\<close> by auto
    ultimately show ?thesis by (auto simp: percent_byte_def)
  qed
  moreover have "\<forall>b \<in> set (latin1_bytes x). b < 256" for x
  proof -
    have n: "(of_char x :: nat) < 256" by simp
    then have "(of_char x :: nat) div 64 < 64" by linarith
    then show ?thesis using n by (auto simp: latin1_bytes_def Let_def)
  qed
  ultimately have "d \<in> set (uri_char x) \<Longrightarrow> uri_unreserved d \<or> d = CHR 0x25" for d x
    by (auto simp: uri_char_def split: if_splits)
  then show ?thesis using assms by (auto simp: encodeURIComponent_def)
qed

lemma uri_text_free: "CHR ''='' \<notin> set (encodeURIComponent s)" "CHR ''&'' \<notin> set (encodeURIComponent s)"
  "c \<in> set (encodeURIComponent s) \<Longrightarrow> \<not> js_space c"
proof -
  have "\<not> (uri_unreserved (CHR ''='') \<or> CHR ''='' = CHR 0x25)" "\<not> (uri_unreserved (CHR ''&'') \<or> CHR ''&'' = CHR 0x25)"
    by (simp_all add: uri_unreserved_def)
  then show "CHR ''='' \<notin> set (encodeURIComponent s)" "CHR ''&'' \<notin> set (encodeURIComponent s)"
    using uri_text_chars by blast+
  assume "c \<in> set (encodeURIComponent s)"
  then have "uri_unreserved c \<or> c = CHR 0x25" by (rule uri_text_chars)
  then show "\<not> js_space c" by (auto simp: uri_unreserved_def js_space_def Let_def)
qed

lemma split_char_none: "c \<notin> set s \<Longrightarrow> split_char c s = [s]"
  by (induction s) auto

lemma split_char_append: "c \<notin> set s \<Longrightarrow> split_char c (s @ c # t) = s # split_char c t"
  by (induction s) auto

lemma split_join:
  "ps \<noteq> [] \<Longrightarrow> \<forall>p \<in> set ps. c \<notin> set p \<Longrightarrow> split_char c (join_with [c] ps) = ps"
proof (induction ps rule: induct_list012)
  case (3 x y zs)
  then show ?case by (simp add: split_char_append)
qed (simp_all add: split_char_none)

lemma js_trim_free: "\<forall>c \<in> set s. \<not> js_space c \<Longrightarrow> js_trim s = s"
proof -
  assume a: "\<forall>c \<in> set s. \<not> js_space c"
  have d: "\<forall>c \<in> set t. \<not> js_space c \<Longrightarrow> dropWhile js_space t = t" for t by (cases t) auto
  show ?thesis using a d [of s] d [of "rev s"] by (simp add: js_trim_def)
qed

lemma set_join: "set (join_with sep ps) \<subseteq> set sep \<union> \<Union> (set ` set ps)"
  by (induction sep ps rule: join_with.induct) auto

definition add_param :: "(string, string list) jsmap \<Rightarrow> string \<times> string \<Rightarrow> (string, string list) jsmap" where
  "add_param m p = jm_set (fst p) (or_else (jm_get m (fst p)) [] @ [snd p]) m"

lemma parse_params: "parseQuery env (map param_text ps) m = Some (foldl add_param m ps)"
proof (induction ps arbitrary: m)
  case (Cons p ps)
  have "split_char (CHR ''='') (param_text p) = [encodeURIComponent (fst p), encodeURIComponent (snd p)]"
    by (simp add: param_text_def split_char_append split_char_none uri_text_free)
  then show ?case
    using Cons by (simp add: param_text_def decodeURIComponent_def decode_encode_uri add_param_def Let_def)
qed simp

lemma get_params:
  "jm_get (foldl add_param m ps) k = (let vs = map snd (filter (\<lambda>p. fst p = k) ps) in
     if vs = [] then jm_get m k else Some (or_else (jm_get m k) [] @ vs))"
  by (induction ps arbitrary: m) (auto simp: add_param_def jm.get_put or_else_def Let_def)

lemma first_params:
  "first_param (foldl add_param [] ps) k =
     (case filter (\<lambda>p. fst p = k) ps of [] \<Rightarrow> None | p # _ \<Rightarrow> Some (snd p))"
  by (simp add: first_param_def get_params Let_def or_else_def split: list.split)

lemma filter_pairs: "filter (\<lambda>p. fst p = k) (map (Pair a) xs) = (if k = a then map (Pair a) xs else [])"
  by (induction xs) auto

lemma filter_optional: "filter (\<lambda>p. fst p = k) (optional_param a v) = (if k = a then optional_param a v else [])"
  by (simp add: optional_param_def split: option.split)

definition readable :: "invite \<Rightarrow> int \<Rightarrow> bool" where
  "readable i now \<longleftrightarrow> iv_peerId i \<noteq> [] \<and> iv_identityId i \<noteq> Some [] \<and> iv_nonce i \<noteq> Some []
     \<and> iv_signature i \<noteq> Some []
     \<and> (case iv_expiresAt i of None \<Rightarrow> True | Some t \<Rightarrow> t \<noteq> 0 \<and> iv_createdAt i < t \<and> now \<le> t)"

lemma serialized_query:
  "js_trim (serializeInvite i) = invite_scheme @ ''?'' @ join_with ''&'' (map param_text (invite_params i))"
  (is "_ = ?s")
proof -
  have "\<forall>c \<in> set (join_with ''&'' (map param_text (invite_params i))). \<not> js_space c"
  proof
    fix c
    assume "c \<in> set (join_with ''&'' (map param_text (invite_params i)))"
    then have "c = CHR ''&'' \<or> (\<exists>p. c \<in> set (param_text p))" using set_join by fastforce
    then show "\<not> js_space c"
      using uri_text_free(3) by (auto simp: param_text_def js_space_def)
  qed
  then have "\<forall>c \<in> set ?s. \<not> js_space c" by (auto simp: invite_scheme_def js_space_def)
  then show ?thesis by (simp add: serializeInvite_def js_trim_free del: append.simps)
qed

text \<open>C22: An invite that has not expired reads back as it was made, whatever characters its addresses and
  identities have.\<close>

theorem invite_roundtrip:
  assumes "readable i now"
  shows "parseInvite env (serializeInvite i) now = Inr i"
proof -
  let ?ps = "invite_params i"
  let ?q = "join_with ''&'' (map param_text ?ps)"
  have "split_char (CHR ''&'') ?q = map param_text ?ps"
    by (rule split_join) (simp add: invite_params_def, simp add: param_text_def uri_text_free)
  moreover have "tl (dropWhile (\<lambda>c. c \<noteq> CHR ''?'') (invite_scheme @ ''?'' @ ?q)) = ?q"
    "CHR ''?'' \<in> set (invite_scheme @ ''?'' @ ?q)" "starts_with (invite_scheme @ ''?'' @ ?q) invite_scheme"
    by (simp_all add: invite_scheme_def)
  ultimately have p: "parseInvite env (serializeInvite i) now = checkInvite env (foldl add_param [] ?ps) now"
    by (simp add: parseInvite_def serialized_query parse_params Let_def del: append.simps)
  have filters: "filter (\<lambda>p. fst p = ''v'') ?ps = [(''v'', ''1'')]"
    "filter (\<lambda>p. fst p = ''peerId'') ?ps = [(''peerId'', iv_peerId i)]"
    "filter (\<lambda>p. fst p = ''identityId'') ?ps = optional_param ''identityId'' (iv_identityId i)"
    "filter (\<lambda>p. fst p = ''createdAt'') ?ps = [(''createdAt'', show_int (iv_createdAt i))]"
    "filter (\<lambda>p. fst p = ''nonce'') ?ps = optional_param ''nonce'' (iv_nonce i)"
    "filter (\<lambda>p. fst p = ''signature'') ?ps = optional_param ''signature'' (iv_signature i)"
    "filter (\<lambda>p. fst p = ''addr'') ?ps = map (Pair ''addr'') (iv_addresses i)"
    "filter (\<lambda>p. fst p = ''expiresAt'') ?ps = (case iv_expiresAt i of None \<Rightarrow> []
       | Some t \<Rightarrow> if t = 0 then [] else [(''expiresAt'', show_int t)])"
    by (simp_all add: invite_params_def filter_pairs filter_optional split: option.split)
  have one: "js_Number other ''1'' = Fin 1" for other
    by (simp add: js_Number_def is_digit_def read_nat_def)
  have opt: "v \<noteq> Some [] \<Longrightarrow> (case optional_param k v of [] \<Rightarrow> None | p # _ \<Rightarrow> Some (snd p)) = v" for k v
    by (auto simp: optional_param_def split: option.split)
  have addr: "or_else (jm_get (foldl add_param [] ?ps) ''addr'') [] = iv_addresses i"
    by (simp add: get_params filters Let_def or_else_def o_def)
  have some: "or_else (Some x) y = x" for x y :: string by (simp add: or_else_def)
  have ne: "show_int t \<noteq> []" for t using show_int_hd [of t] by auto
  show ?thesis
    using assms
    by (cases "iv_expiresAt i")
      (auto simp: p checkInvite_def first_params filters one opt addr number_show_int readable_def Let_def ne
        some intro: invite.equality)
qed

text \<open>Importing an invite of a peer the user has blocked, or of one that is verified, makes it unknown.\<close>

theorem import_unblocks:
  assumes "is_blocked q s" and "parseInvite env uri now = Inr i" and "iv_peerId i = q" and "me \<noteq> Some q"
  shows "\<not> is_blocked q (snd (importInvite env me uri now s))"
  using assms by (auto simp: importInvite_def is_blocked_def case_prod_beta Let_def trust_get upserted_def or_else_def)

section \<open>Concrete instances\<close>

definition sample_trust_env :: "string \<Rightarrow> string \<Rightarrow> trust_env" where
  "sample_trust_env p k = \<lparr>te_peerId = Some p, te_identityId = Some k, te_sign = (\<lambda>m. k),
     te_verify = (\<lambda>m s k. s = k), te_transport = False\<rparr>"

definition sample_identity :: "string \<Rightarrow> string \<Rightarrow> string \<Rightarrow> trust_identity" where
  "sample_identity p k s = \<lparr>id_peerId = p, id_identityId = k, id_displayName = None, id_publicKey = k,
     id_timestamp = 0, id_signature = s\<rparr>"

lemma sample_fields [simp]: "id_peerId (sample_identity p k s) = p" "id_publicKey (sample_identity p k s) = k"
  by (simp_all add: sample_identity_def)

lemma nobody_blocked [simp]: "\<not> is_blocked p (tn_store (trust_init\<lparr>tn_pending := x, tn_sessions := y\<rparr>))"
  "\<not> is_blocked p (tn_store trust_init)"
  by (simp_all add: is_blocked_def trust_init_def trust_store_init_def getPeer_def)

definition sample_peer_row :: "trust_status \<Rightarrow> session_state \<Rightarrow> trusted_peer" where
  "sample_peer_row st ss = (upserted (upsert_only ''q'' From_invite) None 0)\<lparr>tp_trustStatus := st,
     tp_publicKey := Some ''k'', tp_sessionState := ss\<rparr>"

definition sample_trust_node :: "trust_status \<Rightarrow> session_state \<Rightarrow> trust_node" where
  "sample_trust_node st ss = trust_init\<lparr>tn_store := \<lparr>ts_peers = [(''q'', sample_peer_row st ss)], ts_removed = []\<rparr>\<rparr>"

lemma sample_get: "getPeer p (tn_store (sample_trust_node st ss)) = (if p = ''q'' then Some (sample_peer_row st ss) else None)"
  by (simp add: sample_trust_node_def getPeer_def)

lemma sample_trusted_session: "trusted_session ''q'' ''k'' (sample_trust_node Trust_verified Ss_verified)"
  by (simp add: trusted_session_def sample_get sample_peer_row_def)

lemma sample_verifies: "verifyIdentity (sample_trust_env a b) (sample_identity p k s) 1 \<longleftrightarrow> s = k"
  by (simp add: verifyIdentity_def sample_trust_env_def sample_identity_def)




theorem any_key_takes_over_witness:
  "trusted_session ''q'' ''evil'' (snd (handleHandshakeMessage (sample_trust_env ''me'' ''m'') ''peer.handshake''
      (request_value \<lparr>hq_sessionId = ''s'', hq_challenge = ''c'',
         hq_identity = sample_identity ''q'' ''evil'' ''evil''\<rparr>) 1 (sample_trust_node Trust_verified Ss_verified)))"
  using any_key_takes_over [OF sample_trusted_session, of "sample_trust_env ''me'' ''m''" "sample_identity ''q'' ''evil'' ''evil''" 1 "''s''" "''c''"]
  by (simp add: sample_verifies)

theorem bad_identity_demotes_witness:
  "key_in ''q'' (snd (handleHandshakeMessage (sample_trust_env ''me'' ''m'') ''peer.handshake''
      (request_value \<lparr>hq_sessionId = ''s'', hq_challenge = ''c'',
         hq_identity = sample_identity ''q'' ''k'' ''bad''\<rparr>) 1 (sample_trust_node Trust_verified Ss_verified))) = None"
  by (rule bad_identity_demotes [OF sample_trusted_session]) (simp_all add: sample_verifies)

theorem handshake_of_other_peer_witness:
  "\<exists>out n'. handleHandshakeMessage (sample_trust_env ''me'' ''m'') ''peer.handshake''
      (response_value \<lparr>hr_sessionId = ''s'', hr_requestChallenge = ''c'', hr_responseChallenge = ''d'',
         hr_identity = sample_identity ''z'' ''k'' ''k'', hr_accepted = True, hr_reason = None\<rparr>) 1
      (trust_init\<lparr>tn_pending := [(''s'', ''c'')], tn_sessions := [(''s'', fst (acceptRemoteHandshake ''q'' ''s'' ''c'' 0 trust_init))]\<rparr>)
      = (out, n') \<and> ho_result out = Some True \<and> ho_verified out = [''z'']"
proof -
  let ?s = "fst (acceptRemoteHandshake ''q'' ''s'' ''c'' 0 trust_init)"
  let ?n = "trust_init\<lparr>tn_pending := [(''s'', ''c'')], tn_sessions := [(''s'', ?s)]\<rparr>"
  have s: "pn_peerId ?s = ''q''" "pn_state ?s = Ss_connecting"
    by (simp_all add: acceptRemoteHandshake_def Let_def)
  show ?thesis
    using handshake_of_other_peer [of ?n "''s''" "''c''" ?s "sample_identity ''z'' ''k'' ''k''"
        "sample_trust_env ''me'' ''m''" 1 "''d''"] s nobody_blocked(1)
    by (simp add: sample_verifies) blast
qed

theorem invite_roundtrip_witness:
  "parseInvite \<lparr>ve_number_text = (\<lambda>s. Non Nan), ve_uri_text = (\<lambda>s. None)\<rparr> (serializeInvite \<lparr>iv_peerId = ''p'', iv_identityId = None, iv_addresses = [''/ip4/1 2''],
     iv_createdAt = 1, iv_expiresAt = Some 9, iv_nonce = None, iv_signature = None\<rparr>) 5
   = Inr \<lparr>iv_peerId = ''p'', iv_identityId = None, iv_addresses = [''/ip4/1 2''],
     iv_createdAt = 1, iv_expiresAt = Some 9, iv_nonce = None, iv_signature = None\<rparr>"
  by (rule invite_roundtrip) (simp add: readable_def)

end
