(* ===== verification/MediaIntegrity.thy ===== *)
theory MediaIntegrity
  imports Conflict NetMessage
begin

text \<open>
  The integrity of media: \<open>src/services/media/MediaIntegrityService.ts\<close> (the manifest of a file, the
  validation of a chunk, the inspection of what is stored) and \<open>MediaService.ts\<close> (taking in a file and
  reading it back) over the tables of \<open>MediaChunkRepository.ts\<close> and \<open>MediaObjectRepository.ts\<close>. Bytes are
  machine words; fields that no operation here looks at (signature, version, thumbnail, codec) are left
  out. An \<open>ArrayBuffer\<close> or a view is its bytes.
\<close>

section \<open>Chunks\<close>

datatype binary_value = Typed_bytes "byte list" | Plain_value jsval

record media_chunk =
  mk_id :: string
  mk_author :: string
  mk_mediaObjectId :: string
  mk_position :: number
  mk_size :: number
  mk_hash :: string
  mk_data :: binary_value
  mk_createdAt :: int

record media_object =
  mo_id :: string
  mo_author :: string
  mo_type :: string
  mo_mime :: string
  mo_size :: number
  mo_hash :: string
  mo_chunks :: "string list"
  mo_createdAt :: int
  mo_updatedAt :: int

datatype chunk_failure =
    Chunk_data_unreadable | Chunk_not_in_manifest | Chunk_position_mismatch | Chunk_media_object_mismatch
  | Chunk_size_invalid | Chunk_size_mismatch | Chunk_hash_mismatch | Chunk_id_mismatch
  | Duplicate_chunk | Duplicate_position

record invalid_chunk =
  ic_chunkId :: string
  ic_position :: int
  ic_reason :: chunk_failure

fun byte_of :: "jsval \<Rightarrow> byte option" where
  "byte_of (Jv_num n) = (if 0 \<le> n \<and> n \<le> 255 then Some (word_of_int n) else None)"
| "byte_of v = None"

definition isArrayIndex :: "string \<Rightarrow> bool" where
  "isArrayIndex s \<longleftrightarrow> s = ''0'' \<or> s \<noteq> [] \<and> list_all is_digit s \<and> hd s \<noteq> CHR ''0''"

fun indexed_byte :: "string \<times> jsval \<Rightarrow> (nat \<times> byte) option" where
  "indexed_byte (k, v) = (if isArrayIndex k then map_option (Pair (read_nat k)) (byte_of v) else None)"

fun normalizeBinaryData :: "binary_value \<Rightarrow> byte list option" where
  "normalizeBinaryData (Typed_bytes bs) = Some bs"
| "normalizeBinaryData (Plain_value (Jv_arr xs)) = collect byte_of xs"
| "normalizeBinaryData (Plain_value (Jv_obj kvs)) = (if kvs = [] then None
     else (case collect indexed_byte kvs of
       None \<Rightarrow> None
     | Some es \<Rightarrow> (let ordered = js_sort (\<lambda>l r. int (fst l) - int (fst r)) es in
         if map fst ordered = [0..<length ordered] then Some (map snd ordered) else None)))"
| "normalizeBinaryData v = None"

definition hashBytes :: "byte list \<Rightarrow> string" where
  "hashBytes bs = sha256Hex_bytes bs"

definition createChunkId :: "string \<Rightarrow> int \<Rightarrow> string \<Rightarrow> string" where
  "createChunkId mediaObjectId position h =
     ''chunk_'' @ mediaObjectId @ ''_'' @ show_int position @ ''_'' @ take 16 h"

definition position_or :: "number \<Rightarrow> int" where
  "position_or n = (if isSafeInteger n then fin_part n else - 1)"

definition toInvalidChunk :: "media_chunk \<Rightarrow> chunk_failure \<Rightarrow> invalid_chunk" where
  "toInvalidChunk c reason = \<lparr>ic_chunkId = mk_id c, ic_position = position_or (mk_position c), ic_reason = reason\<rparr>"

record chunk_expectation =
  ce_mediaObjectId :: string
  ce_chunkId :: string
  ce_position :: nat

definition validateChunk :: "media_chunk \<Rightarrow> chunk_expectation option \<Rightarrow> invalid_chunk + media_chunk" where
  "validateChunk c expectation = (case normalizeBinaryData (mk_data c) of
     None \<Rightarrow> Inl (toInvalidChunk c Chunk_data_unreadable)
   | Some bytes \<Rightarrow>
      if \<not> isSafeInteger (mk_position c) \<or> num_lt (mk_position c) (Fin 0)
      then Inl (toInvalidChunk c Chunk_position_mismatch)
      else if \<not> isSafeInteger (mk_size c) \<or> \<not> num_lt (Fin 0) (mk_size c)
      then Inl (toInvalidChunk c Chunk_size_invalid)
      else if Fin (int (length bytes)) \<noteq> mk_size c then Inl (toInvalidChunk c Chunk_size_mismatch)
      else if hashBytes bytes \<noteq> mk_hash c then Inl (toInvalidChunk c Chunk_hash_mismatch)
      else (case (case expectation of
          None \<Rightarrow> None
        | Some x \<Rightarrow>
            if mk_mediaObjectId c \<noteq> ce_mediaObjectId x then Some Chunk_media_object_mismatch
            else if mk_id c \<noteq> ce_chunkId x then Some Chunk_id_mismatch
            else if mk_position c \<noteq> Fin (int (ce_position x)) then Some Chunk_position_mismatch
            else None) of
        Some reason \<Rightarrow> Inl (toInvalidChunk c reason)
      | None \<Rightarrow>
          if mk_id c \<noteq> createChunkId (mk_mediaObjectId c) (fin_part (mk_position c)) (mk_hash c)
          then Inl (toInvalidChunk c Chunk_id_mismatch)
          else Inr (c\<lparr>mk_data := Typed_bytes bytes\<rparr>)))"

section \<open>The manifest of a file\<close>

text \<open>\<open>/^(0|[1-9]\d*)_([a-f0-9]{16})$/\<close>\<close>

definition hex_char :: "char \<Rightarrow> bool" where
  "hex_char c \<longleftrightarrow> c \<in> set hex_digits"

definition chunk_position :: "string \<Rightarrow> nat option" where
  "chunk_position s =
     (let digits = takeWhile is_digit s; rest = drop (length digits) s in
      if isArrayIndex digits \<and> length rest = 17 \<and> hd rest = CHR ''_'' \<and> list_all hex_char (tl rest)
      then Some (read_nat digits) else None)"

fun place_chunks ::
  "string \<Rightarrow> nat \<Rightarrow> string list \<Rightarrow> string list \<Rightarrow> string option list \<Rightarrow> string option list option" where
  "place_chunks prefix n [] seen es = Some es"
| "place_chunks prefix n (c # cs) seen es =
     (if c \<in> set seen \<or> take (length prefix) c \<noteq> prefix then None
      else (case chunk_position (drop (length prefix) c) of
        None \<Rightarrow> None
      | Some p \<Rightarrow>
          if \<not> isSafeInteger (Fin (int p)) \<or> p \<ge> n \<or> es ! p \<noteq> None then None
          else place_chunks prefix n cs (c # seen) (es[p := Some c])))"

text \<open>The chunk ids by position.\<close>

definition resolveChunkManifest :: "string \<Rightarrow> string list \<Rightarrow> string list option" where
  "resolveChunkManifest mediaId chunks =
     (if chunks = [] then None
      else (case place_chunks (''chunk_'' @ mediaId @ ''_'') (length chunks) chunks []
                   (replicate (length chunks) None) of
        None \<Rightarrow> None
      | Some es \<Rightarrow> if None \<in> set es then None else Some (map the es)))"

section \<open>Inspection\<close>

record media_report =
  mr_available :: bool
  mr_complete :: bool
  mr_fileHashValid :: bool
  mr_validChunks :: "media_chunk list"
  mr_invalidChunks :: "invalid_chunk list"
  mr_missingChunkIds :: "string list"
  mr_fileData :: "byte list option"

fun inspect_chunks ::
  "string \<Rightarrow> string list \<Rightarrow> media_chunk list \<Rightarrow> string list \<Rightarrow> number list \<Rightarrow> media_chunk list \<times> invalid_chunk list" where
  "inspect_chunks mediaId manifest [] ids positions = ([], [])"
| "inspect_chunks mediaId manifest (c # cs) ids positions =
     (let reject = (\<lambda>x. case inspect_chunks mediaId manifest cs ids positions of (v, i) \<Rightarrow> (v, x # i)) in
      case map_of (zip manifest [0..<length manifest]) (mk_id c) of
        None \<Rightarrow> reject (toInvalidChunk c Chunk_not_in_manifest)
      | Some p \<Rightarrow>
          if mk_id c \<in> set ids then reject (toInvalidChunk c Duplicate_chunk)
          else if mk_position c \<in> set positions then reject (toInvalidChunk c Duplicate_position)
          else (case validateChunk c (Some \<lparr>ce_mediaObjectId = mediaId, ce_chunkId = mk_id c, ce_position = p\<rparr>) of
            Inl x \<Rightarrow> reject x
          | Inr c' \<Rightarrow> (case inspect_chunks mediaId manifest cs (mk_id c' # ids) (mk_position c' # positions) of
              (v, i) \<Rightarrow> (c' # v, i))))"

definition position_cmp :: "media_chunk \<Rightarrow> media_chunk \<Rightarrow> int" where
  "position_cmp l r = fin_part (mk_position l) - fin_part (mk_position r)"

fun chunk_bytes :: "binary_value \<Rightarrow> byte list" where
  "chunk_bytes (Typed_bytes bs) = bs"
| "chunk_bytes (Plain_value v) = []"

definition reassemble :: "media_chunk list \<Rightarrow> byte list" where
  "reassemble cs = concat (map (\<lambda>c. chunk_bytes (mk_data c)) (js_sort position_cmp cs))"

definition inspectMedia :: "media_object \<Rightarrow> media_chunk list \<Rightarrow> media_report" where
  "inspectMedia media stored = (case resolveChunkManifest (mo_id media) (mo_chunks media) of
     None \<Rightarrow> \<lparr>mr_available = False, mr_complete = False, mr_fileHashValid = False, mr_validChunks = [],
              mr_invalidChunks = [], mr_missingChunkIds = mo_chunks media, mr_fileData = None\<rparr>
   | Some manifest \<Rightarrow>
      (let (valid, invalid) = inspect_chunks (mo_id media) manifest stored [] [];
           validChunks = js_sort position_cmp valid;
           missing = filter (\<lambda>i. i \<notin> mk_id ` set validChunks) manifest;
           complete = (length (js_uniq manifest) = length manifest \<and> missing = [])
       in if \<not> complete then
            \<lparr>mr_available = False, mr_complete = False, mr_fileHashValid = False, mr_validChunks = validChunks,
             mr_invalidChunks = invalid, mr_missingChunkIds = missing, mr_fileData = None\<rparr>
          else (let fileData = reassemble validChunks;
                    ok = (Fin (int (length fileData)) = mo_size media \<and> hashBytes fileData = mo_hash media)
                in \<lparr>mr_available = ok, mr_complete = True, mr_fileHashValid = ok, mr_validChunks = validChunks,
                    mr_invalidChunks = invalid, mr_missingChunkIds = missing,
                    mr_fileData = (if ok then Some fileData else None)\<rparr>)))"

section \<open>Tables\<close>

record media_tables =
  mt_objects :: "(string, media_object) jsmap"
  mt_chunks :: "(string, media_chunk) jsmap"

text \<open>The row replaces the rows with its id and, by the unique index, the one of its media object and
  position.\<close>

definition create_chunk :: "media_chunk \<Rightarrow> media_tables \<Rightarrow> media_tables" where
  "create_chunk c t = t\<lparr>mt_chunks := filter (\<lambda>(k, r). k \<noteq> mk_id c
     \<and> \<not> (mk_mediaObjectId r = mk_mediaObjectId c \<and> mk_position r = mk_position c)) (mt_chunks t) @ [(mk_id c, c)]\<rparr>"

definition delete_chunk :: "string \<Rightarrow> media_tables \<Rightarrow> media_tables" where
  "delete_chunk i t = t\<lparr>mt_chunks := jm_delete i (mt_chunks t)\<rparr>"

definition chunks_of :: "string \<Rightarrow> media_tables \<Rightarrow> media_chunk list" where
  "chunks_of mediaId t = js_sort position_cmp (filter (\<lambda>c. mk_mediaObjectId c = mediaId) (jm_values (mt_chunks t)))"

definition create_object :: "media_object \<Rightarrow> media_tables \<Rightarrow> media_tables" where
  "create_object m t = t\<lparr>mt_objects := insert_or_replace (mo_id m) m (mt_objects t)\<rparr>"

definition get_object :: "string \<Rightarrow> media_tables \<Rightarrow> media_object option" where
  "get_object i t = jm_get (mt_objects t) i"

text \<open>\<open>getAll\<close>, the latest first.\<close>

definition all_objects :: "media_tables \<Rightarrow> media_object list" where
  "all_objects t = js_sort (\<lambda>l r. mo_createdAt r - mo_createdAt l) (jm_values (mt_objects t))"

section \<open>The media service\<close>

datatype media_failure =
  File_empty | Media_not_found | Final_integrity_failed | Not_fully_available

definition new_chunk :: "string \<Rightarrow> nat \<Rightarrow> byte list \<Rightarrow> string \<Rightarrow> int \<Rightarrow> media_chunk" where
  "new_chunk mediaObjectId position bytes author now =
     \<lparr>mk_id = createChunkId mediaObjectId (int position) (hashBytes bytes), mk_author = author,
      mk_mediaObjectId = mediaObjectId, mk_position = Fin (int position), mk_size = Fin (int (length bytes)),
      mk_hash = hashBytes bytes, mk_data = Typed_bytes bytes, mk_createdAt = now\<rparr>"

definition chunkFile :: "nat \<Rightarrow> string \<Rightarrow> byte list \<Rightarrow> string \<Rightarrow> int \<Rightarrow> media_chunk list" where
  "chunkFile chunkSize mediaObjectId fileData author now =
     map (\<lambda>position. new_chunk mediaObjectId position (take chunkSize (drop (position * chunkSize) fileData)) author now)
       [0..<(length fileData + chunkSize - 1) div chunkSize]"

definition uploadMedia ::
  "nat \<Rightarrow> string \<Rightarrow> string \<Rightarrow> string \<Rightarrow> byte list \<Rightarrow> int \<Rightarrow> media_tables
     \<Rightarrow> (media_failure + media_object) \<times> media_tables" where
  "uploadMedia chunkSize author typ mime fileData now t =
     (if fileData = [] then (Inl File_empty, t)
      else (let h = hashBytes fileData; mediaObjectId = ''media_'' @ h;
                chunks = chunkFile chunkSize mediaObjectId fileData author now;
                m = \<lparr>mo_id = mediaObjectId, mo_author = author, mo_type = typ, mo_mime = mime,
                     mo_size = Fin (int (length fileData)), mo_hash = h, mo_chunks = map mk_id chunks,
                     mo_createdAt = now, mo_updatedAt = now\<rparr>
            in (Inr m, create_object m (fold create_chunk chunks t))))"

definition removeInvalidChunks :: "invalid_chunk list \<Rightarrow> media_tables \<Rightarrow> media_tables" where
  "removeInvalidChunks xs t = fold (\<lambda>x t. if ic_chunkId x = [] then t else delete_chunk (ic_chunkId x) t) xs t"

definition getLocalMediaBytes ::
  "string \<Rightarrow> media_tables \<Rightarrow> (media_failure + byte list) \<times> media_tables" where
  "getLocalMediaBytes mediaObjectId t = (case get_object mediaObjectId t of
     None \<Rightarrow> (Inl Media_not_found, t)
   | Some m \<Rightarrow>
      (let report = inspectMedia m (chunks_of mediaObjectId t);
           t1 = removeInvalidChunks (mr_invalidChunks report) t
       in (case (mr_available report, mr_fileData report) of
            (True, Some f) \<Rightarrow> (Inr f, t1)
          | _ \<Rightarrow> (Inl (if mr_complete report then Final_integrity_failed else Not_fully_available), t1))))"

end
