(* ===== verification/Slices.thy ===== *)
theory Slices
  imports Prelude
begin

lemma chunk_slices: "concat (map (\<lambda>k. take s (drop (k * s) f)) [0..<n]) = take (n * s) f"
proof (induction n)
  case (Suc n)
  have "take (Suc n * s) f = take (n * s) f @ take s (drop (n * s) f)"
    by (metis add.commute mult_Suc take_add)
  then show ?case using Suc by simp
qed simp

lemma chunk_count: "0 < s \<Longrightarrow> length f \<le> (length f + s - 1) div s * s"
proof -
  assume s: "0 < s"
  have "(length f + s - 1) div s * s + (length f + s - 1) mod s = length f + s - 1" by (rule div_mult_mod_eq)
  moreover have "(length f + s - 1) mod s < s" using s by simp
  ultimately show ?thesis by linarith
qed

end
