(* ===== verification/MediaIntegrity_Claims.thy ===== *)
theory MediaIntegrity_Claims
  imports MediaIntegrity Slices
begin

text \<open>
  What media integrity promises: data that is read is the file its object names, whatever the tables
  hold, and a file that was taken in is read back whatever was stored before.
\<close>

section \<open>The manifest\<close>

lemma place_chunks_length: "place_chunks p n cs seen es = Some es' \<Longrightarrow> length es' = length es"
  by (induction p n cs seen es rule: place_chunks.induct) (auto split: if_splits option.splits)

lemma place_chunks_entries:
  "place_chunks p n cs seen es = Some es' \<Longrightarrow> Some c \<in> set es' \<Longrightarrow> Some c \<in> set es \<or> c \<in> set cs"
proof (induction p n cs seen es rule: place_chunks.induct)
  case (2 prefix n c' cs seen es)
  then obtain q where q: "c' \<notin> set seen" "take (length prefix) c' = prefix"
    "chunk_position (drop (length prefix) c') = Some q" "isSafeInteger (Fin (int q))" "\<not> q \<ge> n" "es ! q = None"
    "place_chunks prefix n cs (c' # seen) (es[q := Some c']) = Some es'"
    by (auto split: if_splits option.splits)
  have "Some c \<in> set (es[q := Some c']) \<or> c \<in> set cs"
    by (rule "2.IH" [of q]) (use q 2(3) in auto)
  then show ?case using set_update_subset_insert [of es q "Some c'"] by auto
qed simp

definition placed_once :: "string option list \<Rightarrow> bool" where
  "placed_once es \<longleftrightarrow> (\<forall>i < length es. \<forall>j < length es. \<forall>c. es ! i = Some c \<longrightarrow> es ! j = Some c \<longrightarrow> i = j)"

lemma place_chunks_once:
  "place_chunks p n cs seen es = Some es' \<Longrightarrow> placed_once es \<Longrightarrow> \<forall>c. Some c \<in> set es \<longrightarrow> c \<in> set seen \<Longrightarrow>
   placed_once es'"
proof (induction p n cs seen es rule: place_chunks.induct)
  case (2 prefix n c cs seen es)
  obtain q where q: "c \<notin> set seen" "take (length prefix) c = prefix"
    "chunk_position (drop (length prefix) c) = Some q" "isSafeInteger (Fin (int q))" "\<not> q \<ge> n" "es ! q = None"
    "place_chunks prefix n cs (c # seen) (es[q := Some c]) = Some es'"
    using 2(2) by (auto split: if_splits option.splits)
  have new: "es ! i \<noteq> Some c" if "i < length es" for i using 2(4) q(1) that by (metis nth_mem)
  show ?case
  proof (rule "2.IH" [of q])
    show "placed_once (es[q := Some c])"
      unfolding placed_once_def
    proof (intro allI impI)
      fix i j d
      assume ij: "i < length (es[q := Some c])" "j < length (es[q := Some c])"
        "es[q := Some c] ! i = Some d" "es[q := Some c] ! j = Some d"
      then have l: "i < length es" "j < length es" by simp_all
      show "i = j"
      proof (cases "d = c")
        case True
        then have "i = q" "j = q" using ij l new by (metis nth_list_update_neq)+
        then show ?thesis by simp
      next
        case False
        then have "i \<noteq> q" "j \<noteq> q" using ij l by (metis nth_list_update_eq option.inject)+
        then have "es ! i = Some d" "es ! j = Some d" using ij by simp_all
        then show ?thesis using 2(3) l unfolding placed_once_def by blast
      qed
    qed
    show "\<forall>d. Some d \<in> set (es[q := Some c]) \<longrightarrow> d \<in> set (c # seen)"
      using 2(4) set_update_subset_insert [of es q "Some c"] by auto
  qed (use q in auto)
qed simp

lemma manifest_distinct:
  assumes "resolveChunkManifest i cs = Some manifest"
  shows "distinct manifest"
proof -
  obtain es where es: "place_chunks (''chunk_'' @ i @ ''_'') (length cs) cs [] (replicate (length cs) None) = Some es"
    "None \<notin> set es" "manifest = map the es"
    using assms by (auto simp: resolveChunkManifest_def split: if_splits option.splits)
  have once: "placed_once es" by (rule place_chunks_once [OF es(1)]) (auto simp: placed_once_def)
  show ?thesis
    unfolding es(3) distinct_conv_nth
  proof (intro allI impI)
    fix j k
    assume jk: "j < length (map the es)" "k < length (map the es)" "j \<noteq> k"
    then have "es ! j \<noteq> None" "es ! k \<noteq> None" using es(2) by (metis length_map nth_mem)+
    then obtain x y where "es ! j = Some x" "es ! k = Some y" by blast
    then show "map the es ! j \<noteq> map the es ! k" using jk once unfolding placed_once_def by auto
  qed
qed

section \<open>What is inspected\<close>

lemma validated:
  assumes "validateChunk c x = Inr c'"
  shows "\<exists>bytes. normalizeBinaryData (mk_data c) = Some bytes \<and> c' = c\<lparr>mk_data := Typed_bytes bytes\<rparr>
    \<and> hashBytes bytes = mk_hash c \<and> Fin (int (length bytes)) = mk_size c
    \<and> mk_id c = createChunkId (mk_mediaObjectId c) (fin_part (mk_position c)) (mk_hash c)
    \<and> (\<forall>y. x = Some y \<longrightarrow> mk_mediaObjectId c = ce_mediaObjectId y \<and> mk_id c = ce_chunkId y
         \<and> mk_position c = Fin (int (ce_position y)))"
  using assms unfolding validateChunk_def
  by (auto split: option.splits if_splits)

text \<open>A chunk of the manifest whose bytes have the hash it is named after.\<close>

definition genuine :: "string \<Rightarrow> string list \<Rightarrow> media_chunk \<Rightarrow> bool" where
  "genuine mediaId manifest c \<longleftrightarrow> (\<exists>p < length manifest. manifest ! p = mk_id c \<and> mk_position c = Fin (int p)
     \<and> (\<exists>bytes. mk_data c = Typed_bytes bytes \<and> hashBytes bytes = mk_hash c
          \<and> mk_id c = createChunkId mediaId (int p) (hashBytes bytes)))"

lemma manifest_position:
  "map_of (zip manifest [0..<length manifest]) i = Some p \<Longrightarrow> p < length manifest \<and> manifest ! p = i"
  by (auto dest!: map_of_SomeD simp: in_set_zip)

lemma inspected_chunks:
  "inspect_chunks mediaId manifest cs ids positions = (v, bad) \<Longrightarrow>
   (\<forall>c \<in> set v. genuine mediaId manifest c \<and> mk_id c \<notin> set ids \<and> mk_position c \<notin> set positions
      \<and> (\<exists>s \<in> set cs. normalizeBinaryData (mk_data s) = Some (chunk_bytes (mk_data c)) \<and> mk_id s = mk_id c))
   \<and> distinct (map mk_id v)"
proof (induction cs arbitrary: ids positions v bad)
  case (Cons c cs)
  consider (rejected) bad' where "inspect_chunks mediaId manifest cs ids positions = (v, bad')"
    | (kept) p c' v' where "map_of (zip manifest [0..<length manifest]) (mk_id c) = Some p"
        "mk_id c \<notin> set ids" "mk_position c \<notin> set positions"
        "validateChunk c (Some \<lparr>ce_mediaObjectId = mediaId, ce_chunkId = mk_id c, ce_position = p\<rparr>) = Inr c'" "v = c' # v'"
        "inspect_chunks mediaId manifest cs (mk_id c' # ids) (mk_position c' # positions) = (v', bad)"
    using Cons.prems by (auto simp: Let_def split: option.splits if_splits sum.splits prod.splits)
  then show ?case
  proof cases
    case rejected
    then show ?thesis using Cons.IH by fastforce
  next
    case kept
    obtain bytes where b: "normalizeBinaryData (mk_data c) = Some bytes" "c' = c\<lparr>mk_data := Typed_bytes bytes\<rparr>"
      "hashBytes bytes = mk_hash c" "mk_id c = createChunkId mediaId (int p) (mk_hash c)"
      "mk_position c = Fin (int p)"
      using validated [OF kept(4)] by auto
    have p: "p < length manifest" "manifest ! p = mk_id c" using manifest_position [OF kept(1)] by blast+
    have "genuine mediaId manifest c'"
      unfolding genuine_def using p b by (intro exI [of _ p]) simp
    moreover have "mk_id c' = mk_id c" "mk_position c' = mk_position c" "chunk_bytes (mk_data c') = bytes"
      using b(2) by simp_all
    moreover note IH = Cons.IH [OF kept(6)]
    ultimately show ?thesis
      using kept(2,3,5) b(1) by auto
  qed
qed simp


lemma position_comparator: "comparator position_cmp"
  unfolding position_cmp_def [abs_def] by (rule comparator_diff)

lemma js_sort_positions:
  assumes "\<forall>c \<in> set v. \<exists>p < length manifest. mk_position c = Fin (int p) \<and> manifest ! p = mk_id c"
    and "distinct (map mk_id v)" and "mk_id ` set v = set manifest" and "distinct manifest"
  shows "map mk_id (js_sort position_cmp v) = manifest"
proof -
  let ?v = "js_sort position_cmp v" and ?pos = "\<lambda>c. nat (fin_part (mk_position c))"
  have at: "?pos c < length manifest \<and> manifest ! ?pos c = mk_id c" if "c \<in> set v" for c
    using assms(1) that by fastforce
  have "sorted_wrt (\<lambda>l r. position_cmp l r \<le> 0) ?v"
    by (rule comparator.sorted_js_sort [OF position_comparator])
  then have "sorted (map ?pos ?v)"
    unfolding sorted_map by (rule sorted_wrt_mono_rel [rotated]) (auto simp: position_cmp_def)
  moreover have "distinct (map ?pos ?v)"
  proof -
    have "inj_on ?pos (set v)"
    proof (rule inj_onI)
      fix c d
      assume "c \<in> set v" "d \<in> set v" "?pos c = ?pos d"
      then have "mk_id c = mk_id d" using at by metis
      then show "c = d" using assms(2) \<open>c \<in> set v\<close> \<open>d \<in> set v\<close> by (metis distinct_map inj_onD)
    qed
    moreover have "distinct ?v" using assms(2) by (simp add: distinct_map)
    ultimately show ?thesis by (simp add: distinct_map)
  qed
  moreover have "set (map ?pos ?v) = set [0..<length manifest]"
  proof
    show "set (map ?pos ?v) \<subseteq> set [0..<length manifest]" using at by auto
    show "set [0..<length manifest] \<subseteq> set (map ?pos ?v)"
    proof
      fix p
      assume "p \<in> set [0..<length manifest]"
      then have p: "p < length manifest" by simp
      then obtain c where c: "c \<in> set v" "mk_id c = manifest ! p" using assms(3) by (metis imageE nth_mem)
      then have "?pos c = p" using at [OF c(1)] p assms(4) by (metis nth_eq_iff_index_eq)
      then show "p \<in> set (map ?pos ?v)" using c(1) by force
    qed
  qed
  ultimately have pos: "map ?pos ?v = [0..<length manifest]"
    by (intro sorted_distinct_set_unique) simp_all
  then have len: "length ?v = length manifest" by (metis length_map length_upt minus_nat.diff_0)
  show ?thesis
  proof (rule nth_equalityI)
    fix k
    assume "k < length (map mk_id ?v)"
    then have k: "k < length ?v" by simp
    then have "?pos (?v ! k) = k" using pos len by (metis add_0 length_map nth_map nth_upt)
    moreover have "?v ! k \<in> set v" using nth_mem [OF k] by simp
    ultimately have "manifest ! k = mk_id (?v ! k)" using at by metis
    then show "map mk_id ?v ! k = manifest ! k" using k by simp
  qed (use len in simp)
qed

text \<open>What is available is complete and put together from its own chunks.\<close>

lemma inspected_file:
  assumes "mr_fileData (inspectMedia m stored) = Some f"
  shows "Fin (int (length f)) = mo_size m \<and> hashBytes f = mo_hash m
    \<and> (\<exists>manifest parts. resolveChunkManifest (mo_id m) (mo_chunks m) = Some manifest
         \<and> length parts = length manifest \<and> f = concat parts
         \<and> (\<forall>p < length manifest. manifest ! p = createChunkId (mo_id m) (int p) (hashBytes (parts ! p))))"
proof -
  obtain manifest where m: "resolveChunkManifest (mo_id m) (mo_chunks m) = Some manifest"
    using assms by (auto simp: inspectMedia_def split: option.splits)
  obtain v bad where v: "inspect_chunks (mo_id m) manifest stored [] [] = (v, bad)" by fastforce
  let ?v = "js_sort position_cmp v"
  have missing: "filter (\<lambda>i. i \<notin> mk_id ` set ?v) manifest = []"
    and f: "f = reassemble ?v" "Fin (int (length f)) = mo_size m" "hashBytes f = mo_hash m"
    using assms m v by (auto simp: inspectMedia_def Let_def split: if_splits)
  note i = inspected_chunks [OF v]
  have d: "distinct manifest" by (rule manifest_distinct [OF m])
  have sub: "mk_id ` set v \<subseteq> set manifest" using i unfolding genuine_def by (auto) (metis nth_mem)
  moreover have "set manifest \<subseteq> mk_id ` set v" using missing by (auto simp: filter_empty_conv)
  ultimately have ids: "mk_id ` set v = set manifest" by blast
  let ?w = "js_sort position_cmp ?v"
  have w: "map mk_id ?w = manifest"
  proof (rule js_sort_positions)
    show "\<forall>c \<in> set ?v. \<exists>p < length manifest. mk_position c = Fin (int p) \<and> manifest ! p = mk_id c"
      using i unfolding genuine_def by auto
    have "mset (map mk_id ?v) = mset (map mk_id v)" by simp
    then show "distinct (map mk_id ?v)" using i by (metis mset_eq_imp_distinct_iff)
  qed (use ids d in simp_all)
  let ?parts = "map (\<lambda>c. chunk_bytes (mk_data c)) ?w"
  have len: "length ?parts = length manifest" using w by (metis length_map)
  have "manifest ! p = createChunkId (mo_id m) (int p) (hashBytes (?parts ! p))" if p: "p < length manifest" for p
  proof -
    have k: "p < length ?w" using len p by simp
    then have "?w ! p \<in> set v" using nth_mem [OF k] by simp
    then obtain q bytes where q: "q < length manifest" "manifest ! q = mk_id (?w ! p)"
      "mk_data (?w ! p) = Typed_bytes bytes" "mk_id (?w ! p) = createChunkId (mo_id m) (int q) (hashBytes bytes)"
      using i unfolding genuine_def by blast
    have "manifest ! p = mk_id (?w ! p)" using w k by (metis nth_map)
    then have "q = p" using q(1,2) d p by (metis nth_eq_iff_index_eq)
    then show ?thesis using q k by simp
  qed
  then show ?thesis using f m len by (auto simp: reassemble_def intro!: exI [of _ ?parts])
qed

text \<open>C25: Whatever the tables hold, media that is read is the file its object names: it has its size and its hash,
  and is put together from the chunks of the manifest in their order, each with the hash it is named after.\<close>

theorem local_media_genuine:
  assumes "getLocalMediaBytes i t = (Inr f, t')"
  shows "\<exists>m. get_object i t = Some m \<and> Fin (int (length f)) = mo_size m \<and> hashBytes f = mo_hash m
    \<and> (\<exists>manifest parts. resolveChunkManifest (mo_id m) (mo_chunks m) = Some manifest
         \<and> length parts = length manifest \<and> f = concat parts
         \<and> (\<forall>p < length manifest. manifest ! p = createChunkId (mo_id m) (int p) (hashBytes (parts ! p))))"
proof -
  obtain m where m: "get_object i t = Some m"
    using assms by (auto simp: getLocalMediaBytes_def split: option.splits)
  then have "mr_fileData (inspectMedia m (chunks_of i t)) = Some f"
    using assms by (auto simp: getLocalMediaBytes_def Let_def split: bool.splits option.splits)
  then show ?thesis using inspected_file m by blast
qed


section \<open>A file that was taken in\<close>

lemma digit_0: "digit 0 = CHR ''0''"
  by code_simp

lemma show_nat_leading: "hd (show_nat n) = CHR ''0'' \<longleftrightarrow> n = 0"
proof (induction n rule: show_nat.induct)
  case (1 n)
  have d: "digit k = CHR ''0'' \<longleftrightarrow> k = 0" if "k < 10" for k
  proof
    assume "digit k = CHR ''0''"
    then have "(of_char (digit k) :: nat) = of_char CHR ''0''" by simp
    then show "k = 0" using that by (simp add: unat_digit)
  qed (simp add: digit_0)
  show ?case
  proof (cases "n < 10")
    case False
    then have "hd (show_nat n) = hd (show_nat (n div 10))"
      by (subst show_nat.simps) (simp add: show_nat_nonempty)
    moreover have "n div 10 \<noteq> 0" using False by linarith
    ultimately show ?thesis using 1 [OF False] False by simp
  qed (subst show_nat.simps; simp add: d)
qed

lemma isArrayIndex_show_nat: "isArrayIndex (show_nat n)"
proof (cases "n = 0")
  case True
  then show ?thesis by (simp add: isArrayIndex_def show_nat.simps digit_0)
next
  case False
  then show ?thesis
    using show_nat_leading [of n] show_nat_nonempty [of n] show_nat_digits [of n]
    by (simp add: isArrayIndex_def list_all_iff)
qed

lemma hashBytes_hex: "length (hashBytes b) = 64 \<and> list_all hex_char (hashBytes b)"
proof -
  have "set (hashBytes b) \<subseteq> set hex_digits"
    using set_hex_byte by (fastforce simp: hashBytes_def sha256Hex_bytes_def sha256_def)
  then show ?thesis
    by (simp add: hashBytes_def sha256Hex_bytes_def sha256_def length_concat_hex hex_char_def list_all_iff subset_iff)
qed

lemma chunk_position_created: "chunk_position (show_int (int k) @ CHR ''_'' # take 16 (hashBytes b)) = Some k"
proof -
  have "takeWhile is_digit (show_nat k @ CHR ''_'' # t) = show_nat k" for t
    using show_nat_digits [of k] by (simp add: takeWhile_append is_digit_def)
  moreover have "list_all hex_char (take 16 (hashBytes b))"
    using hashBytes_hex [of b] by (auto simp: list_all_iff dest: in_set_takeD)
  ultimately show ?thesis
    using hashBytes_hex [of b] isArrayIndex_show_nat [of k]
    by (simp add: chunk_position_def show_int_def read_show_nat Let_def)
qed

lemma createChunkId_position:
  assumes "createChunkId i (int p) (hashBytes b) = createChunkId i (int q) (hashBytes c)"
  shows "p = q"
proof -
  have "show_int (int p) @ CHR ''_'' # take 16 (hashBytes b) = show_int (int q) @ CHR ''_'' # take 16 (hashBytes c)"
    using assms by (simp add: createChunkId_def)
  then show ?thesis using chunk_position_created by (metis option.inject)
qed

text \<open>The manifest of chunks that are named in their order.\<close>

lemma place_chunks_in_order:
  assumes "\<And>k. k < length ids \<Longrightarrow> \<exists>b. ids ! k = createChunkId i (int k) (hashBytes b)"
    and "length ids \<le> 2 ^ 53" and "m \<le> length ids"
  shows "place_chunks (''chunk_'' @ i @ ''_'') (length ids) (drop m ids) (rev (take m ids))
      (map Some (take m ids) @ replicate (length ids - m) None) = Some (map Some ids)"
  using assms(3)
proof (induction "length ids - m" arbitrary: m)
  case 0
  then show ?case by simp
next
  case (Suc d)
  then have m: "m < length ids" by simp
  obtain b where b: "ids ! m = createChunkId i (int m) (hashBytes b)" using assms(1) [OF m] by blast
  have new: "ids ! m \<notin> set (rev (take m ids))"
  proof
    assume "ids ! m \<in> set (rev (take m ids))"
    then obtain k where k: "k < m" "ids ! k = ids ! m" using m by (auto simp: in_set_conv_nth)
    then obtain c where "ids ! k = createChunkId i (int k) (hashBytes c)" using assms(1) [of k] m by auto
    then show False using createChunkId_position b k by (metis nat_less_le)
  qed
  have pos: "chunk_position (drop (length (''chunk_'' @ i @ ''_'')) (ids ! m)) = Some m"
    using chunk_position_created by (simp add: b createChunkId_def)
  have pre: "take (length (''chunk_'' @ i @ ''_'')) (ids ! m) = ''chunk_'' @ i @ ''_''"
    by (simp add: b createChunkId_def)
  have safe: "isSafeInteger (Fin (int m))" using m assms(2) by (simp add: isSafeInteger_def)
  let ?es = "map Some (take m ids) @ replicate (length ids - m) None"
  have at: "?es ! m = None" using m by (simp add: nth_append)
  have upd: "?es[m := Some (ids ! m)] = map Some (take (Suc m) ids) @ replicate (length ids - Suc m) None"
    using m by (simp add: list_update_append take_Suc_conv_app_nth Suc_diff_Suc [symmetric])
  have seen: "ids ! m # rev (take m ids) = rev (take (Suc m) ids)" using m by (simp add: take_Suc_conv_app_nth)
  have "place_chunks (''chunk_'' @ i @ ''_'') (length ids) (ids ! m # drop (Suc m) ids) (rev (take m ids)) ?es
      = place_chunks (''chunk_'' @ i @ ''_'') (length ids) (drop (Suc m) ids) (rev (take (Suc m) ids))
          (map Some (take (Suc m) ids) @ replicate (length ids - Suc m) None)"
    using new pos pre safe at m unfolding place_chunks.simps upd [symmetric] seen [symmetric] by simp
  also have "\<dots> = Some (map Some ids)" by (rule Suc.hyps(1)) (use Suc.hyps(2) m in simp_all)
  finally show ?case using m by (metis Cons_nth_drop_Suc)
qed

lemma manifest_in_order:
  assumes "\<And>k. k < length ids \<Longrightarrow> \<exists>b. ids ! k = createChunkId i (int k) (hashBytes b)"
    and "length ids \<le> 2 ^ 53" and "ids \<noteq> []"
  shows "resolveChunkManifest i ids = Some ids"
  using place_chunks_in_order [OF assms(1,2), of 0] assms(3)
  by (simp add: resolveChunkManifest_def o_def image_iff)


definition replaced_by :: "media_chunk list \<Rightarrow> string \<times> media_chunk \<Rightarrow> bool" where
  "replaced_by cs kr \<longleftrightarrow> (\<exists>c \<in> set cs. fst kr = mk_id c
     \<or> mk_mediaObjectId (snd kr) = mk_mediaObjectId c \<and> mk_position (snd kr) = mk_position c)"

lemma chunks_updated: "mt_chunks (t\<lparr>mt_chunks := x\<rparr>) = x"
  by simp

lemma created_chunks:
  assumes "distinct (map mk_id cs)" and "distinct (map mk_position cs)"
  shows "mt_chunks (fold create_chunk cs t)
    = filter (\<lambda>kr. \<not> replaced_by cs kr) (mt_chunks t) @ map (\<lambda>c. (mk_id c, c)) cs"
  using assms
proof (induction cs rule: rev_induct)
  case Nil
  then show ?case by (simp add: replaced_by_def)
next
  case (snoc c cs)
  have "filter (\<lambda>(k, r). k \<noteq> mk_id c \<and> \<not> (mk_mediaObjectId r = mk_mediaObjectId c \<and> mk_position r = mk_position c))
      (map (\<lambda>c. (mk_id c, c)) cs) = map (\<lambda>c. (mk_id c, c)) cs"
    using snoc.prems by (subst filter_id_conv) (auto simp: image_iff)
  moreover have "filter (\<lambda>kr. \<not> replaced_by (cs @ [c]) kr) rows = filter (\<lambda>(k, r). k \<noteq> mk_id c
      \<and> \<not> (mk_mediaObjectId r = mk_mediaObjectId c \<and> mk_position r = mk_position c))
      (filter (\<lambda>kr. \<not> replaced_by cs kr) rows)" for rows
    unfolding filter_filter by (rule filter_cong) (auto simp: replaced_by_def)
  moreover have "mt_chunks (fold create_chunk cs t)
      = filter (\<lambda>kr. \<not> replaced_by cs kr) (mt_chunks t) @ map (\<lambda>c. (mk_id c, c)) cs"
    using snoc by simp
  ultimately show ?case by (simp only: fold_append fold_simps o_apply create_chunk_def [of c] filter_append
      chunks_updated append_assoc) simp
qed

lemma created_objects: "mt_objects (fold create_chunk cs t) = mt_objects t"
  by (induction cs arbitrary: t) (simp_all add: create_chunk_def)

text \<open>Chunks that are validated as they are: the inspection keeps them and drops everything else.\<close>

lemma inspect_chunks_keeps:
  assumes "\<And>c. c \<in> set cs \<Longrightarrow> mk_id c \<in> set manifest \<Longrightarrow> \<exists>p. map_of (zip manifest [0..<length manifest]) (mk_id c) = Some p
      \<and> validateChunk c (Some \<lparr>ce_mediaObjectId = i, ce_chunkId = mk_id c, ce_position = p\<rparr>) = Inr c"
    and "distinct (map mk_id (filter (\<lambda>c. mk_id c \<in> set manifest) cs))"
    and "distinct (map mk_position (filter (\<lambda>c. mk_id c \<in> set manifest) cs))"
    and "\<forall>c \<in> set cs. mk_id c \<in> set manifest \<longrightarrow> mk_id c \<notin> set ids \<and> mk_position c \<notin> set positions"
  shows "fst (inspect_chunks i manifest cs ids positions) = filter (\<lambda>c. mk_id c \<in> set manifest) cs"
  using assms
proof (induction cs arbitrary: ids positions)
  case (Cons c cs)
  note prem = Cons.prems
  show ?case
  proof (cases "mk_id c \<in> set manifest")
    case False
    then have none: "map_of (zip manifest [0..<length manifest]) (mk_id c) = None"
      by (simp add: map_of_zip_is_None)
    have "fst (inspect_chunks i manifest cs ids positions) = filter (\<lambda>c. mk_id c \<in> set manifest) cs"
      by (rule Cons.IH) (use prem False in \<open>auto\<close>)
    then show ?thesis using False by (simp add: none Let_def case_prod_beta)
  next
    case True
    obtain p where p: "map_of (zip manifest [0..<length manifest]) (mk_id c) = Some p"
      "validateChunk c (Some \<lparr>ce_mediaObjectId = i, ce_chunkId = mk_id c, ce_position = p\<rparr>) = Inr c"
      using prem(1) [of c] True by auto
    have "fst (inspect_chunks i manifest cs (mk_id c # ids) (mk_position c # positions))
        = filter (\<lambda>c. mk_id c \<in> set manifest) cs"
    proof (rule Cons.IH)
      show "distinct (map mk_id (filter (\<lambda>c. mk_id c \<in> set manifest) cs))" using prem(2) True by simp
      show "distinct (map mk_position (filter (\<lambda>c. mk_id c \<in> set manifest) cs))" using prem(3) True by simp
      have "mk_id c \<notin> mk_id ` set (filter (\<lambda>c. mk_id c \<in> set manifest) cs)"
        "mk_position c \<notin> mk_position ` set (filter (\<lambda>c. mk_id c \<in> set manifest) cs)"
        using prem(2,3) True by simp_all
      then show "\<forall>d \<in> set cs. mk_id d \<in> set manifest \<longrightarrow> mk_id d \<notin> set (mk_id c # ids)
          \<and> mk_position d \<notin> set (mk_position c # positions)"
        using prem(4) by (simp add: image_iff) metis
    qed (use prem(1) in simp)
    then show ?thesis using p True prem(4) by (auto split: prod.splits)
  qed
qed simp

text \<open>A file that was taken in is what is read afterwards, whatever was stored before.\<close>

definition chunk_keyed :: "media_tables \<Rightarrow> bool" where
  "chunk_keyed t \<longleftrightarrow> (\<forall>(k, c) \<in> set (mt_chunks t). mk_id c = k)"

lemma validate_new_chunk:
  assumes "int k < 2 ^ 53" and "0 < length b" and "int (length b) < 2 ^ 53"
  shows "validateChunk (new_chunk i k b a now) (Some \<lparr>ce_mediaObjectId = i, ce_chunkId = mk_id (new_chunk i k b a now), ce_position = k\<rparr>)
    = Inr (new_chunk i k b a now)"
proof -
  have "isSafeInteger (Fin (int k))" "isSafeInteger (Fin (int (length b)))"
    using assms by (simp_all add: isSafeInteger_def)
  then show ?thesis using assms(2) by (simp add: validateChunk_def new_chunk_def)
qed

lemma same_ids:
  assumes "map mk_id xs = map mk_id ys" and "set xs = set ys" and "distinct (map mk_id ys)"
  shows "xs = ys"
  by (rule map_inj_on [OF assms(1)]) (use assms(2,3) in \<open>simp add: distinct_map\<close>)

lemma file_chunks:
  fixes f :: "byte list"
  assumes "0 < s" and "f \<noteq> []" and "int (length f) < 2 ^ 53" and "cs = chunkFile s i f author now"
  shows "cs \<noteq> []" and "resolveChunkManifest i (map mk_id cs) = Some (map mk_id cs)"
    and "distinct (map mk_id cs)" and "distinct (map mk_position cs)"
    and "\<forall>c \<in> set cs. \<exists>p < length (map mk_id cs). mk_position c = Fin (int p) \<and> map mk_id cs ! p = mk_id c"
    and "reassemble cs = f"
    and "\<And>c. c \<in> set cs \<Longrightarrow> \<exists>p. map_of (zip (map mk_id cs) [0..<length (map mk_id cs)]) (mk_id c) = Some p
      \<and> validateChunk c (Some \<lparr>ce_mediaObjectId = i, ce_chunkId = mk_id c, ce_position = p\<rparr>) = Inr c"
proof -
  let ?n = "(length f + s - 1) div s"
  have n: "length cs = ?n" by (simp add: assms(4) chunkFile_def)
  have cover: "length f \<le> ?n * s" by (rule chunk_count [OF assms(1)])
  have at: "cs ! k = new_chunk i k (take s (drop (k * s) f)) author now" if "k < ?n" for k
    using that by (simp add: assms(4) chunkFile_def)
  have start: "k * s < length f" if "k < ?n" for k
  proof -
    have "Suc k * s \<le> ?n * s" using that by (intro mult_le_mono1) simp
    also have "\<dots> \<le> length f + s - 1" by (rule div_times_less_eq_dividend)
    finally show ?thesis using assms(1) by simp
  qed
  have few: "?n \<le> length f"
  proof (rule ccontr)
    assume "\<not> ?n \<le> length f"
    then have "length f * s < length f" by (intro start) simp
    then show False using assms(1) by (cases s) auto
  qed
  show ne: "cs \<noteq> []" using n cover assms(2) by (metis length_0_conv le_zero_eq mult_zero_left)
  have ids: "\<exists>b. map mk_id cs ! k = createChunkId i (int k) (hashBytes b)" if "k < length (map mk_id cs)" for k
    using that n at by (auto simp: new_chunk_def)
  show m: "resolveChunkManifest i (map mk_id cs) = Some (map mk_id cs)"
    by (rule manifest_in_order [OF ids]) (use ne n few assms(3) in simp_all)
  show dist: "distinct (map mk_id cs)" by (rule manifest_distinct [OF m])
  have pos: "map mk_position cs = map (\<lambda>k. Fin (int k)) [0..<?n]"
    by (simp add: assms(4) chunkFile_def new_chunk_def)
  then show "distinct (map mk_position cs)" by (simp add: distinct_map inj_on_def)
  show places: "\<forall>c \<in> set cs. \<exists>p < length (map mk_id cs). mk_position c = Fin (int p) \<and> map mk_id cs ! p = mk_id c"
  proof
    fix c
    assume "c \<in> set cs"
    then obtain k where k: "k < length cs" "c = cs ! k" by (metis in_set_conv_nth)
    have "mk_position (cs ! k) = Fin (int k)" using at [of k] k n by (simp add: new_chunk_def)
    then show "\<exists>p < length (map mk_id cs). mk_position c = Fin (int p) \<and> map mk_id cs ! p = mk_id c"
      unfolding k(2) using k(1) by (intro exI [of _ k]) simp
  qed
  show "reassemble cs = f"
  proof -
    have "map mk_id (js_sort position_cmp cs) = map mk_id cs"
      by (rule js_sort_positions [OF places dist]) (use dist in simp_all)
    then have "js_sort position_cmp cs = cs"
      by (rule same_ids) (use dist in simp_all)
    moreover have "map (\<lambda>c. chunk_bytes (mk_data c)) cs = map (\<lambda>k. take s (drop (k * s) f)) [0..<?n]"
      by (simp add: assms(4) chunkFile_def new_chunk_def)
    ultimately show ?thesis using chunk_slices [of s f ?n] cover by (simp add: reassemble_def)
  qed
  show "\<exists>p. map_of (zip (map mk_id cs) [0..<length (map mk_id cs)]) (mk_id c) = Some p
      \<and> validateChunk c (Some \<lparr>ce_mediaObjectId = i, ce_chunkId = mk_id c, ce_position = p\<rparr>) = Inr c"
    if "c \<in> set cs" for c
  proof -
    obtain k where k: "k < ?n" "c = cs ! k" using \<open>c \<in> set cs\<close> n by (auto simp: in_set_conv_nth)
    have kl: "k < length (map mk_id cs)" using k n by simp
    have "map_of (zip (map mk_id cs) [0..<length (map mk_id cs)]) (map mk_id cs ! k) = Some ([0..<length (map mk_id cs)] ! k)"
      by (rule map_of_zip_nth) (use dist kl in simp_all)
    then have p: "map_of (zip (map mk_id cs) [0..<length (map mk_id cs)]) (mk_id c) = Some k" using k n by simp
    have "int k < 2 ^ 53" using k(1) few assms(3) by linarith
    moreover have "0 < length (take s (drop (k * s) f))" using start [OF k(1)] assms(1) by simp
    moreover have "int (length (take s (drop (k * s) f))) < 2 ^ 53" using assms(3) by simp
    ultimately have "validateChunk c (Some \<lparr>ce_mediaObjectId = i, ce_chunkId = mk_id c, ce_position = k\<rparr>) = Inr c"
      unfolding k(2) at [OF k(1)] by (rule validate_new_chunk)
    then show ?thesis using p by blast
  qed
qed


lemma inspected_upload:
  assumes "0 < s" and "f \<noteq> []" and "int (length f) < 2 ^ 53" and "cs = chunkFile s i f author now"
    and "\<forall>c \<in> set old. mk_id c \<notin> set (map mk_id cs)" and "mset stored = mset (old @ cs)"
    and "mo_id m = i" and "mo_chunks m = map mk_id cs" and "mo_size m = Fin (int (length f))" and "mo_hash m = hashBytes f"
  shows "mr_available (inspectMedia m stored) \<and> mr_fileData (inspectMedia m stored) = Some f"
proof -
  let ?M = "map mk_id cs"
  note F = file_chunks [OF assms(1-4)]
  let ?v = "filter (\<lambda>c. mk_id c \<in> set ?M) stored"
  have "filter (\<lambda>c. mk_id c \<in> set ?M) old = []" using assms(5) by (simp add: filter_empty_conv)
  moreover have "filter (\<lambda>c. mk_id c \<in> set ?M) cs = cs" by (simp add: filter_id_conv)
  ultimately have v: "mset ?v = mset cs" using assms(6) by (metis append_Nil filter_append mset_filter)
  then have dist: "distinct (map mk_id ?v)" "distinct (map mk_position ?v)"
    using F(3,4) by (metis mset_eq_imp_distinct_iff mset_map)+
  have set: "set ?v = set cs" using v by (metis set_mset_mset)
  have "fst (inspect_chunks i ?M stored [] []) = ?v"
  proof (rule inspect_chunks_keeps [OF _ dist])
    fix c
    assume "c \<in> set stored" "mk_id c \<in> set ?M"
    then have "c \<in> set cs" using set by auto
    then show "\<exists>p. map_of (zip ?M [0..<length ?M]) (mk_id c) = Some p
        \<and> validateChunk c (Some \<lparr>ce_mediaObjectId = i, ce_chunkId = mk_id c, ce_position = p\<rparr>) = Inr c"
      by (rule F(7))
  qed simp
  then obtain bad where inspected: "inspect_chunks i ?M stored [] [] = (?v, bad)" by (metis prod.collapse)
  have "map mk_id (js_sort position_cmp xs) = ?M" if "mset xs = mset cs" for xs
  proof -
    have "set xs = set cs" using that by (metis set_mset_mset)
    moreover have "distinct (map mk_id xs)" using that F(3) by (metis mset_eq_imp_distinct_iff mset_map)
    ultimately show ?thesis using F(3,5) by (intro js_sort_positions) simp_all
  qed
  then have "map mk_id (js_sort position_cmp (js_sort position_cmp ?v)) = map mk_id (js_sort position_cmp cs)"
    using v by simp
  then have "js_sort position_cmp (js_sort position_cmp ?v) = js_sort position_cmp cs"
  proof (rule same_ids)
    have "mset (map mk_id (js_sort position_cmp cs)) = mset ?M" by simp
    then show "distinct (map mk_id (js_sort position_cmp cs))" using F(3) by (metis mset_eq_imp_distinct_iff)
  qed (use set in simp)
  then have whole: "reassemble (js_sort position_cmp ?v) = f" using F(6) by (simp add: reassemble_def)
  have "filter (\<lambda>j. j \<notin> mk_id ` set (js_sort position_cmp ?v)) ?M = []"
    using set by (auto simp: filter_empty_conv)
  moreover have "length (js_uniq ?M) = length ?M" using F(3) by (simp add: js_uniq_id)
  ultimately show ?thesis
    using F(2) inspected whole assms(7-10) by (simp add: inspectMedia_def Let_def)
qed

lemma uploaded_file:
  assumes "chunk_keyed t" and "0 < s" and "f \<noteq> []" and "int (length f) < 2 ^ 53"
  shows "\<exists>m t'. uploadMedia s author typ mime f now t = (Inr m, t')
    \<and> fst (getLocalMediaBytes (mo_id m) t') = Inr f"
proof -
  let ?i = "''media_'' @ hashBytes f"
  define cs where "cs = chunkFile s ?i f author now"
  let ?m = "\<lparr>mo_id = ?i, mo_author = author, mo_type = typ, mo_mime = mime, mo_size = Fin (int (length f)),
    mo_hash = hashBytes f, mo_chunks = map mk_id cs, mo_createdAt = now, mo_updatedAt = now\<rparr>"
  let ?t = "create_object ?m (fold create_chunk cs t)"
  have up: "uploadMedia s author typ mime f now t = (Inr ?m, ?t)"
    using assms(3) by (simp add: uploadMedia_def Let_def cs_def)
  note F = file_chunks [OF assms(2-4) cs_def]
  have media: "\<forall>c \<in> set cs. mk_mediaObjectId c = ?i" by (auto simp: cs_def chunkFile_def new_chunk_def)
  let ?old = "filter (\<lambda>c. mk_mediaObjectId c = ?i) (map snd (filter (\<lambda>kr. \<not> replaced_by cs kr) (mt_chunks t)))"
  have old: "\<forall>c \<in> set ?old. mk_id c \<notin> set (map mk_id cs)"
    using assms(1) by (fastforce simp: chunk_keyed_def replaced_by_def)
  have rows: "mt_chunks ?t = filter (\<lambda>kr. \<not> replaced_by cs kr) (mt_chunks t) @ map (\<lambda>c. (mk_id c, c)) cs"
    using created_chunks [OF F(3,4), of t] by (simp add: create_object_def)
  have "filter (\<lambda>c. mk_mediaObjectId c = ?i) (map snd (map (\<lambda>c. (mk_id c, c)) cs)) = cs"
    using media by (simp add: o_def filter_id_conv)
  then have stored: "mset (chunks_of ?i ?t) = mset (?old @ cs)"
    by (simp only: chunks_of_def rows map_append filter_append mset_js_sort)
  have "mr_available (inspectMedia ?m (chunks_of ?i ?t)) \<and> mr_fileData (inspectMedia ?m (chunks_of ?i ?t)) = Some f"
    by (rule inspected_upload [OF assms(2-4) cs_def old stored]) simp_all
  moreover have "get_object ?i ?t = Some ?m"
    by (simp add: get_object_def create_object_def get_insert_or_replace)
  ultimately have "fst (getLocalMediaBytes ?i ?t) = Inr f" by (simp add: getLocalMediaBytes_def Let_def)
  then show ?thesis using up by auto
qed

lemma uploaded_object:
  "uploadMedia s author typ mime f now t = (Inr m, t') \<Longrightarrow> get_object (mo_id m) t' = Some m \<and> mo_author m = author"
  by (auto simp: uploadMedia_def Let_def get_object_def create_object_def get_insert_or_replace split: if_splits)

lemma uploaded_rows:
  "uploadMedia s author typ mime f now t = (Inr m, t') \<Longrightarrow> mt_objects t' = insert_or_replace (mo_id m) m (mt_objects t)"
  by (auto simp: uploadMedia_def Let_def create_object_def created_objects split: if_splits)

text \<open>C26: A file that is taken in is read back byte by byte, whatever the tables held before: rows of an earlier
  upload or damaged rows for the same object do not get in the way.\<close>

theorem upload_then_read:
  assumes "chunk_keyed t" and "0 < s" and "f \<noteq> []" and "int (length f) < 2 ^ 53"
  shows "\<exists>m t'. uploadMedia s author typ mime f now t = (Inr m, t')
    \<and> fst (getLocalMediaBytes (mo_id m) t') = Inr f"
  by (rule uploaded_file [OF assms])

theorem upload_then_read_witness:
  "\<exists>m t'. uploadMedia 2 ''alice'' ''image'' ''image/png'' [1, 2, 3] 7 \<lparr>mt_objects = [], mt_chunks = []\<rparr> = (Inr m, t')
    \<and> fst (getLocalMediaBytes (mo_id m) t') = Inr [1, 2, 3]"
  by (rule upload_then_read) (simp_all add: chunk_keyed_def)

theorem local_media_genuine_witness:
  "\<exists>t i m. get_object i t = Some m \<and> mo_size m = Fin 3 \<and> hashBytes [1, 2, 3] = mo_hash m"
proof -
  obtain m :: media_object and t where "fst (getLocalMediaBytes (mo_id m) t) = Inr [1, 2, 3]"
    using uploaded_file [of "\<lparr>mt_objects = [], mt_chunks = []\<rparr>" 2 "[1, 2, 3]" "''a''" "''image''" "''image/png''" 0]
    by (simp add: chunk_keyed_def) blast
  then have "getLocalMediaBytes (mo_id m) t = (Inr [1, 2, 3], snd (getLocalMediaBytes (mo_id m) t))"
    by (metis prod.collapse)
  from local_media_genuine [OF this] obtain n
    where n: "get_object (mo_id m) t = Some n" "Fin (int (length [1, 2, 3 :: byte])) = mo_size n"
      "hashBytes [1, 2, 3] = mo_hash n" by blast
  then show ?thesis by (intro exI [of _ t] exI [of _ "mo_id m"] exI [of _ n]) simp
qed

end
