(* ===== verification/MediaAvailability.thy ===== *)
theory MediaAvailability
  imports NetMessage
begin

text \<open>
  What a peer announces of the media it holds: the values, guards and signed text of
  \<open>src/services/media/MediaAvailability.ts\<close> and the pages \<open>MediaAvailabilityService.ts\<close> cuts an
  announcement into. A guard takes an unknown value and returns what it is read as; fields it does not
  name are dropped, no operation reads them. Counters and times are integers.
\<close>

section \<open>Values\<close>

record media_item =
  ma_mediaObjectId :: string
  ma_chunks :: "string list"
  ma_totalChunks :: int
  ma_updatedAt :: int

record announcement =
  an_peerId :: string
  an_sequence :: int
  an_issuedAt :: int
  an_expiresAt :: int
  an_pageIndex :: int
  an_pageCount :: int
  an_items :: "media_item list"
  an_signature :: string

definition availability_version :: int where
  "availability_version = 2"

definition default_ttl_ms :: int where
  "default_ttl_ms = 5 * 60 * 1000"

definition max_ttl_ms :: int where
  "max_ttl_ms = 15 * 60 * 1000"

definition max_clock_skew_ms :: int where
  "max_clock_skew_ms = 60 * 1000"

definition max_items_per_page :: nat where
  "max_items_per_page = 128"

definition max_chunks_per_item :: nat where
  "max_chunks_per_item = 4096"

definition max_page_bytes :: nat where
  "max_page_bytes = 128 * 1024"

definition item_value :: "media_item \<Rightarrow> jsval" where
  "item_value i = Jv_obj
     [(''mediaObjectId'', Jv_str (ma_mediaObjectId i)),
      (''chunks'', Jv_arr (map Jv_str (ma_chunks i))),
      (''totalChunks'', Jv_num (ma_totalChunks i)),
      (''updatedAt'', Jv_num (ma_updatedAt i))]"

definition unsigned_fields :: "announcement \<Rightarrow> (string \<times> jsval) list" where
  "unsigned_fields a =
     [(''version'', Jv_num availability_version),
      (''peerId'', Jv_str (an_peerId a)),
      (''sequence'', Jv_num (an_sequence a)),
      (''issuedAt'', Jv_num (an_issuedAt a)),
      (''expiresAt'', Jv_num (an_expiresAt a)),
      (''pageIndex'', Jv_num (an_pageIndex a)),
      (''pageCount'', Jv_num (an_pageCount a)),
      (''items'', Jv_arr (map item_value (an_items a)))]"

definition announcement_value :: "announcement \<Rightarrow> jsval" where
  "announcement_value a = Jv_obj (unsigned_fields a @ [(''signature'', Jv_str (an_signature a))])"

definition getMediaAvailabilitySignableBytes :: "announcement \<Rightarrow> string" where
  "getMediaAvailabilitySignableBytes a = canonical_text (Jv_obj (unsigned_fields a))"

section \<open>Guards\<close>

definition boundedString :: "nat \<Rightarrow> jsval \<Rightarrow> string option" where
  "boundedString maxLength v = (case str_of v of
     None \<Rightarrow> None
   | Some s \<Rightarrow> if s \<noteq> [] \<and> length s \<le> maxLength then Some s else None)"

definition nonNegativeInteger :: "jsval \<Rightarrow> int option" where
  "nonNegativeInteger v = (case finite_of v of
     None \<Rightarrow> None
   | Some n \<Rightarrow> if \<bar>n\<bar> \<le> 2 ^ 53 - 1 \<and> 0 \<le> n then Some n else None)"

definition positiveInteger :: "jsval \<Rightarrow> int option" where
  "positiveInteger v = (case finite_of v of
     None \<Rightarrow> None
   | Some n \<Rightarrow> if \<bar>n\<bar> \<le> 2 ^ 53 - 1 \<and> 0 < n then Some n else None)"

definition timestamp_of :: "jsval \<Rightarrow> int option" where
  "timestamp_of v = (case finite_of v of None \<Rightarrow> None | Some n \<Rightarrow> if 0 \<le> n then Some n else None)"

definition mediaAvailabilityItem :: "jsval \<Rightarrow> media_item option" where
  "mediaAvailabilityItem v =
     (if \<not> isRecord v then None
      else (case (boundedString 512 (field v ''mediaObjectId''), arr_of (field v ''chunks''),
                  nonNegativeInteger (field v ''totalChunks''), timestamp_of (field v ''updatedAt'')) of
        (Some i, Some xs, Some n, Some t) \<Rightarrow>
          (case collect (boundedString 512) xs of
            None \<Rightarrow> None
          | Some chunks \<Rightarrow>
              if length xs \<le> max_chunks_per_item \<and> length (js_uniq chunks) = length chunks \<and> int (length chunks) \<le> n
              then Some \<lparr>ma_mediaObjectId = i, ma_chunks = chunks, ma_totalChunks = n, ma_updatedAt = t\<rparr>
              else None)
      | _ \<Rightarrow> None))"

definition mediaAvailabilityAnnouncementV2 :: "jsval \<Rightarrow> announcement option" where
  "mediaAvailabilityAnnouncementV2 v =
     (if \<not> isRecord v \<or> field v ''version'' \<noteq> Jv_num availability_version then None
      else (case (boundedString 512 (field v ''peerId''), positiveInteger (field v ''sequence''),
                  timestamp_of (field v ''issuedAt''), timestamp_of (field v ''expiresAt''),
                  nonNegativeInteger (field v ''pageIndex''), positiveInteger (field v ''pageCount''),
                  arr_of (field v ''items''), boundedString 1024 (field v ''signature'')) of
        (Some p, Some n, Some issued, Some expires, Some pageIndex, Some pageCount, Some xs, Some s) \<Rightarrow>
          (case collect mediaAvailabilityItem xs of
            None \<Rightarrow> None
          | Some items \<Rightarrow>
              if pageIndex < pageCount \<and> 0 < length xs \<and> length xs \<le> max_items_per_page
                \<and> length (js_uniq (map ma_mediaObjectId items)) = length items
              then Some \<lparr>an_peerId = p, an_sequence = n, an_issuedAt = issued, an_expiresAt = expires,
                an_pageIndex = pageIndex, an_pageCount = pageCount, an_items = items, an_signature = s\<rparr>
              else None)
      | _ \<Rightarrow> None))"

definition estimateMediaAvailabilityBytes :: "jsval \<Rightarrow> nat option" where
  \<comment> \<open>\<open>None\<close>: \<open>JSON.stringify\<close> throws or returns no text.\<close>
  "estimateMediaAvailabilityBytes v = (case to_json v of
     Text j \<Rightarrow> Some (length (encodeUtf8 (units (stringify j)))) | _ \<Rightarrow> None)"

section \<open>Pages\<close>

definition max_chunks_per_page_item :: nat where
  "max_chunks_per_page_item = 128"

definition signature_reserve :: nat where
  "signature_reserve = 1024"

definition normalizeItem :: "media_item \<Rightarrow> media_item" where
  "normalizeItem i = i\<lparr>ma_chunks := js_sort code_cmp (js_uniq (ma_chunks i)),
     ma_totalChunks := max (ma_totalChunks i) (int (length (ma_chunks i)))\<rparr>"

definition normalizeItems :: "(string \<Rightarrow> string \<Rightarrow> int) \<Rightarrow> media_item list \<Rightarrow> media_item list" where
  "normalizeItems localeCompare items =
     js_sort (\<lambda>l r. localeCompare (ma_mediaObjectId l) (ma_mediaObjectId r))
       (map normalizeItem (filter (\<lambda>i. ma_chunks i \<noteq> []) items))"

definition fragments_of :: "media_item \<Rightarrow> media_item list" where
  "fragments_of i = map (\<lambda>k. i\<lparr>ma_chunks := take max_chunks_per_page_item
        (drop (k * max_chunks_per_page_item) (ma_chunks i))\<rparr>)
     [0..<(length (ma_chunks i) + max_chunks_per_page_item - 1) div max_chunks_per_page_item]"

text \<open>A page as it is estimated: with the largest signature.\<close>

definition estimated_page :: "announcement \<Rightarrow> nat \<Rightarrow> media_item list \<Rightarrow> nat" where
  "estimated_page base pages candidate =
     or_else (estimateMediaAvailabilityBytes (announcement_value (base\<lparr>an_pageIndex := int pages,
        an_pageCount := max 1 (int pages + 1), an_items := candidate,
        an_signature := replicate signature_reserve (CHR ''0'')\<rparr>))) 0"

definition add_fragment :: "announcement \<Rightarrow> media_item list list \<Rightarrow> media_item \<Rightarrow> media_item list list" where
  "add_fragment base pages fragment =
     (let current = (if pages = [] then [] else last pages);
          hasSameObject = (ma_mediaObjectId fragment \<in> ma_mediaObjectId ` set current);
          candidate = (if hasSameObject then [fragment] else current @ [fragment])
      in if current = [] \<or> \<not> hasSameObject \<and> length candidate \<le> max_items_per_page
            \<and> estimated_page base (length pages) candidate \<le> max_page_bytes
         then (if pages = [] then [candidate] else butlast pages @ [candidate])
         else pages @ [[fragment]])"

definition paginateAvailabilityItems :: "announcement \<Rightarrow> media_item list \<Rightarrow> media_item list list" where
  "paginateAvailabilityItems base items = foldl (add_fragment base) [] (concat (map fragments_of items))"

end
