(* ===== verification/MediaRepository.thy ===== *)
theory MediaRepository
  imports MediaAvailability Conflict
begin

text \<open>
  What a device remembers of media and its replicas: \<open>src/services/media/MediaDownloadRepository.ts\<close>.
  The six maps in memory and the five tables they are read from; a row is the values of its columns,
  which the guards check when a table is read, and a text column holds what \<open>JSON.parse\<close> makes of it.
  A statement of the database always succeeds; the operations are those of an initialised repository.
  \<open>INSERT OR REPLACE\<close> moves a row to the end, \<open>Map.set\<close> leaves an entry where it is.
\<close>

section \<open>Records\<close>

datatype download_status =
  Idle_status | Queued_status | Downloading_status | Partial_status | Available_status | Failed_status | Cancelled_status

record download_state =
  md_mediaObjectId :: string
  md_status :: download_status
  md_totalChunks :: int
  md_downloadedChunks :: int
  md_requestedChunks :: int
  md_failedChunks :: int
  md_candidatePeers :: "string list"
  md_error :: "string option"
  md_updatedAt :: int

record media_manifest =
  mn_peerId :: string
  mn_items :: "media_item list"
  mn_updatedAt :: int

datatype observation_status =
  Success_status | Unavailable_status | Timeout_status | Transport_error_status | Corrupt_status

record observation =
  ob_id :: string
  ob_peerId :: string
  ob_mediaObjectId :: string
  ob_chunkId :: "string option"
  ob_status :: observation_status
  ob_successCount :: int
  ob_failureCount :: int
  ob_latencyMs :: "int option"
  ob_validUntil :: "int option"
  ob_updatedAt :: int

datatype quarantine_reason =
    Invalid_base64_reason | Metadata_mismatch_reason | Hash_mismatch_reason | Id_mismatch_reason
  | Position_mismatch_reason | Object_mismatch_reason | Size_mismatch_reason | Size_invalid_reason
  | Data_unreadable_reason

record quarantine =
  qr_id :: string
  qr_peerId :: string
  qr_mediaObjectId :: string
  qr_chunkId :: "string option"
  qr_reason :: quarantine_reason
  qr_evidenceHash :: "string option"
  qr_failureCount :: int
  qr_startedAt :: int
  qr_expiresAt :: int

record access_record =
  ac_mediaObjectId :: string
  ac_protected :: bool
  ac_lastAccessedAt :: int
  ac_updatedAt :: int

fun status_name :: "download_status \<Rightarrow> string" where
  "status_name Idle_status = ''idle''"
| "status_name Queued_status = ''queued''"
| "status_name Downloading_status = ''downloading''"
| "status_name Partial_status = ''partial''"
| "status_name Available_status = ''available''"
| "status_name Failed_status = ''failed''"
| "status_name Cancelled_status = ''cancelled''"

definition download_statuses :: "download_status list" where
  "download_statuses = [Idle_status, Queued_status, Downloading_status, Partial_status, Available_status,
     Failed_status, Cancelled_status]"

definition downloadStatus :: "jsval \<Rightarrow> download_status option" where
  "downloadStatus v = find (\<lambda>s. v = Jv_str (status_name s)) download_statuses"

fun observation_name :: "observation_status \<Rightarrow> string" where
  "observation_name Success_status = ''success''"
| "observation_name Unavailable_status = ''unavailable''"
| "observation_name Timeout_status = ''timeout''"
| "observation_name Transport_error_status = ''transport-error''"
| "observation_name Corrupt_status = ''corrupt''"

definition replicaObservationStatus :: "jsval \<Rightarrow> observation_status option" where
  "replicaObservationStatus v = find (\<lambda>s. v = Jv_str (observation_name s))
     [Success_status, Unavailable_status, Timeout_status, Transport_error_status, Corrupt_status]"

fun quarantine_reason_name :: "quarantine_reason \<Rightarrow> string" where
  "quarantine_reason_name Invalid_base64_reason = ''invalid-base64''"
| "quarantine_reason_name Metadata_mismatch_reason = ''metadata-mismatch''"
| "quarantine_reason_name Hash_mismatch_reason = ''chunk-hash-mismatch''"
| "quarantine_reason_name Id_mismatch_reason = ''chunk-id-mismatch''"
| "quarantine_reason_name Position_mismatch_reason = ''chunk-position-mismatch''"
| "quarantine_reason_name Object_mismatch_reason = ''chunk-media-object-mismatch''"
| "quarantine_reason_name Size_mismatch_reason = ''chunk-size-mismatch''"
| "quarantine_reason_name Size_invalid_reason = ''chunk-size-invalid''"
| "quarantine_reason_name Data_unreadable_reason = ''chunk-data-unreadable''"

definition quarantineReason :: "jsval \<Rightarrow> quarantine_reason option" where
  "quarantineReason v = find (\<lambda>s. v = Jv_str (quarantine_reason_name s))
     [Invalid_base64_reason, Metadata_mismatch_reason, Hash_mismatch_reason, Id_mismatch_reason,
      Position_mismatch_reason, Object_mismatch_reason, Size_mismatch_reason, Size_invalid_reason,
      Data_unreadable_reason]"

definition normalizeDownloadState :: "download_state \<Rightarrow> download_state" where
  "normalizeDownloadState s = s\<lparr>md_totalChunks := max 0 (md_totalChunks s),
     md_downloadedChunks := max 0 (md_downloadedChunks s), md_requestedChunks := max 0 (md_requestedChunks s),
     md_failedChunks := max 0 (md_failedChunks s), md_candidatePeers := js_uniq (md_candidatePeers s)\<rparr>"

definition isValidItem :: "media_item \<Rightarrow> bool" where
  "isValidItem i \<longleftrightarrow> mediaAvailabilityItem (item_value i) \<noteq> None"

definition normalizeManifest :: "media_manifest \<Rightarrow> media_manifest" where
  "normalizeManifest m = m\<lparr>mn_items := map (\<lambda>i. i\<lparr>ma_chunks := js_uniq (ma_chunks i),
     ma_totalChunks := max (ma_totalChunks i) (int (length (ma_chunks i)))\<rparr>) (filter isValidItem (mn_items m))\<rparr>"

section \<open>Identifiers\<close>

definition createAnnouncementId :: "announcement \<Rightarrow> string" where
  "createAnnouncementId a = ''media_availability_''
     @ sha256Hex (stringify (J_arr [J_str (an_peerId a), J_num (an_sequence a), J_num (an_pageIndex a)]))"

definition replica_key :: "string \<Rightarrow> string \<Rightarrow> string option \<Rightarrow> string" where
  "replica_key peerId mediaObjectId chunkId = sha256Hex (stringify (J_arr [J_str peerId, J_str mediaObjectId,
     (case chunkId of None \<Rightarrow> J_null | Some c \<Rightarrow> J_str c)]))"

definition createReplicaObservationId :: "string \<Rightarrow> string \<Rightarrow> string option \<Rightarrow> string" where
  "createReplicaObservationId peerId mediaObjectId chunkId =
     ''media_replica_'' @ replica_key peerId mediaObjectId chunkId"

definition createQuarantineId :: "string \<Rightarrow> string \<Rightarrow> string option \<Rightarrow> string" where
  "createQuarantineId peerId mediaObjectId chunkId =
     ''media_quarantine_'' @ replica_key peerId mediaObjectId chunkId"

section \<open>Rows\<close>

text \<open>A column of JSON text: no text at all, or what it parses to (\<open>None\<close>: it does not parse).\<close>

datatype json_column = Not_text | Text_column "jsval option"

record job_row =
  jr_id :: jsval
  jr_schemaVersion :: jsval
  jr_status :: jsval
  jr_totalChunks :: jsval
  jr_downloadedChunks :: jsval
  jr_requestedChunks :: jsval
  jr_failedChunks :: jsval
  jr_candidatePeers :: json_column
  jr_error :: jsval
  jr_updatedAt :: jsval

record availability_row =
  vr_id :: jsval
  vr_schemaVersion :: jsval
  vr_peerId :: jsval
  vr_items :: json_column
  vr_updatedAt :: jsval

record observation_row =
  or_id :: jsval
  or_schemaVersion :: jsval
  or_peerId :: jsval
  or_mediaObjectId :: jsval
  or_chunkId :: jsval
  or_status :: jsval
  or_successCount :: jsval
  or_failureCount :: jsval
  or_latencyMs :: jsval
  or_validUntil :: jsval
  or_updatedAt :: jsval

record quarantine_row =
  qw_id :: jsval
  qw_schemaVersion :: jsval
  qw_peerId :: jsval
  qw_mediaObjectId :: jsval
  qw_chunkId :: jsval
  qw_reason :: jsval
  qw_evidenceHash :: jsval
  qw_failureCount :: jsval
  qw_startedAt :: jsval
  qw_expiresAt :: jsval

record access_row =
  aw_id :: jsval
  aw_schemaVersion :: jsval
  aw_mediaObjectId :: jsval
  aw_protected :: jsval
  aw_lastAccessedAt :: jsval
  aw_updatedAt :: jsval

definition opt_null :: "('a \<Rightarrow> jsval) \<Rightarrow> 'a option \<Rightarrow> jsval" where
  "opt_null f x = (case x of None \<Rightarrow> Jv_null | Some y \<Rightarrow> f y)"

text \<open>A column that may be null or missing; \<open>None\<close>: it is something else.\<close>

definition nullable :: "(jsval \<Rightarrow> 'a option) \<Rightarrow> jsval \<Rightarrow> 'a option option" where
  "nullable f v = (if v = Jv_null \<or> v = Jv_undefined then Some None else map_option Some (f v))"

definition job_row_of :: "download_state \<Rightarrow> job_row" where
  "job_row_of s = \<lparr>jr_id = Jv_str (md_mediaObjectId s), jr_schemaVersion = Jv_num 1,
     jr_status = Jv_str (status_name (md_status s)), jr_totalChunks = Jv_num (md_totalChunks s),
     jr_downloadedChunks = Jv_num (md_downloadedChunks s), jr_requestedChunks = Jv_num (md_requestedChunks s),
     jr_failedChunks = Jv_num (md_failedChunks s),
     jr_candidatePeers = Text_column (Some (Jv_arr (map Jv_str (md_candidatePeers s)))),
     jr_error = opt_null Jv_str (md_error s), jr_updatedAt = Jv_num (md_updatedAt s)\<rparr>"

definition manifest_row_of :: "media_manifest \<Rightarrow> availability_row" where
  "manifest_row_of m = \<lparr>vr_id = Jv_str (mn_peerId m), vr_schemaVersion = Jv_num 1, vr_peerId = Jv_str (mn_peerId m),
     vr_items = Text_column (Some (Jv_arr (map item_value (mn_items m)))), vr_updatedAt = Jv_num (mn_updatedAt m)\<rparr>"

definition announcement_row_of :: "announcement \<Rightarrow> availability_row" where
  "announcement_row_of a = \<lparr>vr_id = Jv_str (createAnnouncementId a), vr_schemaVersion = Jv_num 2,
     vr_peerId = Jv_str (an_peerId a), vr_items = Text_column (Some (announcement_value a)),
     vr_updatedAt = Jv_num (an_issuedAt a)\<rparr>"

definition observation_row_of :: "observation \<Rightarrow> observation_row" where
  "observation_row_of x = \<lparr>or_id = Jv_str (ob_id x), or_schemaVersion = Jv_num 1, or_peerId = Jv_str (ob_peerId x),
     or_mediaObjectId = Jv_str (ob_mediaObjectId x), or_chunkId = opt_null Jv_str (ob_chunkId x),
     or_status = Jv_str (observation_name (ob_status x)), or_successCount = Jv_num (ob_successCount x),
     or_failureCount = Jv_num (ob_failureCount x), or_latencyMs = opt_null Jv_num (ob_latencyMs x),
     or_validUntil = opt_null Jv_num (ob_validUntil x), or_updatedAt = Jv_num (ob_updatedAt x)\<rparr>"

definition quarantine_row_of :: "quarantine \<Rightarrow> quarantine_row" where
  "quarantine_row_of q = \<lparr>qw_id = Jv_str (qr_id q), qw_schemaVersion = Jv_num 1, qw_peerId = Jv_str (qr_peerId q),
     qw_mediaObjectId = Jv_str (qr_mediaObjectId q), qw_chunkId = opt_null Jv_str (qr_chunkId q),
     qw_reason = Jv_str (quarantine_reason_name (qr_reason q)), qw_evidenceHash = opt_null Jv_str (qr_evidenceHash q),
     qw_failureCount = Jv_num (qr_failureCount q), qw_startedAt = Jv_num (qr_startedAt q),
     qw_expiresAt = Jv_num (qr_expiresAt q)\<rparr>"

definition access_row_of :: "access_record \<Rightarrow> access_row" where
  "access_row_of a = \<lparr>aw_id = Jv_str (ac_mediaObjectId a), aw_schemaVersion = Jv_num 1,
     aw_mediaObjectId = Jv_str (ac_mediaObjectId a), aw_protected = Jv_num (if ac_protected a then 1 else 0),
     aw_lastAccessedAt = Jv_num (ac_lastAccessedAt a), aw_updatedAt = Jv_num (ac_updatedAt a)\<rparr>"


definition assertDownloadJobRow :: "job_row \<Rightarrow> bool" where
  "assertDownloadJobRow r \<longleftrightarrow> str_of (jr_id r) \<noteq> None \<and> jr_schemaVersion r = Jv_num 1 \<and> str_of (jr_status r) \<noteq> None
     \<and> nonNegativeInteger (jr_totalChunks r) \<noteq> None \<and> nonNegativeInteger (jr_downloadedChunks r) \<noteq> None
     \<and> nonNegativeInteger (jr_requestedChunks r) \<noteq> None \<and> nonNegativeInteger (jr_failedChunks r) \<noteq> None
     \<and> jr_candidatePeers r \<noteq> Not_text \<and> nullable str_of (jr_error r) \<noteq> None \<and> timestamp_of (jr_updatedAt r) \<noteq> None"

definition mediaDownloadState :: "jsval \<Rightarrow> download_state option" where
  "mediaDownloadState v =
     (if \<not> isRecord v then None
      else (case (str_of (field v ''mediaObjectId''), downloadStatus (field v ''status''),
                  nonNegativeInteger (field v ''totalChunks''), nonNegativeInteger (field v ''downloadedChunks''),
                  nonNegativeInteger (field v ''requestedChunks''), nonNegativeInteger (field v ''failedChunks''),
                  Option.bind (arr_of (field v ''candidatePeers'')) (collect str_of),
                  timestamp_of (field v ''updatedAt''), opt_field str_of (field v ''error'')) of
        (Some i, Some st, Some n, Some d, Some q, Some f, Some peers, Some t, Some e) \<Rightarrow>
          Some \<lparr>md_mediaObjectId = i, md_status = st, md_totalChunks = n, md_downloadedChunks = d,
            md_requestedChunks = q, md_failedChunks = f, md_candidatePeers = peers, md_error = e, md_updatedAt = t\<rparr>
      | _ \<Rightarrow> None))"

definition undefined_for_null :: "jsval \<Rightarrow> jsval" where
  "undefined_for_null v = (if v = Jv_null then Jv_undefined else v)"

definition mapDownloadStateRow :: "job_row \<Rightarrow> download_state option" where
  "mapDownloadStateRow r = (case jr_candidatePeers r of
     Text_column (Some peers) \<Rightarrow> map_option normalizeDownloadState (mediaDownloadState (Jv_obj
       [(''mediaObjectId'', jr_id r), (''status'', jr_status r), (''totalChunks'', jr_totalChunks r),
        (''downloadedChunks'', jr_downloadedChunks r), (''requestedChunks'', jr_requestedChunks r),
        (''failedChunks'', jr_failedChunks r), (''candidatePeers'', peers),
        (''error'', undefined_for_null (jr_error r)), (''updatedAt'', jr_updatedAt r)]))
   | _ \<Rightarrow> None)"

definition mediaAvailabilityManifest :: "jsval \<Rightarrow> media_manifest option" where
  "mediaAvailabilityManifest v =
     (if \<not> isRecord v then None
      else (case (str_of (field v ''peerId''), Option.bind (arr_of (field v ''items'')) (collect mediaAvailabilityItem),
                  timestamp_of (field v ''updatedAt'')) of
        (Some p, Some items, Some t) \<Rightarrow> Some \<lparr>mn_peerId = p, mn_items = items, mn_updatedAt = t\<rparr>
      | _ \<Rightarrow> None))"

definition assertAvailabilityRow :: "availability_row \<Rightarrow> bool" where
  "assertAvailabilityRow r \<longleftrightarrow> str_of (vr_id r) \<noteq> None
     \<and> (vr_schemaVersion r = Jv_num 1 \<or> vr_schemaVersion r = Jv_num 2) \<and> str_of (vr_peerId r) \<noteq> None
     \<and> vr_items r \<noteq> Not_text \<and> timestamp_of (vr_updatedAt r) \<noteq> None"

datatype stored_availability = Legacy_record media_manifest | Signed_record announcement

definition mapAvailabilityRow :: "availability_row \<Rightarrow> stored_availability option" where
  "mapAvailabilityRow r = (case vr_items r of
     Text_column (Some payload) \<Rightarrow>
      if vr_schemaVersion r = Jv_num 1
      then (case mediaAvailabilityManifest (Jv_obj [(''peerId'', vr_peerId r), (''items'', payload),
                   (''updatedAt'', vr_updatedAt r)]) of
          None \<Rightarrow> None
        | Some m \<Rightarrow> if Jv_str (mn_peerId m) \<noteq> vr_id r then None else Some (Legacy_record (normalizeManifest m)))
      else if vr_schemaVersion r \<noteq> Jv_num 2 then None
      else (case mediaAvailabilityAnnouncementV2 payload of
          None \<Rightarrow> None
        | Some a \<Rightarrow> if Jv_str (an_peerId a) \<noteq> vr_peerId r \<or> Jv_str (createAnnouncementId a) \<noteq> vr_id r
                       \<or> Jv_num (an_issuedAt a) \<noteq> vr_updatedAt r then None
                    else Some (Signed_record a))
   | _ \<Rightarrow> None)"

definition replicaObservationRow :: "observation_row \<Rightarrow> observation option" where
  \<comment> \<open>\<open>assertReplicaObservationRow\<close>, then \<open>mapReplicaObservationRow\<close>.\<close>
  "replicaObservationRow r =
     (if or_schemaVersion r \<noteq> Jv_num 1 then None
      else (case (str_of (or_id r), str_of (or_peerId r), str_of (or_mediaObjectId r), nullable str_of (or_chunkId r),
                  replicaObservationStatus (or_status r), nonNegativeInteger (or_successCount r),
                  nonNegativeInteger (or_failureCount r), nullable nonNegativeInteger (or_latencyMs r),
                  nullable timestamp_of (or_validUntil r), timestamp_of (or_updatedAt r)) of
        (Some i, Some p, Some m, Some c, Some st, Some n, Some f, Some l, Some until, Some t) \<Rightarrow>
          Some \<lparr>ob_id = i, ob_peerId = p, ob_mediaObjectId = m, ob_chunkId = c, ob_status = st,
            ob_successCount = n, ob_failureCount = f, ob_latencyMs = l, ob_validUntil = until, ob_updatedAt = t\<rparr>
      | _ \<Rightarrow> None))"

definition quarantineRow :: "quarantine_row \<Rightarrow> quarantine option" where
  \<comment> \<open>\<open>assertQuarantineRow\<close>, then \<open>mapQuarantineRow\<close>.\<close>
  "quarantineRow r =
     (if qw_schemaVersion r \<noteq> Jv_num 1 then None
      else (case (str_of (qw_id r), str_of (qw_peerId r), str_of (qw_mediaObjectId r), nullable str_of (qw_chunkId r),
                  quarantineReason (qw_reason r), nullable str_of (qw_evidenceHash r),
                  nonNegativeInteger (qw_failureCount r), timestamp_of (qw_startedAt r), timestamp_of (qw_expiresAt r)) of
        (Some i, Some p, Some m, Some c, Some reason, Some h, Some f, Some s, Some e) \<Rightarrow>
          if f = 0 \<or> e \<le> s then None
          else Some \<lparr>qr_id = i, qr_peerId = p, qr_mediaObjectId = m, qr_chunkId = c, qr_reason = reason,
            qr_evidenceHash = h, qr_failureCount = f, qr_startedAt = s, qr_expiresAt = e\<rparr>
      | _ \<Rightarrow> None))"

definition accessRow :: "access_row \<Rightarrow> access_record option" where
  \<comment> \<open>\<open>assertAccessRow\<close>, then \<open>mapAccessRow\<close>.\<close>
  "accessRow r =
     (if aw_schemaVersion r \<noteq> Jv_num 1 \<or> aw_id r \<noteq> aw_mediaObjectId r
        \<or> aw_protected r \<noteq> Jv_num 0 \<and> aw_protected r \<noteq> Jv_num 1 then None
      else (case (str_of (aw_mediaObjectId r), timestamp_of (aw_lastAccessedAt r), timestamp_of (aw_updatedAt r)) of
        (Some m, Some l, Some t) \<Rightarrow> Some \<lparr>ac_mediaObjectId = m, ac_protected = (aw_protected r = Jv_num 1),
            ac_lastAccessedAt = l, ac_updatedAt = t\<rparr>
      | _ \<Rightarrow> None))"

section \<open>The repository\<close>

record media_db =
  db_jobs :: "(string, job_row) jsmap"
  db_availability :: "(string, availability_row) jsmap"
  db_observations :: "(string, observation_row) jsmap"
  db_quarantines :: "(string, quarantine_row) jsmap"
  db_access :: "(string, access_row) jsmap"

record media_repo =
  mp_states :: "(string, download_state) jsmap"
  mp_manifests :: "(string, media_manifest) jsmap"
  mp_announcements :: "(string, announcement) jsmap"
  mp_observations :: "(string, observation) jsmap"
  mp_quarantines :: "(string, quarantine) jsmap"
  mp_access :: "(string, access_record) jsmap"
  mp_db :: media_db

definition empty_db :: media_db where
  "empty_db = \<lparr>db_jobs = [], db_availability = [], db_observations = [], db_quarantines = [], db_access = []\<rparr>"

definition empty_repo :: "media_db \<Rightarrow> media_repo" where
  "empty_repo db = \<lparr>mp_states = [], mp_manifests = [], mp_announcements = [], mp_observations = [],
     mp_quarantines = [], mp_access = [], mp_db = db\<rparr>"

definition writeState :: "download_state \<Rightarrow> media_db \<Rightarrow> media_db" where
  "writeState s db = db\<lparr>db_jobs := insert_or_replace (md_mediaObjectId s) (job_row_of s) (db_jobs db)\<rparr>"

definition writeManifest :: "media_manifest \<Rightarrow> media_db \<Rightarrow> media_db" where
  "writeManifest m db = db\<lparr>db_availability := insert_or_replace (mn_peerId m) (manifest_row_of m) (db_availability db)\<rparr>"

definition writeAnnouncement :: "announcement \<Rightarrow> media_db \<Rightarrow> media_db" where
  "writeAnnouncement a db =
     db\<lparr>db_availability := insert_or_replace (createAnnouncementId a) (announcement_row_of a) (db_availability db)\<rparr>"

definition writeReplicaObservation :: "observation \<Rightarrow> media_db \<Rightarrow> media_db" where
  "writeReplicaObservation x db =
     db\<lparr>db_observations := insert_or_replace (ob_id x) (observation_row_of x) (db_observations db)\<rparr>"

definition writeQuarantine :: "quarantine \<Rightarrow> media_db \<Rightarrow> media_db" where
  "writeQuarantine q db =
     db\<lparr>db_quarantines := insert_or_replace (qr_id q) (quarantine_row_of q) (db_quarantines db)\<rparr>"

definition writeAccessRecord :: "access_record \<Rightarrow> media_db \<Rightarrow> media_db" where
  "writeAccessRecord a db = db\<lparr>db_access := insert_or_replace (ac_mediaObjectId a) (access_row_of a) (db_access db)\<rparr>"

definition loadPersistedData :: "media_db \<Rightarrow> media_repo option" where
  \<comment> \<open>\<open>None\<close>: a row is corrupt.\<close>
  "loadPersistedData db =
     (if \<not> list_all assertDownloadJobRow (jm_values (db_jobs db))
        \<or> \<not> list_all assertAvailabilityRow (jm_values (db_availability db)) then None
      else (case (collect mapDownloadStateRow (jm_values (db_jobs db)),
                  collect mapAvailabilityRow (jm_values (db_availability db)),
                  collect replicaObservationRow (jm_values (db_observations db)),
                  collect quarantineRow (jm_values (db_quarantines db)), collect accessRow (jm_values (db_access db))) of
        (Some states, Some availability, Some observations, Some quarantines, Some access) \<Rightarrow>
          Some \<lparr>mp_states = fold (\<lambda>s. jm_set (md_mediaObjectId s) s) states [],
            mp_manifests = fold (\<lambda>x. case x of Legacy_record m \<Rightarrow> jm_set (mn_peerId m) m | _ \<Rightarrow> id) availability [],
            mp_announcements =
              fold (\<lambda>x. case x of Signed_record a \<Rightarrow> jm_set (createAnnouncementId a) a | _ \<Rightarrow> id) availability [],
            mp_observations = fold (\<lambda>x. jm_set (ob_id x) x) observations [],
            mp_quarantines = fold (\<lambda>q. jm_set (qr_id q) q) quarantines [],
            mp_access = fold (\<lambda>a. jm_set (ac_mediaObjectId a) a) access [], mp_db = db\<rparr>
      | _ \<Rightarrow> None))"

subsection \<open>Downloads and old manifests\<close>

definition listStates :: "media_repo \<Rightarrow> download_state list" where
  "listStates r = js_sort (\<lambda>a b. md_updatedAt b - md_updatedAt a) (jm_values (mp_states r))"

definition getState :: "string \<Rightarrow> media_repo \<Rightarrow> download_state option" where
  "getState i r = jm_get (mp_states r) i"

definition saveState :: "download_state \<Rightarrow> media_repo \<Rightarrow> media_repo" where
  "saveState s r = (let n = normalizeDownloadState s in
     r\<lparr>mp_db := writeState n (mp_db r), mp_states := jm_set (md_mediaObjectId n) n (mp_states r)\<rparr>)"

definition removeState :: "string \<Rightarrow> media_repo \<Rightarrow> media_repo" where
  "removeState i r = r\<lparr>mp_db := (mp_db r)\<lparr>db_jobs := jm_delete i (db_jobs (mp_db r))\<rparr>,
     mp_states := jm_delete i (mp_states r)\<rparr>"

definition saveManifest :: "media_manifest \<Rightarrow> media_repo \<Rightarrow> media_repo" where
  "saveManifest m r = (let n = normalizeManifest m in
     r\<lparr>mp_db := writeManifest n (mp_db r), mp_manifests := jm_set (mn_peerId n) n (mp_manifests r)\<rparr>)"

definition recordChunkAvailability :: "string \<Rightarrow> string \<Rightarrow> string \<Rightarrow> int \<Rightarrow> media_repo \<Rightarrow> media_repo" where
  "recordChunkAvailability peerId mediaObjectId chunkId now r =
     (let current = or_else (jm_get (mp_manifests r) peerId) \<lparr>mn_peerId = peerId, mn_items = [], mn_updatedAt = now\<rparr>;
          existing = find (\<lambda>i. ma_mediaObjectId i = mediaObjectId) (mn_items current);
          nextChunks = (case existing of None \<Rightarrow> [chunkId] | Some i \<Rightarrow> js_uniq (ma_chunks i @ [chunkId]));
          nextItem = \<lparr>ma_mediaObjectId = mediaObjectId, ma_chunks = nextChunks,
            ma_totalChunks = max (case existing of None \<Rightarrow> 0 | Some i \<Rightarrow> ma_totalChunks i) (int (length nextChunks)),
            ma_updatedAt = now\<rparr>
      in saveManifest \<lparr>mn_peerId = peerId,
           mn_items = filter (\<lambda>i. ma_mediaObjectId i \<noteq> mediaObjectId) (mn_items current) @ [nextItem],
           mn_updatedAt = now\<rparr> r)"

subsection \<open>Announcements\<close>

datatype save_result = Saved | Duplicate_announcement | Stale_announcement | Conflict_announcement

definition peer_announcements :: "string \<Rightarrow> media_repo \<Rightarrow> announcement list" where
  "peer_announcements p r = filter (\<lambda>a. an_peerId a = p) (jm_values (mp_announcements r))"

definition latest_sequence :: "announcement list \<Rightarrow> int" where
  "latest_sequence xs = foldl (\<lambda>latest a. max latest (an_sequence a)) 0 xs"

definition announcement_cmp :: "(string \<Rightarrow> string \<Rightarrow> int) \<Rightarrow> announcement \<Rightarrow> announcement \<Rightarrow> int" where
  "announcement_cmp localeCompare l r = js_or (an_sequence r - an_sequence l)
     (js_or (an_pageIndex l - an_pageIndex r) (localeCompare (an_peerId l) (an_peerId r)))"

definition listAnnouncements :: "(string \<Rightarrow> string \<Rightarrow> int) \<Rightarrow> string option \<Rightarrow> media_repo \<Rightarrow> announcement list" where
  "listAnnouncements localeCompare p r = js_sort (announcement_cmp localeCompare)
     (filter (\<lambda>a. case p of None \<Rightarrow> True | Some q \<Rightarrow> q = [] \<or> an_peerId a = q) (jm_values (mp_announcements r)))"

definition getLatestAnnouncementSequence :: "(string \<Rightarrow> string \<Rightarrow> int) \<Rightarrow> string \<Rightarrow> media_repo \<Rightarrow> int" where
  "getLatestAnnouncementSequence localeCompare p r = latest_sequence (listAnnouncements localeCompare (Some p) r)"

definition saveAnnouncement :: "announcement \<Rightarrow> media_repo \<Rightarrow> save_result \<times> media_repo" where
  "saveAnnouncement a r =
     (let own = peer_announcements (an_peerId a) r; latest = latest_sequence own; i = createAnnouncementId a in
      if an_sequence a < latest then (Stale_announcement, r)
      else (case jm_get (mp_announcements r) i of
        Some e \<Rightarrow> (if an_signature e = an_signature a \<and> an_expiresAt e = an_expiresAt a
            \<and> an_pageCount e = an_pageCount a then Duplicate_announcement else Conflict_announcement, r)
      | None \<Rightarrow>
          if list_ex (\<lambda>x. an_issuedAt x \<noteq> an_issuedAt a \<or> an_expiresAt x \<noteq> an_expiresAt a
               \<or> an_pageCount x \<noteq> an_pageCount a) (filter (\<lambda>x. an_sequence x = an_sequence a) own)
          then (Conflict_announcement, r)
          else (let newer = (an_sequence a > latest); db = mp_db r;
                    kept = (if newer then db\<lparr>db_availability := filter (\<lambda>(k, w). vr_peerId w \<noteq> Jv_str (an_peerId a))
                              (db_availability db)\<rparr> else db);
                    rest = (if newer then filter (\<lambda>(k, x). an_peerId x \<noteq> an_peerId a) (mp_announcements r)
                            else mp_announcements r)
                in (Saved, r\<lparr>mp_db := writeAnnouncement a kept, mp_announcements := jm_set i a rest\<rparr>))))"

definition removeAnnouncement :: "announcement \<Rightarrow> media_repo \<Rightarrow> media_repo" where
  "removeAnnouncement a r = (let i = createAnnouncementId a in
     r\<lparr>mp_db := (mp_db r)\<lparr>db_availability := jm_delete i (db_availability (mp_db r))\<rparr>,
       mp_announcements := jm_delete i (mp_announcements r)\<rparr>)"

text \<open>The page of a peer that keeps its latest sequence known.\<close>

definition sequence_anchors :: "media_repo \<Rightarrow> string list" where
  "sequence_anchors r = map (\<lambda>p. let own = peer_announcements p r in
       createAnnouncementId (hd (js_sort (\<lambda>a b. an_pageIndex a - an_pageIndex b)
         (filter (\<lambda>a. an_sequence a = latest_sequence own) own))))
     (filter (\<lambda>p. let own = peer_announcements p r in filter (\<lambda>a. an_sequence a = latest_sequence own) own \<noteq> [])
       (js_uniq (map an_peerId (jm_values (mp_announcements r)))))"

definition pruneExpiredAnnouncements :: "int \<Rightarrow> media_repo \<Rightarrow> nat \<times> media_repo" where
  "pruneExpiredAnnouncements now r =
     (let expired = map fst (filter (\<lambda>(i, a). an_expiresAt a \<le> now \<and> i \<notin> set (sequence_anchors r)) (mp_announcements r))
      in if expired = [] then (0, r)
         else (length expired,
           r\<lparr>mp_db := (mp_db r)\<lparr>db_availability := fold jm_delete expired (db_availability (mp_db r))\<rparr>,
             mp_announcements := fold jm_delete expired (mp_announcements r)\<rparr>))"

definition findPeersForMedia :: "(string \<Rightarrow> string \<Rightarrow> int) \<Rightarrow> string \<Rightarrow> int \<Rightarrow> media_repo \<Rightarrow> string list" where
  "findPeersForMedia localeCompare mediaObjectId now r = js_sort localeCompare (js_uniq (map an_peerId
     (filter (\<lambda>a. an_expiresAt a > now \<and> list_ex (\<lambda>i. ma_mediaObjectId i = mediaObjectId) (an_items a))
       (jm_values (mp_announcements r)))))"

definition findPeersForChunk :: "(string \<Rightarrow> string \<Rightarrow> int) \<Rightarrow> string \<Rightarrow> string \<Rightarrow> int \<Rightarrow> media_repo \<Rightarrow> string list" where
  "findPeersForChunk localeCompare mediaObjectId chunkId now r = js_sort localeCompare (js_uniq (map an_peerId
     (filter (\<lambda>a. an_expiresAt a > now
         \<and> list_ex (\<lambda>i. ma_mediaObjectId i = mediaObjectId \<and> chunkId \<in> set (ma_chunks i)) (an_items a))
       (jm_values (mp_announcements r)))))"

text \<open>The chunks and the number of chunks the items for one object advertise; \<open>None\<close>: they disagree.\<close>

fun advertised :: "string \<Rightarrow> media_item list \<Rightarrow> int option \<Rightarrow> string list \<Rightarrow> (int option \<times> string list) option" where
  "advertised m [] n chunks = Some (n, chunks)"
| "advertised m (i # is) n chunks =
     (if ma_mediaObjectId i \<noteq> m then advertised m is n chunks
      else if n \<noteq> None \<and> n \<noteq> Some (ma_totalChunks i) then None
      else advertised m is (Some (ma_totalChunks i)) (foldl (\<lambda>s c. set_add c s) chunks (ma_chunks i)))"

definition complete_pages :: "announcement list \<Rightarrow> bool" where
  "complete_pages pages \<longleftrightarrow> (case pages of [] \<Rightarrow> False
     | first # _ \<Rightarrow> int (length pages) = an_pageCount first
         \<and> list_all (\<lambda>(k, p). an_pageIndex p = int k \<and> an_pageCount p = an_pageCount first
              \<and> an_issuedAt p = an_issuedAt first \<and> an_expiresAt p = an_expiresAt first)
             (zip [0..<length pages] pages))"

definition holds_all :: "string \<Rightarrow> string list \<Rightarrow> announcement list \<Rightarrow> bool" where
  "holds_all mediaObjectId expected own =
     (let pages = js_sort (\<lambda>a b. an_pageIndex a - an_pageIndex b)
            (filter (\<lambda>a. an_sequence a = latest_sequence own) own);
          wanted = js_uniq expected
      in complete_pages pages \<and> (case advertised mediaObjectId (concat (map an_items pages)) None [] of
          None \<Rightarrow> False
        | Some (n, chunks) \<Rightarrow> n = Some (int (length wanted)) \<and> length chunks = length wanted
            \<and> list_all (\<lambda>c. c \<in> set chunks) wanted))"

definition findCompleteReplicaPeers ::
  "(string \<Rightarrow> string \<Rightarrow> int) \<Rightarrow> string \<Rightarrow> string list \<Rightarrow> int \<Rightarrow> media_repo \<Rightarrow> string list" where
  "findCompleteReplicaPeers localeCompare mediaObjectId expected now r =
     (if expected = [] then []
      else (let live = filter (\<lambda>a. an_expiresAt a > now) (jm_values (mp_announcements r))
            in js_sort localeCompare (filter (\<lambda>p. holds_all mediaObjectId expected (filter (\<lambda>a. an_peerId a = p) live))
                 (js_uniq (map an_peerId live)))))"


subsection \<open>Replica observations and quarantines\<close>

definition getReplicaObservation :: "string \<Rightarrow> string \<Rightarrow> string option \<Rightarrow> media_repo \<Rightarrow> observation option" where
  "getReplicaObservation p m c r = jm_get (mp_observations r) (createReplicaObservationId p m c)"

definition listReplicaObservations :: "(string \<Rightarrow> string \<Rightarrow> int) \<Rightarrow> media_repo \<Rightarrow> observation list" where
  "listReplicaObservations localeCompare r =
     js_sort (\<lambda>a b. js_or (ob_updatedAt b - ob_updatedAt a) (localeCompare (ob_id a) (ob_id b))) (jm_values (mp_observations r))"

record replica_result =
  rr_peerId :: string
  rr_mediaObjectId :: string
  rr_chunkId :: "string option"
  rr_status :: observation_status
  rr_latencyMs :: "int option"
  rr_validUntil :: "int option"

definition recordReplicaResult :: "replica_result \<Rightarrow> int \<Rightarrow> media_repo \<Rightarrow> observation \<times> media_repo" where
  "recordReplicaResult x now r =
     (let i = createReplicaObservationId (rr_peerId x) (rr_mediaObjectId x) (rr_chunkId x);
          current = jm_get (mp_observations r) i; success = (rr_status x = Success_status);
          o' = \<lparr>ob_id = i, ob_peerId = rr_peerId x, ob_mediaObjectId = rr_mediaObjectId x, ob_chunkId = rr_chunkId x,
            ob_status = rr_status x,
            ob_successCount = (case current of None \<Rightarrow> 0 | Some c \<Rightarrow> ob_successCount c) + (if success then 1 else 0),
            ob_failureCount = (case current of None \<Rightarrow> 0 | Some c \<Rightarrow> ob_failureCount c) + (if success then 0 else 1),
            ob_latencyMs = (case rr_latencyMs x of None \<Rightarrow> Option.bind current ob_latencyMs | Some l \<Rightarrow> Some l),
            ob_validUntil = (case rr_validUntil x of None \<Rightarrow> Option.bind current ob_validUntil | Some l \<Rightarrow> Some l),
            ob_updatedAt = now\<rparr>
      in (o', r\<lparr>mp_db := writeReplicaObservation o' (mp_db r), mp_observations := jm_set i o' (mp_observations r)\<rparr>))"

definition listQuarantines :: "(string \<Rightarrow> string \<Rightarrow> int) \<Rightarrow> int option \<Rightarrow> media_repo \<Rightarrow> quarantine list" where
  "listQuarantines localeCompare now r =
     js_sort (\<lambda>a b. js_or (qr_startedAt b - qr_startedAt a) (localeCompare (qr_id a) (qr_id b)))
       (filter (\<lambda>q. case now of None \<Rightarrow> True | Some t \<Rightarrow> qr_expiresAt q > t) (jm_values (mp_quarantines r)))"

definition isReplicaQuarantined :: "string \<Rightarrow> string \<Rightarrow> string \<Rightarrow> int \<Rightarrow> media_repo \<Rightarrow> bool" where
  "isReplicaQuarantined p m c now r \<longleftrightarrow> list_ex (\<lambda>q. qr_peerId q = p \<and> qr_mediaObjectId q = m
     \<and> (qr_chunkId q = None \<or> qr_chunkId q = Some c) \<and> qr_expiresAt q > now) (jm_values (mp_quarantines r))"

record quarantine_input =
  qi_peerId :: string
  qi_mediaObjectId :: string
  qi_chunkId :: "string option"
  qi_reason :: quarantine_reason
  qi_evidenceHash :: "string option"
  qi_durationMs :: int

definition quarantineReplica :: "quarantine_input \<Rightarrow> int \<Rightarrow> media_repo \<Rightarrow> quarantine \<times> media_repo" where
  "quarantineReplica x now r =
     (let i = createQuarantineId (qi_peerId x) (qi_mediaObjectId x) (qi_chunkId x);
          current = jm_get (mp_quarantines r) i;
          q = \<lparr>qr_id = i, qr_peerId = qi_peerId x, qr_mediaObjectId = qi_mediaObjectId x, qr_chunkId = qi_chunkId x,
            qr_reason = qi_reason x, qr_evidenceHash = qi_evidenceHash x,
            qr_failureCount = (case current of None \<Rightarrow> 0 | Some c \<Rightarrow> qr_failureCount c) + 1,
            qr_startedAt = (case current of None \<Rightarrow> now | Some c \<Rightarrow> qr_startedAt c),
            qr_expiresAt = max (case current of None \<Rightarrow> 0 | Some c \<Rightarrow> qr_expiresAt c) (now + max 1 (qi_durationMs x))\<rparr>
      in (q, r\<lparr>mp_db := writeQuarantine q (mp_db r), mp_quarantines := jm_set i q (mp_quarantines r)\<rparr>))"

definition pruneExpiredQuarantines :: "int \<Rightarrow> media_repo \<Rightarrow> nat \<times> media_repo" where
  "pruneExpiredQuarantines now r =
     (let expired = map fst (filter (\<lambda>(i, q). qr_expiresAt q \<le> now) (mp_quarantines r))
      in if expired = [] then (0, r)
         else (length expired,
           r\<lparr>mp_db := (mp_db r)\<lparr>db_quarantines := fold jm_delete expired (db_quarantines (mp_db r))\<rparr>,
             mp_quarantines := fold jm_delete expired (mp_quarantines r)\<rparr>))"

subsection \<open>Access\<close>

definition getMediaAccess :: "string \<Rightarrow> media_repo \<Rightarrow> access_record option" where
  "getMediaAccess i r = jm_get (mp_access r) i"

definition listMediaAccess :: "(string \<Rightarrow> string \<Rightarrow> int) \<Rightarrow> media_repo \<Rightarrow> access_record list" where
  "listMediaAccess localeCompare r =
     js_sort (\<lambda>a b. js_or (ac_lastAccessedAt b - ac_lastAccessedAt a) (localeCompare (ac_mediaObjectId a) (ac_mediaObjectId b)))
       (jm_values (mp_access r))"

definition write_access :: "access_record \<Rightarrow> media_repo \<Rightarrow> access_record \<times> media_repo" where
  "write_access a r = (a, r\<lparr>mp_db := writeAccessRecord a (mp_db r),
     mp_access := jm_set (ac_mediaObjectId a) a (mp_access r)\<rparr>)"

definition touchMediaAccess :: "string \<Rightarrow> int \<Rightarrow> media_repo \<Rightarrow> access_record \<times> media_repo" where
  "touchMediaAccess i now r = (let current = getMediaAccess i r in
     write_access \<lparr>ac_mediaObjectId = i, ac_protected = (case current of None \<Rightarrow> False | Some c \<Rightarrow> ac_protected c),
       ac_lastAccessedAt = max (case current of None \<Rightarrow> 0 | Some c \<Rightarrow> ac_lastAccessedAt c) now,
       ac_updatedAt = max (case current of None \<Rightarrow> 0 | Some c \<Rightarrow> ac_updatedAt c) now\<rparr> r)"

definition setMediaProtected :: "string \<Rightarrow> bool \<Rightarrow> int \<Rightarrow> media_repo \<Rightarrow> access_record \<times> media_repo" where
  "setMediaProtected i b now r = (let current = getMediaAccess i r in
     write_access \<lparr>ac_mediaObjectId = i, ac_protected = b,
       ac_lastAccessedAt = (case current of None \<Rightarrow> now | Some c \<Rightarrow> ac_lastAccessedAt c),
       ac_updatedAt = max (case current of None \<Rightarrow> 0 | Some c \<Rightarrow> ac_updatedAt c) now\<rparr> r)"

definition removeMediaAccess :: "string \<Rightarrow> media_repo \<Rightarrow> media_repo" where
  "removeMediaAccess i r = r\<lparr>mp_db := (mp_db r)\<lparr>db_access := jm_delete i (db_access (mp_db r))\<rparr>,
     mp_access := jm_delete i (mp_access r)\<rparr>"

definition clearMedia :: "media_repo \<Rightarrow> media_repo" where
  "clearMedia r = empty_repo empty_db"

subsection \<open>Starting\<close>

text \<open>The two texts of the old storage: absent, not JSON, or a value.\<close>

record legacy_media =
  lg_states :: "jsval option option"
  lg_manifests :: "jsval option option"

fun entries_of :: "jsval \<Rightarrow> (string \<times> jsval) list" where
  "entries_of (Jv_obj kvs) = kvs"
| "entries_of v = []"

definition legacy_entries :: "(string \<times> jsval \<Rightarrow> 'a option) \<Rightarrow> jsval option option \<Rightarrow> 'a list option" where
  "legacy_entries f text = (case text of
     None \<Rightarrow> Some []
   | Some None \<Rightarrow> None
   | Some (Some v) \<Rightarrow> if v = Jv_null then Some [] else if \<not> isRecord v then None else collect f (entries_of v))"

definition readLegacyDownloadStates :: "legacy_media \<Rightarrow> download_state list option" where
  "readLegacyDownloadStates l = legacy_entries (\<lambda>(k, v). case mediaDownloadState v of
      None \<Rightarrow> None | Some s \<Rightarrow> if md_mediaObjectId s \<noteq> k then None else Some (normalizeDownloadState s)) (lg_states l)"

definition readLegacyManifests :: "legacy_media \<Rightarrow> media_manifest list option" where
  "readLegacyManifests l = legacy_entries (\<lambda>(k, v). case mediaAvailabilityManifest v of
      None \<Rightarrow> None | Some m \<Rightarrow> if mn_peerId m \<noteq> k then None else Some (normalizeManifest m)) (lg_manifests l)"

record media_migration_result =
  mig_downloadJobs :: nat
  mig_announcements :: nat
  mig_legacyDataRemoved :: bool

definition migrateLegacyMedia ::
  "legacy_media option \<Rightarrow> media_db \<Rightarrow> (media_migration_result \<times> legacy_media option \<times> media_db) option" where
  \<comment> \<open>\<open>None\<close>: corrupt data, with nothing changed.\<close>
  "migrateLegacyMedia legacy db = (case legacy of
     None \<Rightarrow> Some (\<lparr>mig_downloadJobs = 0, mig_announcements = 0, mig_legacyDataRemoved = False\<rparr>, None, db)
   | Some l \<Rightarrow>
      if \<not> list_all assertDownloadJobRow (jm_values (db_jobs db))
        \<or> \<not> list_all assertAvailabilityRow (jm_values (db_availability db)) then None
      else (case (readLegacyDownloadStates l, readLegacyManifests l,
                  collect mapDownloadStateRow (jm_values (db_jobs db)),
                  collect mapAvailabilityRow (jm_values (db_availability db))) of
        (Some states, Some manifests, Some rows, Some records) \<Rightarrow>
          (let current = fold (\<lambda>s. jm_set (md_mediaObjectId s) s) rows [];
               known = fold (\<lambda>x. case x of Legacy_record m \<Rightarrow> jm_set (mn_peerId m) m | _ \<Rightarrow> id) records [];
               newer = filter (\<lambda>s. case jm_get current (md_mediaObjectId s) of
                 None \<Rightarrow> True | Some c \<Rightarrow> \<not> md_updatedAt c \<ge> md_updatedAt s) states;
               newer_manifests = filter (\<lambda>m. case jm_get known (mn_peerId m) of
                 None \<Rightarrow> True | Some c \<Rightarrow> \<not> mn_updatedAt c \<ge> mn_updatedAt m) manifests;
               had = (lg_states l \<noteq> None \<or> lg_manifests l \<noteq> None)
           in Some (\<lparr>mig_downloadJobs = length newer, mig_announcements = length newer_manifests,
                mig_legacyDataRemoved = had\<rparr>, Some \<lparr>lg_states = None, lg_manifests = None\<rparr>,
                fold writeManifest newer_manifests (fold writeState newer db)))
      | _ \<Rightarrow> None))"

definition initializeRepository ::
  "legacy_media option \<Rightarrow> media_db \<Rightarrow> (media_migration_result \<times> media_repo) option \<times> legacy_media option \<times> media_db" where
  "initializeRepository legacy db = (case migrateLegacyMedia legacy db of
     None \<Rightarrow> (None, legacy, db)
   | Some (result, legacy', db') \<Rightarrow> (map_option (Pair result) (loadPersistedData db'), legacy', db'))"

end
