(* ===== verification/MediaAnnounce.thy ===== *)
theory MediaAnnounce
  imports MediaRepository
begin

text \<open>
  Announcing media and believing announcements: \<open>src/services/media/MediaAvailabilityService.ts\<close> over
  the repository. Signing and verifying are parameters, and so is the collation of identifiers; a
  signature is a text, and the clock gives the time each operation starts. The handlers told of an
  accepted announcement are outside; the result names what they are told.
\<close>

record announce_env =
  ae_localPeerId :: string
  ae_sign :: "string \<Rightarrow> string"
  ae_verify :: "string \<Rightarrow> string \<Rightarrow> string \<Rightarrow> bool"
  ae_ttlMs :: "int option"
  ae_maxClockSkewMs :: "int option"
  ae_localeCompare :: "string \<Rightarrow> string \<Rightarrow> int"

definition clock_skew :: "announce_env \<Rightarrow> int" where
  "clock_skew env = or_else (ae_maxClockSkewMs env) max_clock_skew_ms"

definition announced_ttl :: "announce_env \<Rightarrow> int" where
  "announced_ttl env = min (max 1 (or_else (ae_ttlMs env) default_ttl_ms)) max_ttl_ms"

definition signature_valid :: "announce_env \<Rightarrow> announcement \<Rightarrow> bool" where
  "signature_valid env a \<longleftrightarrow> ae_verify env (getMediaAvailabilitySignableBytes a) (an_signature a) (an_peerId a)"

section \<open>Starting\<close>

definition timestamps_valid :: "announce_env \<Rightarrow> int \<Rightarrow> announcement \<Rightarrow> bool" where
  "timestamps_valid env now a \<longleftrightarrow> an_issuedAt a \<le> now + clock_skew env \<and> an_expiresAt a > an_issuedAt a
     \<and> an_expiresAt a - an_issuedAt a \<le> max_ttl_ms"

definition initializeAvailability :: "announce_env \<Rightarrow> int \<Rightarrow> media_repo \<Rightarrow> (nat \<times> nat) \<times> media_repo" where
  "initializeAvailability env now r =
     (let bad = filter (\<lambda>a. \<not> (timestamps_valid env now a \<and> signature_valid env a))
            (listAnnouncements (ae_localeCompare env) None r);
          (expired, r') = pruneExpiredAnnouncements now (fold removeAnnouncement bad r)
      in ((length bad, expired), r'))"

section \<open>Announcing\<close>

definition unsigned_page :: "announce_env \<Rightarrow> int \<Rightarrow> int \<Rightarrow> announcement" where
  "unsigned_page env sequence now = \<lparr>an_peerId = ae_localPeerId env, an_sequence = sequence, an_issuedAt = now,
     an_expiresAt = now + announced_ttl env, an_pageIndex = 0, an_pageCount = 1, an_items = [], an_signature = []\<rparr>"

definition signed_page :: "announce_env \<Rightarrow> announcement \<Rightarrow> nat \<Rightarrow> nat \<times> media_item list \<Rightarrow> announcement" where
  "signed_page env base pageCount page =
     (let unsigned = base\<lparr>an_pageIndex := int (fst page), an_pageCount := int pageCount, an_items := snd page\<rparr>
      in unsigned\<lparr>an_signature := ae_sign env (getMediaAvailabilitySignableBytes unsigned)\<rparr>)"

definition page_fits :: "announcement \<Rightarrow> bool" where
  "page_fits a \<longleftrightarrow> (case estimateMediaAvailabilityBytes (announcement_value a) of
     None \<Rightarrow> False | Some n \<Rightarrow> n \<le> max_page_bytes)"

fun save_pages :: "announcement list \<Rightarrow> media_repo \<Rightarrow> bool \<times> media_repo" where
  \<comment> \<open>False: a signed page is too large; the pages before it stay saved.\<close>
  "save_pages [] r = (True, r)"
| "save_pages (a # as) r = (if \<not> page_fits a then (False, r) else save_pages as (snd (saveAnnouncement a r)))"

definition announcement_pages :: "announce_env \<Rightarrow> media_item list \<Rightarrow> int \<Rightarrow> media_repo \<Rightarrow> announcement list" where
  "announcement_pages env items now r =
     (let sequence = getLatestAnnouncementSequence (ae_localeCompare env) (ae_localPeerId env) r + 1;
          base = unsigned_page env sequence now;
          pages = paginateAvailabilityItems base (normalizeItems (ae_localeCompare env) items)
      in map (signed_page env base (length pages)) (zip [0..<length pages] pages))"

definition createAnnouncements ::
  "announce_env \<Rightarrow> media_item list \<Rightarrow> int \<Rightarrow> media_repo \<Rightarrow> announcement list option \<times> media_repo" where
  "createAnnouncements env items now r =
     (if normalizeItems (ae_localeCompare env) items = [] then (Some [], r)
      else (let pages = announcement_pages env items now r; (fits, r') = save_pages pages r
            in (if fits then Some pages else None, r')))"

section \<open>Believing\<close>

datatype rejection =
    Rejected_invalid | Rejected_wrong_sender | Rejected_expired | Rejected_future | Rejected_ttl_too_long
  | Rejected_too_large | Rejected_signature | Rejected_stale | Rejected_duplicate | Rejected_conflict

fun rejection_of :: "save_result \<Rightarrow> rejection option" where
  "rejection_of Saved = None"
| "rejection_of Stale_announcement = Some Rejected_stale"
| "rejection_of Duplicate_announcement = Some Rejected_duplicate"
| "rejection_of Conflict_announcement = Some Rejected_conflict"

definition acceptAnnouncement ::
  "announce_env \<Rightarrow> jsval \<Rightarrow> string \<Rightarrow> int \<Rightarrow> media_repo \<Rightarrow> (rejection + announcement) option \<times> media_repo" where
  \<comment> \<open>\<open>None\<close>: the size of the value cannot be estimated, \<open>JSON.stringify\<close> throws.\<close>
  "acceptAnnouncement env v sourcePeerId now r = (case mediaAvailabilityAnnouncementV2 v of
     None \<Rightarrow> (Some (Inl Rejected_invalid), r)
   | Some a \<Rightarrow>
      if an_peerId a \<noteq> sourcePeerId then (Some (Inl Rejected_wrong_sender), r)
      else if an_expiresAt a \<le> now then (Some (Inl Rejected_expired), r)
      else if an_issuedAt a > now + clock_skew env then (Some (Inl Rejected_future), r)
      else if an_expiresAt a \<le> an_issuedAt a \<or> an_expiresAt a - an_issuedAt a > max_ttl_ms
      then (Some (Inl Rejected_ttl_too_long), r)
      else (case estimateMediaAvailabilityBytes v of
          None \<Rightarrow> (None, r)
        | Some n \<Rightarrow>
            if n > max_page_bytes then (Some (Inl Rejected_too_large), r)
            else if \<not> signature_valid env a then (Some (Inl Rejected_signature), r)
            else (case saveAnnouncement a r of (result, r') \<Rightarrow> (case rejection_of result of
                Some reason \<Rightarrow> (Some (Inl reason), r')
              | None \<Rightarrow> (Some (Inr a), r')))))"

end
