(* ===== verification/MediaRepository_Claims.thy ===== *)
theory MediaRepository_Claims
  imports MediaRepository
begin

text \<open>
  What the media repository promises: what is in memory is what the tables are read back as, the latest
  sequence of a peer is not forgotten, a quarantine lasts as long as it was set for, and the peers found
  to hold an object are those whose announcement lists every chunk.
\<close>

section \<open>Rows read back\<close>

lemma status_reads_back [simp]: "downloadStatus (Jv_str (status_name s)) = Some s"
  by (cases s) (simp_all add: downloadStatus_def download_statuses_def)

lemma observation_status_reads_back [simp]: "replicaObservationStatus (Jv_str (observation_name s)) = Some s"
  by (cases s) (simp_all add: replicaObservationStatus_def)

lemma reason_reads_back [simp]: "quarantineReason (Jv_str (quarantine_reason_name s)) = Some s"
  by (cases s) (simp_all add: quarantineReason_def)

lemma nullable_null [simp]: "nullable f (opt_null g None) = Some None"
  by (simp add: nullable_def opt_null_def)

lemma nullable_str [simp]: "nullable str_of (opt_null Jv_str x) = Some x"
  by (cases x) (simp_all add: nullable_def opt_null_def)

lemma nullable_num:
  assumes "\<And>n. x = Some n \<Longrightarrow> f (Jv_num n) = Some n"
  shows "nullable f (opt_null Jv_num x) = Some x"
  using assms by (cases x) (simp_all add: nullable_def opt_null_def)

definition safe_nat :: "int \<Rightarrow> bool" where
  "safe_nat n \<longleftrightarrow> 0 \<le> n \<and> n \<le> 2 ^ 53 - 1"

lemma nonNegativeInteger_num [simp]: "nonNegativeInteger (Jv_num n) = (if safe_nat n then Some n else None)"
  by (auto simp: nonNegativeInteger_def safe_nat_def)

lemma positiveInteger_num [simp]: "positiveInteger (Jv_num n) = (if safe_nat n \<and> n \<noteq> 0 then Some n else None)"
  by (auto simp: positiveInteger_def safe_nat_def)

lemma timestamp_num [simp]: "timestamp_of (Jv_num n) = (if 0 \<le> n then Some n else None)"
  by (simp add: timestamp_of_def)

lemma collect_str [simp]: "collect str_of (map Jv_str xs) = Some xs"
  by (rule collect_map) simp

definition media_item_ok :: "media_item \<Rightarrow> bool" where
  "media_item_ok i \<longleftrightarrow> ma_mediaObjectId i \<noteq> [] \<and> length (ma_mediaObjectId i) \<le> 512
     \<and> length (ma_chunks i) \<le> max_chunks_per_item \<and> (\<forall>c \<in> set (ma_chunks i). c \<noteq> [] \<and> length c \<le> 512)
     \<and> distinct (ma_chunks i) \<and> safe_nat (ma_totalChunks i) \<and> int (length (ma_chunks i)) \<le> ma_totalChunks i
     \<and> 0 \<le> ma_updatedAt i"

lemma uniq_length: "length (js_uniq xs) = length xs \<longleftrightarrow> distinct xs"
  by (metis card_distinct distinct_card distinct_js_uniq js_uniq_id set_js_uniq)

lemma collect_set: "collect f xs = Some ys \<Longrightarrow> y \<in> set ys \<Longrightarrow> \<exists>x \<in> set xs. f x = Some y"
  by (induction xs arbitrary: ys) (auto split: option.splits)

lemma collect_length: "collect f xs = Some ys \<Longrightarrow> length ys = length xs"
  by (induction xs arbitrary: ys) (auto split: option.splits)

lemma boundedString_Some: "boundedString n v = Some s \<longleftrightarrow> v = Jv_str s \<and> s \<noteq> [] \<and> length s \<le> n"
  by (cases v) (auto simp: boundedString_def)

lemma item_guard_sound:
  assumes "mediaAvailabilityItem v = Some i"
  shows "media_item_ok i"
proof -
  obtain xs where x: "collect (boundedString 512) xs = Some (ma_chunks i)" "length xs \<le> max_chunks_per_item"
    "distinct (ma_chunks i)" "int (length (ma_chunks i)) \<le> ma_totalChunks i"
    and f: "boundedString 512 (field v ''mediaObjectId'') = Some (ma_mediaObjectId i)"
      "nonNegativeInteger (field v ''totalChunks'') = Some (ma_totalChunks i)"
      "timestamp_of (field v ''updatedAt'') = Some (ma_updatedAt i)"
    using assms by (auto simp: mediaAvailabilityItem_def uniq_length split: if_splits option.splits)
  have "\<forall>c \<in> set (ma_chunks i). c \<noteq> [] \<and> length c \<le> 512"
    using collect_set [OF x(1)] by (auto simp: boundedString_Some)
  moreover have "safe_nat (ma_totalChunks i)" "0 \<le> ma_updatedAt i"
    using f(2,3) by (auto simp: nonNegativeInteger_def timestamp_of_def safe_nat_def split: option.splits if_splits)
  ultimately show ?thesis
    using x f(1) collect_length [OF x(1)] by (auto simp: media_item_ok_def boundedString_Some)
qed

lemma media_item_reads_back:
  assumes "media_item_ok i"
  shows "mediaAvailabilityItem (item_value i) = Some i"
proof -
  have "collect (boundedString 512) (map Jv_str (ma_chunks i)) = Some (ma_chunks i)"
    using assms by (intro collect_map) (auto simp: media_item_ok_def boundedString_Some)
  moreover have "boundedString 512 (Jv_str (ma_mediaObjectId i)) = Some (ma_mediaObjectId i)"
    using assms by (auto simp: media_item_ok_def boundedString_Some)
  ultimately show ?thesis
    using assms by (simp add: mediaAvailabilityItem_def item_value_def media_item_ok_def uniq_length)
qed

lemma bounded_strings: "collect (boundedString n) (map Jv_str cs) = Some xs \<Longrightarrow> xs = cs"
  by (induction cs arbitrary: xs) (auto simp: boundedString_Some split: option.splits)

lemma valid_item_iff: "isValidItem i \<longleftrightarrow> media_item_ok i"
proof
  assume "isValidItem i"
  then obtain j where j: "mediaAvailabilityItem (item_value i) = Some j" by (auto simp: isValidItem_def)
  then obtain xs where "collect (boundedString 512) (map Jv_str (ma_chunks i)) = Some xs" "ma_chunks j = xs"
    "ma_mediaObjectId j = ma_mediaObjectId i" "ma_totalChunks j = ma_totalChunks i" "ma_updatedAt j = ma_updatedAt i"
    by (auto simp: mediaAvailabilityItem_def item_value_def boundedString_Some split: if_splits option.splits)
  moreover from this(1) have "xs = ma_chunks i" by (rule bounded_strings)
  ultimately show "media_item_ok i" using item_guard_sound [OF j] by (simp add: media_item_ok_def)
qed (simp add: isValidItem_def media_item_reads_back)

definition announcement_ok :: "announcement \<Rightarrow> bool" where
  "announcement_ok a \<longleftrightarrow> an_peerId a \<noteq> [] \<and> length (an_peerId a) \<le> 512 \<and> safe_nat (an_sequence a) \<and> 0 < an_sequence a
     \<and> 0 \<le> an_issuedAt a \<and> 0 \<le> an_expiresAt a \<and> safe_nat (an_pageIndex a) \<and> safe_nat (an_pageCount a)
     \<and> an_pageIndex a < an_pageCount a \<and> an_items a \<noteq> [] \<and> length (an_items a) \<le> max_items_per_page
     \<and> (\<forall>i \<in> set (an_items a). media_item_ok i) \<and> distinct (map ma_mediaObjectId (an_items a))
     \<and> an_signature a \<noteq> [] \<and> length (an_signature a) \<le> 1024"

lemma announcement_guard_sound:
  assumes "mediaAvailabilityAnnouncementV2 v = Some a"
  shows "announcement_ok a"
proof -
  obtain xs where x: "collect mediaAvailabilityItem xs = Some (an_items a)" "0 < length xs" "length xs \<le> max_items_per_page"
    "distinct (map ma_mediaObjectId (an_items a))" "an_pageIndex a < an_pageCount a"
    and f: "boundedString 512 (field v ''peerId'') = Some (an_peerId a)"
      "positiveInteger (field v ''sequence'') = Some (an_sequence a)"
      "timestamp_of (field v ''issuedAt'') = Some (an_issuedAt a)"
      "timestamp_of (field v ''expiresAt'') = Some (an_expiresAt a)"
      "nonNegativeInteger (field v ''pageIndex'') = Some (an_pageIndex a)"
      "positiveInteger (field v ''pageCount'') = Some (an_pageCount a)"
      "boundedString 1024 (field v ''signature'') = Some (an_signature a)"
    using assms uniq_length [of "map ma_mediaObjectId (an_items a)"]
    by (auto simp: mediaAvailabilityAnnouncementV2_def split: if_splits option.splits)
  have "\<forall>i \<in> set (an_items a). media_item_ok i" using collect_set [OF x(1)] item_guard_sound by blast
  moreover have "safe_nat (an_sequence a) \<and> 0 < an_sequence a" "safe_nat (an_pageIndex a)" "safe_nat (an_pageCount a)"
    using f(2,5,6) by (auto simp: positiveInteger_def nonNegativeInteger_def safe_nat_def split: option.splits if_splits)
  moreover have "0 \<le> an_issuedAt a" "0 \<le> an_expiresAt a"
    using f(3,4) by (auto simp: timestamp_of_def split: option.splits if_splits)
  ultimately show ?thesis
    using x f(1,7) collect_length [OF x(1)] by (auto simp: announcement_ok_def boundedString_Some)
qed

lemma announcement_reads_back:
  assumes "announcement_ok a"
  shows "mediaAvailabilityAnnouncementV2 (announcement_value a) = Some a"
proof -
  have "collect mediaAvailabilityItem (map item_value (an_items a)) = Some (an_items a)"
    using assms by (intro collect_map media_item_reads_back) (auto simp: announcement_ok_def)
  moreover have "boundedString 512 (Jv_str (an_peerId a)) = Some (an_peerId a)"
    "boundedString 1024 (Jv_str (an_signature a)) = Some (an_signature a)"
    using assms by (auto simp: announcement_ok_def boundedString_Some)
  moreover have "length (js_uniq (map ma_mediaObjectId (an_items a))) = length (an_items a)"
    using assms uniq_length [of "map ma_mediaObjectId (an_items a)"] by (simp add: announcement_ok_def)
  moreover have "an_pageCount a \<noteq> 0" using assms by (auto simp: announcement_ok_def safe_nat_def)
  ultimately show ?thesis
    using assms by (simp add: mediaAvailabilityAnnouncementV2_def announcement_value_def unsigned_fields_def announcement_ok_def)
qed


section \<open>Maps and their tables\<close>

text \<open>A table holds the row of every entry of a map, and nothing else.\<close>

definition mirrors :: "('v \<Rightarrow> string) \<Rightarrow> ('v \<Rightarrow> 'r) \<Rightarrow> ('v \<Rightarrow> bool) \<Rightarrow> (string, 'v) jsmap \<Rightarrow> (string, 'r) jsmap \<Rightarrow> bool" where
  "mirrors key row P m t \<longleftrightarrow> distinct (jm_keys m) \<and> distinct (jm_keys t)
     \<and> (\<forall>k. jm_get t k = map_option row (jm_get m k)) \<and> (\<forall>k v. jm_get m k = Some v \<longrightarrow> key v = k \<and> P v)"

lemma mirrors_empty: "mirrors key row P [] []"
  by (simp add: mirrors_def)

lemma distinct_insert_or_replace: "distinct (jm_keys t) \<Longrightarrow> distinct (jm_keys (insert_or_replace k v t))"
  using jm_keys_delete_distinct [of t k] by (auto simp: insert_or_replace_def AList.delete_eq)

lemma mirrors_put:
  assumes "mirrors key row P m t" and "P v" and "k = key v"
  shows "mirrors key row P (jm_set k v m) (insert_or_replace k (row v) t)"
  using assms by (auto simp: mirrors_def distinct_update distinct_insert_or_replace get_insert_or_replace jm.get_put split: if_splits)

lemma mirrors_remove:
  assumes "mirrors key row P m t"
  shows "mirrors key row P (jm_delete k m) (jm_delete k t)"
  using assms by (auto simp: mirrors_def jm_keys_delete_distinct jm.get_remove split: if_splits)

lemma mirrors_remove_all: "mirrors key row P m t \<Longrightarrow> mirrors key row P (fold jm_delete ks m) (fold jm_delete ks t)"
  by (induction ks arbitrary: m t) (auto intro: mirrors_remove)

lemma mirrors_mono: "mirrors key row P m t \<Longrightarrow> (\<And>v. P v \<Longrightarrow> Q v) \<Longrightarrow> mirrors key row Q m t"
  by (auto simp: mirrors_def)

lemma mirrored_row:
  assumes "mirrors key row P m t" and "(k, x) \<in> set t"
  shows "\<exists>v. x = row v \<and> P v \<and> key v = k \<and> jm_get m k = Some v"
proof -
  have "distinct (jm_keys t)" using assms(1) by (simp add: mirrors_def)
  then have "jm_get t k = Some x" using assms(2) by simp
  moreover have "jm_get t k = map_option row (jm_get m k)" using assms(1) by (simp add: mirrors_def)
  ultimately obtain v where "jm_get m k = Some v" "x = row v" by (metis map_option_eq_Some)
  then show ?thesis using assms(1) by (auto simp: mirrors_def)
qed

text \<open>Reading a table gives the map back, whatever the order of its rows.\<close>

lemma get_fold_set:
  assumes "distinct (map key vs)"
  shows "jm_get (fold (\<lambda>v. jm_set (key v) v) vs m) k = (case find (\<lambda>v. key v = k) vs of None \<Rightarrow> jm_get m k | Some v \<Rightarrow> Some v)"
  using assms
proof (induction vs arbitrary: m)
  case (Cons v vs)
  have "find (\<lambda>w. key w = key v) vs = None"
    using Cons.prems by (simp add: find_None_iff image_iff) metis
  then show ?case using Cons by (auto simp: jm.get_put split: option.splits)
qed simp

lemma find_key:
  assumes "distinct (map key vs)"
  shows "find (\<lambda>v. key v = k) vs = Some v \<longleftrightarrow> v \<in> set vs \<and> key v = k"
proof
  assume "v \<in> set vs \<and> key v = k"
  then obtain w where "find (\<lambda>v. key v = k) vs = Some w" by (cases "find (\<lambda>v. key v = k) vs") (auto simp: find_None_iff)
  moreover from this have "w \<in> set vs" "key w = k" by (auto simp: find_Some_iff)
  ultimately show "find (\<lambda>v. key v = k) vs = Some v"
    using assms \<open>v \<in> set vs \<and> key v = k\<close> by (metis distinct_map inj_onD)
qed (auto simp: find_Some_iff)

text \<open>What a table needs of the rows of its entries: that they are read back.\<close>

locale row_codec =
  fixes key :: "'v \<Rightarrow> string"
    and row :: "'v \<Rightarrow> 'r"
    and decode :: "'r \<Rightarrow> 'v option"
    and ok :: "'v \<Rightarrow> bool"
  assumes reads_back: "ok v \<Longrightarrow> decode (row v) = Some v"
begin

lemma mirrors_reload:
  assumes m: "mirrors key row ok m t"
  shows "\<exists>vs. collect decode (jm_values t) = Some vs
    \<and> (\<forall>k. jm_get (fold (\<lambda>v. jm_set (key v) v) vs []) k = jm_get m k)"
proof -
  let ?vs = "map (\<lambda>(k, x). the (jm_get m k)) t"
  have at: "x = row (the (jm_get m k)) \<and> ok (the (jm_get m k)) \<and> key (the (jm_get m k)) = k" if "(k, x) \<in> set t" for k x
    using mirrored_row [OF m that] by auto
  have "collect decode (map snd u) = Some (map (\<lambda>(k, x). the (jm_get m k)) u)" if "set u \<subseteq> set t" for u
    using that
  proof (induction u)
    case (Cons e u)
    then show ?case using at [of "fst e" "snd e"] reads_back by (cases e) auto
  qed simp
  then have c: "collect decode (jm_values t) = Some ?vs" by blast
  have "map key ?vs = jm_keys t" unfolding map_map by (rule map_cong [OF refl]) (use at in auto)
  then have d: "distinct (map key ?vs)" using m unfolding mirrors_def by metis
  have "jm_get (fold (\<lambda>v. jm_set (key v) v) ?vs []) k = jm_get m k" for k
  proof -
    have "find (\<lambda>v. key v = k) ?vs = jm_get m k"
    proof (rule option_eqI_iff)
      fix v
      have "v \<in> set ?vs \<and> key v = k \<longleftrightarrow> jm_get m k = Some v"
      proof
        assume "v \<in> set ?vs \<and> key v = k"
        then obtain k' x where "(k', x) \<in> set t" "v = the (jm_get m k')" "key v = k" by auto
        then show "jm_get m k = Some v" using mirrored_row [OF m, of k' x] by auto
      next
        assume v: "jm_get m k = Some v"
        then have "jm_get t k = Some (row v)" "key v = k" using m by (auto simp: mirrors_def)
        then have "(k, row v) \<in> set t" by (simp add: map_of_SomeD)
        then show "v \<in> set ?vs \<and> key v = k" using v \<open>key v = k\<close> by force
      qed
      then show "find (\<lambda>v. key v = k) ?vs = Some v \<longleftrightarrow> jm_get m k = Some v" using find_key [OF d] by blast
    qed
    then show ?thesis unfolding get_fold_set [OF d] by (simp split: option.split)
  qed
  then show ?thesis using c by blast
qed

end

definition state_ok :: "download_state \<Rightarrow> bool" where
  "state_ok s \<longleftrightarrow> safe_nat (md_totalChunks s) \<and> safe_nat (md_downloadedChunks s) \<and> safe_nat (md_requestedChunks s)
     \<and> safe_nat (md_failedChunks s) \<and> distinct (md_candidatePeers s) \<and> 0 \<le> md_updatedAt s"

definition observation_ok :: "int \<Rightarrow> observation \<Rightarrow> bool" where
  "observation_ok n x \<longleftrightarrow> 0 \<le> ob_successCount x \<and> ob_successCount x \<le> n \<and> 0 \<le> ob_failureCount x \<and> ob_failureCount x \<le> n
     \<and> (\<forall>l. ob_latencyMs x = Some l \<longrightarrow> safe_nat l) \<and> (\<forall>l. ob_validUntil x = Some l \<longrightarrow> 0 \<le> l) \<and> 0 \<le> ob_updatedAt x"

definition quarantine_ok :: "int \<Rightarrow> quarantine \<Rightarrow> bool" where
  "quarantine_ok n q \<longleftrightarrow> 0 < qr_failureCount q \<and> qr_failureCount q \<le> n \<and> 0 \<le> qr_startedAt q
     \<and> qr_startedAt q < qr_expiresAt q"

definition access_ok :: "access_record \<Rightarrow> bool" where
  "access_ok a \<longleftrightarrow> 0 \<le> ac_lastAccessedAt a \<and> 0 \<le> ac_updatedAt a"

definition manifest_ok :: "media_manifest \<Rightarrow> bool" where
  "manifest_ok m \<longleftrightarrow> 0 \<le> mn_updatedAt m \<and> (\<forall>i \<in> set (mn_items m). media_item_ok i)"

abbreviation max_safe :: int where
  "max_safe \<equiv> 2 ^ 53 - 1"

interpretation jobs: row_codec md_mediaObjectId job_row_of mapDownloadStateRow state_ok
  by unfold_locales (simp add: mapDownloadStateRow_def job_row_of_def mediaDownloadState_def state_ok_def
      normalizeDownloadState_def safe_nat_def js_uniq_id undefined_for_null_def opt_null_def opt_field_def split: option.split)

interpretation observations: row_codec ob_id observation_row_of replicaObservationRow "observation_ok max_safe"
proof
  fix x
  assume x: "observation_ok max_safe x"
  then have "nullable nonNegativeInteger (opt_null Jv_num (ob_latencyMs x)) = Some (ob_latencyMs x)"
    "nullable timestamp_of (opt_null Jv_num (ob_validUntil x)) = Some (ob_validUntil x)"
    by (auto simp: observation_ok_def intro!: nullable_num)
  then show "replicaObservationRow (observation_row_of x) = Some x"
    using x by (simp add: replicaObservationRow_def observation_row_of_def observation_ok_def safe_nat_def)
qed

interpretation quarantines: row_codec qr_id quarantine_row_of quarantineRow "quarantine_ok max_safe"
  by unfold_locales (auto simp: quarantineRow_def quarantine_row_of_def quarantine_ok_def safe_nat_def)

interpretation access: row_codec ac_mediaObjectId access_row_of accessRow access_ok
  by unfold_locales (simp add: accessRow_def access_row_of_def access_ok_def)

lemma normalized_manifest: "manifest_ok m \<Longrightarrow> normalizeManifest m = m"
proof -
  assume m: "manifest_ok m"
  have "map (\<lambda>i. i\<lparr>ma_chunks := js_uniq (ma_chunks i), ma_totalChunks := max (ma_totalChunks i) (int (length (ma_chunks i)))\<rparr>)
      (mn_items m) = mn_items m"
    using m by (intro map_idI) (auto simp: manifest_ok_def media_item_ok_def js_uniq_id max_def)
  moreover have "filter isValidItem (mn_items m) = mn_items m"
    using m by (simp add: filter_id_conv manifest_ok_def valid_item_iff)
  ultimately show ?thesis by (simp add: normalizeManifest_def)
qed

lemma media_manifest_reads_back: "manifest_ok m \<Longrightarrow> mapAvailabilityRow (manifest_row_of m) = Some (Legacy_record m)"
proof -
  assume m: "manifest_ok m"
  then have "collect mediaAvailabilityItem (map item_value (mn_items m)) = Some (mn_items m)"
    by (intro collect_map media_item_reads_back) (simp add: manifest_ok_def)
  then show ?thesis
    using m normalized_manifest [OF m]
    by (cases m) (simp add: mapAvailabilityRow_def manifest_row_of_def mediaAvailabilityManifest_def manifest_ok_def)
qed

lemma announcement_row_reads_back:
  "announcement_ok a \<Longrightarrow> mapAvailabilityRow (announcement_row_of a) = Some (Signed_record a)"
  by (simp add: mapAvailabilityRow_def announcement_row_of_def announcement_reads_back)

text \<open>The table of announcements also holds old manifests, under the identifiers of their peers.\<close>

definition plain_id :: "string \<Rightarrow> bool" where
  "plain_id p \<longleftrightarrow> take 19 p \<noteq> ''media_availability_''"

lemma announcement_id_not_plain: "\<not> plain_id (createAnnouncementId a)"
  by (simp add: plain_id_def createAnnouncementId_def)

definition availability_ok ::
  "(string, announcement) jsmap \<Rightarrow> (string, media_manifest) jsmap \<Rightarrow> (string, availability_row) jsmap \<Rightarrow> bool" where
  "availability_ok anns mans t \<longleftrightarrow> distinct (jm_keys anns) \<and> distinct (jm_keys t)
     \<and> (\<forall>i a. jm_get anns i = Some a \<longrightarrow> i = createAnnouncementId a \<and> announcement_ok a
          \<and> jm_get t i = Some (announcement_row_of a))
     \<and> (\<forall>p m. jm_get mans p = Some m \<longrightarrow> p = mn_peerId m \<and> manifest_ok m \<and> plain_id p)
     \<and> (\<forall>k w. jm_get t k = Some w \<longrightarrow> (\<exists>a. jm_get anns k = Some a \<and> w = announcement_row_of a)
          \<or> (\<exists>m. jm_get mans k = Some m \<and> w = manifest_row_of m))"

fun stored_key :: "stored_availability \<Rightarrow> string" where
  "stored_key (Legacy_record m) = mn_peerId m"
| "stored_key (Signed_record a) = createAnnouncementId a"

fun signed_part :: "stored_availability \<Rightarrow> announcement option" where
  "signed_part (Signed_record a) = Some a"
| "signed_part (Legacy_record m) = None"

fun legacy_part :: "stored_availability \<Rightarrow> media_manifest option" where
  "legacy_part (Legacy_record m) = Some m"
| "legacy_part (Signed_record a) = None"

lemma fold_signed: "fold (\<lambda>x. case x of Signed_record a \<Rightarrow> jm_set (createAnnouncementId a) a | _ \<Rightarrow> id) vs m
    = fold (\<lambda>a. jm_set (createAnnouncementId a) a) (List.map_filter signed_part vs) m"
  by (induction vs arbitrary: m) (auto simp: List.map_filter_def split: stored_availability.splits)

lemma fold_legacy: "fold (\<lambda>x. case x of Legacy_record x \<Rightarrow> jm_set (mn_peerId x) x | _ \<Rightarrow> id) vs m
    = fold (\<lambda>x. jm_set (mn_peerId x) x) (List.map_filter legacy_part vs) m"
  by (induction vs arbitrary: m) (auto simp: List.map_filter_def split: stored_availability.splits)

lemma set_signed: "a \<in> set (List.map_filter signed_part vs) \<longleftrightarrow> Signed_record a \<in> set vs"
  by (induction vs) (auto simp: List.map_filter_def elim: signed_part.elims)

lemma set_legacy: "m \<in> set (List.map_filter legacy_part vs) \<longleftrightarrow> Legacy_record m \<in> set vs"
  by (induction vs) (auto simp: List.map_filter_def elim: legacy_part.elims)

lemma distinct_signed: "distinct (map stored_key vs) \<Longrightarrow> distinct (map createAnnouncementId (List.map_filter signed_part vs))"
proof (induction vs)
  case (Cons v vs)
  have "Signed_record b \<in> set vs \<Longrightarrow> createAnnouncementId b \<in> stored_key ` set vs" for b
    by (metis image_eqI stored_key.simps(2))
  then show ?case
    using Cons by (cases v) (auto simp: List.map_filter_simps set_signed)
qed (simp add: List.map_filter_def)

lemma distinct_legacy: "distinct (map stored_key vs) \<Longrightarrow> distinct (map mn_peerId (List.map_filter legacy_part vs))"
proof (induction vs)
  case (Cons v vs)
  have "Legacy_record b \<in> set vs \<Longrightarrow> mn_peerId b \<in> stored_key ` set vs" for b
    by (metis image_eqI stored_key.simps(1))
  then show ?case
    using Cons by (cases v) (auto simp: List.map_filter_simps set_legacy)
qed (simp add: List.map_filter_def)


lemma availability_reload:
  assumes ok: "availability_ok anns mans t"
  shows "\<exists>vs. collect mapAvailabilityRow (jm_values t) = Some vs
    \<and> (\<forall>k. jm_get (fold (\<lambda>x. case x of Signed_record a \<Rightarrow> jm_set (createAnnouncementId a) a | _ \<Rightarrow> id) vs []) k = jm_get anns k)
    \<and> (\<forall>k m. jm_get (fold (\<lambda>x. case x of Legacy_record m \<Rightarrow> jm_set (mn_peerId m) m | _ \<Rightarrow> id) vs []) k = Some m
         \<longrightarrow> jm_get mans k = Some m)"
proof -
  let ?v = "\<lambda>w. the (mapAvailabilityRow w)"
  let ?vs = "map (\<lambda>(k, w). ?v w) t"
  have d: "distinct (jm_keys t)" using ok by (simp add: availability_ok_def)
  have row: "mapAvailabilityRow w = Some (?v w) \<and> stored_key (?v w) = k
      \<and> (\<forall>a. ?v w = Signed_record a \<longrightarrow> jm_get anns k = Some a) \<and> (\<forall>m. ?v w = Legacy_record m \<longrightarrow> jm_get mans k = Some m)"
    if "(k, w) \<in> set t" for k w
  proof -
    have "jm_get t k = Some w" using d that by simp
    then consider a where "jm_get anns k = Some a" "w = announcement_row_of a"
      | m where "jm_get mans k = Some m" "w = manifest_row_of m"
      using ok unfolding availability_ok_def by blast
    then show ?thesis
    proof cases
      case 1
      then have "k = createAnnouncementId a" "announcement_ok a" using ok unfolding availability_ok_def by blast+
      then show ?thesis using 1 announcement_row_reads_back by simp
    next
      case 2
      then have "k = mn_peerId m" "manifest_ok m" using ok unfolding availability_ok_def by blast+
      then show ?thesis using 2 media_manifest_reads_back by simp
    qed
  qed
  have "collect mapAvailabilityRow (map snd u) = Some (map (\<lambda>(k, w). ?v w) u)" if "set u \<subseteq> set t" for u
    using that
  proof (induction u)
    case (Cons e u)
    obtain k w where e: "e = (k, w)" by (cases e)
    then have "mapAvailabilityRow w = Some (?v w)" using row [of k w] Cons.prems by auto
    then obtain y where y: "mapAvailabilityRow w = Some y" by blast
    then show ?case using Cons by (simp add: e)
  qed simp
  then have c: "collect mapAvailabilityRow (jm_values t) = Some ?vs" by blast
  have "map stored_key ?vs = jm_keys t" unfolding map_map by (rule map_cong [OF refl]) (use row in auto)
  then have keys: "distinct (map stored_key ?vs)" using d by metis
  have signed: "find (\<lambda>a. createAnnouncementId a = k) (List.map_filter signed_part ?vs) = jm_get anns k" for k
  proof (rule option_eqI_iff)
    fix a
    have "Signed_record a \<in> set ?vs \<and> createAnnouncementId a = k \<longleftrightarrow> jm_get anns k = Some a"
    proof
      assume "Signed_record a \<in> set ?vs \<and> createAnnouncementId a = k"
      then obtain k' w where "(k', w) \<in> set t" "?v w = Signed_record a" "createAnnouncementId a = k" by auto
      then show "jm_get anns k = Some a" using row [of k' w] by auto
    next
      assume a: "jm_get anns k = Some a"
      then have k: "createAnnouncementId a = k" "announcement_ok a" "jm_get t k = Some (announcement_row_of a)"
        using ok unfolding availability_ok_def by blast+
      then have "(k, announcement_row_of a) \<in> set t" by (simp add: map_of_SomeD)
      then have "Signed_record a \<in> set ?vs" using announcement_row_reads_back [OF k(2)] by force
      then show "Signed_record a \<in> set ?vs \<and> createAnnouncementId a = k" using k(1) by simp
    qed
    then show "find (\<lambda>a. createAnnouncementId a = k) (List.map_filter signed_part ?vs) = Some a \<longleftrightarrow> jm_get anns k = Some a"
      using find_key [OF distinct_signed [OF keys]] set_signed by metis
  qed
  have legacy: "jm_get mans k = Some m" if "find (\<lambda>m. mn_peerId m = k) (List.map_filter legacy_part ?vs) = Some m" for k m
  proof -
    have "Legacy_record m \<in> set ?vs" "mn_peerId m = k"
      using that find_key [OF distinct_legacy [OF keys]] set_legacy by metis+
    then show ?thesis using row by fastforce
  qed
  show ?thesis
    using c signed legacy
    by (intro exI [of _ ?vs]) (simp add: fold_signed fold_legacy get_fold_set [OF distinct_signed [OF keys]]
        get_fold_set [OF distinct_legacy [OF keys]] split: option.splits)
qed

text \<open>A repository whose tables are read back as what it holds.\<close>

definition repo_ok :: "int \<Rightarrow> media_repo \<Rightarrow> bool" where
  "repo_ok n r \<longleftrightarrow> 0 \<le> n \<and> mirrors md_mediaObjectId job_row_of state_ok (mp_states r) (db_jobs (mp_db r))
     \<and> mirrors ob_id observation_row_of (observation_ok n) (mp_observations r) (db_observations (mp_db r))
     \<and> mirrors qr_id quarantine_row_of (quarantine_ok n) (mp_quarantines r) (db_quarantines (mp_db r))
     \<and> mirrors ac_mediaObjectId access_row_of access_ok (mp_access r) (db_access (mp_db r))
     \<and> availability_ok (mp_announcements r) (mp_manifests r) (db_availability (mp_db r))"

definition same_contents :: "media_repo \<Rightarrow> media_repo \<Rightarrow> bool" where
  "same_contents r r' \<longleftrightarrow> jm_get (mp_states r') = jm_get (mp_states r)
     \<and> jm_get (mp_announcements r') = jm_get (mp_announcements r)
     \<and> jm_get (mp_observations r') = jm_get (mp_observations r)
     \<and> jm_get (mp_quarantines r') = jm_get (mp_quarantines r) \<and> jm_get (mp_access r') = jm_get (mp_access r)
     \<and> map_le (jm_get (mp_manifests r')) (jm_get (mp_manifests r))"

lemma rows_pass:
  assumes "repo_ok n r"
  shows "list_all assertDownloadJobRow (jm_values (db_jobs (mp_db r)))"
    and "list_all assertAvailabilityRow (jm_values (db_availability (mp_db r)))"
proof -
  have "assertDownloadJobRow (job_row_of s)" if "state_ok s" for s
    using that by (cases "md_error s") (simp_all add: assertDownloadJobRow_def job_row_of_def state_ok_def nullable_def opt_null_def)
  then show "list_all assertDownloadJobRow (jm_values (db_jobs (mp_db r)))"
    using assms mirrored_row [of md_mediaObjectId job_row_of state_ok "mp_states r" "db_jobs (mp_db r)"]
    by (fastforce simp: repo_ok_def list_all_iff)
  have ok: "availability_ok (mp_announcements r) (mp_manifests r) (db_availability (mp_db r))"
    using assms by (simp add: repo_ok_def)
  show "list_all assertAvailabilityRow (jm_values (db_availability (mp_db r)))"
    unfolding list_all_iff
  proof
    fix w
    assume "w \<in> set (jm_values (db_availability (mp_db r)))"
    then obtain k where "(k, w) \<in> set (db_availability (mp_db r))" by auto
    then have "jm_get (db_availability (mp_db r)) k = Some w" using ok by (simp add: availability_ok_def)
    then consider a where "announcement_ok a" "w = announcement_row_of a" | m where "manifest_ok m" "w = manifest_row_of m"
      using ok unfolding availability_ok_def by blast
    then show "assertAvailabilityRow w"
      by cases (simp_all add: assertAvailabilityRow_def announcement_row_of_def manifest_row_of_def
          announcement_ok_def manifest_ok_def)
  qed
qed

lemma repository_reload:
  assumes ok: "repo_ok n r" and n: "n \<le> max_safe"
  shows "\<exists>r'. loadPersistedData (mp_db r) = Some r' \<and> same_contents r r'"
proof -
  have "mirrors ob_id observation_row_of (observation_ok max_safe) (mp_observations r) (db_observations (mp_db r))"
    using ok n unfolding repo_ok_def by (auto elim!: mirrors_mono simp: observation_ok_def)
  then obtain os where os: "collect replicaObservationRow (jm_values (db_observations (mp_db r))) = Some os"
    "\<forall>k. jm_get (fold (\<lambda>v. jm_set (ob_id v) v) os []) k = jm_get (mp_observations r) k"
    using observations.mirrors_reload by blast
  have "mirrors qr_id quarantine_row_of (quarantine_ok max_safe) (mp_quarantines r) (db_quarantines (mp_db r))"
    using ok n unfolding repo_ok_def by (auto elim!: mirrors_mono simp: quarantine_ok_def)
  then obtain qs where qs: "collect quarantineRow (jm_values (db_quarantines (mp_db r))) = Some qs"
    "\<forall>k. jm_get (fold (\<lambda>v. jm_set (qr_id v) v) qs []) k = jm_get (mp_quarantines r) k"
    using quarantines.mirrors_reload by blast
  obtain ss where ss: "collect mapDownloadStateRow (jm_values (db_jobs (mp_db r))) = Some ss"
    "\<forall>k. jm_get (fold (\<lambda>v. jm_set (md_mediaObjectId v) v) ss []) k = jm_get (mp_states r) k"
    using ok jobs.mirrors_reload unfolding repo_ok_def by blast
  obtain as where as: "collect accessRow (jm_values (db_access (mp_db r))) = Some as"
    "\<forall>k. jm_get (fold (\<lambda>v. jm_set (ac_mediaObjectId v) v) as []) k = jm_get (mp_access r) k"
    using ok access.mirrors_reload unfolding repo_ok_def by blast
  have "availability_ok (mp_announcements r) (mp_manifests r) (db_availability (mp_db r))"
    using ok by (simp add: repo_ok_def)
  from availability_reload [OF this] obtain vs where vs:
    "collect mapAvailabilityRow (jm_values (db_availability (mp_db r))) = Some vs"
    "\<forall>k. jm_get (fold (\<lambda>x. case x of Signed_record a \<Rightarrow> jm_set (createAnnouncementId a) a | _ \<Rightarrow> id) vs []) k
       = jm_get (mp_announcements r) k"
    "\<forall>k m. jm_get (fold (\<lambda>x. case x of Legacy_record m \<Rightarrow> jm_set (mn_peerId m) m | _ \<Rightarrow> id) vs []) k = Some m
       \<longrightarrow> jm_get (mp_manifests r) k = Some m" by blast
  let ?r' = "\<lparr>mp_states = fold (\<lambda>s. jm_set (md_mediaObjectId s) s) ss [],
    mp_manifests = fold (\<lambda>x. case x of Legacy_record m \<Rightarrow> jm_set (mn_peerId m) m | _ \<Rightarrow> id) vs [],
    mp_announcements = fold (\<lambda>x. case x of Signed_record a \<Rightarrow> jm_set (createAnnouncementId a) a | _ \<Rightarrow> id) vs [],
    mp_observations = fold (\<lambda>x. jm_set (ob_id x) x) os [], mp_quarantines = fold (\<lambda>q. jm_set (qr_id q) q) qs [],
    mp_access = fold (\<lambda>a. jm_set (ac_mediaObjectId a) a) as [], mp_db = mp_db r\<rparr>"
  have "loadPersistedData (mp_db r) = Some ?r'"
    by (simp add: loadPersistedData_def rows_pass [OF ok] os(1) qs(1) ss(1) as(1) vs(1))
  moreover have "map_le (jm_get (mp_manifests ?r')) (jm_get (mp_manifests r))"
    unfolding map_le_def media_repo.select_convs
  proof
    let ?m = "jm_get (fold (\<lambda>x. case x of Legacy_record m \<Rightarrow> jm_set (mn_peerId m) m | _ \<Rightarrow> id) vs [])"
    fix k
    assume "k \<in> dom ?m"
    then obtain m where "?m k = Some m" by blast
    then show "?m k = jm_get (mp_manifests r) k" using vs(3) by simp
  qed
  then have "same_contents r ?r'"
    unfolding same_contents_def fun_eq_iff using os(2) qs(2) ss(2) as(2) vs(2) by simp
  ultimately show ?thesis by blast
qed


section \<open>Operations\<close>

datatype repo_op =
    Save_state download_state
  | Remove_state string
  | Save_manifest media_manifest
  | Chunk_available string string string int
  | Save_announcement announcement
  | Remove_announcement announcement
  | Prune_announcements int
  | Replica_result replica_result int
  | Quarantine quarantine_input int
  | Prune_quarantines int
  | Touch_access string int
  | Protect_access string bool int
  | Remove_access string
  | Clear_all

fun repo_step :: "media_repo \<Rightarrow> repo_op \<Rightarrow> media_repo" where
  "repo_step r (Save_state s) = saveState s r"
| "repo_step r (Remove_state i) = removeState i r"
| "repo_step r (Save_manifest m) = saveManifest m r"
| "repo_step r (Chunk_available p m c now) = recordChunkAvailability p m c now r"
| "repo_step r (Save_announcement a) = snd (saveAnnouncement a r)"
| "repo_step r (Remove_announcement a) = removeAnnouncement a r"
| "repo_step r (Prune_announcements now) = snd (pruneExpiredAnnouncements now r)"
| "repo_step r (Replica_result x now) = snd (recordReplicaResult x now r)"
| "repo_step r (Quarantine x now) = snd (quarantineReplica x now r)"
| "repo_step r (Prune_quarantines now) = snd (pruneExpiredQuarantines now r)"
| "repo_step r (Touch_access i now) = snd (touchMediaAccess i now r)"
| "repo_step r (Protect_access i b now) = snd (setMediaProtected i b now r)"
| "repo_step r (Remove_access i) = removeMediaAccess i r"
| "repo_step r Clear_all = clearMedia r"

text \<open>Arguments of the declared types: counters are safe integers, times are not negative, announcements
  passed the guard, and the identifier of a peer is none of an announcement.\<close>

fun op_ok :: "repo_op \<Rightarrow> bool" where
  "op_ok (Save_state s) \<longleftrightarrow> md_totalChunks s \<le> max_safe \<and> md_downloadedChunks s \<le> max_safe
     \<and> md_requestedChunks s \<le> max_safe \<and> md_failedChunks s \<le> max_safe \<and> 0 \<le> md_updatedAt s"
| "op_ok (Save_manifest m) \<longleftrightarrow> 0 \<le> mn_updatedAt m \<and> plain_id (mn_peerId m)"
| "op_ok (Chunk_available p m c now) \<longleftrightarrow> 0 \<le> now \<and> plain_id p"
| "op_ok (Save_announcement a) \<longleftrightarrow> announcement_ok a"
| "op_ok (Replica_result x now) \<longleftrightarrow> 0 \<le> now \<and> (\<forall>l. rr_latencyMs x = Some l \<longrightarrow> safe_nat l)
     \<and> (\<forall>l. rr_validUntil x = Some l \<longrightarrow> 0 \<le> l)"
| "op_ok (Quarantine x now) \<longleftrightarrow> 0 \<le> now"
| "op_ok (Touch_access i now) \<longleftrightarrow> 0 \<le> now"
| "op_ok (Protect_access i b now) \<longleftrightarrow> 0 \<le> now"
| "op_ok _ \<longleftrightarrow> True"

lemma repo_ok_more: "repo_ok n r \<Longrightarrow> n \<le> n' \<Longrightarrow> repo_ok n' r"
  unfolding repo_ok_def
  by (auto elim!: mirrors_mono simp: observation_ok_def quarantine_ok_def)

lemma save_state_ok:
  assumes "repo_ok n r" and "op_ok (Save_state s)"
  shows "repo_ok n (saveState s r)"
proof -
  have "state_ok (normalizeDownloadState s)"
    using assms(2) by (simp add: state_ok_def normalizeDownloadState_def safe_nat_def)
  then show ?thesis
    using assms(1) by (simp add: repo_ok_def saveState_def writeState_def Let_def mirrors_put)
qed

lemma normalized_manifest_ok: "0 \<le> mn_updatedAt m \<Longrightarrow> manifest_ok (normalizeManifest m)"
  by (auto simp: manifest_ok_def normalizeManifest_def valid_item_iff media_item_ok_def js_uniq_id safe_nat_def max_def)

lemma save_manifest_ok:
  assumes "repo_ok n r" and "0 \<le> mn_updatedAt m" and "plain_id (mn_peerId m)"
  shows "repo_ok n (saveManifest m r)"
proof -
  let ?m = "normalizeManifest m"
  have p: "mn_peerId ?m = mn_peerId m" by (simp add: normalizeManifest_def)
  have ok: "availability_ok (mp_announcements r) (mp_manifests r) (db_availability (mp_db r))"
    using assms(1) by (simp add: repo_ok_def)
  have new: "jm_get (mp_announcements r) (mn_peerId m) = None"
  proof (rule ccontr)
    assume "jm_get (mp_announcements r) (mn_peerId m) \<noteq> None"
    then obtain a where "mn_peerId m = createAnnouncementId a" using ok unfolding availability_ok_def by blast
    then show False using assms(3) announcement_id_not_plain by simp
  qed
  have "availability_ok (mp_announcements r) (jm_set (mn_peerId ?m) ?m (mp_manifests r))
      (insert_or_replace (mn_peerId ?m) (manifest_row_of ?m) (db_availability (mp_db r)))"
    using ok new normalized_manifest_ok [OF assms(2)] assms(3)
    unfolding availability_ok_def p get_insert_or_replace jm.get_put
    by (auto simp: distinct_insert_or_replace p simp del: map_of_eq_Some_iff split: if_splits)
  then show ?thesis using assms(1) by (simp add: repo_ok_def saveManifest_def writeManifest_def Let_def)
qed

lemma chunk_available_ok: "repo_ok n r \<Longrightarrow> 0 \<le> now \<Longrightarrow> plain_id p \<Longrightarrow> repo_ok n (recordChunkAvailability p m c now r)"
  by (simp add: recordChunkAvailability_def Let_def save_manifest_ok)

lemma replica_result_ok:
  assumes "repo_ok n r" and "op_ok (Replica_result x now)"
  shows "repo_ok (n + 1) (snd (recordReplicaResult x now r))"
proof -
  let ?i = "createReplicaObservationId (rr_peerId x) (rr_mediaObjectId x) (rr_chunkId x)"
  let ?o = "fst (recordReplicaResult x now r)"
  have "observation_ok n c" if "jm_get (mp_observations r) ?i = Some c" for c
    using assms(1) that unfolding repo_ok_def mirrors_def by blast
  moreover have "0 \<le> n" using assms(1) by (simp add: repo_ok_def)
  ultimately have "observation_ok (n + 1) ?o"
    using assms(2) by (auto simp: recordReplicaResult_def Let_def observation_ok_def bind_eq_Some_conv split: option.split)
  moreover have "ob_id ?o = ?i" by (simp add: recordReplicaResult_def Let_def)
  moreover have "snd (recordReplicaResult x now r)
      = r\<lparr>mp_db := writeReplicaObservation ?o (mp_db r), mp_observations := jm_set ?i ?o (mp_observations r)\<rparr>"
    by (simp add: recordReplicaResult_def Let_def)
  moreover have "repo_ok (n + 1) r" using assms(1) by (rule repo_ok_more) simp
  ultimately show ?thesis by (simp add: repo_ok_def writeReplicaObservation_def mirrors_put)
qed

lemma quarantine_step_ok:
  assumes "repo_ok n r" and "0 \<le> now"
  shows "repo_ok (n + 1) (snd (quarantineReplica x now r))"
proof -
  let ?i = "createQuarantineId (qi_peerId x) (qi_mediaObjectId x) (qi_chunkId x)"
  let ?q = "fst (quarantineReplica x now r)"
  have "quarantine_ok n c" if "jm_get (mp_quarantines r) ?i = Some c" for c
    using assms(1) that unfolding repo_ok_def mirrors_def by blast
  moreover have "0 \<le> n" using assms(1) by (simp add: repo_ok_def)
  ultimately have "quarantine_ok (n + 1) ?q"
    using assms(2) by (auto simp: quarantineReplica_def Let_def quarantine_ok_def max_def split: option.split)
  moreover have "qr_id ?q = ?i" by (simp add: quarantineReplica_def Let_def)
  moreover have "snd (quarantineReplica x now r)
      = r\<lparr>mp_db := writeQuarantine ?q (mp_db r), mp_quarantines := jm_set ?i ?q (mp_quarantines r)\<rparr>"
    by (simp add: quarantineReplica_def Let_def)
  moreover have "repo_ok (n + 1) r" using assms(1) by (rule repo_ok_more) simp
  ultimately show ?thesis by (simp add: repo_ok_def writeQuarantine_def mirrors_put)
qed

lemma write_access_ok: "repo_ok n r \<Longrightarrow> access_ok a \<Longrightarrow> repo_ok n (snd (write_access a r))"
  by (simp add: repo_ok_def write_access_def writeAccessRecord_def mirrors_put)

lemma access_known_ok: "repo_ok n r \<Longrightarrow> getMediaAccess i r = Some c \<Longrightarrow> access_ok c"
  unfolding repo_ok_def mirrors_def getMediaAccess_def by blast

lemma touch_ok: "repo_ok n r \<Longrightarrow> 0 \<le> now \<Longrightarrow> repo_ok n (snd (touchMediaAccess i now r))"
  unfolding touchMediaAccess_def Let_def
  by (rule write_access_ok) (auto simp: access_ok_def dest: access_known_ok split: option.split)

lemma protect_ok: "repo_ok n r \<Longrightarrow> 0 \<le> now \<Longrightarrow> repo_ok n (snd (setMediaProtected i b now r))"
  unfolding setMediaProtected_def Let_def
  by (rule write_access_ok) (auto simp: access_ok_def dest: access_known_ok split: option.split)

lemma availability_remove:
  assumes "availability_ok anns mans t"
  shows "availability_ok (jm_delete i anns) mans (jm_delete i t)"
  using assms unfolding availability_ok_def jm.get_remove
  by (auto simp: jm_keys_delete_distinct simp del: map_of_eq_Some_iff split: if_splits)

lemma availability_remove_all:
  "availability_ok anns mans t \<Longrightarrow> availability_ok (fold jm_delete ks anns) mans (fold jm_delete ks t)"
  by (induction ks arbitrary: anns t) (auto intro: availability_remove)

lemma prune_announcements_ok: "repo_ok n r \<Longrightarrow> repo_ok n (snd (pruneExpiredAnnouncements now r))"
  by (simp add: pruneExpiredAnnouncements_def Let_def repo_ok_def availability_remove_all)

lemma prune_quarantines_ok: "repo_ok n r \<Longrightarrow> repo_ok n (snd (pruneExpiredQuarantines now r))"
  by (simp add: pruneExpiredQuarantines_def Let_def repo_ok_def mirrors_remove_all)

lemma get_filter:
  "distinct (jm_keys m) \<Longrightarrow> jm_get (filter P m) k = Some v \<longleftrightarrow> jm_get m k = Some v \<and> P (k, v)"
  by (simp add: distinct_keys_filter)

lemma save_result_cases:
  obtains (refused) e where "saveAnnouncement a r = (e, r)" "e \<noteq> Saved"
  | (same) "saveAnnouncement a r = (Saved, r\<lparr>mp_db := writeAnnouncement a (mp_db r),
        mp_announcements := jm_set (createAnnouncementId a) a (mp_announcements r)\<rparr>)"
      "an_sequence a = latest_sequence (peer_announcements (an_peerId a) r)"
      "jm_get (mp_announcements r) (createAnnouncementId a) = None"
      "\<forall>x \<in> set (peer_announcements (an_peerId a) r). an_sequence x = an_sequence a \<longrightarrow>
         an_issuedAt x = an_issuedAt a \<and> an_expiresAt x = an_expiresAt a \<and> an_pageCount x = an_pageCount a"
  | (newer) "saveAnnouncement a r = (Saved, r\<lparr>mp_db := writeAnnouncement a ((mp_db r)\<lparr>db_availability :=
          filter (\<lambda>(k, w). vr_peerId w \<noteq> Jv_str (an_peerId a)) (db_availability (mp_db r))\<rparr>),
        mp_announcements := jm_set (createAnnouncementId a) a
          (filter (\<lambda>(k, x). an_peerId x \<noteq> an_peerId a) (mp_announcements r))\<rparr>)"
      "an_sequence a > latest_sequence (peer_announcements (an_peerId a) r)"
      "jm_get (mp_announcements r) (createAnnouncementId a) = None"
proof (cases "an_sequence a < latest_sequence (peer_announcements (an_peerId a) r)
    \<or> jm_get (mp_announcements r) (createAnnouncementId a) \<noteq> None
    \<or> list_ex (\<lambda>x. an_issuedAt x \<noteq> an_issuedAt a \<or> an_expiresAt x \<noteq> an_expiresAt a \<or> an_pageCount x \<noteq> an_pageCount a)
        (filter (\<lambda>x. an_sequence x = an_sequence a) (peer_announcements (an_peerId a) r))")
  case True
  then have "\<exists>e. saveAnnouncement a r = (e, r) \<and> e \<noteq> Saved"
    by (auto simp: saveAnnouncement_def Let_def split: option.split)
  then show ?thesis using refused by blast
next
  case False
  then show ?thesis
    using same newer
    by (cases "an_sequence a > latest_sequence (peer_announcements (an_peerId a) r)")
      (auto simp: saveAnnouncement_def Let_def list_ex_iff simp del: map_of_eq_Some_iff)
qed

lemma announcement_saved_ok:
  assumes "availability_ok anns mans t" and "announcement_ok a"
  shows "availability_ok (jm_set (createAnnouncementId a) a anns) mans
    (insert_or_replace (createAnnouncementId a) (announcement_row_of a) t)"
  using assms announcement_id_not_plain [of a]
  unfolding availability_ok_def get_insert_or_replace jm.get_put
  by (auto simp: distinct_insert_or_replace distinct_update simp del: map_of_eq_Some_iff split: if_splits)

lemma announcement_rows_dropped:
  assumes "availability_ok anns mans t"
  shows "availability_ok (filter (\<lambda>(k, x). an_peerId x \<noteq> p) anns) mans (filter (\<lambda>(k, w). vr_peerId w \<noteq> Jv_str p) t)"
proof -
  have d: "distinct (jm_keys anns)" "distinct (jm_keys t)" using assms by (simp_all add: availability_ok_def)
  have row: "vr_peerId (announcement_row_of a) = Jv_str (an_peerId a)" for a by (simp add: announcement_row_of_def)
  show ?thesis
    using assms unfolding availability_ok_def get_filter [OF d(1)] get_filter [OF d(2)]
  proof (intro conjI allI impI)
    fix k w
    assume w: "jm_get t k = Some w \<and> (case (k, w) of (k, w) \<Rightarrow> vr_peerId w \<noteq> Jv_str p)"
    then consider a where "jm_get anns k = Some a" "w = announcement_row_of a"
      | m where "jm_get mans k = Some m" "w = manifest_row_of m"
      using assms unfolding availability_ok_def by blast
    then show "(\<exists>a. (jm_get anns k = Some a \<and> (case (k, a) of (k, x) \<Rightarrow> an_peerId x \<noteq> p)) \<and> w = announcement_row_of a)
        \<or> (\<exists>m. jm_get mans k = Some m \<and> w = manifest_row_of m)"
      using w row by cases auto
  qed (auto simp: distinct_keys_filter row simp del: map_of_eq_Some_iff)
qed

lemma save_announcement_ok:
  assumes "repo_ok n r" and "announcement_ok a"
  shows "repo_ok n (snd (saveAnnouncement a r))"
proof (cases rule: save_result_cases [of a r])
  case newer
  then show ?thesis
    using assms announcement_saved_ok [OF announcement_rows_dropped [of "mp_announcements r" "mp_manifests r"
        "db_availability (mp_db r)" "an_peerId a"] assms(2)]
    by (simp add: repo_ok_def writeAnnouncement_def)
qed (use assms in \<open>simp_all add: repo_ok_def writeAnnouncement_def announcement_saved_ok\<close>)

lemma empty_repo_ok: "repo_ok 0 (empty_repo empty_db)"
  by (simp add: repo_ok_def empty_repo_def empty_db_def mirrors_empty availability_ok_def)

lemma repo_step_ok:
  assumes "repo_ok n r" and "op_ok x"
  shows "repo_ok (n + 1) (repo_step r x)"
proof -
  have more: "repo_ok n s \<Longrightarrow> repo_ok (n + 1) s" for s by (erule repo_ok_more) linarith
  show ?thesis
  proof (cases x)
    case (Replica_result y now)
    then show ?thesis using assms replica_result_ok by simp
  next
    case (Quarantine y now)
    then show ?thesis using assms quarantine_step_ok by simp
  next
    case Clear_all
    have "0 \<le> n + 1" using assms(1) by (simp add: repo_ok_def)
    then show ?thesis using repo_ok_more [OF empty_repo_ok] Clear_all by (simp add: clearMedia_def)
  next
    case (Remove_state i)
    then show ?thesis using assms(1) more by (simp add: repo_ok_def removeState_def mirrors_remove)
  next
    case (Remove_access i)
    then show ?thesis using assms(1) more by (simp add: repo_ok_def removeMediaAccess_def mirrors_remove)
  next
    case (Remove_announcement a)
    then show ?thesis using assms(1) more by (simp add: repo_ok_def removeAnnouncement_def Let_def availability_remove)
  qed (use assms more save_state_ok save_manifest_ok chunk_available_ok save_announcement_ok prune_announcements_ok
      prune_quarantines_ok touch_ok protect_ok in \<open>simp_all\<close>)
qed

lemma repo_run_ok: "repo_ok n r \<Longrightarrow> list_all op_ok xs \<Longrightarrow> repo_ok (n + int (length xs)) (foldl repo_step r xs)"
proof (induction xs arbitrary: n r)
  case (Cons x xs)
  have "repo_ok (n + 1 + int (length xs)) (foldl repo_step (repo_step r x) xs)"
    by (rule Cons.IH) (use Cons.prems repo_step_ok in simp_all)
  then show ?case by (simp add: add.assoc)
qed simp



section \<open>Sequences\<close>

lemma latest_sequence_le: "latest_sequence xs \<le> n \<longleftrightarrow> 0 \<le> n \<and> (\<forall>a \<in> set xs. an_sequence a \<le> n)"
proof -
  have "foldl (\<lambda>latest a. max latest (an_sequence a)) k xs \<le> n \<longleftrightarrow> k \<le> n \<and> (\<forall>a \<in> set xs. an_sequence a \<le> n)" for k
    by (induction xs arbitrary: k) auto
  then show ?thesis by (simp add: latest_sequence_def)
qed

lemma latest_sequence_ge: "a \<in> set xs \<Longrightarrow> an_sequence a \<le> latest_sequence xs"
  using latest_sequence_le [of xs "latest_sequence xs"] by simp

lemma latest_sequence_subset: "set xs \<subseteq> set ys \<Longrightarrow> latest_sequence xs \<le> latest_sequence ys"
proof -
  assume sub: "set xs \<subseteq> set ys"
  have "0 \<le> latest_sequence ys \<and> (\<forall>a \<in> set ys. an_sequence a \<le> latest_sequence ys)"
    by (rule iffD1 [OF latest_sequence_le order_refl])
  then show ?thesis using sub by (intro iffD2 [OF latest_sequence_le]) blast
qed

lemma latest_sequence_set: "set xs = set ys \<Longrightarrow> latest_sequence xs = latest_sequence ys"
  by (intro order_antisym latest_sequence_subset) simp_all

lemma latest_sequence_attained: "latest_sequence xs = 0 \<or> (\<exists>a \<in> set xs. an_sequence a = latest_sequence xs)"
proof -
  have "foldl (\<lambda>latest a. max latest (an_sequence a)) k xs = k
      \<or> (\<exists>a \<in> set xs. an_sequence a = foldl (\<lambda>latest a. max latest (an_sequence a)) k xs)" for k
  proof (induction xs arbitrary: k)
    case (Cons x xs)
    let ?f = "foldl (\<lambda>latest a. max latest (an_sequence a))"
    have "max k (an_sequence x) = k \<or> max k (an_sequence x) = an_sequence x" by (simp add: max_def)
    moreover have "?f k (x # xs) = ?f (max k (an_sequence x)) xs" by simp
    moreover have "?f (max k (an_sequence x)) xs = max k (an_sequence x)
        \<or> (\<exists>a \<in> set xs. an_sequence a = ?f (max k (an_sequence x)) xs)" by (rule Cons.IH)
    ultimately show ?case by (metis list.set_intros)
  qed simp
  then show ?thesis by (simp add: latest_sequence_def)
qed

lemma latest_sequence_eq: "getLatestAnnouncementSequence lc p r = latest_sequence (listAnnouncements lc (Some p) r)"
  by (simp add: getLatestAnnouncementSequence_def)

lemma latest_of_peer: "p \<noteq> [] \<Longrightarrow> getLatestAnnouncementSequence lc p r = latest_sequence (peer_announcements p r)"
  by (simp add: getLatestAnnouncementSequence_def listAnnouncements_def peer_announcements_def latest_sequence_set)

lemma keyed_announcements:
  assumes "repo_ok n r"
  shows "distinct (jm_keys (mp_announcements r))"
    and "a \<in> set (jm_values (mp_announcements r)) \<longleftrightarrow> jm_get (mp_announcements r) (createAnnouncementId a) = Some a"
    and "jm_get (mp_announcements r) i = Some a \<Longrightarrow> createAnnouncementId a = i \<and> announcement_ok a"
proof -
  have ok: "availability_ok (mp_announcements r) (mp_manifests r) (db_availability (mp_db r))"
    using assms by (simp add: repo_ok_def)
  show d: "distinct (jm_keys (mp_announcements r))" using ok by (simp add: availability_ok_def)
  show k: "createAnnouncementId a = i \<and> announcement_ok a" if "jm_get (mp_announcements r) i = Some a" for i
    using ok that unfolding availability_ok_def by blast
  show "a \<in> set (jm_values (mp_announcements r)) \<longleftrightarrow> jm_get (mp_announcements r) (createAnnouncementId a) = Some a"
  proof
    assume "a \<in> set (jm_values (mp_announcements r))"
    then obtain i where "(i, a) \<in> set (mp_announcements r)" by auto
    then have "jm_get (mp_announcements r) i = Some a" using d by simp
    then show "jm_get (mp_announcements r) (createAnnouncementId a) = Some a" using k by metis
  next
    assume "jm_get (mp_announcements r) (createAnnouncementId a) = Some a"
    then show "a \<in> set (jm_values (mp_announcements r))" by (metis imageI map_of_SomeD set_map snd_conv)
  qed
qed

lemma hd_js_sort_in: "xs \<noteq> [] \<Longrightarrow> hd (js_sort c xs) \<in> set xs"
  by (metis hd_in_set length_0_conv length_js_sort set_js_sort)

lemma anchor_kept:
  assumes ok: "repo_ok n r" and a: "a \<in> set (peer_announcements p r)" "an_sequence a = latest_sequence (peer_announcements p r)"
  shows "\<exists>b. jm_get (mp_announcements r) (createAnnouncementId b) = Some b \<and> an_peerId b = p
    \<and> an_sequence b = latest_sequence (peer_announcements p r) \<and> createAnnouncementId b \<in> set (sequence_anchors r)"
proof -
  let ?own = "peer_announcements p r"
  let ?last = "filter (\<lambda>a. an_sequence a = latest_sequence ?own) ?own"
  let ?b = "hd (js_sort (\<lambda>a b. an_pageIndex a - an_pageIndex b) ?last)"
  have ne: "?last \<noteq> []" using a by (auto simp: filter_empty_conv)
  then have b: "?b \<in> set ?last" by (rule hd_js_sort_in)
  then have "?b \<in> set (jm_values (mp_announcements r))" "an_peerId ?b = p" "an_sequence ?b = latest_sequence ?own"
    by (auto simp: peer_announcements_def)
  moreover have "p \<in> set (js_uniq (map an_peerId (jm_values (mp_announcements r))))"
    using a(1) by (auto simp: peer_announcements_def)
  then have "createAnnouncementId ?b \<in> set (sequence_anchors r)"
    using ne unfolding sequence_anchors_def Let_def by (auto intro!: image_eqI [of _ _ p])
  ultimately show ?thesis using keyed_announcements(2) [OF ok] by blast
qed

text \<open>Forgetting expired announcements never forgets how far a peer has come.\<close>

lemma prune_keeps_latest:
  assumes ok: "repo_ok n r"
  shows "latest_sequence (peer_announcements p (snd (pruneExpiredAnnouncements now r))) = latest_sequence (peer_announcements p r)"
proof (rule order_antisym)
  let ?r = "snd (pruneExpiredAnnouncements now r)"
  let ?expired = "map fst (filter (\<lambda>(i, a). an_expiresAt a \<le> now \<and> i \<notin> set (sequence_anchors r)) (mp_announcements r))"
  have anns: "mp_announcements ?r = fold jm_delete ?expired (mp_announcements r)"
    by (simp add: pruneExpiredAnnouncements_def Let_def)
  have get: "jm_get (mp_announcements ?r) i = (if i \<in> set ?expired then None else jm_get (mp_announcements r) i)" for i
    unfolding anns by (rule jm.get_fold_remove)
  have ok': "repo_ok n ?r" using ok by (rule prune_announcements_ok)
  have sub: "set (peer_announcements p ?r) \<subseteq> set (peer_announcements p r)"
  proof
    fix a
    assume "a \<in> set (peer_announcements p ?r)"
    then have a: "jm_get (mp_announcements ?r) (createAnnouncementId a) = Some a" "an_peerId a = p"
      using keyed_announcements(2) [OF ok'] by (auto simp: peer_announcements_def)
    then have "jm_get (mp_announcements r) (createAnnouncementId a) = Some a" unfolding get by (metis option.distinct(1))
    then show "a \<in> set (peer_announcements p r)"
      using a(2) keyed_announcements(2) [OF ok] by (simp add: peer_announcements_def)
  qed
  then show "latest_sequence (peer_announcements p ?r) \<le> latest_sequence (peer_announcements p r)"
    by (rule latest_sequence_subset)
  have pos: "0 \<le> latest_sequence xs" for xs using latest_sequence_le [of xs "latest_sequence xs"] by simp
  consider "latest_sequence (peer_announcements p r) = 0"
    | a where "a \<in> set (peer_announcements p r)" "an_sequence a = latest_sequence (peer_announcements p r)"
    using latest_sequence_attained by blast
  then show "latest_sequence (peer_announcements p r) \<le> latest_sequence (peer_announcements p ?r)"
  proof cases
    case 1
    then show ?thesis using pos by simp
  next
    case 2
    then obtain b where b: "jm_get (mp_announcements r) (createAnnouncementId b) = Some b" "an_peerId b = p"
      "an_sequence b = latest_sequence (peer_announcements p r)" "createAnnouncementId b \<in> set (sequence_anchors r)"
      using anchor_kept [OF ok] by blast
    then have "jm_get (mp_announcements ?r) (createAnnouncementId b) = Some b" unfolding get by auto
    then have "b \<in> set (peer_announcements p ?r)"
      using b(2) keyed_announcements(2) [OF ok'] by (simp add: peer_announcements_def)
    then show ?thesis using latest_sequence_ge b(3) by metis
  qed
qed

lemma save_keeps_latest:
  assumes ok: "repo_ok n r" and a: "announcement_ok a"
  shows "latest_sequence (peer_announcements p r) \<le> latest_sequence (peer_announcements p (snd (saveAnnouncement a r)))"
proof -
  let ?r = "snd (saveAnnouncement a r)"
  have ok': "repo_ok n ?r" using ok a by (rule save_announcement_ok)
  have in_r: "b \<in> set (peer_announcements q s) \<longleftrightarrow> jm_get (mp_announcements s) (createAnnouncementId b) = Some b \<and> an_peerId b = q"
    if "repo_ok n s" for b q s
    using keyed_announcements(2) [OF that] by (auto simp: peer_announcements_def)
  have d: "distinct (jm_keys (mp_announcements r))" by (rule keyed_announcements(1) [OF ok])
  show ?thesis
  proof (cases rule: save_result_cases [of a r])
    case refused
    then show ?thesis by simp
  next
    case same
    have "set (peer_announcements p r) \<subseteq> set (peer_announcements p ?r)"
      using same(1,3) unfolding subset_iff in_r [OF ok] in_r [OF ok'] by (auto simp: jm.get_put)
    then show ?thesis by (rule latest_sequence_subset)
  next
    case newer
    have new: "a \<in> set (peer_announcements (an_peerId a) ?r)"
      unfolding in_r [OF ok'] using newer(1) by (simp add: jm.get_put)
    show ?thesis
    proof (cases "p = an_peerId a")
      case True
      then show ?thesis using latest_sequence_ge [OF new] newer(2) by simp
    next
      case False
      have "jm_get (mp_announcements ?r) (createAnnouncementId b) = Some b"
        if "jm_get (mp_announcements r) (createAnnouncementId b) = Some b" "an_peerId b = p" for b
      proof -
        have "createAnnouncementId b \<noteq> createAnnouncementId a" using that(1) newer(3) by auto
        moreover have "jm_get (filter (\<lambda>(k, x). an_peerId x \<noteq> an_peerId a) (mp_announcements r)) (createAnnouncementId b) = Some b"
          unfolding get_filter [OF d] using that False by simp
        moreover have "mp_announcements ?r = jm_set (createAnnouncementId a) a
            (filter (\<lambda>(k, x). an_peerId x \<noteq> an_peerId a) (mp_announcements r))" using newer(1) by simp
        ultimately show ?thesis by (simp only: jm.get_put if_False)
      qed
      then have "set (peer_announcements p r) \<subseteq> set (peer_announcements p ?r)"
        unfolding subset_iff in_r [OF ok] in_r [OF ok'] by blast
      then show ?thesis by (rule latest_sequence_subset)
    qed
  qed
qed


lemma step_keeps_announcements:
  assumes "mp_announcements s = mp_announcements r"
  shows "peer_announcements p s = peer_announcements p r"
  using assms by (simp add: peer_announcements_def)

fun keeps_sequences :: "repo_op \<Rightarrow> bool" where
  "keeps_sequences (Remove_announcement a) \<longleftrightarrow> False"
| "keeps_sequences Clear_all \<longleftrightarrow> False"
| "keeps_sequences x \<longleftrightarrow> True"

lemma step_keeps_latest:
  assumes "repo_ok n r" and "op_ok x" and "keeps_sequences x"
  shows "latest_sequence (peer_announcements p r) \<le> latest_sequence (peer_announcements p (repo_step r x))"
proof (cases x)
  case (Save_announcement a)
  then show ?thesis using assms save_keeps_latest by simp
next
  case (Prune_announcements now)
  then show ?thesis using prune_keeps_latest [OF assms(1)] by simp
qed (use assms(3) in \<open>simp_all add: peer_announcements_def saveState_def removeState_def saveManifest_def
    recordChunkAvailability_def recordReplicaResult_def quarantineReplica_def pruneExpiredQuarantines_def
    touchMediaAccess_def setMediaProtected_def write_access_def removeMediaAccess_def Let_def\<close>)

lemma run_keeps_latest:
  "repo_ok n r \<Longrightarrow> list_all op_ok xs \<Longrightarrow> list_all keeps_sequences xs \<Longrightarrow>
   latest_sequence (peer_announcements p r) \<le> latest_sequence (peer_announcements p (foldl repo_step r xs))"
proof (induction xs arbitrary: n r)
  case (Cons x xs)
  have "latest_sequence (peer_announcements p r) \<le> latest_sequence (peer_announcements p (repo_step r x))"
    using Cons.prems step_keeps_latest by simp
  also have "\<dots> \<le> latest_sequence (peer_announcements p (foldl repo_step (repo_step r x) xs))"
    by (rule Cons.IH [OF repo_step_ok]) (use Cons.prems in simp_all)
  finally show ?case by simp
qed simp


section \<open>Quarantines\<close>

definition quarantined_until :: "string \<Rightarrow> string \<Rightarrow> string \<Rightarrow> string option \<Rightarrow> int \<Rightarrow> media_repo \<Rightarrow> bool" where
  "quarantined_until i p m c t r \<longleftrightarrow> (\<exists>q. jm_get (mp_quarantines r) i = Some q \<and> qr_peerId q = p
     \<and> qr_mediaObjectId q = m \<and> qr_chunkId q = c \<and> t \<le> qr_expiresAt q)"

text \<open>An operation that leaves a quarantine alone until then: nothing is cleared, what expires later is not
  pruned, and no other replica has the same identifier.\<close>

fun leaves_quarantine :: "string \<Rightarrow> string \<Rightarrow> string option \<Rightarrow> int \<Rightarrow> repo_op \<Rightarrow> bool" where
  "leaves_quarantine p m c t Clear_all \<longleftrightarrow> False"
| "leaves_quarantine p m c t (Prune_quarantines now) \<longleftrightarrow> now < t"
| "leaves_quarantine p m c t (Quarantine x now) \<longleftrightarrow>
     (createQuarantineId (qi_peerId x) (qi_mediaObjectId x) (qi_chunkId x) = createQuarantineId p m c
      \<longrightarrow> qi_peerId x = p \<and> qi_mediaObjectId x = m \<and> qi_chunkId x = c)"
| "leaves_quarantine p m c t x \<longleftrightarrow> True"

lemma step_leaves_quarantine:
  assumes q: "quarantined_until (createQuarantineId p m c) p m c t r" and x: "leaves_quarantine p m c t x"
    and d: "distinct (jm_keys (mp_quarantines r))"
  shows "quarantined_until (createQuarantineId p m c) p m c t (repo_step r x)"
proof (cases x)
  case (Prune_quarantines now)
  let ?expired = "map fst (filter (\<lambda>(i, q). qr_expiresAt q \<le> now) (mp_quarantines r))"
  have "mp_quarantines (repo_step r x) = fold jm_delete ?expired (mp_quarantines r)"
    by (simp add: Prune_quarantines pruneExpiredQuarantines_def Let_def)
  moreover have "createQuarantineId p m c \<notin> set ?expired"
  proof
    assume "createQuarantineId p m c \<in> set ?expired"
    then obtain b where b: "(createQuarantineId p m c, b) \<in> set (mp_quarantines r)" "qr_expiresAt b \<le> now" by auto
    then have "jm_get (mp_quarantines r) (createQuarantineId p m c) = Some b" using d by simp
    then show False using q x b(2) by (simp add: quarantined_until_def Prune_quarantines)
  qed
  ultimately show ?thesis using q by (simp add: quarantined_until_def jm.get_fold_remove)
next
  case (Quarantine y now)
  then show ?thesis
    using q x by (cases "createQuarantineId (qi_peerId y) (qi_mediaObjectId y) (qi_chunkId y) = createQuarantineId p m c")
      (auto simp: quarantined_until_def quarantineReplica_def Let_def jm.get_put simp del: map_of_eq_Some_iff)
next
  case (Save_announcement a)
  then show ?thesis using q
    by (cases rule: save_result_cases [of a r]) (simp_all add: quarantined_until_def)
qed (use q x in \<open>simp_all add: quarantined_until_def saveState_def removeState_def saveManifest_def
    recordChunkAvailability_def recordReplicaResult_def pruneExpiredAnnouncements_def removeAnnouncement_def
    touchMediaAccess_def setMediaProtected_def write_access_def removeMediaAccess_def Let_def\<close>)

lemma run_leaves_quarantine:
  "repo_ok n r \<Longrightarrow> list_all op_ok xs \<Longrightarrow> list_all (leaves_quarantine p m c t) xs \<Longrightarrow>
   quarantined_until (createQuarantineId p m c) p m c t r \<Longrightarrow>
   quarantined_until (createQuarantineId p m c) p m c t (foldl repo_step r xs)"
proof (induction xs arbitrary: n r)
  case (Cons x xs)
  have "distinct (jm_keys (mp_quarantines r))" using Cons.prems(1) by (simp add: repo_ok_def mirrors_def)
  then have "quarantined_until (createQuarantineId p m c) p m c t (repo_step r x)"
    using Cons.prems by (intro step_leaves_quarantine) simp_all
  moreover have "repo_ok (n + 1) (repo_step r x)" using Cons.prems(1,2) by (intro repo_step_ok) simp_all
  ultimately show ?case using Cons.IH Cons.prems(2,3) by simp
qed simp

text \<open>C31: A quarantine lasts: from the moment a replica is quarantined until the time it was quarantined for,
  it is quarantined for the chunk, or for every chunk when none was named, whatever else is recorded.\<close>

theorem quarantine_lasts:
  assumes "list_all op_ok xs" and "0 \<le> now" and "list_all op_ok ys"
    and "list_all (leaves_quarantine (qi_peerId x) (qi_mediaObjectId x) (qi_chunkId x) (now + max 1 (qi_durationMs x))) ys"
    and "t < now + max 1 (qi_durationMs x)" and "qi_chunkId x = None \<or> qi_chunkId x = Some c"
  shows "isReplicaQuarantined (qi_peerId x) (qi_mediaObjectId x) c t
    (foldl repo_step (foldl repo_step (empty_repo empty_db) (xs @ [Quarantine x now])) ys)"
proof -
  let ?r = "foldl repo_step (empty_repo empty_db) (xs @ [Quarantine x now])"
  have "list_all op_ok (xs @ [Quarantine x now])" using assms(1,2) by simp
  then have ok: "repo_ok (0 + int (length (xs @ [Quarantine x now]))) ?r" by (rule repo_run_ok [OF empty_repo_ok])
  have "quarantined_until (createQuarantineId (qi_peerId x) (qi_mediaObjectId x) (qi_chunkId x))
      (qi_peerId x) (qi_mediaObjectId x) (qi_chunkId x) (now + max 1 (qi_durationMs x)) ?r"
    by (simp add: quarantined_until_def quarantineReplica_def Let_def jm.get_put)
  from run_leaves_quarantine [OF ok assms(3,4) this] obtain q where
    q: "jm_get (mp_quarantines (foldl repo_step ?r ys))
        (createQuarantineId (qi_peerId x) (qi_mediaObjectId x) (qi_chunkId x)) = Some q"
      "qr_peerId q = qi_peerId x" "qr_mediaObjectId q = qi_mediaObjectId x" "qr_chunkId q = qi_chunkId x"
      "now + max 1 (qi_durationMs x) \<le> qr_expiresAt q"
    unfolding quarantined_until_def by blast
  have "q \<in> set (jm_values (mp_quarantines (foldl repo_step ?r ys)))"
    using map_of_SomeD [OF q(1)] by force
  then show ?thesis using q(2-5) assms(5,6) unfolding isReplicaQuarantined_def list_ex_iff by auto
qed


definition sample_announcement :: announcement where
  "sample_announcement = \<lparr>an_peerId = ''p'', an_sequence = 2, an_issuedAt = 0, an_expiresAt = 10, an_pageIndex = 0,
     an_pageCount = 1, an_items = [\<lparr>ma_mediaObjectId = ''m'', ma_chunks = [''c''], ma_totalChunks = 1, ma_updatedAt = 0\<rparr>],
     an_signature = ''s''\<rparr>"


theorem quarantine_lasts_witness:
  "isReplicaQuarantined ''p'' ''m'' ''c'' 50 (foldl repo_step (foldl repo_step (empty_repo empty_db)
     ([] @ [Quarantine \<lparr>qi_peerId = ''p'', qi_mediaObjectId = ''m'', qi_chunkId = None, qi_reason = Hash_mismatch_reason,
        qi_evidenceHash = None, qi_durationMs = 100\<rparr> 5]))
     [Quarantine \<lparr>qi_peerId = ''p'', qi_mediaObjectId = ''m'', qi_chunkId = None, qi_reason = Id_mismatch_reason,
        qi_evidenceHash = None, qi_durationMs = 1\<rparr> 7, Prune_quarantines 49])"
  using quarantine_lasts [of "[]" 5 "[Quarantine \<lparr>qi_peerId = ''p'', qi_mediaObjectId = ''m'', qi_chunkId = None,
        qi_reason = Id_mismatch_reason, qi_evidenceHash = None, qi_durationMs = 1\<rparr> 7, Prune_quarantines 49]"
      "\<lparr>qi_peerId = ''p'', qi_mediaObjectId = ''m'', qi_chunkId = None, qi_reason = Hash_mismatch_reason,
        qi_evidenceHash = None, qi_durationMs = 100\<rparr>" 50 "''c''"]
  by (simp del: foldl_Cons foldl_append append.simps)

section \<open>What a start can lose\<close>

lemma collect_None: "x \<in> set xs \<Longrightarrow> f x = None \<Longrightarrow> collect f xs = None"
  by (induction xs) (auto split: option.split)

text \<open>A download that seems to have taken less than no time, because the clock was set back while it ran,
  is recorded, and from then on the repository does not start: the row it wrote is refused when it is read.\<close>

theorem negative_latency_blocks_start:
  assumes "rr_latencyMs x = Some l" and "l < 0"
  shows "loadPersistedData (mp_db (snd (recordReplicaResult x now r))) = None"
proof -
  let ?o = "fst (recordReplicaResult x now r)"
  have l: "ob_latencyMs ?o = Some l" using assms(1) by (simp add: recordReplicaResult_def Let_def)
  have "nullable nonNegativeInteger (Jv_num l) = None" using assms(2) by (simp add: nullable_def safe_nat_def)
  then have bad: "replicaObservationRow (observation_row_of ?o) = None"
    using l by (simp add: replicaObservationRow_def observation_row_of_def opt_null_def split: option.split)
  have "observation_row_of ?o \<in> set (jm_values (db_observations (mp_db (snd (recordReplicaResult x now r)))))"
    by (simp add: recordReplicaResult_def Let_def writeReplicaObservation_def insert_or_replace_def)
  then have "collect replicaObservationRow (jm_values (db_observations (mp_db (snd (recordReplicaResult x now r))))) = None"
    using bad by (rule collect_None)
  then show ?thesis by (simp add: loadPersistedData_def split: option.split)
qed


theorem negative_latency_blocks_start_witness:
  "loadPersistedData (mp_db (snd (recordReplicaResult \<lparr>rr_peerId = ''p'', rr_mediaObjectId = ''m'', rr_chunkId = None,
     rr_status = Success_status, rr_latencyMs = Some (- 1), rr_validUntil = None\<rparr> 5 (empty_repo empty_db)))) = None"
  by (rule negative_latency_blocks_start [where l = "- 1"]) simp_all

lemma legacy_row:
  assumes "mapAvailabilityRow w = Some (Legacy_record m)"
  shows "vr_peerId w = Jv_str (mn_peerId m) \<and> vr_schemaVersion w = Jv_num 1"
proof -
  have str: "str_of v = Some s \<Longrightarrow> v = Jv_str s" for v s by (cases v) simp_all
  show ?thesis
    using assms by (auto simp: mapAvailabilityRow_def mediaAvailabilityManifest_def normalizeManifest_def dest!: str
        split: json_column.splits option.splits if_splits)
qed

text \<open>The first signed announcement of a peer removes its old manifest from the table but not from memory:
  the two agree again only after the next start, when the manifest is gone.\<close>

theorem manifest_gone_after_restart:
  assumes "jm_get (mp_manifests r) p = Some m" and "an_peerId a = p"
    and "latest_sequence (peer_announcements p r) < an_sequence a"
    and "saveAnnouncement a r = (Saved, r')" and "loadPersistedData (mp_db r') = Some r''"
  shows "jm_get (mp_manifests r') p = Some m \<and> jm_get (mp_manifests r'') p = None"
proof -
  have "mp_manifests r' = mp_manifests r
      \<and> mp_db r' = writeAnnouncement a ((mp_db r)\<lparr>db_availability :=
          filter (\<lambda>(k, w). vr_peerId w \<noteq> Jv_str (an_peerId a)) (db_availability (mp_db r))\<rparr>)"
    using assms(2-4) by (cases rule: save_result_cases [of a r]) auto
  then have r': "mp_manifests r' = mp_manifests r" "db_availability (mp_db r') = insert_or_replace (createAnnouncementId a)
      (announcement_row_of a) (filter (\<lambda>(k, w). vr_peerId w \<noteq> Jv_str p) (db_availability (mp_db r)))"
    using assms(2) by (auto simp: writeAnnouncement_def)
  obtain vs where vs: "collect mapAvailabilityRow (jm_values (db_availability (mp_db r'))) = Some vs"
    "mp_manifests r'' = fold (\<lambda>x. case x of Legacy_record m \<Rightarrow> jm_set (mn_peerId m) m | _ \<Rightarrow> id) vs []"
    using assms(5) by (auto simp: loadPersistedData_def split: if_splits option.splits)
  have "mn_peerId m' \<noteq> p" if m': "Legacy_record m' \<in> set vs" for m'
  proof -
    obtain w where w: "w \<in> set (jm_values (db_availability (mp_db r')))" "mapAvailabilityRow w = Some (Legacy_record m')"
      using collect_set [OF vs(1) m'] by blast
    have "w \<noteq> announcement_row_of a" using legacy_row [OF w(2)] by (auto simp: announcement_row_of_def)
    then have "vr_peerId w \<noteq> Jv_str p"
      using w(1) unfolding r'(2) by (auto simp: insert_or_replace_def dest!: subsetD [OF jm_delete_subset])
    then show ?thesis using legacy_row [OF w(2)] by auto
  qed
  then have "find (\<lambda>x. mn_peerId x = p) (rev (List.map_filter legacy_part vs)) = None"
    by (auto simp: find_None_iff set_legacy)
  then have "jm_get (mp_manifests r'') p = None"
    unfolding vs(2) fold_legacy jm.get_fold_put by simp
  then show ?thesis using assms(1) r'(1) by simp
qed

end
