(* ===== verification/MediaReplica_Claims.thy ===== *)
theory MediaReplica_Claims
  imports MediaRepository_Claims
begin

text \<open>
  Which peers hold an object completely: the search of the repository against what it means for a peer to
  have announced every chunk.
\<close>

section \<open>Pages in their order\<close>

text \<open>The announcements of a peer that have not expired, and the pages of its latest sequence.\<close>

definition live_announcements :: "string \<Rightarrow> int \<Rightarrow> media_repo \<Rightarrow> announcement set" where
  "live_announcements p now r = {a \<in> set (jm_values (mp_announcements r)). an_peerId a = p \<and> now < an_expiresAt a}"

definition latest_pages :: "string \<Rightarrow> int \<Rightarrow> media_repo \<Rightarrow> announcement set" where
  "latest_pages p now r = {a \<in> live_announcements p now r. \<forall>b \<in> live_announcements p now r. an_sequence b \<le> an_sequence a}"

text \<open>A complete announcement: all pages are there, were made together, and together list exactly the
  chunks of the object, agreeing on their number.\<close>

definition announces_all :: "string \<Rightarrow> string list \<Rightarrow> announcement set \<Rightarrow> bool" where
  "announces_all m ids pages \<longleftrightarrow> (\<exists>n issued expires. pages \<noteq> {} \<and> an_pageIndex ` pages = {0..<n}
       \<and> (\<forall>a \<in> pages. an_pageCount a = n \<and> an_issuedAt a = issued \<and> an_expiresAt a = expires))
     \<and> (let items = {i. \<exists>a \<in> pages. i \<in> set (an_items a) \<and> ma_mediaObjectId i = m}
        in items \<noteq> {} \<and> (\<forall>i \<in> items. ma_totalChunks i = int (card (set ids)))
          \<and> (\<Union>i \<in> items. set (ma_chunks i)) = set ids)"

lemma pages_distinct:
  assumes "repo_ok n r"
    and "a \<in> set (jm_values (mp_announcements r))" and "b \<in> set (jm_values (mp_announcements r))"
    and "an_peerId a = an_peerId b" and "an_sequence a = an_sequence b" and "an_pageIndex a = an_pageIndex b"
  shows "a = b"
proof -
  have "createAnnouncementId a = createAnnouncementId b" using assms(4-6) by (simp add: createAnnouncementId_def)
  then show ?thesis using keyed_announcements(2) [OF assms(1)] assms(2,3) by (metis option.inject)
qed

lemma indexed_all: "list_all (\<lambda>(k, p). Q k p) (zip [0..<length ps] ps) \<longleftrightarrow> (\<forall>k < length ps. Q k (ps ! k))"
  by (force simp: list_all_iff set_zip)

lemma complete_pages_hd:
  "complete_pages ps \<longleftrightarrow> ps \<noteq> [] \<and> int (length ps) = an_pageCount (hd ps)
     \<and> (\<forall>k < length ps. an_pageIndex (ps ! k) = int k \<and> an_pageCount (ps ! k) = an_pageCount (hd ps)
          \<and> an_issuedAt (ps ! k) = an_issuedAt (hd ps) \<and> an_expiresAt (ps ! k) = an_expiresAt (hd ps))"
proof (cases ps)
  case (Cons a as)
  then show ?thesis unfolding complete_pages_def indexed_all by simp
qed (simp add: complete_pages_def)

lemma complete_pages_iff:
  assumes inj: "inj_on an_pageIndex (set ps)" and d: "distinct ps"
    and sorted: "sorted_wrt (\<lambda>a b. an_pageIndex a \<le> an_pageIndex b) ps"
  shows "complete_pages ps \<longleftrightarrow> (\<exists>n issued expires. set ps \<noteq> {} \<and> an_pageIndex ` set ps = {0..<n}
    \<and> (\<forall>a \<in> set ps. an_pageCount a = n \<and> an_issuedAt a = issued \<and> an_expiresAt a = expires))" (is "?l \<longleftrightarrow> ?r")
proof
  assume l: ?l
  then obtain f where f: "hd ps = f" "ps \<noteq> []" "int (length ps) = an_pageCount f"
    "\<And>k. k < length ps \<Longrightarrow> an_pageIndex (ps ! k) = int k \<and> an_pageCount (ps ! k) = an_pageCount f
       \<and> an_issuedAt (ps ! k) = an_issuedAt f \<and> an_expiresAt (ps ! k) = an_expiresAt f"
    unfolding complete_pages_hd by blast
  have "an_pageIndex ` set ps = {0..<int (length ps)}"
  proof (rule set_eqI)
    fix x
    have "x \<in> an_pageIndex ` set ps \<longleftrightarrow> (\<exists>k < length ps. x = an_pageIndex (ps ! k))"
      by (metis image_iff in_set_conv_nth)
    also have "\<dots> \<longleftrightarrow> (\<exists>k < length ps. x = int k)" using f(4) by auto
    also have "\<dots> \<longleftrightarrow> x \<in> {0..<int (length ps)}" by (auto intro: exI [of _ "nat x"])
    finally show "x \<in> an_pageIndex ` set ps \<longleftrightarrow> x \<in> {0..<int (length ps)}" .
  qed
  moreover have "an_pageCount a = int (length ps) \<and> an_issuedAt a = an_issuedAt f \<and> an_expiresAt a = an_expiresAt f"
    if "a \<in> set ps" for a
    using that f(3,4) by (metis in_set_conv_nth)
  ultimately show ?r using f(2) by (metis set_empty)
next
  assume ?r
  then obtain n issued expires where r: "ps \<noteq> []" "an_pageIndex ` set ps = {0..<n}"
    "\<And>a. a \<in> set ps \<Longrightarrow> an_pageCount a = n \<and> an_issuedAt a = issued \<and> an_expiresAt a = expires" by auto
  have card: "int (length ps) = n"
  proof -
    have "card (an_pageIndex ` set ps) = length ps" using inj d by (simp add: card_image distinct_card)
    moreover have "0 \<le> n" using r(1,2) by (metis atLeastLessThan_empty_iff image_is_empty linorder_not_less set_empty less_imp_le)
    ultimately show ?thesis using r(2) by simp
  qed
  have "map an_pageIndex ps = map int [0..<length ps]"
  proof (rule sorted_distinct_set_unique)
    show "sorted (map an_pageIndex ps)" using sorted by (simp add: sorted_map)
    show "distinct (map an_pageIndex ps)" using inj d by (simp add: distinct_map)
    show "sorted (map int [0..<length ps])" by (simp add: sorted_iff_nth_mono)
    show "distinct (map int [0..<length ps])" by (simp add: distinct_map)
    show "set (map an_pageIndex ps) = set (map int [0..<length ps])"
      using r(2) card by (simp add: image_int_atLeastLessThan)
  qed
  then have "an_pageIndex (ps ! k) = int k" if "k < length ps" for k
    using that by (metis add_0 length_map nth_map nth_upt length_upt minus_nat.diff_0)
  then show ?l
    using r(1,3) card hd_in_set [OF r(1)] unfolding complete_pages_hd by (metis nth_mem)
qed

section \<open>What the items advertise\<close>

lemma advertised_iff:
  "advertised m is n cs = Some (n', cs') \<longleftrightarrow>
     (\<forall>i \<in> set is. ma_mediaObjectId i = m \<longrightarrow> n' = Some (ma_totalChunks i) \<and> (n = None \<or> n = n'))
     \<and> ((\<forall>i \<in> set is. ma_mediaObjectId i \<noteq> m) \<longrightarrow> n' = n)
     \<and> cs' = foldl (\<lambda>s c. set_add c s) cs (concat (map ma_chunks (filter (\<lambda>i. ma_mediaObjectId i = m) is)))"
proof (induction m "is" n cs rule: advertised.induct)
  case (2 m i "is" n cs)
  consider "ma_mediaObjectId i \<noteq> m" | "ma_mediaObjectId i = m" "n \<noteq> None" "n \<noteq> Some (ma_totalChunks i)"
    | "ma_mediaObjectId i = m" "n = None \<or> n = Some (ma_totalChunks i)" by metis
  then show ?case
  proof cases
    case 1
    then show ?thesis using 2(1) by simp
  next
    case 2
    then show ?thesis by auto
  next
    case 3
    then have "advertised m (i # is) n cs
        = advertised m is (Some (ma_totalChunks i)) (foldl (\<lambda>s c. set_add c s) cs (ma_chunks i))" by auto
    moreover have IH: "advertised m is (Some (ma_totalChunks i)) (foldl (\<lambda>s c. set_add c s) cs (ma_chunks i)) = Some (n', cs')
      \<longleftrightarrow> (\<forall>j \<in> set is. ma_mediaObjectId j = m \<longrightarrow> n' = Some (ma_totalChunks j)
            \<and> (Some (ma_totalChunks i) = None \<or> Some (ma_totalChunks i) = n'))
        \<and> ((\<forall>j \<in> set is. ma_mediaObjectId j \<noteq> m) \<longrightarrow> n' = Some (ma_totalChunks i))
        \<and> cs' = foldl (\<lambda>s c. set_add c s) (foldl (\<lambda>s c. set_add c s) cs (ma_chunks i))
             (concat (map ma_chunks (filter (\<lambda>j. ma_mediaObjectId j = m) is)))"
      by (rule "2.IH"(2)) (use 3 in auto)
    ultimately have "advertised m (i # is) n cs = Some (n', cs') \<longleftrightarrow>
        (\<forall>j \<in> set is. ma_mediaObjectId j = m \<longrightarrow> n' = Some (ma_totalChunks j)) \<and> n' = Some (ma_totalChunks i)
        \<and> cs' = foldl (\<lambda>s c. set_add c s) (foldl (\<lambda>s c. set_add c s) cs (ma_chunks i))
             (concat (map ma_chunks (filter (\<lambda>j. ma_mediaObjectId j = m) is)))"
      by (metis option.distinct(1))
    then show ?thesis using 3 by (simp del: advertised.simps) metis
  qed
qed auto

lemma advertised_all:
  assumes "distinct wanted"
  shows "(case advertised m is None [] of
      None \<Rightarrow> False
    | Some (n, chunks) \<Rightarrow> n = Some (int (length wanted)) \<and> length chunks = length wanted \<and> list_all (\<lambda>c. c \<in> set chunks) wanted)
    \<longleftrightarrow> (let items = {i \<in> set is. ma_mediaObjectId i = m} in
        items \<noteq> {} \<and> (\<forall>i \<in> items. ma_totalChunks i = int (length wanted)) \<and> (\<Union>i \<in> items. set (ma_chunks i)) = set wanted)"
    (is "?l \<longleftrightarrow> ?r")
proof -
  let ?own = "filter (\<lambda>i. ma_mediaObjectId i = m) is"
  let ?cs = "foldl (\<lambda>s c. set_add c s) [] (concat (map ma_chunks ?own))"
  have set: "set ?cs = (\<Union>i \<in> {i \<in> set is. ma_mediaObjectId i = m}. set (ma_chunks i))"
    by (simp add: foldl_set_add_set)
  have d: "distinct ?cs" by (simp add: foldl_set_add_distinct)
  have cover: "length ?cs = length wanted \<and> list_all (\<lambda>c. c \<in> set ?cs) wanted \<longleftrightarrow> set ?cs = set wanted"
  proof
    assume a: "length ?cs = length wanted \<and> list_all (\<lambda>c. c \<in> set ?cs) wanted"
    then have "set wanted \<subseteq> set ?cs" by (auto simp: list_all_iff)
    moreover have "card (set wanted) = card (set ?cs)" using a d assms by (simp add: distinct_card)
    ultimately show "set ?cs = set wanted" by (metis List.finite_set card_subset_eq)
  next
    assume "set ?cs = set wanted"
    then show "length ?cs = length wanted \<and> list_all (\<lambda>c. c \<in> set ?cs) wanted"
      using d assms by (metis distinct_card list_all_iff)
  qed
  have "?l \<longleftrightarrow> advertised m is None [] = Some (Some (int (length wanted)), ?cs) \<and> set ?cs = set wanted"
  proof
    assume l: ?l
    then obtain n chunks where a: "advertised m is None [] = Some (n, chunks)" by (auto split: option.splits)
    then have "chunks = ?cs" using advertised_iff [of m "is" None "[]" n chunks] by simp
    then show "advertised m is None [] = Some (Some (int (length wanted)), ?cs) \<and> set ?cs = set wanted"
      using l a cover by simp
  qed (use cover in simp)
  also have "\<dots> \<longleftrightarrow> ?r"
    unfolding advertised_iff Let_def set by auto
  finally show ?thesis .
qed


section \<open>The search\<close>

lemma sorted_pages: "sorted_wrt (\<lambda>a b. an_pageIndex a \<le> an_pageIndex b) (js_sort (\<lambda>a b. an_pageIndex a - an_pageIndex b) xs)"
  using comparator.sorted_js_sort [OF comparator_diff [of an_pageIndex]] by simp

lemma holds_all_iff:
  assumes ok: "repo_ok n r" and own: "own = filter (\<lambda>a. an_peerId a = p) (filter (\<lambda>a. an_expiresAt a > now) (jm_values (mp_announcements r)))"
  shows "holds_all m ids own \<longleftrightarrow> announces_all m ids (latest_pages p now r)"
proof -
  let ?last = "filter (\<lambda>a. an_sequence a = latest_sequence own) own"
  let ?ps = "js_sort (\<lambda>a b. an_pageIndex a - an_pageIndex b) ?last"
  have live: "set own = live_announcements p now r" using own by (auto simp: live_announcements_def)
  have pages: "set ?ps = latest_pages p now r"
  proof (rule set_eqI)
    fix a
    have "an_sequence a = latest_sequence own \<longleftrightarrow> (\<forall>b \<in> set own. an_sequence b \<le> an_sequence a)" if "a \<in> set own"
    proof
      assume "\<forall>b \<in> set own. an_sequence b \<le> an_sequence a"
      moreover have "0 \<le> an_sequence a"
      proof -
        have "a \<in> set (jm_values (mp_announcements r))" using that own by auto
        then have "announcement_ok a" using keyed_announcements(2,3) [OF ok] by blast
        then show ?thesis by (simp add: announcement_ok_def)
      qed
      ultimately have "latest_sequence own \<le> an_sequence a" by (simp add: latest_sequence_le)
      then show "an_sequence a = latest_sequence own" using latest_sequence_ge [OF that] by simp
    qed (metis latest_sequence_ge)
    then show "a \<in> set ?ps \<longleftrightarrow> a \<in> latest_pages p now r" using live by (auto simp: latest_pages_def)
  qed
  have vals: "distinct (jm_values (mp_announcements r))"
  proof -
    have "inj_on snd (set (mp_announcements r))"
    proof (rule inj_onI)
      fix x y
      assume xy: "x \<in> set (mp_announcements r)" "y \<in> set (mp_announcements r)" "snd x = snd y"
      have "jm_get (mp_announcements r) (fst x) = Some (snd x)" "jm_get (mp_announcements r) (fst y) = Some (snd y)"
        using xy(1,2) keyed_announcements(1) [OF ok] by simp_all
      then have "fst x = fst y" using keyed_announcements(3) [OF ok] xy(3) by metis
      then show "x = y" using xy(3) by (rule prod_eqI)
    qed
    moreover have "distinct (mp_announcements r)" using keyed_announcements(1) [OF ok] by (simp add: distinct_map)
    ultimately show ?thesis by (simp add: distinct_map)
  qed
  have "inj_on an_pageIndex (set ?ps)"
  proof (rule inj_onI)
    fix a b
    assume "a \<in> set ?ps" "b \<in> set ?ps" "an_pageIndex a = an_pageIndex b"
    then show "a = b" using pages_distinct [OF ok, of a b] own by auto
  qed
  moreover have "distinct ?ps" using vals own by simp
  ultimately have "complete_pages ?ps \<longleftrightarrow> (\<exists>n issued expires. set ?ps \<noteq> {} \<and> an_pageIndex ` set ?ps = {0..<n}
      \<and> (\<forall>a \<in> set ?ps. an_pageCount a = n \<and> an_issuedAt a = issued \<and> an_expiresAt a = expires))"
    by (rule complete_pages_iff [OF _ _ sorted_pages])
  moreover have "length (js_uniq ids) = card (set ids)" by (metis distinct_card distinct_js_uniq set_js_uniq)
  moreover have "{i \<in> set (concat (map an_items ?ps)). ma_mediaObjectId i = m}
      = {i. \<exists>a \<in> latest_pages p now r. i \<in> set (an_items a) \<and> ma_mediaObjectId i = m}"
    unfolding pages [symmetric] by auto
  ultimately show ?thesis
    using advertised_all [OF distinct_js_uniq [of ids], of m "concat (map an_items ?ps)"]
    unfolding holds_all_def announces_all_def Let_def pages set_js_uniq by simp
qed

text \<open>The peers found to hold an object are exactly those whose latest live announcement is complete and
  lists its chunks.\<close>

lemma complete_replica_iff:
  assumes ok: "repo_ok n r"
  shows "p \<in> set (findCompleteReplicaPeers lc m ids now r) \<longleftrightarrow> ids \<noteq> [] \<and> announces_all m ids (latest_pages p now r)"
proof -
  let ?live = "filter (\<lambda>a. an_expiresAt a > now) (jm_values (mp_announcements r))"
  have "p \<in> an_peerId ` set ?live" if "announces_all m ids (latest_pages p now r)"
    using that by (auto simp: announces_all_def latest_pages_def live_announcements_def)
  then show ?thesis
    using holds_all_iff [OF ok refl, where m = m and ids = ids and p = p and now = now] by (auto simp: findCompleteReplicaPeers_def Let_def)
qed

end
