(* ===== verification/MediaAnnounce_Claims.thy ===== *)
theory MediaAnnounce_Claims
  imports MediaAnnounce MediaReplica_Claims Slices TextBounds
begin

text \<open>
  What announcements promise: what is believed was signed by its sender and is current, and what a peer
  announces is found by every peer that hears all of it, in whatever order.
\<close>

section \<open>Believing\<close>

lemma accepted_cases:
  assumes "acceptAnnouncement env v src now r = (Some (Inr a), r')"
  shows "mediaAvailabilityAnnouncementV2 v = Some a \<and> an_peerId a = src \<and> now < an_expiresAt a
    \<and> an_issuedAt a \<le> now + clock_skew env \<and> an_issuedAt a < an_expiresAt a
    \<and> an_expiresAt a - an_issuedAt a \<le> max_ttl_ms \<and> signature_valid env a \<and> saveAnnouncement a r = (Saved, r')
    \<and> (\<exists>n \<le> max_page_bytes. estimateMediaAvailabilityBytes v = Some n)"
proof -
  obtain b where b: "mediaAvailabilityAnnouncementV2 v = Some b"
    using assms by (auto simp: acceptAnnouncement_def split: option.splits)
  have "rejection_of e = None \<longleftrightarrow> e = Saved" for e by (cases e) simp_all
  then show ?thesis
    using assms b by (auto simp: acceptAnnouncement_def split: if_splits option.splits prod.splits)
qed

lemma saved_is_stored:
  assumes "saveAnnouncement a r = (Saved, r')"
  shows "jm_get (mp_announcements r') (createAnnouncementId a) = Some a
    \<and> latest_sequence (peer_announcements (an_peerId a) r) \<le> an_sequence a"
  using assms by (cases rule: save_result_cases [of a r]) (auto simp: jm.get_put)

section \<open>Cutting into pages\<close>

definition page_ok :: "media_item list \<Rightarrow> bool" where
  "page_ok p \<longleftrightarrow> p \<noteq> [] \<and> length p \<le> max_items_per_page \<and> distinct (map ma_mediaObjectId p)"

lemma add_fragment_pages:
  assumes "\<forall>p \<in> set pages. page_ok p"
  shows "concat (add_fragment base pages f) = concat pages @ [f] \<and> (\<forall>p \<in> set (add_fragment base pages f). page_ok p)"
proof (cases "pages = []")
  case True
  then show ?thesis by (simp add: add_fragment_def page_ok_def max_items_per_page_def)
next
  case False
  then have last: "page_ok (last pages)" "last pages \<noteq> []" using assms by (auto simp: page_ok_def)
  have split: "concat pages = concat (butlast pages) @ last pages"
    using False by (metis append_butlast_last_id concat.simps concat_append append_Nil2)
  have rest: "\<forall>p \<in> set (butlast pages). page_ok p" using assms by (meson in_set_butlastD)
  show ?thesis
  proof (cases "ma_mediaObjectId f \<notin> ma_mediaObjectId ` set (last pages)
      \<and> length (last pages @ [f]) \<le> max_items_per_page
      \<and> estimated_page base (length pages) (last pages @ [f]) \<le> max_page_bytes")
    case True
    then have "add_fragment base pages f = butlast pages @ [last pages @ [f]]"
      using False last(2) by (simp add: add_fragment_def Let_def)
    then show ?thesis using True last(1) rest split by (auto simp: page_ok_def)
  next
    case no: False
    then have "add_fragment base pages f = pages @ [[f]]"
      using False last(2) by (auto simp: add_fragment_def Let_def)
    then show ?thesis using assms by (auto simp: page_ok_def max_items_per_page_def)
  qed
qed

text \<open>Every fragment is on a page, in the order of the items, and every page keeps to the limits.\<close>

lemma paginated:
  "concat (paginateAvailabilityItems base items) = concat (map fragments_of items)
   \<and> (\<forall>p \<in> set (paginateAvailabilityItems base items). page_ok p)"
proof -
  have "concat (foldl (add_fragment base) pages fs) = concat pages @ fs
      \<and> (\<forall>p \<in> set (foldl (add_fragment base) pages fs). page_ok p)" if "\<forall>p \<in> set pages. page_ok p" for pages fs
    using that
  proof (induction fs arbitrary: pages)
    case (Cons f fs)
    note step = add_fragment_pages [OF Cons.prems, of base f]
    from Cons.IH [OF conjunct2 [OF step]] show ?case using step by simp
  qed simp
  from this [of "[]" "concat (map fragments_of items)"] show ?thesis by (simp add: paginateAvailabilityItems_def)
qed

definition announceable :: "media_item \<Rightarrow> bool" where
  "announceable i \<longleftrightarrow> ma_mediaObjectId i \<noteq> [] \<and> length (ma_mediaObjectId i) \<le> 512
     \<and> (\<forall>c \<in> set (ma_chunks i). c \<noteq> [] \<and> length c \<le> 512) \<and> safe_nat (ma_totalChunks i)
     \<and> int (length (ma_chunks i)) \<le> max_safe \<and> 0 \<le> ma_updatedAt i"

lemma normalized_fragments:
  assumes "announceable i" and "f \<in> set (fragments_of (normalizeItem i))"
  shows "media_item_ok f \<and> ma_mediaObjectId f = ma_mediaObjectId i
    \<and> ma_totalChunks f = max (ma_totalChunks i) (int (length (ma_chunks i)))"
proof -
  let ?n = "normalizeItem i"
  obtain k where f: "f = ?n\<lparr>ma_chunks := take max_chunks_per_page_item (drop (k * max_chunks_per_page_item) (ma_chunks ?n))\<rparr>"
    using assms(2) by (auto simp: fragments_of_def)
  have chunks: "ma_chunks ?n = js_sort code_cmp (js_uniq (ma_chunks i))" by (simp add: normalizeItem_def)
  have "set (ma_chunks f) \<subseteq> set (ma_chunks i)"
    using set_take_subset [of max_chunks_per_page_item "drop (k * max_chunks_per_page_item) (ma_chunks ?n)"]
      set_drop_subset [of "k * max_chunks_per_page_item" "ma_chunks ?n"] by (simp add: f chunks)
  moreover have "distinct (ma_chunks f)" by (simp add: f chunks)
  moreover have "length (ma_chunks f) \<le> 128" by (simp add: f max_chunks_per_page_item_def)
  moreover have "length (ma_chunks f) \<le> length (ma_chunks i)"
  proof -
    have "length (js_uniq (ma_chunks i)) \<le> length (ma_chunks i)"
      by (metis card_length distinct_card distinct_js_uniq set_js_uniq)
    then show ?thesis by (simp add: f chunks)
  qed
  ultimately show ?thesis
    using assms(1) by (auto simp: f media_item_ok_def announceable_def normalizeItem_def safe_nat_def max_chunks_per_item_def)
qed

lemma fragments_cover:
  assumes "ma_chunks i \<noteq> []"
  shows "fragments_of i \<noteq> [] \<and> (\<Union>f \<in> set (fragments_of i). set (ma_chunks f)) = set (ma_chunks i)"
proof -
  let ?s = max_chunks_per_page_item
  let ?n = "(length (ma_chunks i) + ?s - 1) div ?s"
  have s: "0 < ?s" by (simp add: max_chunks_per_page_item_def)
  have cover: "length (ma_chunks i) \<le> ?n * ?s" by (rule chunk_count [OF s])
  have "(\<Union>f \<in> set (fragments_of i). set (ma_chunks f))
      = set (concat (map (\<lambda>k. take ?s (drop (k * ?s) (ma_chunks i))) [0..<?n]))"
    by (simp add: fragments_of_def)
  also have "\<dots> = set (ma_chunks i)" using chunk_slices [of ?s "ma_chunks i" ?n] cover by simp
  finally have "(\<Union>f \<in> set (fragments_of i). set (ma_chunks f)) = set (ma_chunks i)" .
  moreover from this have "fragments_of i \<noteq> []" using assms by auto
  ultimately show ?thesis by simp
qed


section \<open>What is announced\<close>

lemma normalized_set:
  "set (normalizeItems lc items) = normalizeItem ` {i \<in> set items. ma_chunks i \<noteq> []}"
  by (auto simp: normalizeItems_def)

text \<open>One announcement in pages.\<close>

lemma announced_page:
  assumes a: "a \<in> set (announcement_pages env items now r)"
    and pages: "pages = paginateAvailabilityItems
      (unsigned_page env (getLatestAnnouncementSequence (ae_localeCompare env) (ae_localPeerId env) r + 1) now)
      (normalizeItems (ae_localeCompare env) items)"
  shows "\<exists>k < length pages. an_peerId a = ae_localPeerId env
    \<and> an_sequence a = getLatestAnnouncementSequence (ae_localeCompare env) (ae_localPeerId env) r + 1
    \<and> an_issuedAt a = now \<and> an_expiresAt a = now + announced_ttl env \<and> an_pageIndex a = int k
    \<and> an_pageCount a = int (length pages) \<and> an_items a = pages ! k
    \<and> an_signature a = ae_sign env (getMediaAvailabilitySignableBytes a)"
proof -
  obtain k where "k < length pages" "a = signed_page env (unsigned_page env
      (getLatestAnnouncementSequence (ae_localeCompare env) (ae_localPeerId env) r + 1) now) (length pages) (k, pages ! k)"
    using a unfolding announcement_pages_def Let_def pages [symmetric] by (auto simp: set_zip)
  then show ?thesis
    by (intro exI [of _ k]) (simp add: signed_page_def Let_def unsigned_page_def getMediaAvailabilitySignableBytes_def unsigned_fields_def)
qed

lemma announced_index:
  assumes pages: "pages = paginateAvailabilityItems
      (unsigned_page env (getLatestAnnouncementSequence (ae_localeCompare env) (ae_localPeerId env) r + 1) now)
      (normalizeItems (ae_localeCompare env) items)"
    and k: "k < length pages"
  shows "\<exists>a \<in> set (announcement_pages env items now r). an_pageIndex a = int k \<and> an_items a = pages ! k"
proof -
  let ?a = "signed_page env (unsigned_page env
      (getLatestAnnouncementSequence (ae_localeCompare env) (ae_localPeerId env) r + 1) now) (length pages) (k, pages ! k)"
  have "(k, pages ! k) \<in> set (zip [0..<length pages] pages)" using k by (auto simp: set_zip intro!: exI [of _ k])
  then have "?a \<in> set (announcement_pages env items now r)"
    unfolding announcement_pages_def Let_def pages [symmetric] by (auto intro: imageI)
  then show ?thesis by (intro bexI [of _ ?a]) (simp_all add: signed_page_def Let_def)
qed

lemma announced_ttl_bounds: "0 < announced_ttl env \<and> announced_ttl env \<le> max_ttl_ms"
  by (simp add: announced_ttl_def max_ttl_ms_def)

lemma announced_page_ok:
  assumes a: "a \<in> set (announcement_pages env items now r)" and items: "\<forall>i \<in> set items. announceable i"
    and peer: "ae_localPeerId env \<noteq> []" "length (ae_localPeerId env) \<le> 512" and now: "0 \<le> now"
    and sign: "\<forall>d. ae_sign env d \<noteq> [] \<and> length (ae_sign env d) \<le> 1024"
    and few: "int (length (announcement_pages env items now r)) \<le> max_safe"
      "getLatestAnnouncementSequence (ae_localeCompare env) (ae_localPeerId env) r < max_safe"
  shows "announcement_ok a"
proof -
  define pages where "pages = paginateAvailabilityItems
      (unsigned_page env (getLatestAnnouncementSequence (ae_localeCompare env) (ae_localPeerId env) r + 1) now)
      (normalizeItems (ae_localeCompare env) items)"
  obtain k where k: "k < length pages" "an_peerId a = ae_localPeerId env"
    "an_sequence a = getLatestAnnouncementSequence (ae_localeCompare env) (ae_localPeerId env) r + 1"
    "an_issuedAt a = now" "an_expiresAt a = now + announced_ttl env" "an_pageIndex a = int k"
    "an_pageCount a = int (length pages)" "an_items a = pages ! k"
    "an_signature a = ae_sign env (getMediaAvailabilitySignableBytes a)"
    using announced_page [OF a pages_def] by blast
  have len: "length (announcement_pages env items now r) = length pages"
    by (simp add: announcement_pages_def Let_def pages_def)
  have P: "concat pages = concat (map fragments_of (normalizeItems (ae_localeCompare env) items))"
    "\<forall>p \<in> set pages. page_ok p"
    using paginated unfolding pages_def by blast+
  have "media_item_ok f" if "f \<in> set (pages ! k)" for f
  proof -
    have "f \<in> set (concat pages)" using that k(1) by (auto intro: nth_mem)
    then obtain i where "i \<in> set items" "f \<in> set (fragments_of (normalizeItem i))"
      unfolding P(1) by (auto simp: normalized_set)
    then show ?thesis using items normalized_fragments by blast
  qed
  moreover have "page_ok (pages ! k)" using P(2) k(1) nth_mem by blast
  moreover have "0 \<le> getLatestAnnouncementSequence (ae_localeCompare env) (ae_localPeerId env) r"
    using latest_sequence_le [of "listAnnouncements (ae_localeCompare env) (Some (ae_localPeerId env)) r"]
    unfolding latest_sequence_eq by blast
  ultimately show ?thesis
    using k peer now sign few announced_ttl_bounds [of env]
    by (simp add: announcement_ok_def page_ok_def safe_nat_def len)
qed

lemma saved_pages_fit: "save_pages as r = (True, r') \<Longrightarrow> a \<in> set as \<Longrightarrow> page_fits a"
  by (induction as arbitrary: r) (auto split: if_splits)

lemma created_pages:
  assumes "createAnnouncements env items now r = (Some pages, r')" and "pages \<noteq> []"
  shows "pages = announcement_pages env items now r \<and> (\<forall>a \<in> set pages. page_fits a)"
  using assms saved_pages_fit by (auto simp: createAnnouncements_def Let_def split: if_splits prod.splits)


section \<open>Hearing an announcement\<close>

text \<open>The pages as they arrive, each at its time.\<close>

definition hear :: "announce_env \<Rightarrow> string \<Rightarrow> (announcement \<times> int) list \<Rightarrow> media_repo \<Rightarrow> media_repo" where
  "hear env src arrivals r = foldl (\<lambda>r (a, t). snd (acceptAnnouncement env (announcement_value a) src t r)) r arrivals"

text \<open>The pages of one announcement: made together, by one peer, each under its own identifier.\<close>

definition one_announcement :: "string \<Rightarrow> int \<Rightarrow> int \<Rightarrow> int \<Rightarrow> int \<Rightarrow> announcement set \<Rightarrow> bool" where
  "one_announcement p seq issued expires n pages \<longleftrightarrow> (\<forall>a \<in> pages. announcement_ok a \<and> an_peerId a = p
     \<and> an_sequence a = seq \<and> an_issuedAt a = issued \<and> an_expiresAt a = expires \<and> an_pageCount a = n)"

definition heard :: "string \<Rightarrow> int \<Rightarrow> announcement set \<Rightarrow> announcement set \<Rightarrow> media_repo \<Rightarrow> bool" where
  "heard p seq pages got r \<longleftrightarrow> (if got = {} then latest_sequence (peer_announcements p r) < seq
       else set (peer_announcements p r) = got)
     \<and> inj_on createAnnouncementId (set (jm_values (mp_announcements r)) \<union> pages)"

lemma in_peer_announcements:
  "repo_ok n r \<Longrightarrow> a \<in> set (peer_announcements p r) \<longleftrightarrow> jm_get (mp_announcements r) (createAnnouncementId a) = Some a \<and> an_peerId a = p"
  using keyed_announcements(2) by (auto simp: peer_announcements_def)

lemma heard_step:
  assumes ok: "repo_ok n r" and one: "one_announcement p seq issued expires count' pages"
    and h: "heard p seq pages got r" and sub: "got \<subseteq> pages" and a: "a \<in> pages"
  shows "heard p seq pages (insert a got) (snd (saveAnnouncement a r))"
proof -
  let ?r = "snd (saveAnnouncement a r)"
  have A: "announcement_ok a" "an_peerId a = p" "an_sequence a = seq"
    using one a by (auto simp: one_announcement_def)
  have ok': "repo_ok n ?r" by (rule save_announcement_ok [OF ok A(1)])
  have inj: "inj_on createAnnouncementId (set (jm_values (mp_announcements r)) \<union> pages)" using h by (simp add: heard_def)
  have unique: "e = a" if "jm_get (mp_announcements r) (createAnnouncementId a) = Some e" for e
  proof -
    have "createAnnouncementId e = createAnnouncementId a" "e \<in> set (jm_values (mp_announcements r))"
      using keyed_announcements(2,3) [OF ok] that by metis+
    then show ?thesis using inj a by (simp add: inj_on_def)
  qed
  have inj': "inj_on createAnnouncementId (set (jm_values (mp_announcements ?r)) \<union> pages)"
  proof (rule inj_on_subset [OF inj])
    have "jm_get (mp_announcements r) (createAnnouncementId b) = Some b \<or> b = a"
      if "jm_get (mp_announcements ?r) (createAnnouncementId b) = Some b" for b
      using that
    proof (cases rule: save_result_cases [of a r])
      case newer
      let ?rest = "filter (\<lambda>(k, x). an_peerId x \<noteq> an_peerId a) (mp_announcements r)"
      have "mp_announcements ?r = jm_set (createAnnouncementId a) a ?rest" using newer(1) by simp
      then have "(if createAnnouncementId b = createAnnouncementId a then Some a else jm_get ?rest (createAnnouncementId b)) = Some b"
        using that by (simp only: jm.get_put)
      then have "b = a \<or> jm_get ?rest (createAnnouncementId b) = Some b" by (metis option.inject)
      then show ?thesis unfolding get_filter [OF keyed_announcements(1) [OF ok]] by blast
    next
      case same
      have "mp_announcements ?r = jm_set (createAnnouncementId a) a (mp_announcements r)" using same(1) by simp
      then have "(if createAnnouncementId b = createAnnouncementId a then Some a
          else jm_get (mp_announcements r) (createAnnouncementId b)) = Some b"
        using that by (simp only: jm.get_put)
      then show ?thesis by (metis option.inject)
    next
      case (refused e)
      then show ?thesis using that by simp
    qed
    then have "b \<in> set (jm_values (mp_announcements r)) \<or> b = a" if "b \<in> set (jm_values (mp_announcements ?r))" for b
      using that unfolding keyed_announcements(2) [OF ok] keyed_announcements(2) [OF ok'] .
    then show "set (jm_values (mp_announcements ?r)) \<union> pages \<subseteq> set (jm_values (mp_announcements r)) \<union> pages"
      using a by blast
  qed
  show ?thesis
  proof (cases "jm_get (mp_announcements r) (createAnnouncementId a)")
    case (Some e)
    then have e: "jm_get (mp_announcements r) (createAnnouncementId a) = Some a" using unique by blast
    then have own: "a \<in> set (peer_announcements p r)" using in_peer_announcements [OF ok] A(2) by blast
    then have "got \<noteq> {}" "a \<in> got"
      using h latest_sequence_ge [OF own] A(3) by (auto simp: heard_def split: if_splits)
    moreover have "?r = r" using e by (cases rule: save_result_cases [of a r]) auto
    ultimately show ?thesis using h by (simp add: heard_def insert_absorb)
  next
    case None
    show ?thesis
    proof (cases "got = {}")
      case True
      then have lt: "latest_sequence (peer_announcements (an_peerId a) r) < an_sequence a" using h A by (simp add: heard_def)
      then have r: "mp_announcements ?r = jm_set (createAnnouncementId a) a
          (filter (\<lambda>(k, x). an_peerId x \<noteq> an_peerId a) (mp_announcements r))"
      proof -
        have "filter (\<lambda>x. an_sequence x = an_sequence a) (peer_announcements (an_peerId a) r) = []"
          using lt latest_sequence_ge by (fastforce simp: filter_empty_conv)
        then show ?thesis using None lt by (simp add: saveAnnouncement_def Let_def)
      qed
      have "b \<in> set (peer_announcements p ?r) \<longleftrightarrow> b = a" for b
        using get_filter [OF keyed_announcements(1) [OF ok], of _ "createAnnouncementId b" b] A(2)
        unfolding in_peer_announcements [OF ok'] r by (auto simp: jm.get_put simp del: map_of_eq_Some_iff)
      then show ?thesis using True inj' by (auto simp: heard_def)
    next
      case False
      then have own: "set (peer_announcements p r) = got" using h by (simp add: heard_def)
      have together: "an_sequence b = seq \<and> an_issuedAt b = an_issuedAt a \<and> an_expiresAt b = an_expiresAt a
          \<and> an_pageCount b = an_pageCount a" if "b \<in> got" for b
        using one a sub that by (auto simp: one_announcement_def)
      obtain b where "b \<in> got" using False by blast
      have "latest_sequence (peer_announcements p r) = seq"
      proof (rule order_antisym)
        show "latest_sequence (peer_announcements p r) \<le> seq"
          using together own A(1,3) by (auto simp: latest_sequence_le announcement_ok_def)
        show "seq \<le> latest_sequence (peer_announcements p r)"
          using latest_sequence_ge [of b "peer_announcements p r"] together \<open>b \<in> got\<close> own by auto
      qed
      then have r: "mp_announcements ?r = jm_set (createAnnouncementId a) a (mp_announcements r)"
        using None A(2,3) together own by (auto simp: saveAnnouncement_def Let_def list_ex_iff)
      have "b \<in> set (peer_announcements p ?r) \<longleftrightarrow> b = a \<or> b \<in> got" for b
        using None A(2) unfolding in_peer_announcements [OF ok'] own [symmetric] in_peer_announcements [OF ok] r
        by (auto simp: jm.get_put simp del: map_of_eq_Some_iff)
      then show ?thesis using inj' by (auto simp: heard_def)
    qed
  qed
qed


lemma accept_saves:
  assumes "announcement_ok a" and "an_peerId a = p" and "t < an_expiresAt a" and "an_issuedAt a \<le> t + clock_skew env"
    and "an_issuedAt a < an_expiresAt a" and "an_expiresAt a - an_issuedAt a \<le> max_ttl_ms"
    and "page_fits a" and "signature_valid env a"
  shows "snd (acceptAnnouncement env (announcement_value a) p t r) = snd (saveAnnouncement a r)"
proof -
  obtain n where "estimateMediaAvailabilityBytes (announcement_value a) = Some n" "n \<le> max_page_bytes"
    using assms(7) by (auto simp: page_fits_def split: option.splits)
  then show ?thesis
    using assms announcement_reads_back [OF assms(1)]
    by (simp add: acceptAnnouncement_def split: prod.split option.split)
qed

lemma hear_pages:
  assumes one: "one_announcement p seq issued expires count' pages" and ok: "repo_ok n r"
    and h: "heard p seq pages got r" and sub: "got \<subseteq> pages"
    and "issued < expires" and "expires - issued \<le> max_ttl_ms"
    and fits: "\<forall>a \<in> pages. page_fits a \<and> signature_valid env a"
    and arr: "\<forall>(a, t) \<in> set arrivals. a \<in> pages \<and> t < expires \<and> issued \<le> t + clock_skew env"
  shows "repo_ok n (hear env p arrivals r) \<and> heard p seq pages (got \<union> fst ` set arrivals) (hear env p arrivals r)"
  using ok h sub arr
proof (induction arrivals arbitrary: r got)
  case Nil
  then show ?case by (simp add: hear_def)
next
  case (Cons at arrivals)
  obtain a t where at: "at = (a, t)" by (cases at)
  have a: "a \<in> pages" "t < expires" "issued \<le> t + clock_skew env" using Cons.prems(4) at by auto
  have A: "announcement_ok a" "an_peerId a = p" "an_issuedAt a = issued" "an_expiresAt a = expires"
    using one a(1) by (auto simp: one_announcement_def)
  have saves: "snd (acceptAnnouncement env (announcement_value a) p t r) = snd (saveAnnouncement a r)"
    by (rule accept_saves) (use A a assms(5,6) fits in auto)
  have "repo_ok n (hear env p arrivals (snd (saveAnnouncement a r)))
      \<and> heard p seq pages (insert a got \<union> fst ` set arrivals) (hear env p arrivals (snd (saveAnnouncement a r)))"
  proof (rule Cons.IH)
    show "repo_ok n (snd (saveAnnouncement a r))" by (rule save_announcement_ok [OF Cons.prems(1) A(1)])
    show "heard p seq pages (insert a got) (snd (saveAnnouncement a r))"
      by (rule heard_step [OF Cons.prems(1) one Cons.prems(2,3) a(1)])
  qed (use a(1) Cons.prems(3,4) in auto)
  moreover have "hear env p (at # arrivals) r = hear env p arrivals (snd (saveAnnouncement a r))"
    by (simp add: hear_def at saves)
  ultimately show ?case by (simp add: at)
qed

text \<open>All pages together announce every chunk of a complete item.\<close>

lemma pages_announce_all:
  assumes items: "\<forall>i \<in> set items. announceable i" and ids: "distinct (map ma_mediaObjectId items)"
    and i: "i \<in> set items" "ma_chunks i \<noteq> []" "distinct (ma_chunks i)" "ma_totalChunks i = int (length (ma_chunks i))"
  shows "announces_all (ma_mediaObjectId i) (ma_chunks i) (set (announcement_pages env items now r))"
proof -
  define pages where "pages = paginateAvailabilityItems
      (unsigned_page env (getLatestAnnouncementSequence (ae_localeCompare env) (ae_localPeerId env) r + 1) now)
      (normalizeItems (ae_localeCompare env) items)"
  let ?A = "set (announcement_pages env items now r)"
  have P: "concat pages = concat (map fragments_of (normalizeItems (ae_localeCompare env) items))"
    "\<forall>p \<in> set pages. page_ok p"
    using paginated unfolding pages_def by blast+
  have page: "\<exists>k < length pages. an_pageIndex a = int k \<and> an_pageCount a = int (length pages) \<and> an_issuedAt a = now
      \<and> an_expiresAt a = now + announced_ttl env \<and> an_items a = pages ! k" if "a \<in> ?A" for a
    using announced_page [OF that pages_def] by blast
  have index: "\<exists>a \<in> ?A. an_pageIndex a = int k \<and> an_items a = pages ! k" if "k < length pages" for k
    by (rule announced_index [OF pages_def that])
  have all: "(\<Union>a \<in> ?A. set (an_items a)) = set (concat pages)"
  proof
    show "(\<Union>a \<in> ?A. set (an_items a)) \<subseteq> set (concat pages)" using page by (fastforce intro: nth_mem)
    show "set (concat pages) \<subseteq> (\<Union>a \<in> ?A. set (an_items a))"
      using index by (auto simp: in_set_conv_nth) metis
  qed
  let ?n = "normalizeItem i"
  have chunks: "set (ma_chunks ?n) = set (ma_chunks i)" by (simp add: normalizeItem_def)
  then have ne: "ma_chunks ?n \<noteq> []" using i(2) by (metis set_empty)
  have mine: "{f. \<exists>a \<in> ?A. f \<in> set (an_items a) \<and> ma_mediaObjectId f = ma_mediaObjectId i} = set (fragments_of ?n)"
  proof
    show "{f. \<exists>a \<in> ?A. f \<in> set (an_items a) \<and> ma_mediaObjectId f = ma_mediaObjectId i} \<subseteq> set (fragments_of ?n)"
    proof
      fix f
      assume "f \<in> {f. \<exists>a \<in> ?A. f \<in> set (an_items a) \<and> ma_mediaObjectId f = ma_mediaObjectId i}"
      then have f: "f \<in> set (concat pages)" "ma_mediaObjectId f = ma_mediaObjectId i" using all by blast+
      then obtain j where j: "j \<in> set items" "f \<in> set (fragments_of (normalizeItem j))"
        unfolding P(1) by (auto simp: normalized_set)
      then have "ma_mediaObjectId j = ma_mediaObjectId i" using items normalized_fragments f(2) by metis
      then have "j = i" using ids i(1) j(1) by (metis distinct_map inj_onD)
      then show "f \<in> set (fragments_of ?n)" using j(2) by simp
    qed
    show "set (fragments_of ?n) \<subseteq> {f. \<exists>a \<in> ?A. f \<in> set (an_items a) \<and> ma_mediaObjectId f = ma_mediaObjectId i}"
    proof
      fix f
      assume f: "f \<in> set (fragments_of ?n)"
      then have "f \<in> set (concat pages)" unfolding P(1) using i(1,2) by (auto simp: normalized_set)
      then show "f \<in> {f. \<exists>a \<in> ?A. f \<in> set (an_items a) \<and> ma_mediaObjectId f = ma_mediaObjectId i}"
        using all normalized_fragments items i(1) f by blast
    qed
  qed
  have cover: "fragments_of ?n \<noteq> []" "(\<Union>f \<in> set (fragments_of ?n). set (ma_chunks f)) = set (ma_chunks i)"
    using fragments_cover [OF ne] chunks by simp_all
  have totals: "ma_totalChunks f = int (card (set (ma_chunks i)))" if "f \<in> set (fragments_of ?n)" for f
    using normalized_fragments [OF _ that] items i by (simp add: distinct_card)
  have indices: "an_pageIndex ` ?A = {0..<int (length pages)}"
  proof
    show "an_pageIndex ` ?A \<subseteq> {0..<int (length pages)}" using page by fastforce
    show "{0..<int (length pages)} \<subseteq> an_pageIndex ` ?A"
    proof
      fix x
      assume "x \<in> {0..<int (length pages)}"
      then have "nat x < length pages" "x = int (nat x)" by auto
      then show "x \<in> an_pageIndex ` ?A" using index by (metis imageI)
    qed
  qed
  have "{f. \<exists>a \<in> ?A. f \<in> set (an_items a) \<and> ma_mediaObjectId f = ma_mediaObjectId i} \<noteq> {}"
    unfolding mine using cover(1) by simp
  then have nonempty: "?A \<noteq> {}" by (rule contrapos_nn) simp
  have together: "\<forall>a \<in> ?A. an_pageCount a = int (length pages) \<and> an_issuedAt a = now \<and> an_expiresAt a = now + announced_ttl env"
    using page by blast
  have "\<exists>n issued expires. ?A \<noteq> {} \<and> an_pageIndex ` ?A = {0..<n}
      \<and> (\<forall>a \<in> ?A. an_pageCount a = n \<and> an_issuedAt a = issued \<and> an_expiresAt a = expires)"
    using nonempty indices together by blast
  moreover have "set (fragments_of ?n) \<noteq> {}" using cover(1) by simp
  ultimately show ?thesis unfolding announces_all_def Let_def mine using totals cover(2) by blast
qed




lemma save_pages_fst: "fst (save_pages as r) = list_all page_fits as"
  by (induction as arbitrary: r) auto

definition announce_sample_env :: announce_env where
  "announce_sample_env = \<lparr>ae_localPeerId = ''alice'', ae_sign = (\<lambda>d. ''s''), ae_verify = (\<lambda>d s p. s = ''s''), ae_ttlMs = None,
     ae_maxClockSkewMs = None, ae_localeCompare = code_cmp\<rparr>"

definition sample_items :: "media_item list" where
  "sample_items = [\<lparr>ma_mediaObjectId = ''media_1'', ma_chunks = [''b'', ''a''], ma_totalChunks = 2, ma_updatedAt = 5\<rparr>]"

definition sample_page :: announcement where
  "sample_page = \<lparr>an_peerId = ''alice'', an_sequence = 1, an_issuedAt = 1000, an_expiresAt = 301000, an_pageIndex = 0,
     an_pageCount = 1, an_items = [\<lparr>ma_mediaObjectId = ''media_1'', ma_chunks = [''a'', ''b''], ma_totalChunks = 2,
       ma_updatedAt = 5\<rparr>], an_signature = ''s''\<rparr>"

lemma sample_fragments:
  "concat (map fragments_of (normalizeItems code_cmp sample_items)) = an_items sample_page"
  by code_simp

lemma sample_pages: "announcement_pages announce_sample_env sample_items 1000 (empty_repo empty_db) = [sample_page]"
proof -
  have "getLatestAnnouncementSequence (ae_localeCompare announce_sample_env) (ae_localPeerId announce_sample_env) (empty_repo empty_db) = 0"
    by code_simp
  moreover have "announced_ttl announce_sample_env = 300000"
    by (simp add: announced_ttl_def announce_sample_env_def or_else_def default_ttl_ms_def max_ttl_ms_def)
  moreover have "paginateAvailabilityItems base (normalizeItems (ae_localeCompare announce_sample_env) sample_items) = [an_items sample_page]" for base
    using sample_fragments by (simp add: paginateAvailabilityItems_def announce_sample_env_def sample_page_def add_fragment_def)
  ultimately show ?thesis
    by (simp add: announcement_pages_def Let_def signed_page_def unsigned_page_def) (simp add: announce_sample_env_def sample_page_def)
qed

lemma sample_fits: "page_fits sample_page"
proof -
  have "plain (announcement_value sample_page)"
    by (simp add: announcement_value_def unsigned_fields_def sample_page_def item_value_def)
  then obtain j where j: "to_json (announcement_value sample_page) = Text j"
    "length (stringify j) \<le> text_bound (announcement_value sample_page)"
    using plain_text [of "announcement_value sample_page"] by (auto simp: announcement_value_def)
  have "text_bound (announcement_value sample_page) \<le> 3000"
    by (simp add: announcement_value_def unsigned_fields_def sample_page_def item_value_def availability_version_def
        show_int_def show_nat.simps)
  then show ?thesis
    using j encoded_length [of "units (stringify j)"]
    by (simp add: page_fits_def estimateMediaAvailabilityBytes_def max_page_bytes_def units_def)
qed

lemma sample_created:
  "createAnnouncements announce_sample_env sample_items 1000 (empty_repo empty_db)
     = (Some [sample_page], snd (createAnnouncements announce_sample_env sample_items 1000 (empty_repo empty_db)))"
proof -
  have "normalizeItems (ae_localeCompare announce_sample_env) sample_items \<noteq> []" by code_simp
  moreover have "fst (save_pages [sample_page] (empty_repo empty_db))" by (simp add: save_pages_fst sample_fits)
  ultimately show ?thesis
    unfolding createAnnouncements_def Let_def sample_pages by (simp add: sample_fits split: prod.splits)
qed


text \<open>C28: An announcement that is believed was signed by the peer it came from, is current and keeps to the
  limits of the protocol, and nothing newer of that peer was known; it is what is remembered.\<close>

theorem accepted_announcement_genuine:
  assumes "acceptAnnouncement env v src now r = (Some (Inr a), r')"
  shows "an_peerId a = src \<and> ae_verify env (getMediaAvailabilitySignableBytes a) (an_signature a) src
    \<and> announcement_ok a \<and> now < an_expiresAt a \<and> an_issuedAt a \<le> now + clock_skew env
    \<and> an_issuedAt a < an_expiresAt a \<and> an_expiresAt a \<le> an_issuedAt a + max_ttl_ms
    \<and> latest_sequence (peer_announcements src r) \<le> an_sequence a
    \<and> jm_get (mp_announcements r') (createAnnouncementId a) = Some a"
  using accepted_cases [OF assms] announcement_guard_sound saved_is_stored by (auto simp: signature_valid_def)

theorem accepted_announcement_genuine_witness:
  "an_peerId sample_page = ''alice'' \<and> announcement_ok sample_page \<and> an_expiresAt sample_page \<le> an_issuedAt sample_page + max_ttl_ms"
proof -
  have p: "announcement_ok sample_page"
    by (simp add: announcement_ok_def sample_page_def safe_nat_def media_item_ok_def max_chunks_per_item_def max_items_per_page_def)
  have g: "mediaAvailabilityAnnouncementV2 (announcement_value sample_page) = Some sample_page"
    by (rule announcement_reads_back [OF p])
  obtain n where n: "estimateMediaAvailabilityBytes (announcement_value sample_page) = Some n" "n \<le> max_page_bytes"
    using sample_fits by (auto simp: page_fits_def split: option.splits)
  have "fst (saveAnnouncement sample_page (empty_repo empty_db)) = Saved"
    by (simp add: saveAnnouncement_def Let_def peer_announcements_def empty_repo_def latest_sequence_def sample_page_def)
  then obtain r' where saved: "saveAnnouncement sample_page (empty_repo empty_db) = (Saved, r')" by (metis prod.collapse)
  have "an_peerId sample_page = ''alice''" "an_expiresAt sample_page = 301000" "an_issuedAt sample_page = 1000"
    "signature_valid announce_sample_env sample_page" "clock_skew announce_sample_env = 60000" "max_ttl_ms = 900000"
    by (simp_all add: sample_page_def announce_sample_env_def signature_valid_def clock_skew_def or_else_def max_clock_skew_ms_def max_ttl_ms_def)
  then have "acceptAnnouncement announce_sample_env (announcement_value sample_page) ''alice'' 1500 (empty_repo empty_db)
      = (Some (Inr sample_page), r')"
    using n by (simp add: acceptAnnouncement_def g saved)
  from accepted_announcement_genuine [OF this] show ?thesis by simp
qed



text \<open>C32: The peers found to hold an object completely are those whose latest live announcement is complete,
  whose pages were made together, and whose items for the object list its chunks and no others.\<close>

theorem complete_replicas_found:
  assumes "list_all op_ok xs" and "r = foldl repo_step (empty_repo empty_db) xs"
  shows "p \<in> set (findCompleteReplicaPeers lc m ids now r) \<longleftrightarrow> ids \<noteq> [] \<and> announces_all m ids (latest_pages p now r)"
  by (rule complete_replica_iff [OF repo_run_ok [OF empty_repo_ok assms(1), folded assms(2)]])

lemma sample_page_ok: "announcement_ok sample_page"
  by (simp add: announcement_ok_def sample_page_def safe_nat_def media_item_ok_def max_chunks_per_item_def max_items_per_page_def)

theorem complete_replicas_found_witness:
  "''alice'' \<in> set (findCompleteReplicaPeers code_cmp ''media_1'' [''a''] 2000
      (foldl repo_step (empty_repo empty_db) [Save_announcement sample_page]))
   \<longleftrightarrow> announces_all ''media_1'' [''a''] (latest_pages ''alice'' 2000
      (foldl repo_step (empty_repo empty_db) [Save_announcement sample_page]))"
  using complete_replicas_found [of "[Save_announcement sample_page]" _ "''alice''" code_cmp "''media_1''" "[''a'']" 2000]
    sample_page_ok by simp

section \<open>What is held was signed\<close>

definition all_signed :: "announce_env \<Rightarrow> media_repo \<Rightarrow> bool" where
  "all_signed env r \<longleftrightarrow> (\<forall>a \<in> set (jm_values (mp_announcements r)). signature_valid env a)"

lemma removed_announcements:
  assumes "repo_ok n r"
  shows "repo_ok n (fold removeAnnouncement as r)
    \<and> (\<forall>b. jm_get (mp_announcements (fold removeAnnouncement as r)) (createAnnouncementId b) = Some b
         \<longrightarrow> jm_get (mp_announcements r) (createAnnouncementId b) = Some b \<and> b \<notin> set as)"
  using assms
proof (induction as arbitrary: r)
  case (Cons a as)
  have ok: "repo_ok n (removeAnnouncement a r)"
    using Cons.prems by (simp add: repo_ok_def removeAnnouncement_def Let_def availability_remove)
  have "jm_get (mp_announcements (removeAnnouncement a r)) (createAnnouncementId b) = Some b \<Longrightarrow>
      jm_get (mp_announcements r) (createAnnouncementId b) = Some b \<and> b \<noteq> a" for b
    by (auto simp: removeAnnouncement_def Let_def jm.get_remove simp del: map_of_eq_Some_iff split: if_splits)
  then show ?case using Cons.IH [OF ok] by (auto simp del: map_of_eq_Some_iff)
qed simp

lemma pruned_subset:
  assumes "repo_ok n r"
  shows "set (jm_values (mp_announcements (snd (pruneExpiredAnnouncements now r)))) \<subseteq> set (jm_values (mp_announcements r))"
proof -
  have "set (fold jm_delete ks m) \<subseteq> set m" for ks and m :: "(string, announcement) jsmap"
    by (induction ks arbitrary: m) (auto dest: subsetD [OF jm_delete_subset])
  then show ?thesis by (auto simp: pruneExpiredAnnouncements_def Let_def)
qed

lemma initialized_signed:
  assumes ok: "repo_ok n r"
  shows "repo_ok n (snd (initializeAvailability env now r)) \<and> all_signed env (snd (initializeAvailability env now r))"
proof -
  let ?bad = "filter (\<lambda>a. \<not> (timestamps_valid env now a \<and> signature_valid env a)) (listAnnouncements (ae_localeCompare env) None r)"
  let ?r = "fold removeAnnouncement ?bad r"
  have r': "snd (initializeAvailability env now r) = snd (pruneExpiredAnnouncements now ?r)"
    by (simp add: initializeAvailability_def Let_def case_prod_beta)
  have ok1: "repo_ok n ?r" using removed_announcements [OF ok] by blast
  have "signature_valid env b" if "b \<in> set (jm_values (mp_announcements ?r))" for b
  proof -
    have "jm_get (mp_announcements ?r) (createAnnouncementId b) = Some b"
      using that keyed_announcements(2) [OF ok1] by blast
    then have b: "jm_get (mp_announcements r) (createAnnouncementId b) = Some b" "b \<notin> set ?bad"
      using removed_announcements [OF ok] by blast+
    have "b \<in> set (jm_values (mp_announcements r))" using b(1) keyed_announcements(2) [OF ok] by blast
    then show ?thesis using b(2) by (auto simp: listAnnouncements_def)
  qed
  then have "all_signed env (snd (pruneExpiredAnnouncements now ?r))"
    unfolding all_signed_def using pruned_subset [OF ok1] by blast
  then show ?thesis unfolding r' using prune_announcements_ok [OF ok1] by blast
qed

lemma accept_result:
  "snd (acceptAnnouncement env v src now r) = r \<or> (\<exists>a. mediaAvailabilityAnnouncementV2 v = Some a
     \<and> signature_valid env a \<and> snd (acceptAnnouncement env v src now r) = snd (saveAnnouncement a r))"
proof (cases "mediaAvailabilityAnnouncementV2 v")
  case (Some a)
  then show ?thesis
    by (cases "saveAnnouncement a r"; cases "estimateMediaAvailabilityBytes v"; cases "rejection_of (fst (saveAnnouncement a r))")
      (simp_all add: acceptAnnouncement_def)
qed (simp add: acceptAnnouncement_def)

lemma accept_keeps_signed:
  assumes ok: "repo_ok n r" and s: "all_signed env r"
  shows "repo_ok n (snd (acceptAnnouncement env v src now r)) \<and> all_signed env (snd (acceptAnnouncement env v src now r))"
proof -
  consider "snd (acceptAnnouncement env v src now r) = r"
    | a where "announcement_ok a" "signature_valid env a" "snd (acceptAnnouncement env v src now r) = snd (saveAnnouncement a r)"
    using accept_result [of env v src now r] announcement_guard_sound by blast
  then show ?thesis
  proof cases
    case 2
    have ok': "repo_ok n (snd (saveAnnouncement a r))" by (rule save_announcement_ok [OF ok 2(1)])
    have "b = a \<or> b \<in> set (jm_values (mp_announcements r))" if "b \<in> set (jm_values (mp_announcements (snd (saveAnnouncement a r))))" for b
      using that jm_values_update_subset
      by (cases rule: save_result_cases [of a r]) (auto dest!: subsetD [OF jm_values_update_subset] intro: rev_image_eqI)
    then have "all_signed env (snd (saveAnnouncement a r))" using s 2(2) unfolding all_signed_def by blast
    then show ?thesis using ok' 2(3) by simp
  qed (use assms in simp)
qed




end
