(* ===== verification/MediaCleanup.thy ===== *)
theory MediaCleanup
  imports MediaIntegrity MediaRepository
begin

text \<open>
  Freeing storage: \<open>src/services/media/MediaCacheCleanupService.ts\<close> over the tables of chunks and objects,
  the posts that refer to media and the media repository. Posts are the lists of identifiers they attach;
  the tables do not change while a batch is read, other than by the cleanup itself. Sizes in the tables are
  integers. Chunks are walked in the order of the table instead of by time: what is deleted is the same. The options leave out the download repository together with all that is asked of it.
\<close>

record cleanup_options =
  co_maxBytes :: "int option"
  co_postScanBatchSize :: "nat option"
  co_mediaScanBatchSize :: "nat option"
  co_localPeerId :: "string option"
  co_hasRepository :: bool
  co_recentAccessProtectionMs :: "int option"
  co_localeCompare :: "string \<Rightarrow> string \<Rightarrow> int"

definition default_recent_access_ms :: int where
  "default_recent_access_ms = 24 * 60 * 60 * 1000"

section \<open>Reading in batches\<close>

text \<open>\<open>while (true)\<close>: a batch that is not full is the last. A batch size of zero never ends.\<close>

partial_function (option) scan_batches :: "nat \<Rightarrow> 'a list \<Rightarrow> nat \<Rightarrow> 'a list option" where
  "scan_batches b rows offset =
     (let batch = take b (drop offset rows) in
      if length batch < b then Some batch
      else Option.bind (scan_batches b rows (offset + b)) (\<lambda>rest. Some (batch @ rest)))"

definition listAllMediaObjects :: "cleanup_options \<Rightarrow> media_tables \<Rightarrow> media_object list option" where
  "listAllMediaObjects opts t = scan_batches (or_else (co_mediaScanBatchSize opts) 100) (all_objects t) 0"

definition collectReferencedMediaIds :: "cleanup_options \<Rightarrow> string list list \<Rightarrow> string list option" where
  "collectReferencedMediaIds opts posts =
     map_option (\<lambda>ps. js_uniq (concat ps)) (scan_batches (or_else (co_postScanBatchSize opts) 100) posts 0)"

section \<open>What is kept\<close>

record retention_facts =
  rf_referenced :: bool
  rf_externalReplicas :: nat
  rf_lastAccessedAt :: int
  rf_size :: number

record retention =
  rt_protected :: "string list"
  rt_facts :: "(string, retention_facts) jsmap"
  rt_byActiveDownload :: nat
  rt_byRecentAccess :: nat
  rt_asLastKnownReplica :: nat

definition access_of :: "cleanup_options \<Rightarrow> media_repo \<Rightarrow> string \<Rightarrow> access_record option" where
  "access_of opts r i = (if co_hasRepository opts then getMediaAccess i r else None)"

definition active_download :: "cleanup_options \<Rightarrow> media_repo \<Rightarrow> string \<Rightarrow> bool" where
  "active_download opts r i \<longleftrightarrow> (if co_hasRepository opts then
      (case getState i r of None \<Rightarrow> False | Some s \<Rightarrow> md_status s = Queued_status \<or> md_status s = Downloading_status) else False)"

definition recently_accessed :: "cleanup_options \<Rightarrow> int \<Rightarrow> media_repo \<Rightarrow> string \<Rightarrow> bool" where
  "recently_accessed opts now r i \<longleftrightarrow> (case access_of opts r i of None \<Rightarrow> False
     | Some a \<Rightarrow> ac_lastAccessedAt a \<ge> now - or_else (co_recentAccessProtectionMs opts) default_recent_access_ms)"

definition external_replicas :: "cleanup_options \<Rightarrow> int \<Rightarrow> media_repo \<Rightarrow> media_object \<Rightarrow> nat" where
  "external_replicas opts now r m = (if co_hasRepository opts
     then length (findCompleteReplicaPeers (co_localeCompare opts) (mo_id m) (mo_chunks m) now r) else 0)"

definition last_known_replica :: "cleanup_options \<Rightarrow> string list \<Rightarrow> int \<Rightarrow> media_repo \<Rightarrow> media_object \<Rightarrow> bool" where
  "last_known_replica opts referenced now r m \<longleftrightarrow> mo_id m \<in> set referenced \<and> external_replicas opts now r m = 0"

definition is_protected :: "cleanup_options \<Rightarrow> string list \<Rightarrow> int \<Rightarrow> media_repo \<Rightarrow> media_object \<Rightarrow> bool" where
  "is_protected opts referenced now r m \<longleftrightarrow>
     (case access_of opts r (mo_id m) of None \<Rightarrow> False | Some a \<Rightarrow> ac_protected a)
     \<or> co_localPeerId opts = Some (mo_author m) \<or> active_download opts r (mo_id m)
     \<or> recently_accessed opts now r (mo_id m) \<or> last_known_replica opts referenced now r m"

definition evaluateRetention ::
  "cleanup_options \<Rightarrow> media_object list \<Rightarrow> string list \<Rightarrow> int \<Rightarrow> media_repo \<Rightarrow> retention" where
  "evaluateRetention opts objects referenced now r =
     \<lparr>rt_protected = js_uniq (map mo_id (filter (is_protected opts referenced now r) objects)),
      rt_facts = foldl (\<lambda>f m. jm_set (mo_id m) \<lparr>rf_referenced = (mo_id m \<in> set referenced),
          rf_externalReplicas = external_replicas opts now r m,
          rf_lastAccessedAt = (case access_of opts r (mo_id m) of None \<Rightarrow> mo_updatedAt m | Some a \<Rightarrow> ac_lastAccessedAt a),
          rf_size = mo_size m\<rparr> f) [] objects,
      rt_byActiveDownload = length (filter (\<lambda>m. active_download opts r (mo_id m)) objects),
      rt_byRecentAccess = length (filter (\<lambda>m. recently_accessed opts now r (mo_id m)) objects),
      rt_asLastKnownReplica = length (filter (last_known_replica opts referenced now r) objects)\<rparr>"

definition object_age_cmp :: "media_object \<Rightarrow> media_object \<Rightarrow> int" where
  "object_age_cmp l r = js_or (mo_updatedAt l - mo_updatedAt r) (mo_createdAt l - mo_createdAt r)"

definition eviction_cmp :: "(string, retention_facts) jsmap \<Rightarrow> media_object \<Rightarrow> media_object \<Rightarrow> int" where
  "eviction_cmp facts l r = (case (jm_get facts (mo_id l), jm_get facts (mo_id r)) of
     (Some lf, Some rf) \<Rightarrow>
       if rf_referenced lf \<noteq> rf_referenced rf then (if rf_referenced lf then 1 else - 1)
       else if rf_externalReplicas lf \<noteq> rf_externalReplicas rf
       then int (rf_externalReplicas rf) - int (rf_externalReplicas lf)
       else if rf_lastAccessedAt lf \<noteq> rf_lastAccessedAt rf then rf_lastAccessedAt lf - rf_lastAccessedAt rf
       else if rf_size lf \<noteq> rf_size rf then fin_part (rf_size rf) - fin_part (rf_size lf)
       else object_age_cmp l r
   | _ \<Rightarrow> object_age_cmp l r)"

definition sortEvictionCandidates :: "(string, retention_facts) jsmap \<Rightarrow> media_object list \<Rightarrow> media_object list" where
  "sortEvictionCandidates facts objects = js_sort (eviction_cmp facts) objects"

section \<open>Deleting\<close>

text \<open>The tables and the repository the cleanup works on, and what it has deleted.\<close>

record cleanup_state =
  cs_tables :: media_tables
  cs_repo :: media_repo
  cs_objects :: nat
  cs_chunks :: nat
  cs_bytes :: int

definition chunk_bytes_size :: "media_chunk list \<Rightarrow> int" where
  "chunk_bytes_size cs = sum_list (map (\<lambda>c. fin_part (mk_size c)) cs)"

definition getTotalStorageSize :: "media_tables \<Rightarrow> int" where
  "getTotalStorageSize t = chunk_bytes_size (jm_values (mt_chunks t))"

definition deleteByMediaObjectId :: "string \<Rightarrow> media_tables \<Rightarrow> media_tables" where
  "deleteByMediaObjectId i t = t\<lparr>mt_chunks := filter (\<lambda>(k, c). mk_mediaObjectId c \<noteq> i) (mt_chunks t)\<rparr>"

definition delete_object :: "string \<Rightarrow> media_tables \<Rightarrow> media_tables" where
  "delete_object i t = t\<lparr>mt_objects := jm_delete i (mt_objects t)\<rparr>"

definition evict_object :: "cleanup_options \<Rightarrow> media_object \<Rightarrow> cleanup_state \<Rightarrow> cleanup_state" where
  "evict_object opts m s =
     (let chunks = chunks_of (mo_id m) (cs_tables s) in
      \<lparr>cs_tables = delete_object (mo_id m) (deleteByMediaObjectId (mo_id m) (cs_tables s)),
       cs_repo = (if co_hasRepository opts then removeMediaAccess (mo_id m) (cs_repo s) else cs_repo s),
       cs_objects = Suc (cs_objects s), cs_chunks = cs_chunks s + length chunks,
       cs_bytes = cs_bytes s + chunk_bytes_size chunks\<rparr>)"

definition delete_counted :: "media_chunk \<Rightarrow> cleanup_state \<Rightarrow> cleanup_state" where
  "delete_counted c s = s\<lparr>cs_tables := delete_chunk (mk_id c) (cs_tables s), cs_chunks := Suc (cs_chunks s),
     cs_bytes := cs_bytes s + fin_part (mk_size c)\<rparr>"

definition chunk_wanted :: "(string, media_object) jsmap \<Rightarrow> media_chunk \<Rightarrow> bool" where
  "chunk_wanted existing c = (case jm_get existing (mk_mediaObjectId c) of
     None \<Rightarrow> False
   | Some m \<Rightarrow> (case resolveChunkManifest (mo_id m) (mo_chunks m) of
        None \<Rightarrow> True
      | Some manifest \<Rightarrow> (case map_of (zip manifest [0..<length manifest]) (mk_id c) of
            None \<Rightarrow> False
          | Some p \<Rightarrow> (case validateChunk c (Some \<lparr>ce_mediaObjectId = mo_id m, ce_chunkId = mk_id c, ce_position = p\<rparr>) of
              Inl _ \<Rightarrow> False | Inr _ \<Rightarrow> True))))"

definition deleteInvalidOrOrphanChunks :: "(string, media_object) jsmap \<Rightarrow> cleanup_state \<Rightarrow> cleanup_state" where
  "deleteInvalidOrOrphanChunks existing s =
     fold delete_counted (filter (\<lambda>c. \<not> chunk_wanted existing c) (jm_values (mt_chunks (cs_tables s)))) s"

fun evict_over :: "cleanup_options \<Rightarrow> int \<Rightarrow> string list \<Rightarrow> media_object list \<Rightarrow> int \<Rightarrow> cleanup_state \<Rightarrow> cleanup_state" where
  "evict_over opts maxBytes kept [] remaining s = s"
| "evict_over opts maxBytes kept (m # ms) remaining s =
     (if remaining \<le> maxBytes then s
      else if mo_id m \<in> set kept then evict_over opts maxBytes kept ms remaining s
      else evict_over opts maxBytes kept ms
             (remaining - chunk_bytes_size (chunks_of (mo_id m) (cs_tables s))) (evict_object opts m s))"

definition enforceStorageLimit ::
  "cleanup_options \<Rightarrow> string list \<Rightarrow> (string, retention_facts) jsmap \<Rightarrow> cleanup_state \<Rightarrow> cleanup_state option" where
  "enforceStorageLimit opts kept facts s = (case co_maxBytes opts of
     None \<Rightarrow> Some s
   | Some maxBytes \<Rightarrow>
      if maxBytes \<le> 0 \<or> getTotalStorageSize (cs_tables s) \<le> maxBytes then Some s
      else (case listAllMediaObjects opts (cs_tables s) of
          None \<Rightarrow> None
        | Some objects \<Rightarrow> Some (evict_over opts maxBytes kept (sortEvictionCandidates facts objects)
            (getTotalStorageSize (cs_tables s)) s)))"

record cleanup_result =
  cr_protectedMediaObjects :: nat
  cr_deletedMediaObjects :: nat
  cr_deletedChunks :: nat
  cr_freedBytes :: int
  cr_remainingBytes :: int
  cr_expiredAnnouncementsRemoved :: nat
  cr_byActiveDownload :: nat
  cr_byRecentAccess :: nat
  cr_asLastKnownReplica :: nat

text \<open>What is neither protected nor referred to.\<close>

definition unwanted :: "retention \<Rightarrow> media_object \<Rightarrow> bool" where
  "unwanted ret m \<longleftrightarrow> mo_id m \<notin> set (rt_protected ret)
     \<and> \<not> (case jm_get (rt_facts ret) (mo_id m) of None \<Rightarrow> False | Some f \<Rightarrow> rf_referenced f)"

definition cleanup ::
  "cleanup_options \<Rightarrow> string list list \<Rightarrow> int \<Rightarrow> media_tables \<Rightarrow> media_repo \<Rightarrow> (cleanup_result \<times> media_tables \<times> media_repo) option" where
  \<comment> \<open>\<open>None\<close>: a scan does not end.\<close>
  "cleanup opts posts now t r =
     (let (expired, r1) = (if co_hasRepository opts then pruneExpiredAnnouncements now r else (0, r)) in
      case (collectReferencedMediaIds opts posts, listAllMediaObjects opts t) of
        (Some referenced, Some objects) \<Rightarrow>
          (let ret = evaluateRetention opts objects referenced now r1;
               gone = filter (unwanted ret) (sortEvictionCandidates (rt_facts ret) objects);
               s1 = fold (evict_object opts) gone
                      \<lparr>cs_tables = t, cs_repo = r1, cs_objects = 0, cs_chunks = 0, cs_bytes = 0\<rparr>;
               existing = fold (\<lambda>m. jm_delete (mo_id m)) gone (foldl (\<lambda>e m. jm_set (mo_id m) m e) [] objects);
               s2 = deleteInvalidOrOrphanChunks existing s1
           in map_option (\<lambda>s3. (\<lparr>cr_protectedMediaObjects = length (rt_protected ret), cr_deletedMediaObjects = cs_objects s3,
                cr_deletedChunks = cs_chunks s3, cr_freedBytes = cs_bytes s3,
                cr_remainingBytes = getTotalStorageSize (cs_tables s3), cr_expiredAnnouncementsRemoved = expired,
                cr_byActiveDownload = rt_byActiveDownload ret, cr_byRecentAccess = rt_byRecentAccess ret,
                cr_asLastKnownReplica = rt_asLastKnownReplica ret\<rparr>, cs_tables s3, cs_repo s3))
              (enforceStorageLimit opts (rt_protected ret) (rt_facts ret) s2))
      | _ \<Rightarrow> None)"

end
