(* ===== verification/MediaCleanup_Claims.thy ===== *)
theory MediaCleanup_Claims
  imports MediaCleanup MediaIntegrity_Claims MediaRepository_Claims
begin

text \<open>
  What freeing storage promises: it ends, what is protected stays readable, its figures add up, nothing is
  left that is neither wanted nor referred to, and the limit holds as far as protection allows.
\<close>

section \<open>Reading in batches\<close>

lemma scan_returns:
  assumes "0 < b"
  shows "scan_batches b rows k = Some (drop k rows)"
proof (induction "length rows - k" arbitrary: k rule: less_induct)
  case less
  let ?batch = "take b (drop k rows)"
  show ?case
  proof (cases "length ?batch < b")
    case True
    then have "?batch = drop k rows" by simp
    then show ?thesis using True by (subst scan_batches.simps) (simp add: Let_def)
  next
    case False
    then have "k < length rows" using assms by (cases "k < length rows") simp_all
    then have "scan_batches b rows (k + b) = Some (drop (k + b) rows)" using less assms by simp
    moreover have "?batch @ drop (k + b) rows = drop k rows"
      by (metis add.commute append_take_drop_id drop_drop)
    ultimately show ?thesis using False by (subst scan_batches.simps) (simp add: Let_def)
  qed
qed

lemma scan_positive: "scan_batches b rows k = Some ys \<Longrightarrow> 0 < b"
  by (rule scan_batches.raw_induct [where P = "\<lambda>b rows k ys. 0 < b"])
    (auto simp: Let_def bind_eq_Some_conv split: if_splits)

lemma scan_all:
  "scan_batches b rows 0 = (if 0 < b then Some rows else None)"
  using scan_returns [of b rows 0] scan_positive [of b rows 0] by (cases "scan_batches b rows 0") auto

section \<open>Sums over the tables\<close>

lemma chunk_bytes_split:
  "chunk_bytes_size cs = chunk_bytes_size (filter P cs) + chunk_bytes_size (filter (\<lambda>c. \<not> P c) cs)"
  by (induction cs) (simp_all add: chunk_bytes_size_def)

lemma values_filter: "jm_values (filter (\<lambda>(k, v). P v) m) = filter P (jm_values m)"
  by (induction m) auto

lemma chunks_of_size: "chunk_bytes_size (chunks_of i t) = chunk_bytes_size (filter (\<lambda>c. mk_mediaObjectId c = i) (jm_values (mt_chunks t)))"
  by (simp add: chunks_of_def chunk_bytes_size_def sum_list_js_sort)

lemma evicted_total:
  "getTotalStorageSize (cs_tables (evict_object opts m s)) + cs_bytes (evict_object opts m s)
     = getTotalStorageSize (cs_tables s) + cs_bytes s"
proof -
  have "chunk_bytes_size (jm_values (mt_chunks (cs_tables s)))
      = chunk_bytes_size (filter (\<lambda>c. mk_mediaObjectId c = mo_id m) (jm_values (mt_chunks (cs_tables s))))
      + chunk_bytes_size (filter (\<lambda>c. mk_mediaObjectId c \<noteq> mo_id m) (jm_values (mt_chunks (cs_tables s))))"
    by (rule chunk_bytes_split)
  then show ?thesis
    by (simp add: evict_object_def Let_def getTotalStorageSize_def delete_object_def deleteByMediaObjectId_def
        values_filter chunks_of_size)
qed

text \<open>What every step of the cleanup keeps: freed and remaining bytes, objects under their keys.\<close>

definition tables_ok :: "media_tables \<Rightarrow> bool" where
  "tables_ok t \<longleftrightarrow> distinct (jm_keys (mt_chunks t)) \<and> chunk_keyed t
     \<and> distinct (jm_keys (mt_objects t)) \<and> (\<forall>(k, m) \<in> set (mt_objects t). mo_id m = k)"

text \<open>The tables without some objects and their chunks.\<close>

definition without :: "string set \<Rightarrow> media_tables \<Rightarrow> media_tables" where
  "without is t = t\<lparr>mt_objects := filter (\<lambda>(k, m). k \<notin> is) (mt_objects t),
     mt_chunks := filter (\<lambda>(k, c). mk_mediaObjectId c \<notin> is) (mt_chunks t)\<rparr>"

lemma evict_tables: "cs_tables (evict_object opts m s) = without {mo_id m} (cs_tables s)"
  by (rule media_tables.equality)
    (auto simp: evict_object_def Let_def without_def delete_object_def deleteByMediaObjectId_def AList.delete_eq
      intro!: filter_cong)

lemma without_without: "without is (without js t) = without (is \<union> js) t"
  by (auto simp: without_def intro!: filter_cong media_tables.equality)

lemma without_none [simp]: "without {} t = t"
  by (simp add: without_def)

lemma evict_all_tables: "cs_tables (fold (evict_object opts) ms s) = without (mo_id ` set ms) (cs_tables s)"
  by (induction ms arbitrary: s) (simp_all add: evict_tables without_without)

lemma evict_all_total:
  "getTotalStorageSize (cs_tables (fold (evict_object opts) ms s)) + cs_bytes (fold (evict_object opts) ms s)
     = getTotalStorageSize (cs_tables s) + cs_bytes s"
  by (induction ms arbitrary: s) (simp_all add: evicted_total)

lemma tables_ok_without: "tables_ok t \<Longrightarrow> tables_ok (without is t)"
  by (auto simp: tables_ok_def without_def chunk_keyed_def distinct_keys_filter)

section \<open>Chunks that are not wanted\<close>

lemma delete_counted_tables:
  "cs_tables (fold delete_counted cs s)
     = (cs_tables s)\<lparr>mt_chunks := filter (\<lambda>(k, c). k \<notin> mk_id ` set cs) (mt_chunks (cs_tables s))\<rparr>"
proof (induction cs arbitrary: s)
  case (Cons c cs)
  have "cs_tables (delete_counted c s) = (cs_tables s)\<lparr>mt_chunks := filter (\<lambda>(k, d). k \<noteq> mk_id c) (mt_chunks (cs_tables s))\<rparr>"
    by (rule media_tables.equality)
      (auto simp: delete_counted_def delete_chunk_def AList.delete_eq intro!: filter_cong)
  then show ?case by (auto simp: Cons.IH intro!: media_tables.equality filter_cong)
qed simp

lemma delete_counted_bytes: "cs_bytes (fold delete_counted cs s) = cs_bytes s + chunk_bytes_size cs"
  by (induction cs arbitrary: s) (simp_all add: delete_counted_def chunk_bytes_size_def)

lemma unwanted_chunks_tables:
  assumes "tables_ok (cs_tables s)"
  shows "cs_tables (deleteInvalidOrOrphanChunks existing s)
    = (cs_tables s)\<lparr>mt_chunks := filter (\<lambda>(k, c). chunk_wanted existing c) (mt_chunks (cs_tables s))\<rparr>"
proof -
  let ?rows = "mt_chunks (cs_tables s)"
  have row: "mk_id c = k" if "(k, c) \<in> set ?rows" for k c
    using assms that by (auto simp: tables_ok_def chunk_keyed_def)
  have "k \<in> mk_id ` set (filter (\<lambda>c. \<not> chunk_wanted existing c) (jm_values ?rows)) \<longleftrightarrow> \<not> chunk_wanted existing c"
    if kc: "(k, c) \<in> set ?rows" for k c
  proof
    assume "k \<in> mk_id ` set (filter (\<lambda>c. \<not> chunk_wanted existing c) (jm_values ?rows))"
    then obtain j d where d: "(j, d) \<in> set ?rows" "mk_id d = k" "\<not> chunk_wanted existing d" by auto
    then have "(k, d) \<in> set ?rows" using row by metis
    then have "d = c" using assms kc unfolding tables_ok_def by (metis eq_key_imp_eq_value)
    then show "\<not> chunk_wanted existing c" using d(3) by simp
  next
    assume "\<not> chunk_wanted existing c"
    then have "c \<in> set (filter (\<lambda>c. \<not> chunk_wanted existing c) (jm_values ?rows))" using kc by force
    then show "k \<in> mk_id ` set (filter (\<lambda>c. \<not> chunk_wanted existing c) (jm_values ?rows))"
      using row [OF kc] by blast
  qed
  then have "filter (\<lambda>(k, c). k \<notin> mk_id ` set (filter (\<lambda>c. \<not> chunk_wanted existing c) (jm_values ?rows))) ?rows
      = filter (\<lambda>(k, c). chunk_wanted existing c) ?rows"
    by (intro filter_cong refl) (simp only: split_paired_all prod.case, blast)
  then show ?thesis
    unfolding deleteInvalidOrOrphanChunks_def delete_counted_tables by simp
qed

lemma unwanted_chunks_total:
  assumes "tables_ok (cs_tables s)"
  shows "getTotalStorageSize (cs_tables (deleteInvalidOrOrphanChunks existing s)) + cs_bytes (deleteInvalidOrOrphanChunks existing s)
    = getTotalStorageSize (cs_tables s) + cs_bytes s"
proof -
  have "cs_bytes (deleteInvalidOrOrphanChunks existing s)
      = cs_bytes s + chunk_bytes_size (filter (\<lambda>c. \<not> chunk_wanted existing c) (jm_values (mt_chunks (cs_tables s))))"
    unfolding deleteInvalidOrOrphanChunks_def by (rule delete_counted_bytes)
  then show ?thesis
    using chunk_bytes_split [of "jm_values (mt_chunks (cs_tables s))" "chunk_wanted existing"]
    by (simp add: unwanted_chunks_tables [OF assms] getTotalStorageSize_def values_filter)
qed

section \<open>The limit\<close>

lemma evict_over_cases:
  "\<exists>gone. set gone \<subseteq> set ms \<and> (\<forall>m \<in> set gone. mo_id m \<notin> set kept)
     \<and> evict_over opts b kept ms (getTotalStorageSize (cs_tables s)) s = fold (evict_object opts) gone s
     \<and> (getTotalStorageSize (cs_tables (fold (evict_object opts) gone s)) \<le> b
        \<or> (\<forall>m \<in> set ms. mo_id m \<in> set kept \<or> m \<in> set gone))"
proof (induction ms arbitrary: s)
  case Nil
  show ?case by (intro exI [of _ "[]"]) simp
next
  case (Cons m ms)
  let ?total = "getTotalStorageSize (cs_tables s)"
  consider (enough) "?total \<le> b" | (kept) "\<not> ?total \<le> b" "mo_id m \<in> set kept" | (evicted) "\<not> ?total \<le> b" "mo_id m \<notin> set kept"
    by blast
  then show ?case
  proof cases
    case enough
    then show ?thesis by (intro exI [of _ "[]"]) simp
  next
    case kept
    obtain gone where "set gone \<subseteq> set ms" "\<forall>m \<in> set gone. mo_id m \<notin> set kept"
      "evict_over opts b kept ms ?total s = fold (evict_object opts) gone s"
      "getTotalStorageSize (cs_tables (fold (evict_object opts) gone s)) \<le> b
        \<or> (\<forall>m \<in> set ms. mo_id m \<in> set kept \<or> m \<in> set gone)"
      using Cons.IH by blast
    then show ?thesis using kept by (intro exI [of _ gone]) auto
  next
    case evicted
    let ?s = "evict_object opts m s"
    have "?total - chunk_bytes_size (chunks_of (mo_id m) (cs_tables s)) = getTotalStorageSize (cs_tables ?s)"
      using evicted_total [of opts m s] by (simp add: evict_object_def Let_def)
    moreover obtain gone where "set gone \<subseteq> set ms" "\<forall>m \<in> set gone. mo_id m \<notin> set kept"
      "evict_over opts b kept ms (getTotalStorageSize (cs_tables ?s)) ?s = fold (evict_object opts) gone ?s"
      "getTotalStorageSize (cs_tables (fold (evict_object opts) gone ?s)) \<le> b
        \<or> (\<forall>m \<in> set ms. mo_id m \<in> set kept \<or> m \<in> set gone)"
      using Cons.IH by blast
    ultimately show ?thesis using evicted by (intro exI [of _ "m # gone"]) auto
  qed
qed

lemma sortEvictionCandidates_set [simp]: "set (sortEvictionCandidates f ms) = set ms"
  by (simp add: sortEvictionCandidates_def)

lemma set_all_objects [simp]: "set (all_objects t) = set (jm_values (mt_objects t))"
  by (simp add: all_objects_def)

lemma listAll: "listAllMediaObjects opts t = (if co_mediaScanBatchSize opts = Some 0 then None else Some (all_objects t))"
  by (auto simp: listAllMediaObjects_def scan_all or_else_def split: option.splits)

lemma collectReferenced:
  "collectReferencedMediaIds opts posts = (if co_postScanBatchSize opts = Some 0 then None else Some (js_uniq (concat posts)))"
  by (auto simp: collectReferencedMediaIds_def scan_all or_else_def split: option.splits)

lemma limited_cases:
  assumes "enforceStorageLimit opts kept facts s = Some s'"
  shows "\<exists>gone. set gone \<subseteq> set (jm_values (mt_objects (cs_tables s))) \<and> (\<forall>m \<in> set gone. mo_id m \<notin> set kept)
    \<and> s' = fold (evict_object opts) gone s
    \<and> (\<forall>b. co_maxBytes opts = Some b \<longrightarrow> 0 < b \<longrightarrow> getTotalStorageSize (cs_tables s') \<le> b
        \<or> (\<forall>m \<in> set (jm_values (mt_objects (cs_tables s))). mo_id m \<in> set kept \<or> m \<in> set gone))"
proof -
  consider (none) "s' = s" "\<forall>b. co_maxBytes opts = Some b \<longrightarrow> 0 < b \<longrightarrow> getTotalStorageSize (cs_tables s) \<le> b"
    | (over) b where "co_maxBytes opts = Some b" "0 < b"
        "s' = evict_over opts b kept (sortEvictionCandidates facts (all_objects (cs_tables s))) (getTotalStorageSize (cs_tables s)) s"
    using assms by (auto simp: enforceStorageLimit_def listAll split: option.splits if_splits)
  then show ?thesis
  proof cases
    case none
    then show ?thesis by (intro exI [of _ "[]"]) simp
  next
    case over
    then show ?thesis
      using evict_over_cases [of "sortEvictionCandidates facts (all_objects (cs_tables s))" kept opts b s] by auto
  qed
qed

section \<open>Pruning does not change what is protected\<close>

lemma fold_delete_filter: "fold jm_delete ks m = filter (\<lambda>(k, v). k \<notin> set ks) m"
  by (induction ks arbitrary: m) (auto simp: AList.delete_eq intro!: filter_cong)

lemma pruned_repo:
  assumes "distinct (jm_keys (mp_announcements r))" and "pruneExpiredAnnouncements now r = (n, r')"
  shows "mp_access r' = mp_access r \<and> mp_states r' = mp_states r
    \<and> filter (\<lambda>a. an_expiresAt a > now) (jm_values (mp_announcements r'))
      = filter (\<lambda>a. an_expiresAt a > now) (jm_values (mp_announcements r))"
proof -
  let ?expired = "map fst (filter (\<lambda>(i, a). an_expiresAt a \<le> now \<and> i \<notin> set (sequence_anchors r)) (mp_announcements r))"
  have live: "i \<notin> set ?expired" if "(i, a) \<in> set (mp_announcements r)" "now < an_expiresAt a" for i a
    using eq_key_imp_eq_value [OF assms(1) that(1)] that(2) by force
  have "filter (\<lambda>(k, a). now < an_expiresAt a) (filter (\<lambda>(k, v). k \<notin> set ?expired) (mp_announcements r))
      = filter (\<lambda>(k, a). now < an_expiresAt a) (mp_announcements r)"
    unfolding filter_filter by (intro filter_cong refl) (use live in auto)
  from arg_cong [OF this, of jm_values]
  have "filter (\<lambda>a. now < an_expiresAt a) (jm_values (filter (\<lambda>(k, v). k \<notin> set ?expired) (mp_announcements r)))
      = filter (\<lambda>a. now < an_expiresAt a) (jm_values (mp_announcements r))"
    by (simp only: values_filter)
  then show ?thesis
    using assms(2) by (auto simp: pruneExpiredAnnouncements_def Let_def fold_delete_filter split: if_splits)
qed

text \<open>The reasons to keep an object, over the posts and the repository as they are before the cleanup.\<close>

definition kept :: "cleanup_options \<Rightarrow> string list list \<Rightarrow> int \<Rightarrow> media_repo \<Rightarrow> media_object \<Rightarrow> bool" where
  "kept opts posts now r m \<longleftrightarrow> is_protected opts (js_uniq (concat posts)) now r m"

definition pruned :: "cleanup_options \<Rightarrow> int \<Rightarrow> media_repo \<Rightarrow> nat \<times> media_repo" where
  "pruned opts now r = (if co_hasRepository opts then pruneExpiredAnnouncements now r else (0, r))"

lemma protected_pruned:
  assumes "distinct (jm_keys (mp_announcements r))"
  shows "is_protected opts refs now (snd (pruned opts now r)) m = is_protected opts refs now r m"
proof (cases "co_hasRepository opts")
  case True
  let ?r = "snd (pruned opts now r)"
  obtain n where "pruneExpiredAnnouncements now r = (n, ?r)" using True by (cases "pruneExpiredAnnouncements now r") (simp add: pruned_def)
  from pruned_repo [OF assms this] have eq: "mp_access ?r = mp_access r" "mp_states ?r = mp_states r"
    "filter (\<lambda>a. an_expiresAt a > now) (jm_values (mp_announcements ?r))
      = filter (\<lambda>a. an_expiresAt a > now) (jm_values (mp_announcements r))" by blast+
  have "findCompleteReplicaPeers lc i cs now ?r = findCompleteReplicaPeers lc i cs now r" for lc i cs
    by (simp only: findCompleteReplicaPeers_def eq)
  then have "external_replicas opts now ?r m = external_replicas opts now r m" by (simp only: external_replicas_def)
  then show ?thesis
    by (simp only: is_protected_def access_of_def getMediaAccess_def active_download_def getState_def recently_accessed_def
        last_known_replica_def eq)
qed (simp add: pruned_def)

section \<open>The whole cleanup\<close>

lemma all_objects_ids: "tables_ok t \<Longrightarrow> distinct (map mo_id (all_objects t))"
proof -
  assume ok: "tables_ok t"
  have "map mo_id (jm_values (mt_objects t)) = jm_keys (mt_objects t)"
    using ok by (auto simp: tables_ok_def)
  moreover have "distinct (jm_keys (mt_objects t))" using ok by (simp add: tables_ok_def)
  ultimately have "distinct (map mo_id (jm_values (mt_objects t)))" by (simp only:)
  then show ?thesis by (simp only: all_objects_def distinct_map distinct_js_sort set_js_sort)
qed

lemma facts_referenced:
  "jm_get (rt_facts (evaluateRetention opts ms refs now r)) i
     = (case find (\<lambda>m. mo_id m = i) (rev ms) of None \<Rightarrow> None
        | Some m \<Rightarrow> Some \<lparr>rf_referenced = (mo_id m \<in> set refs), rf_externalReplicas = external_replicas opts now r m,
            rf_lastAccessedAt = (case access_of opts r (mo_id m) of None \<Rightarrow> mo_updatedAt m | Some a \<Rightarrow> ac_lastAccessedAt a),
            rf_size = mo_size m\<rparr>)"
proof -
  have "jm_get (foldl (\<lambda>f m. jm_set (mo_id m) (g m) f) f0 ms) i
      = (case find (\<lambda>m. mo_id m = i) (rev ms) of None \<Rightarrow> jm_get f0 i | Some m \<Rightarrow> Some (g m))" for g :: "media_object \<Rightarrow> retention_facts" and f0
    by (induction ms rule: rev_induct) (auto simp: jm.get_put)
  then show ?thesis by (simp add: evaluateRetention_def split: option.split)
qed

lemma find_id:
  assumes "distinct (map mo_id ms)" and "m \<in> set ms"
  shows "find (\<lambda>x. mo_id x = mo_id m) (rev ms) = Some m"
proof -
  obtain x where x: "find (\<lambda>x. mo_id x = mo_id m) (rev ms) = Some x"
    using assms(2) by (cases "find (\<lambda>x. mo_id x = mo_id m) (rev ms)") (auto simp: find_None_iff)
  then have "x \<in> set ms" "mo_id x = mo_id m" by (auto simp: find_Some_iff) (metis length_rev nth_mem set_rev)
  then have "x = m" using assms by (metis distinct_map inj_onD)
  then show ?thesis using x by simp
qed

lemma unwanted_iff:
  assumes "distinct (map mo_id ms)" and "m \<in> set ms"
  shows "unwanted (evaluateRetention opts ms refs now r) m \<longleftrightarrow> \<not> is_protected opts refs now r m \<and> mo_id m \<notin> set refs"
proof -
  have "mo_id m \<in> set (rt_protected (evaluateRetention opts ms refs now r)) \<longleftrightarrow> is_protected opts refs now r m"
    using assms by (auto simp: evaluateRetention_def image_iff distinct_map inj_on_def)
  then show ?thesis by (simp add: unwanted_def facts_referenced find_id [OF assms])
qed

text \<open>The objects that go in the first pass.\<close>

definition discarded :: "cleanup_options \<Rightarrow> string list list \<Rightarrow> int \<Rightarrow> media_tables \<Rightarrow> media_repo \<Rightarrow> string set" where
  "discarded opts posts now t r = mo_id ` {m \<in> set (jm_values (mt_objects t)).
     \<not> kept opts posts now r m \<and> mo_id m \<notin> set (concat posts)}"

definition wanted_chunks :: "(string, media_object) jsmap \<Rightarrow> media_tables \<Rightarrow> media_tables" where
  "wanted_chunks existing t = t\<lparr>mt_chunks := filter (\<lambda>(k, c). chunk_wanted existing c) (mt_chunks t)\<rparr>"

lemma cleanup_cases:
  assumes t: "tables_ok t" and r: "distinct (jm_keys (mp_announcements r))"
    and run: "cleanup opts posts now t r = Some (res, t', r')"
  shows "\<exists>existing evicted. (\<forall>m \<in> set evicted. m \<in> set (jm_values (mt_objects t)) \<and> \<not> kept opts posts now r m)
    \<and> t' = without (mo_id ` set evicted) (wanted_chunks existing (without (discarded opts posts now t r) t))
    \<and> (\<forall>i. jm_get existing i = (if i \<in> discarded opts posts now t r then None else get_object i t))
    \<and> cr_remainingBytes res = getTotalStorageSize t'
    \<and> cr_freedBytes res + cr_remainingBytes res = getTotalStorageSize t
    \<and> (\<forall>b. co_maxBytes opts = Some b \<longrightarrow> 0 < b \<longrightarrow> getTotalStorageSize t' \<le> b
        \<or> (\<forall>m \<in> set (jm_values (mt_objects (without (discarded opts posts now t r) t))).
              kept opts posts now r m \<or> m \<in> set evicted))"
proof -
  let ?objects = "all_objects t" and ?refs = "js_uniq (concat posts)"
  obtain expired r1 where p: "pruned opts now r = (expired, r1)" by fastforce
  define ret where "ret = evaluateRetention opts ?objects ?refs now r1"
  define gone where "gone = filter (unwanted ret) (sortEvictionCandidates (rt_facts ret) ?objects)"
  define s1 where "s1 = fold (evict_object opts) gone
      \<lparr>cs_tables = t, cs_repo = r1, cs_objects = 0, cs_chunks = 0, cs_bytes = 0\<rparr>"
  define existing where "existing = fold (\<lambda>m. jm_delete (mo_id m)) gone (foldl (\<lambda>e m. jm_set (mo_id m) m e) [] ?objects)"
  define s2 where "s2 = deleteInvalidOrOrphanChunks existing s1"
  obtain s3 where s3: "enforceStorageLimit opts (rt_protected ret) (rt_facts ret) s2 = Some s3"
      "cr_freedBytes res = cs_bytes s3" "cr_remainingBytes res = getTotalStorageSize (cs_tables s3)" "t' = cs_tables s3"
    using run unfolding cleanup_def p [unfolded pruned_def] Let_def collectReferenced listAll
    by (auto simp: ret_def gone_def s1_def existing_def s2_def split: if_splits)
  have ids: "distinct (map mo_id ?objects)" by (rule all_objects_ids [OF t])
  have prot: "is_protected opts ?refs now r1 m \<longleftrightarrow> kept opts posts now r m" for m
    using protected_pruned [OF r, of opts ?refs now m] p by (simp add: kept_def)
  have unwanted: "unwanted ret m \<longleftrightarrow> \<not> kept opts posts now r m \<and> mo_id m \<notin> set (concat posts)" if "m \<in> set ?objects" for m
    unfolding ret_def using unwanted_iff [OF ids that] prot by simp
  have gone: "mo_id ` set gone = discarded opts posts now t r"
    unfolding gone_def discarded_def using unwanted by auto
  have t1: "cs_tables s1 = without (discarded opts posts now t r) t"
    unfolding s1_def evict_all_tables gone by simp
  have ok1: "tables_ok (cs_tables s1)" unfolding t1 by (rule tables_ok_without [OF t])
  have t2: "cs_tables s2 = wanted_chunks existing (cs_tables s1)"
    unfolding s2_def wanted_chunks_def by (rule unwanted_chunks_tables [OF ok1])
  obtain evicted where e: "set evicted \<subseteq> set (jm_values (mt_objects (cs_tables s2)))"
      "\<forall>m \<in> set evicted. mo_id m \<notin> set (rt_protected ret)" "s3 = fold (evict_object opts) evicted s2"
      "\<forall>b. co_maxBytes opts = Some b \<longrightarrow> 0 < b \<longrightarrow> getTotalStorageSize (cs_tables s3) \<le> b
        \<or> (\<forall>m \<in> set (jm_values (mt_objects (cs_tables s2))). mo_id m \<in> set (rt_protected ret) \<or> m \<in> set evicted)"
    using limited_cases [OF s3(1)] by blast
  have objects2: "mt_objects (cs_tables s2) = mt_objects (without (discarded opts posts now t r) t)"
    unfolding t2 t1 by (simp add: wanted_chunks_def)
  have sub: "m \<in> set ?objects" if "m \<in> set (jm_values (mt_objects (cs_tables s2)))" for m
    using that unfolding objects2 by (auto simp: without_def)
  have protected: "mo_id m \<in> set (rt_protected ret) \<longleftrightarrow> kept opts posts now r m" if "m \<in> set ?objects" for m
    using ids that prot by (auto simp: ret_def evaluateRetention_def image_iff distinct_map inj_on_def)
  have "jm_get existing i = (if i \<in> discarded opts posts now t r then None else get_object i t)" for i
  proof -
    have "jm_get (foldl (\<lambda>e m. jm_set (mo_id m) m e) [] ?objects) i = find (\<lambda>m. mo_id m = i) (rev ?objects)"
      unfolding foldl_conv_fold jm.get_fold_put by (simp split: option.split)
    also have "\<dots> = get_object i t"
    proof (cases "get_object i t")
      case None
      then have "i \<notin> set (jm_keys (mt_objects t))" by (simp add: get_object_def map_of_eq_None_iff)
      then have "\<forall>m \<in> set ?objects. mo_id m \<noteq> i" using t by (force simp: tables_ok_def)
      then have "find (\<lambda>m. mo_id m = i) (rev ?objects) = None" by (simp add: find_None_iff)
      then show ?thesis using None by simp
    next
      case (Some m)
      then have "(i, m) \<in> set (mt_objects t)" by (simp add: get_object_def map_of_SomeD)
      then have "m \<in> set ?objects" "mo_id m = i" using t by (force simp: tables_ok_def)+
      then show ?thesis using find_id [OF ids] Some by metis
    qed
    finally have base: "jm_get (foldl (\<lambda>e m. jm_set (mo_id m) m e) [] ?objects) i = get_object i t" .
    have "fold (\<lambda>m. jm_delete (mo_id m)) gone e = fold jm_delete (map mo_id gone) e" for e :: "(string, media_object) jsmap"
      by (simp add: fold_map o_def)
    then show ?thesis unfolding existing_def using base gone by (simp add: jm.get_fold_remove)
  qed
  moreover have "t' = without (mo_id ` set evicted) (wanted_chunks existing (without (discarded opts posts now t r) t))"
    unfolding s3(4) e(3) evict_all_tables t2 t1 ..
  moreover have "getTotalStorageSize t' + cs_bytes s3 = getTotalStorageSize t"
    using evict_all_total [of opts evicted s2] unwanted_chunks_total [OF ok1, of existing]
      evict_all_total [of opts gone "\<lparr>cs_tables = t, cs_repo = r1, cs_objects = 0, cs_chunks = 0, cs_bytes = 0\<rparr>"]
    by (simp add: s3(4) e(3) s2_def s1_def)
  moreover have "\<forall>m \<in> set evicted. m \<in> set (jm_values (mt_objects t)) \<and> \<not> kept opts posts now r m"
  proof
    fix m
    assume m: "m \<in> set evicted"
    then have o: "m \<in> set ?objects" using e(1) by (intro sub) (rule subsetD)
    have "\<not> kept opts posts now r m" using e(2) m protected [OF o] by blast
    then show "m \<in> set (jm_values (mt_objects t)) \<and> \<not> kept opts posts now r m" using o by simp
  qed
  moreover have "\<forall>b. co_maxBytes opts = Some b \<longrightarrow> 0 < b \<longrightarrow> getTotalStorageSize t' \<le> b
      \<or> (\<forall>m \<in> set (jm_values (mt_objects (without (discarded opts posts now t r) t))). kept opts posts now r m \<or> m \<in> set evicted)"
    using e(4) sub protected unfolding s3(4) objects2 by blast
  ultimately show ?thesis using s3(2,3,4) by (intro exI [of _ existing] exI [of _ evicted]) (simp add: add.commute)
qed

section \<open>What stays readable\<close>

text \<open>Chunks that would be rejected do not change what is found to be valid.\<close>

definition acceptable_chunk :: "string \<Rightarrow> string list \<Rightarrow> media_chunk \<Rightarrow> bool" where
  "acceptable_chunk i manifest c \<longleftrightarrow> (case map_of (zip manifest [0..<length manifest]) (mk_id c) of
     None \<Rightarrow> False
   | Some p \<Rightarrow> (case validateChunk c (Some \<lparr>ce_mediaObjectId = i, ce_chunkId = mk_id c, ce_position = p\<rparr>) of
       Inl _ \<Rightarrow> False | Inr _ \<Rightarrow> True))"

lemma inspect_acceptable:
  "fst (inspect_chunks i manifest (filter (acceptable_chunk i manifest) cs) ids ps) = fst (inspect_chunks i manifest cs ids ps)"
proof (induction cs arbitrary: ids ps)
  case (Cons c cs)
  show ?case
  proof (cases "acceptable_chunk i manifest c")
    case True
    then obtain p c' where "map_of (zip manifest [0..<length manifest]) (mk_id c) = Some p"
      "validateChunk c (Some \<lparr>ce_mediaObjectId = i, ce_chunkId = mk_id c, ce_position = p\<rparr>) = Inr c'"
      by (auto simp: acceptable_chunk_def split: option.splits sum.splits)
    then show ?thesis using True Cons.IH by (simp add: Let_def split_beta)
  next
    case False
    then have "fst (inspect_chunks i manifest (c # cs) ids ps) = fst (inspect_chunks i manifest cs ids ps)"
      by (cases "map_of (zip manifest [0..<length manifest]) (mk_id c)")
        (auto simp: acceptable_chunk_def Let_def split_beta simp del: map_of_zip_is_None split: sum.splits)
    then show ?thesis using Cons.IH False by simp
  qed
qed simp

lemma inspect_without_rejected:
  assumes "resolveChunkManifest (mo_id m) (mo_chunks m) = Some manifest"
  shows "mr_available (inspectMedia m (filter (acceptable_chunk (mo_id m) manifest) cs)) = mr_available (inspectMedia m cs)
    \<and> mr_complete (inspectMedia m (filter (acceptable_chunk (mo_id m) manifest) cs)) = mr_complete (inspectMedia m cs)
    \<and> mr_fileData (inspectMedia m (filter (acceptable_chunk (mo_id m) manifest) cs)) = mr_fileData (inspectMedia m cs)"
  using inspect_acceptable [of "mo_id m" manifest cs "[]" "[]"]
  by (auto simp: inspectMedia_def assms Let_def split_beta)

lemma chunks_of_without:
  "i \<notin> is \<Longrightarrow> chunks_of i (without is t) = chunks_of i t"
proof -
  assume i: "i \<notin> is"
  have "filter (\<lambda>c. mk_mediaObjectId c = i) (jm_values (filter (\<lambda>(k, c). mk_mediaObjectId c \<notin> is) m))
      = filter (\<lambda>c. mk_mediaObjectId c = i) (jm_values m)" for m :: "(string, media_chunk) jsmap"
    using i by (induction m) auto
  then show ?thesis by (simp add: chunks_of_def without_def)
qed

lemma chunks_of_wanted:
  assumes "jm_get existing i = Some m" and "mo_id m = i"
  shows "chunks_of i (wanted_chunks existing t) = (case resolveChunkManifest (mo_id m) (mo_chunks m) of
     None \<Rightarrow> chunks_of i t | Some manifest \<Rightarrow> filter (acceptable_chunk i manifest) (chunks_of i t))"
proof -
  let ?mine = "\<lambda>c. mk_mediaObjectId c = i"
  have "chunks_of i (wanted_chunks existing t) = js_sort position_cmp (filter (chunk_wanted existing) (filter ?mine (jm_values (mt_chunks t))))"
    by (simp add: chunks_of_def wanted_chunks_def values_filter filter_filter conj_commute)
  moreover have "filter (chunk_wanted existing) (filter ?mine (jm_values (mt_chunks t)))
      = (case resolveChunkManifest (mo_id m) (mo_chunks m) of None \<Rightarrow> filter ?mine (jm_values (mt_chunks t))
         | Some manifest \<Rightarrow> filter (acceptable_chunk i manifest) (filter ?mine (jm_values (mt_chunks t))))"
  proof (cases "resolveChunkManifest (mo_id m) (mo_chunks m)")
    case None
    then have "chunk_wanted existing c" if "?mine c" for c using that assms by (simp add: chunk_wanted_def)
    then show ?thesis using None by (auto intro!: filter_cong)
  next
    case (Some manifest)
    then have "chunk_wanted existing c = acceptable_chunk i manifest c" if "?mine c" for c
      using that assms by (simp add: chunk_wanted_def acceptable_chunk_def del: map_of_zip_is_None split: option.split sum.split)
    then show ?thesis using Some by (auto intro!: filter_cong)
  qed
  ultimately show ?thesis by (simp add: chunks_of_def filter_js_sort [OF position_comparator] split: option.split)
qed

lemma get_object_without: "i \<notin> is \<Longrightarrow> get_object i (without is t) = get_object i t"
proof -
  have "i \<notin> is \<Longrightarrow> jm_get (filter (\<lambda>(k, m). k \<notin> is) xs) i = jm_get xs i" for xs :: "(string, media_object) jsmap"
    by (induction xs) auto
  then show "i \<notin> is \<Longrightarrow> ?thesis" by (simp add: get_object_def without_def)
qed

lemma kept_media_unchanged:
  assumes t: "tables_ok t" and m: "get_object i t = Some m"
    and t': "t' = without js (wanted_chunks existing (without is t))" and "i \<notin> is" "i \<notin> js"
    and existing: "jm_get existing i = Some m"
  shows "get_object i t' = Some m \<and> fst (getLocalMediaBytes i t') = fst (getLocalMediaBytes i t)"
proof -
  have id: "mo_id m = i" using t m by (auto simp: tables_ok_def get_object_def dest!: map_of_SomeD)
  have get: "get_object i t' = Some m"
    using get_object_without [OF \<open>i \<notin> is\<close>, of t] get_object_without [OF \<open>i \<notin> js\<close>] m
    by (simp add: t' get_object_def wanted_chunks_def)
  have chunks: "chunks_of i t' = (case resolveChunkManifest i (mo_chunks m) of
      None \<Rightarrow> chunks_of i t | Some manifest \<Rightarrow> filter (acceptable_chunk i manifest) (chunks_of i t))"
    using chunks_of_wanted [OF existing id] assms(4,5) id by (simp add: t' chunks_of_without split: option.split)
  have "mr_available (inspectMedia m (chunks_of i t')) = mr_available (inspectMedia m (chunks_of i t))
    \<and> mr_complete (inspectMedia m (chunks_of i t')) = mr_complete (inspectMedia m (chunks_of i t))
    \<and> mr_fileData (inspectMedia m (chunks_of i t')) = mr_fileData (inspectMedia m (chunks_of i t))"
    using inspect_without_rejected [of m _ "chunks_of i t"] id by (simp add: chunks split: option.split)
  then show ?thesis using get m
    by (simp add: getLocalMediaBytes_def Let_def split: bool.split option.split)
qed

section \<open>The promises\<close>

lemma object_of:
  assumes "tables_ok t" and "get_object i t = Some m" and "m' \<in> set (jm_values (mt_objects t))" and "mo_id m' = i"
  shows "m' = m"
proof -
  have "(i, m') \<in> set (mt_objects t)" using assms by (auto simp: tables_ok_def)
  then show ?thesis using assms(1,2) by (auto simp: tables_ok_def get_object_def)
qed

lemma cleanup_ends:
  "(\<exists>x. cleanup opts posts now t r = Some x) \<longleftrightarrow> co_postScanBatchSize opts \<noteq> Some 0 \<and> co_mediaScanBatchSize opts \<noteq> Some 0"
  by (auto simp: cleanup_def listAll collectReferenced enforceStorageLimit_def Let_def split_beta split: option.splits)

text \<open>Freeing storage ends for every state exactly if no batch size is zero; with a batch size of zero it
  reads empty batches for ever.\<close>

theorem cleanup_returns:
  "(\<exists>x. cleanup opts posts now t r = Some x) \<longleftrightarrow> co_postScanBatchSize opts \<noteq> Some 0 \<and> co_mediaScanBatchSize opts \<noteq> Some 0"
  by (rule cleanup_ends)


text \<open>The figures of the report add up: the bytes that were freed and the bytes that remain are the bytes
  there were, and the bytes that remain are those of the chunks in the table.\<close>

theorem cleanup_accounts:
  assumes "tables_ok t" and "distinct (jm_keys (mp_announcements r))" and "cleanup opts posts now t r = Some (res, t', r')"
  shows "cr_freedBytes res + cr_remainingBytes res = getTotalStorageSize t \<and> cr_remainingBytes res = getTotalStorageSize t'"
  using cleanup_cases [OF assms] by blast

text \<open>C37: After freeing storage the chunks fit the limit, or everything that is left is protected.\<close>

theorem cleanup_within_limit:
  assumes "tables_ok t" and "distinct (jm_keys (mp_announcements r))" and "cleanup opts posts now t r = Some (res, t', r')"
    and "co_maxBytes opts = Some b" and "0 < b"
  shows "getTotalStorageSize t' \<le> b \<or> (\<forall>m \<in> set (jm_values (mt_objects t')). kept opts posts now r m)"
proof -
  let ?gone = "discarded opts posts now t r"
  obtain existing evicted where c: "t' = without (mo_id ` set evicted) (wanted_chunks existing (without ?gone t))"
      "getTotalStorageSize t' \<le> b
        \<or> (\<forall>m \<in> set (jm_values (mt_objects (without ?gone t))). kept opts posts now r m \<or> m \<in> set evicted)"
    using cleanup_cases [OF assms(1-3)] assms(4,5) by blast
  have "m \<in> set (jm_values (mt_objects (without ?gone t))) \<and> m \<notin> set evicted" if "m \<in> set (jm_values (mt_objects t'))" for m
    using that assms(1) by (auto simp: c(1) without_def wanted_chunks_def tables_ok_def)
  then show ?thesis using c(2) by blast
qed


section \<open>Instances\<close>

lemma tables_ok_create_chunk: "tables_ok t \<Longrightarrow> tables_ok (create_chunk c t)"
  by (auto simp: tables_ok_def create_chunk_def chunk_keyed_def distinct_keys_filter)

lemma tables_ok_create_object: "tables_ok t \<Longrightarrow> tables_ok (create_object m t)"
  by (auto simp: tables_ok_def create_object_def chunk_keyed_def insert_or_replace_def AList.delete_eq distinct_keys_filter)

lemma tables_ok_upload:
  assumes "tables_ok t"
  shows "tables_ok (snd (uploadMedia s author typ mime f now t))"
proof -
  have "tables_ok (fold create_chunk cs t)" for cs
    using assms by (induction cs arbitrary: t) (simp_all add: tables_ok_create_chunk)
  then show ?thesis using assms by (simp add: uploadMedia_def Let_def tables_ok_create_object)
qed

definition sample_cleanup :: cleanup_options where
  "sample_cleanup = \<lparr>co_maxBytes = Some 1, co_postScanBatchSize = None, co_mediaScanBatchSize = None,
     co_localPeerId = Some ''alice'', co_hasRepository = True, co_recentAccessProtectionMs = None,
     co_localeCompare = (\<lambda>a b. 0)\<rparr>"

definition sample_upload :: media_tables where
  "sample_upload = snd (uploadMedia 2 ''alice'' ''image'' ''image/png'' [1, 2, 3] 7 \<lparr>mt_objects = [], mt_chunks = []\<rparr>)"

lemma sample_run:
  "\<exists>res t' r'. cleanup sample_cleanup [] 9 sample_upload (empty_repo empty_db) = Some (res, t', r')"
proof -
  obtain x where "cleanup sample_cleanup [] 9 sample_upload (empty_repo empty_db) = Some x"
    using cleanup_ends [of sample_cleanup "[]" 9 sample_upload "empty_repo empty_db"] by (auto simp: sample_cleanup_def)
  then show ?thesis by (cases x) auto
qed

lemma sample_ok: "tables_ok sample_upload" "distinct (jm_keys (mp_announcements (empty_repo empty_db)))"
  unfolding sample_upload_def by (rule tables_ok_upload) (simp_all add: tables_ok_def chunk_keyed_def empty_repo_def)


definition stray_chunk :: media_tables where
  "stray_chunk = \<lparr>mt_objects = [], mt_chunks = [(''c'', \<lparr>mk_id = ''c'', mk_author = ''bob'', mk_mediaObjectId = ''m'',
     mk_position = Fin 0, mk_size = Fin 3, mk_hash = [], mk_data = Typed_bytes [1, 2, 3], mk_createdAt = 0\<rparr>)]\<rparr>"

lemma stray_ok: "tables_ok stray_chunk"
  by (simp add: stray_chunk_def tables_ok_def chunk_keyed_def)

theorem cleanup_accounts_witness:
  "\<exists>res t' r'. cleanup sample_cleanup [] 9 stray_chunk (empty_repo empty_db) = Some (res, t', r')
     \<and> cr_freedBytes res + cr_remainingBytes res = 3 \<and> mt_chunks t' = []"
proof -
  obtain res t' r' where run: "cleanup sample_cleanup [] 9 stray_chunk (empty_repo empty_db) = Some (res, t', r')"
    and left: "mt_chunks t' = []"
    by (auto simp: cleanup_def listAll collectReferenced enforceStorageLimit_def Let_def split_beta sample_cleanup_def
        all_objects_def sortEvictionCandidates_def stray_chunk_def deleteInvalidOrOrphanChunks_def chunk_wanted_def
        delete_counted_def delete_chunk_def getTotalStorageSize_def chunk_bytes_size_def)
  then show ?thesis
    using cleanup_accounts [OF stray_ok sample_ok(2) run] by (simp add: stray_chunk_def getTotalStorageSize_def chunk_bytes_size_def)
qed

theorem cleanup_within_limit_witness:
  "\<exists>res t' r'. cleanup sample_cleanup [] 9 sample_upload (empty_repo empty_db) = Some (res, t', r')
     \<and> (getTotalStorageSize t' \<le> 1 \<or> (\<forall>m \<in> set (jm_values (mt_objects t')). kept sample_cleanup [] 9 (empty_repo empty_db) m))"
  using sample_run cleanup_within_limit [OF sample_ok, of sample_cleanup "[]" 9 _ _ _ 1] by (fastforce simp: sample_cleanup_def)


end
