(* ===== verification/MediaRepair.thy ===== *)
theory MediaRepair
  imports MediaRepository MediaIntegrity
begin

text \<open>
  Keeping enough replicas: \<open>src/services/media/MediaRepairService.ts\<close>, and the choice of where to ask for a
  chunk, \<open>MediaSourceSelector.ts\<close>. A repair run is one step: the tables and the repository do not change
  while it waits, and what becomes of an offer is a parameter. A confirmation is two steps, before and after
  the object has been read, between which anything may happen. The timer is the delay it was set with; the
  handlers of snapshots and the reasons that are logged are outside.
\<close>

section \<open>Policy and state\<close>

record repair_policy =
  po_minReplicas :: int
  po_desiredReplicas :: int
  po_maxOffersPerRun :: int
  po_offerTimeoutMs :: int
  po_retryBackoffMs :: int

record partial_policy =
  pp_minReplicas :: "int option"
  pp_desiredReplicas :: "int option"
  pp_maxOffersPerRun :: "int option"
  pp_offerTimeoutMs :: "int option"
  pp_retryBackoffMs :: "int option"

definition default_policy :: repair_policy where
  "default_policy = \<lparr>po_minReplicas = 2, po_desiredReplicas = 3, po_maxOffersPerRun = 4,
     po_offerTimeoutMs = 60000, po_retryBackoffMs = 30000\<rparr>"

definition normalizePolicy :: "partial_policy \<Rightarrow> repair_policy" where
  "normalizePolicy p =
     (let minReplicas = max 1 (or_else (pp_minReplicas p) (po_minReplicas default_policy)) in
      \<lparr>po_minReplicas = minReplicas,
       po_desiredReplicas = max minReplicas (or_else (pp_desiredReplicas p) (po_desiredReplicas default_policy)),
       po_maxOffersPerRun = max 1 (or_else (pp_maxOffersPerRun p) (po_maxOffersPerRun default_policy)),
       po_offerTimeoutMs = max 1 (or_else (pp_offerTimeoutMs p) (po_offerTimeoutMs default_policy)),
       po_retryBackoffMs = max 1 (or_else (pp_retryBackoffMs p) (po_retryBackoffMs default_policy))\<rparr>)"

record pending_offer =
  pe_peerId :: string
  pe_mediaObjectId :: string
  pe_expiresAt :: int

record repair_state =
  rs_started :: bool
  rs_timer :: "int option"
  rs_pendingOffers :: "(string, pending_offer) jsmap"
  rs_retryAfter :: "(string, int) jsmap"
  rs_queuedObjects :: nat
  rs_confirmedRepairs :: nat
  rs_failedOffers :: nat
  rs_underReplicatedObjects :: nat
  rs_lastRepairAt :: "int option"
  rs_lastConfirmedAt :: "int option"
  rs_lastError :: "string option"

definition new_repair :: repair_state where
  "new_repair = \<lparr>rs_started = False, rs_timer = None, rs_pendingOffers = [], rs_retryAfter = [],
     rs_queuedObjects = 0, rs_confirmedRepairs = 0, rs_failedOffers = 0, rs_underReplicatedObjects = 0,
     rs_lastRepairAt = None, rs_lastConfirmedAt = None, rs_lastError = None\<rparr>"

text \<open>What the service is built with, and what \<open>offerReplica\<close> does: it answers, or throws a message.\<close>

datatype offer_outcome = Answered bool | Threw string

record repair_env =
  re_localPeerId :: string
  re_policy :: repair_policy
  re_localeCompare :: "string \<Rightarrow> string \<Rightarrow> int"
  re_eligiblePeers :: "string list"
  re_outcome :: "string \<Rightarrow> string \<Rightarrow> offer_outcome"
  re_tables :: media_tables
  re_repo :: media_repo

record repair_snapshot =
  sp_running :: bool
  sp_queuedObjects :: nat
  sp_pendingOffers :: nat
  sp_confirmedRepairs :: nat
  sp_failedOffers :: nat
  sp_underReplicatedObjects :: nat
  sp_lastRepairAt :: "int option"
  sp_lastConfirmedAt :: "int option"
  sp_lastError :: "string option"

definition repair_snapshot_of :: "repair_state \<Rightarrow> repair_snapshot" where
  "repair_snapshot_of s = \<lparr>sp_running = rs_started s, sp_queuedObjects = rs_queuedObjects s,
     sp_pendingOffers = length (rs_pendingOffers s), sp_confirmedRepairs = rs_confirmedRepairs s,
     sp_failedOffers = rs_failedOffers s, sp_underReplicatedObjects = rs_underReplicatedObjects s,
     sp_lastRepairAt = rs_lastRepairAt s, sp_lastConfirmedAt = rs_lastConfirmedAt s, sp_lastError = rs_lastError s\<rparr>"

definition createOfferKey :: "string \<Rightarrow> string \<Rightarrow> string" where
  "createOfferKey peerId mediaObjectId = peerId @ '':'' @ mediaObjectId"

section \<open>Timer\<close>

definition scheduleRepair :: "int \<Rightarrow> repair_state \<Rightarrow> repair_state" where
  "scheduleRepair delayMs s =
     (if \<not> rs_started s then s
      else if rs_timer s \<noteq> None \<and> delayMs > 0 then s
      else s\<lparr>rs_timer := Some (max 0 delayMs)\<rparr>)"

definition repair_start :: "repair_state \<Rightarrow> repair_state" where
  "repair_start s = (if rs_started s then s else scheduleRepair 0 (s\<lparr>rs_started := True\<rparr>))"

definition repair_stop :: "repair_state \<Rightarrow> repair_state" where
  "repair_stop s = s\<lparr>rs_started := False, rs_timer := None, rs_pendingOffers := [], rs_retryAfter := [],
     rs_queuedObjects := 0\<rparr>"

definition scheduleNextExpiry :: "int \<Rightarrow> repair_state \<Rightarrow> repair_state" where
  "scheduleNextExpiry now s =
     (case map pe_expiresAt (jm_values (rs_pendingOffers s)) @ jm_values (rs_retryAfter s) of
        [] \<Rightarrow> s
      | d # ds \<Rightarrow> scheduleRepair (max 1 (foldl min d ds - now)) s)"

section \<open>Offers\<close>

definition expirePendingOffers :: "repair_policy \<Rightarrow> int \<Rightarrow> repair_state \<Rightarrow> repair_state" where
  "expirePendingOffers po now s =
     (let gone = filter (\<lambda>(k, e). pe_expiresAt e \<le> now) (rs_pendingOffers s);
          retry = foldl (\<lambda>r (k, e). jm_set k (now + po_retryBackoffMs po) r) (rs_retryAfter s) gone
      in s\<lparr>rs_pendingOffers := filter (\<lambda>(k, e). \<not> pe_expiresAt e \<le> now) (rs_pendingOffers s),
           rs_retryAfter := filter (\<lambda>(k, at). \<not> at \<le> now) retry,
           rs_failedOffers := rs_failedOffers s + length gone\<rparr>)"

definition isBackedOff :: "string \<Rightarrow> string \<Rightarrow> int \<Rightarrow> repair_state \<Rightarrow> bool" where
  "isBackedOff peerId mediaObjectId now s \<longleftrightarrow>
     or_else (jm_get (rs_retryAfter s) (createOfferKey peerId mediaObjectId)) 0 > now"

definition listLocalAvailableMedia :: "repair_env \<Rightarrow> media_object list" where
  "listLocalAvailableMedia env = js_sort (\<lambda>l r. re_localeCompare env (mo_id l) (mo_id r))
     (filter (\<lambda>m. mr_available (inspectMedia m (chunks_of (mo_id m) (re_tables env)))) (all_objects (re_tables env)))"

definition replicas_of :: "repair_env \<Rightarrow> media_object \<Rightarrow> int \<Rightarrow> string list" where
  "replicas_of env m now = findCompleteReplicaPeers (re_localeCompare env) (mo_id m) (mo_chunks m) now (re_repo env)"

definition pending_peers :: "string \<Rightarrow> repair_state \<Rightarrow> string list" where
  "pending_peers mediaObjectId s = js_uniq (map pe_peerId
     (filter (\<lambda>e. pe_mediaObjectId e = mediaObjectId) (jm_values (rs_pendingOffers s))))"

definition may_offer :: "repair_env \<Rightarrow> int \<Rightarrow> media_object \<Rightarrow> repair_state \<Rightarrow> string \<Rightarrow> bool" where
  "may_offer env now m s p \<longleftrightarrow> p \<noteq> re_localPeerId env \<and> p \<notin> set (replicas_of env m now)
     \<and> p \<notin> set (pending_peers (mo_id m) s) \<and> \<not> isBackedOff p (mo_id m) now s
     \<and> \<not> list_ex (\<lambda>c. isReplicaQuarantined p (mo_id m) c now (re_repo env)) (mo_chunks m)"

definition required_offers :: "repair_env \<Rightarrow> int \<Rightarrow> media_object \<Rightarrow> repair_state \<Rightarrow> int" where
  "required_offers env now m s = max 0 (po_desiredReplicas (re_policy env)
     - int (length (replicas_of env m now)) - int (length (pending_peers (mo_id m) s)))"

definition offer_candidates :: "repair_env \<Rightarrow> int \<Rightarrow> media_object \<Rightarrow> int \<Rightarrow> repair_state \<Rightarrow> string list" where
  "offer_candidates env now m offersRemaining s =
     take (nat (min (required_offers env now m s) offersRemaining))
       (js_sort (re_localeCompare env) (filter (may_offer env now m s) (re_eligiblePeers env)))"

text \<open>The offers that were made, what is left of the budget, and the message that was thrown.\<close>

fun make_offers ::
  "repair_env \<Rightarrow> int \<Rightarrow> string \<Rightarrow> string list \<Rightarrow> int \<Rightarrow> repair_state
     \<Rightarrow> (string \<times> string) list \<times> int \<times> string option \<times> repair_state" where
  "make_offers env now i [] n s = ([], n, None, s)"
| "make_offers env now i (p # ps) n s = (case re_outcome env p i of
     Threw msg \<Rightarrow> ([(p, i)], n, Some msg, s)
   | Answered sent \<Rightarrow>
      (let s' = (if sent then s\<lparr>rs_pendingOffers := jm_set (createOfferKey p i)
                   \<lparr>pe_peerId = p, pe_mediaObjectId = i, pe_expiresAt = now + po_offerTimeoutMs (re_policy env)\<rparr>
                   (rs_pendingOffers s)\<rparr>
                 else s\<lparr>rs_failedOffers := Suc (rs_failedOffers s),
                   rs_retryAfter := jm_set (createOfferKey p i) (now + po_retryBackoffMs (re_policy env)) (rs_retryAfter s)\<rparr>);
           (made, n', err, s'') = make_offers env now i ps (n - 1) s'
       in ((p, i) # made, n', err, s'')))"

fun repair_objects ::
  "repair_env \<Rightarrow> int \<Rightarrow> media_object list \<Rightarrow> int \<Rightarrow> repair_state
     \<Rightarrow> (string \<times> string) list \<times> string option \<times> repair_state" where
  "repair_objects env now [] n s = ([], None, s)"
| "repair_objects env now (m # ms) n s =
     (if int (length (replicas_of env m now)) \<ge> po_minReplicas (re_policy env) then repair_objects env now ms n s
      else (let s1 = s\<lparr>rs_underReplicatedObjects := Suc (rs_underReplicatedObjects s)\<rparr> in
        if required_offers env now m s1 = 0 \<or> n = 0 then repair_objects env now ms n s1
        else (case make_offers env now (mo_id m) (offer_candidates env now m n s1) n s1 of
            (made, n', Some msg, s2) \<Rightarrow> (made, Some msg, s2)
          | (made, n', None, s2) \<Rightarrow>
              (let (made', err, s3) = repair_objects env now ms n' s2 in (made @ made', err, s3)))))"

definition performRepair :: "repair_env \<Rightarrow> int \<Rightarrow> repair_state \<Rightarrow> (string \<times> string) list \<times> repair_state" where
  "performRepair env now s =
     (let s1 = (expirePendingOffers (re_policy env) now s)\<lparr>rs_lastError := None\<rparr>;
          objects = listLocalAvailableMedia env;
          s2 = s1\<lparr>rs_queuedObjects := length objects, rs_underReplicatedObjects := 0\<rparr>
      in case repair_objects env now objects (po_maxOffersPerRun (re_policy env)) s2 of
        (made, None, s3) \<Rightarrow> (made, scheduleNextExpiry now (s3\<lparr>rs_queuedObjects := 0, rs_lastRepairAt := Some now\<rparr>))
      | (made, Some msg, s3) \<Rightarrow> (made, scheduleRepair (po_retryBackoffMs (re_policy env))
            (s3\<lparr>rs_queuedObjects := 0, rs_lastError := Some msg\<rparr>)))"

definition runRepair :: "repair_env \<Rightarrow> int \<Rightarrow> repair_state \<Rightarrow> (string \<times> string) list \<times> repair_state" where
  "runRepair env now s = (if \<not> rs_started s then ([], s) else performRepair env now s)"

text \<open>The timer fires: the run it was set for.\<close>

definition repair_timer :: "repair_env \<Rightarrow> int \<Rightarrow> repair_state \<Rightarrow> (string \<times> string) list \<times> repair_state" where
  "repair_timer env now s = (case rs_timer s of None \<Rightarrow> ([], s) | Some _ \<Rightarrow> runRepair env now (s\<lparr>rs_timer := None\<rparr>))"

section \<open>Confirmation\<close>

text \<open>The confirmations an announcement begins: one for each object offered to its sender.\<close>

definition handleAvailabilityAnnouncement :: "repair_env \<Rightarrow> string \<Rightarrow> repair_state \<Rightarrow> (string \<times> string) list \<times> repair_state" where
  "handleAvailabilityAnnouncement env peerId s =
     (if \<not> rs_started s \<or> peerId = re_localPeerId env then ([], s)
      else (map (Pair peerId) (js_uniq (map pe_mediaObjectId
              (filter (\<lambda>e. pe_peerId e = peerId) (jm_values (rs_pendingOffers s))))),
            scheduleRepair 0 s))"

definition confirm_begin :: "string \<Rightarrow> string \<Rightarrow> repair_state \<Rightarrow> bool" where
  "confirm_begin peerId mediaObjectId s \<longleftrightarrow> jm_get (rs_pendingOffers s) (createOfferKey peerId mediaObjectId) \<noteq> None"

definition confirm_end :: "repair_env \<Rightarrow> string \<Rightarrow> string \<Rightarrow> int \<Rightarrow> int \<Rightarrow> repair_state \<Rightarrow> repair_state" where
  "confirm_end env peerId mediaObjectId now now' s = (case get_object mediaObjectId (re_tables env) of
     None \<Rightarrow> s
   | Some m \<Rightarrow>
      if peerId \<notin> set (findCompleteReplicaPeers (re_localeCompare env) mediaObjectId (mo_chunks m) now (re_repo env)) then s
      else scheduleRepair 0 (s\<lparr>rs_pendingOffers := jm_delete (createOfferKey peerId mediaObjectId) (rs_pendingOffers s),
        rs_retryAfter := jm_delete (createOfferKey peerId mediaObjectId) (rs_retryAfter s),
        rs_confirmedRepairs := Suc (rs_confirmedRepairs s), rs_lastConfirmedAt := Some now'\<rparr>))"

definition confirmOfferIfComplete :: "repair_env \<Rightarrow> string \<Rightarrow> string \<Rightarrow> int \<Rightarrow> int \<Rightarrow> repair_state \<Rightarrow> repair_state" where
  "confirmOfferIfComplete env peerId mediaObjectId now now' s =
     (if confirm_begin peerId mediaObjectId s then confirm_end env peerId mediaObjectId now now' s else s)"

section \<open>Where to ask for a chunk\<close>

record ranked_source =
  ks_peerId :: string
  ks_advertised :: bool
  ks_successes :: int
  ks_failures :: int
  ks_latencyMs :: int
  ks_updatedAt :: int

definition compareMediaSources :: "(string \<Rightarrow> string \<Rightarrow> int) \<Rightarrow> ranked_source \<Rightarrow> ranked_source \<Rightarrow> int" where
  "compareMediaSources localeCompare l r =
     (if ks_advertised l \<noteq> ks_advertised r then (if ks_advertised l then - 1 else 1)
      else js_or ((ks_successes r - ks_failures r) - (ks_successes l - ks_failures l))
        (js_or (ks_failures l - ks_failures r) (js_or (ks_latencyMs l - ks_latencyMs r)
          (js_or (ks_updatedAt r - ks_updatedAt l) (localeCompare (ks_peerId l) (ks_peerId r))))))"

definition ranked_as :: "string list \<Rightarrow> string \<Rightarrow> string \<Rightarrow> media_repo \<Rightarrow> string \<Rightarrow> ranked_source" where
  "ranked_as peers mediaObjectId chunkId r p =
     (let o1 = getReplicaObservation p mediaObjectId (Some chunkId) r in
      \<lparr>ks_peerId = p, ks_advertised = (p \<in> set peers),
       ks_successes = (case o1 of None \<Rightarrow> 0 | Some x \<Rightarrow> ob_successCount x),
       ks_failures = (case o1 of None \<Rightarrow> 0 | Some x \<Rightarrow> ob_failureCount x),
       ks_latencyMs = (case o1 of None \<Rightarrow> 2 ^ 53 - 1 | Some x \<Rightarrow> or_else (ob_latencyMs x) (2 ^ 53 - 1)),
       ks_updatedAt = (case o1 of None \<Rightarrow> 0 | Some x \<Rightarrow> ob_updatedAt x)\<rparr>)"

definition select_sources ::
  "(string \<Rightarrow> string \<Rightarrow> int) \<Rightarrow> string \<Rightarrow> string \<Rightarrow> string list \<Rightarrow> int \<Rightarrow> media_repo \<Rightarrow> string list" where
  "select_sources localeCompare mediaObjectId chunkId candidatePeers now r =
     (let peers = findPeersForChunk localeCompare mediaObjectId chunkId now r;
          candidates = filter (\<lambda>p. \<not> isReplicaQuarantined p mediaObjectId chunkId now r) (js_uniq (peers @ candidatePeers))
      in map ks_peerId (js_sort (compareMediaSources localeCompare) (map (ranked_as peers mediaObjectId chunkId r) candidates)))"

end
