(* ===== verification/MediaRepair_Claims.thy ===== *)
theory MediaRepair_Claims
  imports MediaRepair MediaCleanup_Claims
begin

text \<open>
  What keeping replicas promises: offers stay within the policy, go only to peers that may hold the object,
  and none is left waiting without a timer; peers are asked for chunks in the order of what is known of them.
\<close>

section \<open>Any order of events\<close>

datatype repair_op =
    Repair_start | Repair_stop | Repair_run repair_env int | Repair_timer repair_env int
  | Repair_announced repair_env string | Repair_confirm repair_env string string int int

fun repair_step :: "repair_state \<Rightarrow> repair_op \<Rightarrow> repair_state" where
  "repair_step s Repair_start = repair_start s"
| "repair_step s Repair_stop = repair_stop s"
| "repair_step s (Repair_run env now) = snd (runRepair env now s)"
| "repair_step s (Repair_timer env now) = snd (repair_timer env now s)"
| "repair_step s (Repair_announced env p) = snd (handleAvailabilityAnnouncement env p s)"
| "repair_step s (Repair_confirm env p i now now') = confirm_end env p i now now' s"

fun op_policy :: "repair_policy \<Rightarrow> repair_op \<Rightarrow> bool" where
  "op_policy po (Repair_run env now) \<longleftrightarrow> re_policy env = po"
| "op_policy po (Repair_timer env now) \<longleftrightarrow> re_policy env = po"
| "op_policy po x \<longleftrightarrow> True"

section \<open>Pending offers\<close>

lemma set_pending_peers:
  "set (pending_peers i s) = {pe_peerId e | e. e \<in> set (jm_values (rs_pendingOffers s)) \<and> pe_mediaObjectId e = i}"
  by (auto simp: pending_peers_def)

lemma pending_count: "length (pending_peers i s) = card (set (pending_peers i s))"
  by (metis distinct_card distinct_js_uniq pending_peers_def)

lemma pending_fewer:
  assumes "set (jm_values (rs_pendingOffers s')) \<subseteq> set (jm_values (rs_pendingOffers s))"
  shows "length (pending_peers i s') \<le> length (pending_peers i s)"
proof -
  have "set (pending_peers i s') \<subseteq> set (pending_peers i s)" using assms unfolding set_pending_peers by blast
  then show ?thesis unfolding pending_count by (simp add: card_mono)
qed

lemma pending_after_set:
  assumes "rs_pendingOffers s' = jm_set k e (rs_pendingOffers s)"
  shows "set (pending_peers i s') \<subseteq> set (pending_peers i s) \<union> (if pe_mediaObjectId e = i then {pe_peerId e} else {})"
  using jm_values_update_subset [of k e "rs_pendingOffers s"] unfolding set_pending_peers assms by fastforce

lemma make_offers_pending:
  assumes "make_offers env now i ps n s = (made, n', err, s')"
  shows "set (pending_peers j s') \<subseteq> set (pending_peers j s) \<union> (if j = i then set ps else {})"
  using assms
proof (induction ps arbitrary: n s made)
  case (Cons p ps)
  show ?case
  proof (cases "re_outcome env p i")
    case (Answered sent)
    define t where "t = (if sent then s\<lparr>rs_pendingOffers := jm_set (createOfferKey p i)
           \<lparr>pe_peerId = p, pe_mediaObjectId = i, pe_expiresAt = now + po_offerTimeoutMs (re_policy env)\<rparr> (rs_pendingOffers s)\<rparr>
         else s\<lparr>rs_failedOffers := Suc (rs_failedOffers s),
           rs_retryAfter := jm_set (createOfferKey p i) (now + po_retryBackoffMs (re_policy env)) (rs_retryAfter s)\<rparr>)"
    obtain made' where "make_offers env now i ps (n - 1) t = (made', n', err, s')"
      using Cons.prems Answered by (auto simp: Let_def t_def split: prod.splits)
    from Cons.IH [OF this] have "set (pending_peers j s') \<subseteq> set (pending_peers j t) \<union> (if j = i then set ps else {})" .
    moreover have "set (pending_peers j t) \<subseteq> set (pending_peers j s) \<union> (if j = i then {p} else {})"
    proof (cases sent)
      case True
      then have "rs_pendingOffers t = jm_set (createOfferKey p i)
          \<lparr>pe_peerId = p, pe_mediaObjectId = i, pe_expiresAt = now + po_offerTimeoutMs (re_policy env)\<rparr> (rs_pendingOffers s)"
        by (simp add: t_def)
      from pending_after_set [OF this, of j] show ?thesis by (auto split: if_splits)
    next
      case False
      then show ?thesis by (auto simp: t_def pending_peers_def)
    qed
    ultimately show ?thesis by (auto split: if_splits)
  next
    case (Threw msg)
    then show ?thesis using Cons.prems by auto
  qed
qed simp

lemma make_offers_budget:
  "make_offers env now i ps n s = (made, n', err, s') \<Longrightarrow>
   length made \<le> length ps \<and> (err = None \<longrightarrow> n' = n - int (length made))"
  by (induction ps arbitrary: n s made) (fastforce simp: Let_def split: offer_outcome.splits prod.splits)+

text \<open>For one object, the offers that wait and those that are made stay within what is required.\<close>

lemma make_offers_within:
  assumes "make_offers env now (mo_id m) (offer_candidates env now m n s) n s = (made, n', err, s')"
    and "\<And>j. int (length (pending_peers j s)) \<le> po_desiredReplicas (re_policy env)"
  shows "int (length (pending_peers j s')) \<le> po_desiredReplicas (re_policy env)"
proof -
  let ?ps = "offer_candidates env now m n s" and ?i = "mo_id m"
  have len: "int (length ?ps) \<le> required_offers env now m s"
    by (simp add: offer_candidates_def required_offers_def min_def) linarith
  have sub: "set (pending_peers j s') \<subseteq> set (pending_peers j s) \<union> (if j = ?i then set ?ps else {})"
    by (rule make_offers_pending [OF assms(1)])
  show ?thesis
  proof (cases "j = ?i")
    case True
    have "card (set (pending_peers j s')) \<le> card (set (pending_peers j s) \<union> set ?ps)"
      using sub True by (intro card_mono) simp_all
    also have "\<dots> \<le> card (set (pending_peers j s)) + length ?ps"
      by (meson add_left_mono card_Un_le card_length le_trans)
    finally show ?thesis using len assms(2) [of j] True unfolding pending_count required_offers_def by (simp add: max_def split: if_splits)
  next
    case False
    then have "card (set (pending_peers j s')) \<le> card (set (pending_peers j s))" using sub by (intro card_mono) simp_all
    then show ?thesis using assms(2) [of j] unfolding pending_count by linarith
  qed
qed

lemma pending_unaffected [simp]:
  "pending_peers i (s\<lparr>rs_underReplicatedObjects := u\<rparr>) = pending_peers i s"
  "pending_peers i (s\<lparr>rs_queuedObjects := q\<rparr>) = pending_peers i s"
  "pending_peers i (s\<lparr>rs_lastError := err\<rparr>) = pending_peers i s"
  "pending_peers i (s\<lparr>rs_lastRepairAt := l\<rparr>) = pending_peers i s"
  "pending_peers i (s\<lparr>rs_timer := tm\<rparr>) = pending_peers i s"
  "pending_peers i (s\<lparr>rs_started := b\<rparr>) = pending_peers i s"
  by (simp_all add: pending_peers_def)

lemma pending_scheduled [simp]: "pending_peers i (scheduleRepair d s) = pending_peers i s"
  by (simp add: scheduleRepair_def)

lemma pending_next_expiry [simp]: "pending_peers i (scheduleNextExpiry now s) = pending_peers i s"
  by (simp add: scheduleNextExpiry_def split: list.split)

lemma repair_objects_within:
  assumes "repair_objects env now ms n s = (made, err, s')"
    and "\<And>j. int (length (pending_peers j s)) \<le> po_desiredReplicas (re_policy env)"
  shows "int (length (pending_peers j s')) \<le> po_desiredReplicas (re_policy env)"
  using assms
proof (induction ms arbitrary: n s made)
  case (Cons m ms)
  let ?s1 = "s\<lparr>rs_underReplicatedObjects := Suc (rs_underReplicatedObjects s)\<rparr>"
  obtain mo n' e s2 where o: "make_offers env now (mo_id m) (offer_candidates env now m n ?s1) n ?s1 = (mo, n', e, s2)"
    by (metis prod_cases4)
  have s2: "int (length (pending_peers k s2)) \<le> po_desiredReplicas (re_policy env)" for k
    by (rule make_offers_within [OF o]) (use Cons.prems(2) in simp)
  consider (skip) t n1 where "repair_objects env now ms n1 t = (made, err, s')" "\<And>k. pending_peers k t = pending_peers k s"
    | (stop) "s' = s2" | (go) made' where "repair_objects env now ms n' s2 = (made', err, s')"
    using Cons.prems(1) o by (auto simp: Let_def split: if_splits option.splits prod.splits)
  then show ?case
  proof cases
    case skip
    then show ?thesis using Cons.IH [OF skip(1)] Cons.prems(2) by simp
  next
    case stop
    then show ?thesis using s2 by simp
  next
    case go
    then show ?thesis using Cons.IH [OF go] s2 by simp
  qed
qed simp

lemma expire_pending:
  "set (jm_values (rs_pendingOffers (expirePendingOffers po now s))) \<subseteq> set (jm_values (rs_pendingOffers s))"
  by (auto simp: expirePendingOffers_def Let_def)

lemma performed_within:
  assumes "\<And>j. int (length (pending_peers j s)) \<le> po_desiredReplicas (re_policy env)"
  shows "int (length (pending_peers j (snd (performRepair env now s)))) \<le> po_desiredReplicas (re_policy env)"
proof -
  let ?s = "(expirePendingOffers (re_policy env) now s)\<lparr>rs_lastError := None,
      rs_queuedObjects := length (listLocalAvailableMedia env), rs_underReplicatedObjects := 0\<rparr>"
  obtain made err s3 where o: "repair_objects env now (listLocalAvailableMedia env) (po_maxOffersPerRun (re_policy env)) ?s = (made, err, s3)"
    by (metis prod_cases3)
  have start: "int (length (pending_peers k ?s)) \<le> po_desiredReplicas (re_policy env)" for k
    using pending_fewer [OF expire_pending, of k "re_policy env" now s] assms [of k] by simp
  have "int (length (pending_peers j s3)) \<le> po_desiredReplicas (re_policy env)"
    by (rule repair_objects_within [OF o start])
  then show ?thesis using o by (simp add: performRepair_def Let_def split: option.split)
qed

lemma step_within:
  assumes "op_policy po x" and "0 \<le> po_desiredReplicas po"
    and "\<forall>j. int (length (pending_peers j s)) \<le> po_desiredReplicas po"
  shows "\<forall>j. int (length (pending_peers j (repair_step s x))) \<le> po_desiredReplicas po"
proof (cases x)
  case Repair_start
  then show ?thesis using assms(3) by (simp add: repair_start_def)
next
  case Repair_stop
  then show ?thesis using assms(2) by (simp add: repair_stop_def pending_peers_def js_uniq_def)
next
  case (Repair_run env now)
  then show ?thesis using assms performed_within [of s env] by (simp add: runRepair_def)
next
  case (Repair_timer env now)
  then show ?thesis using assms performed_within [of "s\<lparr>rs_timer := None\<rparr>" env]
    by (simp add: repair_timer_def runRepair_def split: option.split)
next
  case (Repair_announced env p)
  then show ?thesis using assms(3) by (simp add: handleAvailabilityAnnouncement_def)
next
  case (Repair_confirm env p i now now')
  have "set (jm_values (rs_pendingOffers (confirm_end env p i now now' s))) \<subseteq> set (jm_values (rs_pendingOffers s))"
    by (auto simp: confirm_end_def scheduleRepair_def AList.delete_eq split: option.split)
  then have fewer: "length (pending_peers j (confirm_end env p i now now' s)) \<le> length (pending_peers j s)" for j
    by (rule pending_fewer)
  show ?thesis
  proof
    fix j
    show "int (length (pending_peers j (repair_step s x))) \<le> po_desiredReplicas po"
      using fewer [of j] assms(3) [rule_format, of j] Repair_confirm by simp
  qed
qed

lemma run_within:
  assumes "list_all (op_policy po) xs" and "0 \<le> po_desiredReplicas po"
  shows "\<forall>j. int (length (pending_peers j (foldl repair_step new_repair xs))) \<le> po_desiredReplicas po"
  using assms(1)
proof (induction xs rule: rev_induct)
  case Nil
  show ?case using assms(2) by (simp add: new_repair_def pending_peers_def js_uniq_def)
next
  case (snoc x xs)
  then show ?case using step_within [OF _ assms(2)] by simp
qed

section \<open>The timer\<close>

definition watched :: "repair_state \<Rightarrow> bool" where
  "watched s \<longleftrightarrow> (rs_started s \<longrightarrow> rs_pendingOffers s = [] \<and> rs_retryAfter s = [] \<or> rs_timer s \<noteq> None)"

lemma scheduled_watched: "watched (scheduleRepair d s)"
  by (simp add: watched_def scheduleRepair_def)

lemma next_expiry_watched: "watched (scheduleNextExpiry now s)"
proof (cases "map pe_expiresAt (jm_values (rs_pendingOffers s)) @ jm_values (rs_retryAfter s)")
  case Nil
  then show ?thesis by (simp add: scheduleNextExpiry_def watched_def)
next
  case (Cons d ds)
  then show ?thesis using scheduled_watched by (simp add: scheduleNextExpiry_def)
qed

lemma performed_watched: "watched (snd (performRepair env now s))"
  by (auto simp: performRepair_def Let_def scheduled_watched next_expiry_watched split: prod.split option.split)

lemma step_watched: "watched s \<Longrightarrow> watched (repair_step s x)"
proof (cases x)
  case (Repair_timer env now)
  then show "watched s \<Longrightarrow> ?thesis"
    by (auto simp: repair_timer_def runRepair_def performed_watched split: option.split) (simp add: watched_def)
qed (auto simp: repair_start_def repair_stop_def runRepair_def handleAvailabilityAnnouncement_def confirm_end_def
    scheduled_watched performed_watched split: option.split, (simp add: watched_def)?)

interpretation repair_machine: machine repair_step watched
  by unfold_locales (rule step_watched)

section \<open>Where offers go\<close>

definition keyed_offers :: "repair_state \<Rightarrow> bool" where
  "keyed_offers s \<longleftrightarrow> (\<forall>(k, e) \<in> set (rs_pendingOffers s). k = createOfferKey (pe_peerId e) (pe_mediaObjectId e))"

lemma createOfferKey_eq:
  "CHR '':'' \<notin> set p \<Longrightarrow> CHR '':'' \<notin> set q \<Longrightarrow> createOfferKey p i = createOfferKey q j \<longleftrightarrow> p = q \<and> i = j"
proof (induction p arbitrary: q)
  case Nil
  then show ?case by (cases q) (auto simp: createOfferKey_def)
next
  case (Cons c p)
  then show ?case by (cases q) (auto simp: createOfferKey_def)
qed

text \<open>What waits and what is backed off stays so while a run makes further offers.\<close>

definition remembers :: "string set \<Rightarrow> int \<Rightarrow> repair_state \<Rightarrow> repair_state \<Rightarrow> bool" where
  "remembers ps now s s' \<longleftrightarrow> (\<forall>p \<in> ps. \<forall>i. (p \<in> set (pending_peers i s) \<longrightarrow> p \<in> set (pending_peers i s'))
     \<and> (isBackedOff p i now s \<longrightarrow> isBackedOff p i now s'))"

lemma remembers_refl: "remembers ps now s s"
  by (simp add: remembers_def)

lemma remembers_trans: "remembers ps now s t \<Longrightarrow> remembers ps now t u \<Longrightarrow> remembers ps now s u"
  unfolding remembers_def by blast

lemma update_keeps: "(k', v') \<in> set m \<Longrightarrow> k' \<noteq> k \<Longrightarrow> (k', v') \<in> set (jm_set k v m)"
  by (induction m) auto

lemma update_adds: "(k, v) \<in> set (jm_set k v m)"
  by (induction m) auto

lemma sent_remembers:
  assumes "keyed_offers s" and "\<forall>q \<in> ps. CHR '':'' \<notin> set q" and "p \<in> ps"
    and s': "s' = s\<lparr>rs_pendingOffers := jm_set (createOfferKey p i) \<lparr>pe_peerId = p, pe_mediaObjectId = i, pe_expiresAt = t\<rparr>
      (rs_pendingOffers s)\<rparr>"
  shows "remembers ps now s s' \<and> keyed_offers s'"
proof -
  let ?e = "\<lparr>pe_peerId = p, pe_mediaObjectId = i, pe_expiresAt = t\<rparr>"
  have "keyed_offers s'"
    using assms(1) jm_values_update_subset [of "createOfferKey p i" ?e "rs_pendingOffers s"]
    unfolding keyed_offers_def s' by fastforce
  moreover have "q \<in> set (pending_peers j s')" if q: "q \<in> ps" "q \<in> set (pending_peers j s)" for q j
  proof -
    obtain k e where e: "(k, e) \<in> set (rs_pendingOffers s)" "pe_peerId e = q" "pe_mediaObjectId e = j"
      using q(2) unfolding set_pending_peers by auto
    show ?thesis
    proof (cases "k = createOfferKey p i")
      case True
      then have "q = p \<and> j = i"
        using assms(1) e createOfferKey_eq [of q p j i] assms(2,3) q(1) by (auto simp: keyed_offers_def)
      moreover have "(createOfferKey p i, ?e) \<in> set (rs_pendingOffers s')" unfolding s' by (simp add: update_adds)
      ultimately show ?thesis unfolding set_pending_peers by force
    next
      case False
      then have "(k, e) \<in> set (rs_pendingOffers s')" using update_keeps [OF e(1)] unfolding s' by simp
      then show ?thesis using e unfolding set_pending_peers by force
    qed
  qed
  ultimately show ?thesis unfolding remembers_def s' by (auto simp: isBackedOff_def)
qed

lemma refused_remembers:
  assumes "now < t" and "keyed_offers s"
    and "s' = s\<lparr>rs_failedOffers := n, rs_retryAfter := jm_set k t (rs_retryAfter s)\<rparr>"
  shows "remembers ps now s s' \<and> keyed_offers s'"
  using assms by (auto simp: remembers_def keyed_offers_def isBackedOff_def pending_peers_def or_else_def jm.get_put)

lemma make_offers_sound:
  assumes "make_offers env now i ps n s = (made, n', err, s')" and "keyed_offers s"
    and "\<forall>q \<in> es. CHR '':'' \<notin> set q" and "set ps \<subseteq> es" and "0 < po_retryBackoffMs (re_policy env)"
  shows "remembers es now s s' \<and> keyed_offers s' \<and> (\<forall>(p, j) \<in> set made. p \<in> set ps \<and> j = i)"
  using assms(1,2,4)
proof (induction ps arbitrary: n s made)
  case Nil
  then show ?case by (simp add: remembers_refl)
next
  case (Cons p ps)
  show ?case
  proof (cases "re_outcome env p i")
    case (Answered sent)
    define t where "t = (if sent then s\<lparr>rs_pendingOffers := jm_set (createOfferKey p i)
           \<lparr>pe_peerId = p, pe_mediaObjectId = i, pe_expiresAt = now + po_offerTimeoutMs (re_policy env)\<rparr> (rs_pendingOffers s)\<rparr>
         else s\<lparr>rs_failedOffers := Suc (rs_failedOffers s),
           rs_retryAfter := jm_set (createOfferKey p i) (now + po_retryBackoffMs (re_policy env)) (rs_retryAfter s)\<rparr>)"
    obtain made' where made: "make_offers env now i ps (n - 1) t = (made', n', err, s')" "made = (p, i) # made'"
      using Cons.prems Answered by (auto simp: Let_def t_def split: prod.splits)
    have t: "remembers es now s t \<and> keyed_offers t"
    proof (cases sent)
      case True
      then show ?thesis using sent_remembers [OF Cons.prems(2) assms(3) _ t_def [simplified True if_True]] Cons.prems(3) by simp
    next
      case False
      then show ?thesis
        using refused_remembers [OF _ Cons.prems(2) t_def [simplified False if_False], of now es] assms(5) by simp
    qed
    have "remembers es now t s' \<and> keyed_offers s' \<and> (\<forall>(p, j) \<in> set made'. p \<in> set ps \<and> j = i)"
      using Cons.IH [OF made(1)] t Cons.prems(3) by simp
    then show ?thesis using t made(2) remembers_trans by fastforce
  next
    case (Threw msg)
    then show ?thesis using Cons.prems by (auto simp: remembers_refl)
  qed
qed

text \<open>What the code promises of an offer, written out: the object is complete and genuine here and under-replicated,
  and the peer is eligible, another one, without the object and not asked for it, backed off or quarantined.\<close>

definition offer_fits :: "repair_env \<Rightarrow> int \<Rightarrow> repair_state \<Rightarrow> string \<Rightarrow> string \<Rightarrow> media_object \<Rightarrow> bool" where
  "offer_fits env now s p i m \<longleftrightarrow> mo_id m = i \<and> int (length (replicas_of env m now)) < po_minReplicas (re_policy env)
     \<and> p \<in> set (re_eligiblePeers env) \<and> p \<noteq> re_localPeerId env \<and> p \<notin> set (replicas_of env m now)
     \<and> p \<notin> set (pending_peers i s) \<and> \<not> isBackedOff p i now s
     \<and> (\<forall>c \<in> set (mo_chunks m). \<not> isReplicaQuarantined p i c now (re_repo env))"

lemma offer_fits_may: "offer_fits env now s p i m \<longleftrightarrow> mo_id m = i
    \<and> int (length (replicas_of env m now)) < po_minReplicas (re_policy env)
    \<and> p \<in> set (re_eligiblePeers env) \<and> may_offer env now m s p"
  by (auto simp: offer_fits_def may_offer_def list_ex_iff)

lemma may_offer_before: "remembers ps now s0 s \<Longrightarrow> p \<in> ps \<Longrightarrow> may_offer env now m s p \<Longrightarrow> may_offer env now m s0 p"
  unfolding remembers_def may_offer_def by blast

lemma candidates_may:
  "p \<in> set (offer_candidates env now m n s) \<Longrightarrow> p \<in> set (re_eligiblePeers env) \<and> may_offer env now m s p"
  unfolding offer_candidates_def by (auto dest: in_set_takeD)

lemma repair_objects_sound:
  assumes "repair_objects env now ms n s = (made, err, s')" and "keyed_offers s"
    and "\<forall>q \<in> set (re_eligiblePeers env). CHR '':'' \<notin> set q" and "0 < po_retryBackoffMs (re_policy env)" and "0 \<le> n"
    and "remembers (set (re_eligiblePeers env)) now s0 s"
  shows "int (length made) \<le> n \<and> (\<forall>(p, i) \<in> set made. \<exists>m \<in> set ms. offer_fits env now s0 p i m)"
  using assms(1,2,5,6)
proof (induction ms arbitrary: n s made)
  case (Cons m ms)
  let ?s1 = "s\<lparr>rs_underReplicatedObjects := Suc (rs_underReplicatedObjects s)\<rparr>" and ?E = "set (re_eligiblePeers env)"
  have s1: "keyed_offers ?s1" "remembers ?E now s0 ?s1" "may_offer env now m ?s1 p \<longleftrightarrow> may_offer env now m s p" for p
    using Cons.prems(2,4) by (simp_all add: keyed_offers_def remembers_def may_offer_def isBackedOff_def)
  obtain mo n' e s2 where o: "make_offers env now (mo_id m) (offer_candidates env now m n ?s1) n ?s1 = (mo, n', e, s2)"
    by (metis prod_cases4)
  have sub: "set (offer_candidates env now m n ?s1) \<subseteq> ?E" using candidates_may by blast
  note os = make_offers_sound [OF o s1(1) assms(3) sub assms(4)]
  have budget: "length mo \<le> nat n" "e = None \<longrightarrow> n' = n - int (length mo)"
    using make_offers_budget [OF o] Cons.prems(3) by (auto simp: offer_candidates_def min_def split: if_splits)
  have fits: "\<exists>m' \<in> set (m # ms). offer_fits env now s0 p i m'" if "(p, i) \<in> set mo" "\<not> int (length (replicas_of env m now)) \<ge> po_minReplicas (re_policy env)" for p i
  proof -
    have p: "p \<in> set (offer_candidates env now m n ?s1)" "i = mo_id m" using os that(1) by auto
    have "may_offer env now m s0 p" using may_offer_before [OF s1(2)] candidates_may [OF p(1)] by blast
    then show ?thesis using candidates_may [OF p(1)] p(2) that(2) by (auto simp: offer_fits_may)
  qed
  consider (skip) t where "repair_objects env now ms n t = (made, err, s')" "t = s \<or> t = ?s1"
    | (stop) "\<not> int (length (replicas_of env m now)) \<ge> po_minReplicas (re_policy env)" "made = mo"
    | (go) made' where "\<not> int (length (replicas_of env m now)) \<ge> po_minReplicas (re_policy env)" "e = None"
        "repair_objects env now ms n' s2 = (made', err, s')" "made = mo @ made'"
    using Cons.prems(1) o by (auto simp: Let_def split: if_splits option.splits prod.splits)
  then show ?case
  proof cases
    case skip
    then have "keyed_offers t" "remembers ?E now s0 t" using s1 Cons.prems(2,4) by auto
    then show ?thesis using Cons.IH [OF skip(1)] Cons.prems(3) by auto
  next
    case stop
    then show ?thesis using budget(1) Cons.prems(3) fits by auto
  next
    case go
    have n': "0 \<le> n'" "n' = n - int (length mo)" using budget go(2) Cons.prems(3) by auto
    have "remembers ?E now s0 s2" using os s1(2) remembers_trans by blast
    then have "int (length made') \<le> n' \<and> (\<forall>(p, i) \<in> set made'. \<exists>m \<in> set ms. offer_fits env now s0 p i m)"
      using Cons.IH [OF go(3)] os n'(1) by blast
    then show ?thesis using go(1,4) n'(2) fits by auto
  qed
qed simp

section \<open>The promises\<close>

lemma normal_policy:
  "1 \<le> po_minReplicas (normalizePolicy p) \<and> po_minReplicas (normalizePolicy p) \<le> po_desiredReplicas (normalizePolicy p)
    \<and> 1 \<le> po_maxOffersPerRun (normalizePolicy p) \<and> 1 \<le> po_offerTimeoutMs (normalizePolicy p)
    \<and> 1 \<le> po_retryBackoffMs (normalizePolicy p)"
  by (simp add: normalizePolicy_def Let_def)

text \<open>Whatever happens in whatever order, the peers that have been offered an object and have not answered yet
  are never more than the replicas that are desired.\<close>

theorem pending_offers_bounded:
  assumes "list_all (op_policy (normalizePolicy p)) xs"
  shows "int (length (pending_peers i (foldl repair_step new_repair xs))) \<le> po_desiredReplicas (normalizePolicy p)"
  using run_within [OF assms] normal_policy [of p] by simp

text \<open>C39: No offer is left waiting for ever: while the service is started and an offer is pending or a peer is
  backed off, the timer of the next run is set, whatever has happened in whatever order.\<close>

theorem outstanding_offers_watched:
  assumes "rs_started (foldl repair_step new_repair xs)"
    and "rs_pendingOffers (foldl repair_step new_repair xs) \<noteq> [] \<or> rs_retryAfter (foldl repair_step new_repair xs) \<noteq> []"
  shows "rs_timer (foldl repair_step new_repair xs) \<noteq> None"
proof -
  have "watched new_repair" by (simp add: watched_def new_repair_def)
  then have "watched (foldl repair_step new_repair xs)" by (rule repair_machine.inv_run)
  then show ?thesis using assms unfolding watched_def by blast
qed

lemma expired_keyed: "keyed_offers s \<Longrightarrow> keyed_offers (expirePendingOffers po now s)"
  by (auto simp: keyed_offers_def expirePendingOffers_def Let_def)

text \<open>C38: A run makes at most the offers of its policy, and each of them is for an object that is complete and
  genuine here and has fewer replicas than the minimum, to an eligible other peer that does not hold it, has
  no offer of it pending, is not backed off and has none of its chunks in quarantine.\<close>

theorem repair_offers_sound:
  assumes "performRepair env now s = (made, s')" and "keyed_offers s" and "re_policy env = normalizePolicy p"
    and "\<forall>q \<in> set (re_eligiblePeers env). CHR '':'' \<notin> set q"
  shows "int (length made) \<le> po_maxOffersPerRun (re_policy env)
    \<and> (\<forall>(q, i) \<in> set made. \<exists>m \<in> set (listLocalAvailableMedia env).
         offer_fits env now (expirePendingOffers (re_policy env) now s) q i m)"
proof -
  let ?first = "expirePendingOffers (re_policy env) now s"
  let ?s = "?first\<lparr>rs_lastError := None, rs_queuedObjects := length (listLocalAvailableMedia env), rs_underReplicatedObjects := 0\<rparr>"
  obtain err s3 where o: "repair_objects env now (listLocalAvailableMedia env) (po_maxOffersPerRun (re_policy env)) ?s = (made, err, s3)"
    using assms(1) by (auto simp: performRepair_def Let_def split: prod.splits option.splits)
  have "keyed_offers ?s" using expired_keyed [OF assms(2), of "re_policy env" now] by (simp add: keyed_offers_def)
  moreover have "remembers (set (re_eligiblePeers env)) now ?first ?s"
    by (simp add: remembers_def pending_peers_def isBackedOff_def)
  ultimately show ?thesis
    using repair_objects_sound [OF o, where ?s0.0 = ?first] assms(4) normal_policy [of p] assms(3) by auto
qed

text \<open>One replica can be counted twice: when two pages of the announcement that completes it arrive before the
  object has been read, both find the offer pending, and both confirm it.\<close>

theorem replica_confirmed_twice:
  assumes "rs_started s" and "q \<noteq> re_localPeerId env" and "e \<in> set (jm_values (rs_pendingOffers s))"
    and "pe_peerId e = q" and "pe_mediaObjectId e = i" and "get_object i (re_tables env) = Some m"
    and "q \<in> set (findCompleteReplicaPeers (re_localeCompare env) i (mo_chunks m) now (re_repo env))"
  shows "\<exists>s1 s2. handleAvailabilityAnnouncement env q s = (fst (handleAvailabilityAnnouncement env q s), s1)
    \<and> handleAvailabilityAnnouncement env q s1 = (fst (handleAvailabilityAnnouncement env q s1), s2)
    \<and> (q, i) \<in> set (fst (handleAvailabilityAnnouncement env q s)) \<and> (q, i) \<in> set (fst (handleAvailabilityAnnouncement env q s1))
    \<and> rs_confirmedRepairs (confirm_end env q i now t (confirm_end env q i now t s2)) = rs_confirmedRepairs s + 2"
proof -
  have "(q, i) \<in> set (fst (handleAvailabilityAnnouncement env q s))"
    using assms(1-5) by (force simp: handleAvailabilityAnnouncement_def)
  moreover have "(q, i) \<in> set (fst (handleAvailabilityAnnouncement env q (scheduleRepair 0 s)))"
    using assms(1-5) by (force simp: handleAvailabilityAnnouncement_def scheduleRepair_def)
  moreover have "snd (handleAvailabilityAnnouncement env q s) = scheduleRepair 0 s"
    using assms(1,2) by (simp add: handleAvailabilityAnnouncement_def)
  moreover have "rs_confirmedRepairs (confirm_end env q i now t s') = Suc (rs_confirmedRepairs s')" for s'
    using assms(6,7) by (simp add: confirm_end_def scheduleRepair_def)
  moreover have "rs_confirmedRepairs (snd (handleAvailabilityAnnouncement env q s')) = rs_confirmedRepairs s'" for s'
    by (simp add: handleAvailabilityAnnouncement_def scheduleRepair_def)
  ultimately show ?thesis
    by (intro exI [of _ "scheduleRepair 0 s"] exI [of _ "snd (handleAvailabilityAnnouncement env q (scheduleRepair 0 s))"])
      (auto simp: prod_eq_iff scheduleRepair_def)
qed

section \<open>Where chunks are asked for\<close>

lemma sources_comparator:
  assumes "comparator lc"
  shows "comparator (compareMediaSources lc)"
proof -
  let ?rank = "\<lambda>x. if ks_advertised x then 0 else 1 :: int"
  have "compareMediaSources lc = (\<lambda>l r. js_or (?rank l - ?rank r)
      (js_or ((ks_successes r - ks_failures r) - (ks_successes l - ks_failures l))
        (js_or (ks_failures l - ks_failures r) (js_or (ks_latencyMs l - ks_latencyMs r)
          (js_or (ks_updatedAt r - ks_updatedAt l) (lc (ks_peerId l) (ks_peerId r)))))))"
    by (intro ext) (simp add: compareMediaSources_def js_or_def)
  then show ?thesis
    by (auto intro!: comparator_or comparator_diff comparator_pullback [OF assms]
        comparator_converse [OF comparator_diff [of "\<lambda>x. ks_successes x - ks_failures x"]]
        comparator_converse [OF comparator_diff [of ks_updatedAt]])
qed


section \<open>Instances\<close>

definition sample_policy :: partial_policy where
  "sample_policy = \<lparr>pp_minReplicas = None, pp_desiredReplicas = None, pp_maxOffersPerRun = None,
     pp_offerTimeoutMs = None, pp_retryBackoffMs = None\<rparr>"

definition sample_repair :: repair_env where
  "sample_repair = \<lparr>re_localPeerId = ''alice'', re_policy = normalizePolicy sample_policy, re_localeCompare = (\<lambda>a b. 0),
     re_eligiblePeers = [''bob''], re_outcome = (\<lambda>p i. Answered True), re_tables = \<lparr>mt_objects = [], mt_chunks = []\<rparr>,
     re_repo = empty_repo empty_db\<rparr>"

theorem pending_offers_bounded_witness:
  "int (length (pending_peers ''m'' (foldl repair_step new_repair [Repair_start, Repair_timer sample_repair 5]))) \<le> 3"
  using pending_offers_bounded [of sample_policy "[Repair_start, Repair_timer sample_repair 5]" "''m''"]
  by (simp add: sample_repair_def sample_policy_def normalizePolicy_def default_policy_def or_else_def Let_def del: foldl_Cons)

text \<open>A device that holds one object of its own, and one eligible peer.\<close>

definition sample_device :: repair_env where
  "sample_device = sample_repair\<lparr>re_tables := sample_upload\<rparr>"

lemma sample_device_media: "\<exists>m. listLocalAvailableMedia sample_device = [m]"
proof -
  obtain m :: media_object where up: "uploadMedia 2 ''alice'' ''image'' ''image/png'' [1, 2, 3] 7 \<lparr>mt_objects = [], mt_chunks = []\<rparr>
      = (Inr m, sample_upload)" and read: "fst (getLocalMediaBytes (mo_id m) sample_upload) = Inr [1, 2, 3]"
    using uploaded_file [of "\<lparr>mt_objects = [], mt_chunks = []\<rparr>" 2 "[1, 2, 3]" "''alice''" "''image''" "''image/png''" 7]
    by (auto simp: chunk_keyed_def sample_upload_def)
  have get: "get_object (mo_id m) sample_upload = Some m" using uploaded_object [OF up] by blast
  then have "mr_available (inspectMedia m (chunks_of (mo_id m) sample_upload))"
    using read by (auto simp: getLocalMediaBytes_def Let_def split: bool.splits option.splits)
  moreover have "mt_objects sample_upload = [(mo_id m, m)]"
    using uploaded_rows [OF up] by (simp add: insert_or_replace_def)
  ultimately show ?thesis
    by (simp add: listLocalAvailableMedia_def all_objects_def sample_device_def sample_repair_def)
qed

lemma sample_offer:
  assumes "listLocalAvailableMedia sample_device = [m]"
  shows "performRepair sample_device 5 (new_repair\<lparr>rs_started := True\<rparr>)
    = ([(''bob'', mo_id m)], new_repair\<lparr>rs_started := True, rs_timer := Some 60000, rs_pendingOffers :=
        [(createOfferKey ''bob'' (mo_id m), \<lparr>pe_peerId = ''bob'', pe_mediaObjectId = mo_id m, pe_expiresAt = 60005\<rparr>)],
        rs_underReplicatedObjects := 1, rs_lastRepairAt := Some 5\<rparr>)"
  unfolding performRepair_def assms
  by (simp add: Let_def new_repair_def expirePendingOffers_def sample_device_def sample_repair_def sample_policy_def normalizePolicy_def
      default_policy_def or_else_def replicas_of_def findCompleteReplicaPeers_def empty_repo_def js_uniq_def required_offers_def
      pending_peers_def offer_candidates_def may_offer_def isBackedOff_def isReplicaQuarantined_def list_ex_iff
      scheduleNextExpiry_def scheduleRepair_def)

lemma sample_started: "snd (repair_timer sample_device 5 (repair_step new_repair Repair_start))
    = snd (performRepair sample_device 5 (new_repair\<lparr>rs_started := True\<rparr>))"
  by (simp add: repair_start_def scheduleRepair_def repair_timer_def runRepair_def new_repair_def)

theorem outstanding_offers_watched_witness:
  "rs_timer (foldl repair_step new_repair [Repair_start, Repair_timer sample_device 5]) \<noteq> None"
proof -
  obtain m where "listLocalAvailableMedia sample_device = [m]" using sample_device_media by blast
  then have "rs_started (foldl repair_step new_repair [Repair_start, Repair_timer sample_device 5])"
      "rs_pendingOffers (foldl repair_step new_repair [Repair_start, Repair_timer sample_device 5]) \<noteq> []"
    using sample_offer sample_started by simp_all
  then show ?thesis by (intro outstanding_offers_watched) simp_all
qed

theorem repair_offers_sound_witness:
  "\<exists>m s'. performRepair sample_device 5 (new_repair\<lparr>rs_started := True\<rparr>) = ([(''bob'', mo_id m)], s')
    \<and> m \<in> set (listLocalAvailableMedia sample_device) \<and> may_offer sample_device 5 m (new_repair\<lparr>rs_started := True\<rparr>) ''bob''"
proof -
  obtain m where m: "listLocalAvailableMedia sample_device = [m]" using sample_device_media by blast
  from sample_offer [OF m] obtain s' where run:
    "performRepair sample_device 5 (new_repair\<lparr>rs_started := True\<rparr>) = ([(''bob'', mo_id m)], s')" by blast
  have "keyed_offers (new_repair\<lparr>rs_started := True\<rparr>)" by (simp add: keyed_offers_def new_repair_def)
  moreover have "re_policy sample_device = normalizePolicy sample_policy"
    and "\<forall>q \<in> set (re_eligiblePeers sample_device). CHR '':'' \<notin> set q"
    by (simp_all add: sample_device_def sample_repair_def)
  moreover have "expirePendingOffers (re_policy sample_device) 5 (new_repair\<lparr>rs_started := True\<rparr>) = new_repair\<lparr>rs_started := True\<rparr>"
    by (simp add: expirePendingOffers_def Let_def new_repair_def)
  ultimately have "offer_fits sample_device 5 (new_repair\<lparr>rs_started := True\<rparr>) ''bob'' (mo_id m) m"
    using repair_offers_sound [OF run, of sample_policy] m by simp
  then show ?thesis using run m by (auto simp: offer_fits_may)
qed

definition waiting :: repair_state where
  "waiting = new_repair\<lparr>rs_started := True, rs_pendingOffers := [(''bob:m'', \<lparr>pe_peerId = ''bob'', pe_mediaObjectId = ''m'', pe_expiresAt = 9\<rparr>)]\<rparr>"

definition replicated :: repair_env where
  "replicated = sample_repair\<lparr>re_tables := \<lparr>mt_objects = [(''m'', \<lparr>mo_id = ''m'', mo_author = ''alice'', mo_type = ''image'',
       mo_mime = ''image/png'', mo_size = Fin 1, mo_hash = [], mo_chunks = [''c''], mo_createdAt = 0, mo_updatedAt = 0\<rparr>)], mt_chunks = []\<rparr>,
     re_repo := (empty_repo empty_db)\<lparr>mp_announcements := [(''a'', \<lparr>an_peerId = ''bob'', an_sequence = 1, an_issuedAt = 0,
       an_expiresAt = 10, an_pageIndex = 0, an_pageCount = 1, an_items = [\<lparr>ma_mediaObjectId = ''m'', ma_chunks = [''c''],
       ma_totalChunks = 1, ma_updatedAt = 0\<rparr>], an_signature = ''s''\<rparr>)]\<rparr>\<rparr>"

theorem replica_confirmed_twice_witness:
  "\<exists>s2. rs_confirmedRepairs (confirm_end replicated ''bob'' ''m'' 5 5 (confirm_end replicated ''bob'' ''m'' 5 5 s2)) = 2
    \<and> s2 = snd (handleAvailabilityAnnouncement replicated ''bob'' (snd (handleAvailabilityAnnouncement replicated ''bob'' waiting)))"
proof -
  let ?e = "\<lparr>pe_peerId = ''bob'', pe_mediaObjectId = ''m'', pe_expiresAt = 9\<rparr>"
  have w: "rs_started waiting" "?e \<in> set (jm_values (rs_pendingOffers waiting))" "rs_confirmedRepairs waiting = 0"
    by (simp_all add: waiting_def new_repair_def)
  have bob: "''bob'' \<noteq> re_localPeerId replicated" "pe_peerId ?e = ''bob''" "pe_mediaObjectId ?e = ''m''"
    by (simp_all add: replicated_def sample_repair_def)
  have get: "get_object ''m'' (re_tables replicated) = Some \<lparr>mo_id = ''m'', mo_author = ''alice'', mo_type = ''image'',
       mo_mime = ''image/png'', mo_size = Fin 1, mo_hash = [], mo_chunks = [''c''], mo_createdAt = 0, mo_updatedAt = 0\<rparr>" (is "_ = Some ?m")
    by (simp add: get_object_def replicated_def)
  have found: "''bob'' \<in> set (findCompleteReplicaPeers (re_localeCompare replicated) ''m'' (mo_chunks ?m) 5 (re_repo replicated))"
    by (simp add: findCompleteReplicaPeers_def replicated_def sample_repair_def empty_repo_def holds_all_def complete_pages_def
        latest_sequence_def js_uniq_def set_add_def)
  from replica_confirmed_twice [OF w(1) bob(1) w(2) bob(2,3) get found, of 5] obtain s1 s2 where
    s: "handleAvailabilityAnnouncement replicated ''bob'' waiting = (fst (handleAvailabilityAnnouncement replicated ''bob'' waiting), s1)"
      "handleAvailabilityAnnouncement replicated ''bob'' s1 = (fst (handleAvailabilityAnnouncement replicated ''bob'' s1), s2)"
      "rs_confirmedRepairs (confirm_end replicated ''bob'' ''m'' 5 5 (confirm_end replicated ''bob'' ''m'' 5 5 s2))
        = rs_confirmedRepairs waiting + 2" by blast
  have "s2 = snd (handleAvailabilityAnnouncement replicated ''bob'' (snd (handleAvailabilityAnnouncement replicated ''bob'' waiting)))"
    using s(1,2) by (metis snd_conv)
  then show ?thesis using s(3) w(3) by simp
qed


end

