(* ===== verification/Spec2Isabelle.thy ===== *)
theory Spec2Isabelle
  imports HashKat Outbox_Claims Wallet_Claims Scheduler_Claims NetMessage_Claims Conflict_Claims
    PeerSession_Claims Sync_Claims SyncMerge_Claims Consensus_Claims Rewards_Claims PeerTrust_Claims
    MediaIntegrity_Claims MediaAnnounce_Claims MediaCleanup_Claims MediaRepair_Claims
begin

text \<open>
  Synpeer is a social network without a server: every device keeps its own records, connects to the
  devices of its trusted peers over WebRTC, and the devices bring each other up to date. This
  development models the parts of the program that decide something; screens, SQL, sockets and
  cryptography are its boundary. All paths below are relative to \<open>src/src/\<close>.

  The parts, and the theories that model them. A theory \<open>X\<close> has the data and the operations, in the
  order of the code; the theory \<open>X_Claims\<close> has the properties and their concrete instances.

  \<^item> \<open>Prelude\<close>: lists, options, JavaScript maps in insertion order (\<open>jsmap\<close>, locale \<open>key_store\<close>),
    runs of operations (locale \<open>machine\<close>: an invariant of every step is one of every run).
  \<^item> \<open>Hash\<close>, \<open>HashKat\<close> (\<open>utils/hash.ts\<close>): UTF-8 and SHA-256 on machine words, with the padding
    refined to the one of the standard and a known answer.
  \<^item> \<open>Canonical\<close>, \<open>Transaction\<close> (\<open>economy/Wallet/Transaction{Model,StateMachine,ReplayProtector,Signer}.ts\<close>):
    canonical JSON, which is injective, transactions, their life cycle, signers and the replay protector.
  \<^item> \<open>Wallet\<close> (\<open>economy/Wallet/WalletService.ts\<close>): the balance is the starting balance plus what the
    transactions move.
  \<^item> \<open>Ledger\<close>, \<open>Rewards\<close> (\<open>economy/\<close>): ledger, reward formulas, pools, emission limits, abuse scores and
    the interface that composes them; the sums agree and the limits hold over every run.
  \<^item> \<open>Outbox\<close> with \<open>Outbox_Proofs\<close> (\<open>services/social/SocialReplicationQueueRepository.ts\<close>): what is to be
    sent to which peer, with leases, retries and receipts, and what has arrived; a step function over
    all operations, an invariant of the rows, and the states a delivered row cannot leave.
  \<^item> \<open>Conflict\<close> (\<open>services/social/SocialConflictResolver.ts\<close>, \<open>SocialCanonical.ts\<close>): which of two versions
    of a record a replica keeps, and that replicas which exchange all versions agree.
  \<^item> \<open>Sync\<close> (\<open>services/sync/IncrementalSyncService.ts\<close> and its checkpoints): manifests in pages, cursors,
    missing items, batches and how they are applied.
  \<^item> \<open>SyncProtocol\<close> (\<open>services/sync/PeerIncrementalSyncProtocol.ts\<close>): the messages around them, both sides
    of the exchange and the loops of the requester. \<open>SyncMerge\<close> joins two devices and refines a first
    synchronisation to the merge of the two tables.
  \<^item> \<open>NetMessage\<close> (\<open>network/NetworkMessage.ts\<close>): the envelope of messages, its validation and the memory
    of identifiers that refuses replays.
  \<^item> \<open>PeerSession\<close> (\<open>network/PeerSessionCoordinator.ts\<close> and its policies): who offers and who answers,
    crossing offers, the timers of negotiations and reconnections.
  \<^item> \<open>Uri\<close>, \<open>TrustedPeers\<close>, \<open>PeerTrust\<close>, \<open>Invite\<close> (\<open>services/peers/\<close>): the peers a device knows, sessions,
    signed identities, the two handshakes and invites; trust comes from signatures only, a blocked peer
    stays blocked, two honest devices verify each other.
  \<^item> \<open>Scheduler\<close> (\<open>services/media/MediaTransferScheduler.ts\<close>): bounded queues of frames for each peer.
  \<^item> \<open>MediaIntegrity\<close> (\<open>services/media/Media{Integrity,}Service.ts\<close> and the tables of chunks and objects): the
    manifest of a file, what makes a chunk valid, taking in a file and reading it back. \<open>Slices\<close>: cutting
    lists into pieces.
  \<^item> \<open>MediaAvailability\<close>, \<open>MediaAnnounce\<close> (\<open>services/media/MediaAvailability{,Service}.ts\<close>): signed announcements
    of chunks in pages, what is believed; \<open>MediaRepository\<close> (\<open>MediaDownloadRepository.ts\<close>): downloads,
    announcements, observations, quarantines and access in memory and in their tables, refined to each other
    over every run; \<open>MediaReplica_Claims\<close>: who holds an object completely. \<open>TextBounds\<close>: sizes of JSON texts.
  \<^item> \<open>MediaCleanup\<close> (\<open>MediaCacheCleanupService.ts\<close>): what is kept and what is deleted to free storage.
  \<^item> \<open>MediaRepair\<close> (\<open>MediaRepairService.ts\<close>, \<open>MediaSourceSelector.ts\<close>): offering objects with too few replicas to
    other peers, and the order in which peers are asked for a chunk.
  \<^item> \<open>StringHash\<close>, \<open>Votes\<close>, \<open>Witness\<close>, \<open>Consensus\<close> (\<open>consensus/\<close>): votes with their two indices, quorums,
    evidence, witnesses, verification of peers; rounds, the engine that holds them, its snapshots, and
    the messages by which peers propose, vote and announce results.

  How they interact. A local change is put into the outbox once for each peer; the session
  coordinator keeps a connection, over which envelopes carry the payloads; the receiver claims the
  delivery in its inbox, resolves it against its own record, applies it and returns a receipt that
  closes the row of the sender. Incremental synchronisation repairs what deliveries missed: it
  compares manifests page by page and applies missing records through the same resolver. Media travels
  beside the records: a device announces the chunks it holds, the announcements tell where to ask for a
  chunk and how many replicas there are, which decides what is offered to others and what may be deleted. Consensus
  and the economy are beside this: proposals and votes are envelopes, and approved contributions are
  what the rewards are computed from.

  Conventions. State is passed explicitly: an operation takes the state and returns the new one, with
  the value or error the code returns or throws (\<open>None\<close>, \<open>Inl\<close>, or a constructor named after the
  reason). Every branch of the code is a branch of the definition. A table of the database is a list of
  rows in insertion order or a map by id, with the meaning of the SQL statement written out; the store
  does not fail. The clock is an argument, read once for each operation except where two readings
  matter (\<open>createEvidence\<close>). Asynchronous operations are steps; a property over a run holds for
  every order of the steps.

  Idealisations. Strings are lists of characters of one byte, except in \<open>Hash\<close>, where UTF-8 is modelled
  on code points; where a result depends on text outside that range it is not claimed. Counts and times
  are integers and amounts are integers or rationals, without rounding, infinities or \<open>NaN\<close>; the two
  places where this hides a flaw are listed as findings of the manifest. Hashes and words are kept at
  their width. \<open>localeCompare\<close>, signatures, random identifiers, and the service that applies a record are
  parameters, with hypotheses where a property needs one (an order that is total, a verifier that
  accepts what the signer made).

  Recursion is structural or by a measure, so functions are total, except \<open>pull_batches\<close>, whose loop a
  peer can keep busy, and \<open>scan_batches\<close>, which reads a table in batches: they are a \<open>partial_function\<close>
  into \<open>option\<close>, and when they return is proved. The only
  bound is the one of the code: \<open>MAX_SYNC_PAGES\<close>, 100 pages of an entity. Loops of the program over
  timers and queues are runs of a step function, of any length.

  Properties. Each claim names what the code guarantees, over every run where the code keeps
  state. Those of kind \<open>error\<close> show a behaviour that the surrounding code or a comment contradicts;
  they are proved for all states that satisfy their hypotheses, and a concrete state is given.

  Not modelled. The user interface; the database adapters and the SQL text of repositories; the start
  and stop order of services in \<open>runtime/\<close>; WebRTC peer connections, data channels and relay sockets;
  key storage and the cryptographic primitives; logging, metrics and listeners. These hold no decisions
  of their own or are platform code. Not yet modelled, although they decide something: the
  protocol by which chunks are requested and sent (\<open>PeerMediaSyncService.ts\<close>), and the social application
  service that orchestrates outbox, resolver and repositories. Within the media theories: a statement of the
  database succeeds, a text column holds what \<open>JSON.parse\<close> makes of it, extra fields of an announcement
  are dropped, and a cleanup or a repair run is one step.
\<close>

end
